(* ===== verification/Prelude.thy ===== *)
theory Prelude
  imports "HOL-Library.Word" "HOL-Library.List_Lexorder"
begin

text \<open>
  The vocabulary shared by every component.

  \<^item> JavaScript text is a list of UTF-16 code units (\<open>jstr\<close>), the representation on which
    \<open>length\<close>, \<open>slice\<close>, \<open>charCodeAt\<close> and the \<open><\<close> operator of the source act. An ASCII literal
    of the source is written \<open>js ''...''\<close>. Bytes (\<open>Uint8Array\<close>) are lists of 8-bit words.
  \<^item> A computation of the source that reads or changes shared state, or that may throw, is an
    action \<open>'s \<Rightarrow> (exn + 'a) \<times> 's\<close>: it yields an exception or a value and the state it leaves
    behind. State changes made before a throw stay, as they do in the source.
  \<^item> \<open>keeps I m\<close> says that the action \<open>m\<close> never leaves the set of states \<open>I\<close>, whether it returns
    or throws; \<open>triple\<close> is the Hoare triple with a postcondition for each of the two outcomes.
\<close>

section \<open>Text and bytes\<close>

type_synonym code_unit = "16 word"
type_synonym jstr = "code_unit list"
type_synonym byte = "8 word"
type_synonym bytes = "byte list"

definition js :: "string \<Rightarrow> jstr" where
  "js s = map of_char s"

lemma of_char_16_inject: "(of_char c :: 16 word) = of_char d \<longleftrightarrow> c = d"
proof
  assume eq: "(of_char c :: 16 word) = of_char d"
  have small: "of_char e < (2 ^ LENGTH(16) :: nat)" for e :: char
    by (rule less_le_trans [OF nat_of_char_less_256]) simp
  have "(of_nat (of_char c) :: 16 word) = of_nat (of_char d)"
    using eq by (simp only: of_nat_of_char)
  then have "unat (of_nat (of_char c) :: 16 word) = unat (of_nat (of_char d) :: 16 word)"
    by simp
  then have "(of_char c :: nat) = of_char d"
    using small [of c] small [of d] by (simp add: unat_of_nat take_bit_nat_eq_self)
  then show "c = d" by simp
qed simp

lemma js_eq_iff [simp]: "js s = js t \<longleftrightarrow> s = t"
  unfolding js_def by (rule inj_map_eq_map) (simp add: inj_def of_char_16_inject)

lemma length_js [simp]: "length (js s) = length s"
  by (simp add: js_def)

lemma js_Nil [simp]: "js [] = []"
  by (simp add: js_def)

lemma js_eq_Nil [simp]: "js s = [] \<longleftrightarrow> s = []" "[] = js s \<longleftrightarrow> s = []"
  by (auto simp: js_def)

lemma take_js [simp]: "take n (js s) = js (take n s)"
  by (simp add: js_def take_map)

lemma js_Cons_unit: "js (c # s) = of_char c # js s"
  by (simp add: js_def)

lemma js_append: "js (s @ t) = js s @ js t"
  by (simp add: js_def)

section \<open>Collections of facts\<close>

named_theorems act_simps \<open>evaluation of actions on a state\<close>
named_theorems keeps_intros \<open>actions that keep an invariant\<close>
named_theorems triple_intros \<open>rules for triples\<close>
named_theorems throws_intros \<open>which exceptions an action can throw\<close>

section \<open>Exceptions and actions\<close>

text \<open>
  \<open>AppError\<close> is the source's exception class with its HTTP status, message and code; every other
  value a runtime call can throw is a \<open>JsError\<close> with a name and a message.
\<close>

datatype exn =
    AppError (err_status: nat) (err_message: jstr) (err_code: jstr)
  | JsError (err_name: jstr) (err_text: jstr)

definition app_error :: "nat \<Rightarrow> string \<Rightarrow> string \<Rightarrow> exn" where
  "app_error status message code = AppError status (js message) (js code)"

lemma app_error_sel [simp]:
  "err_status (app_error s m c) = s" "err_message (app_error s m c) = js m"
  "err_code (app_error s m c) = js c"
  by (simp_all add: app_error_def)

lemma app_error_eq_iff [simp]:
  "app_error s m c = app_error s' m' c' \<longleftrightarrow> s = s' \<and> m = m' \<and> c = c'"
  by (simp add: app_error_def)

type_synonym ('s, 'a) act = "'s \<Rightarrow> (exn + 'a) \<times> 's"

definition returnE :: "'a \<Rightarrow> ('s, 'a) act" where
  "returnE x = (\<lambda>s. (Inr x, s))"

definition throwE :: "exn \<Rightarrow> ('s, 'a) act" where
  "throwE e = (\<lambda>s. (Inl e, s))"

definition bindE :: "('s, 'a) act \<Rightarrow> ('a \<Rightarrow> ('s, 'b) act) \<Rightarrow> ('s, 'b) act" where
  "bindE m f = (\<lambda>s. case m s of (r, s') \<Rightarrow> (case r of Inl e \<Rightarrow> (Inl e, s') | Inr x \<Rightarrow> f x s'))"

definition catchE :: "('s, 'a) act \<Rightarrow> (exn \<Rightarrow> ('s, 'a) act) \<Rightarrow> ('s, 'a) act" where
  "catchE m h = (\<lambda>s. case m s of (r, s') \<Rightarrow> (case r of Inl e \<Rightarrow> h e s' | Inr x \<Rightarrow> (Inr x, s')))"

definition finallyE :: "('s, 'a) act \<Rightarrow> ('s, unit) act \<Rightarrow> ('s, 'a) act" where
  "finallyE m f = (\<lambda>s. case m s of (r, s') \<Rightarrow>
     (case f s' of (q, s'') \<Rightarrow> (case q of Inl e \<Rightarrow> Inl e | Inr _ \<Rightarrow> r, s'')))"

text \<open>\<open>attemptE m\<close> runs \<open>m\<close> and yields its outcome as a value; \<open>ignoreE m\<close> discards it.\<close>

definition attemptE :: "('s, 'a) act \<Rightarrow> ('s, exn + 'a) act" where
  "attemptE m = (\<lambda>s. case m s of (r, s') \<Rightarrow> (Inr r, s'))"

definition ignoreE :: "('s, 'a) act \<Rightarrow> ('s, unit) act" where
  "ignoreE m = (\<lambda>s. case m s of (r, s') \<Rightarrow> (Inr (), s'))"

text \<open>\<open>throw_if c e\<close> is the source's \<open>if (c) throw e;\<close>.\<close>

definition throw_if :: "bool \<Rightarrow> exn \<Rightarrow> ('s, unit) act" where
  "throw_if c e = (if c then throwE e else returnE ())"

definition liftE :: "exn + 'a \<Rightarrow> ('s, 'a) act" where
  "liftE r = (\<lambda>s. (r, s))"

primrec forE :: "'a list \<Rightarrow> ('a \<Rightarrow> ('s, unit) act) \<Rightarrow> ('s, unit) act" where
  "forE [] f = returnE ()"
| "forE (x # xs) f = bindE (f x) (\<lambda>_. forE xs f)"

primrec foldE :: "('b \<Rightarrow> 'a \<Rightarrow> ('s, 'b) act) \<Rightarrow> 'b \<Rightarrow> 'a list \<Rightarrow> ('s, 'b) act" where
  "foldE f b [] = returnE b"
| "foldE f b (x # xs) = bindE (f b x) (\<lambda>b'. foldE f b' xs)"

primrec mapE :: "('a \<Rightarrow> ('s, 'b) act) \<Rightarrow> 'a list \<Rightarrow> ('s, 'b list) act" where
  "mapE f [] = returnE []"
| "mapE f (x # xs) = bindE (f x) (\<lambda>y. bindE (mapE f xs) (\<lambda>ys. returnE (y # ys)))"

lemma returnE_app [act_simps]: "returnE x s = (Inr x, s)"
  by (simp add: returnE_def)

lemma throwE_app [act_simps]: "throwE e s = (Inl e, s)"
  by (simp add: throwE_def)

lemma liftE_app [act_simps]: "liftE r s = (r, s)"
  by (simp add: liftE_def)

lemma bindE_app [act_simps]:
  "bindE m f s = (case m s of (r, s') \<Rightarrow> (case r of Inl e \<Rightarrow> (Inl e, s') | Inr x \<Rightarrow> f x s'))"
  by (simp add: bindE_def)

lemma catchE_app [act_simps]:
  "catchE m h s = (case m s of (r, s') \<Rightarrow> (case r of Inl e \<Rightarrow> h e s' | Inr x \<Rightarrow> (Inr x, s')))"
  by (simp add: catchE_def)

lemma finallyE_app [act_simps]:
  "finallyE m f s = (case m s of (r, s') \<Rightarrow>
     (case f s' of (q, s'') \<Rightarrow> (case q of Inl e \<Rightarrow> Inl e | Inr _ \<Rightarrow> r, s'')))"
  by (simp add: finallyE_def)

lemma attemptE_app [act_simps]:
  "attemptE m s = (case m s of (r, s') \<Rightarrow> (Inr r, s'))" "ignoreE m s = (case m s of (r, s') \<Rightarrow> (Inr (), s'))"
  by (simp_all add: attemptE_def ignoreE_def)

lemma throw_if_app [act_simps]:
  "throw_if c e s = (if c then Inl e else Inr (), s)"
  by (simp add: throw_if_def throwE_def returnE_def)

lemma bindE_Inr: "m s = (Inr x, s') \<Longrightarrow> bindE m f s = f x s'"
  by (simp add: bindE_def)

lemma bindE_Inl: "m s = (Inl e, s') \<Longrightarrow> bindE m f s = (Inl e, s')"
  by (simp add: bindE_def)

lemma bindE_return [simp]: "bindE m returnE = m"
  by (simp add: bindE_def returnE_def fun_eq_iff split: prod.split sum.split)

lemma return_bindE [simp]: "bindE (returnE x) f = f x"
  by (simp add: bindE_def returnE_def)

lemma throw_bindE [simp]: "bindE (throwE e) f = throwE e"
  by (simp add: bindE_def throwE_def)

lemma bindE_assoc: "bindE (bindE m f) g = bindE m (\<lambda>x. bindE (f x) g)"
  by (simp add: bindE_def fun_eq_iff split: prod.split sum.split)

lemma throw_if_cases [simp]:
  "throw_if True e = throwE e" "throw_if False e = returnE ()"
  by (simp_all add: throw_if_def)

text \<open>Runs that return a value: what each part of the action did.\<close>

lemma bindE_InrE:
  assumes "bindE m f s = (Inr y, t)"
  obtains x s' where "m s = (Inr x, s')" "f x s' = (Inr y, t)"
  using assms by (auto simp: bindE_def split: prod.splits sum.splits)

lemma bindE_cases:
  obtains e s' where "m s = (Inl e, s')" "bindE m f s = (Inl e, s')"
    | x s' where "m s = (Inr x, s')" "bindE m f s = f x s'"
  by (cases "m s"; cases "fst (m s)") (auto simp: bindE_def)

lemma returns_simps [simp]:
  "returnE x s = (Inr y, t) \<longleftrightarrow> y = x \<and> t = s"
  "returnE x s = (Inl e, t) \<longleftrightarrow> False"
  "throwE e s = (Inr y, t) \<longleftrightarrow> False"
  "throwE e s = (Inl e', t) \<longleftrightarrow> e' = e \<and> t = s"
  "throw_if c e s = (Inr u, t) \<longleftrightarrow> \<not> c \<and> t = s"
  "liftE r s = (Inr y, t) \<longleftrightarrow> r = Inr y \<and> t = s"
  by (auto simp: returnE_def throwE_def throw_if_def liftE_def)

section \<open>Invariants of actions\<close>

definition keeps :: "('s \<Rightarrow> bool) \<Rightarrow> ('s, 'a) act \<Rightarrow> bool" where
  "keeps I m \<longleftrightarrow> (\<forall>s. I s \<longrightarrow> I (snd (m s)))"

lemma keepsI: "(\<And>s. I s \<Longrightarrow> I (snd (m s))) \<Longrightarrow> keeps I m"
  by (simp add: keeps_def)

lemma keepsD: "keeps I m \<Longrightarrow> I s \<Longrightarrow> m s = (r, s') \<Longrightarrow> I s'"
  by (force simp: keeps_def)

lemma keeps_snd: "keeps I m \<Longrightarrow> I s \<Longrightarrow> I (snd (m s))"
  by (simp add: keeps_def)

lemma keeps_return [keeps_intros]: "keeps I (returnE x)"
  by (simp add: keeps_def returnE_def)

lemma keeps_throw [keeps_intros]: "keeps I (throwE e)"
  by (simp add: keeps_def throwE_def)

lemma keeps_lift [keeps_intros]: "keeps I (liftE r)"
  by (simp add: keeps_def liftE_def)

lemma keeps_throw_if [keeps_intros]: "keeps I (throw_if c e)"
  by (simp add: throw_if_def keeps_return keeps_throw)

lemma keeps_bind [keeps_intros]:
  assumes "keeps I m" "\<And>x. keeps I (f x)"
  shows "keeps I (bindE m f)"
proof (rule keepsI)
  fix s
  assume "I s"
  with assms(1) have "I (snd (m s))" by (rule keeps_snd)
  then show "I (snd (bindE m f s))"
    using assms(2) by (auto simp: bindE_def keeps_def split: prod.split sum.split)
qed

lemma keeps_catch [keeps_intros]:
  assumes "keeps I m" "\<And>e. keeps I (h e)"
  shows "keeps I (catchE m h)"
proof (rule keepsI)
  fix s
  assume "I s"
  with assms(1) have "I (snd (m s))" by (rule keeps_snd)
  then show "I (snd (catchE m h s))"
    using assms(2) by (auto simp: catchE_def keeps_def split: prod.split sum.split)
qed

lemma keeps_finally [keeps_intros]:
  assumes "keeps I m" "keeps I f"
  shows "keeps I (finallyE m f)"
  using assms by (fastforce simp: keeps_def finallyE_def split: prod.split)

lemma keeps_attempt [keeps_intros]: "keeps I m \<Longrightarrow> keeps I (attemptE m)" "keeps I m \<Longrightarrow> keeps I (ignoreE m)"
  by (fastforce simp: keeps_def attemptE_def ignoreE_def split: prod.split)+

lemma keeps_sum [keeps_intros]:
  "(\<And>e. z = Inl e \<Longrightarrow> keeps I (f e)) \<Longrightarrow> (\<And>x. z = Inr x \<Longrightarrow> keeps I (g x))
    \<Longrightarrow> keeps I (case z of Inl e \<Rightarrow> f e | Inr x \<Rightarrow> g x)"
  by (cases z) auto

lemma keeps_for [keeps_intros]:
  "(\<And>x. x \<in> set xs \<Longrightarrow> keeps I (f x)) \<Longrightarrow> keeps I (forE xs f)"
  by (induction xs) (auto intro!: keeps_intros)

lemma keeps_fold [keeps_intros]:
  "(\<And>b x. x \<in> set xs \<Longrightarrow> keeps I (f b x)) \<Longrightarrow> keeps I (foldE f b xs)"
  by (induction xs arbitrary: b) (auto intro!: keeps_intros)

lemma keeps_map [keeps_intros]:
  "(\<And>x. x \<in> set xs \<Longrightarrow> keeps I (f x)) \<Longrightarrow> keeps I (mapE f xs)"
  by (induction xs) (auto intro!: keeps_intros)

lemma keeps_if [keeps_intros]:
  "(c \<Longrightarrow> keeps I m) \<Longrightarrow> (\<not> c \<Longrightarrow> keeps I n) \<Longrightarrow> keeps I (if c then m else n)"
  by simp

lemma keeps_option [keeps_intros]:
  "(z = None \<Longrightarrow> keeps I m) \<Longrightarrow> (\<And>x. z = Some x \<Longrightarrow> keeps I (f x))
    \<Longrightarrow> keeps I (case z of None \<Rightarrow> m | Some x \<Rightarrow> f x)"
  by (cases z) auto

lemma keeps_prod [keeps_intros]:
  "(\<And>x y. z = (x, y) \<Longrightarrow> keeps I (f x y)) \<Longrightarrow> keeps I (case z of (x, y) \<Rightarrow> f x y)"
  by (cases z) auto

lemma keeps_Let [keeps_intros]: "(\<And>x. x = t \<Longrightarrow> keeps I (f x)) \<Longrightarrow> keeps I (Let t f)"
  by (simp add: Let_def)

text \<open>The rules for control flow alone, for predicates other than the schema's constraints.\<close>

lemmas keeps_flow = keeps_return keeps_throw keeps_lift keeps_throw_if keeps_bind keeps_catch keeps_finally keeps_for
  keeps_fold keeps_map keeps_if keeps_option keeps_prod keeps_Let keeps_attempt keeps_sum

section \<open>Exceptions of actions\<close>

definition throws_only :: "(exn \<Rightarrow> bool) \<Rightarrow> ('s, 'a) act \<Rightarrow> bool" where
  "throws_only P m \<longleftrightarrow> (\<forall>s e s'. m s = (Inl e, s') \<longrightarrow> P e)"

lemma throws_onlyD: "throws_only P m \<Longrightarrow> m s = (Inl e, s') \<Longrightarrow> P e"
  by (auto simp: throws_only_def)

lemma throws_return [throws_intros]: "throws_only P (returnE x)"
  by (simp add: throws_only_def)

lemma throws_throw [throws_intros]: "P e \<Longrightarrow> throws_only P (throwE e)"
  by (simp add: throws_only_def)

lemma throws_throw_if [throws_intros]: "P e \<Longrightarrow> throws_only P (throw_if c e)"
  by (simp add: throws_only_def throw_if_def)

lemma throws_bind [throws_intros]: "throws_only P m \<Longrightarrow> (\<And>x. throws_only P (f x)) \<Longrightarrow> throws_only P (bindE m f)"
  by (fastforce simp: throws_only_def bindE_def split: prod.splits sum.splits)

lemma throws_catch [throws_intros]: "(\<And>e. throws_only P (h e)) \<Longrightarrow> throws_only P (catchE m h)"
  by (fastforce simp: throws_only_def catchE_def split: prod.splits sum.splits)

lemma throws_attempt [throws_intros]: "throws_only P (attemptE m)" "throws_only P (ignoreE m)"
  by (auto simp: throws_only_def attemptE_def ignoreE_def split: prod.splits)

lemma throws_for [throws_intros]: "(\<And>x. throws_only P (f x)) \<Longrightarrow> throws_only P (forE xs f)"
  by (induction xs) (auto intro!: throws_intros)

lemma throws_if [throws_intros]: "(c \<Longrightarrow> throws_only P m) \<Longrightarrow> (\<not> c \<Longrightarrow> throws_only P n) \<Longrightarrow> throws_only P (if c then m else n)"
  by simp

lemma throws_option [throws_intros]:
  "throws_only P m \<Longrightarrow> (\<And>x. throws_only P (f x)) \<Longrightarrow> throws_only P (case z of None \<Rightarrow> m | Some x \<Rightarrow> f x)"
  by (cases z) auto

lemma bindE_thrown:
  assumes "bindE m f s = (Inl e, s')" "\<And>x. throws_only (\<lambda>e'. e' \<noteq> e) (f x)"
  shows "m s = (Inl e, s')"
  using assms by (fastforce simp: bindE_def throws_only_def split: prod.splits sum.splits)

section \<open>Triples\<close>

definition triple ::
  "('s \<Rightarrow> bool) \<Rightarrow> ('s, 'a) act \<Rightarrow> ('a \<Rightarrow> 's \<Rightarrow> bool) \<Rightarrow> (exn \<Rightarrow> 's \<Rightarrow> bool) \<Rightarrow> bool" where
  "triple P m Q R \<longleftrightarrow>
     (\<forall>s. P s \<longrightarrow> (case m s of (r, s') \<Rightarrow> (case r of Inl e \<Rightarrow> R e s' | Inr x \<Rightarrow> Q x s')))"

lemma tripleI:
  "(\<And>s. P s \<Longrightarrow> (case m s of (r, s') \<Rightarrow> (case r of Inl e \<Rightarrow> R e s' | Inr x \<Rightarrow> Q x s')))
    \<Longrightarrow> triple P m Q R"
  by (simp add: triple_def)

lemma triple_Inr: "triple P m Q R \<Longrightarrow> P s \<Longrightarrow> m s = (Inr x, s') \<Longrightarrow> Q x s'"
  by (force simp: triple_def)

lemma triple_Inl: "triple P m Q R \<Longrightarrow> P s \<Longrightarrow> m s = (Inl e, s') \<Longrightarrow> R e s'"
  by (force simp: triple_def)

lemma triple_return: "(\<And>s. P s \<Longrightarrow> Q x s) \<Longrightarrow> triple P (returnE x) Q R"
  by (simp add: triple_def returnE_def)

lemma triple_throw: "(\<And>s. P s \<Longrightarrow> R e s) \<Longrightarrow> triple P (throwE e) Q R"
  by (simp add: triple_def throwE_def)

lemma triple_throw_if:
  "(\<And>s. P s \<Longrightarrow> c \<Longrightarrow> R e s) \<Longrightarrow> (\<And>s. P s \<Longrightarrow> \<not> c \<Longrightarrow> Q () s) \<Longrightarrow> triple P (throw_if c e) Q R"
  by (simp add: triple_def throw_if_def returnE_def throwE_def)

lemma triple_bind:
  assumes "triple P m Q' R" "\<And>x. triple (Q' x) (f x) Q R"
  shows "triple P (bindE m f) Q R"
  using assms by (fastforce simp: triple_def bindE_def split: prod.splits sum.splits)

lemma triple_catch:
  assumes "triple P m Q R'" "\<And>e. triple (R' e) (h e) Q R"
  shows "triple P (catchE m h) Q R"
  using assms by (fastforce simp: triple_def catchE_def split: prod.splits sum.splits)

lemma triple_conseq:
  assumes "triple P' m Q' R'" "\<And>s. P s \<Longrightarrow> P' s" "\<And>x s. Q' x s \<Longrightarrow> Q x s" "\<And>e s. R' e s \<Longrightarrow> R e s"
  shows "triple P m Q R"
  using assms by (fastforce simp: triple_def split: prod.splits sum.splits)

lemma triple_for:
  assumes "\<And>x. x \<in> set xs \<Longrightarrow> triple I (f x) (\<lambda>_. I) R"
  shows "triple I (forE xs f) (\<lambda>_. I) R"
  using assms by (induction xs) (auto intro: triple_return triple_bind)

lemma triple_pure: "(c \<Longrightarrow> triple P m Q R) \<Longrightarrow> triple (\<lambda>s. P s \<and> c) m Q R"
  by (auto simp: triple_def)

lemma triple_fold:
  assumes "\<And>b x. x \<in> set xs \<Longrightarrow> triple (I b) (f b x) I R"
  shows "triple (I b) (foldE f b xs) I R"
  using assms by (induction xs arbitrary: b) (auto intro: triple_return triple_bind)

lemma triple_attempt: "triple P m Q R \<Longrightarrow> triple P (attemptE m) (\<lambda>z s. case z of Inl e \<Rightarrow> R e s | Inr x \<Rightarrow> Q x s) T"
  by (auto simp: triple_def attemptE_def split: prod.splits sum.splits)

lemma triple_keeps: "triple I m (\<lambda>_. I) (\<lambda>_. I) \<longleftrightarrow> keeps I m"
  by (simp add: triple_def keeps_def split_beta sum.case_eq_if)

section \<open>Lists\<close>

text \<open>
  \<open>[...new Set(xs)]\<close>: the first occurrence of each element, in order.
\<close>

fun dedup :: "'a list \<Rightarrow> 'a list" where
  "dedup [] = []"
| "dedup (x # xs) = x # filter (\<lambda>y. y \<noteq> x) (dedup xs)"

lemma set_dedup [simp]: "set (dedup xs) = set xs"
  by (induction xs) auto

lemma distinct_dedup [simp]: "distinct (dedup xs)"
  by (induction xs) auto

lemma length_dedup: "length (dedup xs) \<le> length xs"
  by (induction xs) (auto intro: le_trans [OF length_filter_le])

lemma dedup_distinct: "distinct xs \<Longrightarrow> dedup xs = xs"
  by (induction xs) (auto intro: filter_True)

lemma dedup_eq_Nil [simp]: "dedup xs = [] \<longleftrightarrow> xs = []"
  by (cases xs) auto

fun chunks :: "nat \<Rightarrow> 'a list \<Rightarrow> 'a list list" where
  "chunks n [] = []"
| "chunks n (x # xs) =
     (if n = 0 then [x # xs] else take n (x # xs) # chunks n (drop n (x # xs)))"

lemma concat_chunks [simp]: "concat (chunks n xs) = xs"
  by (induction n xs rule: chunks.induct) (auto simp: append_take_drop_id)

lemma chunks_bound: "0 < n \<Longrightarrow> ys \<in> set (chunks n xs) \<Longrightarrow> ys \<noteq> [] \<and> length ys \<le> n"
  by (induction n xs rule: chunks.induct) (auto split: if_splits)

lemma sorted_wrt_less_distinct:
  "sorted_wrt (\<lambda>x y. (f x :: 'b :: linorder) < f y) xs \<Longrightarrow> distinct xs"
  by (induction xs) auto

lemma find_Some_in: "find p xs = Some x \<Longrightarrow> x \<in> set xs \<and> p x"
  by (auto simp: find_Some_iff)

section \<open>Sorting by a comparison\<close>

text \<open>\<open>xs.sort((a, b) => ...)\<close>: a stable sort by a comparison.\<close>

fun insert_by :: "('a \<Rightarrow> 'a \<Rightarrow> bool) \<Rightarrow> 'a \<Rightarrow> 'a list \<Rightarrow> 'a list" where
  "insert_by precedes x [] = [x]"
| "insert_by precedes x (y # ys) = (if precedes y x then y # insert_by precedes x ys else x # y # ys)"

definition sort_by :: "('a \<Rightarrow> 'a \<Rightarrow> bool) \<Rightarrow> 'a list \<Rightarrow> 'a list" where
  "sort_by precedes xs = foldr (insert_by precedes) xs []"

lemma set_insert_by [simp]: "set (insert_by precedes x ys) = insert x (set ys)"
  by (induction ys) auto

lemma set_sort_by [simp]: "set (sort_by precedes xs) = set xs"
  by (induction xs) (simp_all add: sort_by_def)

lemma distinct_insert_by: "distinct (map f (insert_by precedes x ys)) \<longleftrightarrow> f x \<notin> f ` set ys \<and> distinct (map f ys)"
  by (induction ys) auto

lemma distinct_sort_by: "distinct (map f (sort_by precedes xs)) \<longleftrightarrow> distinct (map f xs)"
proof (induction xs)
  case (Cons x xs)
  have "sort_by precedes (x # xs) = insert_by precedes x (sort_by precedes xs)" by (simp add: sort_by_def)
  with Cons show ?case by (simp add: distinct_insert_by)
qed (simp add: sort_by_def)

text \<open>A comparison function as \<open>sort\<close> needs it: a strict weak order.\<close>

definition weak_order :: "('a \<Rightarrow> 'a \<Rightarrow> bool) \<Rightarrow> bool" where
  "weak_order precedes \<longleftrightarrow> (\<forall>x y. precedes x y \<longrightarrow> \<not> precedes y x) \<and> (\<forall>x y z. \<not> precedes y x \<longrightarrow> \<not> precedes z y \<longrightarrow> \<not> precedes z x)"

lemma sorted_insert_by:
  assumes "weak_order precedes" "sorted_wrt (\<lambda>x y. \<not> precedes y x) ys"
  shows "sorted_wrt (\<lambda>x y. \<not> precedes y x) (insert_by precedes x ys)"
  using assms(2)
proof (induction ys)
  case (Cons y ys)
  have trans: "\<not> precedes z x" if "\<not> precedes y x" "\<not> precedes z y" for z
    using assms(1) that unfolding weak_order_def by blast
  have asym: "\<not> precedes x y" if "precedes y x" using assms(1) that unfolding weak_order_def by blast
  show ?case
  proof (cases "precedes y x")
    case True
    then show ?thesis using Cons asym by simp
  next
    case False
    then have "\<forall>z \<in> set ys. \<not> precedes z x" using Cons.prems trans by simp
    with False Cons.prems show ?thesis by simp
  qed
qed simp

lemma sorted_sort_by: "weak_order precedes \<Longrightarrow> sorted_wrt (\<lambda>x y. \<not> precedes y x) (sort_by precedes xs)"
proof (induction xs)
  case (Cons x xs)
  have "sort_by precedes (x # xs) = insert_by precedes x (sort_by precedes xs)" by (simp add: sort_by_def)
  with Cons show ?case by (simp add: sorted_insert_by)
qed (simp add: sort_by_def)

end
