(* ===== verification/Js_Text.thy ===== *)
theory Js_Text
  imports Prelude
begin

text \<open>
  The operations of JavaScript strings that the program uses: whitespace and \<open>trim\<close>, ASCII
  classes and case, splitting and replacing by a character class, and the UTF-8 encoder and
  decoder of the platform (\<open>TextEncoder\<close>, and the strict decoder behind \<open>decodeURIComponent\<close>).
  The Unicode tables (case mapping and normalisation outside ASCII) are a parameter, the record
  \<open>unicode\<close>; on ASCII text the operations are computed.
\<close>

section \<open>Character classes\<close>

text \<open>The class \<open>\s\<close>, which is also what \<open>trim\<close> removes.\<close>

definition js_space :: "code_unit \<Rightarrow> bool" where
  "js_space c \<longleftrightarrow> (9 \<le> c \<and> c \<le> 13) \<or> c = 32 \<or> c = 160 \<or> c = 0x1680 \<or> (0x2000 \<le> c \<and> c \<le> 0x200A)
     \<or> c = 0x2028 \<or> c = 0x2029 \<or> c = 0x202F \<or> c = 0x205F \<or> c = 0x3000 \<or> c = 0xFEFF"

definition is_digit :: "code_unit \<Rightarrow> bool" where
  "is_digit c \<longleftrightarrow> 48 \<le> c \<and> c \<le> 57"

definition is_upper :: "code_unit \<Rightarrow> bool" where
  "is_upper c \<longleftrightarrow> 65 \<le> c \<and> c \<le> 90"

definition is_lower :: "code_unit \<Rightarrow> bool" where
  "is_lower c \<longleftrightarrow> 97 \<le> c \<and> c \<le> 122"

definition is_alnum :: "code_unit \<Rightarrow> bool" where
  "is_alnum c \<longleftrightarrow> is_digit c \<or> is_upper c \<or> is_lower c"

definition is_hex :: "code_unit \<Rightarrow> bool" where
  "is_hex c \<longleftrightarrow> is_digit c \<or> (97 \<le> c \<and> c \<le> 102) \<or> (65 \<le> c \<and> c \<le> 70)"

definition is_ascii :: "code_unit \<Rightarrow> bool" where
  "is_ascii c \<longleftrightarrow> c < 128"

definition high_surrogate :: "code_unit \<Rightarrow> bool" where
  "high_surrogate c \<longleftrightarrow> 0xD800 \<le> c \<and> c \<le> 0xDBFF"

definition low_surrogate :: "code_unit \<Rightarrow> bool" where
  "low_surrogate c \<longleftrightarrow> 0xDC00 \<le> c \<and> c \<le> 0xDFFF"

lemmas unit_class_defs = js_space_def is_digit_def is_upper_def is_lower_def is_alnum_def
  is_hex_def is_ascii_def high_surrogate_def low_surrogate_def

section \<open>Case, trimming, splitting and replacing\<close>

record unicode =
  lower_ext :: "jstr \<Rightarrow> jstr"
  nfc_ext :: "jstr \<Rightarrow> jstr"
  nfkc_ext :: "jstr \<Rightarrow> jstr"
  upper_ext :: "jstr \<Rightarrow> jstr"

definition ascii_text :: "jstr \<Rightarrow> bool" where
  "ascii_text s \<longleftrightarrow> list_all is_ascii s"

definition lower_unit :: "code_unit \<Rightarrow> code_unit" where
  "lower_unit c = (if is_upper c then c + 32 else c)"

definition upper_unit :: "code_unit \<Rightarrow> code_unit" where
  "upper_unit c = (if is_lower c then c - 32 else c)"

definition to_lower :: "unicode \<Rightarrow> jstr \<Rightarrow> jstr" where
  "to_lower U s = (if ascii_text s then map lower_unit s else lower_ext U s)"

definition to_upper :: "unicode \<Rightarrow> jstr \<Rightarrow> jstr" where
  "to_upper U s = (if ascii_text s then map upper_unit s else upper_ext U s)"

definition nfc :: "unicode \<Rightarrow> jstr \<Rightarrow> jstr" where
  "nfc U s = (if ascii_text s then s else nfc_ext U s)"

definition nfkc :: "unicode \<Rightarrow> jstr \<Rightarrow> jstr" where
  "nfkc U s = (if ascii_text s then s else nfkc_ext U s)"

definition trim_end :: "jstr \<Rightarrow> jstr" where
  "trim_end s = rev (dropWhile js_space (rev s))"

definition trim :: "jstr \<Rightarrow> jstr" where
  "trim s = trim_end (dropWhile js_space s)"

text \<open>\<open>s.split(/[class]+/)\<close>: a run of separators separates once, also at the ends.\<close>

function split_runs :: "(code_unit \<Rightarrow> bool) \<Rightarrow> jstr \<Rightarrow> jstr list" where
  "split_runs p s =
     (case dropWhile (\<lambda>c. \<not> p c) s of
        [] \<Rightarrow> [takeWhile (\<lambda>c. \<not> p c) s]
      | r # rs \<Rightarrow> takeWhile (\<lambda>c. \<not> p c) s # split_runs p (dropWhile p rs))"
  by pat_completeness auto
termination
proof (relation "measure (\<lambda>(p, s). length s)")
  fix p :: "code_unit \<Rightarrow> bool" and s r rs
  assume "dropWhile (\<lambda>c. \<not> p c) s = r # rs"
  then have "length (r # rs) \<le> length s" by (metis length_dropWhile_le)
  then show "((p, dropWhile p rs), p, s) \<in> measure (\<lambda>(p, s). length s)"
    using length_dropWhile_le [of p rs] by simp
qed simp

declare split_runs.simps [simp del]

text \<open>\<open>s.split("c")\<close> for a single character: empty pieces are kept.\<close>

fun split_at :: "code_unit \<Rightarrow> jstr \<Rightarrow> jstr list" where
  "split_at d [] = [[]]"
| "split_at d (c # cs) =
     (if c = d then [] # split_at d cs
      else (case split_at d cs of [] \<Rightarrow> [[c]] | p # ps \<Rightarrow> (c # p) # ps))"

text \<open>\<open>s.replace(/[class]+/g, t)\<close>.\<close>

function replace_runs :: "(code_unit \<Rightarrow> bool) \<Rightarrow> jstr \<Rightarrow> jstr \<Rightarrow> jstr" where
  "replace_runs p t [] = []"
| "replace_runs p t (c # cs) =
     (if p c then t @ replace_runs p t (dropWhile p cs) else c # replace_runs p t cs)"
  by pat_completeness auto
termination
  by (relation "measure (\<lambda>(p, t, s). length s)") (auto simp: le_imp_less_Suc length_dropWhile_le)

text \<open>\<open>s.replace(/c/g, t)\<close> for one character, and for a class of single characters.\<close>

definition replace_unit :: "(code_unit \<Rightarrow> bool) \<Rightarrow> jstr \<Rightarrow> jstr \<Rightarrow> jstr" where
  "replace_unit p t s = concat (map (\<lambda>c. if p c then t else [c]) s)"

fun starts_with :: "jstr \<Rightarrow> jstr \<Rightarrow> bool" where
  "starts_with [] s = True"
| "starts_with (p # ps) [] = False"
| "starts_with (p # ps) (c # cs) = (p = c \<and> starts_with ps cs)"

definition ends_with :: "jstr \<Rightarrow> jstr \<Rightarrow> bool" where
  "ends_with p s = starts_with (rev p) (rev s)"

fun contains_text :: "jstr \<Rightarrow> jstr \<Rightarrow> bool" where
  "contains_text p [] = (p = [])"
| "contains_text p (c # cs) = (starts_with p (c # cs) \<or> contains_text p cs)"

fun join_text :: "jstr \<Rightarrow> jstr list \<Rightarrow> jstr" where
  "join_text sep [] = []"
| "join_text sep [x] = x"
| "join_text sep (x # y # xs) = x @ sep @ join_text sep (y # xs)"

definition or_else :: "jstr \<Rightarrow> jstr \<Rightarrow> jstr" where
  "or_else s t = (if s = [] then t else s)"

subsection \<open>Facts about the primitives\<close>

lemma starts_with_iff: "starts_with p s \<longleftrightarrow> (\<exists>r. s = p @ r)"
  by (induction p s rule: starts_with.induct) auto

lemma ends_with_iff: "ends_with p s \<longleftrightarrow> (\<exists>r. s = r @ p)"
  unfolding ends_with_def starts_with_iff by (metis rev_append rev_rev_ident)

lemma contains_text_iff: "contains_text p s \<longleftrightarrow> (\<exists>a b. s = a @ p @ b)"
proof (induction s)
  case (Cons c cs)
  have "(\<exists>a b. c # cs = a @ p @ b) \<longleftrightarrow> (\<exists>b. c # cs = p @ b) \<or> (\<exists>a b. cs = a @ p @ b)"
    (is "?l \<longleftrightarrow> ?r")
  proof
    assume ?l
    then obtain a b where ab: "c # cs = a @ p @ b" by blast
    then show ?r by (cases a) auto
  next
    assume ?r
    then show ?l by (metis append_Cons append_Nil)
  qed
  then show ?case using Cons.IH by (simp add: starts_with_iff)
qed simp

lemma set_trim: "set (trim s) \<subseteq> set s"
  by (auto simp: trim_def trim_end_def dest!: set_dropWhileD)

lemma length_trim: "length (trim s) \<le> length s"
  unfolding trim_def trim_end_def
  by (metis length_dropWhile_le length_rev order_trans)

lemma trim_end_last: "trim_end s = [] \<or> \<not> js_space (last (trim_end s))"
proof (cases "dropWhile js_space (rev s)")
  case (Cons c cs)
  then have "\<not> js_space c" using hd_dropWhile [of js_space "rev s"] by simp
  then show ?thesis by (simp add: trim_end_def Cons last_rev)
qed (simp add: trim_end_def)

lemma dropWhile_hd: "dropWhile p s = c # cs \<Longrightarrow> \<not> p c"
  by (metis hd_dropWhile list.distinct(1) list.sel(1))

lemma trim_end_Cons: "\<not> js_space c \<Longrightarrow> \<exists>t. trim_end (c # cs) = c # t"
  by (auto simp: trim_end_def dropWhile_append) (metis rev_rev_ident)

lemma trim_hd: "trim s = [] \<or> \<not> js_space (hd (trim s))"
proof (cases "dropWhile js_space s")
  case (Cons c cs)
  then have "\<not> js_space c" by (rule dropWhile_hd)
  then obtain t where "trim_end (c # cs) = c # t" using trim_end_Cons by blast
  then show ?thesis using \<open>\<not> js_space c\<close> by (simp add: trim_def Cons)
next
  case Nil
  show ?thesis by (simp only: trim_def Nil) (simp add: trim_end_def)
qed

lemma trim_last: "trim s = [] \<or> \<not> js_space (last (trim s))"
  unfolding trim_def by (rule trim_end_last)

lemma dropWhile_id: "s = [] \<or> \<not> p (hd s) \<Longrightarrow> dropWhile p s = s"
  by (cases s) auto

lemma trim_id: "s = [] \<or> \<not> js_space (hd s) \<Longrightarrow> s = [] \<or> \<not> js_space (last s) \<Longrightarrow> trim s = s"
  by (cases "s = []") (auto simp: trim_def trim_end_def dropWhile_id hd_rev)

lemma trim_trim [simp]: "trim (trim s) = trim s"
  by (rule trim_id) (rule trim_hd, rule trim_last)

lemma set_replace_runs: "set (replace_runs p t s) \<subseteq> set t \<union> {c \<in> set s. \<not> p c}"
  by (induction p t s rule: replace_runs.induct) (auto dest: set_dropWhileD)

lemma set_replace_unit: "set (replace_unit p t s) \<subseteq> set t \<union> {c \<in> set s. \<not> p c}"
  by (auto simp: replace_unit_def split: if_splits)

lemma set_split_runs: "w \<in> set (split_runs p s) \<Longrightarrow> set w \<subseteq> {c \<in> set s. \<not> p c}"
proof (induction p s rule: split_runs.induct)
  case (1 p s)
  show ?case
  proof (cases "dropWhile (\<lambda>c. \<not> p c) s")
    case Nil
    with 1 have "w = takeWhile (\<lambda>c. \<not> p c) s" by (subst (asm) split_runs.simps) simp
    then show ?thesis by (auto dest: set_takeWhileD)
  next
    case (Cons r rs)
    with 1 have "w = takeWhile (\<lambda>c. \<not> p c) s \<or> set w \<subseteq> {c \<in> set (dropWhile p rs). \<not> p c}"
      by (subst (asm) (2) split_runs.simps) auto
    moreover have "set (dropWhile p rs) \<subseteq> set s"
      using Cons by (metis set_dropWhileD list.set_intros(2) subsetI)
    ultimately show ?thesis by (auto dest: set_takeWhileD)
  qed
qed

lemma lower_unit_idem [simp]: "lower_unit (lower_unit c) = lower_unit c"
  unfolding lower_unit_def is_upper_def by (auto simp: word_le_nat_alt unat_word_ariths)

section \<open>UTF-8\<close>

definition utf8_replacement :: bytes where
  "utf8_replacement = [0xEF, 0xBF, 0xBD]"

definition utf8_bmp :: "code_unit \<Rightarrow> bytes" where
  "utf8_bmp c =
     (let n = unat c in
      if n < 0x80 then [of_nat n]
      else if n < 0x800 then [of_nat (0xC0 + n div 64), of_nat (0x80 + n mod 64)]
      else [of_nat (0xE0 + n div 4096), of_nat (0x80 + n div 64 mod 64), of_nat (0x80 + n mod 64)])"

definition utf8_pair :: "code_unit \<Rightarrow> code_unit \<Rightarrow> bytes" where
  "utf8_pair h l =
     (let n = 0x10000 + (unat h - 0xD800) * 0x400 + (unat l - 0xDC00) in
      [of_nat (0xF0 + n div 262144), of_nat (0x80 + n div 4096 mod 64),
       of_nat (0x80 + n div 64 mod 64), of_nat (0x80 + n mod 64)])"

text \<open>\<open>TextEncoder.encode\<close>: an unpaired surrogate becomes U+FFFD.\<close>

fun utf8 :: "jstr \<Rightarrow> bytes" where
  "utf8 [] = []"
| "utf8 (c # cs) =
     (if high_surrogate c then
        (case cs of
           d # ds \<Rightarrow> if low_surrogate d then utf8_pair c d @ utf8 ds else utf8_replacement @ utf8 cs
         | [] \<Rightarrow> utf8_replacement)
      else if low_surrogate c then utf8_replacement @ utf8 cs
      else utf8_bmp c @ utf8 cs)"

definition byte_length :: "jstr \<Rightarrow> nat" where
  "byte_length s = length (utf8 s)"

text \<open>Text without unpaired surrogates.\<close>

fun well_formed :: "jstr \<Rightarrow> bool" where
  "well_formed [] = True"
| "well_formed (c # cs) =
     (if high_surrogate c then (case cs of d # ds \<Rightarrow> low_surrogate d \<and> well_formed ds | [] \<Rightarrow> False)
      else \<not> low_surrogate c \<and> well_formed cs)"

lemma surrogates_disjoint: "high_surrogate c \<Longrightarrow> \<not> low_surrogate c"
  unfolding high_surrogate_def low_surrogate_def by (auto simp: word_le_nat_alt)

lemma length_utf8_bmp: "1 \<le> length (utf8_bmp c)" "length (utf8_bmp c) \<le> 3"
  by (auto simp: utf8_bmp_def Let_def)

lemma length_utf8_pair [simp]: "length (utf8_pair c d) = 4"
  by (simp add: utf8_pair_def Let_def)

lemma length_utf8_replacement [simp]: "length utf8_replacement = 3"
  by (simp add: utf8_replacement_def)

lemma byte_length_Nil [simp]: "byte_length [] = 0"
  by (simp add: byte_length_def)

lemma byte_length_snoc_le: "byte_length s \<le> byte_length (s @ [c])"
  unfolding byte_length_def
proof (induction s rule: utf8.induct)
  case (2 c' cs)
  then show ?case
    by (cases cs) (auto simp: surrogates_disjoint)
qed simp

lemma byte_length_take_mono: "m \<le> n \<Longrightarrow> byte_length (take m s) \<le> byte_length (take n s)"
proof (induction n)
  case (Suc n)
  show ?case
  proof (cases "m = Suc n")
    case False
    with Suc have "byte_length (take m s) \<le> byte_length (take n s)" by simp
    also have "\<dots> \<le> byte_length (take (Suc n) s)"
    proof (cases "n < length s")
      case True
      then show ?thesis by (simp add: take_Suc_conv_app_nth byte_length_snoc_le)
    qed simp
    finally show ?thesis .
  qed simp
qed simp

text \<open>One step of the encoder: a surrogate pair, or a single code unit.\<close>

definition utf8_single :: "code_unit \<Rightarrow> bytes" where
  "utf8_single c = (if high_surrogate c \<or> low_surrogate c then utf8_replacement else utf8_bmp c)"

definition pair_ahead :: "code_unit \<Rightarrow> jstr \<Rightarrow> bool" where
  "pair_ahead c cs \<longleftrightarrow> high_surrogate c \<and> cs \<noteq> [] \<and> low_surrogate (hd cs)"

lemma utf8_pair_step: "high_surrogate c \<Longrightarrow> low_surrogate d \<Longrightarrow> utf8 (c # d # ds) = utf8_pair c d @ utf8 ds"
  by simp

lemma utf8_single_step: "\<not> pair_ahead c cs \<Longrightarrow> utf8 (c # cs) = utf8_single c @ utf8 cs"
  unfolding pair_ahead_def utf8_single_def by (cases cs) auto

lemma utf8_walk [case_names Nil pair single]:
  assumes "P []"
    and "\<And>c d ds. high_surrogate c \<Longrightarrow> low_surrogate d \<Longrightarrow> P ds \<Longrightarrow> P (c # d # ds)"
    and "\<And>c cs. \<not> pair_ahead c cs \<Longrightarrow> P cs \<Longrightarrow> P (c # cs)"
  shows "P s"
proof (induction s rule: length_induct)
  case (1 s)
  show ?case
  proof (cases s)
    case (Cons c cs)
    show ?thesis
    proof (cases "pair_ahead c cs")
      case True
      then obtain d ds where "cs = d # ds" "high_surrogate c" "low_surrogate d"
        by (cases cs) (auto simp: pair_ahead_def)
      with 1 Cons show ?thesis by (auto intro: assms(2))
    next
      case False
      with 1 Cons show ?thesis by (auto intro: assms(3))
    qed
  qed (simp add: assms(1))
qed

lemma length_utf8_single: "1 \<le> length (utf8_single c)" "length (utf8_single c) \<le> 3"
  using length_utf8_bmp [of c] by (auto simp: utf8_single_def)

lemma byte_length_le: "byte_length s \<le> 3 * length s"
  unfolding byte_length_def
proof (induction s rule: utf8_walk)
  case (single c cs)
  then show ?case using length_utf8_single(2) [of c] by (simp add: utf8_single_step del: utf8.simps)
qed (simp_all add: utf8_pair_step)

lemma length_le_byte_length: "length s \<le> byte_length s"
  unfolding byte_length_def
proof (induction s rule: utf8_walk)
  case (single c cs)
  then show ?case using length_utf8_single(1) [of c] by (simp add: utf8_single_step del: utf8.simps)
qed (simp_all add: utf8_pair_step)

end
