(* ===== verification/Js_Value.thy ===== *)
theory Js_Value
  imports Js_Text
begin

text \<open>
  The dynamically typed values that reach the program from request bodies, webhook payloads and
  configuration (TypeScript's \<open>unknown\<close>), the conversions of \<open>src/src/lib.ts\<close> that narrow them
  (\<open>asText\<close>, \<open>asInt\<close>), and its canonical serialisation (\<open>stableStringify\<close>), on which the
  payload hash of an idempotent send rests. A number is represented by its ECMAScript decimal
  text, an object by its properties in property order.
\<close>

datatype jsval =
    JUndef
  | JNull
  | JBool bool
  | JNum jstr
  | JStr jstr
  | JArr "jsval list"
  | JObj "(jstr \<times> jsval) list"

section \<open>Conversions\<close>

definition digit_text :: "nat \<Rightarrow> code_unit" where
  "digit_text d = 48 + of_nat d"

fun nat_text :: "nat \<Rightarrow> jstr" where
  "nat_text n = (if n < 10 then [digit_text n] else nat_text (n div 10) @ [digit_text (n mod 10)])"

declare nat_text.simps [simp del]

definition int_text :: "int \<Rightarrow> jstr" where
  "int_text i = (if i < 0 then js ''-'' @ nat_text (nat (- i)) else nat_text (nat i))"

text \<open>JavaScript's \<open>Boolean(v)\<close>.\<close>

fun truthy :: "jsval \<Rightarrow> bool" where
  "truthy JUndef = False"
| "truthy JNull = False"
| "truthy (JBool b) = b"
| "truthy (JNum t) = (t \<noteq> js ''0'' \<and> t \<noteq> js ''-0'' \<and> t \<noteq> js ''NaN'')"
| "truthy (JStr s) = (s \<noteq> [])"
| "truthy (JArr _) = True"
| "truthy (JObj _) = True"

text \<open>JavaScript's \<open>String(v)\<close>.\<close>

fun js_string :: "jsval \<Rightarrow> jstr" where
  "js_string JUndef = js ''undefined''"
| "js_string JNull = js ''null''"
| "js_string (JBool b) = (if b then js ''true'' else js ''false'')"
| "js_string (JNum t) = t"
| "js_string (JStr s) = s"
| "js_string (JArr xs) =
     join_text (js '','') (map (\<lambda>x. if x = JUndef \<or> x = JNull then [] else js_string x) xs)"
| "js_string (JObj _) = js ''[object Object]''"

text \<open>\<open>v.k\<close> of an object, \<open>undefined\<close> when absent; other values have no own properties.\<close>

fun js_get :: "jsval \<Rightarrow> jstr \<Rightarrow> jsval" where
  "js_get (JObj kvs) k = (case map_of kvs k of Some v \<Rightarrow> v | None \<Rightarrow> JUndef)"
| "js_get _ k = JUndef"

fun js_or :: "jsval \<Rightarrow> jsval \<Rightarrow> jsval" where
  "js_or a b = (if truthy a then a else b)"

definition opt_val :: "jstr option \<Rightarrow> jsval" where
  "opt_val z = (case z of None \<Rightarrow> JNull | Some s \<Rightarrow> JStr s)"

text \<open>An object literal.\<close>

definition obj :: "(string \<times> jsval) list \<Rightarrow> jsval" where
  "obj kvs = JObj (map (\<lambda>(k, v). (js k, v)) kvs)"

text \<open>\<open>Number.parseInt(s, 10)\<close>; \<open>None\<close> is \<open>NaN\<close>.\<close>

definition digits_value :: "jstr \<Rightarrow> nat" where
  "digits_value ds = foldl (\<lambda>n d. 10 * n + unat (d - 48)) 0 ds"

definition parse_int :: "jstr \<Rightarrow> int option" where
  "parse_int s =
     (let t = dropWhile js_space s;
          neg = (t \<noteq> [] \<and> hd t = 45);
          u = (if t \<noteq> [] \<and> (hd t = 45 \<or> hd t = 43) then tl t else t);
          ds = takeWhile is_digit u
      in if ds = [] then None
         else Some (if neg then - int (digits_value ds) else int (digits_value ds)))"

definition max_safe_integer :: int where
  "max_safe_integer = 9007199254740991"

definition asText :: "jsval \<Rightarrow> nat \<Rightarrow> jstr" where
  "asText v m = (case v of JStr s \<Rightarrow> take m s | _ \<Rightarrow> [])"

definition asInt :: "jsval \<Rightarrow> int \<Rightarrow> int \<Rightarrow> int \<Rightarrow> int" where
  "asInt v fallback lo hi =
     (case parse_int (if v = JUndef \<or> v = JNull then [] else js_string v) of
        Some n \<Rightarrow> if \<bar>n\<bar> \<le> max_safe_integer \<and> lo \<le> n \<and> n \<le> hi then n else fallback
      | None \<Rightarrow> fallback)"

lemma asText_simps [simp]:
  "asText (JStr s) m = take m s" "asText JUndef m = []" "asText JNull m = []"
  "asText (JBool b) m = []" "asText (JNum t) m = []" "asText (JArr xs) m = []"
  "asText (JObj kvs) m = []"
  by (simp_all add: asText_def)

lemma length_asText: "length (asText v m) \<le> m"
  by (simp add: asText_def split: jsval.split)

lemma asInt_bounds: "lo \<le> fallback \<Longrightarrow> fallback \<le> hi \<Longrightarrow> lo \<le> asInt v fallback lo hi \<and> asInt v fallback lo hi \<le> hi"
  by (auto simp: asInt_def Let_def split: option.split)

section \<open>Serialisation\<close>

definition hex_digit :: "nat \<Rightarrow> code_unit" where
  "hex_digit n = (if n < 10 then of_nat (48 + n) else of_nat (87 + n))"

definition unicode_escape :: "code_unit \<Rightarrow> jstr" where
  "unicode_escape c =
     (let n = unat c in
      js [CHR 0x5C, CHR ''u''] @
      [hex_digit (n div 4096), hex_digit (n div 256 mod 16), hex_digit (n div 16 mod 16), hex_digit (n mod 16)])"

definition json_unit :: "code_unit \<Rightarrow> jstr" where
  "json_unit c =
     (if c = 34 then [92, 34] else if c = 92 then [92, 92]
      else if c = 8 then [92, 98] else if c = 12 then [92, 102]
      else if c = 10 then [92, 110] else if c = 13 then [92, 114] else if c = 9 then [92, 116]
      else if c < 32 \<or> high_surrogate c \<or> low_surrogate c then unicode_escape c
      else [c])"

text \<open>The body of a JSON string: a surrogate pair is kept, an unpaired surrogate is escaped.\<close>

fun json_chars :: "jstr \<Rightarrow> jstr" where
  "json_chars [] = []"
| "json_chars [c] = json_unit c"
| "json_chars (c # d # ds) =
     (if high_surrogate c \<and> low_surrogate d then c # d # json_chars ds
      else json_unit c @ json_chars (d # ds))"

definition json_quote :: "jstr \<Rightarrow> jstr" where
  "json_quote s = [34] @ json_chars s @ [34]"

text \<open>\<open>JSON.stringify(v)\<close>; \<open>None\<close> is \<open>undefined\<close>.\<close>

fun json_stringify :: "jsval \<Rightarrow> jstr option" where
  "json_stringify JUndef = None"
| "json_stringify JNull = Some (js ''null'')"
| "json_stringify (JBool b) = Some (if b then js ''true'' else js ''false'')"
| "json_stringify (JNum t) =
     Some (if t = js ''NaN'' \<or> t = js ''Infinity'' \<or> t = js ''-Infinity'' then js ''null'' else t)"
| "json_stringify (JStr s) = Some (json_quote s)"
| "json_stringify (JArr xs) =
     Some (js ''['' @ join_text (js '','')
       (map (\<lambda>x. case json_stringify x of None \<Rightarrow> js ''null'' | Some t \<Rightarrow> t) xs) @ js '']'')"
| "json_stringify (JObj kvs) =
     Some (js ''{'' @ join_text (js '','')
       (concat (map (\<lambda>kv. case json_stringify (snd kv) of None \<Rightarrow> []
          | Some t \<Rightarrow> [json_quote (fst kv) @ js '':'' @ t]) kvs)) @ js ''}'')"

text \<open>
  \<open>stableStringify\<close> (\<open>lib.ts\<close>): arrays and objects are written out with the keys in code-unit
  order. The template literal turns an \<open>undefined\<close> property into the text \<open>undefined\<close>, and
  \<open>join\<close> turns an \<open>undefined\<close> array element into the empty text.
\<close>

fun stableStringify :: "jsval \<Rightarrow> jstr option" where
  "stableStringify (JArr xs) =
     Some (js ''['' @ join_text (js '','')
       (map (\<lambda>x. case stableStringify x of None \<Rightarrow> [] | Some t \<Rightarrow> t) xs) @ js '']'')"
| "stableStringify (JObj kvs) =
     Some (js ''{'' @ join_text (js '','')
       (map snd (sort_key fst (map (\<lambda>kv. (fst kv, json_quote (fst kv) @ js '':'' @
          (case stableStringify (snd kv) of None \<Rightarrow> js ''undefined'' | Some t \<Rightarrow> t))) kvs))) @ js ''}'')"
| "stableStringify v = json_stringify v"

end
