(* ===== verification/Base64.thy ===== *)
theory Base64
  imports Js_Value
begin

text \<open>
  The Base64 and Base64url codecs of \<open>src/src/lib.ts\<close> (\<open>bytesToBase64\<close>, \<open>base64ToBytes\<close>,
  \<open>base64Url\<close>, \<open>base64UrlToBytes\<close>) over the platform's \<open>btoa\<close> and \<open>atob\<close>. Attachments, password
  salts, session tokens, digests and pagination cursors all pass through them. The interface
  \<open>text_codec\<close> states what their callers rely on: decoding returns what was encoded, and the
  encoded text stays inside a known alphabet. Both codecs are instances.
\<close>

section \<open>The platform's \<open>btoa\<close> and \<open>atob\<close>\<close>

definition b64_alphabet :: jstr where
  "b64_alphabet = js ''ABCDEFGHIJKLMNOPQRSTUVWXYZabcdefghijklmnopqrstuvwxyz0123456789+/''"

definition b64_unit :: "nat \<Rightarrow> code_unit" where
  "b64_unit n = (if n < 26 then 65 + of_nat n else if n < 52 then 71 + of_nat n
     else if n < 62 then of_nat n - 4 else if n = 62 then 43 else 47)"

definition b64_value :: "code_unit \<Rightarrow> nat option" where
  "b64_value c = (if is_upper c then Some (unat c - 65) else if is_lower c then Some (unat c - 71)
     else if is_digit c then Some (unat c + 4) else if c = 43 then Some 62
     else if c = 47 then Some 63 else None)"

fun btoa :: "bytes \<Rightarrow> jstr" where
  "btoa [] = []"
| "btoa [a] = [b64_unit (unat a div 4), b64_unit (unat a mod 4 * 16), 61, 61]"
| "btoa [a, b] =
     [b64_unit (unat a div 4), b64_unit (unat a mod 4 * 16 + unat b div 16),
      b64_unit (unat b mod 16 * 4), 61]"
| "btoa (a # b # c # rest) =
     [b64_unit (unat a div 4), b64_unit (unat a mod 4 * 16 + unat b div 16),
      b64_unit (unat b mod 16 * 4 + unat c div 64), b64_unit (unat c mod 64)] @ btoa rest"

fun b64_values :: "jstr \<Rightarrow> nat list option" where
  "b64_values [] = Some []"
| "b64_values (c # cs) =
     (case b64_value c of None \<Rightarrow> None
      | Some n \<Rightarrow> (case b64_values cs of None \<Rightarrow> None | Some ns \<Rightarrow> Some (n # ns)))"

text \<open>Groups of six bits to bytes; the bits left over at the end are discarded.\<close>

fun b64_bytes :: "nat list \<Rightarrow> bytes" where
  "b64_bytes (i # j # k # l # rest) =
     [of_nat (i * 4 + j div 16), of_nat (j mod 16 * 16 + k div 4), of_nat (k mod 4 * 64 + l)]
     @ b64_bytes rest"
| "b64_bytes [i, j, k] = [of_nat (i * 4 + j div 16), of_nat (j mod 16 * 16 + k div 4)]"
| "b64_bytes [i, j] = [of_nat (i * 4 + j div 16)]"
| "b64_bytes _ = []"

definition strip_padding :: "jstr \<Rightarrow> jstr" where
  "strip_padding s =
     (if length s mod 4 = 0 \<and> s \<noteq> [] then
        (if last s = 61 then
           (if butlast s \<noteq> [] \<and> last (butlast s) = 61 then butlast (butlast s) else butlast s)
         else s)
      else s)"

text \<open>
  \<open>atob\<close> (the forgiving Base64 decoder): ASCII whitespace is dropped, up to two padding
  characters are removed when the length is a multiple of four, and a length of \<open>4k + 1\<close> or a
  character outside the alphabet throws, here \<open>None\<close>.
\<close>

definition atob_space :: "code_unit \<Rightarrow> bool" where
  "atob_space c \<longleftrightarrow> c = 9 \<or> c = 10 \<or> c = 12 \<or> c = 13 \<or> c = 32"

definition atob :: "jstr \<Rightarrow> bytes option" where
  "atob s =
     (let t = strip_padding (filter (\<lambda>c. \<not> atob_space c) s) in
      if length t mod 4 = 1 then None else map_option b64_bytes (b64_values t))"

section \<open>The program's codecs\<close>

definition bytesToBase64 :: "bytes \<Rightarrow> jstr" where
  "bytesToBase64 bs = btoa (concat (chunks 0x8000 bs))"

definition invalid_base64 :: exn where
  "invalid_base64 = app_error 400 ''An attachment is not valid Base64 data.'' ''invalid_attachment''"

definition base64ToBytes :: "jstr \<Rightarrow> exn + bytes" where
  "base64ToBytes v =
     (case atob (filter (\<lambda>c. \<not> js_space c) v) of None \<Rightarrow> Inl invalid_base64 | Some bs \<Rightarrow> Inr bs)"

definition base64Url :: "bytes \<Rightarrow> jstr" where
  "base64Url bs =
     (let s = replace_unit (\<lambda>c. c = 47) (js ''_'') (replace_unit (\<lambda>c. c = 43) (js ''-'') (bytesToBase64 bs))
      in rev (dropWhile (\<lambda>c. c = 61) (rev s)))"

definition base64UrlToBytes :: "jstr \<Rightarrow> exn + bytes" where
  "base64UrlToBytes v =
     (let standard = replace_unit (\<lambda>c. c = 95) (js ''/'') (replace_unit (\<lambda>c. c = 45) (js ''+'') v)
      in base64ToBytes (standard @ replicate ((4 - length standard mod 4) mod 4) 61))"

section \<open>The codec contract\<close>

locale text_codec =
  fixes enc :: "bytes \<Rightarrow> jstr" and dec :: "jstr \<Rightarrow> exn + bytes" and alphabet :: "code_unit set"
  assumes dec_enc: "dec (enc bs) = Inr bs"
    and enc_alphabet: "set (enc bs) \<subseteq> alphabet"
begin

lemma enc_inject: "enc a = enc b \<longleftrightarrow> a = b"
  by (metis dec_enc sum.inject(2))

lemma enc_decodes: "\<exists>b. dec (enc a) = Inr b \<and> enc b = enc a"
  by (simp add: dec_enc)

lemma enc_avoids: "c \<notin> alphabet \<Longrightarrow> c \<notin> set (enc bs)"
  using enc_alphabet by blast

end

section \<open>Round trips\<close>

lemma unat_byte: "unat (a :: byte) < 256"
  using unsigned_less [of a] by simp

lemma b64_value_unit: "n < 64 \<Longrightarrow> b64_value (b64_unit n) = Some n"
proof -
  have "list_all (\<lambda>n. b64_value (b64_unit n) = Some n) [0..<64]"
    by code_simp
  then show "n < 64 \<Longrightarrow> b64_value (b64_unit n) = Some n" by (simp add: list_all_iff)
qed

fun sextets :: "bytes \<Rightarrow> nat list" where
  "sextets [] = []"
| "sextets [a] = [unat a div 4, unat a mod 4 * 16]"
| "sextets [a, b] = [unat a div 4, unat a mod 4 * 16 + unat b div 16, unat b mod 16 * 4]"
| "sextets (a # b # c # rest) =
     [unat a div 4, unat a mod 4 * 16 + unat b div 16, unat b mod 16 * 4 + unat c div 64, unat c mod 64]
     @ sextets rest"

definition pad_count :: "bytes \<Rightarrow> nat" where
  "pad_count bs = (3 - length bs mod 3) mod 3"

lemma btoa_sextets: "btoa bs = map b64_unit (sextets bs) @ replicate (pad_count bs) 61"
  by (induction bs rule: btoa.induct) (simp_all add: pad_count_def numeral_2_eq_2)

lemma sextets_bound: "n \<in> set (sextets bs) \<Longrightarrow> n < 64"
proof (induction bs rule: sextets.induct)
  case (2 a)
  then show ?case using unat_byte [of a] by auto
next
  case (3 a b)
  then show ?case using unat_byte [of a] unat_byte [of b] by auto
next
  case (4 a b c rest)
  then show ?case using unat_byte [of a] unat_byte [of b] unat_byte [of c] by auto
qed simp

lemma b64_values_units: "(\<And>n. n \<in> set ns \<Longrightarrow> n < 64) \<Longrightarrow> b64_values (map b64_unit ns) = Some ns"
  by (induction ns) (auto simp: b64_value_unit)

lemma byte_split_1: "x div 4 * 4 + (x mod 4 * 16 + y) div 16 = x" if "y < 16" for x y :: nat
proof -
  have "(x mod 4 * 16 + y) div 16 = x mod 4"
    using that by (simp add: div_add1_eq)
  then show ?thesis by (simp only: div_mult_mod_eq)
qed

lemma byte_split_2: "(x * 16 + y div 16) mod 16 * 16 + (y mod 16 * 4 + z) div 4 = y"
  if "y < 256" "z < 4" for x y z :: nat
proof -
  have "(x * 16 + y div 16) mod 16 = y div 16"
    using that(1) by (simp add: less_mult_imp_div_less)
  moreover have "(y mod 16 * 4 + z) div 4 = y mod 16"
    using that(2) by (simp add: div_add1_eq)
  ultimately show ?thesis by (simp only: div_mult_mod_eq)
qed

lemma byte_split_3: "(y * 4 + z div 64) mod 4 * 64 + z mod 64 = z" if "z < 256" for y z :: nat
proof -
  have "(y * 4 + z div 64) mod 4 = z div 64"
    using that by (simp add: less_mult_imp_div_less)
  then show ?thesis by (simp only: div_mult_mod_eq)
qed

lemma b64_bytes_sextets: "b64_bytes (sextets bs) = bs"
proof (induction bs rule: sextets.induct)
  case (2 a)
  then show ?case using byte_split_1 [of 0 "unat a"] by simp
next
  case (3 a b)
  then show ?case
    using byte_split_1 [of "unat b div 16" "unat a"] byte_split_2 [of "unat b" 0 "unat a mod 4"]
      unat_byte [of b] by simp
next
  case (4 a b c rest)
  then show ?case
    using byte_split_1 [of "unat b div 16" "unat a"]
      byte_split_2 [of "unat b" "unat c div 64" "unat a mod 4"] byte_split_3 [of "unat c" "unat b mod 16"]
      unat_byte [of b] unat_byte [of c] by simp
qed simp

lemma length_sextets: "length (sextets bs) = (4 * length bs + 2) div 3"
  by (induction bs rule: sextets.induct) simp_all

lemma length_btoa: "length (btoa bs) = 4 * ((length bs + 2) div 3)"
proof (induction bs rule: btoa.induct)
  case (4 a b c rest)
  have "(length (a # b # c # rest) + 2) div 3 = Suc ((length rest + 2) div 3)"
    by (simp add: div_add_self2 [of 3 "length rest + 2", symmetric])
  with 4 show ?case by simp
qed simp_all

definition b64_chars :: "code_unit set" where
  "b64_chars = b64_unit ` {..<64}"

definition b64url_chars :: "code_unit set" where
  "b64url_chars = {c. is_alnum c \<or> c = 45 \<or> c = 95}"

lemma b64_unit_shape: "n < 64 \<Longrightarrow> is_alnum (b64_unit n) \<or> b64_unit n = 43 \<or> b64_unit n = 47"
proof -
  have "list_all (\<lambda>n. is_alnum (b64_unit n) \<or> b64_unit n = 43 \<or> b64_unit n = 47) [0..<64]"
    by code_simp
  then show "n < 64 \<Longrightarrow> is_alnum (b64_unit n) \<or> b64_unit n = 43 \<or> b64_unit n = 47"
    by (simp add: list_all_iff)
qed

lemma alnum_not_special:
  "is_alnum c \<Longrightarrow> c \<noteq> 61 \<and> c \<noteq> 43 \<and> c \<noteq> 47 \<and> c \<noteq> 45 \<and> c \<noteq> 95 \<and> \<not> js_space c \<and> \<not> atob_space c"
  unfolding unit_class_defs atob_space_def by (auto simp: word_le_nat_alt word_less_nat_alt)

lemma set_btoa: "set (btoa bs) \<subseteq> insert 61 (b64_unit ` {..<64})"
  unfolding btoa_sextets using sextets_bound by fastforce

lemma b64_unit_no_space: "n < 64 \<Longrightarrow> \<not> js_space (b64_unit n) \<and> \<not> atob_space (b64_unit n)"
proof -
  have "list_all (\<lambda>n. \<not> js_space (b64_unit n) \<and> \<not> atob_space (b64_unit n)) [0..<64]"
    by code_simp
  then show "n < 64 \<Longrightarrow> \<not> js_space (b64_unit n) \<and> \<not> atob_space (b64_unit n)"
    by (simp add: list_all_iff)
qed

lemma btoa_no_space: "c \<in> set (btoa bs) \<Longrightarrow> \<not> js_space c \<and> \<not> atob_space c"
proof -
  assume "c \<in> set (btoa bs)"
  then have "c = 61 \<or> (\<exists>n < 64. c = b64_unit n)" using set_btoa [of bs] by auto
  then show "\<not> js_space c \<and> \<not> atob_space c"
    using b64_unit_no_space by (auto simp: js_space_def atob_space_def)
qed

lemma b64_unit_not_pad: "n < 64 \<Longrightarrow> b64_unit n \<noteq> 61"
  using b64_unit_shape [of n] alnum_not_special by auto

lemma strip_padding_btoa: "strip_padding (btoa bs) = map b64_unit (sextets bs)"
proof -
  have len: "length (btoa bs) mod 4 = 0" by (simp add: length_btoa)
  have core: "map b64_unit (sextets bs) \<noteq> [] \<Longrightarrow> last (map b64_unit (sextets bs)) \<noteq> 61"
    using sextets_bound [of _ bs] b64_unit_not_pad by (simp add: last_map)
  have "pad_count bs < 3" by (simp add: pad_count_def)
  then consider "pad_count bs = 0" | "pad_count bs = 1" | "pad_count bs = 2" by linarith
  then show ?thesis
  proof cases
    case 1
    then show ?thesis using core len unfolding strip_padding_def by (auto simp: btoa_sextets)
  next
    case 2
    then have "btoa bs = map b64_unit (sextets bs) @ [61]" by (simp add: btoa_sextets)
    then show ?thesis using core len unfolding strip_padding_def by auto
  next
    case 3
    then have "btoa bs = map b64_unit (sextets bs) @ [61, 61]" by (simp add: btoa_sextets numeral_2_eq_2)
    then show ?thesis using len unfolding strip_padding_def by (auto simp: butlast_append)
  qed
qed

lemma atob_btoa: "atob (btoa bs) = Some bs"
proof -
  have "filter (\<lambda>c. \<not> atob_space c) (btoa bs) = btoa bs"
    using btoa_no_space by (auto intro: filter_True)
  moreover have "(4 * n + 2) div 3 mod 4 \<noteq> 1" for n :: nat by presburger
  moreover have "b64_values (map b64_unit (sextets bs)) = Some (sextets bs)"
    using sextets_bound by (rule b64_values_units)
  ultimately show ?thesis
    by (simp add: atob_def strip_padding_btoa length_sextets b64_bytes_sextets)
qed

lemma base64ToBytes_btoa: "base64ToBytes (btoa bs) = Inr bs"
proof -
  have "filter (\<lambda>c. \<not> js_space c) (btoa bs) = btoa bs"
    using btoa_no_space by (auto intro: filter_True)
  then show ?thesis by (simp add: base64ToBytes_def atob_btoa)
qed

interpretation std_codec: text_codec bytesToBase64 base64ToBytes "insert 61 (b64_unit ` {..<64})"
  by unfold_locales (simp_all add: bytesToBase64_def base64ToBytes_btoa set_btoa)

section \<open>Base64url\<close>

lemma replace_unit_single: "replace_unit p [d] s = map (\<lambda>c. if p c then d else c) s"
  by (induction s) (auto simp: replace_unit_def)

lemma js_units [simp]:
  "js ''-'' = [45]" "js ''_'' = [95]" "js ''+'' = [43]" "js ''/'' = [47]"
  by (simp_all add: js_def)

definition url_unit :: "code_unit \<Rightarrow> code_unit" where
  "url_unit c = (if c = 43 then 45 else if c = 47 then 95 else c)"

lemma drop_padding: "61 \<notin> set xs \<Longrightarrow> rev (dropWhile (\<lambda>c. c = 61) (rev (xs @ replicate k (61 :: code_unit)))) = xs"
proof -
  assume "61 \<notin> set xs"
  then have "dropWhile (\<lambda>c. c = 61) (rev xs) = rev xs" by (cases "rev xs") (auto dest: arg_cong [of _ _ set])
  moreover have "dropWhile (\<lambda>c. c = 61) (replicate k (61 :: code_unit) @ rev xs) = dropWhile (\<lambda>c. c = 61) (rev xs)"
    by (induction k) auto
  ultimately show ?thesis by simp
qed

lemma b64_unit_url_no_pad: "n < 64 \<Longrightarrow> url_unit (b64_unit n) \<noteq> 61 \<and> url_unit (b64_unit n) \<in> b64url_chars"
  using b64_unit_shape [of n] alnum_not_special by (auto simp: url_unit_def b64url_chars_def)

lemma base64Url_units: "base64Url bs = map (url_unit \<circ> b64_unit) (sextets bs)"
proof -
  have "61 \<notin> set (map (url_unit \<circ> b64_unit) (sextets bs))"
    using sextets_bound [of _ bs] b64_unit_url_no_pad by fastforce
  moreover have "replace_unit (\<lambda>c. c = 47) (js ''_'') (replace_unit (\<lambda>c. c = 43) (js ''-'') (btoa bs))
      = map (url_unit \<circ> b64_unit) (sextets bs) @ replicate (pad_count bs) 61"
    by (simp add: replace_unit_single btoa_sextets url_unit_def map_replicate_const comp_def)
  ultimately show ?thesis
    unfolding base64Url_def bytesToBase64_def concat_chunks Let_def by (simp only: drop_padding [OF \<open>61 \<notin> _\<close>])
qed

lemma url_unit_back: "n < 64 \<Longrightarrow> b64_unit n \<noteq> 95 \<and>
  (url_unit (b64_unit n) = 45 \<longrightarrow> b64_unit n = 43) \<and>
  (url_unit (b64_unit n) \<noteq> 45 \<longrightarrow>
    (url_unit (b64_unit n) = 95 \<longrightarrow> b64_unit n = 47) \<and>
    (url_unit (b64_unit n) \<noteq> 95 \<longrightarrow> url_unit (b64_unit n) = b64_unit n))"
  using b64_unit_shape [of n] alnum_not_special by (auto simp: url_unit_def)

lemma standard_units:
  "replace_unit (\<lambda>c. c = 95) (js ''/'') (replace_unit (\<lambda>c. c = 45) (js ''+'') (base64Url bs))
    = map b64_unit (sextets bs)"
proof -
  have "\<forall>n \<in> set (sextets bs). b64_unit n \<noteq> 95 \<and>
      (url_unit (b64_unit n) = 45 \<longrightarrow> b64_unit n = 43) \<and>
      (url_unit (b64_unit n) \<noteq> 45 \<longrightarrow>
        (url_unit (b64_unit n) = 95 \<longrightarrow> b64_unit n = 47) \<and>
        (url_unit (b64_unit n) \<noteq> 95 \<longrightarrow> url_unit (b64_unit n) = b64_unit n))"
    by (intro ballI url_unit_back sextets_bound)
  then show ?thesis by (simp add: replace_unit_single base64Url_units)
qed

lemma pad_count_standard: "(4 - (4 * n + 2) div 3 mod 4) mod 4 = (3 - n mod 3) mod 3" for n :: nat
proof -
  define q r where "q = n div 3" and "r = n mod 3"
  have n: "n = 3 * q + r" and "r < 3" by (simp_all add: q_def r_def)
  then have "(4 * n + 2) div 3 = 4 * q + (4 * r + 2) div 3" by simp
  moreover have "r = 0 \<or> r = 1 \<or> r = 2" using \<open>r < 3\<close> by linarith
  ultimately show ?thesis using n by auto
qed

lemma base64UrlToBytes_base64Url: "base64UrlToBytes (base64Url bs) = Inr bs"
proof -
  have "map b64_unit (sextets bs) @ replicate ((4 - length (map b64_unit (sextets bs)) mod 4) mod 4) 61 = btoa bs"
    using pad_count_standard [of "length bs"] by (simp add: btoa_sextets length_sextets pad_count_def)
  then show ?thesis
    unfolding base64UrlToBytes_def Let_def standard_units by (simp only: base64ToBytes_btoa)
qed

lemma set_base64Url: "set (base64Url bs) \<subseteq> b64url_chars"
  using sextets_bound [of _ bs] b64_unit_url_no_pad by (auto simp: base64Url_units)

interpretation url_codec: text_codec base64Url base64UrlToBytes b64url_chars
  by unfold_locales (simp_all add: base64UrlToBytes_base64Url set_base64Url)

lemma length_base64Url: "length (base64Url bs) = (4 * length bs + 2) div 3"
  by (simp add: base64Url_units length_sextets)

section \<open>Property\<close>

text \<open>
  Base64url loses nothing and is safe in URLs, cookies and JSON: every byte string is read
  back from its text, two byte strings with the same text are equal, and the text has only
  letters, digits, \<open>-\<close> and \<open>_\<close> and the length of the unpadded encoding. The standard codec, which
  carries attachments to the providers, reads back what it wrote as well.
\<close>

theorem base64Url_round_trip:
  "base64UrlToBytes (base64Url a) = Inr a
    \<and> (base64Url a = base64Url b) = (a = b)
    \<and> set (base64Url a) \<subseteq> {c. is_alnum c \<or> c = 45 \<or> c = 95}
    \<and> length (base64Url a) = (4 * length a + 2) div 3
    \<and> base64ToBytes (bytesToBase64 a) = Inr a"
  using url_codec.enc_alphabet [of a]
  by (simp add: url_codec.dec_enc url_codec.enc_inject std_codec.dec_enc length_base64Url b64url_chars_def)

end
