(* ===== verification/Regex.thy ===== *)
theory Regex
  imports Js_Text
begin

text \<open>
  The regular expressions of the program that need backtracking (greedy and lazy repetition,
  alternation, a back reference). \<open>re_match r s k\<close> lists, in the order in which the ECMAScript
  matcher tries them, the rests of \<open>s\<close> after a match of \<open>r\<close> at its start, each with the captured
  groups; the engine's match is the head of that list. An iteration of a repetition that matches
  the empty text is rejected, as in ECMAScript.

  For expressions without back references, \<open>re_match_lang\<close> shows that the matcher finds a match exactly
  when the textbook language of the expression has one, which is what turns a theorem about the
  matcher into one about text.
\<close>

section \<open>Expressions and the backtracking matcher\<close>

type_synonym captures = "(nat \<times> jstr) list"

datatype regex =
    Eps
  | Cls "code_unit \<Rightarrow> bool"
  | Cat regex regex
  | Alt regex regex
  | Star regex
  | LazyStar regex
  | Cap nat regex
  | Back nat

definition consumed :: "jstr \<Rightarrow> jstr \<Rightarrow> jstr" where
  "consumed s rest = take (length s - length rest) s"

text \<open>A back reference compares without regard to ASCII case (the \<open>i\<close> flag).\<close>

definition same_text_i :: "jstr \<Rightarrow> jstr \<Rightarrow> bool" where
  "same_text_i a b \<longleftrightarrow> map lower_unit a = map lower_unit b"

function re_match :: "regex \<Rightarrow> jstr \<Rightarrow> captures \<Rightarrow> (jstr \<times> captures) list" where
  "re_match Eps s k = [(s, k)]"
| "re_match (Cls p) s k = (case s of [] \<Rightarrow> [] | c # cs \<Rightarrow> if p c then [(cs, k)] else [])"
| "re_match (Cat a b) s k = concat (map (\<lambda>(s', k'). re_match b s' k') (re_match a s k))"
| "re_match (Alt a b) s k = re_match a s k @ re_match b s k"
| "re_match (Star a) s k =
     concat (map (\<lambda>(s', k'). if length s' < length s then re_match (Star a) s' k' else []) (re_match a s k))
     @ [(s, k)]"
| "re_match (LazyStar a) s k =
     (s, k) #
     concat (map (\<lambda>(s', k'). if length s' < length s then re_match (LazyStar a) s' k' else []) (re_match a s k))"
| "re_match (Cap n a) s k = map (\<lambda>(s', k'). (s', (n, consumed s s') # k')) (re_match a s k)"
| "re_match (Back n) s k =
     (case map_of k n of None \<Rightarrow> [(s, k)]
      | Some t \<Rightarrow> if length t \<le> length s \<and> same_text_i (take (length t) s) t
          then [(drop (length t) s, k)] else [])"
  by pat_completeness auto
termination
  by (relation "measures [\<lambda>(r, s, k). size r, \<lambda>(r, s, k). length s]") auto

declare re_match.simps(5,6) [simp del]

definition re_first :: "regex \<Rightarrow> jstr \<Rightarrow> (jstr \<times> jstr \<times> captures) option" where
  "re_first r s = (case re_match r s [] of [] \<Rightarrow> None | (rest, k) # _ \<Rightarrow> Some (consumed s rest, rest, k))"

text \<open>\<open>/^r$/.test(s)\<close>.\<close>

definition re_full :: "regex \<Rightarrow> jstr \<Rightarrow> bool" where
  "re_full r s = list_ex (\<lambda>(rest, k). rest = []) (re_match r s [])"

text \<open>\<open>/^r/.test(s)\<close>.\<close>

definition re_prefix :: "regex \<Rightarrow> jstr \<Rightarrow> bool" where
  "re_prefix r s = (re_match r s [] \<noteq> [])"

text \<open>\<open>s.match(/^r$/)\<close>: the groups of the first match that reaches the end.\<close>

definition re_groups :: "regex \<Rightarrow> jstr \<Rightarrow> captures option" where
  "re_groups r s = map_option snd (find (\<lambda>(rest, k). rest = []) (re_match r s []))"

lemma re_first_shorter: "re_first r s = Some (m, rest, k) \<Longrightarrow> m \<noteq> [] \<Longrightarrow> length rest < length s"
  by (auto simp: re_first_def consumed_def split: list.splits prod.splits)

text \<open>\<open>s.replace(/r/g, f)\<close>: leftmost matches, scanned from the end of the one before.\<close>

function re_replace :: "regex \<Rightarrow> (jstr \<Rightarrow> captures \<Rightarrow> jstr) \<Rightarrow> jstr \<Rightarrow> jstr" where
  "re_replace r f s =
     (case re_first r s of
        Some (m, rest, k) \<Rightarrow>
          (if m \<noteq> [] then f m k @ re_replace r f rest
           else f m k @ (case s of [] \<Rightarrow> [] | c # cs \<Rightarrow> c # re_replace r f cs))
      | None \<Rightarrow> (case s of [] \<Rightarrow> [] | c # cs \<Rightarrow> c # re_replace r f cs))"
  by pat_completeness auto
termination
  by (relation "measure (\<lambda>(r, f, s). length s)") (auto dest: re_first_shorter)

declare re_replace.simps [simp del]

text \<open>\<open>s.match(/r/)\<close>: the leftmost match.\<close>

fun re_search :: "regex \<Rightarrow> jstr \<Rightarrow> (jstr \<times> jstr \<times> captures) option" where
  "re_search r [] = re_first r []"
| "re_search r (c # cs) = (case re_first r (c # cs) of Some x \<Rightarrow> Some x | None \<Rightarrow> re_search r cs)"

text \<open>\<open>s.matchAll(/r/g)\<close>: the texts of the successive matches.\<close>

function re_matches :: "regex \<Rightarrow> jstr \<Rightarrow> jstr list" where
  "re_matches r s =
     (case re_first r s of
        Some (m, rest, k) \<Rightarrow>
          (if m \<noteq> [] then m # re_matches r rest
           else m # (case s of [] \<Rightarrow> [] | c # cs \<Rightarrow> re_matches r cs))
      | None \<Rightarrow> (case s of [] \<Rightarrow> [] | c # cs \<Rightarrow> re_matches r cs))"
  by pat_completeness auto
termination
  by (relation "measure (\<lambda>(r, s). length s)") (auto dest: re_first_shorter)

declare re_matches.simps [simp del]

definition re_remove :: "regex \<Rightarrow> jstr \<Rightarrow> jstr" where
  "re_remove r s = re_replace r (\<lambda>m k. []) s"

section \<open>Derived forms\<close>

definition Plus :: "regex \<Rightarrow> regex" where
  "Plus r = Cat r (Star r)"

definition Opt :: "regex \<Rightarrow> regex" where
  "Opt r = Alt r Eps"

primrec cats :: "regex list \<Rightarrow> regex" where
  "cats [] = Eps"
| "cats (r # rs) = (if rs = [] then r else Cat r (cats rs))"

primrec alts :: "regex list \<Rightarrow> regex" where
  "alts [] = Cls (\<lambda>c. False)"
| "alts (r # rs) = (if rs = [] then r else Alt r (alts rs))"

definition chr :: "code_unit \<Rightarrow> regex" where
  "chr d = Cls (\<lambda>c. c = d)"

definition lit :: "string \<Rightarrow> regex" where
  "lit t = cats (map chr (js t))"

text \<open>A literal under the \<open>i\<close> flag.\<close>

definition lit_i :: "string \<Rightarrow> regex" where
  "lit_i t = cats (map (\<lambda>d. Cls (\<lambda>c. lower_unit c = lower_unit d)) (js t))"

definition words_i :: "string list \<Rightarrow> regex" where
  "words_i ts = alts (map lit_i ts)"

section \<open>The matcher and the language\<close>

fun plain :: "regex \<Rightarrow> bool" where
  "plain (Cap n a) = plain a"
| "plain (Back n) = False"
| "plain (Cat a b) = (plain a \<and> plain b)"
| "plain (Alt a b) = (plain a \<and> plain b)"
| "plain (Star a) = plain a"
| "plain (LazyStar a) = plain a"
| "plain _ = True"

inductive_set closure :: "jstr set \<Rightarrow> jstr set" for A where
  closure_Nil: "[] \<in> closure A"
| closure_app: "a \<in> A \<Longrightarrow> a \<noteq> [] \<Longrightarrow> w \<in> closure A \<Longrightarrow> a @ w \<in> closure A"

fun lang :: "regex \<Rightarrow> jstr set" where
  "lang Eps = {[]}"
| "lang (Cls p) = {[c] | c. p c}"
| "lang (Cat a b) = {u @ v | u v. u \<in> lang a \<and> v \<in> lang b}"
| "lang (Alt a b) = lang a \<union> lang b"
| "lang (Star a) = closure (lang a)"
| "lang (LazyStar a) = closure (lang a)"
| "lang (Cap n a) = lang a"
| "lang (Back n) = {}"

text \<open>The rests that remain after a word of \<open>A\<close> at the start of \<open>s\<close>.\<close>

definition rests :: "jstr set \<Rightarrow> jstr \<Rightarrow> jstr set" where
  "rests A s = {r. \<exists>w \<in> A. s = w @ r}"

lemma rests_closure:
  "rests (closure A) s = insert s (\<Union>r \<in> {r \<in> rests A s. length r < length s}. rests (closure A) r)"
  (is "?l = ?r")
proof (rule set_eqI)
  fix x
  show "x \<in> ?l \<longleftrightarrow> x \<in> ?r"
  proof
    assume "x \<in> ?l"
    then obtain w where "w \<in> closure A" and s: "s = w @ x" by (auto simp: rests_def)
    from this(1) show "x \<in> ?r"
    proof cases
      case closure_Nil
      then show ?thesis using s by simp
    next
      case (closure_app a v)
      then have "v @ x \<in> {r \<in> rests A s. length r < length s}" "x \<in> rests (closure A) (v @ x)"
        using s by (auto simp: rests_def)
      then show ?thesis by blast
    qed
  next
    assume "x \<in> ?r"
    then consider "x = s"
      | r where "r \<in> rests A s" "length r < length s" "x \<in> rests (closure A) r" by blast
    then show "x \<in> ?l"
    proof cases
      case 1
      then show ?thesis by (auto simp: rests_def intro: closure_Nil)
    next
      case 2
      then obtain a v where "a \<in> A" "s = a @ r" "v \<in> closure A" "r = v @ x" "a \<noteq> []"
        by (auto simp: rests_def)
      then show ?thesis by (auto simp: rests_def intro!: bexI [of _ "a @ v"] closure_app)
    qed
  qed
qed

lemma re_match_star_rests:
  assumes body: "\<And>s k. fst ` set (re_match a s k) = rests A s"
    and eq: "\<And>s k. set (re_match r s k) = insert (s, k)
      (\<Union>(s', k') \<in> {(s', k') \<in> set (re_match a s k). length s' < length s}. set (re_match r s' k'))"
  shows "fst ` set (re_match r s k) = rests (closure A) s"
proof (induction s arbitrary: k rule: length_induct)
  case (1 s)
  have "fst ` set (re_match r s k) = insert s
      (\<Union>(s', k') \<in> {(s', k') \<in> set (re_match a s k). length s' < length s}. fst ` set (re_match r s' k'))"
    by (subst eq) force
  also have "\<dots> = insert s
      (\<Union>(s', k') \<in> {(s', k') \<in> set (re_match a s k). length s' < length s}. rests (closure A) s')"
    using 1 by (intro arg_cong [of _ _ "insert s"] SUP_cong) auto
  also have "\<dots> = insert s (\<Union>s' \<in> {s' \<in> rests A s. length s' < length s}. rests (closure A) s')"
    unfolding body [of s k, symmetric] by force
  finally show ?case by (simp only: rests_closure [of A s])
qed

lemma re_match_Star_step:
  "set (re_match (Star a) s k) = insert (s, k)
    (\<Union>(s', k') \<in> {(s', k') \<in> set (re_match a s k). length s' < length s}. set (re_match (Star a) s' k'))"
  by (subst re_match.simps(5)) (auto split: if_splits)

lemma re_match_LazyStar_step:
  "set (re_match (LazyStar a) s k) = insert (s, k)
    (\<Union>(s', k') \<in> {(s', k') \<in> set (re_match a s k). length s' < length s}. set (re_match (LazyStar a) s' k'))"
  by (subst re_match.simps(6)) (auto split: if_splits)

lemma rests_cat: "rests {u @ v | u v. u \<in> A \<and> v \<in> B} s = (\<Union>s' \<in> rests A s. rests B s')"
proof (rule set_eqI)
  fix x
  show "x \<in> rests {u @ v | u v. u \<in> A \<and> v \<in> B} s \<longleftrightarrow> x \<in> (\<Union>s' \<in> rests A s. rests B s')"
  proof
    assume "x \<in> rests {u @ v | u v. u \<in> A \<and> v \<in> B} s"
    then obtain u v where "u \<in> A" "v \<in> B" "s = u @ (v @ x)" by (auto simp: rests_def)
    then show "x \<in> (\<Union>s' \<in> rests A s. rests B s')" unfolding rests_def by blast
  next
    assume "x \<in> (\<Union>s' \<in> rests A s. rests B s')"
    then obtain u v where "u \<in> A" "v \<in> B" "s = (u @ v) @ x" by (auto simp: rests_def)
    then show "x \<in> rests {u @ v | u v. u \<in> A \<and> v \<in> B} s" unfolding rests_def by blast
  qed
qed

theorem re_match_lang: "plain r \<Longrightarrow> fst ` set (re_match r s k) = rests (lang r) s"
proof (induction r arbitrary: s k)
  case (Cls p)
  then show ?case by (cases s) (auto simp: rests_def)
next
  case (Cat a b)
  have "fst ` set (re_match (Cat a b) s k)
      = (\<Union>(s', k') \<in> set (re_match a s k). fst ` set (re_match b s' k'))"
    by (auto simp: image_UN split_beta)
  also have "\<dots> = (\<Union>(s', k') \<in> set (re_match a s k). rests (lang b) s')"
    using Cat by simp
  also have "\<dots> = (\<Union>s' \<in> rests (lang a) s. rests (lang b) s')"
    using Cat.prems by (simp flip: Cat.IH(1) [of s k] add: split_beta)
  finally show ?case by (simp only: lang.simps(3) rests_cat)
next
  case (Alt a b)
  then show ?case by (auto simp: rests_def image_Un)
next
  case (Star a)
  then have "\<And>s k. fst ` set (re_match a s k) = rests (lang a) s" by simp
  then show ?case
    unfolding lang.simps by (rule re_match_star_rests [OF _ re_match_Star_step])
next
  case (LazyStar a)
  then have "\<And>s k. fst ` set (re_match a s k) = rests (lang a) s" by simp
  then show ?case
    unfolding lang.simps by (rule re_match_star_rests [OF _ re_match_LazyStar_step])
next
  case (Cap n a)
  have "fst ` set (re_match (Cap n a) s k) = fst ` set (re_match a s k)"
    by (simp add: image_image case_prod_beta)
  with Cap show ?case by simp
qed (auto simp: rests_def)

lemma re_full_lang: "plain r \<Longrightarrow> re_full r s \<longleftrightarrow> s \<in> lang r"
proof -
  assume "plain r"
  then have "[] \<in> fst ` set (re_match r s []) \<longleftrightarrow> s \<in> lang r"
    by (simp add: re_match_lang rests_def)
  then show ?thesis by (force simp: re_full_def list_ex_iff)
qed

lemma re_prefix_lang: "plain r \<Longrightarrow> re_prefix r s \<longleftrightarrow> (\<exists>w v. w \<in> lang r \<and> s = w @ v)"
proof -
  assume "plain r"
  then have "fst ` set (re_match r s []) = rests (lang r) s" by (rule re_match_lang)
  then have "re_match r s [] \<noteq> [] \<longleftrightarrow> rests (lang r) s \<noteq> {}" by (metis image_is_empty set_empty)
  then show ?thesis by (auto simp: re_prefix_def rests_def)
qed

lemma re_first_lang:
  "plain r \<Longrightarrow> re_first r s = Some (m, rest, k) \<Longrightarrow> m \<in> lang r \<and> s = m @ rest"
proof -
  assume "plain r" and "re_first r s = Some (m, rest, k)"
  then have "(rest, k) \<in> set (re_match r s [])" and m: "m = consumed s rest"
    by (auto simp: re_first_def split: list.splits prod.splits)
  then have "rest \<in> rests (lang r) s"
    using re_match_lang [OF \<open>plain r\<close>, of s "[]"] by force
  then show ?thesis using m by (auto simp: rests_def consumed_def)
qed

lemma re_first_None_lang: "plain r \<Longrightarrow> re_first r s = None \<longleftrightarrow> \<not> (\<exists>w v. w \<in> lang r \<and> s = w @ v)"
  using re_prefix_lang [of r s] by (auto simp: re_first_def re_prefix_def split: list.splits prod.splits)

lemma re_search_lang:
  "plain r \<Longrightarrow> re_search r s = Some (m, rest, k) \<Longrightarrow> m \<in> lang r \<and> (\<exists>pre. s = pre @ m @ rest)"
proof (induction s)
  case Nil
  then have "re_first r [] = Some (m, rest, k)" by simp
  from re_first_lang [OF Nil(1) this] show ?case by auto
next
  case (Cons c cs)
  show ?case
  proof (cases "re_first r (c # cs)")
    case None
    with Cons obtain pre where "m \<in> lang r" "cs = pre @ m @ rest" by auto
    then show ?thesis by (auto intro: exI [of _ "c # pre"])
  next
    case (Some x)
    with Cons.prems have "re_first r (c # cs) = Some (m, rest, k)" by simp
    then have "m \<in> lang r" "c # cs = m @ rest"
      using re_first_lang [of r "c # cs" m rest k] Cons.prems by auto
    then show ?thesis by (auto intro: exI [of _ "[]"])
  qed
qed

lemma re_search_None_lang: "plain r \<Longrightarrow> re_search r s = None \<Longrightarrow> s \<noteq> a @ w @ b \<or> w \<notin> lang r"
proof (induction s arbitrary: a)
  case Nil
  then show ?case using re_first_None_lang [of r "[]"] by auto
next
  case (Cons c cs)
  then have none: "re_first r (c # cs) = None" "re_search r cs = None"
    by (auto split: option.splits)
  show ?case
  proof (cases a)
    case Nil
    then show ?thesis using none(1) re_first_None_lang [of r "c # cs"] Cons.prems by auto
  next
    case (Cons d ds)
    then show ?thesis using Cons.IH [of ds] Cons.prems none(2) \<open>plain r\<close> by auto
  qed
qed

text \<open>
  A replacement leaves a text alone when every match would need a character it does not have.
\<close>

lemma re_replace_absent:
  assumes "plain r" "\<And>w. w \<in> lang r \<Longrightarrow> d \<in> set w" "d \<notin> set s"
  shows "re_replace r f s = s"
  using assms(3)
proof (induction s)
  case Nil
  have "re_first r [] = None" using assms(2) unfolding re_first_None_lang [OF assms(1)] by fastforce
  then show ?case by (simp add: re_replace.simps [of r f "[]"])
next
  case (Cons c cs)
  have "re_first r (c # cs) = None"
    unfolding re_first_None_lang [OF assms(1)]
    using assms(2) Cons.prems by (metis Un_iff set_append)
  then show ?case using Cons by (simp add: re_replace.simps [of r f "c # cs"])
qed

lemma re_replace_head_absent:
  assumes "\<And>t. (\<forall>cs. t \<noteq> d # cs) \<Longrightarrow> re_match r t [] = []" "d \<notin> set s"
  shows "re_replace r f s = s"
  using assms(2)
proof (induction s)
  case Nil
  show ?case by (simp add: re_replace.simps [of r f "[]"] re_first_def assms(1))
next
  case (Cons c cs)
  then have "c \<noteq> d" by auto
  then have "re_first r (c # cs) = None" using assms(1) [of "c # cs"] by (simp add: re_first_def)
  then show ?case using Cons by (simp add: re_replace.simps [of r f "c # cs"])
qed

lemma closure_Cls: "closure (lang (Cls p)) = {w. list_all p w}"
proof (rule set_eqI)
  fix w
  show "w \<in> closure (lang (Cls p)) \<longleftrightarrow> w \<in> {w. list_all p w}"
  proof
    assume "w \<in> closure (lang (Cls p))"
    then show "w \<in> {w. list_all p w}" by induction auto
  next
    assume "w \<in> {w. list_all p w}"
    then have "list_all p w" by simp
    then show "w \<in> closure (lang (Cls p))"
    proof (induction w)
      case (Cons c cs)
      then show ?case using closure_app [of "[c]" "lang (Cls p)" cs] by simp
    qed (rule closure_Nil)
  qed
qed

lemma lang_star_Cls [simp]: "lang (Star (Cls p)) = {w. list_all p w}"
  by (simp only: lang.simps(5) closure_Cls)

lemma lang_plus_Cls [simp]: "lang (Plus (Cls p)) = {w. w \<noteq> [] \<and> list_all p w}"
proof (rule set_eqI)
  fix w
  have "w \<in> lang (Plus (Cls p)) \<longleftrightarrow> (\<exists>c v. w = [c] @ v \<and> p c \<and> list_all p v)"
    unfolding Plus_def lang.simps(3) lang_star_Cls lang.simps(2) by blast
  also have "\<dots> \<longleftrightarrow> w \<noteq> [] \<and> list_all p w" by (cases w) auto
  finally show "w \<in> lang (Plus (Cls p)) \<longleftrightarrow> w \<in> {w. w \<noteq> [] \<and> list_all p w}" by simp
qed

lemma plain_Plus [simp]: "plain (Plus r) = plain r"
  by (simp add: Plus_def)

lemma lang_chr [simp]: "lang (chr d) = {[d]}"
  by (auto simp: chr_def)

lemma lang_opt [simp]: "lang (Opt r) = insert [] (lang r)"
  by (auto simp: Opt_def)

lemma plain_opt [simp]: "plain (Opt r) = plain r"
  by (simp add: Opt_def)

lemma plain_cats [simp]: "plain (cats rs) = list_all plain rs"
  by (induction rs) auto

lemma plain_alts [simp]: "plain (alts rs) = list_all plain rs"
  by (induction rs) auto

lemma plain_lit [simp]: "plain (lit t)" "plain (lit_i t)" "plain (words_i ts)"
  by (simp_all add: lit_def lit_i_def words_i_def list_all_iff chr_def)

lemma plain_chr [simp]: "plain (chr d)"
  by (simp add: chr_def)

end
