(* ===== verification/Lib_Text.thy ===== *)
theory Lib_Text
  imports Base64 Regex
begin

text \<open>
  The text primitives of \<open>src/src/lib.ts\<close>: e-mail addresses, file names and storage segments,
  truncation to a byte budget, constant-time comparison, display and HTML escaping, subjects.
\<close>

section \<open>Constant-time comparison\<close>

definition byte_at :: "bytes \<Rightarrow> nat \<Rightarrow> byte" where
  "byte_at bs i = (if i < length bs then bs ! i else 0)"

text \<open>The bitwise operators of JavaScript work on 32-bit integers.\<close>

definition timingSafeEqual :: "jstr \<Rightarrow> jstr \<Rightarrow> bool" where
  "timingSafeEqual a b =
     (let aa = utf8 a; bb = utf8 b;
          start = Bit_Operations.xor (of_nat (length aa)) (of_nat (length bb) :: 32 word);
          difference = foldl (\<lambda>d i. Bit_Operations.or d
              (Bit_Operations.xor (ucast (byte_at aa i)) (ucast (byte_at bb i))))
            start [0..<max (length aa) (length bb)]
      in difference = 0)"

section \<open>E-mail addresses\<close>

definition email_unit :: "code_unit \<Rightarrow> bool" where
  "email_unit c \<longleftrightarrow> \<not> js_space c \<and> c \<noteq> 64 \<and> c \<noteq> 60 \<and> c \<noteq> 62"

definition email_regex :: regex where
  "email_regex = cats [Plus (Cls email_unit), chr 64, Plus (Cls email_unit), chr 46, Plus (Cls email_unit)]"

definition validEmail :: "jstr \<Rightarrow> bool" where
  "validEmail v \<longleftrightarrow> length v \<le> 320 \<and> re_full email_regex v"

definition bracket_regex :: regex where
  "bracket_regex = cats [chr 60, Cap 1 (Plus (Cls (\<lambda>c. c \<noteq> 60 \<and> c \<noteq> 62))), chr 62]"

definition normalizeEmail :: "unicode \<Rightarrow> jsval \<Rightarrow> jstr" where
  "normalizeEmail U v =
     (let raw = trim (asText v 320);
          inner = (case re_search bracket_regex raw of
            Some (m, rest, k) \<Rightarrow> (case map_of k 1 of Some t \<Rightarrow> t | None \<Rightarrow> []) | None \<Rightarrow> [])
      in to_lower U (trim (or_else inner raw)))"

definition list_separator :: "code_unit \<Rightarrow> bool" where
  "list_separator c \<longleftrightarrow> c = 59 \<or> c = 44 \<or> c = 10"

fun emailList :: "unicode \<Rightarrow> jsval \<Rightarrow> nat \<Rightarrow> jstr list" where
  "emailList U (JArr xs) m =
     take m (dedup (filter validEmail (map (\<lambda>s. normalizeEmail U (JStr s))
       (concat (map (\<lambda>x. emailList U x m) xs)))))"
| "emailList U v m =
     take m (dedup (filter validEmail (map (\<lambda>s. normalizeEmail U (JStr s))
       (split_runs list_separator (asText v 30000)))))"

section \<open>File names and storage segments\<close>

definition filename_bad :: "code_unit \<Rightarrow> bool" where
  "filename_bad c \<longleftrightarrow> c = 92 \<or> c = 47 \<or> c \<le> 31 \<or> c = 60 \<or> c = 62 \<or> c = 58 \<or> c = 34 \<or> c = 124 \<or> c = 63 \<or> c = 42"

definition safeFilename :: "unicode \<Rightarrow> jsval \<Rightarrow> jstr" where
  "safeFilename U v =
     (let cleaned = replace_runs filename_bad (js ''_'') (nfkc U (asText v 180));
          undotted = (if cleaned \<noteq> [] \<and> list_all (\<lambda>c. c = 46) cleaned then js ''attachment'' else cleaned)
      in take 160 (or_else (trim undotted) (js ''attachment'')))"

definition segment_ok :: "code_unit \<Rightarrow> bool" where
  "segment_ok c \<longleftrightarrow> is_alnum c \<or> c = 46 \<or> c = 95 \<or> c = 45"

definition safeSegment :: "jstr \<Rightarrow> jstr" where
  "safeSegment v = or_else (take 120 (replace_unit (\<lambda>c. \<not> segment_ok c) (js ''_'') v)) (js ''unknown'')"

section \<open>Truncation to a byte budget\<close>

text \<open>\<open>end -= 1\<close> when the unit before \<open>end\<close> is a high surrogate; \<open>charCodeAt(-1)\<close> is \<open>NaN\<close>.\<close>

definition before_pair :: "jstr \<Rightarrow> nat \<Rightarrow> nat" where
  "before_pair v e = (if e \<noteq> 0 \<and> e \<le> length v \<and> high_surrogate (v ! (e - 1)) then e - 1 else e)"

function truncate_search :: "jstr \<Rightarrow> nat \<Rightarrow> nat \<Rightarrow> nat \<Rightarrow> nat" where
  "truncate_search v maxBytes low high =
     (if low < high then
        (let middle = (low + high + 1) div 2;
             size = byte_length (take (before_pair v middle) v)
         in if size \<le> maxBytes then truncate_search v maxBytes middle high
            else truncate_search v maxBytes low (middle - 1))
      else low)"
  by pat_completeness auto
termination
  by (relation "measure (\<lambda>(v, m, low, high). high - low)") (auto simp: Let_def)

declare truncate_search.simps [simp del]

fun shrink_to :: "jstr \<Rightarrow> nat \<Rightarrow> nat \<Rightarrow> nat" where
  "shrink_to v maxBytes 0 = 0"
| "shrink_to v maxBytes (Suc e) =
     (if byte_length (take (Suc e) v) > maxBytes then shrink_to v maxBytes e else Suc e)"

definition truncateUtf8 :: "jstr \<Rightarrow> int \<Rightarrow> jstr" where
  "truncateUtf8 v maxBytes =
     (if maxBytes \<le> 0 \<or> v = [] then []
      else if byte_length v \<le> nat maxBytes then v
      else take (shrink_to v (nat maxBytes)
             (before_pair v (truncate_search v (nat maxBytes) 0 (length v)))) v)"

section \<open>Display, escaping and links\<close>

definition bidi_control :: "code_unit \<Rightarrow> bool" where
  "bidi_control c \<longleftrightarrow> (0x202A \<le> c \<and> c \<le> 0x202E) \<or> (0x2066 \<le> c \<and> c \<le> 0x2069)"

definition stripBidiControls :: "jstr \<Rightarrow> jstr" where
  "stripBidiControls v = replace_unit bidi_control [] v"

definition line_break :: "code_unit \<Rightarrow> bool" where
  "line_break c \<longleftrightarrow> c = 13 \<or> c = 10"

definition line_or_tab :: "code_unit \<Rightarrow> bool" where
  "line_or_tab c \<longleftrightarrow> c = 13 \<or> c = 10 \<or> c = 9"

definition safeDisplayText :: "jsval \<Rightarrow> nat \<Rightarrow> jstr" where
  "safeDisplayText v m = stripBidiControls (trim (replace_runs line_or_tab (js '' '') (asText v m)))"

definition safeDisplayFilename :: "unicode \<Rightarrow> jsval \<Rightarrow> jstr" where
  "safeDisplayFilename U v = stripBidiControls (safeFilename U v)"

definition safeExternalHref :: "jstr \<Rightarrow> jstr option" where
  "safeExternalHref v =
     (let trimmed = trim v in
      if re_prefix (words_i [''https://'', ''mailto:'']) trimmed then Some trimmed else None)"

definition escapeHtml :: "jsval \<Rightarrow> jstr" where
  "escapeHtml v =
     replace_unit (\<lambda>c. c = 39) (js ''&#39;'')
       (replace_unit (\<lambda>c. c = 34) (js ''&quot;'')
         (replace_unit (\<lambda>c. c = 62) (js ''&gt;'')
           (replace_unit (\<lambda>c. c = 60) (js ''&lt;'')
             (replace_unit (\<lambda>c. c = 38) (js ''&amp;'') (asText v 1000000)))))"

section \<open>Subjects\<close>

definition reply_regex :: regex where
  "reply_regex = Cat (Star (Cls js_space)) (lit_i ''re:'')"

definition forward_regex :: regex where
  "forward_regex = cats [Star (Cls js_space), lit_i ''fw'', Opt (lit_i ''d''), chr 58]"

definition replySubject :: "jstr \<Rightarrow> jstr" where
  "replySubject s = (if re_prefix reply_regex s then trim s else js ''Re: '' @ or_else s (js ''(No subject)''))"

definition forwardSubject :: "jstr \<Rightarrow> jstr" where
  "forwardSubject s = (if re_prefix forward_regex s then trim s else js ''Fwd: '' @ or_else s (js ''(No subject)''))"

section \<open>Facts\<close>

subsection \<open>Comparison\<close>

lemma xor_word_eq_0_iff: "Bit_Operations.xor a b = 0 \<longleftrightarrow> a = b" for a b :: "'w::len word"
proof
  assume "Bit_Operations.xor a b = 0"
  then have "bit (Bit_Operations.xor a b) n = False" for n by simp
  then have "bit a n = bit b n" for n by (simp add: bit_xor_iff)
  then show "a = b" by (simp add: bit_eq_iff)
qed simp

lemma foldl_or_eq_0_iff:
  "foldl (\<lambda>d i. Bit_Operations.or d (f i)) x xs = 0 \<longleftrightarrow> x = 0 \<and> (\<forall>i \<in> set xs. f i = 0)"
  for x :: "'w::len word"
  by (induction xs arbitrary: x) (auto simp: or_eq_0_iff)

lemma ucast_byte_eq_iff: "(ucast a :: 32 word) = ucast b \<longleftrightarrow> a = b" for a b :: byte
proof
  assume "(ucast a :: 32 word) = ucast b"
  then have "unat (ucast a :: 32 word) = unat (ucast b :: 32 word)" by simp
  then have "unat a = unat b"
    using unat_byte [of a] unat_byte [of b] by (simp add: unsigned_ucast_eq take_bit_nat_eq_self)
  then show "a = b" by (simp add: word_unat_eq_iff)
qed simp

lemma timingSafeEqual_utf8:
  assumes "byte_length a < 2 ^ 32" "byte_length b < 2 ^ 32"
  shows "timingSafeEqual a b \<longleftrightarrow> utf8 a = utf8 b"
proof -
  let ?n = "max (length (utf8 a)) (length (utf8 b))"
  have "timingSafeEqual a b \<longleftrightarrow>
      (of_nat (length (utf8 a)) :: 32 word) = of_nat (length (utf8 b))
      \<and> (\<forall>i < ?n. byte_at (utf8 a) i = byte_at (utf8 b) i)"
    by (auto simp: timingSafeEqual_def Let_def foldl_or_eq_0_iff xor_word_eq_0_iff ucast_byte_eq_iff)
  also have "(of_nat (length (utf8 a)) :: 32 word) = of_nat (length (utf8 b))
      \<longleftrightarrow> length (utf8 a) = length (utf8 b)"
    using assms by (simp add: byte_length_def word_unat_eq_iff unat_of_nat take_bit_nat_eq_self)
  finally show ?thesis
    by (auto simp: byte_at_def intro!: nth_equalityI)
qed

lemma utf8_ascii: "ascii_text s \<Longrightarrow> utf8 s = map ucast s"
proof (induction s)
  case (Cons c cs)
  then have "c < 128" by (simp add: ascii_text_def is_ascii_def)
  then have "\<not> high_surrogate c" "\<not> low_surrogate c" "unat c < 128"
    by (auto simp: high_surrogate_def low_surrogate_def word_le_nat_alt word_less_nat_alt)
  with Cons show ?case
    by (simp add: ascii_text_def utf8_bmp_def Let_def of_nat_unat)
qed simp

lemma utf8_ascii_inject:
  assumes "ascii_text a" "ascii_text b"
  shows "utf8 a = utf8 b \<longleftrightarrow> a = b"
proof
  assume "utf8 a = utf8 b"
  then have eq: "map (ucast :: code_unit \<Rightarrow> byte) a = map ucast b" using assms by (simp add: utf8_ascii)
  have inj: "inj_on (ucast :: code_unit \<Rightarrow> byte) {c. c < 128}"
  proof (rule inj_onI)
    fix x y :: code_unit
    assume "x \<in> {c. c < 128}" "y \<in> {c. c < 128}" "(ucast x :: byte) = ucast y"
    moreover from this have "unat (ucast x :: byte) = unat (ucast y :: byte)" by simp
    ultimately show "x = y"
      by (simp add: unsigned_ucast_eq take_bit_nat_eq_self word_less_nat_alt word_unat_eq_iff)
  qed
  have "set a \<subseteq> {c. c < 128}" "set b \<subseteq> {c. c < 128}"
    using assms by (auto simp: ascii_text_def is_ascii_def list_all_iff)
  then show "a = b" using eq inj by (auto simp: inj_on_map_eq_map intro: map_inj_on inj_on_subset)
qed simp

subsection \<open>Segments and file names\<close>

lemma js_underscore [simp]: "js ''_'' = [95]"
  by (simp add: js_def)

lemma safeSegment_shape:
  "safeSegment v \<noteq> [] \<and> length (safeSegment v) \<le> 120 \<and> list_all segment_ok (safeSegment v)"
proof -
  have "segment_ok 95" "list_all segment_ok (js ''unknown'')" by code_simp+
  moreover have "set (replace_unit (\<lambda>c. \<not> segment_ok c) (js ''_'') v) \<subseteq> {95} \<union> {c. segment_ok c}"
    using set_replace_unit [of "\<lambda>c. \<not> segment_ok c" "js ''_''" v] by auto
  ultimately show ?thesis
    by (auto simp: safeSegment_def or_else_def list_all_iff dest!: in_set_takeD)
qed

lemma replace_unit_id: "\<forall>c \<in> set s. \<not> p c \<Longrightarrow> replace_unit p t s = s"
  by (induction s) (auto simp: replace_unit_def)

lemma safeSegment_id:
  "list_all segment_ok v \<Longrightarrow> v \<noteq> [] \<Longrightarrow> length v \<le> 120 \<Longrightarrow> safeSegment v = v"
  by (simp add: safeSegment_def or_else_def replace_unit_id list_all_iff)

lemma safeSegment_idem: "safeSegment (safeSegment v) = safeSegment v"
  using safeSegment_shape [of v] by (simp add: safeSegment_id)

lemma safeFilename_shape:
  "safeFilename U v \<noteq> [] \<and> length (safeFilename U v) \<le> 160 \<and> list_all (\<lambda>c. \<not> filename_bad c) (safeFilename U v)"
proof -
  let ?c = "replace_runs filename_bad (js ''_'') (nfkc U (asText v 180))"
  let ?u = "if ?c \<noteq> [] \<and> list_all (\<lambda>c. c = 46) ?c then js ''attachment'' else ?c"
  have att: "list_all (\<lambda>c. \<not> filename_bad c) (js ''attachment'')" and us: "\<not> filename_bad 95"
    by code_simp+
  have "\<forall>c \<in> set ?c. \<not> filename_bad c"
    using set_replace_runs [of filename_bad "js ''_''"] us by fastforce
  then have "\<forall>c \<in> set ?u. \<not> filename_bad c"
    using att unfolding list_all_iff by presburger
  then have "\<forall>c \<in> set (trim ?u). \<not> filename_bad c"
    using set_trim [of ?u] by blast
  then have "\<forall>c \<in> set (or_else (trim ?u) (js ''attachment'')). \<not> filename_bad c"
    using att by (simp add: or_else_def list_all_iff)
  then have "list_all (\<lambda>c. \<not> filename_bad c) (safeFilename U v)"
    unfolding safeFilename_def Let_def list_all_iff by (blast dest: in_set_takeD)
  moreover have "safeFilename U v \<noteq> []" "length (safeFilename U v) \<le> 160"
    by (simp_all add: safeFilename_def Let_def or_else_def)
  ultimately show ?thesis by simp
qed

subsection \<open>Escaping\<close>

lemma replace_unit_append: "replace_unit p t (a @ b) = replace_unit p t a @ replace_unit p t b"
  by (simp add: replace_unit_def)

definition html_entity :: "code_unit \<Rightarrow> jstr" where
  "html_entity c = (if c = 38 then js ''&amp;'' else if c = 60 then js ''&lt;'' else if c = 62 then js ''&gt;''
     else if c = 34 then js ''&quot;'' else if c = 39 then js ''&#39;'' else [c])"

text \<open>The five successive replacements are one substitution: an entity is never escaped again.\<close>

lemma replace_unit_comp:
  "replace_unit q u (replace_unit p t s) = concat (map (\<lambda>c. if p c then replace_unit q u t else if q c then u else [c]) s)"
  by (induction s) (simp_all add: replace_unit_def)

lemma escapeHtml_entities: "escapeHtml v = concat (map html_entity (asText v 1000000))"
proof -
  have one: "replace_unit (\<lambda>c. c = 39) (js ''&#39;'')
       (replace_unit (\<lambda>c. c = 34) (js ''&quot;'')
         (replace_unit (\<lambda>c. c = 62) (js ''&gt;'')
           (replace_unit (\<lambda>c. c = 60) (js ''&lt;'')
             (replace_unit (\<lambda>c. c = 38) (js ''&amp;'') [c])))) = html_entity c" for c
    by (simp add: replace_unit_def html_entity_def js_def)
  have "replace_unit (\<lambda>c. c = 39) (js ''&#39;'')
       (replace_unit (\<lambda>c. c = 34) (js ''&quot;'')
         (replace_unit (\<lambda>c. c = 62) (js ''&gt;'')
           (replace_unit (\<lambda>c. c = 60) (js ''&lt;'')
             (replace_unit (\<lambda>c. c = 38) (js ''&amp;'') s)))) = concat (map html_entity s)" for s
  proof (induction s)
    case (Cons c cs)
    then show ?case using one [of c]
      unfolding append_Cons [of c "[]" cs, unfolded append_Nil, symmetric] replace_unit_append by simp
  qed (simp add: replace_unit_def)
  then show ?thesis by (simp add: escapeHtml_def)
qed

subsection \<open>Truncation\<close>

definition fits :: "jstr \<Rightarrow> nat \<Rightarrow> nat \<Rightarrow> bool" where
  "fits v maxBytes e \<longleftrightarrow> byte_length (take (before_pair v e) v) \<le> maxBytes"

lemma before_pair_le: "before_pair v e \<le> e"
  by (simp add: before_pair_def)

lemma before_pair_mono: "d \<le> e \<Longrightarrow> before_pair v d \<le> before_pair v e"
  by (cases "d = e") (auto simp: before_pair_def)

lemma fits_mono: "d \<le> e \<Longrightarrow> fits v m e \<Longrightarrow> fits v m d"
  unfolding fits_def using byte_length_take_mono [OF before_pair_mono] le_trans by blast

lemma truncate_search_step:
  "truncate_search v m low high =
     (if low < high then
        (if fits v m ((low + high + 1) div 2) then truncate_search v m ((low + high + 1) div 2) high
         else truncate_search v m low ((low + high + 1) div 2 - 1))
      else low)"
  by (subst truncate_search.simps) (simp add: fits_def Let_def)

definition greatest_fit :: "jstr \<Rightarrow> nat \<Rightarrow> nat \<Rightarrow> nat \<Rightarrow> bool" where
  "greatest_fit v m n r \<longleftrightarrow> fits v m r \<and> r \<le> n \<and> (\<forall>e. r < e \<longrightarrow> e \<le> n \<longrightarrow> \<not> fits v m e)"

lemma truncate_search_greatest:
  "fits v m low \<Longrightarrow> \<forall>e. high < e \<longrightarrow> e \<le> n \<longrightarrow> \<not> fits v m e \<Longrightarrow> low \<le> high \<Longrightarrow> high \<le> n \<Longrightarrow>
   greatest_fit v m n (truncate_search v m low high)"
proof (induction "high - low" arbitrary: low high rule: less_induct)
  case less
  show ?case
  proof (cases "low < high")
    case True
    define mid where "mid = (low + high + 1) div 2"
    have mid: "low < mid" "mid \<le> high" using True by (simp_all add: mid_def)
    have step: "truncate_search v m low high =
        (if fits v m mid then truncate_search v m mid high else truncate_search v m low (mid - 1))"
      using True by (subst truncate_search_step) (simp add: mid_def)
    show ?thesis
    proof (cases "fits v m mid")
      case fit: True
      have "greatest_fit v m n (truncate_search v m mid high)"
        by (rule less.hyps) (use mid fit less.prems in auto)
      with fit step show ?thesis by simp
    next
      case nofit: False
      have "\<not> fits v m e" if "mid - 1 < e" for e
      proof
        assume "fits v m e"
        moreover have "mid \<le> e" using that mid(1) by linarith
        ultimately show False using fits_mono nofit by blast
      qed
      then have "greatest_fit v m n (truncate_search v m low (mid - 1))"
        by (intro less.hyps) (use mid less.prems in auto)
      with nofit step show ?thesis by simp
    qed
  next
    case False
    then have "truncate_search v m low high = low" by (subst truncate_search_step) simp
    then show ?thesis using less.prems False by (simp add: greatest_fit_def)
  qed
qed

lemma shrink_to_fits: "byte_length (take e v) \<le> m \<Longrightarrow> shrink_to v m e = e"
  by (cases e) auto

lemma truncateUtf8_cut:
  assumes "0 < m" "\<not> byte_length v \<le> m"
  obtains e where "truncateUtf8 v (int m) = take (before_pair v e) v" "fits v m e" "e \<le> length v"
    "\<And>d. e < d \<Longrightarrow> d \<le> length v \<Longrightarrow> \<not> fits v m d"
proof -
  let ?r = "truncate_search v m 0 (length v)"
  have "fits v m 0" by (simp add: fits_def before_pair_def)
  then have r: "fits v m ?r" "?r \<le> length v" "\<forall>e. ?r < e \<longrightarrow> e \<le> length v \<longrightarrow> \<not> fits v m e"
    using truncate_search_greatest [of v m 0 "length v" "length v"] by (auto simp: greatest_fit_def)
  have "v \<noteq> []" using assms by auto
  then have "truncateUtf8 v (int m) = take (before_pair v ?r) v"
    using assms r(1) by (simp add: truncateUtf8_def fits_def shrink_to_fits)
  then show ?thesis using r that by blast
qed

subsection \<open>Addresses and subjects\<close>

lemma lang_email:
  "lang email_regex = {l @ [64] @ d @ [46] @ t | l d t. l \<noteq> [] \<and> d \<noteq> [] \<and> t \<noteq> []
     \<and> list_all email_unit l \<and> list_all email_unit d \<and> list_all email_unit t}"
  unfolding email_regex_def by (auto simp: Plus_def [symmetric]) blast+

lemma validEmail_iff:
  "validEmail v \<longleftrightarrow> length v \<le> 320 \<and> (\<exists>l d t. v = l @ [64] @ d @ [46] @ t \<and> l \<noteq> [] \<and> d \<noteq> [] \<and> t \<noteq> []
     \<and> list_all email_unit l \<and> list_all email_unit d \<and> list_all email_unit t)"
proof -
  have "plain email_regex" by (simp add: email_regex_def)
  then show ?thesis unfolding validEmail_def re_full_lang [OF \<open>plain email_regex\<close>] lang_email by blast
qed

section \<open>Properties\<close>

definition ends_in_pair_half :: "jstr \<Rightarrow> bool" where
  "ends_in_pair_half s \<longleftrightarrow> s \<noteq> [] \<and> high_surrogate (last s)"

lemma before_pair_whole: "e \<le> length v \<Longrightarrow> \<not> ends_in_pair_half (take e v) \<Longrightarrow> before_pair v e = e"
  by (cases e) (auto simp: before_pair_def ends_in_pair_half_def take_Suc_conv_app_nth)

text \<open>
  C27. \<open>truncateUtf8\<close> cuts a text to a byte budget correctly: the result is a prefix that encodes to
  at most \<open>maxBytes\<close> bytes, and the binary search loses nothing: every longer prefix that does not
  end between the halves of a surrogate pair is over the budget.
\<close>

theorem truncateUtf8_longest_prefix:
  "\<exists>n. truncateUtf8 v (int m) = take n v \<and> byte_length (take n v) \<le> m
     \<and> (\<forall>e. n < e \<longrightarrow> e \<le> length v \<longrightarrow> \<not> ends_in_pair_half (take e v) \<longrightarrow> m < byte_length (take e v))"
proof -
  consider "m = 0" | "byte_length v \<le> m" | "0 < m" "\<not> byte_length v \<le> m" by linarith
  then show ?thesis
  proof cases
    case 1
    have "0 < byte_length (take e v)" if "0 < e" "e \<le> length v" for e
      using length_le_byte_length [of "take e v"] that by simp
    with 1 show ?thesis by (intro exI [of _ 0]) (auto simp: truncateUtf8_def)
  next
    case 2
    then have "truncateUtf8 v (int m) = v"
      using length_le_byte_length [of v] by (auto simp: truncateUtf8_def)
    with 2 show ?thesis by (intro exI [of _ "length v"]) simp
  next
    case 3
    obtain e where e: "truncateUtf8 v (int m) = take (before_pair v e) v" "fits v m e"
        "e \<le> length v" "\<And>d. e < d \<Longrightarrow> d \<le> length v \<Longrightarrow> \<not> fits v m d"
      using truncateUtf8_cut [OF 3] by blast
    have "m < byte_length (take d v)"
      if d: "before_pair v e < d" "d \<le> length v" "\<not> ends_in_pair_half (take d v)" for d
    proof -
      have "before_pair v d = d" using d by (simp add: before_pair_whole)
      then have "e < d" using d(1) by (metis before_pair_mono linorder_not_less)
      then show ?thesis using e(4) [of d] d \<open>before_pair v d = d\<close> by (simp add: fits_def)
    qed
    then show ?thesis using e by (intro exI [of _ "before_pair v e"]) (auto simp: fits_def)
  qed
qed

theorem truncateUtf8_longest_prefix_witness: "truncateUtf8 (js ''abc'') (int 2) = js ''ab''"
proof -
  have size: "byte_length (take e (js ''abc'')) = min e 3" for e
  proof -
    have "ascii_text (js (take e ''abc''))"
      by (auto simp: ascii_text_def is_ascii_def js_def list_all_iff dest!: in_set_takeD)
    then show ?thesis by (simp add: byte_length_def utf8_ascii)
  qed
  obtain n where n: "truncateUtf8 (js ''abc'') (int 2) = take n (js ''abc'')" "min n 3 \<le> 2"
      "n < 2 \<longrightarrow> \<not> ends_in_pair_half (take 2 (js ''abc'')) \<longrightarrow> 2 < min (2::nat) 3"
    using truncateUtf8_longest_prefix [of "js ''abc''" 2] by (auto simp only: size length_js) force
  have "\<not> ends_in_pair_half (take 2 (js ''abc''))"
    by (simp add: ends_in_pair_half_def js_def high_surrogate_def)
  with n have "n = 2" by auto
  with n(1) show ?thesis by simp
qed

text \<open>
  \<open>timingSafeEqual\<close> is equality on the ASCII texts it is used on (digests, tokens, hashes):
  the accumulated 32-bit difference is zero exactly when the texts are equal, whatever their
  lengths below the platform's limit on strings.
\<close>

theorem timingSafeEqual_ascii:
  assumes "ascii_text a" "ascii_text b" "length a < 2 ^ 30" "length b < 2 ^ 30"
  shows "timingSafeEqual a b \<longleftrightarrow> a = b"
proof -
  have "byte_length a < 2 ^ 32" "byte_length b < 2 ^ 32"
    using byte_length_le [of a] byte_length_le [of b] assms by simp_all
  then show ?thesis using assms by (simp add: timingSafeEqual_utf8 utf8_ascii_inject)
qed

theorem timingSafeEqual_ascii_witness:
  "timingSafeEqual (js ''abc'') (js ''abd'') \<longleftrightarrow> js ''abc'' = js ''abd''"
  by (rule timingSafeEqual_ascii) (simp_all add: ascii_text_def is_ascii_def js_def)

text \<open>
  Text that goes through \<open>escapeHtml\<close> cannot open markup or leave an attribute: no angle
  bracket and no quote survives, and the five replacements are one substitution per character, so
  an entity written by one of them is not escaped again by a later one.
\<close>

theorem escapeHtml_inert:
  "escapeHtml v = concat (map html_entity (asText v 1000000))
    \<and> {60, 62, 34, 39} \<inter> set (escapeHtml v) = {}"
proof -
  have "60 \<notin> set (html_entity c) \<and> 62 \<notin> set (html_entity c) \<and> 34 \<notin> set (html_entity c)
      \<and> 39 \<notin> set (html_entity c)" for c
    by (simp add: html_entity_def js_def)
  then show ?thesis by (auto simp: escapeHtml_entities)
qed

end
