(* ===== verification/Js_Json.thy ===== *)
theory Js_Json
  imports Js_Value
begin

text \<open>
  \<open>JSON.parse\<close> as a recursive descent over code units, and the round trip with
  \<open>JSON.stringify\<close> of \<open>Js_Value\<close>. Recipient summaries, stored address lists and pagination cursors
  are written with one and read back with the other. A number that is not an integer of at most
  fifteen digits needs the binary rounding of IEEE 754, which is the parameter \<open>num\<close>.

  Every recursive call of the parser is on a shorter text; the guards \<open>length s' < length s\<close> say so
  to the termination prover and never fail.
\<close>

section \<open>Lexical elements\<close>

definition json_space :: "code_unit \<Rightarrow> bool" where
  "json_space c \<longleftrightarrow> c = 32 \<or> c = 9 \<or> c = 10 \<or> c = 13"

definition skip_space :: "jstr \<Rightarrow> jstr" where
  "skip_space s = dropWhile json_space s"

definition hex_value :: "code_unit \<Rightarrow> nat option" where
  "hex_value c = (if is_digit c then Some (unat c - 48)
     else if 97 \<le> c \<and> c \<le> 102 then Some (unat c - 87)
     else if 65 \<le> c \<and> c \<le> 70 then Some (unat c - 55) else None)"

definition unescape_unit :: "code_unit \<Rightarrow> code_unit option" where
  "unescape_unit c = (if c = 34 \<or> c = 92 \<or> c = 47 then Some c else if c = 98 then Some 8
     else if c = 102 then Some 12 else if c = 110 then Some 10 else if c = 114 then Some 13
     else if c = 116 then Some 9 else None)"

definition hex_quad :: "code_unit \<Rightarrow> code_unit \<Rightarrow> code_unit \<Rightarrow> code_unit \<Rightarrow> code_unit option" where
  "hex_quad a b c d =
     (case (hex_value a, hex_value b, hex_value c, hex_value d) of
        (Some i, Some j, Some k, Some l) \<Rightarrow> Some (of_nat (i * 4096 + j * 256 + k * 16 + l))
      | _ \<Rightarrow> None)"

definition cons_unit :: "code_unit \<Rightarrow> (jstr \<times> jstr) option \<Rightarrow> (jstr \<times> jstr) option" where
  "cons_unit u z = map_option (\<lambda>(t, rest). (u # t, rest)) z"

text \<open>The rest of a string literal after its opening quote: the text, and what follows the quote.\<close>

fun json_string :: "jstr \<Rightarrow> (jstr \<times> jstr) option" where
  "json_string [] = None"
| "json_string (c # cs) =
     (if c = 34 then Some ([], cs)
      else if c = 92 then
        (case cs of
           [] \<Rightarrow> None
         | e # es \<Rightarrow>
             if e = 117 then
               (case es of
                  a # b # x # d # rest \<Rightarrow>
                    (case hex_quad a b x d of None \<Rightarrow> None | Some u \<Rightarrow> cons_unit u (json_string rest))
                | _ \<Rightarrow> None)
             else (case unescape_unit e of None \<Rightarrow> None | Some u \<Rightarrow> cons_unit u (json_string es)))
      else if c < 32 then None
      else cons_unit c (json_string cs))"

text \<open>Digits, with at least one of them.\<close>

definition digits1 :: "jstr \<Rightarrow> (jstr \<times> jstr) option" where
  "digits1 s = (let ds = takeWhile is_digit s in if ds = [] then None else Some (ds, dropWhile is_digit s))"

definition json_fraction :: "jstr \<Rightarrow> (jstr \<times> jstr) option" where
  "json_fraction s =
     (case s of c # cs \<Rightarrow> if c = 46 then map_option (\<lambda>(ds, r). (46 # ds, r)) (digits1 cs) else Some ([], s)
      | [] \<Rightarrow> Some ([], s))"

definition json_exponent :: "jstr \<Rightarrow> (jstr \<times> jstr) option" where
  "json_exponent s =
     (case s of
        c # cs \<Rightarrow>
          if c = 101 \<or> c = 69 then
            (case cs of
               d # ds \<Rightarrow>
                 if d = 43 \<or> d = 45 then map_option (\<lambda>(t, r). (c # d # t, r)) (digits1 ds)
                 else map_option (\<lambda>(t, r). (c # t, r)) (digits1 cs)
             | [] \<Rightarrow> None)
          else Some ([], s)
      | [] \<Rightarrow> Some ([], s))"

definition json_integer :: "jstr \<Rightarrow> (jstr \<times> jstr) option" where
  "json_integer s =
     (case s of c # cs \<Rightarrow> if c = 48 then Some ([48], cs) else digits1 s | [] \<Rightarrow> None)"

definition json_number :: "jstr \<Rightarrow> (jstr \<times> jstr) option" where
  "json_number s =
     (let (sign, s1) = (if s \<noteq> [] \<and> hd s = 45 then ([45], tl s) else ([], s)) in
      case json_integer s1 of None \<Rightarrow> None
      | Some (i, s2) \<Rightarrow>
          (case json_fraction s2 of None \<Rightarrow> None
           | Some (f, s3) \<Rightarrow>
               (case json_exponent s3 of None \<Rightarrow> None
                | Some (e, s4) \<Rightarrow> Some (sign @ i @ f @ e, s4))))"

text \<open>The ECMAScript text of the number written as \<open>t\<close>.\<close>

definition plain_integer :: "jstr \<Rightarrow> bool" where
  "plain_integer t \<longleftrightarrow>
     (let ds = (if t \<noteq> [] \<and> hd t = 45 then tl t else t) in
      ds \<noteq> [] \<and> list_all is_digit ds \<and> length ds \<le> 15 \<and> (hd ds = 48 \<longrightarrow> t = [48]))"

definition number_value :: "(jstr \<Rightarrow> jstr) \<Rightarrow> jstr \<Rightarrow> jstr" where
  "number_value num t = (if plain_integer t then t else if t = js ''-0'' then js ''0'' else num t)"

text \<open>A repeated key keeps its first position and its last value.\<close>

fun put_key :: "jstr \<Rightarrow> 'v \<Rightarrow> (jstr \<times> 'v) list \<Rightarrow> (jstr \<times> 'v) list" where
  "put_key k v [] = [(k, v)]"
| "put_key k v ((k', v') # kvs) = (if k' = k then (k, v) # kvs else (k', v') # put_key k v kvs)"

section \<open>The parser\<close>

definition literal_value :: "jstr \<Rightarrow> (jsval \<times> jstr) option" where
  "literal_value s =
     (if starts_with (js ''null'') s then Some (JNull, drop 4 s)
      else if starts_with (js ''true'') s then Some (JBool True, drop 4 s)
      else if starts_with (js ''false'') s then Some (JBool False, drop 5 s) else None)"

definition scalar_value :: "(jstr \<Rightarrow> jstr) \<Rightarrow> jstr \<Rightarrow> (jsval \<times> jstr) option" where
  "scalar_value num s =
     (if s \<noteq> [] \<and> hd s = 34 then map_option (\<lambda>(t, r). (JStr t, r)) (json_string (tl s))
      else if s \<noteq> [] \<and> (hd s = 45 \<or> is_digit (hd s)) then
        map_option (\<lambda>(t, r). (JNum (number_value num t), r)) (json_number s)
      else literal_value s)"

function
  json_value :: "(jstr \<Rightarrow> jstr) \<Rightarrow> jstr \<Rightarrow> (jsval \<times> jstr) option"
  and json_items :: "(jstr \<Rightarrow> jstr) \<Rightarrow> jsval list \<Rightarrow> jstr \<Rightarrow> (jsval list \<times> jstr) option"
  and json_members :: "(jstr \<Rightarrow> jstr) \<Rightarrow> (jstr \<times> jsval) list \<Rightarrow> jstr \<Rightarrow> ((jstr \<times> jsval) list \<times> jstr) option"
  where
  "json_value num s =
     (case skip_space s of
        [] \<Rightarrow> None
      | c # cs \<Rightarrow>
          if c = 91 then
            (case skip_space cs of
               [] \<Rightarrow> None
             | d # ds \<Rightarrow>
                 if d = 93 then Some (JArr [], ds)
                 else if length cs < length s then map_option (\<lambda>(xs, r). (JArr xs, r)) (json_items num [] cs)
                 else None)
          else if c = 123 then
            (case skip_space cs of
               [] \<Rightarrow> None
             | d # ds \<Rightarrow>
                 if d = 125 then Some (JObj [], ds)
                 else if length cs < length s then map_option (\<lambda>(kvs, r). (JObj kvs, r)) (json_members num [] cs)
                 else None)
          else scalar_value num (c # cs))"
| "json_items num acc s =
     (case json_value num s of
        None \<Rightarrow> None
      | Some (v, s') \<Rightarrow>
          (case skip_space s' of
             [] \<Rightarrow> None
           | c # cs \<Rightarrow>
               if c = 93 then Some (acc @ [v], cs)
               else if c = 44 \<and> length cs < length s then json_items num (acc @ [v]) cs
               else None))"
| "json_members num acc s =
     (case skip_space s of
        [] \<Rightarrow> None
      | q # qs \<Rightarrow>
          if q \<noteq> 34 then None
          else (case json_string qs of
             None \<Rightarrow> None
           | Some (k, s1) \<Rightarrow>
               (case skip_space s1 of
                  [] \<Rightarrow> None
                | c # cs \<Rightarrow>
                    if c \<noteq> 58 \<or> \<not> length cs < length s then None
                    else (case json_value num cs of
                       None \<Rightarrow> None
                     | Some (v, s2) \<Rightarrow>
                         (case skip_space s2 of
                            [] \<Rightarrow> None
                          | d # ds \<Rightarrow>
                              if d = 125 then Some (put_key k v acc, ds)
                              else if d = 44 \<and> length ds < length s then json_members num (put_key k v acc) ds
                              else None)))))"
  by pat_completeness auto
termination
  by (relation "measures
      [case_sum (\<lambda>(num, s). length s) (case_sum (\<lambda>(num, acc, s). length s) (\<lambda>(num, acc, s). length s)),
       case_sum (\<lambda>_. 0) (case_sum (\<lambda>_. 1) (\<lambda>_. 1))]") auto

declare json_value.simps [simp del] json_items.simps [simp del] json_members.simps [simp del]

text \<open>\<open>JSON.parse(s)\<close>; \<open>None\<close> is the \<open>SyntaxError\<close>.\<close>

definition json_parse :: "(jstr \<Rightarrow> jstr) \<Rightarrow> jstr \<Rightarrow> jsval option" where
  "json_parse num s =
     (case json_value num s of
        Some (v, rest) \<Rightarrow> if skip_space rest = [] then Some v else None
      | None \<Rightarrow> None)"

text \<open>\<open>parseJson\<close> (\<open>lib.ts\<close>): the parsed value, or the fallback when the text is empty or malformed.\<close>

definition parseJson :: "(jstr \<Rightarrow> jstr) \<Rightarrow> jsval \<Rightarrow> jsval \<Rightarrow> jsval" where
  "parseJson num v fallback =
     (case json_parse num (asText v 1000000) of Some x \<Rightarrow> x | None \<Rightarrow> fallback)"

section \<open>Strings and numbers are read back\<close>

lemma hex_value_digit: "n < 16 \<Longrightarrow> hex_value (hex_digit n) = Some n"
proof -
  have "list_all (\<lambda>n. hex_value (hex_digit n) = Some n) [0..<16]" by code_simp
  then show "n < 16 \<Longrightarrow> hex_value (hex_digit n) = Some n" by (simp add: list_all_iff)
qed

lemma nibbles: "x div 4096 * 4096 + x div 256 mod 16 * 256 + x div 16 mod 16 * 16 + x mod 16 = x" for x :: nat
proof -
  have "x div 256 = x div 16 div 16" "x div 4096 = x div 16 div 16 div 16"
    by (simp_all add: div_mult2_eq [symmetric])
  then show ?thesis
    using div_mult_mod_eq [of x 16] div_mult_mod_eq [of "x div 16" 16] div_mult_mod_eq [of "x div 16 div 16" 16]
    by (simp only:)
qed

lemma hex_quad_escape:
  "hex_quad (hex_digit (unat c div 4096)) (hex_digit (unat c div 256 mod 16))
     (hex_digit (unat c div 16 mod 16)) (hex_digit (unat c mod 16)) = Some c"
proof -
  have "unat c < 65536" using unsigned_less [of c] by simp
  then have "unat c div 4096 < 16" by (simp add: less_mult_imp_div_less)
  then show ?thesis using nibbles [of "unat c"] by (simp add: hex_quad_def hex_value_digit)
qed

lemma json_string_plain: "c \<noteq> 34 \<Longrightarrow> c \<noteq> 92 \<Longrightarrow> \<not> c < 32 \<Longrightarrow> json_string (c # r) = cons_unit c (json_string r)"
  by simp

lemma json_string_unit: "json_string (json_unit c @ r) = cons_unit c (json_string r)"
proof -
  have esc: "js [CHR 0x5C, CHR ''u''] = [92, 117]" by (simp add: js_def)
  have "json_string (unicode_escape c @ r) = cons_unit c (json_string r)"
    by (simp add: unicode_escape_def Let_def esc hex_quad_escape)
  then show ?thesis by (simp add: json_unit_def unescape_unit_def)
qed

lemma surrogate_plain:
  "high_surrogate c \<or> low_surrogate c \<Longrightarrow> c \<noteq> 34 \<and> c \<noteq> 92 \<and> \<not> c < 32"
  by (auto simp: high_surrogate_def low_surrogate_def word_le_nat_alt word_less_nat_alt)

lemma json_string_chars: "json_string (json_chars s @ 34 # rest) = Some (s, rest)"
proof (induction s rule: json_chars.induct)
  case (2 c)
  then show ?case by (simp add: json_string_unit cons_unit_def del: json_string.simps) simp
next
  case (3 c d ds)
  show ?case
  proof (cases "high_surrogate c \<and> low_surrogate d")
    case True
    with 3(1) show ?thesis
      using surrogate_plain [of c] surrogate_plain [of d]
      by (simp add: json_string_plain cons_unit_def del: json_string.simps)
  next
    case False
    then have "json_chars (c # d # ds) = json_unit c @ json_chars (d # ds)" by auto
    with False 3(2) show ?thesis by (simp only: append_assoc json_string_unit) (simp add: cons_unit_def)
  qed
qed simp

lemma json_string_quote: "json_string (tl (json_quote s) @ rest) = Some (s, rest)"
  by (simp add: json_quote_def json_string_chars)

definition ends_value :: "jstr \<Rightarrow> bool" where
  "ends_value rest \<longleftrightarrow> rest = [] \<or> hd rest = 44 \<or> hd rest = 93 \<or> hd rest = 125 \<or> hd rest = 10"

lemma ends_value_not_digit: "ends_value (c # cs) \<Longrightarrow> \<not> is_digit c \<and> c \<noteq> 46 \<and> c \<noteq> 101 \<and> c \<noteq> 69"
  by (auto simp: ends_value_def is_digit_def)

lemma digits1_append: "ds \<noteq> [] \<Longrightarrow> list_all is_digit ds \<Longrightarrow> ends_value rest \<Longrightarrow> digits1 (ds @ rest) = Some (ds, rest)"
proof -
  assume ds: "ds \<noteq> []" "list_all is_digit ds" and "ends_value rest"
  from ds(2) have "\<forall>c \<in> set ds. is_digit c" by (simp add: list_all_iff)
  moreover have "takeWhile is_digit rest = []" "dropWhile is_digit rest = rest"
    using ends_value_not_digit \<open>ends_value rest\<close> by (cases rest; auto)+
  ultimately show ?thesis using ds(1) by (simp add: digits1_def)
qed

lemma json_integer_append:
  assumes "ds \<noteq> []" "list_all is_digit ds" "hd ds = 48 \<longrightarrow> ds = [48]" "ends_value rest"
  shows "json_integer (ds @ rest) = Some (ds, rest)"
proof -
  obtain c cs where "ds = c # cs" using assms(1) by (cases ds) auto
  then show ?thesis
    using assms digits1_append [OF assms(1,2,4)] by (auto simp: json_integer_def)
qed

lemma json_tail_none: "ends_value rest \<Longrightarrow> json_fraction rest = Some ([], rest) \<and> json_exponent rest = Some ([], rest)"
  using ends_value_not_digit by (cases rest) (auto simp: json_fraction_def json_exponent_def)

lemma json_number_append:
  assumes "plain_integer t" "ends_value rest"
  shows "json_number (t @ rest) = Some (t, rest)"
proof (cases "t \<noteq> [] \<and> hd t = 45")
  case True
  then obtain ds where t: "t = 45 # ds" by (cases t) auto
  with assms(1) have "ds \<noteq> []" "list_all is_digit ds" "hd ds = 48 \<longrightarrow> ds = [48]"
    by (auto simp: plain_integer_def Let_def)
  with assms(2) have "json_integer (ds @ rest) = Some (ds, rest)" by (intro json_integer_append)
  with t assms(2) show ?thesis by (simp add: json_number_def json_tail_none)
next
  case False
  with assms(1) have "t \<noteq> []" "list_all is_digit t" "hd t = 48 \<longrightarrow> t = [48]" "hd t \<noteq> 45"
    by (auto simp: plain_integer_def Let_def)
  with assms(2) have "json_integer (t @ rest) = Some (t, rest)" by (intro json_integer_append)
  with \<open>t \<noteq> []\<close> \<open>hd t \<noteq> 45\<close> assms(2) show ?thesis by (simp add: json_number_def json_tail_none)
qed

section \<open>Values are read back\<close>

text \<open>The values whose JSON text determines them.\<close>

fun json_ok :: "jsval \<Rightarrow> bool" where
  "json_ok JUndef = False"
| "json_ok JNull = True"
| "json_ok (JBool b) = True"
| "json_ok (JNum t) = plain_integer t"
| "json_ok (JStr s) = True"
| "json_ok (JArr xs) = (\<forall>x \<in> set xs. json_ok x)"
| "json_ok (JObj kvs) = (distinct (map fst kvs) \<and> (\<forall>kv \<in> set kvs. json_ok (snd kv)))"

definition json_text :: "jsval \<Rightarrow> jstr" where
  "json_text v = (case json_stringify v of None \<Rightarrow> [] | Some t \<Rightarrow> t)"

lemma json_text_simps [simp]:
  "json_text JNull = js ''null''"
  "json_text (JBool b) = (if b then js ''true'' else js ''false'')"
  "json_text (JStr s) = json_quote s"
  by (simp_all add: json_text_def)

lemma plain_integer_hd: "plain_integer t \<Longrightarrow> t \<noteq> [] \<and> (hd t = 45 \<or> is_digit (hd t))"
  by (cases t) (auto simp: plain_integer_def Let_def split: if_splits)

lemma plain_integer_stringify: "plain_integer t \<Longrightarrow> json_stringify (JNum t) = Some t"
proof -
  assume t: "plain_integer t"
  have "\<not> plain_integer (js ''NaN'') \<and> \<not> plain_integer (js ''Infinity'') \<and> \<not> plain_integer (js ''-Infinity'')"
    by (simp add: plain_integer_def js_def is_digit_def)
  with t show ?thesis by auto
qed

lemma json_text_Num [simp]: "plain_integer t \<Longrightarrow> json_text (JNum t) = t"
  by (simp add: json_text_def plain_integer_stringify del: json_stringify.simps)

lemma json_ok_text: "json_ok v \<Longrightarrow> json_stringify v = Some (json_text v)"
  by (cases v) (simp_all add: json_text_def plain_integer_stringify del: json_stringify.simps(4))

lemma json_text_Arr:
  "\<forall>x \<in> set xs. json_ok x \<Longrightarrow> json_text (JArr xs) = [91] @ join_text [44] (map json_text xs) @ [93]"
proof -
  assume "\<forall>x \<in> set xs. json_ok x"
  then have "map (\<lambda>x. case json_stringify x of None \<Rightarrow> js ''null'' | Some t \<Rightarrow> t) xs = map json_text xs"
    by (auto simp: json_ok_text)
  then show ?thesis unfolding json_text_def [of "JArr xs"] by (simp add: js_def del: map_eq_conv)
qed

definition member_text :: "jstr \<times> jsval \<Rightarrow> jstr" where
  "member_text kv = json_quote (fst kv) @ [58] @ json_text (snd kv)"

lemma json_text_Obj:
  "\<forall>kv \<in> set kvs. json_ok (snd kv) \<Longrightarrow> json_text (JObj kvs) = [123] @ join_text [44] (map member_text kvs) @ [125]"
proof -
  assume ok: "\<forall>kv \<in> set kvs. json_ok (snd kv)"
  then have "concat (map (\<lambda>kv. case json_stringify (snd kv) of None \<Rightarrow> []
          | Some t \<Rightarrow> [json_quote (fst kv) @ js '':'' @ t]) kvs) = map member_text kvs"
    by (induction kvs) (auto simp: json_ok_text member_text_def js_def)
  then show ?thesis by (simp add: json_text_def js_def)
qed

lemma json_text_hd:
  "json_ok v \<Longrightarrow> json_text v \<noteq> [] \<and> \<not> json_space (hd (json_text v)) \<and> hd (json_text v) \<noteq> 93"
proof (cases v)
  case (JNum t)
  assume "json_ok v"
  with JNum have "plain_integer t" by simp
  then have "t \<noteq> []" "hd t = 45 \<or> is_digit (hd t)" using plain_integer_hd by auto
  then show ?thesis using JNum \<open>plain_integer t\<close> by (auto simp: json_space_def is_digit_def)
qed (auto simp: json_text_Arr json_text_Obj json_quote_def json_space_def js_def)

lemma skip_space_id: "s \<noteq> [] \<Longrightarrow> \<not> json_space (hd s) \<Longrightarrow> skip_space s = s"
  by (cases s) (auto simp: skip_space_def)

lemma skip_space_mark [simp]:
  "skip_space (44 # r) = 44 # r" "skip_space (93 # r) = 93 # r" "skip_space (125 # r) = 125 # r"
  "skip_space (58 # r) = 58 # r" "skip_space (34 # r) = 34 # r" "skip_space [] = []"
  by (simp_all add: skip_space_def json_space_def)

lemma ends_value_mark [simp]:
  "ends_value (44 # r)" "ends_value (93 # r)" "ends_value (125 # r)" "ends_value (10 # r)" "ends_value []"
  by (simp_all add: ends_value_def)

definition reads_back :: "(jstr \<Rightarrow> jstr) \<Rightarrow> jsval \<Rightarrow> bool" where
  "reads_back num v \<longleftrightarrow> (\<forall>rest. ends_value rest \<longrightarrow> json_value num (json_text v @ rest) = Some (v, rest))"

lemma json_items_text:
  "xs \<noteq> [] \<Longrightarrow> \<forall>x \<in> set xs. reads_back num x \<Longrightarrow>
   json_items num acc (join_text [44] (map json_text xs) @ 93 # rest) = Some (acc @ xs, rest)"
proof (induction xs arbitrary: acc)
  case (Cons x xs)
  then have x: "ends_value r \<Longrightarrow> json_value num (json_text x @ r) = Some (x, r)" for r
    by (simp add: reads_back_def)
  show ?case
  proof (cases xs)
    case Nil
    then show ?thesis by (subst json_items.simps) (simp add: x)
  next
    case (Cons y ys)
    with Cons.IH Cons.prems have
      "json_items num (acc @ [x]) (join_text [44] (map json_text xs) @ 93 # rest) = Some (acc @ x # xs, rest)"
      by simp
    with Cons show ?thesis by (subst json_items.simps) (simp add: x)
  qed
qed simp

lemma put_key_fresh: "k \<notin> fst ` set kvs \<Longrightarrow> put_key k v kvs = kvs @ [(k, v)]"
  by (induction k v kvs rule: put_key.induct) auto

lemma json_quote_cons: "json_quote s @ r = 34 # (json_chars s @ 34 # r)"
  by (simp add: json_quote_def)

lemma json_members_text:
  "kvs \<noteq> [] \<Longrightarrow> distinct (map fst (acc @ kvs)) \<Longrightarrow> \<forall>kv \<in> set kvs. reads_back num (snd kv) \<Longrightarrow>
   json_members num acc (join_text [44] (map member_text kvs) @ 125 # rest) = Some (acc @ kvs, rest)"
proof (induction kvs arbitrary: acc)
  case (Cons kv kvs)
  obtain k v where kv: "kv = (k, v)" by fastforce
  with Cons.prems have v: "ends_value r \<Longrightarrow> json_value num (json_text v @ r) = Some (v, r)" for r
    by (simp add: reads_back_def)
  have put: "put_key k v acc = acc @ [(k, v)]"
    using Cons.prems(2) kv by (intro put_key_fresh) auto
  show ?case
  proof (cases kvs)
    case Nil
    then show ?thesis
      by (subst json_members.simps) (simp add: kv member_text_def json_quote_cons json_string_chars v put)
  next
    case (Cons y ys)
    have "json_members num (acc @ [(k, v)]) (join_text [44] (map member_text kvs) @ 125 # rest)
        = Some ((acc @ [(k, v)]) @ kvs, rest)"
      using Cons Cons.prems kv by (intro Cons.IH) auto
    with Cons show ?thesis
      by (subst json_members.simps) (simp add: kv member_text_def json_quote_cons json_string_chars v put)
  qed
qed simp

lemma json_value_scalar:
  assumes "s = json_text v" "json_ok v" "hd s \<noteq> 91" "hd s \<noteq> 123" "scalar_value num (s @ rest) = Some (v, rest)"
  shows "json_value num (s @ rest) = Some (v, rest)"
proof -
  have "s \<noteq> []" "\<not> json_space (hd s)" using json_text_hd [OF assms(2)] assms(1) by simp_all
  then obtain c cs where "s = c # cs" "\<not> json_space c" by (cases s) auto
  then show ?thesis
    using assms by (subst json_value.simps) (simp add: skip_space_id)
qed

lemma starts_with_append [simp]: "starts_with p (p @ r)"
  by (auto simp: starts_with_iff)

lemma scalar_value_literal:
  "scalar_value num (js ''null'' @ r) = Some (JNull, r)"
  "scalar_value num (js ''true'' @ r) = Some (JBool True, r)"
  "scalar_value num (js ''false'' @ r) = Some (JBool False, r)"
  by (simp_all add: scalar_value_def literal_value_def js_def is_digit_def)

lemma hd_literal: "hd (js (c # t)) = of_char c"
  by (simp add: js_def)

lemma json_value_text: "json_ok v \<Longrightarrow> reads_back num v"
proof (induction v)
  case (JNum t)
  have "json_value num (t @ rest) = Some (JNum t, rest)" if "ends_value rest" for rest
  proof (rule json_value_scalar)
    have "t \<noteq> []" "hd t = 45 \<or> is_digit (hd t)" using plain_integer_hd JNum by auto
    then show "hd t \<noteq> 91" "hd t \<noteq> 123" "scalar_value num (t @ rest) = Some (JNum t, rest)"
      using JNum that by (auto simp: is_digit_def scalar_value_def json_number_append number_value_def)
  qed (use JNum in simp_all)
  with JNum show ?case by (simp add: reads_back_def)
next
  case (JStr s)
  have "json_value num (json_quote s @ rest) = Some (JStr s, rest)" for rest
    by (rule json_value_scalar) (simp_all add: json_quote_def scalar_value_def json_string_chars)
  then show ?case by (simp add: reads_back_def)
next
  case (JArr xs)
  show ?case
  proof (cases "xs = []")
    case True
    then show ?thesis
      by (simp add: reads_back_def json_text_Arr) (subst json_value.simps, simp add: skip_space_id json_space_def)
  next
    case False
    then obtain x xs' where xs: "xs = x # xs'" by (cases xs) auto
    let ?body = "\<lambda>rest. join_text [44] (map json_text xs) @ 93 # rest"
    have hd: "?body rest \<noteq> [] \<and> \<not> json_space (hd (?body rest)) \<and> hd (?body rest) \<noteq> 93" for rest
      using json_text_hd [of x] JArr.prems xs by (cases xs') auto
    have "json_items num [] (?body rest) = Some (xs, rest)" for rest
      using json_items_text [OF False, of num "[]"] JArr by simp
    then have items: "json_items num [] (?body rest) = Some (xs, rest)" for rest .
    have "json_value num (91 # ?body rest) = Some (JArr xs, rest)" for rest
    proof -
      obtain c cs where b: "?body rest = c # cs" using hd [of rest] by (cases "?body rest") auto
      show ?thesis
        using hd [of rest] items [of rest] unfolding b
        by (subst json_value.simps) (simp add: skip_space_id json_space_def)
    qed
    then show ?thesis using JArr.prems by (simp add: reads_back_def json_text_Arr)
  qed
next
  case (JObj kvs)
  show ?case
  proof (cases "kvs = []")
    case True
    then show ?thesis
      by (simp add: reads_back_def json_text_Obj) (subst json_value.simps, simp add: skip_space_id json_space_def)
  next
    case False
    then obtain kv kvs' where kvs: "kvs = kv # kvs'" by (cases kvs) auto
    let ?body = "\<lambda>rest. join_text [44] (map member_text kvs) @ 125 # rest"
    have hd: "?body rest \<noteq> [] \<and> hd (?body rest) = 34" for rest
      using kvs by (cases kvs') (auto simp: member_text_def json_quote_def)
    have "\<forall>kv \<in> set kvs. reads_back num (snd kv)"
      using JObj by (metis json_ok.simps(7) snds.intros)
    then have "json_members num [] (?body rest) = Some (kvs, rest)" for rest
      using json_members_text [OF False, of "[]" num] JObj.prems by simp
    then have items: "json_members num [] (?body rest) = Some (kvs, rest)" for rest .
    have "json_value num (123 # ?body rest) = Some (JObj kvs, rest)" for rest
    proof -
      obtain c cs where b: "?body rest = c # cs" using hd [of rest] by (cases "?body rest") auto
      show ?thesis
        using hd [of rest] items [of rest] unfolding b
        by (subst json_value.simps) (simp add: skip_space_id json_space_def)
    qed
    then show ?thesis using JObj.prems by (simp add: reads_back_def json_text_Obj)
  qed
next
  case JNull
  show ?case unfolding reads_back_def
    by (intro allI impI json_value_scalar) (simp_all add: scalar_value_literal hd_literal)
next
  case (JBool b)
  show ?case unfolding reads_back_def
    by (intro allI impI json_value_scalar) (simp_all add: scalar_value_literal hd_literal)
qed simp

text \<open>
  \<open>JSON.parse\<close> reads back what \<open>JSON.stringify\<close> wrote, for every value the program stores: nested
  arrays and objects with distinct keys, any string (quotes, control characters and unpaired
  surrogates are escaped and come back), booleans, null and integers.
\<close>

lemma json_round_trip:
  assumes "json_ok v"
  shows "\<exists>t. json_stringify v = Some t \<and> json_parse num t = Some v"
proof -
  have "json_value num (json_text v) = Some (v, [])"
    using json_value_text [OF assms, of num] by (auto simp: reads_back_def dest: spec [of _ "[]"])
  then show ?thesis using json_ok_text [OF assms] by (simp add: json_parse_def)
qed

lemma json_round_trip_example:
  "\<exists>t. json_stringify (JObj [(js ''a@b.co'', JStr [10, 34]), (js ''n'', JArr [JNum (js ''12''), JNull])]) = Some t
     \<and> json_parse id t = Some (JObj [(js ''a@b.co'', JStr [10, 34]), (js ''n'', JArr [JNum (js ''12''), JNull])])"
  by (rule json_round_trip) (simp add: plain_integer_def is_digit_def js_def)

section \<open>Indented text\<close>

text \<open>
  \<open>JSON.stringify(v, null, 2)\<close>, at the indentation \<open>n\<close>. The operator's commands keep their files in this form.
\<close>

definition line_start :: "nat \<Rightarrow> jstr" where
  "line_start n = 10 # replicate n 32"

definition indented :: "nat \<Rightarrow> code_unit \<Rightarrow> code_unit \<Rightarrow> jstr list \<Rightarrow> jstr" where
  "indented n l r parts =
     (if parts = [] then [l, r]
      else l # line_start (n + 2) @ join_text (44 # line_start (n + 2)) parts @ line_start n @ [r])"

fun json_pretty :: "nat \<Rightarrow> jsval \<Rightarrow> jstr option" where
  "json_pretty n (JArr xs) =
     Some (indented n 91 93 (map (\<lambda>x. case json_pretty (n + 2) x of None \<Rightarrow> js ''null'' | Some t \<Rightarrow> t) xs))"
| "json_pretty n (JObj kvs) =
     Some (indented n 123 125 (concat (map (\<lambda>kv. case json_pretty (n + 2) (snd kv) of None \<Rightarrow> []
        | Some t \<Rightarrow> [json_quote (fst kv) @ js '': '' @ t]) kvs)))"
| "json_pretty n v = json_stringify v"

definition pretty_text :: "nat \<Rightarrow> jsval \<Rightarrow> jstr" where
  "pretty_text n v = (case json_pretty n v of None \<Rightarrow> [] | Some t \<Rightarrow> t)"

lemma json_ok_pretty: "json_ok v \<Longrightarrow> json_pretty n v = Some (pretty_text n v)"
  by (cases v) (simp_all add: pretty_text_def plain_integer_stringify del: json_stringify.simps(4))

definition pretty_member :: "nat \<Rightarrow> jstr \<times> jsval \<Rightarrow> jstr" where
  "pretty_member n kv = json_quote (fst kv) @ [58, 32] @ pretty_text n (snd kv)"

lemma pretty_text_Arr:
  "\<forall>x \<in> set xs. json_ok x \<Longrightarrow> pretty_text n (JArr xs) = indented n 91 93 (map (pretty_text (n + 2)) xs)"
proof -
  assume "\<forall>x \<in> set xs. json_ok x"
  then have "map (\<lambda>x. case json_pretty (n + 2) x of None \<Rightarrow> js ''null'' | Some t \<Rightarrow> t) xs = map (pretty_text (n + 2)) xs"
    by (auto simp: json_ok_pretty)
  then show ?thesis unfolding pretty_text_def [of n "JArr xs"] by (simp del: map_eq_conv)
qed

lemma pretty_text_Obj:
  "\<forall>kv \<in> set kvs. json_ok (snd kv) \<Longrightarrow> pretty_text n (JObj kvs) = indented n 123 125 (map (pretty_member (n + 2)) kvs)"
proof -
  assume ok: "\<forall>kv \<in> set kvs. json_ok (snd kv)"
  then have "concat (map (\<lambda>kv. case json_pretty (n + 2) (snd kv) of None \<Rightarrow> []
          | Some t \<Rightarrow> [json_quote (fst kv) @ js '': '' @ t]) kvs) = map (pretty_member (n + 2)) kvs"
    by (induction kvs) (auto simp: json_ok_pretty pretty_member_def js_def)
  then show ?thesis by (simp add: pretty_text_def)
qed

lemma skip_line_start [simp]: "skip_space (line_start n @ s) = skip_space s"
  by (simp add: skip_space_def line_start_def json_space_def) (induction n, simp_all add: json_space_def)

lemma skip_space_skip [simp]: "skip_space (skip_space s) = skip_space s"
  by (induction s) (simp_all add: skip_space_def)

lemma length_skip: "length (skip_space s) \<le> length s"
  by (simp add: skip_space_def length_dropWhile_le)

lemma json_value_skip: "json_value num (skip_space s) = json_value num s"
proof (cases "skip_space s")
  case Nil
  then show ?thesis by (simp add: json_value.simps [of num s] json_value.simps [of num "[]"])
next
  case (Cons c cs)
  then have "skip_space (c # cs) = c # cs" "length cs < length s"
    using skip_space_skip [of s] length_skip [of s] by simp_all
  then show ?thesis
    by (subst (1 2) json_value.simps) (simp add: Cons)
qed

lemma json_value_line [simp]: "json_value num (line_start n @ s) = json_value num s"
  by (metis json_value_skip skip_line_start)

definition pretty_reads :: "(jstr \<Rightarrow> jstr) \<Rightarrow> jsval \<Rightarrow> bool" where
  "pretty_reads num v \<longleftrightarrow> (\<forall>n rest. ends_value rest \<longrightarrow> json_value num (pretty_text n v @ rest) = Some (v, rest))"

lemma ends_value_line [simp]: "ends_value (line_start n @ r)"
  by (simp add: line_start_def)

lemma pretty_items:
  "xs \<noteq> [] \<Longrightarrow> \<forall>x \<in> set xs. pretty_reads num x \<Longrightarrow>
   json_items num acc (line_start m @ join_text (44 # line_start m) (map (pretty_text m) xs) @ line_start n @ 93 # rest)
     = Some (acc @ xs, rest)"
proof (induction xs arbitrary: acc)
  case (Cons x xs)
  then have x: "ends_value r \<Longrightarrow> json_value num (pretty_text m x @ r) = Some (x, r)" for r
    by (simp add: pretty_reads_def)
  show ?case
  proof (cases xs)
    case Nil
    then show ?thesis by (subst json_items.simps) (simp add: x)
  next
    case (Cons y ys)
    with Cons.IH Cons.prems have
      "json_items num (acc @ [x]) (line_start m @ join_text (44 # line_start m) (map (pretty_text m) xs) @ line_start n @ 93 # rest)
         = Some (acc @ x # xs, rest)"
      by simp
    with Cons show ?thesis by (subst json_items.simps) (simp add: x)
  qed
qed simp

lemma json_value_space: "json_value num (32 # s) = json_value num s"
  using json_value_skip [of num "32 # s"] json_value_skip [of num s] by (simp add: skip_space_def json_space_def)

lemma pretty_members:
  "kvs \<noteq> [] \<Longrightarrow> distinct (map fst (acc @ kvs)) \<Longrightarrow> \<forall>kv \<in> set kvs. pretty_reads num (snd kv) \<Longrightarrow>
   json_members num acc (line_start m @ join_text (44 # line_start m) (map (pretty_member m) kvs) @ line_start n @ 125 # rest)
     = Some (acc @ kvs, rest)"
proof (induction kvs arbitrary: acc)
  case (Cons kv kvs)
  obtain k v where kv: "kv = (k, v)" by fastforce
  with Cons.prems have v: "ends_value r \<Longrightarrow> json_value num (pretty_text m v @ r) = Some (v, r)" for r
    by (simp add: pretty_reads_def)
  have put: "put_key k v acc = acc @ [(k, v)]"
    using Cons.prems(2) kv by (intro put_key_fresh) auto
  show ?case
  proof (cases kvs)
    case Nil
    then show ?thesis
      by (subst json_members.simps)
        (simp add: kv pretty_member_def json_quote_cons json_string_chars json_value_space v put)
  next
    case (Cons y ys)
    have "json_members num (acc @ [(k, v)])
        (line_start m @ join_text (44 # line_start m) (map (pretty_member m) kvs) @ line_start n @ 125 # rest)
        = Some ((acc @ [(k, v)]) @ kvs, rest)"
      using Cons Cons.prems kv by (intro Cons.IH) auto
    with Cons show ?thesis
      by (subst json_members.simps)
        (simp add: kv pretty_member_def json_quote_cons json_string_chars json_value_space v put)
  qed
qed simp

lemma pretty_hd: "json_ok v \<Longrightarrow> pretty_text n v \<noteq> [] \<and> \<not> json_space (hd (pretty_text n v)) \<and> hd (pretty_text n v) \<noteq> 93"
proof (cases v)
  case (JNum t)
  assume "json_ok v"
  with JNum json_text_hd [of v] show ?thesis by (simp add: pretty_text_def json_text_def)
next
  case (JStr s)
  then show ?thesis by (simp add: pretty_text_def json_quote_def json_space_def)
qed (auto simp: pretty_text_Arr pretty_text_Obj pretty_text_def json_space_def js_def indented_def)

lemma pretty_scalar: "\<forall>xs. v \<noteq> JArr xs \<Longrightarrow> \<forall>kvs. v \<noteq> JObj kvs \<Longrightarrow> pretty_text n v = json_text v"
  by (cases v) (auto simp: pretty_text_def json_text_def)

lemma scalar_reads: "json_ok v \<Longrightarrow> \<forall>xs. v \<noteq> JArr xs \<Longrightarrow> \<forall>kvs. v \<noteq> JObj kvs \<Longrightarrow> pretty_reads num v"
  using json_value_text [of v num] by (simp add: pretty_reads_def reads_back_def pretty_scalar)

lemma json_pretty_reads: "json_ok v \<Longrightarrow> pretty_reads num v"
proof (induction v)
  case (JArr xs)
  have "json_value num (pretty_text n (JArr xs) @ rest) = Some (JArr xs, rest)" if "ends_value rest" for n rest
  proof (cases "xs = []")
    case True
    then show ?thesis
      by (simp add: pretty_text_Arr indented_def) (subst json_value.simps, simp add: skip_space_id json_space_def)
  next
    case False
    let ?body = "line_start (n + 2) @ join_text (44 # line_start (n + 2)) (map (pretty_text (n + 2)) xs) @ line_start n @ 93 # rest"
    obtain x xs' where xs: "xs = x # xs'" using False by (cases xs) auto
    have items: "json_items num [] ?body = Some (xs, rest)"
      using pretty_items [OF False, of num "[]"] JArr by simp
    have "skip_space ?body = join_text (44 # line_start (n + 2)) (map (pretty_text (n + 2)) xs) @ line_start n @ 93 # rest"
      using pretty_hd [of x "n + 2"] JArr.prems xs by (cases xs') (simp_all add: skip_space_id)
    moreover have "hd (skip_space ?body) \<noteq> 93" "skip_space ?body \<noteq> []"
      using calculation pretty_hd [of x "n + 2"] JArr.prems xs by (cases xs'; simp)+
    ultimately obtain d ds where d: "skip_space ?body = d # ds" "d \<noteq> 93" by (cases "skip_space ?body") auto
    have "json_value num (91 # ?body) = Some (JArr xs, rest)"
      by (subst json_value.simps) (simp add: skip_space_id json_space_def d items del: skip_line_start add_2_eq_Suc')
    then show ?thesis using JArr.prems False by (simp add: pretty_text_Arr indented_def del: add_2_eq_Suc')
  qed
  then show ?case by (simp add: pretty_reads_def)
next
  case (JObj kvs)
  have "json_value num (pretty_text n (JObj kvs) @ rest) = Some (JObj kvs, rest)" if "ends_value rest" for n rest
  proof (cases "kvs = []")
    case True
    then show ?thesis
      by (simp add: pretty_text_Obj indented_def) (subst json_value.simps, simp add: skip_space_id json_space_def)
  next
    case False
    let ?body = "line_start (n + 2) @ join_text (44 # line_start (n + 2)) (map (pretty_member (n + 2)) kvs) @ line_start n @ 125 # rest"
    obtain kv kvs' where kvs: "kvs = kv # kvs'" using False by (cases kvs) auto
    have "\<forall>kv \<in> set kvs. pretty_reads num (snd kv)"
      using JObj by (metis json_ok.simps(7) snds.intros)
    then have items: "json_members num [] ?body = Some (kvs, rest)"
      using pretty_members [OF False, of "[]" num] JObj.prems by simp
    have "hd (join_text (44 # line_start (n + 2)) (map (pretty_member (n + 2)) kvs) @ line_start n @ 125 # rest) = 34"
      using kvs by (cases kvs') (simp_all add: pretty_member_def json_quote_def)
    then have "hd (skip_space ?body) = 34" "skip_space ?body \<noteq> []"
      using kvs by (cases kvs'; simp add: pretty_member_def json_quote_cons)+
    then obtain d ds where d: "skip_space ?body = d # ds" "d \<noteq> 125" by (cases "skip_space ?body") auto
    have "json_value num (123 # ?body) = Some (JObj kvs, rest)"
      by (subst json_value.simps) (simp add: skip_space_id json_space_def d items del: skip_line_start add_2_eq_Suc')
    then show ?thesis using JObj.prems False by (simp add: pretty_text_Obj indented_def del: add_2_eq_Suc')
  qed
  then show ?case by (simp add: pretty_reads_def)
qed (auto intro!: scalar_reads)

lemma pretty_round_trip: "json_ok v \<Longrightarrow> json_parse num (pretty_text n v @ [10]) = Some v"
  using json_pretty_reads [of v num]
  by (simp add: pretty_reads_def json_parse_def) (simp add: skip_space_def json_space_def)

end
