(* ===== verification/Js_Date.thy ===== *)
theory Js_Date
  imports Js_Value
begin

text \<open>
  Dates: \<open>toISOString\<close>, \<open>toUTCString\<close> and \<open>Date.parse\<close> on the texts \<open>toISOString\<close> writes, on the
  proleptic Gregorian calendar. A time is a number of milliseconds since 1970, as \<open>Date.now()\<close>
  returns it; the four-digit years 0 to 9999 are covered (\<open>in_era\<close>), outside of which ECMAScript
  writes six-digit years.

  The program stores every timestamp as its ISO text and compares the texts in SQL, so the lemma
  that carries its expiry rules is \<open>iso_less_iff\<close>: within the era the order of the texts is the
  order of the times.
\<close>

section \<open>The calendar\<close>

definition is_leap :: "nat \<Rightarrow> bool" where
  "is_leap y \<longleftrightarrow> y mod 4 = 0 \<and> (y mod 100 \<noteq> 0 \<or> y mod 400 = 0)"

text \<open>Days from the first day of the year 0 to the first day of the year \<open>y\<close>.\<close>

definition year_start :: "nat \<Rightarrow> nat" where
  "year_start y = 365 * y + (y + 399) div 400 + (y + 3) div 4 - (y + 99) div 100"

definition days_in_year :: "nat \<Rightarrow> nat" where
  "days_in_year y = (if is_leap y then 366 else 365)"

lemma ceil_step: "0 < k \<Longrightarrow> (Suc y + (k - 1)) div k = (y + (k - 1)) div k + (if y mod k = 0 then 1 else 0)"
  for k y :: nat
proof -
  assume k: "0 < k"
  define q r where "q = y div k" and "r = y mod k"
  have y: "y = k * q + r" and r: "r < k" using k by (simp_all add: q_def r_def)
  have shift: "(k * c + d) div k = c" if "d < k" for c d
    using that by (simp add: div_mult_self4)
  have "Suc y + (k - 1) = k * (q + 1) + r" using y k by (simp add: algebra_simps)
  then have up: "(Suc y + (k - 1)) div k = q + 1" by (simp only: shift [OF r])
  show ?thesis
  proof (cases "r = 0")
    case True
    then have "(y + (k - 1)) div k = q" using y shift [of "k - 1" q] k by simp
    with up True r_def show ?thesis by simp
  next
    case False
    then have "y + (k - 1) = k * (q + 1) + (r - 1)" using y k by (simp add: algebra_simps)
    then have "(y + (k - 1)) div k = q + 1" using shift [of "r - 1" "q + 1"] r by simp
    with up False r_def show ?thesis by simp
  qed
qed

lemma century_le: "(y + 99) div 100 \<le> (y + 3) div 4" for y :: nat
proof -
  define q where "q = (y + 99) div 100"
  have "q * 100 \<le> y + 99" unfolding q_def by (rule div_times_less_eq_dividend)
  then have "q * 4 \<le> y + 3" by linarith
  then have "q \<le> (y + 3) div 4" by (subst less_eq_div_iff_mult_less_eq) simp_all
  then show ?thesis unfolding q_def .
qed

lemma year_start_Suc: "year_start (Suc y) = year_start y + days_in_year y"
proof -
  define a b c where "a = (y + 3) div 4" and "b = (y + 99) div 100" and "c = (y + 399) div 400"
  have a: "(Suc y + 3) div 4 = a + (if y mod 4 = 0 then 1 else 0)"
    and b: "(Suc y + 99) div 100 = b + (if y mod 100 = 0 then 1 else 0)"
    and c: "(Suc y + 399) div 400 = c + (if y mod 400 = 0 then 1 else 0)"
    using ceil_step [of 4 y] ceil_step [of 100 y] ceil_step [of 400 y]
    unfolding a_def b_def c_def by simp_all
  have "b \<le> a" unfolding a_def b_def by (rule century_le)
  moreover have "y mod 400 = 0 \<Longrightarrow> y mod 100 = 0" using mod_mod_cancel [of 100 400 y] by simp
  moreover have "y mod 100 = 0 \<Longrightarrow> y mod 4 = 0" using mod_mod_cancel [of 4 100 y] by simp
  ultimately show ?thesis
    unfolding year_start_def a b c a_def [symmetric] b_def [symmetric] c_def [symmetric] days_in_year_def is_leap_def
    by (cases "y mod 4 = 0"; cases "y mod 100 = 0"; cases "y mod 400 = 0") simp_all
qed

lemma year_start_0 [simp]: "year_start 0 = 0"
  by (simp add: year_start_def)

lemma year_start_ge: "365 * y \<le> year_start y"
  by (induction y) (auto simp: year_start_Suc days_in_year_def)

lemma year_start_le: "year_start y \<le> 366 * y"
  by (induction y) (auto simp: year_start_Suc days_in_year_def)

lemma year_start_mono: "y \<le> z \<Longrightarrow> year_start y \<le> year_start z"
  by (rule lift_Suc_mono_le) (auto simp: year_start_Suc)

function year_from :: "nat \<Rightarrow> nat \<Rightarrow> nat" where
  "year_from y day = (if year_start (Suc y) \<le> day then year_from (Suc y) day else y)"
  by pat_completeness auto
termination
proof (relation "measure (\<lambda>(y, day). day - y)")
  fix y day
  assume "year_start (Suc y) \<le> day"
  then show "((Suc y, day), y, day) \<in> measure (\<lambda>(y, day). day - y)"
    using year_start_ge [of "Suc y"] by simp
qed simp

declare year_from.simps [simp del]

definition year_of :: "nat \<Rightarrow> nat" where
  "year_of day = year_from (day div 366) day"

lemma year_from_spec:
  "year_start y \<le> day \<Longrightarrow> year_start (year_from y day) \<le> day \<and> day < year_start (Suc (year_from y day))"
proof (induction y day rule: year_from.induct)
  case (1 y day)
  then show ?case by (subst (1 2) year_from.simps) auto
qed

lemma year_of_spec: "year_start (year_of day) \<le> day \<and> day < year_start (year_of day) + days_in_year (year_of day)"
proof -
  have "year_start (day div 366) \<le> day"
    using year_start_le [of "day div 366"] by (rule order_trans) simp
  then show ?thesis unfolding year_of_def using year_from_spec by (simp add: year_start_Suc)
qed

lemma year_of_mono: "d \<le> e \<Longrightarrow> year_of d \<le> year_of e"
proof (rule ccontr)
  assume "d \<le> e" "\<not> year_of d \<le> year_of e"
  then have "year_start (Suc (year_of e)) \<le> year_start (year_of d)" by (intro year_start_mono) simp
  then show False using year_of_spec [of d] year_of_spec [of e] \<open>d \<le> e\<close> by (simp add: year_start_Suc)
qed

lemma year_of_unique:
  assumes "year_start y \<le> d" "d < year_start (Suc y)"
  shows "year_of d = y"
proof (rule antisym)
  show "year_of d \<le> y"
  proof (rule ccontr)
    assume "\<not> year_of d \<le> y"
    then have "year_start (Suc y) \<le> year_start (year_of d)" by (intro year_start_mono) simp
    then show False using assms year_of_spec [of d] by simp
  qed
  show "y \<le> year_of d"
  proof (rule ccontr)
    assume "\<not> y \<le> year_of d"
    then have "year_start (Suc (year_of d)) \<le> year_start y" by (intro year_start_mono) simp
    then show False using assms year_of_spec [of d] by (simp add: year_start_Suc)
  qed
qed

text \<open>Days of the year before the month \<open>m\<close>, counted from 0, and the month of a day of the year.\<close>

definition month_start :: "bool \<Rightarrow> nat \<Rightarrow> nat" where
  "month_start leap m = [0, 31, 59, 90, 120, 151, 181, 212, 243, 273, 304, 334] ! m + (if leap \<and> 2 \<le> m then 1 else 0)"

definition month_of :: "bool \<Rightarrow> nat \<Rightarrow> nat" where
  "month_of leap d =
     (let l = (if leap then 1 else 0) in
      if d < 31 then 0 else if d < 59 + l then 1 else if d < 90 + l then 2 else if d < 120 + l then 3
      else if d < 151 + l then 4 else if d < 181 + l then 5 else if d < 212 + l then 6
      else if d < 243 + l then 7 else if d < 273 + l then 8 else if d < 304 + l then 9
      else if d < 334 + l then 10 else 11)"

lemma month_of_less: "month_of leap d < 12"
  by (simp add: month_of_def Let_def)

lemma month_start_values [simp]:
  "month_start l 0 = 0" "month_start l (Suc 0) = 31" "month_start l 2 = 59 + of_bool l" "month_start l 3 = 90 + of_bool l"
  "month_start l 4 = 120 + of_bool l" "month_start l 5 = 151 + of_bool l" "month_start l 6 = 181 + of_bool l"
  "month_start l 7 = 212 + of_bool l" "month_start l 8 = 243 + of_bool l" "month_start l 9 = 273 + of_bool l"
  "month_start l 10 = 304 + of_bool l" "month_start l 11 = 334 + of_bool l"
  by (simp_all add: month_start_def of_bool_def)

lemma month_of_bound:
  assumes "d < (if leap then 366 else 365)"
  shows "month_start leap (month_of leap d) \<le> d \<and> d < month_start leap (month_of leap d) + 31"
proof -
  define l :: nat where "l = of_bool leap"
  have "d < 365 + l" using assms by (cases leap) (simp_all add: l_def)
  moreover have "(if leap then 1 else 0) = l" "l \<le> 1" by (simp_all add: l_def)
  ultimately show ?thesis
    unfolding month_of_def Let_def by (simp split: if_split add: l_def [symmetric])
qed

lemma month_of_sum:
  "month_of leap d = (let l = (if leap then 1 else 0) in
     of_bool (31 \<le> d) + of_bool (59 + l \<le> d) + of_bool (90 + l \<le> d) + of_bool (120 + l \<le> d)
     + of_bool (151 + l \<le> d) + of_bool (181 + l \<le> d) + of_bool (212 + l \<le> d) + of_bool (243 + l \<le> d)
     + of_bool (273 + l \<le> d) + of_bool (304 + l \<le> d) + of_bool (334 + l \<le> d))"
  by (simp add: month_of_def Let_def)

lemma month_of_mono: "d \<le> e \<Longrightarrow> month_of leap d \<le> month_of leap e"
  unfolding month_of_sum Let_def by (intro add_mono) (auto simp: of_bool_def)

section \<open>Decimal fields\<close>

primrec digits :: "nat \<Rightarrow> nat \<Rightarrow> jstr" where
  "digits 0 n = []"
| "digits (Suc w) n = digits w (n div 10) @ [digit_text (n mod 10)]"

lemma length_digits [simp]: "length (digits w n) = w"
  by (induction w arbitrary: n) auto

lemma digit_text_less: "a < 10 \<Longrightarrow> b < 10 \<Longrightarrow> digit_text a < digit_text b \<longleftrightarrow> a < b"
proof -
  have "list_all (\<lambda>a. list_all (\<lambda>b. digit_text a < digit_text b \<longleftrightarrow> a < b) [0..<10]) [0..<10]" by code_simp
  then show "a < 10 \<Longrightarrow> b < 10 \<Longrightarrow> digit_text a < digit_text b \<longleftrightarrow> a < b" by (simp add: list_all_iff)
qed

lemma append_less_append:
  "length x = length y \<Longrightarrow> x @ s < y @ t \<longleftrightarrow> x < y \<or> (x = y \<and> s < t)" for x :: "'a :: linorder list"
  by (induction x y rule: list_induct2) auto

lemma mono_less:
  fixes f :: "nat \<Rightarrow> 'a :: linorder"
  assumes "\<And>a b. P a \<Longrightarrow> P b \<Longrightarrow> a < b \<Longrightarrow> f a < f b" "P a" "P b"
  shows "f a < f b \<longleftrightarrow> a < b"
  using assms by (metis linorder_neqE order_less_asym order_less_irrefl)

lemma digits_less: "a < b \<Longrightarrow> b < 10 ^ w \<Longrightarrow> digits w a < digits w b"
proof (induction w arbitrary: a b)
  case (Suc w)
  have "a div 10 \<le> b div 10" using Suc.prems(1) by (intro div_le_mono) simp
  then consider "a div 10 < b div 10" | "a div 10 = b div 10" "a mod 10 < b mod 10"
    using Suc.prems(1) div_mult_mod_eq [of a 10] div_mult_mod_eq [of b 10] by linarith
  then show ?case
  proof cases
    case 1
    moreover have "b div 10 < 10 ^ w" using Suc.prems(2) by (simp add: less_mult_imp_div_less mult.commute)
    ultimately have "digits w (a div 10) < digits w (b div 10)" by (rule Suc.IH)
    then show ?thesis by (simp add: append_less_append)
  next
    case 2
    then show ?thesis by (simp add: append_less_append digit_text_less)
  qed
qed simp

lemma digits_value_snoc: "digits_value (ds @ [d]) = 10 * digits_value ds + unat (d - 48)"
  by (simp add: digits_value_def)

lemma unat_digit_text: "n < 10 \<Longrightarrow> unat (digit_text n - 48) = n"
  by (simp add: digit_text_def unat_of_nat take_bit_nat_eq_self)

lemma digits_value_digits: "n < 10 ^ w \<Longrightarrow> digits_value (digits w n) = n"
proof (induction w arbitrary: n)
  case (Suc w)
  then have "n div 10 < 10 ^ w" by (simp add: less_mult_imp_div_less mult.commute)
  with Suc.IH show ?case by (simp add: digits_value_snoc unat_digit_text)
qed (simp add: digits_value_def)

section \<open>ISO texts\<close>

definition day_ms :: nat where
  "day_ms = 86400000"

definition epoch_day :: nat where
  "epoch_day = 719528"

definition era_ms :: "int \<Rightarrow> nat" where
  "era_ms t = nat (t + int (epoch_day * day_ms))"

definition in_era :: "int \<Rightarrow> bool" where
  "in_era t \<longleftrightarrow> 0 \<le> t + int (epoch_day * day_ms) \<and> era_ms t div day_ms < year_start 10000"

definition day_of_year :: "nat \<Rightarrow> nat" where
  "day_of_year day = day - year_start (year_of day)"

definition month_index :: "nat \<Rightarrow> nat" where
  "month_index day = month_of (is_leap (year_of day)) (day_of_year day)"

definition day_index :: "nat \<Rightarrow> nat" where
  "day_index day = day_of_year day - month_start (is_leap (year_of day)) (month_index day)"

definition date_text :: "nat \<Rightarrow> jstr" where
  "date_text day = digits 4 (year_of day) @ [45] @ digits 2 (Suc (month_index day)) @ [45] @ digits 2 (Suc (day_index day))"

definition hms_text :: "nat \<Rightarrow> jstr" where
  "hms_text ms = digits 2 (ms div 3600000) @ [58] @ digits 2 (ms mod 3600000 div 60000) @ [58] @ digits 2 (ms mod 60000 div 1000)"

definition clock_text :: "nat \<Rightarrow> jstr" where
  "clock_text ms = hms_text ms @ [46] @ digits 3 (ms mod 1000)"

text \<open>\<open>new Date(t).toISOString()\<close>.\<close>

definition iso :: "int \<Rightarrow> jstr" where
  "iso t = date_text (era_ms t div day_ms) @ [84] @ clock_text (era_ms t mod day_ms) @ [90]"

text \<open>\<open>new Date(t).toUTCString()\<close>; the first day of the year 0 was a Saturday.\<close>

definition utc_text :: "int \<Rightarrow> jstr" where
  "utc_text t =
     (let day = era_ms t div day_ms in
      js ([''Sat'', ''Sun'', ''Mon'', ''Tue'', ''Wed'', ''Thu'', ''Fri''] ! (day mod 7)) @ js '', '' @
      digits 2 (Suc (day_index day)) @ js '' '' @
      js ([''Jan'', ''Feb'', ''Mar'', ''Apr'', ''May'', ''Jun'', ''Jul'', ''Aug'', ''Sep'', ''Oct'', ''Nov'', ''Dec''] ! (month_index day)) @
      js '' '' @ digits 4 (year_of day) @ js '' '' @ hms_text (era_ms t mod day_ms) @ js '' GMT'')"

text \<open>
  \<open>Date.parse\<close>: the inverse on the texts \<open>iso\<close> writes; every other text is left to the
  implementation-defined parser, the parameter \<open>ext\<close>. \<open>None\<close> is \<open>NaN\<close>.
\<close>

definition iso_value :: "jstr \<Rightarrow> int" where
  "iso_value s =
     (let f = (\<lambda>a n. digits_value (take n (drop a s)));
          y = f 0 4;
          day = year_start y + month_start (is_leap y) (f 5 2 - 1) + (f 8 2 - 1);
          ms = f 11 2 * 3600000 + f 14 2 * 60000 + f 17 2 * 1000 + f 20 3
      in int (day * day_ms + ms) - int (epoch_day * day_ms))"

definition month_field_ok :: "jstr \<Rightarrow> bool" where
  "month_field_ok s \<longleftrightarrow> (let m = digits_value (take 2 (drop 5 s)) in 1 \<le> m \<and> m \<le> 12)"

definition date_parse :: "(jstr \<Rightarrow> int option) \<Rightarrow> jstr \<Rightarrow> int option" where
  "date_parse ext s =
     (if length s = 24 \<and> list_all is_digit (take 4 s) \<and> month_field_ok s \<and> in_era (iso_value s) \<and> iso (iso_value s) = s
      then Some (iso_value s) else ext s)"

section \<open>Order\<close>

lemma day_of_year_less: "day_of_year d < (if is_leap (year_of d) then 366 else 365)"
  using year_of_spec [of d] by (auto simp: day_of_year_def days_in_year_def)

lemma month_index_less: "month_index d < 12"
  by (simp add: month_index_def month_of_less)

lemma day_index_less: "day_index d < 31"
  using month_of_bound [OF day_of_year_less, of d] unfolding day_index_def month_index_def by linarith

lemma day_split: "year_start (year_of d) + month_start (is_leap (year_of d)) (month_index d) + day_index d = d"
  using month_of_bound [OF day_of_year_less, of d] year_of_spec [of d]
  by (simp add: day_index_def month_index_def) (simp add: day_of_year_def)

lemma year_of_less: "d < year_start 10000 \<Longrightarrow> year_of d < 10000"
  by (metis leD linorder_not_less order_trans year_of_spec year_start_mono)

lemma length_date_text [simp]: "length (date_text d) = 10"
  by (simp add: date_text_def)

lemma length_clock_text [simp]: "length (clock_text ms) = 12"
  by (simp add: clock_text_def hms_text_def)

lemma date_text_less:
  assumes "d < e" "e < year_start 10000"
  shows "date_text d < date_text e"
proof -
  have y: "year_of d \<le> year_of e" using assms(1) by (intro year_of_mono) simp
  have bounds: "year_of e < 10 ^ 4" "Suc (month_index e) < 10 ^ 2" "Suc (day_index e) < 10 ^ 2"
    using year_of_less [OF assms(2)] month_index_less [of e] day_index_less [of e] by simp_all
  consider "year_of d < year_of e" | "year_of d = year_of e" "month_index d < month_index e"
    | "year_of d = year_of e" "month_index d = month_index e" "day_index d < day_index e"
  proof (cases "year_of d = year_of e")
    case True
    have "day_of_year d \<le> day_of_year e" using assms(1) True by (simp add: day_of_year_def)
    then have "month_index d \<le> month_index e" using True by (simp add: month_index_def month_of_mono)
    moreover have "day_index d < day_index e" if "month_index d = month_index e"
      using day_split [of d] day_split [of e] assms(1) True that by simp
    ultimately show ?thesis using True that by (metis le_neq_implies_less)
  qed (use y in auto)
  then show ?thesis
  proof cases
    case 1
    then have "digits 4 (year_of d) < digits 4 (year_of e)" using bounds by (intro digits_less) auto
    then show ?thesis by (simp add: date_text_def append_less_append del: digits.simps)
  next
    case 2
    then have "digits 2 (Suc (month_index d)) < digits 2 (Suc (month_index e))" using bounds by (intro digits_less) auto
    with 2 show ?thesis by (simp add: date_text_def append_less_append)
  next
    case 3
    then have "digits 2 (Suc (day_index d)) < digits 2 (Suc (day_index e))" using bounds by (intro digits_less) auto
    with 3 show ?thesis by (simp add: date_text_def append_less_append)
  qed
qed

lemma mixed_less: "a < b \<Longrightarrow> a div k < b div k \<or> (a div k = b div k \<and> a mod k < b mod k)" for a b k :: nat
  by (metis div_le_mono div_mult_mod_eq le_neq_implies_less less_or_eq_imp_le nat_add_left_cancel_less)

lemma clock_text_less:
  assumes "a < b" "b < day_ms"
  shows "clock_text a < clock_text b"
proof -
  have mod_mod: "x mod 3600000 mod 60000 = x mod 60000" "x mod 60000 mod 1000 = x mod 1000" for x :: nat
    by (simp_all add: mod_mod_cancel)
  have bounds: "b div 3600000 < 10 ^ 2" "b mod 3600000 div 60000 < 10 ^ 2" "b mod 60000 div 1000 < 10 ^ 2" "b mod 1000 < 10 ^ 3"
    using assms(2) by (simp_all add: day_ms_def less_mult_imp_div_less)
  consider "a div 3600000 < b div 3600000"
    | "a div 3600000 = b div 3600000" "a mod 3600000 div 60000 < b mod 3600000 div 60000"
    | "a div 3600000 = b div 3600000" "a mod 3600000 div 60000 = b mod 3600000 div 60000"
        "a mod 60000 div 1000 < b mod 60000 div 1000"
    | "a div 3600000 = b div 3600000" "a mod 3600000 div 60000 = b mod 3600000 div 60000"
        "a mod 60000 div 1000 = b mod 60000 div 1000" "a mod 1000 < b mod 1000"
    using mixed_less [OF assms(1), of 3600000] mixed_less [of "a mod 3600000" "b mod 3600000" 60000]
      mixed_less [of "a mod 60000" "b mod 60000" 1000] unfolding mod_mod by blast
  then show ?thesis
    unfolding clock_text_def hms_text_def using bounds
    by cases (simp_all only: append_less_append length_append length_digits append_assoc digits_less simp_thms)
qed

lemma iso_mono: "s < t \<Longrightarrow> in_era s \<Longrightarrow> in_era t \<Longrightarrow> iso s < iso t"
proof -
  assume st: "s < t" and era: "in_era s" "in_era t"
  then have less: "era_ms s < era_ms t" by (auto simp: in_era_def era_ms_def)
  have "day_ms > 0" by (simp add: day_ms_def)
  then have ms: "era_ms t mod day_ms < day_ms" by simp
  consider "era_ms s div day_ms < era_ms t div day_ms"
    | "era_ms s div day_ms = era_ms t div day_ms" "era_ms s mod day_ms < era_ms t mod day_ms"
    using mixed_less [OF less, of day_ms] by blast
  then show "iso s < iso t"
  proof cases
    case 1
    then have "date_text (era_ms s div day_ms) < date_text (era_ms t div day_ms)"
      using era(2) by (intro date_text_less) (auto simp: in_era_def)
    then show ?thesis by (simp add: iso_def append_less_append)
  next
    case 2
    then have "clock_text (era_ms s mod day_ms) < clock_text (era_ms t mod day_ms)"
      using ms by (intro clock_text_less)
    with 2(1) show ?thesis by (simp add: iso_def append_less_append)
  qed
qed

lemma iso_less_iff: "in_era s \<Longrightarrow> in_era t \<Longrightarrow> iso s < iso t \<longleftrightarrow> s < t"
  by (metis iso_mono linorder_neqE order_less_asym)

lemma iso_le_iff: "in_era s \<Longrightarrow> in_era t \<Longrightarrow> iso s \<le> iso t \<longleftrightarrow> s \<le> t"
  by (metis iso_less_iff linorder_not_less)

lemma iso_eq_iff: "in_era s \<Longrightarrow> in_era t \<Longrightarrow> iso s = iso t \<longleftrightarrow> s = t"
  by (metis iso_less_iff less_irrefl linorder_neqE)

lemma length_iso [simp]: "length (iso t) = 24"
  by (simp add: iso_def)

lemma digits_are_digits: "list_all is_digit (digits w n)"
proof (induction w arbitrary: n)
  case (Suc w)
  have "list_all (\<lambda>d. is_digit (digit_text d)) [0..<10]" by code_simp
  then have "is_digit (digit_text (n mod 10))" by (simp add: list_all_iff)
  with Suc show ?case by simp
qed simp

lemma take_drop_field: "length x = a \<Longrightarrow> length y = n \<Longrightarrow> take n (drop a (x @ y @ z)) = y"
  by simp

section \<open>Round trip\<close>

lemma iso_fields:
  defines "day \<equiv> \<lambda>t. era_ms t div day_ms" and "ms \<equiv> \<lambda>t. era_ms t mod day_ms"
  shows "take 4 (drop 0 (iso t)) = digits 4 (year_of (day t))"
    "take 2 (drop 5 (iso t)) = digits 2 (Suc (month_index (day t)))"
    "take 2 (drop 8 (iso t)) = digits 2 (Suc (day_index (day t)))"
    "take 2 (drop 11 (iso t)) = digits 2 (ms t div 3600000)"
    "take 2 (drop 14 (iso t)) = digits 2 (ms t mod 3600000 div 60000)"
    "take 2 (drop 17 (iso t)) = digits 2 (ms t mod 60000 div 1000)"
    "take 3 (drop 20 (iso t)) = digits 3 (ms t mod 1000)"
  unfolding iso_def date_text_def clock_text_def hms_text_def day_def ms_def
  by (simp_all del: digits.simps)

lemma split_sum: "m = a + r \<Longrightarrow> r = b + r' \<Longrightarrow> r' = c + r'' \<Longrightarrow> a + b + c + r'' = m" for m :: nat
  by simp

lemma iso_value_iso: "in_era t \<Longrightarrow> iso_value (iso t) = t"
proof -
  assume era: "in_era t"
  define d m where "d = era_ms t div day_ms" and "m = era_ms t mod day_ms"
  have m: "m < 86400000" by (simp add: m_def day_ms_def)
  have dl: "d < year_start 10000" using era by (simp add: in_era_def d_def)
  have vals: "digits_value (digits 4 (year_of d)) = year_of d"
    "digits_value (digits 2 (Suc (month_index d))) = Suc (month_index d)"
    "digits_value (digits 2 (Suc (day_index d))) = Suc (day_index d)"
    using year_of_less [OF dl] month_index_less [of d] day_index_less [of d]
    by (simp_all add: digits_value_digits del: digits.simps)
  have times: "digits_value (digits 2 (m div 3600000)) = m div 3600000"
    "digits_value (digits 2 (m mod 3600000 div 60000)) = m mod 3600000 div 60000"
    "digits_value (digits 2 (m mod 60000 div 1000)) = m mod 60000 div 1000"
    "digits_value (digits 3 (m mod 1000)) = m mod 1000"
    using m by (simp_all add: digits_value_digits less_mult_imp_div_less del: digits.simps)
  have split: "m div 3600000 * 3600000 + m mod 3600000 div 60000 * 60000 + m mod 60000 div 1000 * 1000 + m mod 1000 = m"
  proof (rule split_sum)
    show "m = m div 3600000 * 3600000 + m mod 3600000" by simp
    show "m mod 3600000 = m mod 3600000 div 60000 * 60000 + m mod 60000"
      using div_mult_mod_eq [of "m mod 3600000" 60000] by (simp add: mod_mod_cancel)
    show "m mod 60000 = m mod 60000 div 1000 * 1000 + m mod 1000"
      using div_mult_mod_eq [of "m mod 60000" 1000] by (simp add: mod_mod_cancel)
  qed
  have "iso_value (iso t) = int (d * day_ms + m) - int (epoch_day * day_ms)"
    unfolding iso_value_def Let_def iso_fields d_def [symmetric] m_def [symmetric] vals times split
    using day_split [of d] by simp
  also have "d * day_ms + m = era_ms t" by (simp add: d_def m_def)
  also have "int (era_ms t) - int (epoch_day * day_ms) = t" using era by (simp add: in_era_def era_ms_def)
  finally show ?thesis .
qed

lemma date_parse_iso: "in_era t \<Longrightarrow> date_parse ext (iso t) = Some t"
proof -
  assume era: "in_era t"
  have "month_field_ok (iso t)"
    using month_index_less [of "era_ms t div day_ms"]
    by (simp add: month_field_ok_def Let_def iso_fields digits_value_digits del: digits.simps)
  moreover have "list_all is_digit (take 4 (iso t))"
    using iso_fields(1) [of t] digits_are_digits by simp
  ultimately show ?thesis using era by (simp add: date_parse_def iso_value_iso)
qed

text \<open>
  The timestamps the program stores order and read back as times: between the years 0 and 9999
  the ISO texts compare in SQL exactly as the times they stand for, \<open>Date.parse\<close> returns the time
  that was written, and the text has 24 characters. (The expiry of sessions, of idempotency keys
  and of retained mail rests on both facts.)
\<close>

lemma iso_order_and_round_trip:
  assumes "in_era s" "in_era t"
  shows "(iso s < iso t) = (s < t) \<and> (iso s = iso t) = (s = t)
    \<and> date_parse ext (iso t) = Some t \<and> length (iso t) = 24"
  using assms by (simp add: iso_less_iff iso_eq_iff date_parse_iso)

lemma iso_order_example:
  "(iso 0 < iso 1704067199999) = ((0::int) < 1704067199999) \<and> (iso 0 = iso 1704067199999) = ((0::int) = 1704067199999)
    \<and> date_parse (\<lambda>_. None) (iso 1704067199999) = Some 1704067199999 \<and> length (iso 1704067199999) = 24"
  by (rule iso_order_and_round_trip) (simp_all add: in_era_def era_ms_def epoch_day_def day_ms_def year_start_def)

end
