(* ===== verification/Delivery.thy ===== *)
theory Delivery
  imports Lib_Text Js_Json Js_Date "HOL-Library.Multiset"
begin

text \<open>
  Delivery tracking without the database: the rank of a delivery status, the summary of the
  recipients of a message (\<open>updateRecipientSummary\<close>, \<open>src/src/providers/events.ts\<close>), its aggregate
  (\<open>aggregateDeliveryStatus\<close>, \<open>src/src/lib.ts\<close>) and the normalisation of the three providers'
  events (\<open>normalizeResendEvent\<close>, \<open>normalizeBrevoEvent\<close>, \<open>normalizeCloudflareQueueEvent\<close>).

  Providers deliver events late, repeatedly and out of order. The locale \<open>rank_merge\<close> is the
  argument that this does not matter: keeping the higher-ranked status is associative, commutative
  and idempotent when the ranks tell the statuses apart, so the result of a batch of events depends
  only on which events it has.

  A \<open>Record<string, string>\<close> is the list of its properties in insertion order; the names that every
  JavaScript object inherits (\<open>constructor\<close> and the like) are not properties of it here.
\<close>

section \<open>The platform\<close>

text \<open>What the runtime computes for the program, apart from the database and the network.\<close>

record platform =
  uni :: unicode
  num_text :: "jstr \<Rightarrow> jstr"
  date_ext :: "jstr \<Rightarrow> int option"
  sha256_digest :: "bytes \<Rightarrow> bytes"
  hmac_digest :: "bytes \<Rightarrow> bytes \<Rightarrow> bytes"
  pbkdf2_bits :: "bytes \<Rightarrow> bytes \<Rightarrow> nat \<Rightarrow> bytes"

text \<open>For the examples.\<close>

definition example_platform :: platform where
  "example_platform = \<lparr> uni = \<lparr> lower_ext = id, nfc_ext = id, nfkc_ext = id, upper_ext = id \<rparr>, num_text = id,
     date_ext = (\<lambda>_. None), sha256_digest = id, hmac_digest = (\<lambda>k v. v), pbkdf2_bits = (\<lambda>p s n. p) \<rparr>"

definition type_error :: exn where
  "type_error = JsError (js ''TypeError'') (js ''cannot read properties of null or undefined'')"

section \<open>Ranks and summaries\<close>

definition DELIVERY_RANK :: "(jstr \<times> nat) list" where
  "DELIVERY_RANK =
     [(js ''sending'', 0), (js ''sent'', 1), (js ''delivery_delayed'', 2), (js ''delivered'', 3),
      (js ''opened'', 4), (js ''clicked'', 5), (js ''failed'', 6), (js ''suppressed'', 7),
      (js ''bounced'', 8), (js ''complained'', 9)]"

definition rank_of :: "jstr \<Rightarrow> nat" where
  "rank_of s = (case map_of DELIVERY_RANK s of Some n \<Rightarrow> n | None \<Rightarrow> 0)"

definition ranked :: "jstr \<Rightarrow> bool" where
  "ranked s \<longleftrightarrow> map_of DELIVERY_RANK s \<noteq> None"

type_synonym summary = "(jstr \<times> jstr) list"

definition recipient_keys :: "jstr list \<Rightarrow> jstr list" where
  "recipient_keys recipients = (if recipients = [] then [js ''*''] else recipients)"

definition raise_status :: "jstr \<Rightarrow> summary \<Rightarrow> jstr \<Rightarrow> summary" where
  "raise_status status next recipient =
     (let previous = (case map_of next recipient of None \<Rightarrow> js ''sending'' | Some p \<Rightarrow> or_else p (js ''sending''))
      in if rank_of previous \<le> rank_of status then put_key recipient status next else next)"

definition updateRecipientSummary :: "summary \<Rightarrow> jstr list \<Rightarrow> jstr \<Rightarrow> summary" where
  "updateRecipientSummary current recipients status =
     foldl (raise_status status) current (recipient_keys recipients)"

definition negative_status :: "jstr \<Rightarrow> bool" where
  "negative_status s \<longleftrightarrow> s = js ''bounced'' \<or> s = js ''complained'' \<or> s = js ''failed'' \<or> s = js ''suppressed''"

definition better_status :: "jstr \<Rightarrow> jstr \<Rightarrow> jstr" where
  "better_status best value = (if rank_of best < rank_of value then value else best)"

definition aggregateDeliveryStatus :: "summary \<Rightarrow> jstr" where
  "aggregateDeliveryStatus summary =
     (let values = map snd summary;
          hasNegative = list_ex negative_status values;
          hasNonNegative = list_ex (\<lambda>v. \<not> negative_status v) values
      in if values = [] then js ''sent''
         else if hasNegative \<and> hasNonNegative then js ''partially_failed''
         else if hasNegative then
           (if js ''complained'' \<in> set values then js ''complained''
            else if js ''bounced'' \<in> set values then js ''bounced''
            else if js ''suppressed'' \<in> set values then js ''suppressed''
            else js ''failed'')
         else foldl better_status (js ''sent'') values)"

text \<open>The summary as the column \<open>recipient_status_json\<close> holds it.\<close>

definition summary_value :: "summary \<Rightarrow> jsval" where
  "summary_value m = JObj (map (\<lambda>(k, v). (k, JStr v)) m)"

definition summary_text :: "summary \<Rightarrow> jstr" where
  "summary_text m = json_text (summary_value m)"

fun text_entries :: "(jstr \<times> jsval) list \<Rightarrow> summary" where
  "text_entries [] = []"
| "text_entries ((k, JStr v) # kvs) = (k, v) # text_entries kvs"
| "text_entries ((k, v) # kvs) = text_entries kvs"

definition read_summary :: "(jstr \<Rightarrow> jstr) \<Rightarrow> jstr \<Rightarrow> summary" where
  "read_summary num t = (case parseJson num (JStr t) (JObj []) of JObj kvs \<Rightarrow> text_entries kvs | _ \<Rightarrow> [])"

section \<open>Normalised events\<close>

record delivery_event =
  ev_provider :: jstr
  ev_id :: jstr
  ev_message_id :: jstr
  ev_tagged_id :: jstr
  ev_recipients :: "jstr list"
  ev_raw_type :: jstr
  ev_status :: jstr
  ev_occurred_at :: "jstr option"

definition is_object :: "jsval \<Rightarrow> bool" where
  "is_object v \<longleftrightarrow> (case v of JArr _ \<Rightarrow> True | JObj _ \<Rightarrow> True | _ \<Rightarrow> False)"

definition object_or_empty :: "jsval \<Rightarrow> jsval" where
  "object_or_empty v = (if is_object v then v else JObj [])"

definition plain_object_or_empty :: "jsval \<Rightarrow> jsval" where
  "plain_object_or_empty v = (case v of JObj _ \<Rightarrow> v | _ \<Rightarrow> JObj [])"

definition text_option :: "jstr \<Rightarrow> jstr option" where
  "text_option s = (if s = [] then None else Some s)"

definition strip_prefix :: "jstr \<Rightarrow> jstr \<Rightarrow> jstr" where
  "strip_prefix p s = (if starts_with p s then drop (length p) s else s)"

definition normalizeResendEvent :: "platform \<Rightarrow> jsval \<Rightarrow> jstr \<Rightarrow> exn + delivery_event" where
  "normalizeResendEvent P payload svixId =
     (if payload = JNull then Inl type_error
      else
        let data = object_or_empty (js_get payload (js ''data''));
            tags = plain_object_or_empty (js_get data (js ''tags''))
        in Inr \<lparr> ev_provider = js ''resend'', ev_id = svixId,
             ev_message_id = asText (js_or (js_get data (js ''email_id'')) (js_get data (js ''id''))) 200,
             ev_tagged_id = asText (js_or (js_get tags (js ''message_id'')) (js_get tags (js ''mailbox_id''))) 200,
             ev_recipients = emailList (uni P) (js_get data (js ''to'')) 100,
             ev_raw_type = or_else (asText (js_get payload (js ''type'')) 100) (js ''unknown''),
             ev_status = strip_prefix (js ''email.'') (js_string (js_or (js_get payload (js ''type'')) (JStr []))),
             ev_occurred_at = text_option
               (asText (js_or (js_get payload (js ''created_at'')) (js_get data (js ''created_at''))) 100) \<rparr>)"

definition hex_text :: "bytes \<Rightarrow> jstr" where
  "hex_text bs = concat (map (\<lambda>b. [hex_digit (unat b div 16), hex_digit (unat b mod 16)]) bs)"

definition deterministicEventKey :: "platform \<Rightarrow> jstr \<Rightarrow> jstr option list \<Rightarrow> jstr" where
  "deterministicEventKey P provider parts =
     (let texts = filter (\<lambda>t. t \<noteq> [])
            (provider # map (\<lambda>z. case z of None \<Rightarrow> [] | Some t \<Rightarrow> t) parts)
      in take 40 (hex_text (sha256_digest P (utf8 (join_text (js ''|'') texts)))))"

definition normalizeEventTimestamp :: "platform \<Rightarrow> jstr \<Rightarrow> jstr" where
  "normalizeEventTimestamp P v =
     (let trimmed = trim v in
      if length trimmed = 10 \<and> list_all is_digit trimmed then iso (int (digits_value trimmed) * 1000)
      else if length trimmed = 13 \<and> list_all is_digit trimmed then iso (int (digits_value trimmed))
      else (case date_parse (date_ext P) trimmed of None \<Rightarrow> trimmed | Some t \<Rightarrow> iso t))"

definition BREVO_STATUS_MAP :: "(jstr \<times> jstr) list" where
  "BREVO_STATUS_MAP = map (\<lambda>(a, b). (js a, js b))
     [(''sent'', ''sent''), (''request'', ''sent''), (''delivered'', ''delivered''),
      (''deferred'', ''delivery_delayed''), (''soft_bounce'', ''delivery_delayed''),
      (''softBounce'', ''delivery_delayed''), (''hard_bounce'', ''bounced''), (''hardBounce'', ''bounced''),
      (''blocked'', ''suppressed''), (''invalid_email'', ''failed''), (''invalidEmail'', ''failed''),
      (''spam'', ''complained''), (''opened'', ''opened''), (''click'', ''clicked''), (''clicks'', ''clicked''),
      (''unsubscribed'', ''suppressed'')]"

text \<open>The tag of \<open>/^mailbox:(.+)$/\<close>; a dot matches no line terminator.\<close>

definition line_terminator :: "code_unit \<Rightarrow> bool" where
  "line_terminator c \<longleftrightarrow> c = 10 \<or> c = 13 \<or> c = 0x2028 \<or> c = 0x2029"

definition mailbox_tag :: "jstr \<Rightarrow> jstr" where
  "mailbox_tag t =
     (let rest = drop 8 t in
      if starts_with (js ''mailbox:'') t \<and> list_all (\<lambda>c. \<not> line_terminator c) rest then rest else [])"

definition first_text :: "jstr list \<Rightarrow> jstr" where
  "first_text ts = (case filter (\<lambda>t. t \<noteq> []) ts of [] \<Rightarrow> [] | t # _ \<Rightarrow> t)"

definition normalizeBrevoEvent :: "platform \<Rightarrow> jsval \<Rightarrow> jstr \<Rightarrow> jstr \<Rightarrow> exn + delivery_event" where
  "normalizeBrevoEvent P payload bearerToken expectedToken =
     (if expectedToken = [] \<or> \<not> timingSafeEqual bearerToken expectedToken then
        Inl (app_error 401 ''Webhook authentication is invalid.'' ''invalid_webhook_auth'')
      else if payload = JNull then Inl type_error
      else
        let event = asText (js_get payload (js ''event'')) 100;
            providerMessageId = or_else (asText (js_get payload (js ''message-id'')) 200)
              (asText (js_get payload (js ''message_id'')) 200);
            recipients = emailList (uni P) (js_get payload (js ''email'')) 10;
            tags = (case js_get payload (js ''tags'') of JArr xs \<Rightarrow> map js_string xs | _ \<Rightarrow> []);
            taggedMessageId = first_text (map mailbox_tag tags);
            tsRaw = or_else (asText (js_get payload (js ''ts_event'')) 40)
              (or_else (asText (js_get payload (js ''ts_epoch'')) 40) (asText (js_get payload (js ''date'')) 100));
            occurredAt = (if tsRaw = [] then None else Some (normalizeEventTimestamp P tsRaw))
        in (case map_of BREVO_STATUS_MAP event of
              None \<Rightarrow> Inl (app_error 422 ''Unsupported provider event type.'' ''unsupported_provider_event'')
            | Some mapped \<Rightarrow> Inr \<lparr> ev_provider = js ''brevo'',
                ev_id = deterministicEventKey P (js ''brevo'')
                  [Some providerMessageId, Some (case recipients of [] \<Rightarrow> js ''*'' | r # _ \<Rightarrow> r), Some event,
                   Some (case occurredAt of Some t \<Rightarrow> or_else t tsRaw | None \<Rightarrow> tsRaw)],
                ev_message_id = providerMessageId, ev_tagged_id = taggedMessageId,
                ev_recipients = recipients, ev_raw_type = event, ev_status = mapped,
                ev_occurred_at = occurredAt \<rparr>))"

definition CLOUDFLARE_STATUS_MAP :: "(jstr \<times> jstr) list" where
  "CLOUDFLARE_STATUS_MAP = map (\<lambda>(a, b). (js a, js b))
     [(''message.delivered'', ''delivered''), (''message.deferred'', ''delivery_delayed''),
      (''message.bounced'', ''bounced''), (''message.failed'', ''failed''),
      (''message.rejected'', ''suppressed''), (''message.complained'', ''complained'')]"

definition normalizeCloudflareQueueEvent :: "platform \<Rightarrow> jsval \<Rightarrow> exn + delivery_event" where
  "normalizeCloudflareQueueEvent P cloudEvent =
     (if cloudEvent = JNull \<or> cloudEvent = JUndef then Inl type_error
      else
        let type = asText (js_get cloudEvent (js ''type'')) 200;
            source = object_or_empty (js_get cloudEvent (js ''source''));
            payload = object_or_empty (js_get cloudEvent (js ''payload''));
            metadata = object_or_empty (js_get cloudEvent (js ''metadata''))
        in if asText (js_get source (js ''type'')) 100 \<noteq> js ''email.sending'' \<or> \<not> starts_with (js ''cf.email.sending.'') type then
             Inl (app_error 400 ''Unsupported queue event type.'' ''invalid_queue_event'')
           else
             (case map_of CLOUDFLARE_STATUS_MAP (strip_prefix (js ''cf.email.sending.'') type) of
                None \<Rightarrow> Inl (app_error 422 ''Unsupported provider event type.'' ''unsupported_provider_event'')
              | Some mapped \<Rightarrow>
                  let messageId = asText (js_get payload (js ''messageId'')) 200;
                      recipient = asText (js_get payload (js ''recipient'')) 320;
                      eventTimestamp = normalizeEventTimestamp P (asText (js_get metadata (js ''eventTimestamp'')) 40)
                  in Inr \<lparr> ev_provider = js ''cloudflare'',
                       ev_id = or_else (asText (js_get payload (js ''eventId'')) 200)
                         (deterministicEventKey P (js ''cloudflare'')
                            [Some type, Some messageId, Some recipient, Some eventTimestamp]),
                       ev_message_id = messageId, ev_tagged_id = [],
                       ev_recipients = (if recipient = [] then [] else [recipient]),
                       ev_raw_type = type, ev_status = mapped,
                       ev_occurred_at = text_option eventTimestamp \<rparr>))"

section \<open>Merging by rank\<close>

definition merge_by :: "('a \<Rightarrow> nat) \<Rightarrow> 'a \<Rightarrow> 'a \<Rightarrow> 'a" where
  "merge_by rank a b = (if rank a \<le> rank b then b else a)"

locale rank_merge =
  fixes rank :: "'a \<Rightarrow> nat" and valid :: "'a \<Rightarrow> bool"
  assumes rank_inject: "valid a \<Longrightarrow> valid b \<Longrightarrow> rank a = rank b \<Longrightarrow> a = b"
begin

lemma merge_idem: "merge_by rank a a = a"
  by (simp add: merge_by_def)

lemma merge_commute: "valid a \<Longrightarrow> valid b \<Longrightarrow> merge_by rank a b = merge_by rank b a"
  using rank_inject by (auto simp: merge_by_def)

lemma merge_assoc: "merge_by rank (merge_by rank a b) c = merge_by rank a (merge_by rank b c)"
  by (auto simp: merge_by_def)

lemma fold_merge_member: "foldl (merge_by rank) a xs \<in> insert a (set xs)"
  by (induction xs arbitrary: a) (auto simp: merge_by_def split: if_splits)

lemma fold_merge_upper: "x \<in> insert a (set xs) \<Longrightarrow> rank x \<le> rank (foldl (merge_by rank) a xs)"
proof (induction xs arbitrary: a x)
  case (Cons y ys)
  have "rank a \<le> rank (merge_by rank a y)" "rank y \<le> rank (merge_by rank a y)"
    by (auto simp: merge_by_def)
  moreover have "rank (merge_by rank a y) \<le> rank (foldl (merge_by rank) (merge_by rank a y) ys)"
    by (rule Cons.IH) simp
  ultimately show ?case using Cons.prems Cons.IH [of x "merge_by rank a y"] by auto
qed simp

lemma top_unique:
  assumes "\<forall>x \<in> S. valid x" "a \<in> S" "b \<in> S" "\<forall>x \<in> S. rank x \<le> rank a" "\<forall>x \<in> S. rank x \<le> rank b"
  shows "a = b"
  using assms by (intro rank_inject) (auto intro: antisym)

lemma fold_merge_set:
  assumes "set xs = set ys" "valid a" "\<forall>x \<in> set xs. valid x"
  shows "foldl (merge_by rank) a xs = foldl (merge_by rank) a ys"
proof (rule top_unique [of "insert a (set xs)"])
  show "foldl (merge_by rank) a ys \<in> insert a (set xs)" using fold_merge_member [of a ys] assms(1) by simp
  show "\<forall>x \<in> insert a (set xs). rank x \<le> rank (foldl (merge_by rank) a ys)"
    using fold_merge_upper [of _ a ys] assms(1) by simp
qed (use assms fold_merge_member fold_merge_upper in auto)

lemma fold_merge_valid: "valid a \<Longrightarrow> \<forall>x \<in> set xs. valid x \<Longrightarrow> valid (foldl (merge_by rank) a xs)"
  using fold_merge_member [of a xs] by auto

end

lemma ranked_cases:
  assumes "ranked s"
  obtains "s = js ''sending''" "rank_of s = 0" | "s = js ''sent''" "rank_of s = 1"
    | "s = js ''delivery_delayed''" "rank_of s = 2" | "s = js ''delivered''" "rank_of s = 3"
    | "s = js ''opened''" "rank_of s = 4" | "s = js ''clicked''" "rank_of s = 5"
    | "s = js ''failed''" "rank_of s = 6" | "s = js ''suppressed''" "rank_of s = 7"
    | "s = js ''bounced''" "rank_of s = 8" | "s = js ''complained''" "rank_of s = 9"
proof -
  have "map_of DELIVERY_RANK s \<noteq> None" using assms by (simp add: ranked_def)
  then show ?thesis using that unfolding DELIVERY_RANK_def rank_of_def
    by (simp add: rank_of_def DELIVERY_RANK_def split: if_splits)
qed

interpretation delivery: rank_merge rank_of ranked
proof
  fix a b
  assume "ranked a" "ranked b" "rank_of a = rank_of b"
  then show "a = b" by (elim ranked_cases) simp_all
qed

lemma ranked_nonempty: "ranked s \<Longrightarrow> s \<noteq> []"
  by (elim ranked_cases) auto

lemma ranked_sending [simp]: "ranked (js ''sending'')" "rank_of (js ''sending'') = 0" "ranked (js ''sent'')"
  by (simp_all add: ranked_def rank_of_def DELIVERY_RANK_def)

section \<open>Summaries under a batch of events\<close>

definition status_of :: "summary \<Rightarrow> jstr \<Rightarrow> jstr" where
  "status_of m r = (case map_of m r of None \<Rightarrow> js ''sending'' | Some p \<Rightarrow> or_else p (js ''sending''))"

lemma map_of_put_key: "map_of (put_key k v m) = (map_of m)(k \<mapsto> v)"
  by (induction k v m rule: put_key.induct) (auto simp: fun_eq_iff)

lemma keys_put_key: "set (map fst (put_key k v m)) = insert k (set (map fst m))"
  by (induction k v m rule: put_key.induct) auto

lemma distinct_put_key: "distinct (map fst m) \<Longrightarrow> distinct (map fst (put_key k v m))"
proof (induction k v m rule: put_key.induct)
  case (2 k v k' v' kvs)
  then show ?case using keys_put_key [of k v kvs] by auto
qed simp

lemma raise_status_if:
  "raise_status st m r = (if rank_of (status_of m r) \<le> rank_of st then put_key r st m else m)"
  by (simp add: raise_status_def status_of_def Let_def)

lemma map_of_raise: "map_of (raise_status st m r) = (map_of m)(r \<mapsto> merge_by rank_of (status_of m r) st)"
proof (cases "rank_of (status_of m r) \<le> rank_of st")
  case True
  then show ?thesis by (simp add: raise_status_if merge_by_def map_of_put_key)
next
  case False
  then have "status_of m r \<noteq> js ''sending''" by auto
  then have "map_of m r = Some (status_of m r)"
    by (auto simp: status_of_def or_else_def split: option.splits if_splits)
  with False show ?thesis
    by (simp add: raise_status_if merge_by_def fun_upd_idem)
qed

lemma distinct_raise: "distinct (map fst m) \<Longrightarrow> distinct (map fst (raise_status st m r))"
  by (simp add: raise_status_def Let_def distinct_put_key)

definition raise_step :: "summary \<Rightarrow> jstr \<times> jstr \<Rightarrow> summary" where
  "raise_step m rs = raise_status (snd rs) m (fst rs)"

definition apply_events :: "summary \<Rightarrow> (jstr list \<times> jstr) list \<Rightarrow> summary" where
  "apply_events m es = foldl (\<lambda>m (rs, st). updateRecipientSummary m rs st) m es"

definition event_steps :: "(jstr list \<times> jstr) list \<Rightarrow> (jstr \<times> jstr) list" where
  "event_steps es = concat (map (\<lambda>(rs, st). map (\<lambda>r. (r, st)) (recipient_keys rs)) es)"

lemma update_steps: "updateRecipientSummary m rs st = foldl raise_step m (map (\<lambda>r. (r, st)) (recipient_keys rs))"
  by (simp add: updateRecipientSummary_def foldl_map raise_step_def)

lemma apply_events_steps: "apply_events m es = foldl raise_step m (event_steps es)"
proof (induction es arbitrary: m)
  case (Cons e es)
  obtain rs st where "e = (rs, st)" by fastforce
  with Cons.IH [of "updateRecipientSummary m rs st"] show ?case
    by (simp add: apply_events_def event_steps_def update_steps)
qed (simp add: apply_events_def event_steps_def)

definition touching :: "jstr \<Rightarrow> (jstr \<times> jstr) list \<Rightarrow> jstr list" where
  "touching r steps = map snd (filter (\<lambda>x. fst x = r) steps)"

lemma status_of_raised: "ranked st \<Longrightarrow> ranked (status_of m r) \<Longrightarrow>
  status_of (raise_status st m r') r = (if r' = r then merge_by rank_of (status_of m r) st else status_of m r)"
proof (cases "r' = r")
  case True
  assume "ranked st" "ranked (status_of m r)"
  then have "merge_by rank_of (status_of m r) st \<noteq> []"
    using ranked_nonempty by (auto simp: merge_by_def)
  with True show ?thesis unfolding status_of_def [of "raise_status st m r'"] map_of_raise by (simp add: or_else_def)
qed (simp add: status_of_def [of "raise_status st m r'"] map_of_raise, simp add: status_of_def)

lemma merge_ranked: "ranked a \<Longrightarrow> ranked b \<Longrightarrow> ranked (merge_by rank_of a b)"
  by (simp add: merge_by_def)

lemma map_of_steps:
  assumes "\<forall>x \<in> set steps. ranked (snd x)" "\<forall>r. ranked (status_of m r)"
  shows "map_of (foldl raise_step m steps) r =
    (if touching r steps = [] then map_of m r
     else Some (foldl (merge_by rank_of) (status_of m r) (touching r steps)))"
  using assms
proof (induction steps arbitrary: m)
  case (Cons x xs)
  let ?m = "raise_step m x"
  have st: "ranked (snd x)" using Cons.prems by simp
  have after: "status_of ?m r' = (if fst x = r' then merge_by rank_of (status_of m r') (snd x) else status_of m r')" for r'
    using status_of_raised [OF st, of m r' "fst x"] Cons.prems(2) by (simp add: raise_step_def)
  then have "\<forall>r'. ranked (status_of ?m r')" using st Cons.prems(2) merge_ranked by simp
  with Cons have "map_of (foldl raise_step ?m xs) r =
    (if touching r xs = [] then map_of ?m r else Some (foldl (merge_by rank_of) (status_of ?m r) (touching r xs)))"
    by simp
  moreover have "map_of ?m = (map_of m)(fst x \<mapsto> merge_by rank_of (status_of m (fst x)) (snd x))"
    by (simp add: raise_step_def map_of_raise)
  ultimately show ?case using after [of r] by (auto simp: touching_def)
qed (simp add: touching_def)

lemma touching_set: "set (touching r (event_steps es)) = {st. \<exists>rs. (rs, st) \<in> set es \<and> r \<in> set (recipient_keys rs)}"
  by (force simp: touching_def event_steps_def)

definition ranked_summary :: "summary \<Rightarrow> bool" where
  "ranked_summary m \<longleftrightarrow> distinct (map fst m) \<and> (\<forall>kv \<in> set m. ranked (snd kv))"

lemma ranked_status_of: "ranked_summary m \<Longrightarrow> ranked (status_of m r)"
  by (auto simp: status_of_def ranked_summary_def or_else_def split: option.split dest!: map_of_SomeD)

lemma event_steps_ranked: "\<forall>e \<in> set es. ranked (snd e) \<Longrightarrow> \<forall>x \<in> set (event_steps es). ranked (snd x)"
  by (auto simp: event_steps_def)

lemma ran_map_of: "distinct (map fst m) \<Longrightarrow> ran (map_of m) = set (map snd m)"
  by (simp add: ran_distinct)

lemma set_put_key: "set (put_key k v m) \<subseteq> insert (k, v) (set m)"
  by (induction k v m rule: put_key.induct) auto

lemma ranked_summary_raise: "ranked st \<Longrightarrow> ranked_summary m \<Longrightarrow> ranked_summary (raise_status st m r)"
  using set_put_key [of r st m]
  by (auto simp: ranked_summary_def raise_status_def Let_def distinct_put_key)

lemma ranked_summary_steps:
  "\<forall>x \<in> set steps. ranked (snd x) \<Longrightarrow> ranked_summary m \<Longrightarrow> ranked_summary (foldl raise_step m steps)"
  by (induction steps arbitrary: m) (auto simp: raise_step_def ranked_summary_raise)

lemma ranked_summary_update: "ranked st \<Longrightarrow> ranked_summary m \<Longrightarrow> ranked_summary (updateRecipientSummary m rs st)"
  unfolding update_steps by (rule ranked_summary_steps) auto

section \<open>The aggregate\<close>

lemma better_fold_top:
  "rank_of x \<le> rank_of (foldl better_status b xs) \<and> foldl better_status b xs \<in> insert b (set xs)"
  if "x \<in> insert b (set xs)"
  using that
proof (induction xs arbitrary: b x)
  case (Cons y ys)
  have "rank_of b \<le> rank_of (better_status b y)" "rank_of y \<le> rank_of (better_status b y)" "better_status b y \<in> {b, y}"
    by (auto simp: better_status_def)
  with Cons.IH [of "better_status b y" "better_status b y"] Cons.IH [of x "better_status b y"] Cons.prems
  show ?case by fastforce
qed simp

definition worst_negative :: "jstr set \<Rightarrow> jstr" where
  "worst_negative V =
     (if js ''complained'' \<in> V then js ''complained'' else if js ''bounced'' \<in> V then js ''bounced''
      else if js ''suppressed'' \<in> V then js ''suppressed'' else js ''failed'')"

lemma worst_negative_top:
  assumes "V \<noteq> {}" "\<forall>v \<in> V. negative_status v"
  shows "worst_negative V \<in> V \<and> (\<forall>v \<in> V. rank_of v \<le> rank_of (worst_negative V))"
proof -
  have mem: "v = js ''bounced'' \<or> v = js ''complained'' \<or> v = js ''failed'' \<or> v = js ''suppressed''" if "v \<in> V" for v
    using assms(2) that by (simp add: negative_status_def)
  have ranks: "rank_of (js ''bounced'') = 8" "rank_of (js ''complained'') = 9" "rank_of (js ''failed'') = 6" "rank_of (js ''suppressed'') = 7"
    by (simp_all add: rank_of_def DELIVERY_RANK_def)
  consider "js ''complained'' \<in> V" | "js ''complained'' \<notin> V" "js ''bounced'' \<in> V"
    | "js ''complained'' \<notin> V" "js ''bounced'' \<notin> V" "js ''suppressed'' \<in> V"
    | "js ''complained'' \<notin> V" "js ''bounced'' \<notin> V" "js ''suppressed'' \<notin> V" "js ''failed'' \<in> V"
    using assms(1) mem by blast
  then show ?thesis
  proof cases
    case 1
    then show ?thesis using mem ranks by (fastforce simp: worst_negative_def)
  next
    case 2
    then show ?thesis using mem ranks by (fastforce simp: worst_negative_def)
  next
    case 3
    then show ?thesis using mem ranks by (fastforce simp: worst_negative_def)
  next
    case 4
    then show ?thesis using mem ranks by (fastforce simp: worst_negative_def)
  qed
qed

lemma aggregate_negative:
  assumes "m \<noteq> []" "\<forall>v \<in> set (map snd m). negative_status v"
  shows "aggregateDeliveryStatus m \<in> set (map snd m)
    \<and> (\<forall>v \<in> set (map snd m). rank_of v \<le> rank_of (aggregateDeliveryStatus m))"
proof -
  have "list_ex negative_status (map snd m)" using assms by (cases m) auto
  moreover have "\<not> list_ex (\<lambda>v. \<not> negative_status v) (map snd m)" using assms(2) by (simp add: list_ex_iff)
  ultimately have "aggregateDeliveryStatus m = worst_negative (set (map snd m))"
    using assms(1) unfolding aggregateDeliveryStatus_def Let_def worst_negative_def
    by (simp only: if_True if_False map_is_Nil_conv simp_thms)
  moreover have "set (map snd m) \<noteq> {}" using assms(1) by simp
  ultimately show ?thesis using worst_negative_top [OF _ assms(2)] by simp
qed

lemma aggregate_positive:
  assumes "m \<noteq> []" "\<forall>v \<in> set (map snd m). \<not> negative_status v"
  shows "aggregateDeliveryStatus m \<in> insert (js ''sent'') (set (map snd m))
    \<and> (\<forall>v \<in> insert (js ''sent'') (set (map snd m)). rank_of v \<le> rank_of (aggregateDeliveryStatus m))"
proof -
  have "aggregateDeliveryStatus m = foldl better_status (js ''sent'') (map snd m)"
    using assms by (auto simp: aggregateDeliveryStatus_def Let_def list_ex_iff)
  then show ?thesis using better_fold_top [of _ "js ''sent''" "map snd m"] by auto
qed

lemma aggregate_mixed:
  assumes "\<exists>v \<in> set (map snd m). negative_status v" "\<exists>v \<in> set (map snd m). \<not> negative_status v"
  shows "aggregateDeliveryStatus m = js ''partially_failed''"
  using assms by (auto simp: aggregateDeliveryStatus_def Let_def list_ex_iff)

lemma aggregate_set:
  assumes "set (map snd m) = set (map snd m')" "\<forall>v \<in> set (map snd m). ranked v"
  shows "aggregateDeliveryStatus m = aggregateDeliveryStatus m'"
proof -
  let ?V = "set (map snd m)"
  have V': "set (map snd m') = ?V" using assms(1) by simp
  consider "?V = {}" | "\<exists>v \<in> ?V. negative_status v" "\<exists>v \<in> ?V. \<not> negative_status v"
    | "?V \<noteq> {}" "\<forall>v \<in> ?V. negative_status v" | "?V \<noteq> {}" "\<forall>v \<in> ?V. \<not> negative_status v" by blast
  then show ?thesis
  proof cases
    case 1
    then have "m = []" "m' = []" using V' by simp_all
    then show ?thesis by simp
  next
    case 2
    then show ?thesis using aggregate_mixed [of m] aggregate_mixed [of m', unfolded V'] by simp
  next
    case 3
    then have "m \<noteq> []" "m' \<noteq> []" using V' by auto
    show ?thesis
      using aggregate_negative [OF \<open>m \<noteq> []\<close> 3(2)] aggregate_negative [OF \<open>m' \<noteq> []\<close>, unfolded V', OF 3(2)]
      by (intro delivery.top_unique [of ?V]) (use assms(2) in blast)+
  next
    case 4
    then have "m \<noteq> []" "m' \<noteq> []" using V' by auto
    show ?thesis
      using aggregate_positive [OF \<open>m \<noteq> []\<close> 4(2)] aggregate_positive [OF \<open>m' \<noteq> []\<close>, unfolded V', OF 4(2)]
      by (intro delivery.top_unique [of "insert (js ''sent'') ?V"]) (use assms(2) ranked_sending in blast)+
  qed
qed

section \<open>Stored summaries\<close>

lemma text_entries_strings: "text_entries (map (\<lambda>(k, v). (k, JStr v)) m) = m"
  by (induction m) auto

lemma summary_value_ok: "distinct (map fst m) \<Longrightarrow> json_ok (summary_value m)"
  by (auto simp: summary_value_def comp_def case_prod_unfold)

lemma read_summary_text:
  assumes "distinct (map fst m)" "length (summary_text m) \<le> 1000000"
  shows "read_summary num (summary_text m) = m"
proof -
  have "json_parse num (summary_text m) = Some (summary_value m)"
    using json_value_text [OF summary_value_ok [OF assms(1)], of num]
    by (auto simp: json_parse_def summary_text_def reads_back_def dest: spec [of _ "[]"])
  then show ?thesis
    using assms(2) by (simp add: read_summary_def parseJson_def summary_value_def text_entries_strings)
qed

section \<open>Properties\<close>

text \<open>
  C26. Late, repeated and reordered provider events cannot change the outcome: two batches with the
  same events, in any order and multiplicity, leave every recipient of the message with the same
  status (the highest-ranked one reported for it), and give the message the same aggregate status.
\<close>

theorem delivery_events_order_irrelevant:
  assumes "ranked_summary m" "set es = set es'" "\<forall>e \<in> set es. ranked (snd e)"
  shows "map_of (apply_events m es) = map_of (apply_events m es')
    \<and> aggregateDeliveryStatus (apply_events m es) = aggregateDeliveryStatus (apply_events m es')"
proof -
  have steps: "\<forall>x \<in> set (event_steps es). ranked (snd x)" "\<forall>x \<in> set (event_steps es'). ranked (snd x)"
    using event_steps_ranked [OF assms(3)] event_steps_ranked [of es'] assms(2,3) by blast+
  have init: "\<forall>r. ranked (status_of m r)" using assms(1) ranked_status_of by blast
  have touch: "set (touching r (event_steps es)) = set (touching r (event_steps es'))" for r
    using assms(2) by (simp add: touching_set)
  have valid: "\<forall>x \<in> set (touching r (event_steps es)). ranked x" for r
    using steps(1) by (auto simp: touching_def)
  have same: "map_of (apply_events m es) r = map_of (apply_events m es') r" for r
    using delivery.fold_merge_set [OF touch _ valid, of "status_of m r" r] init touch [of r]
    unfolding apply_events_steps map_of_steps [OF steps(1) init] map_of_steps [OF steps(2) init]
    by (metis set_empty)
  have good: "ranked_summary (apply_events m es)" "ranked_summary (apply_events m es')"
    unfolding apply_events_steps using steps assms(1) by (auto intro: ranked_summary_steps)
  then have "set (map snd (apply_events m es)) = set (map snd (apply_events m es'))"
    using same by (metis ext ran_map_of ranked_summary_def)
  moreover have "\<forall>v \<in> set (map snd (apply_events m es)). ranked v" using good(1) by (auto simp: ranked_summary_def)
  ultimately have "aggregateDeliveryStatus (apply_events m es) = aggregateDeliveryStatus (apply_events m es')"
    by (rule aggregate_set)
  with same show ?thesis by blast
qed

theorem delivery_events_order_irrelevant_witness:
  "map_of (apply_events [] [([js ''a''], js ''bounced''), ([js ''a'', js ''b''], js ''sent'')])
     = map_of (apply_events [] [([js ''a'', js ''b''], js ''sent''), ([js ''a''], js ''bounced''), ([js ''a''], js ''bounced'')])
   \<and> aggregateDeliveryStatus (apply_events [] [([js ''a''], js ''bounced''), ([js ''a'', js ''b''], js ''sent'')])
     = aggregateDeliveryStatus (apply_events [] [([js ''a'', js ''b''], js ''sent''), ([js ''a''], js ''bounced''), ([js ''a''], js ''bounced'')])"
  by (rule delivery_events_order_irrelevant) (auto simp: ranked_summary_def ranked_def DELIVERY_RANK_def)

text \<open>
  The aggregate status of a message is the one its users need: no recipients is sent, a mix of
  failed and other recipients is partially failed, and otherwise it is the highest-ranked status
  that occurs (never below sent).
\<close>

theorem aggregate_is_worst_or_furthest:
  "(summary = [] \<longrightarrow> aggregateDeliveryStatus summary = js ''sent'')
    \<and> ((\<exists>v \<in> set (map snd summary). negative_status v) \<and> (\<exists>v \<in> set (map snd summary). \<not> negative_status v)
        \<longrightarrow> aggregateDeliveryStatus summary = js ''partially_failed'')
    \<and> (summary \<noteq> [] \<and> (\<forall>v \<in> set (map snd summary). negative_status v)
        \<longrightarrow> aggregateDeliveryStatus summary \<in> set (map snd summary)
          \<and> (\<forall>v \<in> set (map snd summary). rank_of v \<le> rank_of (aggregateDeliveryStatus summary)))
    \<and> (summary \<noteq> [] \<and> (\<forall>v \<in> set (map snd summary). \<not> negative_status v)
        \<longrightarrow> aggregateDeliveryStatus summary \<in> insert (js ''sent'') (set (map snd summary))
          \<and> (\<forall>v \<in> insert (js ''sent'') (set (map snd summary)). rank_of v \<le> rank_of (aggregateDeliveryStatus summary)))"
  using aggregate_mixed [of summary] aggregate_negative [of summary] aggregate_positive [of summary]
  by (auto simp: aggregateDeliveryStatus_def [of "[]"])

theorem aggregate_is_worst_or_furthest_witness:
  "aggregateDeliveryStatus [(js ''a'', js ''failed''), (js ''b'', js ''bounced'')] = js ''bounced''
   \<and> aggregateDeliveryStatus [(js ''a'', js ''failed''), (js ''b'', js ''opened'')] = js ''partially_failed''"
proof -
  have ranks: "rank_of (js ''bounced'') = 8" "rank_of (js ''failed'') = 6" by (simp_all add: rank_of_def DELIVERY_RANK_def)
  show ?thesis
    using aggregate_is_worst_or_furthest [of "[(js ''a'', js ''failed''), (js ''b'', js ''bounced'')]"]
      aggregate_is_worst_or_furthest [of "[(js ''a'', js ''failed''), (js ''b'', js ''opened'')]"] ranks
    by (auto simp: negative_status_def)
qed

end
