(* ===== verification/Mail_Types.thy ===== *)
theory Mail_Types
  imports Delivery
begin

text \<open>
  The data that passes between the mail components: parsed messages as the MIME parser returns them
  (\<open>src/src/postal-mime.d.ts\<close>), header addresses and uploads (\<open>src/src/mail/types.ts\<close>), the limits of
  \<open>src/src/mail/constants.ts\<close>, HTTP requests and provider replies.
\<close>

section \<open>Parsed messages\<close>

datatype address =
    Mailbox_Address (addr_name: "jstr option") (addr_address: jstr)
  | Group_Address (group_name: "jstr option") (group_members: "address list")

datatype content = Binary bytes | Textual jstr

record attachment_item =
  it_filename :: "jstr option"
  it_mime_type :: "jstr option"
  it_disposition :: "jstr option"
  it_content_id :: "jstr option"
  it_related :: bool
  it_encoding :: "jstr option"
  it_content :: content

record email =
  em_headers :: "(jstr \<times> jstr) list"
  em_attachments :: "attachment_item list"
  em_text :: "jstr option"
  em_html :: "jstr option"
  em_subject :: "jstr option"
  em_from :: "address list"
  em_reply_to :: "address list"
  em_to :: "address list"
  em_cc :: "address list"
  em_bcc :: "address list"

record parsed_address =
  pa_name :: jstr
  pa_address :: jstr

record upload =
  up_filename :: jstr
  up_content_type :: jstr
  up_content :: jstr
  up_bytes :: bytes

section \<open>Requests and replies\<close>

record http_request =
  rq_method :: jstr
  rq_path :: jstr
  rq_origin_of_url :: jstr
  rq_hostname :: jstr
  rq_search :: jstr
  rq_query :: "(jstr \<times> jstr) list"
  rq_headers :: "(jstr \<times> jstr) list"
  rq_body :: bytes

text \<open>\<open>headers.get(name)\<close>: header names are compared without regard to case.\<close>

definition header_of :: "(jstr \<times> jstr) list \<Rightarrow> jstr \<Rightarrow> jstr option" where
  "header_of hs name = map_of (map (\<lambda>(k, v). (map lower_unit k, v)) hs) (map lower_unit name)"

definition request_header :: "http_request \<Rightarrow> string \<Rightarrow> jstr option" where
  "request_header r name = header_of (rq_headers r) (js name)"

definition header_text :: "http_request \<Rightarrow> string \<Rightarrow> jstr" where
  "header_text r name = (case request_header r name of None \<Rightarrow> [] | Some v \<Rightarrow> v)"

definition query_value :: "http_request \<Rightarrow> string \<Rightarrow> jsval" where
  "query_value r name = opt_val (map_of (rq_query r) (js name))"

record http_reply =
  rp_status :: nat
  rp_headers :: "(jstr \<times> jstr) list"
  rp_body :: jstr

datatype outcome =
    Timed_Out
  | Unreachable jstr jstr
  | Replied http_reply

section \<open>Limits\<close>

definition MAX_RAW_BYTES :: nat where
  "MAX_RAW_BYTES = 20971520"

definition MAX_INCOMING_ATTACHMENT_BYTES :: nat where
  "MAX_INCOMING_ATTACHMENT_BYTES = 8388608"

definition MAX_INCOMING_TOTAL_ATTACHMENT_BYTES :: nat where
  "MAX_INCOMING_TOTAL_ATTACHMENT_BYTES = 15728640"

definition MAX_INCOMING_ATTACHMENTS :: nat where
  "MAX_INCOMING_ATTACHMENTS = 50"

definition MAX_OUTGOING_ATTACHMENT_BYTES :: nat where
  "MAX_OUTGOING_ATTACHMENT_BYTES = 5242880"

definition MAX_OUTGOING_TOTAL_ATTACHMENT_BYTES :: nat where
  "MAX_OUTGOING_TOTAL_ATTACHMENT_BYTES = 8388608"

definition MAX_SEND_BODY_BYTES :: nat where
  "MAX_SEND_BODY_BYTES = 13184811"

definition MAX_RECIPIENTS :: nat where
  "MAX_RECIPIENTS = 50"

definition MAX_SENDS_PER_HOUR :: nat where
  "MAX_SENDS_PER_HOUR = 20"

definition MAX_SUBJECT :: nat where
  "MAX_SUBJECT = 998"

definition MAX_TEXT_PREVIEW_BYTES :: int where
  "MAX_TEXT_PREVIEW_BYTES = 300000"

definition MAX_HTML_PREVIEW_BYTES :: int where
  "MAX_HTML_PREVIEW_BYTES = 600000"

definition MAX_THREAD_PAGE :: nat where
  "MAX_THREAD_PAGE = 100"

definition MAX_HEADER_ADDRESSES :: nat where
  "MAX_HEADER_ADDRESSES = 100"

definition success_status :: "jstr \<Rightarrow> bool" where
  "success_status s \<longleftrightarrow> s \<in> set (map js [''sent'', ''delivery_delayed'', ''delivered'', ''opened'', ''clicked'',
     ''partially_failed'', ''complained'', ''bounced'', ''suppressed''])"

definition retryable_status :: "jstr \<Rightarrow> bool" where
  "retryable_status s \<longleftrightarrow> s = js ''sending'' \<or> s = js ''retryable_failed''"

end
