(* ===== verification/Store.thy ===== *)
theory Store
  imports Mail_Types
begin

text \<open>
  The outside world of the Worker: the D1 database of \<open>src/migrations\<close>, the R2 bucket, the clock, the
  random source and the network.

  \<^item> A table is the list of its rows in insertion order; a row is a record with the columns the
    program reads or writes. \<open>db_ok\<close> collects the schema's constraints: primary keys, unique
    indexes, \<open>NOT NULL\<close> and \<open>CHECK\<close> (\<open>rows_ok\<close>) and foreign keys (\<open>references_ok\<close>). A
    statement that would break one of them fails and changes nothing; \<open>INSERT OR IGNORE\<close> skips a
    row that breaks \<open>rows_ok\<close> and still fails on a foreign key.
  \<^item> A remote call (a D1 statement or batch, an R2 operation) is one step of \<open>external\<close>. Other
    requests may act between two steps (\<open>others\<close>), and the call may be lost before or after it
    took effect (\<open>fault\<close>). Both are part of the environment record \<open>env\<close>, indexed by the number of the call, so
    that a theorem about all environments covers every interleaving and every failure.
  \<^item> The clock moves only at remote calls, as it does in a Worker, so a time is a function of the
    number of calls made so far. Random identifiers are numbered the same way (\<open>draws\<close>).
\<close>

section \<open>Rows\<close>

record thread =
  th_id :: jstr
  th_mailbox :: "jstr option"
  th_subject :: jstr
  th_participants :: jstr
  th_last_message_at :: jstr
  th_unread :: nat
  th_is_replied :: bool
  th_status :: jstr
  th_created_at :: jstr
  th_updated_at :: jstr
  th_latest_id :: "jstr option"
  th_latest_direction :: "jstr option"
  th_latest_sender :: "jstr option"
  th_latest_from :: "jstr option"
  th_latest_recipient :: "jstr option"
  th_latest_preview :: "jstr option"
  th_latest_status :: "jstr option"
  th_has_incoming :: bool
  th_has_outgoing :: bool
  th_has_attachment :: bool

record message =
  m_id :: jstr
  m_thread :: jstr
  m_mailbox :: "jstr option"
  m_direction :: jstr
  m_from :: "jstr option"
  m_to :: jstr
  m_from_json :: jstr
  m_to_json :: jstr
  m_cc_json :: jstr
  m_bcc_json :: jstr
  m_reply_to_json :: jstr
  m_subject :: jstr
  m_text :: "jstr option"
  m_html :: "jstr option"
  m_body_truncated :: bool
  m_internet_id :: "jstr option"
  m_provider_internet_id :: "jstr option"
  m_in_reply_to :: "jstr option"
  m_references :: "jstr option"
  m_x_id :: "jstr option"
  m_parent :: "jstr option"
  m_idempotency :: "jstr option"
  m_request_hash :: "jstr option"
  m_status :: jstr
  m_recipient_status :: jstr
  m_is_read :: bool
  m_is_replied :: bool
  m_received_at :: "jstr option"
  m_sent_at :: "jstr option"
  m_raw_key :: "jstr option"
  m_raw_size :: nat
  m_archive_status :: jstr
  m_last_error :: "jstr option"
  m_created_by :: "jstr option"
  m_provider :: "jstr option"
  m_provider_message_id :: "jstr option"
  m_resend_id :: "jstr option"
  m_created_at :: jstr
  m_updated_at :: jstr

record attachment =
  at_id :: jstr
  at_message :: jstr
  at_filename :: jstr
  at_content_type :: jstr
  at_content_id :: "jstr option"
  at_disposition :: "jstr option"
  at_size :: nat
  at_sha256 :: "jstr option"
  at_key :: jstr
  at_inline :: bool
  at_created_at :: jstr

record event_row =
  e_id :: jstr
  e_provider :: "jstr option"
  e_provider_event_id :: "jstr option"
  e_provider_message_id :: "jstr option"
  e_message :: "jstr option"
  e_type :: jstr
  e_status :: jstr
  e_payload :: "jstr option"
  e_recipients :: jstr
  e_occurred_at :: "jstr option"
  e_received_at :: jstr

record forward_row =
  f_message :: jstr
  f_target :: jstr
  f_status :: jstr
  f_attempts :: nat
  f_last_error :: "jstr option"
  f_last_attempt_at :: "jstr option"
  f_accepted_at :: "jstr option"
  f_created_at :: jstr
  f_updated_at :: jstr

record mailbox =
  mb_id :: jstr
  mb_address :: jstr
  mb_display_name :: jstr
  mb_can_receive :: bool
  mb_can_send :: bool
  mb_active :: bool
  mb_routing_managed :: bool
  mb_created_at :: jstr
  mb_updated_at :: jstr

record admin =
  ad_id :: jstr
  ad_email :: jstr
  ad_hash :: jstr
  ad_salt :: jstr
  ad_iterations :: nat
  ad_scheme :: jstr
  ad_disabled :: bool
  ad_created_at :: jstr
  ad_updated_at :: jstr
  ad_last_login_at :: "jstr option"

record session =
  s_id :: jstr
  s_admin :: jstr
  s_token_hash :: jstr
  s_csrf :: jstr
  s_ip_hash :: "jstr option"
  s_agent_hash :: "jstr option"
  s_created_at :: jstr
  s_last_seen_at :: jstr
  s_expires_at :: jstr
  s_revoked_at :: "jstr option"

record attempt =
  au_id :: jstr
  au_scope :: jstr
  au_subject :: jstr
  au_success :: bool
  au_created_at :: jstr

record audit_row =
  lg_id :: jstr
  lg_admin :: "jstr option"
  lg_action :: jstr
  lg_target_type :: "jstr option"
  lg_target_id :: "jstr option"
  lg_request :: "jstr option"
  lg_ip_hash :: "jstr option"
  lg_details :: "jstr option"
  lg_created_at :: jstr

record probe =
  pr_id :: jstr
  pr_hash :: jstr
  pr_created_at :: jstr

record db =
  threads :: "thread list"
  messages :: "message list"
  attachments :: "attachment list"
  events :: "event_row list"
  forwards :: "forward_row list"
  mailboxes :: "mailbox list"
  admins :: "admin list"
  sessions :: "session list"
  attempts :: "attempt list"
  audits :: "audit_row list"
  probes :: "probe list"
  objects :: "jstr \<Rightarrow> bytes option"

end
