(* ===== verification/Database.thy ===== *)
theory Database
  imports Store
begin

text \<open>
  The schema's constraints, the statements the program sends to D1 and the operations of R2, and
  the step \<open>external\<close> that every remote call takes: other requests first, then the call itself,
  which may be lost. The lemmas at the end say what a remote call can do to an invariant, in every
  environment, and what it does in a quiet and reliable one.
\<close>

section \<open>Constraints\<close>

definition nocase :: "jstr \<Rightarrow> jstr" where
  "nocase s = map lower_unit s"

definition present :: "jstr option \<Rightarrow> jstr list" where
  "present z = (case z of None \<Rightarrow> [] | Some s \<Rightarrow> if s = [] then [] else [s])"

text \<open>The key of a unique index over two columns, for the rows it covers.\<close>

definition pair_key :: "jstr option \<Rightarrow> jstr option \<Rightarrow> (jstr \<times> jstr) list" where
  "pair_key a b = (case a of None \<Rightarrow> [] | Some x \<Rightarrow> map (Pair x) (present b))"

definition thread_statuses :: "jstr list" where
  "thread_statuses = map js [''open'', ''archived'', ''spam'', ''trash'']"

definition message_rows_ok :: "message list \<Rightarrow> bool" where
  "message_rows_ok ms \<longleftrightarrow>
     distinct (map m_id ms)
     \<and> distinct (concat (map (present \<circ> m_idempotency) ms))
     \<and> distinct (concat (map (present \<circ> m_resend_id) ms))
     \<and> distinct (concat (map (\<lambda>m. pair_key (m_provider m) (m_provider_message_id m)) ms))
     \<and> (\<forall>m \<in> set ms. m_direction m \<in> set (map js [''incoming'', ''outgoing'', ''outgoing_backup_copy'', ''unknown''])
          \<and> m_archive_status m \<in> set (map js [''pending'', ''archived'', ''partial'', ''failed'', ''not_applicable'']))"

definition event_rows_ok :: "event_row list \<Rightarrow> bool" where
  "event_rows_ok es \<longleftrightarrow>
     distinct (map e_id es)
     \<and> distinct (concat (map (\<lambda>e. pair_key (e_provider e) (e_provider_event_id e)) es))
     \<and> (\<forall>e \<in> set es. e_payload e \<noteq> None)"

definition account_rows_ok :: "db \<Rightarrow> bool" where
  "account_rows_ok d \<longleftrightarrow>
     distinct (map ad_id (admins d)) \<and> distinct (map (nocase \<circ> ad_email) (admins d))
     \<and> (\<forall>a \<in> set (admins d). 1000 \<le> ad_iterations a \<and> ad_iterations a \<le> 100000)
     \<and> distinct (map s_id (sessions d)) \<and> distinct (map s_token_hash (sessions d))
     \<and> distinct (map au_id (attempts d)) \<and> (\<forall>a \<in> set (attempts d). au_scope a = js ''ip'' \<or> au_scope a = js ''email'')
     \<and> distinct (map lg_id (audits d)) \<and> distinct (map pr_id (probes d))"

definition rows_ok :: "db \<Rightarrow> bool" where
  "rows_ok d \<longleftrightarrow>
     distinct (map th_id (threads d)) \<and> (\<forall>t \<in> set (threads d). th_status t \<in> set thread_statuses)
     \<and> message_rows_ok (messages d)
     \<and> distinct (map at_id (attachments d)) \<and> distinct (map (\<lambda>a. (at_message a, at_key a)) (attachments d))
     \<and> event_rows_ok (events d)
     \<and> distinct (map (\<lambda>f. (f_message f, nocase (f_target f))) (forwards d))
     \<and> (\<forall>f \<in> set (forwards d). f_status f \<in> set (map js [''pending'', ''in_flight'', ''accepted'', ''failed'']))
     \<and> distinct (map mb_id (mailboxes d)) \<and> distinct (map (nocase \<circ> mb_address) (mailboxes d))
     \<and> account_rows_ok d"

definition refers :: "jstr option \<Rightarrow> jstr list \<Rightarrow> bool" where
  "refers z ids \<longleftrightarrow> (case z of None \<Rightarrow> True | Some i \<Rightarrow> i \<in> set ids)"

definition references_ok :: "db \<Rightarrow> bool" where
  "references_ok d \<longleftrightarrow>
     (\<forall>t \<in> set (threads d). refers (th_mailbox t) (map mb_id (mailboxes d)))
     \<and> (\<forall>m \<in> set (messages d). m_thread m \<in> set (map th_id (threads d))
          \<and> refers (m_mailbox m) (map mb_id (mailboxes d)) \<and> refers (m_parent m) (map m_id (messages d))
          \<and> refers (m_created_by m) (map ad_id (admins d)))
     \<and> (\<forall>a \<in> set (attachments d). at_message a \<in> set (map m_id (messages d)))
     \<and> (\<forall>e \<in> set (events d). refers (e_message e) (map m_id (messages d)))
     \<and> (\<forall>f \<in> set (forwards d). f_message f \<in> set (map m_id (messages d)))
     \<and> (\<forall>s \<in> set (sessions d). s_admin s \<in> set (map ad_id (admins d)))
     \<and> (\<forall>a \<in> set (audits d). refers (lg_admin a) (map ad_id (admins d)))"

definition db_ok :: "db \<Rightarrow> bool" where
  "db_ok d \<longleftrightarrow> rows_ok d \<and> references_ok d"

section \<open>Statements\<close>

type_synonym 'a statement = "db \<Rightarrow> (exn + 'a) \<times> db"

definition constraint_error :: exn where
  "constraint_error = JsError (js ''Error'') (js ''D1_ERROR: constraint failed: SQLITE_CONSTRAINT'')"

definition query :: "(db \<Rightarrow> 'a) \<Rightarrow> 'a statement" where
  "query f = (\<lambda>d. (Inr (f d), d))"

definition constrained :: "(db \<Rightarrow> 'a \<times> db) \<Rightarrow> 'a statement" where
  "constrained f = (\<lambda>d. case f d of (x, d') \<Rightarrow> if db_ok d' then (Inr x, d') else (Inl constraint_error, d))"

definition insert_or_ignore :: "(db \<Rightarrow> db) \<Rightarrow> nat statement" where
  "insert_or_ignore f =
     (\<lambda>d. let d' = f d in
       if \<not> rows_ok d' then (Inr 0, d)
       else if \<not> references_ok d' then (Inl constraint_error, d)
       else (Inr 1, d'))"

text \<open>\<open>env.DB.batch\<close>: all the statements or none of them.\<close>

fun run_all :: "unit statement list \<Rightarrow> unit statement" where
  "run_all [] d = (Inr (), d)"
| "run_all (s # ss) d = (case s d of (Inl e, d') \<Rightarrow> (Inl e, d') | (Inr _, d') \<Rightarrow> run_all ss d')"

definition transaction :: "unit statement list \<Rightarrow> unit statement" where
  "transaction ss = (\<lambda>d. case run_all ss d of (Inl e, _) \<Rightarrow> (Inl e, d) | (Inr x, d') \<Rightarrow> (Inr x, d'))"

definition map_rows :: "('a \<Rightarrow> bool) \<Rightarrow> ('a \<Rightarrow> 'a) \<Rightarrow> 'a list \<Rightarrow> 'a list" where
  "map_rows p f xs = map (\<lambda>x. if p x then f x else x) xs"

definition count_rows :: "('a \<Rightarrow> bool) \<Rightarrow> 'a list \<Rightarrow> nat" where
  "count_rows p xs = length (filter p xs)"

text \<open>\<open>UPDATE\<close> and \<open>DELETE\<close> return the number of rows they changed (\<open>meta.changes\<close>).\<close>

definition update_messages :: "(message \<Rightarrow> bool) \<Rightarrow> (message \<Rightarrow> message) \<Rightarrow> nat statement" where
  "update_messages p f = constrained (\<lambda>d. (count_rows p (messages d), d\<lparr>messages := map_rows p f (messages d)\<rparr>))"

definition update_threads :: "(thread \<Rightarrow> bool) \<Rightarrow> (db \<Rightarrow> thread \<Rightarrow> thread) \<Rightarrow> nat statement" where
  "update_threads p f = constrained (\<lambda>d. (count_rows p (threads d), d\<lparr>threads := map_rows p (f d) (threads d)\<rparr>))"

definition void :: "'a statement \<Rightarrow> unit statement" where
  "void s = (\<lambda>d. case s d of (Inl e, d') \<Rightarrow> (Inl e, d') | (Inr _, d') \<Rightarrow> (Inr (), d'))"

text \<open>
  \<open>DELETE FROM mail_messages\<close> cascades to attachments and forwarding attempts, and clears the
  references that are \<open>ON DELETE SET NULL\<close>.
\<close>

definition clear_ref :: "jstr set \<Rightarrow> jstr option \<Rightarrow> jstr option" where
  "clear_ref gone z = (case z of None \<Rightarrow> None | Some i \<Rightarrow> if i \<in> gone then None else Some i)"

definition remove_messages :: "(message \<Rightarrow> bool) \<Rightarrow> db \<Rightarrow> db" where
  "remove_messages p d =
     (let gone = set (map m_id (filter p (messages d))) in
      d\<lparr>messages := map (\<lambda>m. m\<lparr>m_parent := clear_ref gone (m_parent m)\<rparr>) (filter (\<lambda>m. \<not> p m) (messages d)),
        attachments := filter (\<lambda>a. at_message a \<notin> gone) (attachments d),
        forwards := filter (\<lambda>f. f_message f \<notin> gone) (forwards d),
        events := map (\<lambda>e. e\<lparr>e_message := clear_ref gone (e_message e)\<rparr>) (events d)\<rparr>)"

definition delete_messages :: "(message \<Rightarrow> bool) \<Rightarrow> nat statement" where
  "delete_messages p = constrained (\<lambda>d. (count_rows p (messages d), remove_messages p d))"

definition delete_threads :: "(thread \<Rightarrow> bool) \<Rightarrow> nat statement" where
  "delete_threads p = constrained (\<lambda>d. (count_rows p (threads d), d\<lparr>threads := filter (\<lambda>t. \<not> p t) (threads d)\<rparr>))"

definition delete_thread_if_empty :: "jstr \<Rightarrow> nat statement" where
  "delete_thread_if_empty i =
     (\<lambda>d. delete_threads (\<lambda>t. th_id t = i \<and> \<not> list_ex (\<lambda>m. m_thread m = i) (messages d)) d)"

definition delete_events :: "(event_row \<Rightarrow> bool) \<Rightarrow> nat statement" where
  "delete_events p = constrained (\<lambda>d. (count_rows p (events d), d\<lparr>events := filter (\<lambda>e. \<not> p e) (events d)\<rparr>))"

section \<open>Objects\<close>

definition r2_put :: "jstr \<Rightarrow> bytes \<Rightarrow> db \<Rightarrow> db" where
  "r2_put k v d = d\<lparr>objects := (objects d)(k \<mapsto> v)\<rparr>"

definition r2_get :: "jstr \<Rightarrow> db \<Rightarrow> bytes option" where
  "r2_get k d = objects d k"

definition r2_delete :: "jstr list \<Rightarrow> db \<Rightarrow> db" where
  "r2_delete ks d = d\<lparr>objects := (\<lambda>k. if k \<in> set ks then None else objects d k)\<rparr>"

locale object_store =
  fixes put :: "'k \<Rightarrow> 'v \<Rightarrow> 's \<Rightarrow> 's" and get :: "'k \<Rightarrow> 's \<Rightarrow> 'v option" and delete :: "'k list \<Rightarrow> 's \<Rightarrow> 's"
  assumes get_put: "get k (put k' v s) = (if k = k' then Some v else get k s)"
    and get_delete: "get k (delete ks s) = (if k \<in> set ks then None else get k s)"
begin

lemma put_get: "get k (put k v s) = Some v"
  by (simp add: get_put)

lemma put_undone: "get k s = None \<Longrightarrow> get j (delete [k] (put k v s)) = get j s"
  by (simp add: get_put get_delete)

lemma delete_absent: "get k s = None \<Longrightarrow> get k (fold (\<lambda>c. delete c) cs s) = None"
  by (induction cs arbitrary: s) (auto simp: get_delete)

lemma delete_all: "k \<in> set (concat cs) \<Longrightarrow> get k (fold (\<lambda>c. delete c) cs s) = None"
proof (induction cs arbitrary: s)
  case (Cons c cs)
  show ?case
  proof (cases "k \<in> set (concat cs)")
    case False
    with Cons.prems have "get k (delete c s) = None" by (simp add: get_delete)
    then show ?thesis using delete_absent by simp
  qed (use Cons.IH in simp)
qed simp

lemma delete_only: "get k (fold (\<lambda>c. delete c) cs s) = get k s" if "k \<notin> set (concat cs)"
  using that by (induction cs arbitrary: s) (auto simp: get_delete)

end

interpretation r2: object_store r2_put r2_get r2_delete
  by unfold_locales (simp_all add: r2_put_def r2_get_def r2_delete_def)

section \<open>The environment\<close>

datatype fault = Works | Lost | Unacked

datatype effect =
    Forwarded jstr "(jstr \<times> jstr) list"
  | Submitted jstr "(jstr \<times> jstr) list" jsval
  | Set_Reject jstr

record world =
  db_of :: db
  calls :: nat
  draws :: nat
  effects :: "effect list"

record env =
  plat :: platform
  var :: "string \<Rightarrow> jsval"
  clock :: "nat \<Rightarrow> int"
  fault :: "nat \<Rightarrow> fault"
  others :: "nat \<Rightarrow> db \<Rightarrow> db"
  uuid_at :: "nat \<Rightarrow> jstr"
  random_at :: "nat \<Rightarrow> nat \<Rightarrow> bytes"
  parse_mime :: "bytes \<Rightarrow> email option"
  network :: "nat \<Rightarrow> jstr \<Rightarrow> jsval \<Rightarrow> outcome"
  email_binding :: "(nat \<Rightarrow> jsval \<Rightarrow> (jstr \<times> jstr) + jsval) option"
  locale_less :: "jstr \<Rightarrow> jstr \<Rightarrow> bool"

type_synonym 'a action = "(world, 'a) act"

definition remote_error :: exn where
  "remote_error = JsError (js ''Error'') (js ''Network connection lost.'')"

definition external :: "env \<Rightarrow> 'a statement \<Rightarrow> 'a action" where
  "external E s = (\<lambda>w.
     let k = calls w; d = others E k (db_of w); w' = w\<lparr>calls := Suc k\<rparr> in
     case fault E k of
       Works \<Rightarrow> (case s d of (r, d') \<Rightarrow> (r, w'\<lparr>db_of := d'\<rparr>))
     | Lost \<Rightarrow> (Inl remote_error, w'\<lparr>db_of := d\<rparr>)
     | Unacked \<Rightarrow> (Inl remote_error, w'\<lparr>db_of := snd (s d)\<rparr>))"

definition select :: "env \<Rightarrow> (db \<Rightarrow> 'a) \<Rightarrow> 'a action" where
  "select E f = external E (query f)"

definition r2_call :: "env \<Rightarrow> (db \<Rightarrow> db) \<Rightarrow> unit action" where
  "r2_call E f = external E (\<lambda>d. (Inr (), f d))"

definition batch :: "env \<Rightarrow> unit statement list \<Rightarrow> unit action" where
  "batch E ss = external E (transaction ss)"

definition date_now :: "env \<Rightarrow> int action" where
  "date_now E = (\<lambda>w. (Inr (clock E (calls w)), w))"

definition now :: "env \<Rightarrow> jstr action" where
  "now E = (\<lambda>w. (Inr (iso (clock E (calls w))), w))"

definition uuid :: "env \<Rightarrow> jstr action" where
  "uuid E = (\<lambda>w. (Inr (uuid_at E (draws w)), w\<lparr>draws := Suc (draws w)\<rparr>))"

definition randomToken :: "env \<Rightarrow> nat \<Rightarrow> jstr action" where
  "randomToken E n = (\<lambda>w. (Inr (base64Url (random_at E (draws w) n)), w\<lparr>draws := Suc (draws w)\<rparr>))"

definition sha256 :: "env \<Rightarrow> bytes \<Rightarrow> jstr" where
  "sha256 E bs = base64Url (sha256_digest (plat E) bs)"

definition var_text :: "env \<Rightarrow> string \<Rightarrow> jstr" where
  "var_text E name = js_string (js_or (var E name) (JStr []))"

section \<open>What a remote call can do\<close>

definition stable :: "env \<Rightarrow> (db \<Rightarrow> bool) \<Rightarrow> bool" where
  "stable E I \<longleftrightarrow> (\<forall>k d. I d \<longrightarrow> I (others E k d))"

definition preserves :: "(db \<Rightarrow> bool) \<Rightarrow> 'a statement \<Rightarrow> bool" where
  "preserves I s \<longleftrightarrow> (\<forall>d. I d \<longrightarrow> I (snd (s d)))"

named_theorems preserves_intros \<open>statements that preserve the constraints of the schema\<close>

lemma keeps_external [keeps_intros]:
  "stable E I \<Longrightarrow> preserves I s \<Longrightarrow> keeps (\<lambda>w. I (db_of w)) (external E s)"
  by (auto simp: keeps_def external_def stable_def preserves_def Let_def split: fault.split prod.split)
     (metis snd_conv)

lemma preserves_query [preserves_intros]: "preserves I (query f)"
  by (simp add: preserves_def query_def)

lemma preserves_constrained [preserves_intros]: "preserves db_ok (constrained f)"
  by (simp add: preserves_def constrained_def split: prod.split)

lemma preserves_ignore [preserves_intros]: "preserves db_ok (insert_or_ignore f)"
  by (simp add: preserves_def insert_or_ignore_def Let_def db_ok_def)

lemma preserves_update_messages [preserves_intros]: "preserves db_ok (update_messages p f)"
  unfolding update_messages_def by (rule preserves_intros)

lemma preserves_update_threads [preserves_intros]: "preserves db_ok (update_threads p f)"
  unfolding update_threads_def by (rule preserves_intros)

lemma preserves_delete_messages [preserves_intros]: "preserves db_ok (delete_messages p)"
  unfolding delete_messages_def by (rule preserves_intros)

lemma preserves_delete_threads [preserves_intros]: "preserves db_ok (delete_threads p)"
  unfolding delete_threads_def by (rule preserves_intros)

lemma preserves_delete_events [preserves_intros]: "preserves db_ok (delete_events p)"
  unfolding delete_events_def by (rule preserves_intros)

lemma preserves_if_empty [preserves_intros]: "preserves db_ok (delete_thread_if_empty i)"
  using preserves_delete_threads by (simp add: preserves_def delete_thread_if_empty_def)

lemma preserves_void [preserves_intros]: "preserves I s \<Longrightarrow> preserves I (void s)"
  by (auto simp: preserves_def void_def split: prod.split sum.split)

lemma preserves_transaction [preserves_intros]:
  assumes "\<And>s. s \<in> set ss \<Longrightarrow> preserves I s"
  shows "preserves I (transaction ss)"
proof -
  have "I d \<Longrightarrow> I (snd (run_all ss d))" for d
    using assms
  proof (induction ss arbitrary: d)
    case (Cons s ss)
    then have "I (snd (s d))" by (simp add: preserves_def)
    with Cons show ?case by (auto split: prod.split sum.split)
  qed simp
  then show ?thesis by (fastforce simp: preserves_def transaction_def split: prod.split sum.split)
qed

text \<open>Frame rules: a predicate that does not look at a table survives every write to it.\<close>

lemma preserves_frame:
  "(\<And>d ms. I (d\<lparr>messages := ms\<rparr>) = I d) \<Longrightarrow> preserves I (update_messages p f)"
  "(\<And>d ts. I (d\<lparr>threads := ts\<rparr>) = I d) \<Longrightarrow> preserves I (update_threads q g)"
  "(\<And>d ts. I (d\<lparr>threads := ts\<rparr>) = I d) \<Longrightarrow> preserves I (delete_threads q)"
  "(\<And>d ts. I (d\<lparr>threads := ts\<rparr>) = I d) \<Longrightarrow> preserves I (delete_thread_if_empty i)"
  "(\<And>d. I d \<Longrightarrow> I (h d)) \<Longrightarrow> preserves I (insert_or_ignore h)"
  by (auto simp: preserves_def update_messages_def update_threads_def delete_threads_def delete_thread_if_empty_def
      constrained_def insert_or_ignore_def Let_def split: prod.split if_splits)

lemma preserves_constrained_frame: "(\<And>d. I d \<Longrightarrow> I (snd (k d))) \<Longrightarrow> preserves I (constrained k)"
  by (simp add: preserves_def constrained_def split: prod.split) (metis snd_conv)

lemma keeps_select [keeps_intros]: "stable E I \<Longrightarrow> keeps (\<lambda>w. I (db_of w)) (select E f)"
  unfolding select_def by (intro keeps_intros preserves_intros)

lemma keeps_r2_call [keeps_intros]:
  "stable E I \<Longrightarrow> (\<And>d. I d \<Longrightarrow> I (f d)) \<Longrightarrow> keeps (\<lambda>w. I (db_of w)) (r2_call E f)"
  unfolding r2_call_def by (intro keeps_intros) (simp_all add: preserves_def)

lemma keeps_batch [keeps_intros]:
  "stable E I \<Longrightarrow> (\<And>s. s \<in> set ss \<Longrightarrow> preserves I s) \<Longrightarrow> keeps (\<lambda>w. I (db_of w)) (batch E ss)"
  unfolding batch_def by (intro keeps_intros preserves_intros)

lemma keeps_local [keeps_intros]:
  "keeps (\<lambda>w. I (db_of w)) (date_now E)" "keeps (\<lambda>w. I (db_of w)) (now E)" "keeps (\<lambda>w. I (db_of w)) (uuid E)"
  "keeps (\<lambda>w. I (db_of w)) (randomToken E n)"
  by (simp_all add: keeps_def date_now_def now_def uuid_def randomToken_def)

lemma objects_ok [simp]: "db_ok (d\<lparr>objects := f\<rparr>) = db_ok d"
  by (simp add: db_ok_def rows_ok_def references_ok_def account_rows_ok_def)

lemma r2_ok [simp]: "db_ok (r2_put k v d) = db_ok d" "db_ok (r2_delete ks d) = db_ok d"
  by (simp_all add: r2_put_def r2_delete_def)

section \<open>Quiet and reliable environments\<close>

definition quiet :: "env \<Rightarrow> bool" where
  "quiet E \<longleftrightarrow> (\<forall>k. others E k = id)"

definition reliable :: "env \<Rightarrow> bool" where
  "reliable E \<longleftrightarrow> (\<forall>k. fault E k = Works)"

definition step_db :: "world \<Rightarrow> db \<Rightarrow> world" where
  "step_db w d = w\<lparr>db_of := d, calls := Suc (calls w)\<rparr>"

lemma step_db_sel [simp]:
  "db_of (step_db w d) = d" "calls (step_db w d) = Suc (calls w)" "draws (step_db w d) = draws w"
  "effects (step_db w d) = effects w"
  by (simp_all add: step_db_def)

lemma external_quiet:
  "quiet E \<Longrightarrow> reliable E \<Longrightarrow> external E s w = (case s (db_of w) of (r, d') \<Rightarrow> (r, step_db w d'))"
  by (simp add: external_def quiet_def reliable_def step_db_def Let_def split: prod.split)

lemma select_quiet: "quiet E \<Longrightarrow> reliable E \<Longrightarrow> select E f w = (Inr (f (db_of w)), step_db w (db_of w))"
  by (simp add: select_def external_quiet query_def)

lemma r2_call_quiet: "quiet E \<Longrightarrow> reliable E \<Longrightarrow> r2_call E f w = (Inr (), step_db w (f (db_of w)))"
  by (simp add: r2_call_def external_quiet)

lemma local_app [act_simps]:
  "date_now E w = (Inr (clock E (calls w)), w)" "now E w = (Inr (iso (clock E (calls w))), w)"
  "uuid E w = (Inr (uuid_at E (draws w)), w\<lparr>draws := Suc (draws w)\<rparr>)"
  by (simp_all add: date_now_def now_def uuid_def)

section \<open>Runs that return\<close>

lemma external_InrE:
  assumes "external E s w = (Inr x, w')"
  obtains d' where "s (others E (calls w) (db_of w)) = (Inr x, d')" "w' = step_db w d'"
  using assms by (auto simp: external_def step_db_def Let_def split: fault.splits prod.splits)

lemma constrained_Inr: "constrained f d = (Inr x, d') \<longleftrightarrow> f d = (x, d') \<and> db_ok d'"
  by (auto simp: constrained_def split: prod.split)

lemma constrained_cases: "snd (constrained f d) = d \<or> snd (constrained f d) = snd (f d)"
  by (auto simp: constrained_def split: prod.split)

lemma select_InrE:
  assumes "select E f w = (Inr x, w')"
  obtains d' where "d' = others E (calls w) (db_of w)" "x = f d'" "w' = step_db w d'"
  using assms unfolding select_def by (auto elim!: external_InrE simp: query_def)

lemma quiet_others [simp]: "quiet E \<Longrightarrow> others E k d = d"
  by (simp add: quiet_def)

lemma now_Inr [simp]: "now E w = (Inr t, w') \<longleftrightarrow> t = iso (clock E (calls w)) \<and> w' = w"
  and date_now_Inr [simp]: "date_now E w = (Inr n, w') \<longleftrightarrow> n = clock E (calls w) \<and> w' = w"
  and uuid_Inr [simp]: "uuid E w = (Inr u, w') \<longleftrightarrow> u = uuid_at E (draws w) \<and> w' = w\<lparr>draws := Suc (draws w)\<rparr>"
  by (auto simp: now_def date_now_def uuid_def)

lemma map_rows_simps [simp]:
  "map_rows p f [] = []" "map_rows p f (x # xs) = (if p x then f x else x) # map_rows p f xs"
  "length (map_rows p f xs) = length xs"
  by (simp_all add: map_rows_def)

lemma set_map_rows: "set (map_rows p f xs) = (\<lambda>x. if p x then f x else x) ` set xs"
  by (simp add: map_rows_def)

lemma in_map_rows: "y \<in> set (map_rows p f xs) \<longleftrightarrow> (\<exists>x \<in> set xs. y = (if p x then f x else x))"
  by (auto simp: map_rows_def)

lemma map_map_rows: "(\<And>x. x \<in> set xs \<Longrightarrow> p x \<Longrightarrow> g (f x) = g x) \<Longrightarrow> map g (map_rows p f xs) = map g xs"
  by (simp add: map_rows_def)

lemma map_rows_none: "\<forall>x \<in> set xs. \<not> p x \<Longrightarrow> map_rows p f xs = xs"
  by (simp add: map_rows_def map_idI)

lemma filter_map_rows:
  "(\<And>x. x \<in> set xs \<Longrightarrow> p x \<Longrightarrow> q (f x) = q x) \<Longrightarrow> filter q (map_rows p f xs) = map_rows p f (filter q xs)"
  by (induction xs) auto

lemma count_rows_0: "count_rows p xs = 0 \<longleftrightarrow> (\<forall>x \<in> set xs. \<not> p x)"
  by (simp add: count_rows_def filter_empty_conv)

lemma external_db:
  assumes "quiet E" "external E s w = (r, w')"
  shows "db_of w' = db_of w \<or> db_of w' = snd (s (db_of w))"
  using assms by (auto simp: external_def Let_def split: fault.splits prod.splits)

lemma update_threads_snd: "snd (update_threads p f d) = d \<or> snd (update_threads p f d) = d\<lparr>threads := map_rows p (f d) (threads d)\<rparr>"
  by (simp add: update_threads_def constrained_def)

lemma update_messages_snd: "snd (update_messages p f d) = d \<or> snd (update_messages p f d) = d\<lparr>messages := map_rows p f (messages d)\<rparr>"
  by (simp add: update_messages_def constrained_def)

lemma insert_or_ignore_snd: "snd (insert_or_ignore f d) = d \<or> snd (insert_or_ignore f d) = f d"
  by (simp add: insert_or_ignore_def Let_def)

lemma keeps_bind_select:
  assumes "stable E I" "\<And>d. I d \<Longrightarrow> keeps (\<lambda>w. I (db_of w)) (g (f d))"
  shows "keeps (\<lambda>w. I (db_of w)) (bindE (select E f) g)"
proof (rule keepsI)
  fix w :: world
  assume I: "I (db_of w)"
  have d: "I (others E (calls w) (db_of w))" using assms(1) I by (simp add: stable_def)
  show "I (db_of (snd (bindE (select E f) g w)))"
    using assms(2) [OF d] d
    by (auto simp: select_def bindE_def external_def query_def keeps_def Let_def split: fault.split)
qed

text \<open>Hoare rules for remote calls, over the database and the effects.\<close>

definition holds :: "(db \<Rightarrow> bool) \<Rightarrow> (effect list \<Rightarrow> bool) \<Rightarrow> world \<Rightarrow> bool" where
  "holds I F w \<longleftrightarrow> I (db_of w) \<and> F (effects w)"

lemma triple_external:
  assumes "stable E I" "preserves I s" "\<And>d x d'. I d \<Longrightarrow> s d = (Inr x, d') \<Longrightarrow> Q x"
  shows "triple (holds I F) (external E s) (\<lambda>x w. holds I F w \<and> Q x) (\<lambda>_. holds I F)"
proof (rule tripleI)
  fix w :: world
  assume w: "holds I F w"
  let ?d = "others E (calls w) (db_of w)"
  have d: "I ?d" using w assms(1) by (simp add: holds_def stable_def)
  then have "I (snd (s ?d))" using assms(2) by (simp add: preserves_def)
  then show "case external E s w of (Inl e, s') \<Rightarrow> holds I F s' | (Inr x, s') \<Rightarrow> holds I F s' \<and> Q x"
    using d w assms(3) [OF d] by (auto simp: external_def holds_def Let_def split: fault.split prod.split sum.split)
qed

lemma triple_select:
  assumes "stable E I" "\<And>d. I d \<Longrightarrow> Q (f d)"
  shows "triple (holds I F) (select E f) (\<lambda>x w. holds I F w \<and> Q x) (\<lambda>_. holds I F)"
  unfolding select_def using assms by (intro triple_external) (auto simp: query_def preserves_def)

lemma triple_local:
  "triple (holds I F) (now E) (\<lambda>_. holds I F) R" "triple (holds I F) (date_now E) (\<lambda>_. holds I F) R"
  "triple (holds I F) (uuid E) (\<lambda>_. holds I F) R" "triple (holds I F) (randomToken E n) (\<lambda>_. holds I F) R"
  by (simp_all add: triple_def now_def date_now_def uuid_def randomToken_def holds_def)

text \<open>What the errors of a remote call can be, and its result when nobody interferes.\<close>

lemma external_Inl:
  assumes "external E s w = (Inl e, w')"
  shows "e = remote_error \<or> (\<exists>d. fst (s d) = Inl e)"
  using assms by (auto simp: external_def Let_def split: fault.splits prod.splits) (metis fst_conv)+

lemma constrained_error: "fst (constrained f d) = Inl e \<Longrightarrow> e = constraint_error"
  by (auto simp: constrained_def split: prod.splits if_splits)

definition statement_throws :: "(exn \<Rightarrow> bool) \<Rightarrow> 'a statement \<Rightarrow> bool" where
  "statement_throws P s \<longleftrightarrow> (\<forall>d e. fst (s d) = Inl e \<longrightarrow> P e)"

lemma throws_external [throws_intros]: "P remote_error \<Longrightarrow> statement_throws P s \<Longrightarrow> throws_only P (external E s)"
  unfolding throws_only_def statement_throws_def using external_Inl by metis

lemma statement_throws_simps [throws_intros]:
  "statement_throws P (query f)" "P constraint_error \<Longrightarrow> statement_throws P (constrained g)"
  "P constraint_error \<Longrightarrow> statement_throws P (insert_or_ignore h)"
  "P constraint_error \<Longrightarrow> statement_throws P (update_messages p1 f1)"
  "P constraint_error \<Longrightarrow> statement_throws P (update_threads p2 f2)"
  "P constraint_error \<Longrightarrow> statement_throws P (delete_messages p1)"
  "P constraint_error \<Longrightarrow> statement_throws P (delete_threads p2)"
  "P constraint_error \<Longrightarrow> statement_throws P (delete_events p3)"
  by (auto simp: statement_throws_def query_def insert_or_ignore_def Let_def update_messages_def update_threads_def
      delete_messages_def delete_threads_def delete_events_def dest!: constrained_error split: if_splits)

lemma throws_void [throws_intros]: "statement_throws P s \<Longrightarrow> statement_throws P (void s)"
  by (auto simp: statement_throws_def void_def split: prod.splits sum.splits) (metis fst_conv)

lemma throws_local [throws_intros]: "throws_only P (now E)" "throws_only P (date_now E)" "throws_only P (uuid E)"
  "throws_only P (randomToken E n)"
  by (simp_all add: throws_only_def now_def date_now_def uuid_def randomToken_def)

lemma throws_select [throws_intros]: "P remote_error \<Longrightarrow> throws_only P (select E f)"
  unfolding select_def by (intro throws_intros)

lemma external_step: "quiet E \<Longrightarrow> external E s w = (Inr x, w') \<Longrightarrow> s (db_of w) = (Inr x, db_of w')"
  by (auto elim!: external_InrE)

lemma select_step: "quiet E \<Longrightarrow> select E f w = (Inr x, w') \<Longrightarrow> x = f (db_of w) \<and> db_of w' = db_of w"
  by (auto elim!: select_InrE)

lemma r2_step: "quiet E \<Longrightarrow> r2_call E f w = (Inr x, w') \<Longrightarrow> db_of w' = f (db_of w)"
  unfolding r2_call_def by (auto dest: external_step)

section \<open>Defaults and an example environment\<close>

text \<open>A row of \<open>mail_messages\<close> with the schema's defaults in every column that has one.\<close>

definition message_defaults :: message where
  "message_defaults =
     \<lparr> m_id = [], m_thread = [], m_mailbox = None, m_direction = js ''unknown'', m_from = None, m_to = [],
       m_from_json = js ''[]'', m_to_json = js ''[]'', m_cc_json = js ''[]'', m_bcc_json = js ''[]'',
       m_reply_to_json = js ''[]'', m_subject = [], m_text = None, m_html = None, m_body_truncated = False,
       m_internet_id = None, m_provider_internet_id = None, m_in_reply_to = None, m_references = None,
       m_x_id = None, m_parent = None, m_idempotency = None, m_request_hash = None,
       m_status = js ''received'', m_recipient_status = js ''{}'', m_is_read = False, m_is_replied = False,
       m_received_at = None, m_sent_at = None, m_raw_key = None, m_raw_size = 0,
       m_archive_status = js ''pending'', m_last_error = None, m_created_by = None, m_provider = None,
       m_provider_message_id = None, m_resend_id = None, m_created_at = [], m_updated_at = [] \<rparr>"

definition empty_db :: db where
  "empty_db = \<lparr> threads = [], messages = [], attachments = [], events = [], forwards = [], mailboxes = [],
     admins = [], sessions = [], attempts = [], audits = [], probes = [], objects = (\<lambda>_. None) \<rparr>"

text \<open>A reliable environment without other requests, for the examples: its clock ticks a second per call.\<close>

definition example_env :: env where
  "example_env = \<lparr> plat = example_platform,
     var = (\<lambda>name. if name = ''AUTH_PEPPER'' then JStr (replicate 32 112) else JUndef),
     clock = (\<lambda>k. 1700000000000 + 1000 * int k), fault = (\<lambda>_. Works), others = (\<lambda>_. id),
     uuid_at = (\<lambda>n. js ''id-'' @ nat_text n), random_at = (\<lambda>n k. replicate k (of_nat n)),
     parse_mime = (\<lambda>_. None), network = (\<lambda>_ _ _. Timed_Out), email_binding = None,
     locale_less = (\<lambda>a b. a < b) \<rparr>"

definition start_world :: "db \<Rightarrow> world" where
  "start_world d = \<lparr> db_of = d, calls = 0, draws = 0, effects = [] \<rparr>"

lemma example_env_ok [simp]: "quiet example_env" "reliable example_env" "stable example_env I"
  by (simp_all add: quiet_def reliable_def stable_def example_env_def)

lemma start_world_sel [simp]: "db_of (start_world d) = d" "calls (start_world d) = 0" "draws (start_world d) = 0"
  "effects (start_world d) = []"
  by (simp_all add: start_world_def)

lemmas db_ok_defs = db_ok_def rows_ok_def references_ok_def message_rows_ok_def event_rows_ok_def
  account_rows_ok_def refers_def pair_key_def present_def thread_statuses_def

end
