(* ===== verification/Http.thy ===== *)
theory Http
  imports Database
begin

text \<open>
  The HTTP layer of \<open>src/src/lib.ts\<close>: reading a JSON body within a size limit, cookies, the origin
  check, the hashes that stand for a client's address and browser, JSON and error responses, the
  security headers, and the audit log of \<open>src/src/auth.ts\<close> that every state-changing handler
  writes. The URL parser of the platform is part of the request record.
\<close>

section \<open>Text decoding\<close>

definition cont_byte :: "byte \<Rightarrow> bool" where
  "cont_byte b \<longleftrightarrow> 0x80 \<le> b \<and> b \<le> 0xBF"

definition point_units :: "nat \<Rightarrow> jstr" where
  "point_units n = (if n < 0x10000 then [of_nat n]
     else [of_nat (0xD800 + (n - 0x10000) div 0x400), of_nat (0xDC00 + (n - 0x10000) mod 0x400)])"

text \<open>The range of the second byte, which excludes overlong forms, surrogates and code points above U+10FFFF.\<close>

definition second_ok :: "byte \<Rightarrow> byte \<Rightarrow> bool" where
  "second_ok b c \<longleftrightarrow>
     (if b = 0xE0 then 0xA0 \<le> c \<and> c \<le> 0xBF else if b = 0xED then 0x80 \<le> c \<and> c \<le> 0x9F
      else if b = 0xF0 then 0x90 \<le> c \<and> c \<le> 0xBF else if b = 0xF4 then 0x80 \<le> c \<and> c \<le> 0x8F
      else cont_byte c)"

text \<open>
  One character of UTF-8: the code units it stands for (\<open>None\<close> for a malformed sequence) and the
  bytes after it. A malformed sequence ends before the byte that cannot continue it.
\<close>

definition next_char :: "byte \<Rightarrow> bytes \<Rightarrow> jstr option \<times> bytes" where
  "next_char b bs =
     (if b < 0x80 then (Some [of_nat (unat b)], bs)
      else if 0xC2 \<le> b \<and> b \<le> 0xDF then
        (case bs of
           c # cs \<Rightarrow> if cont_byte c then (Some (point_units ((unat b - 0xC0) * 64 + (unat c - 0x80))), cs) else (None, bs)
         | [] \<Rightarrow> (None, []))
      else if 0xE0 \<le> b \<and> b \<le> 0xEF then
        (case bs of
           c # cs \<Rightarrow>
             if \<not> second_ok b c then (None, bs)
             else (case cs of
                d # ds \<Rightarrow>
                  if cont_byte d then
                    (Some (point_units ((unat b - 0xE0) * 4096 + (unat c - 0x80) * 64 + (unat d - 0x80))), ds)
                  else (None, cs)
              | [] \<Rightarrow> (None, []))
         | [] \<Rightarrow> (None, []))
      else if 0xF0 \<le> b \<and> b \<le> 0xF4 then
        (case bs of
           c # cs \<Rightarrow>
             if \<not> second_ok b c then (None, bs)
             else (case cs of
                d # ds \<Rightarrow>
                  if \<not> cont_byte d then (None, cs)
                  else (case ds of
                     e # es \<Rightarrow>
                       if cont_byte e then
                         (Some (point_units ((unat b - 0xF0) * 262144 + (unat c - 0x80) * 4096
                            + (unat d - 0x80) * 64 + (unat e - 0x80))), es)
                       else (None, ds)
                   | [] \<Rightarrow> (None, []))
              | [] \<Rightarrow> (None, []))
         | [] \<Rightarrow> (None, []))
      else (None, bs))"

lemma next_char_shorter: "next_char b bs = (r, rest) \<Longrightarrow> length rest \<le> length bs"
  by (auto simp: next_char_def split: if_splits list.splits)

function decode_bytes :: "bytes \<Rightarrow> jstr" where
  "decode_bytes [] = []"
| "decode_bytes (b # bs) =
     (case next_char b bs of (r, rest) \<Rightarrow>
        (case r of Some us \<Rightarrow> us | None \<Rightarrow> [0xFFFD]) @ decode_bytes rest)"
  by pat_completeness auto
termination
  by (relation "measure length") (auto dest!: next_char_shorter [OF sym])

text \<open>\<open>new TextDecoder().decode(bytes)\<close>, which drops a byte order mark.\<close>

definition text_decode :: "bytes \<Rightarrow> jstr" where
  "text_decode bs = decode_bytes (if take 3 bs = [0xEF, 0xBB, 0xBF] then drop 3 bs else bs)"

text \<open>\<open>decodeURIComponent(s)\<close>; \<open>None\<close> is the \<open>URIError\<close>.\<close>

fun percent_bytes :: "jstr \<Rightarrow> (byte + code_unit) list option" where
  "percent_bytes [] = Some []"
| "percent_bytes (c # cs) =
     (if c = 37 then
        (case cs of
           a # b # rest \<Rightarrow>
             (case (hex_value a, hex_value b) of
                (Some i, Some j) \<Rightarrow> map_option (\<lambda>xs. Inl (of_nat (i * 16 + j)) # xs) (percent_bytes rest)
              | _ \<Rightarrow> None)
         | _ \<Rightarrow> None)
      else map_option (\<lambda>xs. Inr c # xs) (percent_bytes cs))"

definition leading_bytes :: "(byte + code_unit) list \<Rightarrow> bytes" where
  "leading_bytes xs = map (\<lambda>x. case x of Inl b \<Rightarrow> b | Inr _ \<Rightarrow> 0) (takeWhile isl xs)"

function strict_units :: "(byte + code_unit) list \<Rightarrow> jstr option" where
  "strict_units [] = Some []"
| "strict_units (x # xs) =
     (case x of
        Inr c \<Rightarrow> map_option (Cons c) (strict_units xs)
      | Inl b \<Rightarrow>
          (case next_char b (leading_bytes xs) of (r, rest) \<Rightarrow>
             (case r of
                None \<Rightarrow> None
              | Some us \<Rightarrow> map_option (append us) (strict_units (drop (length (leading_bytes xs) - length rest) xs)))))"
  by pat_completeness auto
termination
  by (relation "measure length") auto

definition decode_uri :: "jstr \<Rightarrow> jstr option" where
  "decode_uri s = (case percent_bytes s of None \<Rightarrow> None | Some xs \<Rightarrow> strict_units xs)"

text \<open>\<open>encodeURIComponent(s)\<close>; \<open>None\<close> is the \<open>URIError\<close> on an unpaired surrogate.\<close>

definition uri_unreserved :: "byte \<Rightarrow> bool" where
  "uri_unreserved b \<longleftrightarrow> is_alnum (ucast b) \<or> b \<in> {45, 95, 46, 33, 126, 42, 39, 40, 41}"

definition upper_hex :: "nat \<Rightarrow> code_unit" where
  "upper_hex n = (if n < 10 then of_nat (48 + n) else of_nat (55 + n))"

definition encode_uri :: "jstr \<Rightarrow> jstr option" where
  "encode_uri s =
     (if well_formed s then
        Some (concat (map (\<lambda>b. if uri_unreserved b then [ucast b]
          else [37, upper_hex (unat b div 16), upper_hex (unat b mod 16)]) (utf8 s)))
      else None)"

section \<open>Responses\<close>

datatype body = Json jsval | Raw bytes

record response =
  rs_status :: nat
  rs_headers :: "(jstr \<times> jstr) list"
  rs_body :: body

definition set_header :: "string \<Rightarrow> jstr \<Rightarrow> (jstr \<times> jstr) list \<Rightarrow> (jstr \<times> jstr) list" where
  "set_header name v hs = put_key (map lower_unit (js name)) v hs"

definition json :: "jsval \<Rightarrow> nat \<Rightarrow> (string \<times> jstr) list \<Rightarrow> response" where
  "json data status extra =
     \<lparr> rs_status = status,
       rs_headers = set_header ''Cache-Control'' (js ''no-store'')
         (set_header ''Content-Type'' (js ''application/json; charset=utf-8'')
           (fold (\<lambda>(k, v). set_header k v) extra [])),
       rs_body = Json data \<rparr>"

definition request_id_prefix :: regex where
  "request_id_prefix = cats (replicate 16 (Cls is_hex))"

definition createRequestId :: "env \<Rightarrow> http_request \<Rightarrow> jstr action" where
  "createRequestId E r =
     (case request_header r ''CF-Ray'' of
        Some ray \<Rightarrow> if ray \<noteq> [] \<and> re_prefix request_id_prefix ray then returnE (take 16 ray) else uuid E
      | None \<Rightarrow> uuid E)"

definition error_body :: "jstr \<Rightarrow> jstr \<Rightarrow> jstr \<Rightarrow> jsval" where
  "error_body message code requestId =
     obj ([(''error'', JStr message), (''code'', JStr code)] @ (if requestId = [] then [] else [(''request_id'', JStr requestId)]))"

definition errorResponse :: "exn \<Rightarrow> jstr \<Rightarrow> response" where
  "errorResponse e requestId =
     (case e of
        AppError status message code \<Rightarrow> json (error_body message code requestId) status []
      | JsError name text \<Rightarrow>
          json (error_body (js ''The mailbox service is temporarily unavailable.'') (js ''internal_error'') requestId) 500 [])"

definition quoted :: "string \<Rightarrow> string" where
  "quoted s = CHR 0x27 # s @ [CHR 0x27]"

definition securityHeaders :: "response \<Rightarrow> jstr \<Rightarrow> response" where
  "securityHeaders r requestId =
     (let start = (if requestId = [] then rs_headers r else set_header ''X-Request-ID'' requestId (rs_headers r)) in
      r\<lparr>rs_headers := fold (\<lambda>(k, v). set_header k (js v))
        [(''X-Content-Type-Options'', ''nosniff''), (''X-Frame-Options'', ''DENY''), (''Referrer-Policy'', ''no-referrer''),
         (''Permissions-Policy'', ''camera=(), microphone=(), geolocation=(), payment=(), usb=()''),
         (''Cross-Origin-Opener-Policy'', ''same-origin''), (''Cross-Origin-Resource-Policy'', ''same-origin''),
         (''Strict-Transport-Security'', ''max-age=31536000''), (''X-Robots-Tag'', ''noindex, nofollow''),
         (''Content-Security-Policy'', ''default-src 'self'; script-src 'self'; style-src 'self'; img-src 'self' data:; connect-src 'self'; frame-src 'self'; object-src 'none'; base-uri 'none'; form-action 'self'; frame-ancestors '' @ quoted ''none'')]
        start\<rparr>)"

section \<open>Requests\<close>

definition too_large :: exn where
  "too_large = app_error 413 ''Request body is too large.'' ''body_too_large''"

definition readJson :: "env \<Rightarrow> http_request \<Rightarrow> nat \<Rightarrow> exn + jsval" where
  "readJson E r maxBytes =
     (if (case parse_int (or_else (header_text r ''Content-Length'') (js ''0'')) of Some n \<Rightarrow> n > int maxBytes | None \<Rightarrow> False)
      then Inl too_large
      else if length (rq_body r) > maxBytes then Inl too_large
      else if rq_body r = [] then Inr (JObj [])
      else (case json_parse (num_text (plat E)) (text_decode (rq_body r)) of
          Some (JObj kvs) \<Rightarrow> Inr (JObj kvs)
        | _ \<Rightarrow> Inl (app_error 400 ''Request body must be valid JSON.'' ''invalid_json'')))"

text \<open>A later cookie of the same name wins; parts that do not decode are skipped.\<close>

definition cookie_part :: "jstr \<Rightarrow> (jstr \<times> jstr) option" where
  "cookie_part part =
     (let name = takeWhile (\<lambda>c. c \<noteq> 61) part; rest = dropWhile (\<lambda>c. c \<noteq> 61) part in
      if name = [] \<or> rest = [] then None
      else (case decode_uri (trim (tl rest)) of None \<Rightarrow> None | Some v \<Rightarrow> Some (trim name, v)))"

definition cookieMap :: "http_request \<Rightarrow> jstr \<Rightarrow> jstr option" where
  "cookieMap r = foldl (\<lambda>m part. case cookie_part part of None \<Rightarrow> m | Some (k, v) \<Rightarrow> m(k \<mapsto> v))
     (\<lambda>_. None) (split_at 59 (header_text r ''Cookie''))"

definition SESSION_COOKIE_NAME :: jstr where
  "SESSION_COOKIE_NAME = js ''__Host-mailbox_session''"

definition uri_error :: exn where
  "uri_error = JsError (js ''URIError'') (js ''URI malformed'')"

definition sessionCookie :: "jstr \<Rightarrow> nat \<Rightarrow> exn + jstr" where
  "sessionCookie token maxAgeSeconds =
     (case encode_uri token of
        None \<Rightarrow> Inl uri_error
      | Some t \<Rightarrow> Inr (SESSION_COOKIE_NAME @ js ''='' @ t @ js ''; Path=/; HttpOnly; Secure; SameSite=Strict; Max-Age='' @
          nat_text maxAgeSeconds))"

definition clearSessionCookie :: jstr where
  "clearSessionCookie = (case sessionCookie [] 0 of Inr c \<Rightarrow> c | Inl _ \<Rightarrow> [])"

definition requireAuthPepper :: "env \<Rightarrow> exn + jstr" where
  "requireAuthPepper E =
     (case var E ''AUTH_PEPPER'' of
        JStr p \<Rightarrow>
          if p = [] \<or> byte_length p < 32 then
            Inl (app_error 503 ''AUTH_PEPPER is not configured. Authentication is disabled.'' ''auth_not_configured'')
          else if byte_length p > 512 then
            Inl (app_error 503 ''AUTH_PEPPER exceeds the maximum supported length.'' ''auth_not_configured'')
          else Inr p
      | _ \<Rightarrow> Inl (app_error 503 ''AUTH_PEPPER is not configured. Authentication is disabled.'' ''auth_not_configured''))"

definition sha256_text :: "env \<Rightarrow> jstr \<Rightarrow> jstr" where
  "sha256_text E t = sha256 E (utf8 t)"

definition requestIpHash :: "env \<Rightarrow> http_request \<Rightarrow> exn + jstr" where
  "requestIpHash E r =
     (case requireAuthPepper E of
        Inl e \<Rightarrow> Inl e
      | Inr pepper \<Rightarrow> Inr (sha256_text E (pepper @ js ''|'' @ or_else (header_text r ''CF-Connecting-IP'') (js ''unknown''))))"

definition userAgentHash :: "env \<Rightarrow> http_request \<Rightarrow> exn + jstr" where
  "userAgentHash E r =
     (case requireAuthPepper E of
        Inl e \<Rightarrow> Inl e
      | Inr pepper \<Rightarrow> Inr (sha256_text E (pepper @ js ''|'' @ header_text r ''User-Agent'')))"

definition expected_origin :: "env \<Rightarrow> http_request \<Rightarrow> jstr" where
  "expected_origin E r =
     (if truthy (var E ''APP_ORIGIN'') then js_string (var E ''APP_ORIGIN'')
      else if rq_hostname r \<in> set (map js [''localhost'', ''127.0.0.1'', ''::1'']) then rq_origin_of_url r else [])"

definition requireOrigin :: "env \<Rightarrow> http_request \<Rightarrow> exn + unit" where
  "requireOrigin E r =
     (if expected_origin E r = [] then
        Inl (app_error 503 ''APP_ORIGIN is not configured for this origin. Authentication is disabled.'' ''origin_not_configured'')
      else (case request_header r ''Origin'' of
          Some origin \<Rightarrow>
            if origin = [] \<or> origin \<noteq> expected_origin E r then
              Inl (app_error 403 ''Request origin is not allowed.'' ''origin_denied'')
            else Inr ()
        | None \<Rightarrow> Inl (app_error 403 ''Request origin is not allowed.'' ''origin_denied'')))"

section \<open>The audit log\<close>

record user =
  us_admin :: jstr
  us_email :: jstr
  us_csrf :: jstr
  us_session :: jstr

definition json_details :: "jsval option \<Rightarrow> jstr option" where
  "json_details z = (case z of None \<Rightarrow> None | Some v \<Rightarrow> Some (take 100000 (json_text v)))"

definition audit ::
  "env \<Rightarrow> http_request \<Rightarrow> user option \<Rightarrow> jstr \<Rightarrow> jstr \<Rightarrow> jstr \<Rightarrow> jsval option \<Rightarrow> jstr \<Rightarrow> unit action" where
  "audit E r session action targetType targetId details requestId =
     bindE (liftE (requestIpHash E r)) (\<lambda>ipHash.
     bindE (uuid E) (\<lambda>auditId.
     bindE (now E) (\<lambda>ts.
     bindE (external E (insert_or_ignore (\<lambda>d. d\<lparr>audits := audits d @
        [\<lparr> lg_id = auditId, lg_admin = map_option us_admin session, lg_action = action,
           lg_target_type = text_option targetType, lg_target_id = text_option targetId,
           lg_request = text_option (or_else requestId (header_text r ''X-MailGable-Request-ID'')),
           lg_ip_hash = Some ipHash, lg_details = json_details details, lg_created_at = ts \<rparr>]\<rparr>)))
     (\<lambda>_. returnE ()))))"

lemma keeps_audit [keeps_intros]: "stable E db_ok \<Longrightarrow> keeps (\<lambda>w. db_ok (db_of w)) (audit E r s a t i d q)"
  unfolding audit_def by (intro keeps_intros preserves_intros)

definition audit_step :: "db \<Rightarrow> db \<Rightarrow> bool" where
  "audit_step d d' \<longleftrightarrow> (\<exists>xs. d' = d\<lparr>audits := xs\<rparr>)"

lemma audit_step_refl [simp]: "audit_step d d"
  unfolding audit_step_def by (rule exI [of _ "audits d"]) simp

lemma audit_external:
  assumes "quiet E" "external E (insert_or_ignore (\<lambda>d. d\<lparr>audits := f d\<rparr>)) w = (q, w')"
  shows "audit_step (db_of w) (db_of w')"
proof -
  have "audit_step (db_of w) (snd (insert_or_ignore (\<lambda>d. d\<lparr>audits := f d\<rparr>) (db_of w)))"
    using insert_or_ignore_snd [of "\<lambda>d. d\<lparr>audits := f d\<rparr>" "db_of w"]
  proof
    assume "snd (insert_or_ignore (\<lambda>d. d\<lparr>audits := f d\<rparr>) (db_of w)) = (db_of w)\<lparr>audits := f (db_of w)\<rparr>"
    then show ?thesis unfolding audit_step_def by (rule exI)
  qed simp
  then show ?thesis using external_db [OF assms] by auto
qed

lemma audit_only: "quiet E \<Longrightarrow> audit E r s a t i d q w = (z, w') \<Longrightarrow> audit_step (db_of w) (db_of w')"
  unfolding audit_def uuid_def now_def
  by (auto simp: bindE_def returnE_def liftE_def dest!: audit_external split: prod.splits sum.splits)

lemma audit_returns:
  assumes "quiet E" "reliable E" "requireAuthPepper E = Inr p" "db_ok (db_of w)"
    "refers (map_option us_admin s) (map ad_id (admins (db_of w)))"
  obtains w' where "audit E r s a t i d q w = (Inr (), w')"
proof -
  have refs: "references_ok ((db_of w)\<lparr>audits := audits (db_of w) @ [x]\<rparr>)" if "lg_admin x = map_option us_admin s" for x
    using assms(4,5) that by (auto simp: db_ok_def references_ok_def)
  have "\<exists>w'. audit E r s a t i d q w = (Inr (), w')"
    using assms refs unfolding audit_def
    by (simp add: act_simps requestIpHash_def external_quiet insert_or_ignore_def Let_def)
  then show thesis using that by blast
qed

text \<open>A signed-in user and a bare request, for the examples.\<close>

definition example_user :: user where
  "example_user = \<lparr> us_admin = js ''a1'', us_email = js ''a@b.cc'', us_csrf = js ''csrf'', us_session = js ''s1'' \<rparr>"

definition example_admin :: admin where
  "example_admin = \<lparr> ad_id = js ''a1'', ad_email = js ''a@b.cc'', ad_hash = js ''h'', ad_salt = js ''s'',
     ad_iterations = 100000, ad_scheme = js ''v2'', ad_disabled = False, ad_created_at = js ''2024'',
     ad_updated_at = js ''2024'', ad_last_login_at = None \<rparr>"

definition example_request :: http_request where
  "example_request = \<lparr> rq_method = js ''POST'', rq_path = js ''/'', rq_origin_of_url = js ''https://m.example'',
     rq_hostname = js ''m.example'', rq_search = [], rq_query = [], rq_headers = [], rq_body = [] \<rparr>"

lemma example_pepper: "requireAuthPepper example_env = Inr (replicate 32 112)"
  by code_simp

lemma example_body: "readJson example_env example_request n = Inr (JObj [])"
proof -
  have "header_text example_request ''Content-Length'' = []" "rq_body example_request = []"
    by (simp_all add: header_text_def request_header_def header_of_def example_request_def)
  moreover have "parse_int (js ''0'') = Some 0" by code_simp
  ultimately show ?thesis by (simp add: readJson_def or_else_def)
qed

end
