(* ===== verification/Threads.thy ===== *)
theory Threads
  imports Http
begin

text \<open>
  Conversations (\<open>src/src/mail/threads.ts\<close>): finding messages, creating and refreshing the
  denormalised thread row, joining conversations by message headers, listing with a keyset cursor,
  and the thread's status. The thread row repeats facts about its messages (unread count, latest
  message, folders); \<open>refreshed\<close> computes them and \<open>refreshThread\<close> stores them.

  Where SQLite may choose among rows with equal sort keys, the model takes the first inserted.
\<close>

section \<open>Ordering\<close>

text \<open>\<open>ORDER BY key DESC LIMIT 1\<close>.\<close>

fun first_max :: "('a \<Rightarrow> 'k :: linorder) \<Rightarrow> 'a list \<Rightarrow> 'a option" where
  "first_max key [] = None"
| "first_max key (x # xs) =
     (case first_max key xs of None \<Rightarrow> Some x | Some y \<Rightarrow> if key y \<le> key x then Some x else Some y)"

definition coalesce :: "'a option \<Rightarrow> 'a \<Rightarrow> 'a" where
  "coalesce z x = (case z of None \<Rightarrow> x | Some y \<Rightarrow> y)"

text \<open>\<open>COALESCE(received_at,sent_at,created_at)\<close>.\<close>

definition message_at :: "message \<Rightarrow> jstr" where
  "message_at m = coalesce (m_received_at m) (coalesce (m_sent_at m) (m_created_at m))"

definition latest_key :: "message \<Rightarrow> jstr list" where
  "latest_key m = [message_at m, m_created_at m]"

definition thread_messages :: "db \<Rightarrow> jstr \<Rightarrow> message list" where
  "thread_messages d i = filter (\<lambda>m. m_thread m = i) (messages d)"

definition latest_message :: "db \<Rightarrow> jstr \<Rightarrow> message option" where
  "latest_message d i = first_max latest_key (thread_messages d i)"

text \<open>\<open>substr(s, 1, n)\<close> counts characters, so a surrogate pair is one.\<close>

fun take_chars :: "nat \<Rightarrow> jstr \<Rightarrow> jstr" where
  "take_chars 0 s = []"
| "take_chars (Suc n) [] = []"
| "take_chars (Suc n) [c] = [c]"
| "take_chars (Suc n) (c # d # cs) =
     (if high_surrogate c \<and> low_surrogate d then c # d # take_chars n cs else c # take_chars n (d # cs))"

section \<open>Finding messages\<close>

definition findMessage :: "env \<Rightarrow> jstr \<Rightarrow> message option action" where
  "findMessage E i = select E (\<lambda>d. find (\<lambda>m. m_id m = i) (messages d))"

definition has_internet_id :: "jstr \<Rightarrow> message \<Rightarrow> bool" where
  "has_internet_id i m \<longleftrightarrow> m_internet_id m = Some i \<or> m_provider_internet_id m = Some i"

definition findMessageByInternetId :: "env \<Rightarrow> jstr \<Rightarrow> jstr \<Rightarrow> message option action" where
  "findMessageByInternetId E i mailboxId =
     (if i = [] then returnE None
      else if mailboxId \<noteq> [] then
        select E (\<lambda>d. first_max m_created_at (filter (\<lambda>m. has_internet_id i m \<and> m_mailbox m = Some mailboxId) (messages d)))
      else select E (\<lambda>d. first_max m_created_at (filter (has_internet_id i) (messages d))))"

definition findMessageByXId :: "env \<Rightarrow> jstr \<Rightarrow> message option action" where
  "findMessageByXId E i =
     (if i = [] then returnE None
      else select E (\<lambda>d. first_max m_created_at
        (filter (\<lambda>m. m_x_id m = Some i \<and> m_direction m = js ''outgoing'') (messages d))))"

section \<open>Thread rows\<close>

definition new_thread :: "jstr \<Rightarrow> jstr option \<Rightarrow> jstr \<Rightarrow> jstr \<Rightarrow> jstr \<Rightarrow> jstr \<Rightarrow> thread" where
  "new_thread i mailboxId subject people lastAt ts =
     \<lparr> th_id = i, th_mailbox = mailboxId, th_subject = subject, th_participants = people,
       th_last_message_at = lastAt, th_unread = 0, th_is_replied = False, th_status = js ''open'',
       th_created_at = ts, th_updated_at = ts, th_latest_id = None, th_latest_direction = None,
       th_latest_sender = None, th_latest_from = None, th_latest_recipient = None,
       th_latest_preview = None, th_latest_status = None, th_has_incoming = False,
       th_has_outgoing = False, th_has_attachment = False \<rparr>"

definition add_thread :: "thread \<Rightarrow> nat statement" where
  "add_thread t = insert_or_ignore (\<lambda>d. d\<lparr>threads := threads d @ [t]\<rparr>)"

definition createThreadPlaceholder :: "env \<Rightarrow> jstr \<Rightarrow> jstr option \<Rightarrow> jstr \<Rightarrow> unit action" where
  "createThreadPlaceholder E i mailboxId ts =
     bindE (external E (add_thread (new_thread i mailboxId [] (js ''[]'') (js ''1970-01-01T00:00:00.000Z'') ts)))
       (\<lambda>_. returnE ())"

definition people_text :: "jstr list \<Rightarrow> jstr" where
  "people_text participants =
     json_text (JArr (map JStr (take 100 (dedup (filter (re_full email_regex) participants)))))"

definition joined_thread :: "jstr option \<Rightarrow> jstr \<Rightarrow> jstr \<Rightarrow> jstr \<Rightarrow> jstr \<Rightarrow> thread \<Rightarrow> thread" where
  "joined_thread mailboxId subject people ts updated t =
     t\<lparr> th_mailbox := (case th_mailbox t of None \<Rightarrow> mailboxId | Some m \<Rightarrow> Some m),
        th_subject := (if th_subject t = [] then subject else th_subject t),
        th_participants := people,
        th_last_message_at := (if th_last_message_at t < ts then ts else th_last_message_at t),
        th_updated_at := updated \<rparr>"

definition ensureThread :: "env \<Rightarrow> jstr \<Rightarrow> jstr option \<Rightarrow> jstr \<Rightarrow> jstr list \<Rightarrow> jstr \<Rightarrow> unit action" where
  "ensureThread E i mailboxId subject participants ts =
     bindE (external E (add_thread (new_thread i mailboxId (take MAX_SUBJECT subject) (people_text participants) ts ts)))
     (\<lambda>_. bindE (now E) (\<lambda>updated.
     bindE (external E (update_threads (\<lambda>t. th_id t = i)
        (\<lambda>d. joined_thread mailboxId (take MAX_SUBJECT subject) (people_text participants) ts updated)))
     (\<lambda>_. returnE ())))"

definition unread_messages :: "db \<Rightarrow> jstr \<Rightarrow> nat" where
  "unread_messages d i = count_rows (\<lambda>m. m_thread m = i \<and> m_direction m = js ''incoming'' \<and> \<not> m_is_read m) (messages d)"

definition thread_has_attachment :: "db \<Rightarrow> jstr \<Rightarrow> bool" where
  "thread_has_attachment d i =
     list_ex (\<lambda>a. list_ex (\<lambda>m. m_id m = at_message a \<and> m_thread m = i) (messages d)) (attachments d)"

definition has_direction :: "db \<Rightarrow> jstr \<Rightarrow> string \<Rightarrow> bool" where
  "has_direction d i direction = list_ex (\<lambda>m. m_thread m = i \<and> m_direction m = js direction) (messages d)"

text \<open>The thread row after a refresh: a function of the messages and attachments.\<close>

definition refreshed :: "jstr \<Rightarrow> jstr \<Rightarrow> db \<Rightarrow> thread \<Rightarrow> thread" where
  "refreshed i updated d t =
     (let latest = latest_message d i in
      t\<lparr> th_unread := unread_messages d i,
         th_is_replied := list_ex (\<lambda>m. m_thread m = i \<and> m_direction m = js ''outgoing'' \<and> m_parent m \<noteq> None) (messages d),
         th_last_message_at := (case first_max message_at (thread_messages d i) of
            None \<Rightarrow> th_last_message_at t | Some m \<Rightarrow> message_at m),
         th_latest_id := map_option m_id latest,
         th_latest_direction := map_option m_direction latest,
         th_latest_sender := Some (case latest of None \<Rightarrow> js ''[]'' | Some m \<Rightarrow> m_from_json m),
         th_latest_from := (case latest of None \<Rightarrow> None | Some m \<Rightarrow> m_from m),
         th_latest_recipient := Some (case latest of None \<Rightarrow> [] | Some m \<Rightarrow> m_to m),
         th_latest_preview := Some (case latest of None \<Rightarrow> [] | Some m \<Rightarrow> take_chars 800 (coalesce (m_text m) [])),
         th_latest_status := map_option m_status latest,
         th_has_incoming := has_direction d i ''incoming'',
         th_has_outgoing := has_direction d i ''outgoing'',
         th_has_attachment := thread_has_attachment d i,
         th_updated_at := updated \<rparr>)"

definition refreshThread :: "env \<Rightarrow> jstr \<Rightarrow> unit action" where
  "refreshThread E i =
     bindE (now E) (\<lambda>updated.
     bindE (external E (update_threads (\<lambda>t. th_id t = i) (refreshed i updated))) (\<lambda>_. returnE ()))"

definition refreshThreadAttachments :: "env \<Rightarrow> jstr \<Rightarrow> unit action" where
  "refreshThreadAttachments E i =
     bindE (now E) (\<lambda>updated.
     bindE (external E (update_threads (\<lambda>t. th_id t = i)
        (\<lambda>d t. t\<lparr>th_has_attachment := thread_has_attachment d i, th_updated_at := updated\<rparr>))) (\<lambda>_. returnE ()))"

section \<open>Joining conversations\<close>

definition threadFromHeaders :: "env \<Rightarrow> jstr \<Rightarrow> jstr list \<Rightarrow> jstr \<Rightarrow> jstr action" where
  "threadFromHeaders E inReplyTo refs mailboxId =
     (let ids = dedup (filter (\<lambda>t. t \<noteq> []) (inReplyTo # refs)) in
      if ids = [] then returnE []
      else bindE (select E (\<lambda>d. first_max m_created_at
             (filter (\<lambda>m. m_mailbox m = Some mailboxId \<and> list_ex (\<lambda>i. has_internet_id i m) ids) (messages d))))
           (\<lambda>row. returnE (case row of None \<Rightarrow> [] | Some m \<Rightarrow> m_thread m)))"

text \<open>The incoming replies to \<open>internetId\<close> of a mailbox that sit in another thread.\<close>

definition stray_reply :: "jstr \<Rightarrow> jstr \<Rightarrow> jstr \<Rightarrow> message \<Rightarrow> bool" where
  "stray_reply mailboxId parentThread internetId m \<longleftrightarrow>
     m_direction m = js ''incoming'' \<and> m_mailbox m = Some mailboxId \<and> m_thread m \<noteq> parentThread
     \<and> (m_in_reply_to m = Some internetId \<or> contains_text internetId (coalesce (m_references m) []))"

definition reconcileProviderMessageId :: "env \<Rightarrow> message \<Rightarrow> jstr \<Rightarrow> unit action" where
  "reconcileProviderMessageId E parent internetId =
     (let normalizedId = trim internetId; parentThread = m_thread parent;
          mailboxId = coalesce (m_mailbox parent) [] in
      if normalizedId = [] \<or> mailboxId = [] then returnE ()
      else
        bindE (select E (\<lambda>d. dedup (map m_thread (filter (stray_reply mailboxId parentThread normalizedId) (messages d)))))
        (\<lambda>oldThreads.
        bindE (now E) (\<lambda>t1.
        bindE (external E (update_messages (\<lambda>m. m_id m = m_id parent)
           (\<lambda>m. m\<lparr>m_provider_internet_id := Some (or_else (coalesce (m_provider_internet_id m) []) normalizedId), m_updated_at := t1\<rparr>)))
        (\<lambda>_. bindE (now E) (\<lambda>t2.
        bindE (external E (update_messages (stray_reply mailboxId parentThread normalizedId)
           (\<lambda>m. m\<lparr>m_thread := parentThread, m_updated_at := t2\<rparr>)))
        (\<lambda>_. bindE (forE oldThreads (\<lambda>old.
             if old = [] \<or> old = parentThread then returnE ()
             else bindE (refreshThread E old) (\<lambda>_. bindE (external E (delete_thread_if_empty old)) (\<lambda>_. returnE ()))))
        (\<lambda>_. refreshThread E parentThread)))))))"

section \<open>Thread status and reading\<close>

definition conversation_missing :: exn where
  "conversation_missing = app_error 404 ''Conversation not found.'' ''not_found''"

definition mark_reads :: "jsval \<Rightarrow> bool" where
  "mark_reads body \<longleftrightarrow> js_get body (js ''read'') \<noteq> JBool False"

definition incoming_in :: "jstr \<Rightarrow> message \<Rightarrow> bool" where
  "incoming_in i m \<longleftrightarrow> m_thread m = i \<and> m_direction m = js ''incoming''"

definition markThread :: "env \<Rightarrow> http_request \<Rightarrow> user \<Rightarrow> jstr \<Rightarrow> response action" where
  "markThread E r session i =
     bindE (liftE (readJson E r 8192)) (\<lambda>body.
     let read = mark_reads body in
     bindE (select E (\<lambda>d. list_ex (\<lambda>t. th_id t = i) (threads d))) (\<lambda>exists.
     bindE (throw_if (\<not> exists) conversation_missing) (\<lambda>_.
     bindE (now E) (\<lambda>ts.
     bindE (external E (update_messages (incoming_in i)
        (\<lambda>m. m\<lparr>m_is_read := read, m_updated_at := ts\<rparr>))) (\<lambda>_.
     bindE (refreshThread E i) (\<lambda>_.
     bindE (audit E r (Some session) (js (if read then ''thread_mark_read'' else ''thread_mark_unread''))
        (js ''thread'') i None []) (\<lambda>_.
     returnE (json (obj [(''ok'', JBool True), (''read'', JBool read)]) 200 []))))))))"

definition setThreadStatus :: "env \<Rightarrow> jstr \<Rightarrow> jstr \<Rightarrow> jstr action" where
  "setThreadStatus E i status =
     bindE (select E (\<lambda>d. list_ex (\<lambda>t. th_id t = i) (threads d))) (\<lambda>exists.
     bindE (throw_if (\<not> exists) conversation_missing) (\<lambda>_.
     bindE (now E) (\<lambda>ts.
     bindE (external E (update_threads (\<lambda>t. th_id t = i) (\<lambda>d t. t\<lparr>th_status := status, th_updated_at := ts\<rparr>))) (\<lambda>_.
     returnE status))))"

definition thread_keys :: "db \<Rightarrow> jstr \<Rightarrow> jstr list" where
  "thread_keys d i = concat (map (\<lambda>m. case m_raw_key m of None \<Rightarrow> [] | Some k \<Rightarrow> [k]) (thread_messages d i))
     @ map at_key (filter (\<lambda>a. list_ex (\<lambda>m. m_id m = at_message a) (thread_messages d i)) (attachments d))"

definition threadR2ObjectKeys :: "env \<Rightarrow> jstr \<Rightarrow> jstr list action" where
  "threadR2ObjectKeys E i = select E (\<lambda>d. thread_keys d i)"

section \<open>Constraints are kept\<close>

lemma preserves_add_thread [preserves_intros]: "preserves db_ok (add_thread t)"
  unfolding add_thread_def by (rule preserves_intros)

lemma keeps_find [keeps_intros]: "stable E db_ok \<Longrightarrow> keeps (\<lambda>w. db_ok (db_of w)) (findMessage E i)"
  unfolding findMessage_def by (intro keeps_intros)

lemma keeps_thread_rows [keeps_intros]:
  assumes "stable E db_ok"
  shows "keeps (\<lambda>w. db_ok (db_of w)) (createThreadPlaceholder E i mb ts)"
    "keeps (\<lambda>w. db_ok (db_of w)) (ensureThread E i mb subject people ts)"
    "keeps (\<lambda>w. db_ok (db_of w)) (refreshThread E i)"
    "keeps (\<lambda>w. db_ok (db_of w)) (refreshThreadAttachments E i)"
    "keeps (\<lambda>w. db_ok (db_of w)) (threadFromHeaders E i refs box)"
    "keeps (\<lambda>w. db_ok (db_of w)) (threadR2ObjectKeys E i)"
    "keeps (\<lambda>w. db_ok (db_of w)) (setThreadStatus E i status)"
  unfolding createThreadPlaceholder_def ensureThread_def refreshThread_def refreshThreadAttachments_def
    threadFromHeaders_def threadR2ObjectKeys_def setThreadStatus_def Let_def
  by (intro keeps_intros preserves_intros assms)+

lemma keeps_reconcile [keeps_intros]:
  assumes "stable E db_ok"
  shows "keeps (\<lambda>w. db_ok (db_of w)) (reconcileProviderMessageId E parent i)"
  unfolding reconcileProviderMessageId_def Let_def by (intro keeps_intros preserves_intros assms)

lemma keeps_markThread [keeps_intros]:
  assumes "stable E db_ok"
  shows "keeps (\<lambda>w. db_ok (db_of w)) (markThread E r u i)"
  unfolding markThread_def by (intro keeps_intros preserves_intros assms)

section \<open>The thread row tells the truth about the messages\<close>

lemma refreshed_threads [simp]: "refreshed i ts (d\<lparr>threads := xs\<rparr>) t = refreshed i ts d t"
  by (simp add: refreshed_def latest_message_def thread_messages_def unread_messages_def thread_has_attachment_def
      has_direction_def)

lemma refreshed_audits [simp]: "refreshed i ts (d\<lparr>audits := xs\<rparr>) t = refreshed i ts d t"
  by (simp add: refreshed_def latest_message_def thread_messages_def unread_messages_def thread_has_attachment_def
      has_direction_def)

lemma refreshed_sel [simp]: "th_id (refreshed i ts d t) = th_id t" "th_updated_at (refreshed i ts d t) = ts"
  "th_status (refreshed i ts d t) = th_status t"
  by (simp_all add: refreshed_def Let_def)

lemma refreshed_idem: "refreshed i ts d (refreshed i ts d t) = refreshed i ts d t"
  by (simp add: refreshed_def Let_def split: option.split)

lemma refreshed_unread [simp]: "th_unread (refreshed i ts d t) = unread_messages d i"
  by (simp add: refreshed_def Let_def)

lemma refreshed_status: "th_latest_status (refreshed i ts d t) = map_option m_status (latest_message d i)"
  by (simp add: refreshed_def Let_def)

lemma unread_audits [simp]: "unread_messages (d\<lparr>audits := xs\<rparr>) i = unread_messages d i"
  "unread_messages (d\<lparr>threads := ts\<rparr>) i = unread_messages d i"
  by (simp_all add: unread_messages_def)

lemma refreshThread_run:
  assumes "refreshThread E i w = (Inr (), w')"
  obtains d ts where "db_of w' = d\<lparr>threads := map_rows (\<lambda>t. th_id t = i) (refreshed i ts d) (threads d)\<rparr>"
    "d = others E (calls w) (db_of w)" "db_ok (db_of w')"
  using assms unfolding refreshThread_def update_threads_def
  by (auto elim!: bindE_InrE external_InrE simp: constrained_Inr)

lemma refreshThread_rows:
  assumes "quiet E" "refreshThread E i w = (r, w')"
  shows "messages (db_of w') = messages (db_of w) \<and> map th_id (threads (db_of w')) = map th_id (threads (db_of w))
    \<and> (\<forall>t. th_id t \<noteq> i \<longrightarrow> t \<in> set (threads (db_of w')) \<longleftrightarrow> t \<in> set (threads (db_of w)))"
proof -
  obtain s q where s: "external E (update_threads (\<lambda>t. th_id t = i) (refreshed i s)) w = (q, w')"
    using assms(2) unfolding refreshThread_def now_def by (auto simp: bindE_def returnE_def split: prod.splits sum.splits)
  from external_db [OF assms(1) s] update_threads_snd [of "\<lambda>t. th_id t = i" "refreshed i s" "db_of w"]
  consider "db_of w' = db_of w" | "db_of w' = (db_of w)\<lparr>threads := map_rows (\<lambda>t. th_id t = i) (refreshed i s (db_of w)) (threads (db_of w))\<rparr>"
    by fastforce
  then show ?thesis
    by cases (auto simp: in_map_rows map_map_rows split: if_splits)
qed

section \<open>What the row says\<close>

text \<open>
  What the row of a conversation has to say, in terms of the messages \<open>ms\<close> of the conversation and of whether one of them has an
  attachment. The latest message is the one shown last, and among those the one created last; \<open>shown\<close> is the time it is shown under.
\<close>

definition shown :: "message \<Rightarrow> jstr" where
  "shown m = (case (m_received_at m, m_sent_at m) of (Some t, _) \<Rightarrow> t | (None, Some t) \<Rightarrow> t | (None, None) \<Rightarrow> m_created_at m)"

definition row_says :: "message list \<Rightarrow> bool \<Rightarrow> thread \<Rightarrow> bool" where
  "row_says ms attached t \<longleftrightarrow>
     th_unread t = length (filter (\<lambda>m. m_direction m = js ''incoming'' \<and> \<not> m_is_read m) ms)
     \<and> (th_is_replied t \<longleftrightarrow> (\<exists>m \<in> set ms. m_direction m = js ''outgoing'' \<and> m_parent m \<noteq> None))
     \<and> (th_has_incoming t \<longleftrightarrow> (\<exists>m \<in> set ms. m_direction m = js ''incoming''))
     \<and> (th_has_outgoing t \<longleftrightarrow> (\<exists>m \<in> set ms. m_direction m = js ''outgoing''))
     \<and> (th_has_attachment t \<longleftrightarrow> attached)
     \<and> (case th_latest_id t of
          None \<Rightarrow> ms = [] \<and> th_latest_direction t = None \<and> th_latest_from t = None \<and> th_latest_status t = None
            \<and> th_latest_sender t = Some (js ''[]'') \<and> th_latest_recipient t = Some [] \<and> th_latest_preview t = Some []
        | Some i \<Rightarrow> (\<exists>m \<in> set ms. m_id m = i \<and> th_last_message_at t = shown m
            \<and> (\<forall>x \<in> set ms. shown x < shown m \<or> shown x = shown m \<and> m_created_at x \<le> m_created_at m)
            \<and> th_latest_direction t = Some (m_direction m) \<and> th_latest_from t = m_from m \<and> th_latest_status t = Some (m_status m)
            \<and> th_latest_sender t = Some (m_from_json m) \<and> th_latest_recipient t = Some (m_to m)
            \<and> th_latest_preview t = Some (take_chars 800 (case m_text m of None \<Rightarrow> [] | Some s \<Rightarrow> s))))"

lemma first_max_is_max: "first_max key xs = Some x \<Longrightarrow> x \<in> set xs \<and> (\<forall>y \<in> set xs. key y \<le> key x)"
proof (induction xs arbitrary: x)
  case (Cons a xs)
  show ?case
  proof (cases "first_max key xs")
    case None
    then have "xs = []" by (cases xs) (auto split: option.splits if_splits)
    then show ?thesis using Cons.prems by simp
  next
    case (Some y)
    then have y: "y \<in> set xs" "\<forall>z \<in> set xs. key z \<le> key y" using Cons.IH by simp_all
    then show ?thesis using Cons.prems Some by (auto split: if_splits intro: order_trans)
  qed
qed simp

lemma first_max_none: "first_max key xs = None \<longleftrightarrow> xs = []"
  by (induction xs) (auto split: option.splits if_splits)

lemma shown_at: "shown m = message_at m"
  by (simp add: shown_def message_at_def coalesce_def split: option.split)

lemma refreshed_flags:
  "th_unread (refreshed i ts d t) = length (filter (\<lambda>m. m_direction m = js ''incoming'' \<and> \<not> m_is_read m) (filter (\<lambda>m. m_thread m = i) (messages d)))"
  "th_is_replied (refreshed i ts d t)
    \<longleftrightarrow> (\<exists>m \<in> set (filter (\<lambda>m. m_thread m = i) (messages d)). m_direction m = js ''outgoing'' \<and> m_parent m \<noteq> None)"
  "th_has_incoming (refreshed i ts d t) \<longleftrightarrow> (\<exists>m \<in> set (filter (\<lambda>m. m_thread m = i) (messages d)). m_direction m = js ''incoming'')"
  "th_has_outgoing (refreshed i ts d t) \<longleftrightarrow> (\<exists>m \<in> set (filter (\<lambda>m. m_thread m = i) (messages d)). m_direction m = js ''outgoing'')"
  "th_has_attachment (refreshed i ts d t)
    \<longleftrightarrow> (\<exists>a \<in> set (attachments d). \<exists>m \<in> set (messages d). m_id m = at_message a \<and> m_thread m = i)"
  by (auto simp: refreshed_def Let_def unread_messages_def count_rows_def has_direction_def thread_has_attachment_def list_ex_iff conj_ac)

lemma refreshed_latest:
  assumes "m \<in> set (filter (\<lambda>m. m_thread m = i) (messages d))" "latest_message d i = Some m"
  shows "th_last_message_at (refreshed i ts d t) = shown m"
    and "\<forall>x \<in> set (filter (\<lambda>m. m_thread m = i) (messages d)). shown x < shown m \<or> shown x = shown m \<and> m_created_at x \<le> m_created_at m"
proof -
  let ?ms = "filter (\<lambda>m. m_thread m = i) (messages d)"
  have "\<forall>x \<in> set ?ms. latest_key x \<le> latest_key m"
    using first_max_is_max [OF assms(2) [unfolded latest_message_def]] by (simp add: thread_messages_def)
  then show late: "\<forall>x \<in> set ?ms. shown x < shown m \<or> shown x = shown m \<and> m_created_at x \<le> m_created_at m"
    by (auto simp: latest_key_def shown_at)
  have "?ms \<noteq> []" using assms(1) by (metis empty_iff list.set(1))
  then obtain n where n: "first_max message_at ?ms = Some n" using first_max_none [of message_at ?ms] by (cases "first_max message_at ?ms") simp_all
  have "\<forall>x \<in> set ?ms. message_at x \<le> message_at m" using late by (fastforce simp: shown_at)
  then have "message_at n = message_at m" using first_max_is_max [OF n] assms(1) by (meson order_antisym)
  then show "th_last_message_at (refreshed i ts d t) = shown m"
    using n by (simp add: refreshed_def Let_def thread_messages_def shown_at)
qed

lemma refreshed_says:
  "row_says (filter (\<lambda>m. m_thread m = i) (messages d))
     (\<exists>a \<in> set (attachments d). \<exists>m \<in> set (messages d). m_id m = at_message a \<and> m_thread m = i) (refreshed i ts d t)"
proof (cases "latest_message d i")
  case None
  then have "filter (\<lambda>m. m_thread m = i) (messages d) = []"
    by (simp add: latest_message_def first_max_none thread_messages_def)
  moreover have "th_latest_id (refreshed i ts d t) = None" using None by (simp add: refreshed_def Let_def)
  ultimately show ?thesis unfolding row_says_def refreshed_flags using None by (simp add: refreshed_def Let_def)
next
  case (Some m)
  have m: "m \<in> set (filter (\<lambda>m. m_thread m = i) (messages d))"
    using first_max_is_max [OF Some [unfolded latest_message_def]] by (simp add: thread_messages_def)
  have "th_latest_id (refreshed i ts d t) = Some (m_id m)" using Some by (simp add: refreshed_def Let_def)
  moreover have "th_latest_direction (refreshed i ts d t) = Some (m_direction m) \<and> th_latest_from (refreshed i ts d t) = m_from m
      \<and> th_latest_status (refreshed i ts d t) = Some (m_status m) \<and> th_latest_sender (refreshed i ts d t) = Some (m_from_json m)
      \<and> th_latest_recipient (refreshed i ts d t) = Some (m_to m)
      \<and> th_latest_preview (refreshed i ts d t) = Some (take_chars 800 (case m_text m of None \<Rightarrow> [] | Some s \<Rightarrow> s))"
    using Some by (simp add: refreshed_def Let_def coalesce_def)
  ultimately show ?thesis unfolding row_says_def refreshed_flags using m refreshed_latest [OF m Some] by auto
qed

lemma map_refreshed_says:
  assumes "t \<in> set (map_rows (\<lambda>t. th_id t = i) (refreshed i ts d) xs)" "th_id t = i"
  shows "row_says (filter (\<lambda>m. m_thread m = i) (messages d))
    (\<exists>a \<in> set (attachments d). \<exists>m \<in> set (messages d). m_id m = at_message a \<and> m_thread m = i) t"
proof -
  obtain x where "t = (if th_id x = i then refreshed i ts d x else x)" using assms(1) by (auto simp: in_map_rows)
  then have "t = refreshed i ts d x" using assms(2) by (cases "th_id x = i") auto
  then show ?thesis using refreshed_says by simp
qed

section \<open>Properties\<close>

text \<open>
  C6. A refresh that returns leaves no stale fact on the conversation's row, whatever other requests did before it: the unread count is the
  number of its unread incoming messages, the folders, the replied and the attachment flag are those of its messages, and the
  repeated facts about the latest message are those of the message shown last. Nothing else changes: the messages and
  attachments, the rows of other conversations, and the subject, status and mailbox of this one.
\<close>

theorem refreshThread_makes_fresh:
  assumes "refreshThread E i w = (Inr (), w')" "t \<in> set (threads (db_of w'))" "th_id t = i"
  shows "row_says (filter (\<lambda>m. m_thread m = i) (messages (db_of w')))
      (\<exists>a \<in> set (attachments (db_of w')). \<exists>m \<in> set (messages (db_of w')). m_id m = at_message a \<and> m_thread m = i) t
    \<and> (case others E (calls w) (db_of w) of d \<Rightarrow> db_of w' = d\<lparr>threads := threads (db_of w')\<rparr>
        \<and> filter (\<lambda>t. th_id t \<noteq> i) (threads (db_of w')) = filter (\<lambda>t. th_id t \<noteq> i) (threads d)
        \<and> map (\<lambda>t. (th_id t, th_subject t, th_status t, th_mailbox t)) (threads (db_of w'))
            = map (\<lambda>t. (th_id t, th_subject t, th_status t, th_mailbox t)) (threads d))"
proof -
  obtain d ts where w': "db_of w' = d\<lparr>threads := map_rows (\<lambda>t. th_id t = i) (refreshed i ts d) (threads d)\<rparr>"
      and d: "d = others E (calls w) (db_of w)"
    using refreshThread_run [OF assms(1)] by blast
  have "row_says (filter (\<lambda>m. m_thread m = i) (messages d))
      (\<exists>a \<in> set (attachments d). \<exists>m \<in> set (messages d). m_id m = at_message a \<and> m_thread m = i) t"
    using map_refreshed_says [of t i ts d "threads d"] assms(2,3) w' by simp
  moreover have "filter (\<lambda>t. th_id t \<noteq> i) (map_rows (\<lambda>t. th_id t = i) (refreshed i ts d) (threads d)) = filter (\<lambda>t. th_id t \<noteq> i) (threads d)"
    by (subst filter_map_rows) (auto intro!: map_rows_none)
  moreover have "map (\<lambda>t. (th_id t, th_subject t, th_status t, th_mailbox t)) (map_rows (\<lambda>t. th_id t = i) (refreshed i ts d) (threads d))
      = map (\<lambda>t. (th_id t, th_subject t, th_status t, th_mailbox t)) (threads d)"
    by (simp add: map_rows_def refreshed_def Let_def)
  ultimately show ?thesis using w' d by simp
qed

definition example_thread_db :: db where
  "example_thread_db = empty_db\<lparr>
     threads := [new_thread (js ''t1'') None (js ''Hi'') (js ''[]'') (js ''2024'') (js ''2024'')],
     messages := [message_defaults\<lparr>m_id := js ''m1'', m_thread := js ''t1'', m_direction := js ''incoming'',
       m_created_at := js ''2024''\<rparr>]\<rparr>"

lemma example_refresh:
  "refreshThread example_env (js ''t1'') (start_world example_thread_db)
     = (Inr (), step_db (start_world example_thread_db)
         (example_thread_db\<lparr>threads := [refreshed (js ''t1'') (iso 1700000000000) example_thread_db
            (hd (threads example_thread_db))]\<rparr>))"
proof -
  have "clock example_env 0 = 1700000000000" by (simp add: example_env_def)
  moreover have "db_ok (example_thread_db\<lparr>threads := [refreshed (js ''t1'') s example_thread_db (hd (threads example_thread_db))]\<rparr>)" for s
    by (simp add: db_ok_defs example_thread_db_def empty_db_def new_thread_def message_defaults_def refreshed_def Let_def)
  ultimately show ?thesis
    by (simp add: refreshThread_def act_simps update_threads_def external_quiet constrained_def)
      (simp add: example_thread_db_def new_thread_def)
qed

theorem refreshThread_makes_fresh_witness:
  "\<exists>w' t. refreshThread example_env (js ''t1'') (start_world example_thread_db) = (Inr (), w')
     \<and> t \<in> set (threads (db_of w')) \<and> th_unread t = 1 \<and> th_latest_id t = Some (js ''m1'') \<and> th_has_incoming t \<and> \<not> th_has_outgoing t"
proof -
  let ?t = "refreshed (js ''t1'') (iso 1700000000000) example_thread_db (hd (threads example_thread_db))"
  let ?d = "example_thread_db\<lparr>threads := [?t]\<rparr>"
  have id: "th_id ?t = js ''t1''" by (simp add: example_thread_db_def new_thread_def)
  have rows: "filter (\<lambda>m. m_thread m = js ''t1'') (messages ?d) = messages example_thread_db" "attachments ?d = []"
    by (simp_all add: example_thread_db_def message_defaults_def empty_db_def)
  have "row_says (messages example_thread_db) False ?t"
    using refreshThread_makes_fresh [OF example_refresh _ id] unfolding step_db_sel rows by (simp add: rows)
  then have "th_unread ?t = 1 \<and> th_latest_id ?t = Some (js ''m1'') \<and> th_has_incoming ?t \<and> \<not> th_has_outgoing ?t"
    by (simp add: row_says_def example_thread_db_def message_defaults_def split: option.splits)
  then show ?thesis using example_refresh by (intro exI [of _ "step_db (start_world example_thread_db) ?d"] exI [of _ ?t]) simp
qed

lemma markThread_run:
  assumes "quiet E" "markThread E r u i w = (Inr resp, w')"
  obtains body ts ts' xs where "readJson E r 8192 = Inr body"
    "db_of w' = (db_of w)\<lparr>messages := map_rows (incoming_in i) (\<lambda>m. m\<lparr>m_is_read := mark_reads body, m_updated_at := ts\<rparr>) (messages (db_of w)),
       threads := map_rows (\<lambda>t. th_id t = i)
         (refreshed i ts' ((db_of w)\<lparr>messages := map_rows (incoming_in i) (\<lambda>m. m\<lparr>m_is_read := mark_reads body, m_updated_at := ts\<rparr>) (messages (db_of w))\<rparr>))
         (threads (db_of w)), audits := xs\<rparr>"
proof -
  let ?upd = "\<lambda>body ts. map_rows (incoming_in i) (\<lambda>m. m\<lparr>m_is_read := mark_reads body, m_updated_at := ts\<rparr>) (messages (db_of w))"
  from assms(2) obtain body ts w1 w2 q where body: "readJson E r 8192 = Inr body"
    and ref: "refreshThread E i w1 = (Inr (), w2)"
    and aud: "audit E r (Some u) (js (if mark_reads body then ''thread_mark_read'' else ''thread_mark_unread'')) (js ''thread'') i None [] w2 = (q, w')"
    and upd: "db_of w1 = (db_of w)\<lparr>messages := ?upd body ts\<rparr>"
    using assms(2) unfolding markThread_def Let_def
    apply (elim bindE_InrE select_InrE external_InrE)
    apply (simp add: assms(1) update_messages_def constrained_Inr)
    done
  obtain d ts' where d: "db_of w2 = d\<lparr>threads := map_rows (\<lambda>t. th_id t = i) (refreshed i ts' d) (threads d)\<rparr>" "d = db_of w1"
    by (rule refreshThread_run [OF ref], rule that) (simp_all add: assms(1))
  obtain xs where "db_of w' = (db_of w2)\<lparr>audits := xs\<rparr>" using audit_only [OF assms(1) aud] unfolding audit_step_def by blast
  with d upd body show ?thesis by (intro that) simp_all
qed

text \<open>
  C25. Marking a conversation read or unread does exactly that: when the request succeeds, every incoming message of the conversation has
  the requested flag, no other message has changed, and of the marked messages nothing but the flag and the time of the update;
  the row of the conversation says what its messages say, in particular its unread count; the rows of other conversations
  and every other table but the audit log are untouched.
\<close>

theorem markThread_effect:
  assumes "quiet E" "readJson E r 8192 = Inr body" "markThread E r u i w = (Inr resp, w')"
  shows "(\<forall>m \<in> set (messages (db_of w')). m_thread m = i \<and> m_direction m = js ''incoming''
        \<longrightarrow> m_is_read m = (js_get body (js ''read'') \<noteq> JBool False))
    \<and> filter (\<lambda>m. \<not> (m_thread m = i \<and> m_direction m = js ''incoming'')) (messages (db_of w'))
        = filter (\<lambda>m. \<not> (m_thread m = i \<and> m_direction m = js ''incoming'')) (messages (db_of w))
    \<and> map (\<lambda>m. m\<lparr>m_is_read := False, m_updated_at := []\<rparr>) (messages (db_of w'))
        = map (\<lambda>m. m\<lparr>m_is_read := False, m_updated_at := []\<rparr>) (messages (db_of w))
    \<and> (\<forall>t \<in> set (threads (db_of w')). th_id t = i \<longrightarrow> row_says (filter (\<lambda>m. m_thread m = i) (messages (db_of w')))
        (\<exists>a \<in> set (attachments (db_of w')). \<exists>m \<in> set (messages (db_of w')). m_id m = at_message a \<and> m_thread m = i) t)
    \<and> filter (\<lambda>t. th_id t \<noteq> i) (threads (db_of w')) = filter (\<lambda>t. th_id t \<noteq> i) (threads (db_of w))
    \<and> db_of w' = (db_of w)\<lparr>messages := messages (db_of w'), threads := threads (db_of w'), audits := audits (db_of w')\<rparr>"
proof -
  obtain body' ts ts' xs where b: "readJson E r 8192 = Inr body'"
    and w': "db_of w' = (db_of w)\<lparr>messages := map_rows (incoming_in i) (\<lambda>m. m\<lparr>m_is_read := mark_reads body', m_updated_at := ts\<rparr>) (messages (db_of w)),
       threads := map_rows (\<lambda>t. th_id t = i)
         (refreshed i ts' ((db_of w)\<lparr>messages := map_rows (incoming_in i) (\<lambda>m. m\<lparr>m_is_read := mark_reads body', m_updated_at := ts\<rparr>) (messages (db_of w))\<rparr>))
         (threads (db_of w)), audits := xs\<rparr>"
    using markThread_run [OF assms(1,3)] .
  have body: "body' = body" using b assms(2) by simp
  define ms where "ms = map_rows (incoming_in i) (\<lambda>m. m\<lparr>m_is_read := mark_reads body, m_updated_at := ts\<rparr>) (messages (db_of w))"
  have sel: "messages (db_of w') = ms" "attachments (db_of w') = attachments (db_of w)"
    "threads (db_of w') = map_rows (\<lambda>t. th_id t = i) (refreshed i ts' ((db_of w)\<lparr>messages := ms\<rparr>)) (threads (db_of w))"
    "db_of w' = (db_of w)\<lparr>messages := messages (db_of w'), threads := threads (db_of w'), audits := audits (db_of w')\<rparr>"
    by (simp_all add: w' ms_def body)
  have flag: "m_is_read m = mark_reads body" if mem: "m \<in> set ms" and dir: "m_thread m = i \<and> m_direction m = js ''incoming''" for m
  proof -
    obtain x where x: "m = (if incoming_in i x then x\<lparr>m_is_read := mark_reads body, m_updated_at := ts\<rparr> else x)"
      using mem unfolding ms_def in_map_rows by blast
    then show ?thesis using dir by (cases "incoming_in i x") (auto simp: incoming_in_def)
  qed
  have others: "filter (\<lambda>m. \<not> (m_thread m = i \<and> m_direction m = js ''incoming'')) ms
      = filter (\<lambda>m. \<not> (m_thread m = i \<and> m_direction m = js ''incoming'')) (messages (db_of w))"
    unfolding ms_def by (subst filter_map_rows) (auto simp: incoming_in_def intro!: map_rows_none)
  have fields: "map (\<lambda>m. m\<lparr>m_is_read := False, m_updated_at := []\<rparr>) ms = map (\<lambda>m. m\<lparr>m_is_read := False, m_updated_at := []\<rparr>) (messages (db_of w))"
    unfolding ms_def map_rows_def by (simp add: comp_def)
  have row: "row_says (filter (\<lambda>m. m_thread m = i) ms)
      (\<exists>a \<in> set (attachments (db_of w)). \<exists>m \<in> set ms. m_id m = at_message a \<and> m_thread m = i) t"
    if "t \<in> set (threads (db_of w'))" "th_id t = i" for t
    using map_refreshed_says [of t i ts' "(db_of w)\<lparr>messages := ms\<rparr>" "threads (db_of w)"] that sel(3) by simp
  have "filter (\<lambda>t. th_id t \<noteq> i) (threads (db_of w')) = filter (\<lambda>t. th_id t \<noteq> i) (threads (db_of w))"
    unfolding sel(3) by (subst filter_map_rows) (auto intro!: map_rows_none)
  then show ?thesis using flag others fields row sel(4) unfolding sel(1,2) mark_reads_def by blast
qed

definition example_marked_db :: db where
  "example_marked_db = example_thread_db\<lparr>admins := [example_admin]\<rparr>"

lemma example_marked_ok: "db_ok (example_marked_db\<lparr>messages := map_rows (incoming_in (js ''t1'')) (\<lambda>m. m\<lparr>m_is_read := b, m_updated_at := s\<rparr>)
    (messages example_marked_db)\<rparr>)"
  by (simp add: db_ok_defs example_marked_db_def example_thread_db_def empty_db_def new_thread_def message_defaults_def
      example_admin_def incoming_in_def)

lemma example_mark:
  obtains resp w' where "markThread example_env example_request example_user (js ''t1'') (start_world example_marked_db) = (Inr resp, w')"
proof -
  let ?d = "example_marked_db\<lparr>messages := map_rows (incoming_in (js ''t1'')) (\<lambda>m. m\<lparr>m_is_read := True, m_updated_at := iso (clock example_env 1)\<rparr>)
    (messages example_marked_db)\<rparr>"
  let ?e = "?d\<lparr>threads := map_rows (\<lambda>t. th_id t = js ''t1'') (refreshed (js ''t1'') (iso (clock example_env 2)) ?d) (threads ?d)\<rparr>"
  let ?w = "step_db (step_db (start_world example_marked_db) example_marked_db) ?d"
  have e: "db_ok ?e"
    by (simp add: db_ok_defs example_marked_db_def example_thread_db_def empty_db_def new_thread_def message_defaults_def
        example_admin_def incoming_in_def refreshed_def Let_def)
  have ref: "refreshThread example_env (js ''t1'') ?w = (Inr (), step_db ?w ?e)"
    using e by (simp add: refreshThread_def act_simps update_threads_def external_quiet constrained_def numeral_2_eq_2)
  obtain w' where "audit example_env example_request (Some example_user) (js ''thread_mark_read'') (js ''thread'') (js ''t1'') None []
      (step_db ?w ?e) = (Inr (), w')"
  proof (rule audit_returns [OF example_env_ok(1,2) example_pepper, of "step_db ?w ?e" "Some example_user"])
    show "db_ok (db_of (step_db ?w ?e))" using e by simp
    show "refers (map_option us_admin (Some example_user)) (map ad_id (admins (db_of (step_db ?w ?e))))"
      by (simp add: refers_def example_user_def example_marked_db_def example_admin_def)
  qed
  then have "\<exists>resp w'. markThread example_env example_request example_user (js ''t1'') (start_world example_marked_db) = (Inr resp, w')"
    using ref example_marked_ok [of "iso (clock example_env 1)" True]
    by (simp add: markThread_def example_body act_simps select_quiet external_quiet update_messages_def constrained_def
        mark_reads_def Let_def)
      (simp add: example_marked_db_def example_thread_db_def new_thread_def)
  then show thesis using that by blast
qed

theorem markThread_effect_witness:
  "\<exists>resp w'. markThread example_env example_request example_user (js ''t1'') (start_world example_marked_db) = (Inr resp, w')
    \<and> list_all m_is_read (messages (db_of w')) \<and> \<not> list_all m_is_read (messages example_marked_db) \<and> length (messages (db_of w')) = 1"
proof -
  obtain resp w' where run: "markThread example_env example_request example_user (js ''t1'') (start_world example_marked_db) = (Inr resp, w')"
    by (rule example_mark)
  note effect = markThread_effect [OF _ example_body run]
  have m: "messages example_marked_db = [message_defaults\<lparr>m_id := js ''m1'', m_thread := js ''t1'', m_direction := js ''incoming'',
       m_created_at := js ''2024''\<rparr>]"
    by (simp add: example_marked_db_def example_thread_db_def)
  have "filter (\<lambda>m. \<not> (m_thread m = js ''t1'' \<and> m_direction m = js ''incoming'')) (messages (db_of w')) = []"
    using effect by (simp add: m)
  moreover have "\<forall>m \<in> set (messages (db_of w')). m_thread m = js ''t1'' \<and> m_direction m = js ''incoming'' \<longrightarrow> m_is_read m"
    using effect by (simp add: mark_reads_def)
  ultimately have "list_all m_is_read (messages (db_of w'))" by (auto simp: filter_empty_conv list_all_iff)
  moreover have "map (\<lambda>m. m\<lparr>m_is_read := False, m_updated_at := []\<rparr>) (messages (db_of w'))
      = map (\<lambda>m. m\<lparr>m_is_read := False, m_updated_at := []\<rparr>) (messages example_marked_db)"
    using effect by simp
  then have "length (messages (db_of w')) = 1" unfolding m by (metis length_map length_Cons list.size(3) One_nat_def)
  moreover have "\<not> list_all m_is_read (messages example_marked_db)" by (simp add: m message_defaults_def)
  ultimately show ?thesis using run by blast
qed

end
