(* ===== verification/Mail_Helpers.thy ===== *)
theory Mail_Helpers
  imports Threads
begin

text \<open>
  The text helpers of the mail subsystem (\<open>src/src/mail/helpers.ts\<close>) and the mailboxes
  (\<open>src/src/mail/mailbox.ts\<close>): header addresses, header values, MIME types and message identifiers,
  the text of an HTML body, MIME encoding of headers and bodies, the recipients of a message that
  is to be sent, and looking up a mailbox.
\<close>

section \<open>Header addresses\<close>

text \<open>
  \<open>addressArray\<close>: groups are flattened, invalid addresses are dropped, and at most
  \<open>MAX_HEADER_ADDRESSES\<close> are kept. The parser's single address is the list of one.
\<close>

function collect_addresses :: "unicode \<Rightarrow> parsed_address list \<Rightarrow> address list \<Rightarrow> parsed_address list" where
  "collect_addresses U acc [] = acc"
| "collect_addresses U acc (Group_Address n members # items) =
     (if MAX_HEADER_ADDRESSES \<le> length acc then acc
      else collect_addresses U
        (acc @ take (MAX_HEADER_ADDRESSES - length acc) (take MAX_HEADER_ADDRESSES (collect_addresses U [] members))) items)"
| "collect_addresses U acc (Mailbox_Address n a # items) =
     (if MAX_HEADER_ADDRESSES \<le> length acc then acc
      else if validEmail a then
        collect_addresses U
          (acc @ [\<lparr> pa_name = asText (case n of None \<Rightarrow> JUndef | Some t \<Rightarrow> JStr t) 200, pa_address = normalizeEmail U (JStr a) \<rparr>]) items
      else collect_addresses U acc items)"
  by pat_completeness auto
termination
  by (relation "measure (\<lambda>(U, acc, items). size_list size items)") auto

definition addressArray :: "unicode \<Rightarrow> address list \<Rightarrow> parsed_address list" where
  "addressArray U items = take MAX_HEADER_ADDRESSES (collect_addresses U [] items)"

section \<open>Header values\<close>

definition safeHeaderValue :: "jsval \<Rightarrow> nat \<Rightarrow> jstr" where
  "safeHeaderValue v m = trim (replace_runs line_break (js '' '') (asText v m))"

definition mime_unit :: "code_unit \<Rightarrow> bool" where
  "mime_unit c \<longleftrightarrow> is_lower c \<or> is_digit c \<or> c \<in> set (js ''!#$&^_.+-'')"

definition mime_regex :: regex where
  "mime_regex = cats [Plus (Cls mime_unit), chr 47, Plus (Cls mime_unit)]"

definition safeMimeType :: "unicode \<Rightarrow> jsval \<Rightarrow> jstr" where
  "safeMimeType U v =
     (let type = to_lower U (safeHeaderValue v 200) in
      if re_full mime_regex type then type else js ''application/octet-stream'')"

definition id_unit :: "code_unit \<Rightarrow> bool" where
  "id_unit c \<longleftrightarrow> \<not> js_space c \<and> c \<noteq> 60 \<and> c \<noteq> 62"

definition bracketed_id :: regex where
  "bracketed_id = cats [chr 60, Plus (Cls id_unit), chr 62]"

definition bare_id :: regex where
  "bare_id = cats [Plus (Cls (\<lambda>c. id_unit c \<and> c \<noteq> 64)), chr 64, Plus (Cls (\<lambda>c. id_unit c \<and> c \<noteq> 64))]"

definition normalizeInternetMessageId :: "jsval \<Rightarrow> jstr" where
  "normalizeInternetMessageId v =
     (let raw = safeHeaderValue v 998 in
      case re_search bracketed_id raw of
        Some (m, rest, k) \<Rightarrow> m
      | None \<Rightarrow> if re_full bare_id raw then js ''<'' @ raw @ js ''>'' else [])"

definition header :: "unicode \<Rightarrow> email \<Rightarrow> string \<Rightarrow> jstr" where
  "header U mail name =
     trim (asText (case find (\<lambda>(k, v). to_lower U k = to_lower U (js name)) (em_headers mail) of
        None \<Rightarrow> JUndef | Some (k, v) \<Rightarrow> JStr v) 8000)"

definition references :: "jstr \<Rightarrow> jstr list" where
  "references v = (let ids = re_matches bracketed_id v in drop (length ids - 30) ids)"

definition messageTime :: "env \<Rightarrow> message \<Rightarrow> jstr action" where
  "messageTime E m =
     (case filter (\<lambda>t. t \<noteq> []) [coalesce (m_received_at m) [], coalesce (m_sent_at m) [], m_created_at m] of
        [] \<Rightarrow> now E
      | t # _ \<Rightarrow> returnE t)"

section \<open>Bodies\<close>

definition attachmentBytes :: "attachment_item \<Rightarrow> bytes" where
  "attachmentBytes item =
     (case it_content item of
        Binary bs \<Rightarrow> bs
      | Textual t \<Rightarrow>
          (let v = asText (JStr t) (MAX_INCOMING_ATTACHMENT_BYTES * 2) in
           if it_encoding item = Some (js ''base64'') then
             (case base64ToBytes v of Inl _ \<Rightarrow> [] | Inr bs \<Rightarrow> bs)
           else utf8 v))"

definition previewBody :: "jstr \<Rightarrow> int \<Rightarrow> jstr \<times> bool" where
  "previewBody v maxBytes = (let limited = truncateUtf8 v maxBytes in (limited, length limited \<noteq> length v))"

definition spaces :: regex where
  "spaces = Star (Cls js_space)"

definition replace_lit :: "string \<Rightarrow> jstr \<Rightarrow> jstr \<Rightarrow> jstr" where
  "replace_lit t r s = re_replace (lit t) (\<lambda>m k. r) s"

definition br_tag :: regex where
  "br_tag = cats [chr 60, spaces, lit_i ''br'', spaces, Opt (chr 47), chr 62]"

definition block_end_tag :: regex where
  "block_end_tag = cats [chr 60, spaces, chr 47, spaces,
     alts [lit_i ''p'', lit_i ''div'', lit_i ''li'', Cat (lit_i ''h'') (Cls (\<lambda>c. 49 \<le> c \<and> c \<le> 54)), lit_i ''blockquote''],
     spaces, chr 62]"

definition any_tag :: regex where
  "any_tag = cats [chr 60, Plus (Cls (\<lambda>c. c \<noteq> 62)), chr 62]"

definition many_breaks :: regex where
  "many_breaks = cats [chr 10, chr 10, Plus (chr 10)]"

definition htmlToText :: "jstr \<Rightarrow> jstr" where
  "htmlToText html =
     trim (re_replace many_breaks (\<lambda>m k. [10, 10])
       (replace_lit ''&#39;'' [39] (replace_lit ''&quot;'' [34] (replace_lit ''&gt;'' [62] (replace_lit ''&lt;'' [60]
         (replace_lit ''&amp;'' [38] (replace_lit ''&nbsp;'' [32]
           (re_remove any_tag (re_replace block_end_tag (\<lambda>m k. [10]) (re_replace br_tag (\<lambda>m k. [10]) html))))))))))"

definition printable_unit :: "code_unit \<Rightarrow> bool" where
  "printable_unit c \<longleftrightarrow> 0x20 \<le> c \<and> c \<le> 0x7E"

definition mimeHeader :: "jstr \<Rightarrow> jstr" where
  "mimeHeader v = (if list_all printable_unit v then v else js ''=?UTF-8?B?'' @ bytesToBase64 (utf8 v) @ js ''?='')"

definition crlf :: jstr where
  "crlf = [13, 10]"

definition wrapBase64 :: "jstr \<Rightarrow> jstr" where
  "wrapBase64 v = join_text crlf (concat (map (chunks 76) (split_runs line_terminator v)))"

section \<open>Recipients\<close>

definition recipient_text :: "jstr \<Rightarrow> jstr list" where
  "recipient_text t = filter (\<lambda>e. e \<noteq> []) (map trim (split_runs list_separator t))"

function recipient_tokens :: "jstr list \<Rightarrow> jsval list \<Rightarrow> exn + jstr list" where
  "recipient_tokens tokens [] = Inr tokens"
| "recipient_tokens tokens (item # pending) =
     (case item of
        JArr xs \<Rightarrow> recipient_tokens tokens (xs @ pending)
      | JUndef \<Rightarrow> recipient_tokens tokens pending
      | JNull \<Rightarrow> recipient_tokens tokens pending
      | JStr t \<Rightarrow>
          if t = [] then recipient_tokens tokens pending
          else if length t > 30000 then Inl (app_error 400 ''Recipient input is too long.'' ''too_many_recipients'')
          else if length (tokens @ recipient_text t) > 51 then Inr (tokens @ recipient_text t)
          else recipient_tokens (tokens @ recipient_text t) pending
      | _ \<Rightarrow> Inl (app_error 400 ''Recipient fields must contain email addresses.'' ''invalid_recipient''))"
  by pat_completeness auto
termination
  by (relation "measure (\<lambda>(tokens, pending). size_list size pending)") auto

definition recipientTokens :: "jsval \<Rightarrow> exn + jstr list" where
  "recipientTokens v = recipient_tokens [] (case v of JArr xs \<Rightarrow> xs | _ \<Rightarrow> [v])"

definition strictRecipientList :: "unicode \<Rightarrow> jsval \<Rightarrow> string \<Rightarrow> exn + jstr list" where
  "strictRecipientList U v label =
     (case recipientTokens v of
        Inl e \<Rightarrow> Inl e
      | Inr tokens \<Rightarrow>
          if length tokens > 50 then Inl (app_error 400 ''A message can have at most 50 recipients.'' ''too_many_recipients'')
          else
            let invalid = filter (\<lambda>entry. \<not> validEmail (normalizeEmail U (JStr entry))) tokens in
            if invalid \<noteq> [] then
              Inl (AppError 400 (js label @ js '' contains an invalid email address: '' @ join_text (js '', '') (take 3 invalid))
                (js ''invalid_recipient''))
            else Inr (dedup (map (\<lambda>entry. normalizeEmail U (JStr entry)) tokens)))"

definition boundedBody :: "jsval \<Rightarrow> nat \<Rightarrow> string \<Rightarrow> exn + jstr" where
  "boundedBody v maxBytes label =
     (case v of
        JUndef \<Rightarrow> Inr []
      | JNull \<Rightarrow> Inr []
      | JStr t \<Rightarrow>
          if byte_length t > maxBytes then
            Inl (AppError 413 (js label @ js '' is too large and was not truncated.'') (js ''message_body_too_large''))
          else Inr t
      | _ \<Rightarrow> Inl (AppError 400 (js label @ js '' must be text.'') (js ''invalid_body'')))"

definition date_regex :: regex where
  "date_regex = cats (replicate 4 (Cls is_digit) @ [chr 45] @ replicate 2 (Cls is_digit) @ [chr 45] @ replicate 2 (Cls is_digit))"

definition dateFilter :: "jstr \<Rightarrow> bool \<Rightarrow> jstr option" where
  "dateFilter v end_of_day =
     (if re_full date_regex v then
        Some (v @ js (if end_of_day then ''T23:59:59.999Z'' else ''T00:00:00.000Z''))
      else None)"

section \<open>Mailboxes\<close>

definition validateMailboxDomain :: "env \<Rightarrow> jstr \<Rightarrow> bool" where
  "validateMailboxDomain E address =
     (let domain = to_lower (uni (plat E)) (trim (or_else (var_text E ''MAIL_DOMAIN'') (js ''example.com''))) in
      ends_with (js ''@'' @ domain) address)"

definition displayFrom :: "env \<Rightarrow> mailbox \<Rightarrow> jstr" where
  "displayFrom E m =
     (let name = replace_unit (\<lambda>c. c = 60 \<or> c = 62) (js '' '')
            (safeDisplayText (js_or (js_or (JStr (mb_display_name m)) (var E ''MAIL_DISPLAY_NAME'')) (JStr (js ''MailGable''))) 200)
      in name @ js '' <'' @ normalizeEmail (uni (plat E)) (JStr (mb_address m)) @ js ''>'')"

definition mailboxByAddress :: "env \<Rightarrow> jstr \<Rightarrow> mailbox option action" where
  "mailboxByAddress E address =
     select E (\<lambda>d. find (\<lambda>m. nocase (mb_address m) = nocase (normalizeEmail (uni (plat E)) (JStr address)) \<and> mb_active m) (mailboxes d))"

definition mailboxById :: "env \<Rightarrow> jstr \<Rightarrow> mailbox option action" where
  "mailboxById E i = select E (\<lambda>d. find (\<lambda>m. mb_id m = i \<and> mb_active m) (mailboxes d))"

definition flag_value :: "bool \<Rightarrow> jsval" where
  "flag_value b = JNum (js (if b then ''1'' else ''0''))"

definition mailbox_value :: "mailbox \<Rightarrow> jsval" where
  "mailbox_value m = obj [(''mailbox_id'', JStr (mb_id m)), (''address'', JStr (mb_address m)),
     (''display_name'', JStr (mb_display_name m)), (''can_receive'', flag_value (mb_can_receive m)),
     (''can_send'', flag_value (mb_can_send m)), (''active'', flag_value (mb_active m))]"

definition listMailboxes :: "env \<Rightarrow> response action" where
  "listMailboxes E =
     bindE (select E (\<lambda>d. sort_key (nocase \<circ> mb_address) (filter mb_active (mailboxes d)))) (\<lambda>rows.
     returnE (json (obj [(''mailboxes'', JArr (map mailbox_value rows))]) 200 []))"

lemma keeps_mailboxes [keeps_intros]:
  assumes "stable E db_ok"
  shows "keeps (\<lambda>w. db_ok (db_of w)) (mailboxByAddress E a)" "keeps (\<lambda>w. db_ok (db_of w)) (mailboxById E i)"
    "keeps (\<lambda>w. db_ok (db_of w)) (listMailboxes E)"
  unfolding mailboxByAddress_def mailboxById_def listMailboxes_def by (intro keeps_intros assms)+

lemma keeps_messageTime [keeps_intros]: "keeps (\<lambda>w. I (db_of w)) (messageTime E m)"
  unfolding messageTime_def by (auto intro: keeps_intros split: list.split)

end
