(* ===== verification/Sanitize.thy ===== *)
theory Sanitize
  imports Mail_Helpers
begin

text \<open>
  The HTML sanitiser of \<open>src/src/lib.ts\<close> (\<open>sanitizeHtml\<close>): nine regular-expression passes, expression
  by expression, on the backtracking matcher of the theory Regex. Inert text passes unchanged;
  \<open>sanitizeHtml_keeps_script\<close> shows, for every inert text, that one pass over the tags is not enough.
\<close>

section \<open>Expressions\<close>

definition blocked_tags :: "string list" where
  "blocked_tags = [''script'', ''style'', ''iframe'', ''object'', ''embed'', ''form'', ''base'', ''meta'', ''link'',
     ''svg'', ''math'', ''template'', ''foreignObject'']"

definition any_unit :: regex where
  "any_unit = Cls (\<lambda>c. True)"

definition not_gt :: regex where
  "not_gt = Cls (\<lambda>c. c \<noteq> 62)"

definition comment_regex :: regex where
  "comment_regex = cats [lit ''<!--'', LazyStar any_unit, lit ''-->'']"

definition element_regex :: regex where
  "element_regex = cats [chr 60, spaces, Cap 1 (words_i blocked_tags), Star not_gt, chr 62, LazyStar any_unit,
     chr 60, spaces, chr 47, spaces, Back 1, spaces, chr 62]"

definition tag_regex :: regex where
  "tag_regex = cats [chr 60, spaces, Opt (chr 47), spaces, words_i blocked_tags, Star not_gt, chr 62]"

definition attribute_value :: regex where
  "attribute_value = alts [cats [chr 34, Star (Cls (\<lambda>c. c \<noteq> 34)), chr 34], cats [chr 39, Star (Cls (\<lambda>c. c \<noteq> 39)), chr 39],
     Plus (Cls (\<lambda>c. \<not> js_space c \<and> c \<noteq> 62))]"

text \<open>\<open>\s+name\s*=\s*value\<close>.\<close>

definition attribute_regex :: "regex \<Rightarrow> regex \<Rightarrow> regex" where
  "attribute_regex name v = cats [Plus (Cls js_space), name, spaces, chr 61, spaces, v]"

definition handler_name :: regex where
  "handler_name = Cat (lit_i ''on'') (Plus (Cls (\<lambda>c. is_alnum c \<or> c = 95 \<or> c = 45)))"

definition source_names :: regex where
  "source_names = words_i [''src'', ''srcset'', ''action'', ''formaction'', ''poster'', ''background'', ''xlink:href'']"

definition link_names :: regex where
  "link_names = words_i [''target'', ''rel'', ''download'']"

definition href_replacement :: "jstr \<Rightarrow> captures \<Rightarrow> jstr" where
  "href_replacement m k =
     (let quoted_text = (case map_of k 1 of None \<Rightarrow> [] | Some q \<Rightarrow> q) in
      if safeExternalHref (butlast (tl quoted_text)) \<noteq> None then
        js '' href='' @ quoted_text @ js '' target='' @ [34] @ js ''_blank'' @ [34] @ js '' rel='' @ [34]
          @ js ''noopener noreferrer nofollow'' @ [34]
      else [])"

section \<open>The sanitiser\<close>

definition strip_active :: "jstr \<Rightarrow> jstr" where
  "strip_active v =
     re_remove (attribute_regex handler_name attribute_value)
       (re_remove tag_regex (re_remove element_regex (re_remove comment_regex (take 1000000 v))))"

definition strip_attributes :: "jstr \<Rightarrow> jstr" where
  "strip_attributes v =
     re_remove (attribute_regex (lit_i ''style'') attribute_value)
       (re_replace (attribute_regex (lit_i ''href'') (Cap 1 attribute_value)) href_replacement
         (re_remove (attribute_regex link_names attribute_value)
           (re_remove (attribute_regex source_names attribute_value) v)))"

definition sanitizeHtml :: "jstr \<Rightarrow> jstr" where
  "sanitizeHtml v = strip_attributes (strip_active v)"

section \<open>Inert text\<close>

lemma re_replace_none:
  assumes "\<And>t. set t \<subseteq> set s \<Longrightarrow> re_match r t [] = []"
  shows "re_replace r f s = s"
  using assms
proof (induction s)
  case Nil
  then have "re_first r [] = None" by (simp add: re_first_def)
  then show ?case by (subst re_replace.simps) simp
next
  case (Cons c s)
  have "re_first r (c # s) = None" using Cons.prems [of "c # s"] by (simp add: re_first_def)
  moreover have "re_replace r f s = s" by (rule Cons.IH) (use Cons.prems in auto)
  ultimately show ?case by (subst re_replace.simps) simp
qed

text \<open>An expression that must read one of the characters of \<open>p\<close> cannot match a text without them.\<close>

fun needs :: "(code_unit \<Rightarrow> bool) \<Rightarrow> regex \<Rightarrow> bool" where
  "needs p (Cls q) = (\<forall>c. q c \<longrightarrow> p c)"
| "needs p (Cat a b) = (needs p a \<or> needs p b)"
| "needs p (Alt a b) = (needs p a \<and> needs p b)"
| "needs p (Cap n a) = needs p a"
| "needs p _ = False"

lemma re_match_subset: "(t, k') \<in> set (re_match r s k) \<Longrightarrow> set t \<subseteq> set s"
proof (induction r s k arbitrary: t k' rule: re_match.induct)
  case (2 p s k)
  then show ?case by (auto split: list.splits if_splits)
next
  case (3 a b s k)
  then obtain u l where u: "(u, l) \<in> set (re_match a s k)" "(t, k') \<in> set (re_match b u l)" by auto
  then have "set u \<subseteq> set s" "set t \<subseteq> set u" using 3 by auto
  then show ?case by blast
next
  case (4 a b s k)
  from 4(3) have "(t, k') \<in> set (re_match a s k) \<or> (t, k') \<in> set (re_match b s k)" by simp
  then show ?case using 4(1,2) by blast
next
  case (5 a s k)
  show ?case
  proof (cases "(t, k') = (s, k)")
    case False
    then obtain u l where u: "(u, l) \<in> set (re_match a s k)" "length u < length s" "(t, k') \<in> set (re_match (Star a) u l)"
      using 5(3) by (subst (asm) re_match.simps) (auto split: if_splits)
    then have "set u \<subseteq> set s" "set t \<subseteq> set u" using 5(1,2) by auto
    then show ?thesis by blast
  qed simp
next
  case (6 a s k)
  show ?case
  proof (cases "(t, k') = (s, k)")
    case False
    then obtain u l where u: "(u, l) \<in> set (re_match a s k)" "length u < length s" "(t, k') \<in> set (re_match (LazyStar a) u l)"
      using 6(3) by (subst (asm) re_match.simps) (auto split: if_splits)
    then have "set u \<subseteq> set s" "set t \<subseteq> set u" using 6(1,2) by auto
    then show ?thesis by blast
  qed simp
next
  case (8 n s k)
  then show ?case by (auto split: option.splits if_splits dest: in_set_dropD)
qed auto

lemma needs_match: "needs p r \<Longrightarrow> \<forall>c \<in> set s. \<not> p c \<Longrightarrow> re_match r s k = []"
proof (induction r arbitrary: s k)
  case (Cls q)
  then show ?case by (auto split: list.split)
next
  case (Cat a b)
  show ?case
  proof (cases "needs p a")
    case True
    then show ?thesis using Cat by simp
  next
    case False
    then have "needs p b" using Cat.prems(1) by simp
    moreover have "\<forall>c \<in> set t. \<not> p c" if "(t, l) \<in> set (re_match a s k)" for t l
      using re_match_subset [OF that] Cat.prems(2) by blast
    ultimately show ?thesis using Cat.IH(2) by (auto simp: concat_eq_Nil_conv)
  qed
qed auto

lemma needs_replace: "needs p r \<Longrightarrow> \<forall>c \<in> set s. \<not> p c \<Longrightarrow> re_replace r f s = s"
  by (rule re_replace_none) (meson needs_match subset_eq)

definition inert_text :: "jstr \<Rightarrow> bool" where
  "inert_text s \<longleftrightarrow> 60 \<notin> set s \<and> 61 \<notin> set s"

lemma needs_lt: "needs (\<lambda>c. c = 60) comment_regex" "needs (\<lambda>c. c = 60) element_regex" "needs (\<lambda>c. c = 60) tag_regex"
  by (simp_all add: comment_regex_def element_regex_def tag_regex_def lit_def js_def chr_def)

lemma needs_eq: "needs (\<lambda>c. c = 61) (attribute_regex n v)"
  by (simp add: attribute_regex_def chr_def)

text \<open>
  Text without angle brackets and equals signs is not touched by the sanitiser (up to its
  length limit of a million code units), so plain mail bodies are shown as they were sent.
\<close>

theorem sanitizeHtml_inert:
  assumes "inert_text v"
  shows "sanitizeHtml v = take 1000000 v"
proof -
  have "\<forall>c \<in> set (take 1000000 v). \<not> c = 60" "\<forall>c \<in> set (take 1000000 v). \<not> c = 61"
    using assms by (auto simp: inert_text_def dest: in_set_takeD)
  then show ?thesis
    unfolding sanitizeHtml_def strip_active_def strip_attributes_def re_remove_def
    by (simp add: needs_replace [OF needs_lt(1)] needs_replace [OF needs_lt(2)] needs_replace [OF needs_lt(3)]
        needs_replace [OF needs_eq])
qed

theorem sanitizeHtml_inert_witness: "sanitizeHtml (js ''Tom & Jerry'') = js ''Tom & Jerry''"
  using sanitizeHtml_inert [of "js ''Tom & Jerry''"] by (simp add: inert_text_def js_def)

section \<open>Split tags\<close>

text \<open>Words of an expression at the start of a text of which only a prefix is known.\<close>

fun differs :: "jstr \<Rightarrow> jstr \<Rightarrow> bool" where
  "differs (d # w) (c # p) = (lower_unit c \<noteq> lower_unit d \<or> differs w p)"
| "differs _ _ = False"

lemma lit_i_Cons: "re_match (lit_i (d # w)) (c # s) k = (if lower_unit c = lower_unit (hd (js [d])) then re_match (lit_i w) s k else [])"
  by (cases w) (simp_all add: lit_i_def js_def)

lemma lit_i_Nil: "re_match (lit_i []) s k = [(s, k)]"
  by (simp add: lit_i_def js_def)

lemma lit_i_differs: "differs (js w) p \<Longrightarrow> re_match (lit_i w) (p @ s) k = []"
proof (induction w arbitrary: p)
  case (Cons d w)
  then show ?case by (cases p) (auto simp: lit_i_Cons js_def)
qed (simp add: js_def)

lemma lit_i_same: "map lower_unit p = map lower_unit (js w) \<Longrightarrow> re_match (lit_i w) (p @ s) k = [(s, k)]"
proof (induction w arbitrary: p)
  case Nil
  then show ?case by (simp add: lit_i_Nil js_def)
next
  case (Cons d w)
  then obtain c q where "p = c # q" by (cases p) (simp_all add: js_def)
  then show ?case using Cons by (simp add: lit_i_Cons js_def)
qed

lemma alts_match: "re_match (alts rs) s k = concat (map (\<lambda>r. re_match r s k) rs)"
  by (induction rs) (auto split: list.split)

lemma words_differ: "list_all (\<lambda>t. differs (js t) p) ts \<Longrightarrow> re_match (words_i ts) (p @ s) k = []"
  by (auto simp: words_i_def alts_match list_all_iff lit_i_differs)

lemma words_same:
  assumes "filter (\<lambda>u. \<not> differs (js u) (p @ q)) ts = [t]" "map lower_unit p = map lower_unit (js t)"
  shows "re_match (words_i ts) (p @ q @ s) k = [(q @ s, k)]"
proof -
  have "concat (map (\<lambda>u. re_match (lit_i u) (p @ q @ s) k) ts)
      = concat (map (\<lambda>u. re_match (lit_i u) (p @ q @ s) k) (filter (\<lambda>u. \<not> differs (js u) (p @ q)) ts))"
    using lit_i_differs [of _ "p @ q" s k] by (induction ts) auto
  then show ?thesis using assms(1) lit_i_same [OF assms(2), of "q @ s" k] by (simp add: words_i_def alts_match comp_def)
qed

text \<open>Expressions that start with a tag bracket.\<close>

definition opens_tag :: "regex \<Rightarrow> bool" where
  "opens_tag r \<longleftrightarrow> (\<forall>c s k. c \<noteq> 60 \<longrightarrow> re_match r (c # s) k = []) \<and> (\<forall>k. re_match r [] k = [])"

lemma opens_tag_passes: "opens_tag comment_regex" "opens_tag element_regex" "opens_tag tag_regex"
  by (simp_all add: opens_tag_def comment_regex_def element_regex_def tag_regex_def lit_def js_def chr_def)

lemma remove_skip: "opens_tag r \<Longrightarrow> 60 \<notin> set p \<Longrightarrow> re_remove r (p @ s) = p @ re_remove r s"
  unfolding re_remove_def
proof (induction p)
  case (Cons c p)
  then have "re_first r (c # p @ s) = None" by (simp add: opens_tag_def re_first_def)
  then show ?case using Cons by (subst re_replace.simps) simp
qed simp

lemma remove_unmatched: "re_match r (c # s) [] = [] \<Longrightarrow> re_remove r (c # s) = c # re_remove r s"
  unfolding re_remove_def by (subst re_replace.simps) (simp add: re_first_def)

lemma remove_matched: "re_match r s [] = (rest, k) # ms \<Longrightarrow> length rest < length s \<Longrightarrow> re_remove r s = re_remove r rest"
  unfolding re_remove_def by (subst re_replace.simps) (cases s, simp_all add: re_first_def consumed_def)

lemma remove_end: "opens_tag r \<Longrightarrow> re_remove r [] = []"
  unfolding re_remove_def by (subst re_replace.simps) (simp add: re_first_def opens_tag_def)

lemma star_stop: "\<not> p c \<Longrightarrow> re_match (Star (Cls p)) (c # s) k = [(c # s, k)]"
  by (subst re_match.simps) simp

lemma lazy_skip: "opens_tag r \<Longrightarrow> 60 \<notin> set p \<Longrightarrow> re_match (Cat (LazyStar any_unit) r) (p @ s) k = re_match (Cat (LazyStar any_unit) r) s k"
proof (induction p)
  case (Cons c p)
  have "re_match (LazyStar any_unit) (c # p @ s) k = (c # p @ s, k) # re_match (LazyStar any_unit) (p @ s) k"
    by (subst re_match.simps) (simp add: any_unit_def)
  then show ?case using Cons by (simp add: opens_tag_def)
qed simp

definition closing_regex :: regex where
  "closing_regex = cats [chr 60, spaces, chr 47, spaces, Back 1, spaces, chr 62]"

lemma opens_closing: "opens_tag closing_regex"
  by (simp add: opens_tag_def closing_regex_def chr_def)

lemma element_split: "element_regex = cats [chr 60, spaces, Cap 1 (words_i blocked_tags), Star not_gt, chr 62, Cat (LazyStar any_unit) closing_regex]"
  by (simp add: element_regex_def closing_regex_def)

lemma spaces_stop: "\<not> js_space c \<Longrightarrow> re_match spaces (c # s) k = [(c # s, k)]"
  by (simp add: spaces_def star_stop)

lemma no_spaces: "\<not> js_space 115" "\<not> js_space 98" "\<not> js_space 47"
  by code_simp+

lemma differ_facts:
  "list_all (\<lambda>t. differs (js t) [115, 99, 114, 60]) blocked_tags" "list_all (\<lambda>t. differs (js t) [47]) blocked_tags"
  "filter (\<lambda>u. \<not> differs (js u) ([98, 97, 115, 101] @ [62])) blocked_tags = [''base'']"
  "filter (\<lambda>u. \<not> differs (js u) ([115, 99, 114, 105, 112, 116] @ [62])) blocked_tags = [''script'']"
  by code_simp+

lemma word_facts:
  "re_match (words_i blocked_tags) (115 # 99 # 114 # 60 # s) k = []" "re_match (words_i blocked_tags) (47 # s) k = []"
  "re_match (words_i blocked_tags) (98 # 97 # 115 # 101 # 62 # s) k = [(62 # s, k)]"
  "re_match (words_i blocked_tags) (115 # 99 # 114 # 105 # 112 # 116 # 62 # s) k = [(62 # s, k)]"
proof -
  have "map lower_unit [98, 97, 115, 101] = map lower_unit (js ''base'')"
    "map lower_unit [115, 99, 114, 105, 112, 116] = map lower_unit (js ''script'')" by code_simp+
  then show "re_match (words_i blocked_tags) (98 # 97 # 115 # 101 # 62 # s) k = [(62 # s, k)]"
    "re_match (words_i blocked_tags) (115 # 99 # 114 # 105 # 112 # 116 # 62 # s) k = [(62 # s, k)]"
    using words_same [OF differ_facts(3)] words_same [OF differ_facts(4)] by simp_all
  show "re_match (words_i blocked_tags) (115 # 99 # 114 # 60 # s) k = []" "re_match (words_i blocked_tags) (47 # s) k = []"
    using words_differ [OF differ_facts(1), of s k] words_differ [OF differ_facts(2), of s k] by simp_all
qed

lemma split_tag:
  "re_match tag_regex (60 # 115 # 99 # 114 # 60 # s) [] = []" "re_match tag_regex (60 # 47 # 115 # 99 # 114 # 60 # s) [] = []"
  "re_match tag_regex (60 # 98 # 97 # 115 # 101 # 62 # s) [] = [(s, [])]"
  by (simp_all add: tag_regex_def chr_def spaces_stop no_spaces Opt_def word_facts not_gt_def star_stop)

lemma split_comment: "c \<noteq> 33 \<Longrightarrow> re_match comment_regex (60 # c # s) [] = []"
  by (simp add: comment_regex_def lit_def js_def chr_def)

lemma split_element:
  "re_match element_regex (60 # 115 # 99 # 114 # 60 # s) [] = []" "re_match element_regex (60 # 47 # s) [] = []"
  "re_match element_regex (60 # 98 # 97 # 115 # 101 # 62 # s) [] = re_match (Cat (LazyStar any_unit) closing_regex) s [(1, [98, 97, 115, 101])]"
  "re_match element_regex (60 # 115 # 99 # 114 # 105 # 112 # 116 # 62 # s) []
     = re_match (Cat (LazyStar any_unit) closing_regex) s [(1, [115, 99, 114, 105, 112, 116])]"
  unfolding element_split
  by (simp_all add: chr_def spaces_stop no_spaces word_facts not_gt_def star_stop consumed_def del: re_match.simps(3) add: re_match.simps(3) [of "Cls _"] re_match.simps(3) [of spaces] re_match.simps(3) [of "Cap _ _"] re_match.simps(3) [of "Star _"])

lemma closing_fails: "re_match (Cat (LazyStar any_unit) closing_regex) (js ''</scr<base>ipt>'') [(1, [98, 97, 115, 101])] = []"
  "re_match (Cat (LazyStar any_unit) closing_regex) (js ''ipt>'') [(1, [98, 97, 115, 101])] = []"
  "\<exists>k ms. re_match (Cat (LazyStar any_unit) closing_regex) (js ''</script>'') [(1, [115, 99, 114, 105, 112, 116])] = ([], k) # ms"
proof -
  show "re_match (Cat (LazyStar any_unit) closing_regex) (js ''</scr<base>ipt>'') [(1, [98, 97, 115, 101])] = []" 
  "re_match (Cat (LazyStar any_unit) closing_regex) (js ''ipt>'') [(1, [98, 97, 115, 101])] = []" by code_simp+
  have "re_match (Cat (LazyStar any_unit) closing_regex) (js ''</script>'') [(1, [115, 99, 114, 105, 112, 116])] = [([], [(1, [115, 99, 114, 105, 112, 116])])]" by code_simp
  then show "\<exists>k ms. re_match (Cat (LazyStar any_unit) closing_regex) (js ''</script>'') [(1, [115, 99, 114, 105, 112, 116])] = ([], k) # ms" by blast
qed

lemma remove_skips: "opens_tag r \<Longrightarrow> c \<noteq> 60 \<Longrightarrow> re_remove r (c # s) = c # re_remove r s"
  using remove_skip [of r "[c]" s] by simp

lemma split_texts:
  "js ''<scr<base>ipt>'' @ s = 60 # 115 # 99 # 114 # 60 # 98 # 97 # 115 # 101 # 62 # 105 # 112 # 116 # 62 # s"
  "js ''</scr<base>ipt>'' = [60, 47, 115, 99, 114, 60, 98, 97, 115, 101, 62, 105, 112, 116, 62]"
  "js ''<script>'' @ s = 60 # 115 # 99 # 114 # 105 # 112 # 116 # 62 # s"
  "js ''</script>'' = [60, 47, 115, 99, 114, 105, 112, 116, 62]" "js ''ipt>'' = [105, 112, 116, 62]"
  by (simp_all add: js_def)

lemma comment_pass:
  assumes "60 \<notin> set x"
  shows "re_remove comment_regex (js ''<scr<base>ipt>'' @ x @ js ''</scr<base>ipt>'') = js ''<scr<base>ipt>'' @ x @ js ''</scr<base>ipt>''"
    and "re_remove comment_regex (js ''<script>'' @ x @ js ''</script>'') = js ''<script>'' @ x @ js ''</script>''"
  unfolding split_texts
  by (simp_all add: remove_skips [OF opens_tag_passes(1)] remove_skip [OF opens_tag_passes(1) assms] remove_unmatched [OF split_comment]
      remove_end [OF opens_tag_passes(1)])

lemma element_pass:
  assumes "60 \<notin> set x"
  shows "re_remove element_regex (js ''<scr<base>ipt>'' @ x @ js ''</scr<base>ipt>'') = js ''<scr<base>ipt>'' @ x @ js ''</scr<base>ipt>''"
    and "re_remove element_regex (js ''<script>'' @ x @ js ''</script>'') = []"
proof -
  have start: "60 \<notin> set (105 # 112 # 116 # 62 # x)" using assms by simp
  have "re_match element_regex (60 # 98 # 97 # 115 # 101 # 62 # 105 # 112 # 116 # 62 # x @ js ''</scr<base>ipt>'') [] = []"
    using lazy_skip [OF opens_closing start, of "js ''</scr<base>ipt>''" "[(1, [98, 97, 115, 101])]"] unfolding split_element closing_fails(1) by simp
  moreover have "re_match element_regex [60, 98, 97, 115, 101, 62, 105, 112, 116, 62] [] = []"
    unfolding split_element closing_fails(2) [unfolded split_texts] by (rule refl)
  ultimately show "re_remove element_regex (js ''<scr<base>ipt>'' @ x @ js ''</scr<base>ipt>'') = js ''<scr<base>ipt>'' @ x @ js ''</scr<base>ipt>''"
    unfolding split_texts
    by (simp add: remove_skips [OF opens_tag_passes(2)] remove_skip [OF opens_tag_passes(2) assms] remove_unmatched split_element(1,2)
        remove_end [OF opens_tag_passes(2)])
  obtain k ms where "re_match (Cat (LazyStar any_unit) closing_regex) (js ''</script>'') [(1, [115, 99, 114, 105, 112, 116])] = ([], k) # ms"
    using closing_fails(3) by blast
  then have "re_match element_regex (js ''<script>'' @ x @ js ''</script>'') [] = ([], k) # ms"
    using lazy_skip [OF opens_closing assms, of "js ''</script>''" "[(1, [115, 99, 114, 105, 112, 116])]"]
    unfolding split_texts(3) split_element(4) by simp
  then show "re_remove element_regex (js ''<script>'' @ x @ js ''</script>'') = []"
    using remove_matched [of element_regex "js ''<script>'' @ x @ js ''</script>''"] remove_end [OF opens_tag_passes(2)] by (simp add: js_def)
qed

lemma tag_pass:
  assumes "60 \<notin> set x"
  shows "re_remove tag_regex (js ''<scr<base>ipt>'' @ x @ js ''</scr<base>ipt>'') = js ''<script>'' @ x @ js ''</script>''"
proof -
  have "re_remove tag_regex (60 # 98 # 97 # 115 # 101 # 62 # s) = re_remove tag_regex s" for s
    by (rule remove_matched [OF split_tag(3)]) simp
  then show ?thesis
    unfolding split_texts
    by (simp add: remove_skips [OF opens_tag_passes(3)] remove_skip [OF opens_tag_passes(3) assms] remove_unmatched split_tag(1,2)
        remove_end [OF opens_tag_passes(3)])
qed

text \<open>
  C33. The sanitiser can be made to write the very element it removes: it removes a script element, whatever inert text is inside,
  but each pass runs once, so an element whose name is split by another blocked tag, of which the name alone is enough, comes out whole. A body
  that goes through the sanitiser can therefore hold any such script (the viewer's sandbox and content
  policy are the remaining line of defence), and a second pass over the output would have removed it.
\<close>

theorem sanitizeHtml_keeps_script:
  assumes "inert_text x" "length x \<le> 900000"
  shows "sanitizeHtml (js ''<script>'' @ x @ js ''</script>'') = []
    \<and> sanitizeHtml (js ''<scr<base>ipt>'' @ x @ js ''</scr<base>ipt>'') = js ''<script>'' @ x @ js ''</script>''"
proof -
  have x: "60 \<notin> set x" "61 \<notin> set x" using assms(1) by (simp_all add: inert_text_def)
  have short: "take 1000000 (js ''<script>'' @ x @ js ''</script>'') = js ''<script>'' @ x @ js ''</script>''"
    "take 1000000 (js ''<scr<base>ipt>'' @ x @ js ''</scr<base>ipt>'') = js ''<scr<base>ipt>'' @ x @ js ''</scr<base>ipt>''"
    using assms(2) by (simp_all add: js_def)
  have rest: "re_remove (attribute_regex n v) s = s" "re_replace (attribute_regex n v) f s = s" if "61 \<notin> set s" for n v s f
    using that needs_replace [OF needs_eq, of s] by (auto simp: re_remove_def)
  have "61 \<notin> set (js ''<script>'' @ x @ js ''</script>'')" using x(2) by (simp add: js_def)
  then show ?thesis
    unfolding sanitizeHtml_def strip_active_def strip_attributes_def short comment_pass [OF x(1)] element_pass [OF x(1)] tag_pass [OF x(1)]
    by (simp add: rest remove_end [OF opens_tag_passes(3)])
qed

theorem sanitizeHtml_keeps_script_witness:
  "sanitizeHtml (js ''<scr<base>ipt>'' @ js ''x()'' @ js ''</scr<base>ipt>'') = js ''<script>x()</script>''"
  using sanitizeHtml_keeps_script [of "js ''x()''"] by (simp add: inert_text_def js_def)

end
