(* ===== verification/Events.thy ===== *)
theory Events
  imports Mail_Helpers
begin

text \<open>
  Delivery tracking on the database (\<open>applyDeliveryStatus\<close> and \<open>applyDeliveryEvent\<close> of
  \<open>src/src/providers/events.ts\<close>) and the three ways its events arrive
  (\<open>src/src/mail/delivery-events.ts\<close>): the signed webhook of Resend (\<open>verifySvixSignature\<close>,
  \<open>src/src/lib.ts\<close>), the bearer-authenticated webhook of Brevo and Cloudflare's queue.

  The body of a request arrives in chunks; \<open>read_chunks\<close> is the loop that collects them, and
  \<open>read_chunks_concat\<close> shows that how the body is cut does not matter.
\<close>

section \<open>Applying a status\<close>

definition previous_json :: "message \<Rightarrow> jstr" where
  "previous_json m = or_else (asText (JStr (m_recipient_status m)) 1000000) (js ''{}'')"

definition next_summary :: "env \<Rightarrow> message \<Rightarrow> jstr list \<Rightarrow> jstr \<Rightarrow> summary" where
  "next_summary E m recipients status =
     updateRecipientSummary (read_summary (num_text (plat E)) (previous_json m)) recipients status"

definition with_status :: "summary \<Rightarrow> jstr \<Rightarrow> jstr \<Rightarrow> message \<Rightarrow> message" where
  "with_status summary providerMessageId ts m =
     m\<lparr> m_status := aggregateDeliveryStatus summary,
        m_recipient_status := summary_text summary,
        m_provider_message_id := (case text_option (coalesce (m_provider_message_id m) []) of
            None \<Rightarrow> text_option providerMessageId | Some i \<Rightarrow> Some i),
        m_updated_at := ts \<rparr>"

text \<open>The compare-and-swap loop; the first argument is the number of attempts left.\<close>

primrec status_loop :: "nat \<Rightarrow> env \<Rightarrow> jstr \<Rightarrow> jstr \<Rightarrow> jstr list \<Rightarrow> jstr \<Rightarrow> unit action" where
  "status_loop 0 E messageId providerMessageId recipients status =
     throwE (app_error 503 ''Delivery status changed concurrently. Resend the event.'' ''webhook_concurrent_update'')"
| "status_loop (Suc n) E messageId providerMessageId recipients status =
     bindE (select E (\<lambda>d. find (\<lambda>m. m_id m = messageId) (messages d))) (\<lambda>current.
     case current of
       None \<Rightarrow> returnE ()
     | Some m \<Rightarrow>
         bindE (now E) (\<lambda>ts.
         bindE (external E (update_messages (\<lambda>x. m_id x = messageId \<and> m_recipient_status x = previous_json m)
            (with_status (next_summary E m recipients status) providerMessageId ts))) (\<lambda>changes.
         if changes = 1 then returnE ()
         else status_loop n E messageId providerMessageId recipients status)))"

definition applyDeliveryStatus :: "env \<Rightarrow> jstr \<Rightarrow> jstr \<Rightarrow> jstr list \<Rightarrow> jstr \<Rightarrow> unit action" where
  "applyDeliveryStatus E messageId providerMessageId recipients status =
     (if \<not> ranked status then returnE ()
      else status_loop 8 E messageId providerMessageId recipients status)"

section \<open>Applying an event\<close>

definition tag_unit :: "code_unit \<Rightarrow> bool" where
  "tag_unit c \<longleftrightarrow> is_alnum c \<or> c = 95 \<or> c = 45"

definition message_tag :: "jstr \<Rightarrow> bool" where
  "message_tag t \<longleftrightarrow> 8 \<le> length t \<and> length t \<le> 200 \<and> list_all tag_unit t"

definition find_event_message :: "env \<Rightarrow> delivery_event \<Rightarrow> message option action" where
  "find_event_message E ev =
     bindE (if ev_message_id ev = [] then returnE None
       else select E (\<lambda>d. find (\<lambda>m. m_provider m = Some (ev_provider ev)
          \<and> m_provider_message_id m = Some (ev_message_id ev)) (messages d))) (\<lambda>found.
     if found = None \<and> message_tag (ev_tagged_id ev) then
       select E (\<lambda>d. find (\<lambda>m. m_id m = ev_tagged_id ev \<and> m_direction m = js ''outgoing'') (messages d))
     else returnE found)"

definition reconcile_event :: "env \<Rightarrow> delivery_event \<Rightarrow> message \<Rightarrow> unit action" where
  "reconcile_event E ev m =
     (let providerInternetId = normalizeInternetMessageId
            (if ev_provider ev = js ''resend'' then opt_val (m_provider_internet_id m) else JStr [])
      in case m_provider_internet_id m of
           None \<Rightarrow> returnE ()
         | Some i \<Rightarrow> if providerInternetId = [] \<or> i = [] then returnE () else reconcileProviderMessageId E m i)"

text \<open>The \<open>INSERT\<close> names no \<open>payload_json\<close>, which the schema declares \<open>NOT NULL\<close> without a default.\<close>

definition event_record :: "delivery_event \<Rightarrow> message option \<Rightarrow> jstr \<Rightarrow> jstr \<Rightarrow> event_row" where
  "event_record ev message i ts =
     \<lparr> e_id = i, e_provider = Some (ev_provider ev), e_provider_event_id = Some (ev_id ev),
       e_provider_message_id = text_option (ev_message_id ev), e_message = map_option m_id message,
       e_type = ev_raw_type ev, e_status = ev_status ev, e_payload = None,
       e_recipients = json_text (JArr (map JStr (ev_recipients ev))),
       e_occurred_at = (case ev_occurred_at ev of None \<Rightarrow> None | Some t \<Rightarrow> text_option t), e_received_at = ts \<rparr>"

definition record_event :: "env \<Rightarrow> delivery_event \<Rightarrow> message option \<Rightarrow> bool action" where
  "record_event E ev message =
     bindE (uuid E) (\<lambda>i.
     bindE (now E) (\<lambda>ts.
     bindE (external E (insert_or_ignore (\<lambda>d. d\<lparr>events := events d @ [event_record ev message i ts]\<rparr>))) (\<lambda>changes.
     returnE (changes = 0))))"

definition applyDeliveryEvent :: "env \<Rightarrow> delivery_event \<Rightarrow> bool action" where
  "applyDeliveryEvent E ev =
     bindE (if ev_id ev = [] then returnE False
       else select E (\<lambda>d. list_ex (\<lambda>e. e_provider e = Some (ev_provider ev) \<and> e_provider_event_id e = Some (ev_id ev)) (events d)))
     (\<lambda>seen.
     if seen then returnE True
     else
       bindE (find_event_message E ev) (\<lambda>message.
       bindE (case message of
           None \<Rightarrow> returnE ()
         | Some m \<Rightarrow>
             if ranked (ev_status ev) then
               bindE (applyDeliveryStatus E (m_id m) (ev_message_id ev) (ev_recipients ev) (ev_status ev)) (\<lambda>_. reconcile_event E ev m)
             else returnE ()) (\<lambda>_.
       record_event E ev message)))"

definition deliveryEventResponse :: "bool \<Rightarrow> response" where
  "deliveryEventResponse duplicate = json (obj [(''ok'', JBool True), (''duplicate'', JBool duplicate)]) 200 []"

section \<open>Signed webhooks\<close>

definition hmacSha256 :: "env \<Rightarrow> bytes \<Rightarrow> jstr \<Rightarrow> bytes" where
  "hmacSha256 E secret v = hmac_digest (plat E) secret (utf8 v)"

text \<open>\<open>entry.split(",", 2)\<close>.\<close>

definition signature_matches :: "jstr \<Rightarrow> jstr \<Rightarrow> bool" where
  "signature_matches expected entry =
     (case split_at 44 entry of
        version # v # _ \<Rightarrow> version = js ''v1'' \<and> v \<noteq> [] \<and> timingSafeEqual v expected
      | _ \<Rightarrow> False)"

definition verifySvixSignature :: "env \<Rightarrow> jstr \<Rightarrow> http_request \<Rightarrow> jstr \<Rightarrow> int \<Rightarrow> exn + bool" where
  "verifySvixSignature E raw r secret nowSeconds =
     (let i = header_text r ''svix-id''; timestamp = header_text r ''svix-timestamp'';
          signature = header_text r ''svix-signature'' in
      case parse_int timestamp of
        None \<Rightarrow> Inr False
      | Some parsed \<Rightarrow>
          if i = [] \<or> \<bar>nowSeconds - parsed\<bar> > 300 \<or> signature = [] then Inr False
          else
            (case base64UrlToBytes (strip_prefix (js ''whsec_'') secret) of
               Inl _ \<Rightarrow> Inl (app_error 503 ''Webhook secret is invalid.'' ''webhook_not_configured'')
             | Inr secretBytes \<Rightarrow>
                 let expected = bytesToBase64 (hmacSha256 E secretBytes (i @ js ''.'' @ timestamp @ js ''.'' @ raw)) in
                 Inr (list_ex (signature_matches expected) (split_runs js_space signature))))"

definition verifyResendWebhook :: "env \<Rightarrow> jstr \<Rightarrow> http_request \<Rightarrow> jstr \<Rightarrow> bool action" where
  "verifyResendWebhook E raw r secret =
     bindE (date_now E) (\<lambda>ms. liftE (verifySvixSignature E raw r secret (ms div 1000)))"

section \<open>Receiving events\<close>

definition payload_too_large :: exn where
  "payload_too_large = app_error 413 ''Webhook payload is too large.'' ''body_too_large''"

fun read_chunks :: "nat \<Rightarrow> bytes \<Rightarrow> bytes list \<Rightarrow> exn + bytes" where
  "read_chunks maxBytes acc [] = Inr acc"
| "read_chunks maxBytes acc (c # cs) =
     (if length acc + length c > maxBytes then Inl payload_too_large else read_chunks maxBytes (acc @ c) cs)"

definition body_chunks :: "http_request \<Rightarrow> bytes list" where
  "body_chunks r = chunks 65536 (rq_body r)"

definition readTextLimited :: "http_request \<Rightarrow> nat \<Rightarrow> exn + jstr" where
  "readTextLimited r maxBytes =
     (if (case parse_int (or_else (header_text r ''Content-Length'') (js ''0'')) of Some n \<Rightarrow> n > int maxBytes | None \<Rightarrow> False)
      then Inl payload_too_large
      else (case read_chunks maxBytes [] (body_chunks r) of Inl e \<Rightarrow> Inl e | Inr bs \<Rightarrow> Inr (text_decode bs)))"

definition parse_payload :: "env \<Rightarrow> jstr \<Rightarrow> exn + jsval" where
  "parse_payload E raw =
     (case json_parse (num_text (plat E)) raw of
        None \<Rightarrow> Inl (app_error 400 ''Webhook payload is invalid JSON.'' ''invalid_json'')
      | Some v \<Rightarrow> Inr v)"

definition handleResendWebhook :: "env \<Rightarrow> http_request \<Rightarrow> response action" where
  "handleResendWebhook E r =
     bindE (throw_if (\<not> truthy (var E ''RESEND_WEBHOOK_SECRET''))
       (app_error 503 ''Webhook verification is not configured.'' ''webhook_not_configured'')) (\<lambda>_.
     bindE (liftE (readTextLimited r 1000000)) (\<lambda>raw.
     bindE (verifyResendWebhook E raw r (var_text E ''RESEND_WEBHOOK_SECRET'')) (\<lambda>valid.
     bindE (throw_if (\<not> valid) (app_error 400 ''Webhook signature is invalid.'' ''invalid_webhook_signature'')) (\<lambda>_.
     bindE (liftE (parse_payload E raw)) (\<lambda>payload.
     bindE (liftE (normalizeResendEvent (plat E) payload (header_text r ''svix-id''))) (\<lambda>ev.
     bindE (applyDeliveryEvent E ev) (\<lambda>duplicate.
     returnE (deliveryEventResponse duplicate))))))))"

definition bearer_token :: "http_request \<Rightarrow> jstr" where
  "bearer_token r =
     (let auth = header_text r ''Authorization'' in if starts_with (js ''Bearer '') auth then drop 7 auth else [])"

definition handleBrevoWebhook :: "env \<Rightarrow> http_request \<Rightarrow> response action" where
  "handleBrevoWebhook E r =
     bindE (throw_if (\<not> truthy (var E ''BREVO_WEBHOOK_TOKEN''))
       (app_error 503 ''Webhook authentication is not configured.'' ''webhook_not_configured'')) (\<lambda>_.
     bindE (liftE (readTextLimited r 1000000)) (\<lambda>raw.
     bindE (liftE (parse_payload E raw)) (\<lambda>payload.
     bindE (liftE (normalizeBrevoEvent (plat E) payload (bearer_token r) (var_text E ''BREVO_WEBHOOK_TOKEN''))) (\<lambda>ev.
     bindE (applyDeliveryEvent E ev) (\<lambda>duplicate.
     returnE (deliveryEventResponse duplicate))))))"

definition queue_item :: "env \<Rightarrow> jsval \<Rightarrow> unit action" where
  "queue_item E cloudEvent =
     bindE (throw_if (cloudEvent = JNull \<or> cloudEvent = JUndef) type_error) (\<lambda>_.
     if \<not> starts_with (js ''cf.email.sending.'') (asText (js_get cloudEvent (js ''type'')) 200) then returnE ()
     else
       bindE (liftE (normalizeCloudflareQueueEvent (plat E) cloudEvent)) (\<lambda>ev.
       bindE (applyDeliveryEvent E ev) (\<lambda>_. returnE ())))"

definition handleCloudflareQueueEvent :: "env \<Rightarrow> jsval list \<Rightarrow> unit action" where
  "handleCloudflareQueueEvent E items = forE items (queue_item E)"

section \<open>Constraints are kept\<close>

lemma keeps_status_loop: "stable E db_ok \<Longrightarrow> keeps (\<lambda>w. db_ok (db_of w)) (status_loop n E i p rs st)"
  by (induction n) (auto intro!: keeps_intros preserves_intros)

lemma keeps_applyDeliveryEvent [keeps_intros]:
  assumes "stable E db_ok"
  shows "keeps (\<lambda>w. db_ok (db_of w)) (applyDeliveryEvent E ev)"
  unfolding applyDeliveryEvent_def find_event_message_def applyDeliveryStatus_def reconcile_event_def record_event_def Let_def
  by (intro keeps_intros preserves_intros keeps_status_loop assms)

lemma keeps_webhooks [keeps_intros]:
  assumes "stable E db_ok"
  shows "keeps (\<lambda>w. db_ok (db_of w)) (handleResendWebhook E r)" "keeps (\<lambda>w. db_ok (db_of w)) (handleBrevoWebhook E r)"
    "keeps (\<lambda>w. db_ok (db_of w)) (handleCloudflareQueueEvent E items)"
  unfolding handleResendWebhook_def handleBrevoWebhook_def handleCloudflareQueueEvent_def queue_item_def
    verifyResendWebhook_def Let_def
  by (intro keeps_intros assms)+

section \<open>One status update\<close>

lemma previous_json_fixed: "m_recipient_status x = previous_json m \<Longrightarrow> previous_json x = previous_json m"
  by (auto simp: previous_json_def or_else_def)

lemma next_summary_cong: "previous_json x = previous_json m \<Longrightarrow> next_summary E x rs st = next_summary E m rs st"
  by (simp add: next_summary_def)

lemma with_status_sel [simp]: "m_id (with_status s p ts m) = m_id m" "m_status (with_status s p ts m) = aggregateDeliveryStatus s"
  "m_recipient_status (with_status s p ts m) = summary_text s"
  by (simp_all add: with_status_def)

lemma count_rows_distinct:
  assumes "distinct (map g xs)" "\<And>x. p x \<Longrightarrow> g x = i"
  shows "count_rows p xs \<le> 1"
  using assms by (induction xs) (force simp: count_rows_def filter_empty_conv)+

lemma map_rows_only:
  assumes "distinct (map g xs)" "count_rows (\<lambda>x. g x = i \<and> q x) xs = 1" 
  shows "map_rows (\<lambda>x. g x = i \<and> q x) f xs = map_rows (\<lambda>x. g x = i) f xs"
    "\<And>x. x \<in> set xs \<Longrightarrow> g x = i \<Longrightarrow> q x"
proof -
  show q: "q x" if "x \<in> set xs" "g x = i" for x
  proof -
    obtain y where y: "y \<in> set xs" "g y = i" "q y"
      using assms(2) by (metis (mono_tags, lifting) count_rows_0 zero_neq_one)
    then have "x = y" using assms(1) that by (metis distinct_map inj_on_def)
    then show ?thesis using y by simp
  qed
  show "map_rows (\<lambda>x. g x = i \<and> q x) f xs = map_rows (\<lambda>x. g x = i) f xs"
    unfolding map_rows_def using q by auto
qed

definition status_set :: "env \<Rightarrow> jstr \<Rightarrow> jstr \<Rightarrow> jstr list \<Rightarrow> jstr \<Rightarrow> jstr \<Rightarrow> db \<Rightarrow> db" where
  "status_set E i p rs st ts d =
     d\<lparr>messages := map_rows (\<lambda>x. m_id x = i) (\<lambda>x. with_status (next_summary E x rs st) p ts x) (messages d)\<rparr>"

text \<open>The write of the loop either found the row as it was read and changed only it, or changed nothing.\<close>

lemma status_write:
  assumes "update_messages (\<lambda>x. m_id x = i \<and> m_recipient_status x = previous_json m)
      (with_status (next_summary E m rs st) p ts) d = (Inr c, d')"
  shows "c = 1 \<Longrightarrow> d' = status_set E i p rs st ts d \<and> (\<exists>x \<in> set (messages d). m_id x = i)
      \<and> (\<forall>x \<in> set (messages d). m_id x = i \<longrightarrow> m_recipient_status x = previous_json x)"
    and "c \<noteq> 1 \<Longrightarrow> d' = d" and "db_ok d'"
proof -
  let ?p = "\<lambda>x. m_id x = i \<and> m_recipient_status x = previous_json m"
  let ?f = "with_status (next_summary E m rs st) p ts"
  from assms have d': "d' = d\<lparr>messages := map_rows ?p ?f (messages d)\<rparr>" and c: "c = count_rows ?p (messages d)" and ok: "db_ok d'"
    by (auto simp: update_messages_def constrained_Inr)
  have "distinct (map m_id (map_rows ?p ?f (messages d)))" using ok by (simp add: d' db_ok_def rows_ok_def message_rows_ok_def)
  then have dist: "distinct (map m_id (messages d))" by (simp add: map_map_rows)
  show "db_ok d'" by (rule ok)
  show "d' = d" if "c \<noteq> 1"
  proof -
    have "count_rows ?p (messages d) \<le> 1" by (rule count_rows_distinct [OF dist]) simp
    with that c have "count_rows ?p (messages d) = 0" by simp
    then have "map_rows ?p ?f (messages d) = messages d" by (intro map_rows_none) (simp add: count_rows_0)
    then show ?thesis by (simp add: d')
  qed
  assume "c = 1"
  with c have one: "count_rows ?p (messages d) = 1" by simp
  note only = map_rows_only [OF dist one]
  have "map_rows ?p ?f (messages d) = map_rows (\<lambda>x. m_id x = i) (\<lambda>x. with_status (next_summary E x rs st) p ts x) (messages d)"
    unfolding only(1) map_rows_def
    using only(2) previous_json_fixed by (auto intro!: arg_cong [of _ _ "\<lambda>s. with_status s p ts _"] next_summary_cong [symmetric])
  moreover have "\<exists>x \<in> set (messages d). m_id x = i"
    using one by (metis (mono_tags, lifting) count_rows_0 zero_neq_one)
  moreover have "\<forall>x \<in> set (messages d). m_id x = i \<longrightarrow> m_recipient_status x = previous_json x"
    using only(2) previous_json_fixed by metis
  ultimately show "d' = status_set E i p rs st ts d \<and> (\<exists>x \<in> set (messages d). m_id x = i)
      \<and> (\<forall>x \<in> set (messages d). m_id x = i \<longrightarrow> m_recipient_status x = previous_json x)"
    by (simp add: d' status_set_def)
qed

text \<open>
  The database that the call number \<open>n\<close> (from 0) of a request acts on, when the request starts in the world \<open>w\<close> and none of its own
  calls before that one changed anything: each call comes after what the other requests did up to then.
\<close>

primrec before_call :: "env \<Rightarrow> world \<Rightarrow> nat \<Rightarrow> db" where
  "before_call E w 0 = others E (calls w) (db_of w)"
| "before_call E w (Suc n) = others E (calls w + Suc n) (before_call E w n)"

lemma before_call_later:
  "calls w' = calls w + Suc n \<Longrightarrow> db_of w' = before_call E w n \<Longrightarrow> before_call E w' k = before_call E w (Suc n + k)"
  by (induction k) (simp_all add: add.assoc)

lemma status_loop_moment:
  assumes "status_loop n E i p rs st w = (Inr (), w')"
  shows "\<exists>k < 2 * n. calls w' = calls w + Suc k
    \<and> ((\<forall>x \<in> set (messages (before_call E w k)). m_id x \<noteq> i) \<and> db_of w' = before_call E w k
      \<or> (\<exists>x \<in> set (messages (before_call E w k)). m_id x = i) \<and> (\<forall>x \<in> set (messages (before_call E w k)). m_id x = i \<longrightarrow> m_recipient_status x = previous_json x)
        \<and> (\<exists>ts. db_of w' = status_set E i p rs st ts (before_call E w k)))"
  using assms
proof (induction n arbitrary: w)
  case (Suc n)
  from Suc.prems obtain z w1 where sel: "select E (\<lambda>d. find (\<lambda>m. m_id m = i) (messages d)) w = (Inr z, w1)"
    and rest: "(case z of None \<Rightarrow> returnE ()
     | Some m \<Rightarrow> bindE (now E) (\<lambda>ts.
         bindE (external E (update_messages (\<lambda>x. m_id x = i \<and> m_recipient_status x = previous_json m)
            (with_status (next_summary E m rs st) p ts))) (\<lambda>changes.
         if changes = 1 then returnE () else status_loop n E i p rs st))) w1 = (Inr (), w')"
    by (auto elim!: bindE_InrE)
  have z: "z = find (\<lambda>m. m_id m = i) (messages (before_call E w 0))" and w1: "w1 = step_db w (before_call E w 0)"
    using sel by (auto elim!: select_InrE)
  show ?case
  proof (cases z)
    case None
    then have "w' = w1" using rest by simp
    then show ?thesis using None z w1 by (intro exI [of _ 0]) (simp add: find_None_iff)
  next
    case (Some m)
    obtain ts c w2 where ext: "external E (update_messages (\<lambda>x. m_id x = i \<and> m_recipient_status x = previous_json m)
            (with_status (next_summary E m rs st) p ts)) w1 = (Inr c, w2)"
      and go: "(if c = 1 then returnE () else status_loop n E i p rs st) w2 = (Inr (), w')"
      using rest Some by (auto elim!: bindE_InrE)
    obtain d' where d': "update_messages (\<lambda>x. m_id x = i \<and> m_recipient_status x = previous_json m)
            (with_status (next_summary E m rs st) p ts) (before_call E w 1) = (Inr c, d')" "w2 = step_db w1 d'"
      using ext w1 by (auto elim!: external_InrE)
    note wr = status_write [OF d'(1)]
    show ?thesis
    proof (cases "c = 1")
      case True
      then have "w' = w2" using go by simp
      then show ?thesis using wr(1) [OF True] d'(2) w1 by (intro exI [of _ 1]) auto
    next
      case False
      then have "status_loop n E i p rs st w2 = (Inr (), w')" using go by simp
      moreover have "calls w2 = calls w + Suc 1" "db_of w2 = before_call E w 1"
        using wr(2) [OF False] d'(2) w1 by simp_all
      note later = before_call_later [OF this]
      ultimately obtain k where "k < 2 * n" "calls w' = calls w2 + Suc k"
        "(\<forall>x \<in> set (messages (before_call E w (Suc 1 + k))). m_id x \<noteq> i) \<and> db_of w' = before_call E w (Suc 1 + k)
      \<or> (\<exists>x \<in> set (messages (before_call E w (Suc 1 + k))). m_id x = i) \<and> (\<forall>x \<in> set (messages (before_call E w (Suc 1 + k))). m_id x = i \<longrightarrow> m_recipient_status x = previous_json x)
        \<and> (\<exists>ts. db_of w' = status_set E i p rs st ts (before_call E w (Suc 1 + k)))"
        using Suc.IH [of w2] unfolding later by blast
      then show ?thesis using d'(2) w1 by (intro exI [of _ "Suc 1 + k"]) simp
    qed
  qed
qed simp

lemma before_call_quiet: "quiet E \<Longrightarrow> before_call E w n = db_of w"
  by (induction n) (simp_all add: quiet_def)

lemma status_loop_run:
  assumes "quiet E" "status_loop n E i p rs st w = (Inr (), w')"
  shows "(\<forall>x \<in> set (messages (db_of w)). m_id x \<noteq> i) \<and> db_of w' = db_of w
    \<or> (\<forall>x \<in> set (messages (db_of w)). m_id x = i \<longrightarrow> m_recipient_status x = previous_json x)
        \<and> (\<exists>ts. db_of w' = status_set E i p rs st ts (db_of w))"
  using status_loop_moment [OF assms(2)] before_call_quiet [OF assms(1)] by auto

text \<open>
  C29. A delivery status is applied to the summary that is stored at the moment of the write, not to the one the request read: whatever
  other requests do in between, an \<open>applyDeliveryStatus\<close> that returns has changed the database in its last call only, at most
  its sixteenth. With \<open>d\<close> the database that the other requests had made by then, either the message is not in \<open>d\<close> and \<open>d\<close> is left as it is, or \<open>d\<close>
  has changed in exactly that message, whose summary in \<open>d\<close> was updated with the reported status. So no concurrent status is lost.
\<close>

theorem status_update_atomic:
  assumes "applyDeliveryStatus E i p rs st w = (Inr (), w')" "ranked st"
  shows "\<exists>n < 16. calls w' = calls w + Suc n \<and> (case before_call E w n of d \<Rightarrow>
      (\<forall>x \<in> set (messages d). m_id x \<noteq> i) \<and> db_of w' = d
    \<or> (\<exists>x \<in> set (messages d). m_id x = i) \<and> (\<exists>ts. db_of w' = d\<lparr>messages := map_rows (\<lambda>x. m_id x = i)
            (\<lambda>x. with_status (next_summary E x rs st) p ts x) (messages d)\<rparr>))"
  using status_loop_moment [of 8 E i p rs st w w'] assms unfolding applyDeliveryStatus_def status_set_def by auto

definition example_sent :: message where
  "example_sent = message_defaults\<lparr>m_id := js ''message-1'', m_thread := js ''t1'', m_direction := js ''outgoing'',
     m_status := js ''sent'', m_provider := Some (js ''resend''), m_provider_message_id := Some (js ''p1'')\<rparr>"

definition example_sent_db :: db where
  "example_sent_db = empty_db\<lparr>threads := [new_thread (js ''t1'') None (js ''Hi'') (js ''[]'') (js ''2024'') (js ''2024'')],
     messages := [example_sent]\<rparr>"

lemma example_next:
  "next_summary example_env example_sent [js ''a@b.cc''] (js ''delivered'') = [(js ''a@b.cc'', js ''delivered'')]"
proof -
  have "previous_json example_sent = js ''{}''"
    by (simp add: previous_json_def example_sent_def message_defaults_def or_else_def)
  moreover have "read_summary (num_text (plat example_env)) (js ''{}'') = []"
    using read_summary_text [of "[]" "num_text (plat example_env)"] by (simp add: summary_text_def summary_value_def json_text_def js_def)
  ultimately show ?thesis
    by (simp add: next_summary_def updateRecipientSummary_def recipient_keys_def raise_status_def Let_def rank_of_def DELIVERY_RANK_def)
qed

lemma example_apply:
  "applyDeliveryStatus example_env (js ''message-1'') (js ''p1'') [js ''a@b.cc''] (js ''delivered'') (start_world example_sent_db)
     = (Inr (), step_db (step_db (start_world example_sent_db) example_sent_db)
          (example_sent_db\<lparr>messages := [with_status [(js ''a@b.cc'', js ''delivered'')] (js ''p1'') (iso (clock example_env 1)) example_sent]\<rparr>))"
proof -
  have "previous_json example_sent = m_recipient_status example_sent" "m_id example_sent = js ''message-1''"
    by (simp_all add: previous_json_def example_sent_def message_defaults_def or_else_def)
  moreover have "db_ok (example_sent_db\<lparr>messages := [with_status s p t example_sent]\<rparr>)" for s p t
    by (simp add: db_ok_defs example_sent_db_def example_sent_def empty_db_def new_thread_def message_defaults_def with_status_def
        text_option_def coalesce_def split: option.split)
  moreover have "messages example_sent_db = [example_sent]" by (simp add: example_sent_db_def)
  ultimately show ?thesis
    by (simp add: applyDeliveryStatus_def ranked_def DELIVERY_RANK_def status_loop.simps(2) [of 7, simplified] act_simps select_quiet
        external_quiet update_messages_def constrained_def count_rows_def example_next)
qed

theorem status_update_atomic_witness:
  "\<exists>n ts. db_of (snd (applyDeliveryStatus example_env (js ''message-1'') (js ''p1'') [js ''a@b.cc''] (js ''delivered'') (start_world example_sent_db)))
       = (before_call example_env (start_world example_sent_db) n)\<lparr>messages := map_rows (\<lambda>x. m_id x = js ''message-1'')
            (\<lambda>x. with_status (next_summary example_env x [js ''a@b.cc''] (js ''delivered'')) (js ''p1'') ts x)
            (messages (before_call example_env (start_world example_sent_db) n))\<rparr>"
proof -
  have "ranked (js ''delivered'')" by (simp add: ranked_def DELIVERY_RANK_def)
  moreover have "before_call example_env (start_world example_sent_db) n = example_sent_db" for n
    by (induction n) (simp_all add: example_env_def)
  moreover have "\<exists>x \<in> set (messages example_sent_db). m_id x = js ''message-1''" by (simp add: example_sent_db_def example_sent_def)
  ultimately show ?thesis using status_update_atomic [OF example_apply] unfolding example_apply by auto
qed

section \<open>Bounded retries\<close>

lemma external_calls: "calls (snd (external E s w)) = Suc (calls w)"
  by (simp add: external_def Let_def split: fault.split prod.split)

lemma status_loop_calls: "calls (snd (status_loop n E i p rs st w)) \<le> calls w + 2 * n"
proof (induction n arbitrary: w)
  case (Suc n)
  have step: "calls w1 = Suc k" if "external E (s :: 'x statement) (u :: world) = (r, w1)" "calls u = k" for s u r w1 k
    using external_calls [of E s u] that by simp
  show ?case
    unfolding status_loop.simps select_def
    by (auto simp: bindE_def now_def returnE_def split: prod.split sum.split option.split
        dest!: step [OF _ refl] intro: le_trans [OF Suc.IH])
qed (simp add: throwE_def)

text \<open>
  C30. A delivery status costs at most sixteen database calls, in every environment: the retry loop
  always ends, and it gives up with a 503 that makes the provider send the event again.
\<close>

theorem status_retries_bounded:
  "calls (snd (applyDeliveryStatus E i p rs st w)) \<le> calls w + 16"
  using status_loop_calls [of 8 E i p rs st w] by (simp add: applyDeliveryStatus_def returnE_def)

section \<open>The event log\<close>

lemma record_event_run: "fst (record_event E ev m w) \<noteq> Inr False"
proof -
  have rows: "\<not> rows_ok (d\<lparr>events := events d @ [event_record ev m i ts]\<rparr>)" for d i ts
    by (simp add: rows_ok_def event_rows_ok_def event_record_def)
  have "insert_or_ignore (\<lambda>d. d\<lparr>events := events d @ [event_record ev m i ts]\<rparr>) = (\<lambda>d. (Inr 0, d))" for i ts
    by (simp add: fun_eq_iff insert_or_ignore_def rows)
  then show ?thesis
    by (auto simp: record_event_def uuid_def now_def bindE_def returnE_def external_def Let_def split: fault.split)
qed

lemma bindE_fst_neq: "(\<And>x s'. m s = (Inr x, s') \<Longrightarrow> fst (f x s') \<noteq> Inr y) \<Longrightarrow> fst (bindE m f s) \<noteq> Inr y"
  by (auto simp: bindE_def split: prod.split sum.split)

lemma keeps_events:
  assumes "stable E (\<lambda>d. events d = es)"
  shows "keeps (\<lambda>w. events (db_of w) = es) (applyDeliveryEvent E ev)"
proof -
  have loop: "keeps (\<lambda>w. events (db_of w) = es) (status_loop n E i p rs st)" for n i p rs st
    by (induction n) (auto intro!: keeps_flow keeps_external [OF assms] keeps_select [OF assms] preserves_frame keeps_local)
  have rec: "preserves (\<lambda>d. events d = es) (insert_or_ignore (\<lambda>d. d\<lparr>events := events d @ [event_record ev m i ts]\<rparr>))" for m i ts
    by (simp add: preserves_def insert_or_ignore_def Let_def rows_ok_def event_rows_ok_def event_record_def)
  have refresh: "keeps (\<lambda>w. events (db_of w) = es) (refreshThread E i)" for i
    unfolding refreshThread_def by (intro keeps_flow keeps_external [OF assms] preserves_frame keeps_local) simp
  show ?thesis
    unfolding applyDeliveryEvent_def find_event_message_def applyDeliveryStatus_def reconcile_event_def record_event_def
      reconcileProviderMessageId_def Let_def
    by (intro keeps_flow keeps_external [OF assms] keeps_select [OF assms] loop rec refresh preserves_frame(1,4) keeps_local; simp)
qed

text \<open>
  C31. The event log stays empty: the \<open>INSERT OR IGNORE\<close> of \<open>applyDeliveryEvent\<close> leaves out the
  \<open>NOT NULL\<close> column \<open>payload_json\<close>, so the row is skipped every time. No delivery event is ever
  stored, every event that does not fail is answered as a duplicate, and a replayed event is
  therefore never recognised by its identifier.
\<close>

theorem delivery_event_never_recorded:
  "fst (applyDeliveryEvent E ev w) \<noteq> Inr False
    \<and> (stable E (\<lambda>d. events d = events (db_of w)) \<longrightarrow> events (db_of (snd (applyDeliveryEvent E ev w))) = events (db_of w))"
proof
  show "fst (applyDeliveryEvent E ev w) \<noteq> Inr False"
    unfolding applyDeliveryEvent_def
    by (intro bindE_fst_neq) (auto simp: returnE_def intro!: bindE_fst_neq record_event_run)
  show "stable E (\<lambda>d. events d = events (db_of w)) \<longrightarrow> events (db_of (snd (applyDeliveryEvent E ev w))) = events (db_of w)"
    using keeps_snd [OF keeps_events, of E "events (db_of w)" w ev] by blast
qed

definition example_event :: delivery_event where
  "example_event = \<lparr> ev_provider = js ''resend'', ev_id = js ''e1'', ev_message_id = js ''p1'', ev_tagged_id = js ''m1'',
     ev_recipients = [js ''a@x''], ev_raw_type = js ''email.delivered'', ev_status = js ''delivered'', ev_occurred_at = None \<rparr>"

theorem delivery_event_never_recorded_witness:
  "events (db_of (snd (applyDeliveryEvent example_env example_event (start_world example_sent_db)))) = []"
  using delivery_event_never_recorded [of example_env example_event "start_world example_sent_db"]
  by (simp add: example_sent_db_def empty_db_def)

section \<open>Refinement of the summary calculus\<close>

text \<open>The stored text of message \<open>i\<close> stands for the summary \<open>s\<close>.\<close>

definition stored_summary :: "db \<Rightarrow> jstr \<Rightarrow> summary \<Rightarrow> bool" where
  "stored_summary d i s \<longleftrightarrow> distinct (map fst s)
     \<and> (\<exists>m \<in> set (messages d). m_id m = i)
     \<and> (\<forall>m \<in> set (messages d). m_id m = i \<longrightarrow> m_recipient_status m = summary_text s)"

text \<open>A run of \<open>applyDeliveryStatus\<close> for each of a list of reports about one message.\<close>

definition apply_reports :: "env \<Rightarrow> jstr \<Rightarrow> jstr \<Rightarrow> (jstr list \<times> jstr) list \<Rightarrow> unit action" where
  "apply_reports E i p es = forE es (\<lambda>e. applyDeliveryStatus E i p (fst e) (snd e))"

lemma distinct_steps: "distinct (map fst m) \<Longrightarrow> distinct (map fst (foldl raise_step m steps))"
  by (induction steps arbitrary: m) (simp_all add: raise_step_def distinct_raise)

lemma distinct_update: "distinct (map fst m) \<Longrightarrow> distinct (map fst (updateRecipientSummary m rs st))"
  unfolding update_steps by (rule distinct_steps)

lemma stored_length: "m_recipient_status m = previous_json m \<Longrightarrow> length (m_recipient_status m) \<le> 1000000"
proof -
  assume eq: "m_recipient_status m = previous_json m"
  have "length (previous_json m) \<le> 1000000" by (simp add: previous_json_def or_else_def)
  then show ?thesis using eq by simp
qed

lemma report_step:
  assumes "quiet E" "ranked st" "stored_summary (db_of w) i s" "applyDeliveryStatus E i p rs st w = (Inr (), w')"
  shows "stored_summary (db_of w') i (updateRecipientSummary s rs st)
    \<and> (\<forall>m \<in> set (messages (db_of w')). m_id m = i \<longrightarrow> m_status m = aggregateDeliveryStatus (updateRecipientSummary s rs st))
    \<and> filter (\<lambda>m. m_id m \<noteq> i) (messages (db_of w')) = filter (\<lambda>m. m_id m \<noteq> i) (messages (db_of w))"
proof -
  obtain ts where w': "db_of w' = status_set E i p rs st ts (db_of w)"
      and eq: "\<forall>x \<in> set (messages (db_of w)). m_id x = i \<longrightarrow> m_recipient_status x = previous_json x"
    using status_loop_run [OF assms(1), of 8 i p rs st w w'] assms(2-) unfolding applyDeliveryStatus_def stored_summary_def by auto
  have nxt: "next_summary E x rs st = updateRecipientSummary s rs st" if "x \<in> set (messages (db_of w))" "m_id x = i" for x
  proof -
    have t: "m_recipient_status x = summary_text s" "m_recipient_status x = previous_json x"
      using assms(3) eq that by (auto simp: stored_summary_def)
    have "read_summary (num_text (plat E)) (summary_text s) = s"
      using assms(3) stored_length [OF t(2)] t(1) by (intro read_summary_text) (simp_all add: stored_summary_def)
    then show ?thesis using t by (simp add: next_summary_def)
  qed
  have ms: "messages (db_of w') = map_rows (\<lambda>x. m_id x = i) (with_status (updateRecipientSummary s rs st) p ts) (messages (db_of w))"
    unfolding w' status_set_def map_rows_def by (auto simp: nxt)
  have fixd: "\<forall>m \<in> set (messages (db_of w')). m_id m = i \<longrightarrow>
      m_recipient_status m = summary_text (updateRecipientSummary s rs st)
      \<and> m_status m = aggregateDeliveryStatus (updateRecipientSummary s rs st)"
  proof (intro ballI impI)
    fix m
    assume "m \<in> set (messages (db_of w'))" and i: "m_id m = i"
    then obtain x where m: "m = (if m_id x = i then with_status (updateRecipientSummary s rs st) p ts x else x)"
      unfolding ms in_map_rows by blast
    then have "m_id x = i" using i by (cases "m_id x = i") simp_all
    with m show "m_recipient_status m = summary_text (updateRecipientSummary s rs st)
        \<and> m_status m = aggregateDeliveryStatus (updateRecipientSummary s rs st)" by simp
  qed
  moreover have "\<exists>m \<in> set (messages (db_of w')). m_id m = i"
  proof -
    have "map m_id (messages (db_of w')) = map m_id (messages (db_of w))" unfolding ms by (rule map_map_rows) simp
    moreover have "i \<in> set (map m_id (messages (db_of w)))" using assms(3) by (auto simp: stored_summary_def)
    ultimately have "i \<in> set (map m_id (messages (db_of w')))" by simp
    then show ?thesis by auto
  qed
  moreover have "filter (\<lambda>m. m_id m \<noteq> i) (messages (db_of w')) = filter (\<lambda>m. m_id m \<noteq> i) (messages (db_of w))"
    unfolding ms by (subst filter_map_rows) (simp_all add: map_rows_none)
  ultimately show ?thesis using assms(3) distinct_update unfolding stored_summary_def by blast
qed

text \<open>
  C24. The database implements the summary calculus: reading the reports of a message one by one
  through \<open>applyDeliveryStatus\<close> (a read, a computation and a compare-and-swap each) leaves exactly the
  summary text and the aggregate status that \<open>updateRecipientSummary\<close> computes on the abstract summary,
  and no other message changes. With the calculus, the status that is stored in the end does not
  depend on the order in which the provider sent its reports.
\<close>

theorem delivery_reports_refine:
  assumes "quiet E" "\<forall>e \<in> set es. ranked (snd e)" "stored_summary (db_of w) i s" "apply_reports E i p es w = (Inr (), w')"
  shows "stored_summary (db_of w') i (apply_events s es)
    \<and> (es \<noteq> [] \<longrightarrow> (\<forall>m \<in> set (messages (db_of w')). m_id m = i \<longrightarrow> m_status m = aggregateDeliveryStatus (apply_events s es)))
    \<and> filter (\<lambda>m. m_id m \<noteq> i) (messages (db_of w')) = filter (\<lambda>m. m_id m \<noteq> i) (messages (db_of w))"
  using assms
proof (induction es arbitrary: w s)
  case (Cons e es)
  obtain w1 where one: "applyDeliveryStatus E i p (fst e) (snd e) w = (Inr (), w1)" and rest: "apply_reports E i p es w1 = (Inr (), w')"
    using Cons.prems(4) unfolding apply_reports_def by (auto elim: bindE_InrE)
  have step: "stored_summary (db_of w1) i (updateRecipientSummary s (fst e) (snd e))
    \<and> (\<forall>m \<in> set (messages (db_of w1)). m_id m = i \<longrightarrow> m_status m = aggregateDeliveryStatus (updateRecipientSummary s (fst e) (snd e)))
    \<and> filter (\<lambda>m. m_id m \<noteq> i) (messages (db_of w1)) = filter (\<lambda>m. m_id m \<noteq> i) (messages (db_of w))"
    using Cons.prems(2) by (intro report_step [OF Cons.prems(1) _ Cons.prems(3) one]) simp
  have cons: "apply_events s (e # es) = apply_events (updateRecipientSummary s (fst e) (snd e)) es"
    by (simp add: apply_events_def case_prod_unfold)
  show ?case
  proof (cases "es = []")
    case True
    then have "w' = w1" using rest by (simp add: apply_reports_def)
    then show ?thesis using step True cons by (simp add: apply_events_def)
  next
    case False
    then show ?thesis
      using Cons.IH [OF Cons.prems(1) _ conjunct1 [OF step] rest] Cons.prems(2) step cons by simp
  qed
qed (simp add: apply_reports_def apply_events_def)

theorem delivery_reports_refine_witness:
  "\<exists>w'. apply_reports example_env (js ''message-1'') (js ''p1'') [([js ''a@b.cc''], js ''delivered'')] (start_world example_sent_db) = (Inr (), w')
    \<and> stored_summary (db_of w') (js ''message-1'') [(js ''a@b.cc'', js ''delivered'')]"
proof -
  let ?es = "[([js ''a@b.cc''], js ''delivered'')]"
  obtain w' where run: "apply_reports example_env (js ''message-1'') (js ''p1'') ?es (start_world example_sent_db) = (Inr (), w')"
    using example_apply by (simp add: apply_reports_def act_simps)
  have "stored_summary example_sent_db (js ''message-1'') []"
    by (simp add: stored_summary_def example_sent_db_def example_sent_def message_defaults_def summary_text_def summary_value_def
        json_text_def js_def)
  then have "stored_summary (db_of w') (js ''message-1'') (apply_events [] ?es)"
    using delivery_reports_refine [OF _ _ _ run, of "[]"] by (simp add: ranked_def DELIVERY_RANK_def)
  then show ?thesis
    using run by (simp add: apply_events_def updateRecipientSummary_def recipient_keys_def raise_status_def Let_def rank_of_def DELIVERY_RANK_def)
qed

section \<open>Authentication of webhooks\<close>

text \<open>What it takes for a request to be a webhook of Resend: a fresh timestamp and a signature of the body.\<close>

definition resend_authentic :: "env \<Rightarrow> http_request \<Rightarrow> int \<Rightarrow> bool" where
  "resend_authentic E r ms \<longleftrightarrow>
     (\<exists>raw sentAt key entry. readTextLimited r 1000000 = Inr raw
        \<and> parse_int (header_text r ''svix-timestamp'') = Some sentAt \<and> \<bar>ms div 1000 - sentAt\<bar> \<le> 300
        \<and> base64UrlToBytes (strip_prefix (js ''whsec_'') (var_text E ''RESEND_WEBHOOK_SECRET'')) = Inr key
        \<and> entry \<in> set (split_runs js_space (header_text r ''svix-signature''))
        \<and> signature_matches (bytesToBase64 (hmacSha256 E key
             (header_text r ''svix-id'' @ js ''.'' @ header_text r ''svix-timestamp'' @ js ''.'' @ raw))) entry)"

lemma verify_authentic:
  assumes "readTextLimited r 1000000 = Inr raw" "verifySvixSignature E raw r (var_text E ''RESEND_WEBHOOK_SECRET'') (ms div 1000) = Inr True"
  shows "resend_authentic E r ms"
  using assms unfolding resend_authentic_def verifySvixSignature_def Let_def
  by (auto split: option.splits if_splits sum.splits simp: list_ex_iff)

text \<open>
  C32. A forged or stale webhook changes nothing: unless the request carries a timestamp within five
  minutes and a signature under the configured secret of its identifier, timestamp and body, the
  handler answers with an error and leaves the database, the objects and the network untouched. The
  same holds for a Brevo webhook without the configured bearer token.
\<close>

theorem webhooks_reject_unauthenticated:
  "(\<not> resend_authentic E r (clock E (calls w)) \<longrightarrow> (\<exists>e. handleResendWebhook E r w = (Inl e, w)))
    \<and> (\<not> timingSafeEqual (bearer_token r) (var_text E ''BREVO_WEBHOOK_TOKEN'') \<longrightarrow> (\<exists>e. handleBrevoWebhook E r w = (Inl e, w)))"
proof (intro conjI impI)
  assume no: "\<not> resend_authentic E r (clock E (calls w))"
  show "\<exists>e. handleResendWebhook E r w = (Inl e, w)"
  proof (cases "readTextLimited r 1000000")
    case (Inr raw)
    then show ?thesis
      using no verify_authentic [OF Inr] unfolding handleResendWebhook_def verifyResendWebhook_def
      by (cases "verifySvixSignature E raw r (var_text E ''RESEND_WEBHOOK_SECRET'') (clock E (calls w) div 1000)")
        (auto simp: act_simps throw_if_def)
  qed (auto simp: handleResendWebhook_def act_simps throw_if_def)
next
  assume no: "\<not> timingSafeEqual (bearer_token r) (var_text E ''BREVO_WEBHOOK_TOKEN'')"
  show "\<exists>e. handleBrevoWebhook E r w = (Inl e, w)"
    using no unfolding handleBrevoWebhook_def normalizeBrevoEvent_def
    by (auto simp: act_simps throw_if_def split: sum.split)
qed

definition example_secrets :: env where
  "example_secrets = example_env\<lparr>var := (\<lambda>name. JStr (js ''secret''))\<rparr>"

theorem webhooks_reject_unauthenticated_witness:
  "(\<exists>e. handleResendWebhook example_secrets example_request (start_world empty_db) = (Inl e, start_world empty_db))
    \<and> (\<exists>e. handleBrevoWebhook example_secrets example_request (start_world empty_db) = (Inl e, start_world empty_db))"
proof -
  have none: "header_text example_request name = []" for name
    by (simp add: header_text_def request_header_def header_of_def example_request_def)
  have "parse_int [] = None" by code_simp
  then have "\<not> resend_authentic example_secrets example_request ms" for ms
    by (simp add: resend_authentic_def none)
  moreover have "bearer_token example_request = []" by (simp add: bearer_token_def none)
  moreover have "var_text example_secrets ''BREVO_WEBHOOK_TOKEN'' = js ''secret''"
    by (simp add: var_text_def example_secrets_def)
  moreover have "\<not> timingSafeEqual [] (js ''secret'')" by code_simp
  ultimately show ?thesis
    using webhooks_reject_unauthenticated [of example_secrets example_request "start_world empty_db"] by simp
qed

end
