(* ===== verification/Listing.thy ===== *)
theory Listing
  imports Sanitize Events "HOL-Library.Product_Lexorder"
begin

text \<open>
  Listing conversations page by page and reading one of them (\<open>encodeCursor\<close>, \<open>decodeCursor\<close>,
  \<open>listThreads\<close>, \<open>getThread\<close> of \<open>src/src/mail/threads.ts\<close>). A page is fetched by keyset: the rows
  below the cursor in the order (\<open>last_message_at\<close>, \<open>thread_id\<close>) descending. The locale \<open>keyset\<close>
  states what such a fetch promises and proves that following the cursors visits every matching
  row once, in order.

  SQLite's \<open>lower\<close> folds ASCII letters only, as the model does; rows with equal sort keys keep their
  insertion order.
\<close>

section \<open>Cursors\<close>

definition encodeCursor :: "jstr \<Rightarrow> jstr \<Rightarrow> jstr" where
  "encodeCursor timestamp threadId = base64Url (utf8 (json_text (obj [(''t'', JStr timestamp), (''i'', JStr threadId)])))"

definition timestamp_prefix :: regex where
  "timestamp_prefix = Cat date_regex (chr 84)"

definition thread_id_text :: "jstr \<Rightarrow> bool" where
  "thread_id_text i \<longleftrightarrow> 1 \<le> length i \<and> length i \<le> 200 \<and> list_all tag_unit i"

definition decodeCursor :: "env \<Rightarrow> jstr \<Rightarrow> (jstr \<times> jstr) option" where
  "decodeCursor E v =
     (case base64UrlToBytes v of
        Inl _ \<Rightarrow> None
      | Inr bs \<Rightarrow>
          (case json_parse (num_text (plat E)) (text_decode bs) of
             None \<Rightarrow> None
           | Some parsed \<Rightarrow>
               (case (js_get parsed (js ''t''), js_get parsed (js ''i'')) of
                  (JStr t, JStr i) \<Rightarrow> if re_prefix timestamp_prefix t \<and> thread_id_text i then Some (t, i) else None
                | _ \<Rightarrow> None)))"

section \<open>Listing\<close>

record thread_query =
  tq_folder :: jstr
  tq_mailbox :: jstr
  tq_text :: jstr
  tq_unread :: bool
  tq_replied :: bool
  tq_attachment :: bool
  tq_from :: "jstr option"
  tq_to :: "jstr option"

definition thread_folders :: "jstr list" where
  "thread_folders = map js [''inbox'', ''sent'', ''archive'', ''spam'', ''trash'', ''all'']"

definition read_query :: "env \<Rightarrow> http_request \<Rightarrow> thread_query" where
  "read_query E r =
     (let folder = js_string (js_or (query_value r ''folder'') (JStr [])) in
      \<lparr> tq_folder = (if folder \<in> set thread_folders then folder else js ''inbox''),
        tq_mailbox = asText (query_value r ''mailbox'') 100,
        tq_text = take 200 (to_lower (uni (plat E)) (trim (asText (query_value r ''q'') 200))),
        tq_unread = (query_value r ''unread'' = JStr (js ''1'')),
        tq_replied = (query_value r ''replied'' = JStr (js ''1'')),
        tq_attachment = (query_value r ''attachment'' = JStr (js ''1'')),
        tq_from = dateFilter (asText (query_value r ''date_from'') 20) False,
        tq_to = dateFilter (asText (query_value r ''date_to'') 20) True \<rparr>)"

definition in_folder :: "jstr \<Rightarrow> thread \<Rightarrow> bool" where
  "in_folder folder t =
     (if folder = js ''trash'' then th_status t = js ''trash''
      else if folder = js ''spam'' then th_status t = js ''spam''
      else if folder = js ''archive'' then th_status t = js ''archived''
      else if folder = js ''inbox'' then th_status t = js ''open'' \<and> th_has_incoming t
      else if folder = js ''sent'' then (th_status t = js ''open'' \<or> th_status t = js ''archived'') \<and> th_has_outgoing t
      else th_status t = js ''open'' \<or> th_status t = js ''archived'')"

definition text_match :: "jstr \<Rightarrow> thread \<Rightarrow> bool" where
  "text_match q t \<longleftrightarrow>
     contains_text q (nocase (th_subject t)) \<or> contains_text q (nocase (coalesce (th_latest_preview t) []))
     \<or> contains_text q (nocase (coalesce (th_latest_from t) [])) \<or> contains_text q (nocase (coalesce (th_latest_recipient t) []))"

definition query_match :: "thread_query \<Rightarrow> thread \<Rightarrow> bool" where
  "query_match q t \<longleftrightarrow>
     in_folder (tq_folder q) t
     \<and> (tq_mailbox q = [] \<or> th_mailbox t = Some (tq_mailbox q))
     \<and> (tq_unread q \<longrightarrow> 0 < th_unread t)
     \<and> (tq_replied q \<longrightarrow> th_is_replied t)
     \<and> (tq_attachment q \<longrightarrow> th_has_attachment t)
     \<and> (case tq_from q of None \<Rightarrow> True | Some b \<Rightarrow> b \<le> th_last_message_at t)
     \<and> (case tq_to q of None \<Rightarrow> True | Some b \<Rightarrow> th_last_message_at t \<le> b)
     \<and> (tq_text q = [] \<or> text_match (tq_text q) t)"

definition before_cursor :: "(jstr \<times> jstr) option \<Rightarrow> thread \<Rightarrow> bool" where
  "before_cursor cursor t =
     (case cursor of None \<Rightarrow> True
      | Some (ts, i) \<Rightarrow> th_last_message_at t < ts \<or> th_last_message_at t = ts \<and> th_id t < i)"

text \<open>\<open>ORDER BY key DESC\<close>.\<close>

definition sort_desc :: "('a \<Rightarrow> 'k :: linorder) \<Rightarrow> 'a list \<Rightarrow> 'a list" where
  "sort_desc key xs = rev (sort_key key (rev xs))"

definition thread_key :: "thread \<Rightarrow> jstr \<times> jstr" where
  "thread_key t = (th_last_message_at t, th_id t)"

definition matching_threads :: "db \<Rightarrow> thread_query \<Rightarrow> (jstr \<times> jstr) option \<Rightarrow> nat \<Rightarrow> thread list" where
  "matching_threads d q cursor n =
     take n (sort_desc thread_key (filter (\<lambda>t. query_match q t \<and> before_cursor cursor t) (threads d)))"

definition mailbox_column :: "db \<Rightarrow> (mailbox \<Rightarrow> jstr) \<Rightarrow> jstr option \<Rightarrow> jsval" where
  "mailbox_column d f i = opt_val (map_option f (find (\<lambda>m. Some (mb_id m) = i) (mailboxes d)))"

definition nat_value :: "nat \<Rightarrow> jsval" where
  "nat_value n = JNum (nat_text n)"

definition thread_item :: "db \<Rightarrow> thread \<Rightarrow> jsval" where
  "thread_item d t = obj
     [(''thread_id'', JStr (th_id t)), (''mailbox_id'', opt_val (th_mailbox t)), (''subject'', JStr (th_subject t)),
      (''participants_json'', JStr (th_participants t)), (''last_message_at'', JStr (th_last_message_at t)),
      (''unread_count'', nat_value (th_unread t)), (''is_replied'', flag_value (th_is_replied t)),
      (''status'', JStr (th_status t)), (''message_id'', opt_val (th_latest_id t)),
      (''direction'', opt_val (th_latest_direction t)), (''envelope_from'', opt_val (th_latest_from t)),
      (''envelope_to'', opt_val (th_latest_recipient t)), (''from_json'', opt_val (th_latest_sender t)),
      (''text_body'', opt_val (th_latest_preview t)), (''status_summary'', opt_val (th_latest_status t)),
      (''has_attachment'', flag_value (th_has_attachment t)),
      (''mailbox_address'', mailbox_column d mb_address (th_mailbox t)),
      (''mailbox_name'', mailbox_column d mb_display_name (th_mailbox t))]"

definition next_cursor :: "thread list \<Rightarrow> nat \<Rightarrow> jstr option" where
  "next_cursor rows limit =
     (let page = take limit rows in
      if limit < length rows \<and> page \<noteq> [] then Some (encodeCursor (th_last_message_at (last page)) (th_id (last page))) else None)"

definition page_limit :: "http_request \<Rightarrow> nat" where
  "page_limit r = nat (asInt (query_value r ''limit'') 40 1 100)"

definition listThreads :: "env \<Rightarrow> http_request \<Rightarrow> response action" where
  "listThreads E r =
     (let limit = page_limit r;
          cursor = decodeCursor E (asText (query_value r ''cursor'') 400) in
      bindE (select E (\<lambda>d. map (\<lambda>t. (t, thread_item d t)) (matching_threads d (read_query E r) cursor (limit + 1)))) (\<lambda>rows.
      returnE (json (obj [(''threads'', JArr (map snd (take limit rows))), (''has_more'', JBool (limit < length rows)),
        (''next_cursor'', opt_val (next_cursor (map fst rows) limit))]) 200 [])))"

section \<open>Reading a conversation\<close>

definition thread_row :: "db \<Rightarrow> thread \<Rightarrow> jsval" where
  "thread_row d t = obj
     [(''thread_id'', JStr (th_id t)), (''mailbox_id'', opt_val (th_mailbox t)), (''subject'', JStr (th_subject t)),
      (''participants_json'', JStr (th_participants t)), (''last_message_at'', JStr (th_last_message_at t)),
      (''unread_count'', nat_value (th_unread t)), (''is_replied'', flag_value (th_is_replied t)),
      (''status'', JStr (th_status t)), (''created_at'', JStr (th_created_at t)), (''updated_at'', JStr (th_updated_at t)),
      (''latest_message_id'', opt_val (th_latest_id t)), (''latest_direction'', opt_val (th_latest_direction t)),
      (''latest_sender_json'', opt_val (th_latest_sender t)), (''latest_envelope_from'', opt_val (th_latest_from t)),
      (''latest_recipient'', opt_val (th_latest_recipient t)), (''latest_preview'', opt_val (th_latest_preview t)),
      (''latest_message_status'', opt_val (th_latest_status t)), (''has_incoming'', flag_value (th_has_incoming t)),
      (''has_outgoing'', flag_value (th_has_outgoing t)), (''has_attachment'', flag_value (th_has_attachment t)),
      (''mailbox_address'', mailbox_column d mb_address (th_mailbox t)),
      (''mailbox_name'', mailbox_column d mb_display_name (th_mailbox t))]"

definition safe_html :: "message \<Rightarrow> jsval" where
  "safe_html m = (case m_html m of None \<Rightarrow> JNull | Some h \<Rightarrow> if h = [] then JNull else JStr (sanitizeHtml h))"

definition message_item :: "message \<Rightarrow> jsval" where
  "message_item m = obj
     [(''message_id'', JStr (m_id m)), (''thread_id'', JStr (m_thread m)), (''mailbox_id'', opt_val (m_mailbox m)),
      (''direction'', JStr (m_direction m)), (''envelope_from'', opt_val (m_from m)), (''envelope_to'', JStr (m_to m)),
      (''from_json'', JStr (m_from_json m)), (''reply_to_json'', JStr (m_reply_to_json m)), (''to_json'', JStr (m_to_json m)),
      (''cc_json'', JStr (m_cc_json m)), (''bcc_json'', JStr (m_bcc_json m)), (''subject'', JStr (m_subject m)),
      (''text_body'', opt_val (m_text m)), (''html_body'', safe_html m), (''body_truncated'', flag_value (m_body_truncated m)),
      (''status'', JStr (m_status m)), (''is_read'', flag_value (m_is_read m)), (''is_replied'', flag_value (m_is_replied m)),
      (''received_at'', opt_val (m_received_at m)), (''sent_at'', opt_val (m_sent_at m)),
      (''archive_status'', JStr (m_archive_status m)), (''last_error'', opt_val (m_last_error m)),
      (''recipient_status_json'', JStr (m_recipient_status m)), (''created_at'', JStr (m_created_at m))]"

definition message_page :: "db \<Rightarrow> jstr \<Rightarrow> nat \<Rightarrow> nat \<Rightarrow> message list" where
  "message_page d i limit offset = take limit (drop offset (sort_desc latest_key (thread_messages d i)))"

definition attachment_item_value :: "attachment \<Rightarrow> jsval" where
  "attachment_item_value a = obj
     [(''attachment_id'', JStr (at_id a)), (''message_id'', JStr (at_message a)), (''filename'', JStr (at_filename a)),
      (''content_type'', JStr (at_content_type a)), (''content_id'', opt_val (at_content_id a)),
      (''disposition'', opt_val (at_disposition a)), (''size'', nat_value (at_size a)), (''is_inline'', flag_value (at_inline a))]"

definition event_item :: "event_row \<Rightarrow> jsval" where
  "event_item e = obj
     [(''event_id'', JStr (e_id e)), (''message_id'', opt_val (e_message e)), (''event_type'', JStr (e_type e)),
      (''status'', JStr (e_status e)), (''recipient_json'', JStr (e_recipients e)),
      (''occurred_at'', opt_val (e_occurred_at e)), (''received_at'', JStr (e_received_at e))]"

definition thread_events :: "db \<Rightarrow> jstr \<Rightarrow> event_row list" where
  "thread_events d i =
     take 200 (sort_desc e_received_at (filter (\<lambda>e. list_ex (\<lambda>m. Some (m_id m) = e_message e) (thread_messages d i)) (events d)))"

definition getThread :: "env \<Rightarrow> http_request \<Rightarrow> jstr \<Rightarrow> response action" where
  "getThread E r i =
     (let limit = nat (asInt (query_value r ''limit'') (int MAX_THREAD_PAGE) 1 (int MAX_THREAD_PAGE));
          offset = nat (asInt (query_value r ''offset'') 0 0 100000) in
      bindE (select E (\<lambda>d. map_option (thread_row d) (find (\<lambda>t. th_id t = i) (threads d)))) (\<lambda>row.
      bindE (case row of None \<Rightarrow> throwE conversation_missing | Some v \<Rightarrow> returnE v) (\<lambda>thread.
      bindE (select E (\<lambda>d. length (thread_messages d i))) (\<lambda>count.
      bindE (select E (\<lambda>d. sort_key latest_key (message_page d i limit offset))) (\<lambda>rows.
      bindE (select E (\<lambda>d. sort_key at_created_at
        (filter (\<lambda>a. list_ex (\<lambda>m. m_id m = at_message a) (message_page d i limit offset)) (attachments d)))) (\<lambda>files.
      bindE (select E (\<lambda>d. thread_events d i)) (\<lambda>evs.
      returnE (json (obj
        [(''thread'', thread), (''messages'', JArr (map message_item rows)),
         (''attachments'', JArr (map attachment_item_value files)), (''events'', JArr (map event_item evs)),
         (''total_messages'', nat_value count), (''has_more_messages'', JBool (offset + limit < count)),
         (''next_message_offset'', if offset + limit < count then nat_value (offset + limit) else JNull)]) 200 []))))))))"

lemma keeps_listing [keeps_intros]:
  assumes "stable E db_ok"
  shows "keeps (\<lambda>w. db_ok (db_of w)) (listThreads E r)" "keeps (\<lambda>w. db_ok (db_of w)) (getThread E r i)"
  unfolding listThreads_def getThread_def Let_def by (intro keeps_intros assms)+

section \<open>Keyset pages\<close>

text \<open>
  A fetch that returns the first rows below the cursor, of rows in strictly descending key order,
  and a client that asks for one row more than a page to learn whether there is a next one.
\<close>

locale keyset =
  fixes valid :: "'s \<Rightarrow> bool" and key :: "'a \<Rightarrow> 'k :: linorder" and rows :: "'s \<Rightarrow> 'a list"
    and fetch :: "'s \<Rightarrow> 'k option \<Rightarrow> nat \<Rightarrow> 'a list"
  assumes rows_desc: "valid s \<Longrightarrow> sorted_wrt (\<lambda>a b. key b < key a) (rows s)"
    and fetch_rows: "valid s \<Longrightarrow> fetch s c n = take n (case c of None \<Rightarrow> rows s | Some k \<Rightarrow> filter (\<lambda>a. key a < k) (rows s))"
begin

definition remaining :: "'s \<Rightarrow> 'k option \<Rightarrow> 'a list" where
  "remaining s c = (case c of None \<Rightarrow> rows s | Some k \<Rightarrow> filter (\<lambda>a. key a < k) (rows s))"

primrec walk :: "nat \<Rightarrow> 's \<Rightarrow> nat \<Rightarrow> 'k option \<Rightarrow> 'a list" where
  "walk 0 s n c = []"
| "walk (Suc f) s n c =
     (let got = fetch s c (n + 1); page = take n got in
      page @ (if n < length got \<and> page \<noteq> [] then walk f s n (Some (key (last page))) else []))"

lemma below_member:
  "sorted_wrt (\<lambda>a b. key b < key a) (xs @ y # ys) \<Longrightarrow> filter (\<lambda>a. key a < key y) (xs @ y # ys) = ys"
proof -
  assume s: "sorted_wrt (\<lambda>a b. key b < key a) (xs @ y # ys)"
  have "filter (\<lambda>a. key a < key y) xs = []" using s by (fastforce simp: filter_empty_conv sorted_wrt_append)
  moreover have "filter (\<lambda>a. key a < key y) ys = ys" using s by (auto simp: sorted_wrt_append intro: filter_True)
  ultimately show ?thesis by simp
qed

lemma remaining_suffix:
  assumes "valid s"
  shows "\<exists>pre. rows s = pre @ remaining s c"
proof (cases c)
  case (Some k)
  have "\<exists>pre. xs = pre @ filter (\<lambda>a. key a < k) xs" if "sorted_wrt (\<lambda>a b. key b < key a) xs" for xs
    using that
  proof (induction xs)
    case (Cons x xs)
    show ?case
    proof (cases "key x < k")
      case True
      then have "filter (\<lambda>a. key a < k) xs = xs" using Cons.prems by (auto intro!: filter_True)
      then show ?thesis using True by simp
    next
      case False
      obtain pre where "xs = pre @ filter (\<lambda>a. key a < k) xs" using Cons by auto
      then have "x # xs = (x # pre) @ filter (\<lambda>a. key a < k) (x # xs)" using False by simp
      then show ?thesis by blast
    qed
  qed simp
  then show ?thesis using Some rows_desc [OF assms] by (simp add: remaining_def)
qed (simp add: remaining_def)

lemma remaining_next:
  assumes "valid s" "0 < n" "n < length (remaining s c)"
  shows "remaining s (Some (key (last (take n (remaining s c))))) = drop n (remaining s c)"
proof -
  obtain pre where pre: "rows s = pre @ remaining s c" using remaining_suffix [OF assms(1)] by blast
  let ?r = "remaining s c"
  obtain m where n: "n = Suc m" using assms(2) by (cases n) auto
  have y: "last (take n ?r) = ?r ! m" using assms(3) n by (simp add: take_Suc_conv_app_nth)
  have split: "?r = take m ?r @ ?r ! m # drop n ?r" using id_take_nth_drop [of m ?r] assms(3) n by simp
  have "rows s = (pre @ take m ?r) @ ?r ! m # drop n ?r" using pre split by (metis append.assoc)
  then show ?thesis using below_member [of "pre @ take m ?r" "?r ! m" "drop n ?r"] rows_desc [OF assms(1)] y
    by (simp add: remaining_def [of s "Some _"])
qed

text \<open>Following the cursors visits every remaining row once, in order, and then stops.\<close>

lemma walk_remaining:
  assumes "valid s" "0 < n" "length (remaining s c) \<le> f * n"
  shows "walk f s n c = remaining s c"
  using assms(3)
proof (induction f arbitrary: c)
  case (Suc f)
  let ?r = "remaining s c"
  have got: "fetch s c (n + 1) = take (n + 1) ?r" using fetch_rows [OF assms(1)] by (simp add: remaining_def)
  show ?case
  proof (cases "n < length ?r")
    case True
    then have "take n ?r \<noteq> []" using assms(2) by auto
    moreover have "walk f s n (Some (key (last (take n ?r)))) = drop n ?r"
      using Suc.IH [of "Some (key (last (take n ?r)))"] remaining_next [OF assms(1,2) True] Suc.prems by simp
    ultimately show ?thesis using True got by (simp add: Let_def)
  next
    case False
    then show ?thesis using got by (simp add: Let_def)
  qed
qed simp

lemma walk_all: "valid s \<Longrightarrow> 0 < n \<Longrightarrow> length (rows s) \<le> f * n \<Longrightarrow> walk f s n None = rows s"
  using walk_remaining [of s n None f] by (simp add: remaining_def)

end

section \<open>The listing is a keyset fetch\<close>

text \<open>The rows of a folder, in the order the user sees them.\<close>

definition listing_rows :: "db \<times> thread_query \<Rightarrow> thread list" where
  "listing_rows s = sort_desc thread_key (filter (query_match (snd s)) (threads (fst s)))"

definition listing_fetch :: "db \<times> thread_query \<Rightarrow> (jstr \<times> jstr) option \<Rightarrow> nat \<Rightarrow> thread list" where
  "listing_fetch s c n = matching_threads (fst s) (snd s) c n"

definition listing_valid :: "db \<times> thread_query \<Rightarrow> bool" where
  "listing_valid s \<longleftrightarrow> distinct (map th_id (threads (fst s)))"

lemma before_cursor_key: "before_cursor (Some k) t \<longleftrightarrow> thread_key t < k"
  by (cases k) (auto simp: before_cursor_def thread_key_def less_prod_def less_le)

lemma set_sort_desc [simp]: "set (sort_desc key xs) = set xs"
  by (simp add: sort_desc_def)

lemma filter_sort_desc: "filter p (sort_desc key xs) = sort_desc key (filter p xs)"
  by (simp add: sort_desc_def rev_filter [symmetric] filter_sort)

lemma sort_desc_strict:
  assumes "distinct (map key xs)"
  shows "sorted_wrt (\<lambda>a b. key b < key a) (sort_desc key xs)"
proof -
  have "distinct (map key (sort_key key (rev xs)))"
    using assms by (metis distinct_map distinct_rev distinct_sort rev_map set_rev set_sort)
  moreover have "sorted (map key (sort_key key (rev xs)))" by (rule sorted_sort_key)
  ultimately have "sorted_wrt (<) (map key (sort_key key (rev xs)))" by (simp add: strict_sorted_iff)
  then show ?thesis by (simp add: sort_desc_def sorted_wrt_rev sorted_wrt_map)
qed

interpretation thread_pages: keyset listing_valid thread_key listing_rows listing_fetch
proof
  fix s :: "db \<times> thread_query" and c n
  assume v: "listing_valid s"
  have "inj_on thread_key (set (threads (fst s)))"
    using v by (auto simp: listing_valid_def distinct_map inj_on_def thread_key_def)
  moreover have "distinct (threads (fst s))" using v by (simp add: listing_valid_def distinct_map)
  ultimately have "distinct (map thread_key (filter (query_match (snd s)) (threads (fst s))))"
    by (auto simp: distinct_map intro: inj_on_subset)
  then show "sorted_wrt (\<lambda>a b. thread_key b < thread_key a) (listing_rows s)"
    unfolding listing_rows_def by (rule sort_desc_strict)
  show "listing_fetch s c n = take n (case c of None \<Rightarrow> listing_rows s | Some k \<Rightarrow> filter (\<lambda>a. thread_key a < k) (listing_rows s))"
    by (cases c) (simp_all add: listing_fetch_def matching_threads_def listing_rows_def filter_sort_desc before_cursor_def [of None]
        before_cursor_key conj_commute)
qed

section \<open>Cursors survive the trip through the client\<close>

definition stamp_unit :: "code_unit \<Rightarrow> bool" where
  "stamp_unit c \<longleftrightarrow> is_digit c \<or> c = 45 \<or> c = 58 \<or> c = 46 \<or> c = 84 \<or> c = 90"

definition stamped :: "jstr \<Rightarrow> bool" where
  "stamped t \<longleftrightarrow> length t = 24 \<and> list_all stamp_unit t \<and> re_prefix timestamp_prefix t"

lemma decode_ascii: "ascii_text s \<Longrightarrow> decode_bytes (map ucast s) = s"
proof (induction s)
  case (Cons c s)
  then have "unat c < 128" by (simp add: ascii_text_def is_ascii_def word_less_nat_alt)
  then have u: "unat (ucast c :: byte) = unat c" by (simp add: unsigned_ucast_eq take_bit_nat_eq_self)
  then have "(ucast c :: byte) < 0x80" using \<open>unat c < 128\<close> by (simp add: word_less_nat_alt)
  then have "next_char (ucast c) (map ucast s) = (Some [c], map ucast s)"
    using u by (simp add: next_char_def)
  then show ?case using Cons by (simp add: ascii_text_def)
qed simp

lemma text_decode_utf8: "ascii_text s \<Longrightarrow> text_decode (utf8 s) = s"
proof -
  assume a: "ascii_text s"
  have "take 3 (utf8 s) \<noteq> [0xEF, 0xBB, 0xBF]"
  proof
    assume "take 3 (utf8 s) = [0xEF, 0xBB, 0xBF]"
    then have "0xEF \<in> set (utf8 s)" by (metis in_set_takeD list.set_intros(1))
    then obtain c where c: "c \<in> set s" "(0xEF :: byte) = ucast c" using a by (auto simp: utf8_ascii)
    then have "unat c < 128" using a by (auto simp: ascii_text_def is_ascii_def list_all_iff word_less_nat_alt)
    then have "unat (ucast c :: byte) < 128" by (simp add: unsigned_ucast_eq take_bit_nat_eq_self)
    moreover have "unat (0xEF :: byte) = 239" by simp
    ultimately show False using c(2) by simp
  qed
  then show ?thesis using a by (simp add: text_decode_def utf8_ascii decode_ascii)
qed

definition plain_unit :: "code_unit \<Rightarrow> bool" where
  "plain_unit c \<longleftrightarrow> 32 \<le> c \<and> c < 128 \<and> c \<noteq> 34 \<and> c \<noteq> 92"

lemma plain_json_unit: "plain_unit c \<Longrightarrow> json_unit c = [c] \<and> \<not> high_surrogate c \<and> is_ascii c"
  by (auto simp: plain_unit_def json_unit_def high_surrogate_def low_surrogate_def is_ascii_def word_le_nat_alt word_less_nat_alt)

lemma json_chars_plain: "list_all plain_unit s \<Longrightarrow> json_chars s = s"
  by (induction s rule: json_chars.induct) (auto dest: plain_json_unit)

lemma plain_ascii: "list_all plain_unit s \<Longrightarrow> ascii_text s"
  by (auto simp: ascii_text_def list_all_iff dest: plain_json_unit)

lemma stamp_plain: "list_all stamp_unit s \<Longrightarrow> list_all plain_unit s"
  by (auto simp: list_all_iff stamp_unit_def plain_unit_def is_digit_def word_le_nat_alt word_less_nat_alt)

lemma tag_plain: "list_all tag_unit s \<Longrightarrow> list_all plain_unit s"
  by (auto simp: list_all_iff tag_unit_def plain_unit_def unit_class_defs word_le_nat_alt word_less_nat_alt)

lemma cursor_json:
  assumes "list_all plain_unit t" "list_all plain_unit i"
  shows "json_text (obj [(''t'', JStr t), (''i'', JStr i)]) = [123, 34, 116, 34, 58, 34] @ t @ [34, 44, 34, 105, 34, 58, 34] @ i @ [34, 125]"
  using assms by (simp add: json_text_def obj_def json_quote_def json_chars_plain js_def json_unit_def high_surrogate_def low_surrogate_def)

lemma js_get_obj [simp]: "js_get (obj kvs) (js k) = (case map_of kvs k of None \<Rightarrow> JUndef | Some v \<Rightarrow> v)"
proof -
  have "map_of (map (\<lambda>(k, v). (js k, v)) kvs) (js k) = map_of kvs k" by (induction kvs) auto
  then show ?thesis by (simp add: obj_def split: option.split)
qed

text \<open>
  The position in a listing survives the trip through the client: the opaque cursor of a page
  decodes to the timestamp and the conversation it was made from, within the 400 code units the
  server reads of it, for every stored timestamp and identifier.
\<close>

theorem cursor_round_trip:
  assumes "stamped t" "thread_id_text i"
  shows "decodeCursor E (asText (JStr (encodeCursor t i)) 400) = Some (t, i)"
proof -
  let ?v = "obj [(''t'', JStr t), (''i'', JStr i)]"
  have plain: "list_all plain_unit t" "list_all plain_unit i"
    using assms stamp_plain tag_plain by (auto simp: stamped_def thread_id_text_def)
  note X = cursor_json [OF plain]
  have ascii: "ascii_text (json_text ?v)"
    using plain [THEN plain_ascii] by (simp add: X ascii_text_def is_ascii_def)
  have len: "length (json_text ?v) = 39 + length i" using assms(1) by (simp add: X stamped_def)
  have "(4 * (39 + length i) + 2) div 3 \<le> 400" 
    using div_le_mono [of "4 * (39 + length i) + 2" 958 3] assms(2) by (simp add: thread_id_text_def)
  then have "length (encodeCursor t i) \<le> 400"
    using ascii len by (simp add: encodeCursor_def length_base64Url utf8_ascii)
  then have "asText (JStr (encodeCursor t i)) 400 = encodeCursor t i" by simp
  moreover have "json_parse (num_text (plat E)) (json_text ?v) = Some ?v"
    using json_round_trip [of ?v "num_text (plat E)"] by (auto simp: json_text_def obj_def)
  ultimately show ?thesis
    using assms unfolding decodeCursor_def encodeCursor_def
    by (simp add: base64UrlToBytes_base64Url text_decode_utf8 [OF ascii] stamped_def)
qed

theorem cursor_round_trip_witness:
  "decodeCursor example_env (asText (JStr (encodeCursor (js ''2024-01-31T23:59:59.999Z'') (js ''t-1''))) 400)
     = Some (js ''2024-01-31T23:59:59.999Z'', js ''t-1'')"
proof (rule cursor_round_trip)
  show "stamped (js ''2024-01-31T23:59:59.999Z'')" by code_simp
  show "thread_id_text (js ''t-1'')"
    by (simp add: thread_id_text_def js_def tag_unit_def unit_class_defs)
qed

section \<open>Following the pages\<close>

text \<open>
  A client that asks \<open>listThreads\<close> for a page and, while the answer says \<open>has_more\<close>, repeats its request with \<open>next_cursor\<close> as
  the \<open>cursor\<close> parameter, until an answer says that there is no more. The first argument bounds the number of requests.
\<close>

definition turn_page :: "jstr \<Rightarrow> http_request \<Rightarrow> http_request" where
  "turn_page c r = r\<lparr>rq_query := (js ''cursor'', c) # filter (\<lambda>(k, v). k \<noteq> js ''cursor'') (rq_query r)\<rparr>"

primrec follow_listing :: "nat \<Rightarrow> env \<Rightarrow> http_request \<Rightarrow> world \<Rightarrow> jsval list option" where
  "follow_listing 0 E r w = None"
| "follow_listing (Suc f) E r w =
     (case listThreads E r w of
        (Inr resp, w') \<Rightarrow>
          (case rs_body resp of
             Json body \<Rightarrow>
               (case (js_get body (js ''threads''), js_get body (js ''has_more''), js_get body (js ''next_cursor'')) of
                  (JArr items, JBool False, JNull) \<Rightarrow> Some items
                | (JArr items, JBool True, JStr c) \<Rightarrow> map_option (\<lambda>rest. items @ rest) (follow_listing f E (turn_page c r) w')
                | _ \<Rightarrow> None)
           | _ \<Rightarrow> None)
      | _ \<Rightarrow> None)"

lemma turn_page_query: "query_value (turn_page c r) name = (if js name = js ''cursor'' then JStr c else query_value r name)"
proof -
  have "map_of (filter (\<lambda>(k, v). k \<noteq> js ''cursor'') kvs) k = map_of kvs k" if "k \<noteq> js ''cursor''" for kvs :: "(jstr \<times> jstr) list" and k
    using that by (induction kvs) auto
  then show ?thesis by (auto simp: query_value_def turn_page_def opt_val_def)
qed

lemma turn_page_same: "read_query E (turn_page c r) = read_query E r" "page_limit (turn_page c r) = page_limit r"
proof -
  have other: "query_value (turn_page c r) name = query_value r name"
    if "name \<in> {''folder'', ''mailbox'', ''q'', ''unread'', ''replied'', ''attachment'', ''date_from'', ''date_to'', ''limit''}" for name
    using that by (auto simp: turn_page_query js_def)
  show "read_query E (turn_page c r) = read_query E r" "page_limit (turn_page c r) = page_limit r"
    unfolding read_query_def page_limit_def by (simp_all add: other)
qed

lemma page_limit_pos: "0 < page_limit r"
  using asInt_bounds [of 1 40 100 "query_value r ''limit''"] by (simp add: page_limit_def)

text \<open>One answer of the listing.\<close>

lemma listThreads_answer:
  assumes "quiet E" "reliable E" "c = decodeCursor E (asText (query_value r ''cursor'') 400)"
    "rows = matching_threads (db_of w) (read_query E r) c (page_limit r + 1)"
  obtains body where "listThreads E r w = (Inr (json body 200 []), step_db w (db_of w))"
    "js_get body (js ''threads'') = JArr (map (thread_item (db_of w)) (take (page_limit r) rows))"
    "js_get body (js ''has_more'') = JBool (page_limit r < length rows)"
    "js_get body (js ''next_cursor'') = opt_val (next_cursor rows (page_limit r))"
  using assms by (simp add: listThreads_def Let_def act_simps select_quiet comp_def take_map [symmetric])

lemma follow_walk:
  assumes "quiet E" "reliable E" "\<forall>t \<in> set (threads d). stamped (th_last_message_at t) \<and> thread_id_text (th_id t)" "listing_valid (d, q)"
    and "0 < f" "db_of w = d" "read_query E r = q" "page_limit r = n" "decodeCursor E (asText (query_value r ''cursor'') 400) = c"
    "length (thread_pages.remaining (d, q) c) \<le> f * n"
  shows "follow_listing f E r w = Some (map (thread_item d) (thread_pages.walk f (d, q) n c))"
  using assms(5-)
proof (induction f arbitrary: w r c)
  case (Suc f)
  let ?rows = "matching_threads d q c (n + 1)" and ?rest = "thread_pages.remaining (d, q) c"
  have n: "0 < n" using page_limit_pos [of r] Suc.prems(4) by simp
  have fetch: "?rows = take (n + 1) ?rest" "listing_fetch (d, q) c (n + 1) = ?rows"
    using thread_pages.fetch_rows [OF assms(4), of c "n + 1"] by (simp_all add: listing_fetch_def thread_pages.remaining_def)
  obtain body where answer: "listThreads E r w = (Inr (json body 200 []), step_db w d)"
    "js_get body (js ''threads'') = JArr (map (thread_item d) (take n ?rows))"
    "js_get body (js ''has_more'') = JBool (n < length ?rows)" "js_get body (js ''next_cursor'') = opt_val (next_cursor ?rows n)"
    using listThreads_answer [OF assms(1,2) refl refl, of r w] Suc.prems(2-5) by metis
  have json: "rs_body (json body 200 []) = Json body" by (simp add: json_def)
  show ?case
  proof (cases "n < length ?rows")
    case False
    then have "next_cursor ?rows n = None" by (simp add: next_cursor_def Let_def)
    then show ?thesis using answer json False fetch(2) by (simp add: opt_val_def Let_def)
  next
    case True
    let ?t = "last (take n ?rows)"
    let ?c = "encodeCursor (th_last_message_at ?t) (th_id ?t)"
    have some: "take n ?rows \<noteq> []" using True n by auto
    then have next_page: "next_cursor ?rows n = Some ?c" using True by (simp add: next_cursor_def Let_def)
    have "?t \<in> set ?rows" using last_in_set [OF some] by (rule in_set_takeD)
    then have "?t \<in> set (threads d)" by (auto simp: matching_threads_def dest: in_set_takeD)
    then have decode: "decodeCursor E (asText (query_value (turn_page ?c r) ''cursor'') 400) = Some (thread_key ?t)"
      using assms(3) cursor_round_trip [of "th_last_message_at ?t" "th_id ?t" E] by (simp add: turn_page_query thread_key_def)
    have long: "n < length ?rest" using True fetch(1) by simp
    have page: "take n ?rest = take n ?rows" unfolding fetch(1) take_take by (simp add: min_def)
    have "thread_pages.remaining (d, q) (Some (thread_key ?t)) = drop n ?rest"
      using thread_pages.remaining_next [OF assms(4) n long] page by simp
    then have rest: "length (thread_pages.remaining (d, q) (Some (thread_key ?t))) \<le> f * n" "0 < f"
      using Suc.prems(6) long by (auto intro!: Suc_leI gr0I)
    have "follow_listing f E (turn_page ?c r) (step_db w d) = Some (map (thread_item d) (thread_pages.walk f (d, q) n (Some (thread_key ?t))))"
      using Suc.IH [OF rest(2) step_db_sel(1) _ _ decode rest(1)] Suc.prems(3,4) turn_page_same by simp
    then show ?thesis using answer json True some next_page fetch(2) by (simp add: opt_val_def Let_def)
  qed
qed simp

lemma json_parse_empty: "json_parse num [] = None"
  by (simp add: json_parse_def json_value.simps skip_space_def scalar_value_def literal_value_def js_def json_number_def json_integer_def
      digits1_def Let_def)

lemma decode_empty: "decodeCursor E [] = None"
proof -
  have "base64UrlToBytes [] = Inr []" by code_simp
  then show ?thesis by (simp add: decodeCursor_def text_decode_def json_parse_empty)
qed

text \<open>
  C14. Paging is complete and free of duplicates: a client that asks \<open>listThreads\<close> again with the cursor of each answer until one
  says that there is no more gets every conversation that matches its folder and filters exactly once, newest first, in
  at most as many requests as there are pages (one, when nothing matches). The times and identifiers of the conversations
  are those that the mailbox writes: ISO timestamps, and identifiers of at most 200 letters, digits, hyphens and underscores;
  no call fails and nobody else changes the conversations between the requests.
\<close>

theorem paging_complete:
  assumes "quiet E" "reliable E" "db_ok (db_of w)"
    "\<forall>t \<in> set (threads (db_of w)). stamped (th_last_message_at t) \<and> thread_id_text (th_id t)"
    "query_value r ''cursor'' = JNull" "0 < f"
    "length (filter (query_match (read_query E r)) (threads (db_of w))) \<le> f * page_limit r"
  shows "\<exists>ts. follow_listing f E r w = Some (map (thread_item (db_of w)) ts)
    \<and> set ts = {t \<in> set (threads (db_of w)). query_match (read_query E r) t} \<and> distinct (map th_id ts)
    \<and> sorted_wrt (\<lambda>a b. th_last_message_at b < th_last_message_at a \<or> th_last_message_at b = th_last_message_at a \<and> th_id b < th_id a) ts"
proof -
  let ?d = "db_of w" and ?q = "read_query E r"
  have valid: "listing_valid (?d, ?q)" using assms(3) by (simp add: listing_valid_def db_ok_def rows_ok_def)
  have none: "decodeCursor E (asText (query_value r ''cursor'') 400) = None"
    by (simp add: assms(5) decode_empty)
  have len: "length (listing_rows (?d, ?q)) \<le> f * page_limit r" using assms(7) by (simp add: listing_rows_def sort_desc_def)
  then have "follow_listing f E r w = Some (map (thread_item ?d) (listing_rows (?d, ?q)))"
    using follow_walk [OF assms(1,2,4) valid assms(6) refl refl refl none] thread_pages.walk_all [OF valid page_limit_pos len]
    by (simp add: thread_pages.remaining_def)
  moreover have "set (listing_rows (?d, ?q)) = {t \<in> set (threads ?d). query_match ?q t}" by (simp add: listing_rows_def)
  moreover have "distinct (map th_id (filter (query_match ?q) (threads ?d)))"
    using valid by (auto simp: listing_valid_def distinct_map intro: inj_on_subset)
  then have "distinct (map th_id (listing_rows (?d, ?q)))"
    by (simp add: listing_rows_def sort_desc_def rev_map [symmetric] distinct_map)
  moreover have "sorted_wrt (\<lambda>a b. th_last_message_at b < th_last_message_at a \<or> th_last_message_at b = th_last_message_at a \<and> th_id b < th_id a)
      (listing_rows (?d, ?q))"
    using thread_pages.rows_desc [OF valid] by (rule sorted_wrt_mono_rel [rotated]) (auto simp: thread_key_def less_prod_def less_le)
  ultimately show ?thesis by blast
qed

definition example_listing :: db where
  "example_listing = empty_db\<lparr>threads :=
     [new_thread (js ''t1'') None [] (js ''[]'') (js ''2024-01-31T23:59:59.999Z'') (js ''2024''),
      new_thread (js ''t2'') None [] (js ''[]'') (js ''2024-02-01T00:00:00.000Z'') (js ''2024'')]\<rparr>"

definition example_paging :: http_request where
  "example_paging = example_request\<lparr>rq_query := [(js ''folder'', js ''all''), (js ''limit'', js ''1'')]\<rparr>"

theorem paging_complete_witness:
  "\<exists>items. follow_listing 2 example_env example_paging (start_world example_listing) = Some items \<and> length items = 2
    \<and> set items = thread_item example_listing ` set (threads example_listing)"
proof -
  have ok: "db_ok example_listing" by (simp add: example_listing_def db_ok_defs empty_db_def new_thread_def)
  have stamps: "stamped (js ''2024-01-31T23:59:59.999Z'')" "stamped (js ''2024-02-01T00:00:00.000Z'')" by code_simp+
  have ids: "thread_id_text (js ''t1'')" "thread_id_text (js ''t2'')"
    by (simp_all add: thread_id_text_def js_def tag_unit_def unit_class_defs)
  have q: "read_query example_env example_paging = \<lparr> tq_folder = js ''all'', tq_mailbox = [], tq_text = [], tq_unread = False, tq_replied = False,
      tq_attachment = False, tq_from = None, tq_to = None \<rparr>" "page_limit example_paging = 1" "query_value example_paging ''cursor'' = JNull"
    by code_simp+
  have all: "filter (query_match (read_query example_env example_paging)) (threads example_listing) = threads example_listing"
    by (simp add: example_listing_def query_match_def in_folder_def q new_thread_def)
  then have every: "{t \<in> set (threads example_listing). query_match (read_query example_env example_paging) t} = set (threads example_listing)"
    by (metis set_filter)
  have stamped: "\<forall>t \<in> set (threads (db_of (start_world example_listing))). stamped (th_last_message_at t) \<and> thread_id_text (th_id t)"
    using stamps ids by (simp add: example_listing_def new_thread_def)
  have "length (filter (query_match (read_query example_env example_paging)) (threads (db_of (start_world example_listing))))
      \<le> 2 * page_limit example_paging"
    using all by (simp add: q(2)) (simp add: example_listing_def)
  then obtain ts where ts: "follow_listing 2 example_env example_paging (start_world example_listing) = Some (map (thread_item example_listing) ts)"
    "set ts = set (threads example_listing)" "distinct (map th_id ts)"
    using paging_complete [OF example_env_ok(1,2) _ stamped q(3), of 2] ok every by auto
  have "card (set (threads example_listing)) = 2" by (simp add: example_listing_def new_thread_def js_def)
  then have "length ts = 2" using ts(2,3) by (metis distinct_card distinct_map)
  then show ?thesis using ts(1,2) by (intro exI [of _ "map (thread_item example_listing) ts"]) simp
qed

end
