(* ===== verification/Archive.thy ===== *)
theory Archive
  imports Listing
begin

text \<open>
  The object archive: object names and writes, the raw message download and the storage probe
  (\<open>src/src/mail/archive.ts\<close>), and attachments on their way in, out and back
  (\<open>src/src/mail/attachments.ts\<close>). Uploads that the source starts together
  (\<open>Promise.all\<close>) run one after the other here, each to its end even when another one failed.
\<close>

section \<open>Objects\<close>

definition objectRoot :: "jstr \<Rightarrow> jstr" where
  "objectRoot direction =
     (if direction = js ''incoming'' then js ''incoming''
      else if direction = js ''outgoing'' then js ''outgoing''
      else if direction = js ''outgoing_backup_copy'' then js ''sent-copies''
      else js ''unclassified'')"

definition path_at :: "int \<Rightarrow> jstr \<Rightarrow> jstr \<Rightarrow> jstr \<Rightarrow> jstr \<Rightarrow> jstr" where
  "path_at t direction mailboxId messageId name =
     (let day = era_ms t div day_ms in
      join_text (js ''/'') [objectRoot direction, safeSegment mailboxId, nat_text (year_of day),
        digits 2 (Suc (month_index day)), safeSegment messageId, safeSegment name])"

definition objectPath :: "env \<Rightarrow> jstr \<Rightarrow> jstr \<Rightarrow> jstr \<Rightarrow> jstr \<Rightarrow> jstr action" where
  "objectPath E direction mailboxId messageId name =
     bindE (date_now E) (\<lambda>t. returnE (path_at t direction mailboxId messageId name))"

definition putR2 :: "env \<Rightarrow> jstr \<Rightarrow> bytes \<Rightarrow> unit action" where
  "putR2 E key v =
     catchE (r2_call E (r2_put key v))
       (\<lambda>_. throwE (app_error 503 ''Mailbox archive storage is unavailable.'' ''archive_unavailable''))"

definition r2_fetch :: "env \<Rightarrow> jstr \<Rightarrow> bytes option action" where
  "r2_fetch E key = select E (r2_get key)"

definition r2_remove :: "env \<Rightarrow> jstr list \<Rightarrow> unit action" where
  "r2_remove E keys = r2_call E (r2_delete keys)"

definition incomingRawObjectName :: "env \<Rightarrow> jstr action" where
  "incomingRawObjectName E = bindE (randomToken E 12) (\<lambda>t. returnE (js ''original-'' @ t @ js ''.eml''))"

definition file_response :: "bytes \<Rightarrow> (string \<times> jstr) list \<Rightarrow> response" where
  "file_response content headers =
     \<lparr> rs_status = 200, rs_headers = fold (\<lambda>(k, v). set_header k v) headers [], rs_body = Raw content \<rparr>"

definition rawMessageResponse :: "env \<Rightarrow> jstr \<Rightarrow> response action" where
  "rawMessageResponse E messageId =
     bindE (findMessage E messageId) (\<lambda>row.
     bindE (case row of None \<Rightarrow> throwE (app_error 404 ''Message not found.'' ''not_found'') | Some m \<Rightarrow> returnE m) (\<lambda>m.
     bindE (throw_if (coalesce (m_raw_key m) [] = []) (app_error 404 ''Raw message archive is unavailable.'' ''archive_missing'')) (\<lambda>_.
     bindE (r2_fetch E (coalesce (m_raw_key m) [])) (\<lambda>content.
     case content of
       None \<Rightarrow> throwE (app_error 404 ''Raw message archive is missing.'' ''archive_missing'')
     | Some bs \<Rightarrow>
         returnE (file_response bs
           [(''Content-Type'', js ''message/rfc822''),
            (''Content-Disposition'', js ''attachment; filename='' @ [34] @ safeDisplayFilename (uni (plat E)) (JStr messageId) @ js ''.eml'' @ [34]),
            (''Cache-Control'', js ''private, no-store''), (''X-Content-Type-Options'', js ''nosniff'')])))))"

section \<open>The storage probe\<close>

definition database_probe_failed :: "string \<Rightarrow> exn" where
  "database_probe_failed message = app_error 503 message ''database_probe_failed''"

definition archive_probe_failed :: "string \<Rightarrow> exn" where
  "archive_probe_failed message = app_error 503 message ''archive_probe_failed''"

definition unless_app_error :: "exn \<Rightarrow> exn \<Rightarrow> exn" where
  "unless_app_error e other = (case e of AppError _ _ _ \<Rightarrow> e | JsError _ _ \<Rightarrow> other)"

definition add_probe :: "probe \<Rightarrow> unit statement" where
  "add_probe p = constrained (\<lambda>d. ((), d\<lparr>probes := probes d @ [p]\<rparr>))"

definition delete_probe :: "jstr \<Rightarrow> unit statement" where
  "delete_probe i = constrained (\<lambda>d. ((), d\<lparr>probes := filter (\<lambda>p. pr_id p \<noteq> i) (probes d)\<rparr>))"

text \<open>
  The three phases of the probe. Each yields the flags it set (\<open>d1Inserted\<close>, \<open>r2Deleted\<close>, \<open>d1Deleted\<close>)
  together with the exception that ended it, if any, so that the \<open>finally\<close> block can read them.
\<close>

definition probe_write :: "env \<Rightarrow> jstr \<Rightarrow> jstr \<Rightarrow> (bool \<times> exn option) action" where
  "probe_write E i payloadHash =
     bindE (now E) (\<lambda>ts.
     bindE (attemptE (external E (add_probe \<lparr> pr_id = i, pr_hash = payloadHash, pr_created_at = ts \<rparr>))) (\<lambda>inserted.
     case inserted of
       Inl e \<Rightarrow> returnE (False, Some (unless_app_error e (database_probe_failed ''D1 write/read probe failed.'')))
     | Inr _ \<Rightarrow>
         bindE (attemptE (select E (\<lambda>d. find (\<lambda>p. pr_id p = i) (probes d)))) (\<lambda>stored.
         case stored of
           Inl e \<Rightarrow> returnE (True, Some (unless_app_error e (database_probe_failed ''D1 write/read probe failed.'')))
         | Inr row \<Rightarrow>
             if (case row of None \<Rightarrow> True | Some p \<Rightarrow> \<not> timingSafeEqual (take 200 (pr_hash p)) payloadHash)
             then returnE (True, Some (database_probe_failed ''D1 probe row failed integrity validation.''))
             else returnE (True, None))))"

definition probe_object :: "env \<Rightarrow> jstr \<Rightarrow> bytes \<Rightarrow> jstr \<Rightarrow> (bool \<times> exn option) action" where
  "probe_object E key payload payloadHash =
     bindE (attemptE (
       bindE (putR2 E key payload) (\<lambda>_.
       bindE (r2_fetch E key) (\<lambda>content.
       case content of
         None \<Rightarrow> throwE (archive_probe_failed ''R2 probe object could not be read.'')
       | Some stored \<Rightarrow>
           throw_if (length stored \<noteq> length payload \<or> \<not> timingSafeEqual (sha256 E stored) payloadHash)
             (archive_probe_failed ''R2 probe object failed integrity validation.''))))) (\<lambda>written.
     case written of
       Inl e \<Rightarrow> returnE (False, Some e)
     | Inr _ \<Rightarrow>
         bindE (attemptE (r2_remove E [key])) (\<lambda>removed.
         case removed of
           Inl e \<Rightarrow> returnE (False, Some (archive_probe_failed ''R2 probe object could not be deleted.''))
         | Inr _ \<Rightarrow>
             bindE (attemptE (r2_fetch E key)) (\<lambda>left.
             case left of
               Inl e \<Rightarrow> returnE (True, Some e)
             | Inr None \<Rightarrow> returnE (True, None)
             | Inr (Some _) \<Rightarrow> returnE (True, Some (archive_probe_failed ''R2 probe object remained after deletion.'')))))"

definition probe_delete :: "env \<Rightarrow> jstr \<Rightarrow> (bool \<times> exn option) action" where
  "probe_delete E i =
     bindE (attemptE (external E (delete_probe i))) (\<lambda>deleted.
     case deleted of
       Inl e \<Rightarrow> returnE (False, Some (unless_app_error e (database_probe_failed ''D1 delete probe failed.'')))
     | Inr _ \<Rightarrow>
         bindE (attemptE (select E (\<lambda>d. list_ex (\<lambda>p. pr_id p = i) (probes d)))) (\<lambda>left.
         case left of
           Inl e \<Rightarrow> returnE (True, Some (unless_app_error e (database_probe_failed ''D1 delete probe failed.'')))
         | Inr remained \<Rightarrow>
             returnE (True, if remained then Some (database_probe_failed ''D1 probe row remained after deletion.'') else None)))"

definition probe_key :: "jstr \<Rightarrow> jstr" where
  "probe_key i = js ''health/probe-'' @ i @ js ''.txt''"

definition storageProbe :: "env \<Rightarrow> response action" where
  "storageProbe E =
     bindE (uuid E) (\<lambda>i.
     bindE (randomToken E 16) (\<lambda>t.
     let payload = utf8 (js ''mailbox-storage-probe:'' @ t); payloadHash = sha256 E payload in
     bindE (probe_write E i payloadHash) (\<lambda>(d1Inserted, failed).
     bindE (case failed of Some e \<Rightarrow> returnE (False, Some e) | None \<Rightarrow> probe_object E (probe_key i) payload payloadHash) (\<lambda>(r2Deleted, failed).
     bindE (case failed of Some e \<Rightarrow> returnE (False, Some e) | None \<Rightarrow> probe_delete E i) (\<lambda>(d1Deleted, failed).
     bindE (if r2Deleted then returnE () else ignoreE (r2_remove E [probe_key i])) (\<lambda>_.
     bindE (if d1Inserted \<and> \<not> d1Deleted then ignoreE (external E (delete_probe i)) else returnE ()) (\<lambda>_.
     case failed of
       Some e \<Rightarrow> throwE e
     | None \<Rightarrow> returnE (json (obj [(''ok'', JBool True), (''database_read_write_delete'', JBool True),
         (''archive_read_write_delete'', JBool True)]) 200 []))))))))"

section \<open>Attachments\<close>

definition hashAttachment :: "env \<Rightarrow> bytes \<Rightarrow> jstr" where
  "hashAttachment E bs = sha256 E bs"

definition attachment_path :: "jstr \<Rightarrow> jstr \<Rightarrow> jstr" where
  "attachment_path i filename = js ''attachments/'' @ i @ js ''-'' @ filename"

text \<open>The totals of \<open>storeIncomingAttachments\<close> and the rows it will insert.\<close>

record intake =
  in_total :: nat
  in_stored :: nat
  in_skipped :: nat
  in_rows :: "attachment list"

definition accepts :: "intake \<Rightarrow> bytes \<Rightarrow> bool" where
  "accepts st bs \<longleftrightarrow> bs \<noteq> [] \<and> length bs \<le> MAX_INCOMING_ATTACHMENT_BYTES
     \<and> in_total st + length bs \<le> MAX_INCOMING_TOTAL_ATTACHMENT_BYTES"

definition take_attachment :: "env \<Rightarrow> jstr \<Rightarrow> jstr \<Rightarrow> intake \<Rightarrow> attachment_item \<Rightarrow> intake action" where
  "take_attachment E messageId mailboxId st item =
     (let bs = attachmentBytes item in
      if \<not> accepts st bs then returnE (st\<lparr>in_skipped := in_skipped st + 1\<rparr>)
      else
        bindE (uuid E) (\<lambda>i.
        let filename = safeFilename (uni (plat E)) (opt_val (it_filename item));
            contentType = safeMimeType (uni (plat E)) (opt_val (it_mime_type item)) in
        bindE (objectPath E (js ''incoming'') mailboxId messageId (attachment_path i filename)) (\<lambda>key.
        bindE (putR2 E key bs) (\<lambda>_.
        returnE (st\<lparr>in_total := in_total st + length bs, in_stored := in_stored st + 1,
          in_rows := in_rows st @
            [\<lparr> at_id = i, at_message = messageId, at_filename = filename, at_content_type = contentType,
               at_content_id = text_option (asText (opt_val (it_content_id item)) 500),
               at_disposition = text_option (asText (opt_val (it_disposition item)) 100),
               at_size = length bs, at_sha256 = Some (hashAttachment E bs), at_key = key,
               at_inline = it_related item, at_created_at = [] \<rparr>]\<rparr>)))))"

text \<open>Rows go in by eights; when an insert fails, the objects of all of them are removed.\<close>

definition add_attachments :: "attachment list \<Rightarrow> unit statement" where
  "add_attachments rows = constrained (\<lambda>d. ((), d\<lparr>attachments := attachments d @ rows\<rparr>))"

definition insert_attachments :: "env \<Rightarrow> attachment list \<Rightarrow> unit action" where
  "insert_attachments E rows =
     catchE (forE (chunks 8 rows) (\<lambda>chunk.
         bindE (now E) (\<lambda>ts. external E (add_attachments (map (\<lambda>a. a\<lparr>at_created_at := ts\<rparr>) chunk)))))
       (\<lambda>e. bindE (forE rows (\<lambda>a. ignoreE (r2_remove E [at_key a]))) (\<lambda>_. throwE e))"

definition storeIncomingAttachments :: "env \<Rightarrow> jstr \<Rightarrow> jstr \<Rightarrow> attachment_item list \<Rightarrow> (nat \<times> nat) action" where
  "storeIncomingAttachments E messageId mailboxId items =
     bindE (foldE (take_attachment E messageId mailboxId)
         \<lparr> in_total = 0, in_stored = 0, in_skipped = length items - MAX_INCOMING_ATTACHMENTS, in_rows = [] \<rparr>
         (take MAX_INCOMING_ATTACHMENTS items)) (\<lambda>st.
     bindE (insert_attachments E (in_rows st)) (\<lambda>_.
     returnE (in_stored st, in_skipped st)))"

section \<open>Uploads\<close>

definition max_encoded_length :: nat where
  "max_encoded_length = (MAX_OUTGOING_ATTACHMENT_BYTES + 2) div 3 * 4"

definition attachment_too_large :: exn where
  "attachment_too_large = app_error 413 ''Each outgoing attachment must be 5 MB or smaller.'' ''attachment_too_large''"

definition parse_upload :: "env \<Rightarrow> nat \<Rightarrow> jsval \<Rightarrow> exn + upload" where
  "parse_upload E so_far item =
     (if \<not> is_object item then Inl (app_error 400 ''Attachment metadata is invalid.'' ''invalid_attachment'')
      else (case js_get item (js ''content'') of
          JStr t \<Rightarrow>
            let content = filter (\<lambda>c. \<not> js_space c) t in
            if content = [] \<or> length content > max_encoded_length then Inl attachment_too_large
            else (case base64ToBytes content of
                Inl e \<Rightarrow> Inl e
              | Inr bs \<Rightarrow>
                  if bs = [] \<or> length bs > MAX_OUTGOING_ATTACHMENT_BYTES then Inl attachment_too_large
                  else if so_far + length bs > MAX_OUTGOING_TOTAL_ATTACHMENT_BYTES then
                    Inl (app_error 413 ''Total outgoing attachment size must be 8 MB or smaller.'' ''attachments_too_large'')
                  else Inr \<lparr> up_filename = safeFilename (uni (plat E)) (js_get item (js ''filename'')),
                    up_content_type = safeMimeType (uni (plat E)) (js_get item (js ''contentType'')),
                    up_content = content, up_bytes = bs \<rparr>)
        | _ \<Rightarrow> Inl (app_error 400 ''Attachment content must be Base64 text.'' ''invalid_attachment'')))"

fun parse_uploads :: "env \<Rightarrow> nat \<Rightarrow> jsval list \<Rightarrow> exn + upload list" where
  "parse_uploads E so_far [] = Inr []"
| "parse_uploads E so_far (item # items) =
     (case parse_upload E so_far item of
        Inl e \<Rightarrow> Inl e
      | Inr u \<Rightarrow> (case parse_uploads E (so_far + length (up_bytes u)) items of Inl e \<Rightarrow> Inl e | Inr us \<Rightarrow> Inr (u # us)))"

definition parseUploads :: "env \<Rightarrow> jsval \<Rightarrow> exn + upload list" where
  "parseUploads E v =
     (case v of
        JArr items \<Rightarrow>
          if length items > 10 then Inl (app_error 413 ''A message can include at most 10 attachments.'' ''too_many_attachments'')
          else parse_uploads E 0 items
      | _ \<Rightarrow> Inr [])"

definition remove_attachment_rows :: "jstr \<Rightarrow> unit statement" where
  "remove_attachment_rows messageId = constrained (\<lambda>d. ((), d\<lparr>attachments := filter (\<lambda>a. at_message a \<noteq> messageId) (attachments d)\<rparr>))"

definition deleteOutgoingAttachments :: "env \<Rightarrow> jstr \<Rightarrow> unit action" where
  "deleteOutgoingAttachments E messageId =
     bindE (select E (\<lambda>d. map at_key (filter (\<lambda>a. at_message a = messageId) (attachments d)))) (\<lambda>keys.
     bindE (forE keys (\<lambda>k. if take 1000 k = [] then returnE () else r2_remove E [take 1000 k])) (\<lambda>_.
     external E (remove_attachment_rows messageId)))"

definition archive_upload :: "env \<Rightarrow> jstr \<Rightarrow> jstr \<Rightarrow> upload \<Rightarrow> attachment action" where
  "archive_upload E messageId mailboxId u =
     bindE (uuid E) (\<lambda>i.
     bindE (objectPath E (js ''outgoing'') mailboxId messageId (attachment_path i (up_filename u))) (\<lambda>key.
     bindE (putR2 E key (up_bytes u)) (\<lambda>_.
     returnE \<lparr> at_id = i, at_message = messageId, at_filename = up_filename u, at_content_type = up_content_type u,
       at_content_id = None, at_disposition = None, at_size = length (up_bytes u),
       at_sha256 = Some (hashAttachment E (up_bytes u)), at_key = key, at_inline = False, at_created_at = [] \<rparr>)))"

definition archiveOutgoingAttachments :: "env \<Rightarrow> jstr \<Rightarrow> jstr \<Rightarrow> upload list \<Rightarrow> unit action" where
  "archiveOutgoingAttachments E messageId mailboxId uploads =
     bindE (mapE (\<lambda>u. attemptE (archive_upload E messageId mailboxId u)) uploads) (\<lambda>done_all.
     bindE (mapE liftE done_all) (\<lambda>rows.
     insert_attachments E rows))"

definition load_attachment :: "env \<Rightarrow> nat \<times> upload list \<Rightarrow> attachment \<Rightarrow> (nat \<times> upload list) action" where
  "load_attachment E acc row =
     (let so_far = fst acc; declared = at_size row in
      bindE (throw_if (declared = 0 \<or> declared > MAX_OUTGOING_ATTACHMENT_BYTES \<or> so_far + declared > MAX_OUTGOING_TOTAL_ATTACHMENT_BYTES)
        (app_error 413 ''Archived attachments exceed the outgoing size limits.'' ''attachments_too_large'')) (\<lambda>_.
      bindE (r2_fetch E (take 1000 (at_key row))) (\<lambda>content.
      case content of
        None \<Rightarrow> throwE (app_error 503 ''An archived attachment is missing; the message cannot be safely retried.'' ''attachment_archive_missing'')
      | Some bs \<Rightarrow>
          let expectedHash = take 200 (coalesce (at_sha256 row) []) in
          bindE (throw_if (length bs \<noteq> declared \<or> length bs > MAX_OUTGOING_ATTACHMENT_BYTES
              \<or> so_far + length bs > MAX_OUTGOING_TOTAL_ATTACHMENT_BYTES \<or> expectedHash = []
              \<or> \<not> timingSafeEqual expectedHash (hashAttachment E bs))
            (app_error 503 ''An archived attachment failed integrity checks.'' ''attachment_archive_invalid'')) (\<lambda>_.
          returnE (so_far + length bs, snd acc @
            [\<lparr> up_filename = safeFilename (uni (plat E)) (JStr (at_filename row)),
               up_content_type = safeMimeType (uni (plat E)) (JStr (at_content_type row)),
               up_content = bytesToBase64 bs, up_bytes = bs \<rparr>])))))"

definition loadArchivedAttachments :: "env \<Rightarrow> jstr \<Rightarrow> upload list action" where
  "loadArchivedAttachments E messageId =
     bindE (select E (\<lambda>d. sort_key at_created_at (filter (\<lambda>a. at_message a = messageId) (attachments d)))) (\<lambda>entries.
     bindE (throw_if (length entries > 10)
       (app_error 413 ''Archived attachments exceed the 10-file sending limit.'' ''too_many_attachments'')) (\<lambda>_.
     bindE (foldE (load_attachment E) (0, []) entries) (\<lambda>acc. returnE (snd acc))))"

definition attachmentResponse :: "env \<Rightarrow> jstr \<Rightarrow> response action" where
  "attachmentResponse E attachmentId =
     bindE (select E (\<lambda>d. find (\<lambda>a. at_id a = attachmentId) (attachments d))) (\<lambda>row.
     bindE (case row of None \<Rightarrow> throwE (app_error 404 ''Attachment not found.'' ''not_found'') | Some a \<Rightarrow> returnE a) (\<lambda>a.
     bindE (r2_fetch E (at_key a)) (\<lambda>content.
     case content of
       None \<Rightarrow> throwE (app_error 404 ''Attachment archive is missing.'' ''archive_missing'')
     | Some bs \<Rightarrow>
         bindE (case encode_uri (safeFilename (uni (plat E)) (JStr (at_filename a))) of
             None \<Rightarrow> throwE uri_error | Some n \<Rightarrow> returnE n) (\<lambda>name.
         returnE (file_response bs
           [(''Content-Type'', safeMimeType (uni (plat E)) (JStr (at_content_type a))),
            (''Content-Disposition'', js ''attachment; filename*=UTF-8'' @ [39, 39] @ name),
            (''Content-Length'', nat_text (if at_size a = 0 then length bs else at_size a)),
            (''Cache-Control'', js ''private, no-store''), (''X-Content-Type-Options'', js ''nosniff'')])))))"

section \<open>Constraints are kept\<close>

lemma preserves_archive [preserves_intros]:
  "preserves db_ok (add_probe p)" "preserves db_ok (delete_probe i)" "preserves db_ok (add_attachments rows)"
  "preserves db_ok (remove_attachment_rows i)"
  unfolding add_probe_def delete_probe_def add_attachments_def remove_attachment_rows_def by (rule preserves_intros)+

lemma keeps_objects [keeps_intros]:
  assumes "stable E db_ok"
  shows "keeps (\<lambda>w. db_ok (db_of w)) (putR2 E k v)" "keeps (\<lambda>w. db_ok (db_of w)) (r2_fetch E k)"
    "keeps (\<lambda>w. db_ok (db_of w)) (r2_remove E ks)" "keeps (\<lambda>w. db_ok (db_of w)) (objectPath E a b c n)"
    "keeps (\<lambda>w. db_ok (db_of w)) (incomingRawObjectName E)"
  unfolding putR2_def r2_fetch_def r2_remove_def objectPath_def incomingRawObjectName_def
  by (intro keeps_intros assms; simp)+

lemma keeps_attachments [keeps_intros]:
  assumes "stable E db_ok"
  shows "keeps (\<lambda>w. db_ok (db_of w)) (insert_attachments E rows)"
    "keeps (\<lambda>w. db_ok (db_of w)) (take_attachment E m b st item)"
    "keeps (\<lambda>w. db_ok (db_of w)) (archive_upload E m b u)"
    "keeps (\<lambda>w. db_ok (db_of w)) (load_attachment E acc row)"
  unfolding insert_attachments_def take_attachment_def archive_upload_def load_attachment_def Let_def
  by (intro keeps_intros preserves_intros assms)+

lemma keeps_archive [keeps_intros]:
  assumes "stable E db_ok"
  shows "keeps (\<lambda>w. db_ok (db_of w)) (rawMessageResponse E i)" "keeps (\<lambda>w. db_ok (db_of w)) (storageProbe E)"
    "keeps (\<lambda>w. db_ok (db_of w)) (storeIncomingAttachments E m b items)"
    "keeps (\<lambda>w. db_ok (db_of w)) (deleteOutgoingAttachments E m)"
    "keeps (\<lambda>w. db_ok (db_of w)) (archiveOutgoingAttachments E m b us)"
    "keeps (\<lambda>w. db_ok (db_of w)) (loadArchivedAttachments E m)"
    "keeps (\<lambda>w. db_ok (db_of w)) (attachmentResponse E i)"
  unfolding rawMessageResponse_def storageProbe_def probe_write_def probe_object_def probe_delete_def
    storeIncomingAttachments_def deleteOutgoingAttachments_def archiveOutgoingAttachments_def
    loadArchivedAttachments_def attachmentResponse_def Let_def
  by (intro keeps_intros preserves_intros assms)+

end
