(* ===== verification/Retention.thy ===== *)
theory Retention
  imports Archive
begin

text \<open>
  Deleting conversations and the nightly cleanup (\<open>src/src/mail/retention.ts\<close>), and the redacted log
  (\<open>src/src/log.ts\<close>). A deletion removes the objects of a conversation before its rows, so that a
  failure leaves the rows that are needed to find the objects again.
\<close>

section \<open>Logging\<close>

datatype log_level = Level_Error | Level_Info | Level_Debug

definition level_rank :: "log_level \<Rightarrow> nat" where
  "level_rank l = (case l of Level_Error \<Rightarrow> 0 | Level_Info \<Rightarrow> 1 | Level_Debug \<Rightarrow> 2)"

definition level_name :: "log_level \<Rightarrow> string" where
  "level_name l = (case l of Level_Error \<Rightarrow> ''error'' | Level_Info \<Rightarrow> ''info'' | Level_Debug \<Rightarrow> ''debug'')"

definition logLevel :: "env \<Rightarrow> log_level" where
  "logLevel E =
     (let v = to_lower (uni (plat E)) (trim (asText (var E ''LOG_LEVEL'') 20)) in
      if v = js ''debug'' then Level_Debug else if v = js ''info'' then Level_Info else Level_Error)"

definition redacted_names :: "jstr list" where
  "redacted_names = map js [''authorization'', ''password'', ''token'', ''secret'', ''api_key'', ''session'', ''cookie'', ''raw'', ''body'']"

definition sensitive_name :: "env \<Rightarrow> jstr \<Rightarrow> bool" where
  "sensitive_name E key =
     (let name = to_lower (uni (plat E)) key in
      name \<in> set redacted_names \<or> contains_text (js ''secret'') name \<or> contains_text (js ''token'') name
        \<or> contains_text (js ''password'') name)"

definition redactFields :: "env \<Rightarrow> (jstr \<times> jsval) list \<Rightarrow> (jstr \<times> jsval) list" where
  "redactFields E details = map (\<lambda>(k, v). (k, if sensitive_name E k then JStr (js ''[redacted]'') else v)) details"

text \<open>The line that is written to the console, if any.\<close>

definition log_line :: "env \<Rightarrow> log_level \<Rightarrow> jstr \<Rightarrow> (jstr \<times> jsval) list \<Rightarrow> jstr option" where
  "log_line E l message details =
     (if level_rank l > level_rank (logLevel E) then None
      else json_stringify (JObj (fold (\<lambda>(k, v). put_key k v) (redactFields E details)
        [(js ''level'', JStr (js (level_name l))), (js ''message'', JStr message)])))"

section \<open>Deleting a conversation\<close>

definition messageRetentionDays :: "env \<Rightarrow> int" where
  "messageRetentionDays E = asInt (var E ''MESSAGE_RETENTION_DAYS'') 0 0 36500"

definition trashRetentionDays :: "env \<Rightarrow> int" where
  "trashRetentionDays E = asInt (var E ''TRASH_RETENTION_DAYS'') 30 1 36500"

definition deletion_incomplete :: exn where
  "deletion_incomplete = app_error 503 ''Archive deletion is incomplete; metadata was preserved for retry.'' ''deletion_incomplete''"

definition unique_keys :: "jstr list \<Rightarrow> jstr list" where
  "unique_keys keys = dedup (filter (\<lambda>k. k \<noteq> []) (map (take 1000) keys))"

definition delete_objects :: "env \<Rightarrow> jstr list \<Rightarrow> unit action" where
  "delete_objects E keys = forE (chunks 1000 keys) (\<lambda>c. catchE (r2_remove E c) (\<lambda>_. throwE deletion_incomplete))"

definition deleteThreadData :: "env \<Rightarrow> jstr \<Rightarrow> nat action" where
  "deleteThreadData E i =
     bindE (threadR2ObjectKeys E i) (\<lambda>keys.
     bindE (delete_objects E (unique_keys keys)) (\<lambda>_.
     bindE (select E (\<lambda>d. map m_id (thread_messages d i))) (\<lambda>ids.
     bindE (forE ids (\<lambda>m. external E (void (delete_events (\<lambda>e. e_message e = Some m))))) (\<lambda>_.
     bindE (external E (delete_messages (\<lambda>m. m_thread m = i))) (\<lambda>_.
     bindE (external E (delete_threads (\<lambda>t. th_id t = i))) (\<lambda>_.
     returnE (length (unique_keys keys))))))))"

section \<open>The scheduled cleanup\<close>

definition days_before :: "int \<Rightarrow> int \<Rightarrow> jstr" where
  "days_before now_ms days = iso (now_ms - days * 86400000)"

definition delete_audits :: "jstr \<Rightarrow> unit statement" where
  "delete_audits cutoff = constrained (\<lambda>d. ((), d\<lparr>audits := filter (\<lambda>a. \<not> lg_created_at a < cutoff) (audits d)\<rparr>))"

definition delete_probes :: "jstr \<Rightarrow> unit statement" where
  "delete_probes cutoff = constrained (\<lambda>d. ((), d\<lparr>probes := filter (\<lambda>p. \<not> pr_created_at p < cutoff) (probes d)\<rparr>))"

definition delete_forwards :: "jstr \<Rightarrow> unit statement" where
  "delete_forwards cutoff = constrained (\<lambda>d. ((), d\<lparr>forwards :=
     filter (\<lambda>f. \<not> (f_updated_at f < cutoff \<and> (f_status f = js ''accepted'' \<or> f_status f = js ''failed''))) (forwards d)\<rparr>))"

definition cleanup_statements :: "int \<Rightarrow> unit statement list" where
  "cleanup_statements ms =
     [void (delete_events (\<lambda>e. e_received_at e < days_before ms 180)), delete_audits (days_before ms 365),
      delete_probes (days_before ms 1), delete_forwards (days_before ms 180)]"

definition expired :: "jstr \<Rightarrow> thread \<Rightarrow> bool" where
  "expired cutoff t \<longleftrightarrow> th_status t \<noteq> js ''trash'' \<and> th_last_message_at t < cutoff"

definition expired_trash :: "jstr \<Rightarrow> thread \<Rightarrow> bool" where
  "expired_trash cutoff t \<longleftrightarrow> th_status t = js ''trash'' \<and> th_updated_at t < cutoff"

text \<open>\<open>ORDER BY \<dots> ASC LIMIT 50\<close>, and the deletion of each, errors logged and skipped.\<close>

definition oldest :: "(thread \<Rightarrow> bool) \<Rightarrow> (thread \<Rightarrow> jstr) \<Rightarrow> db \<Rightarrow> jstr list" where
  "oldest p since d = map th_id (take 50 (sort_key (\<lambda>t. (since t, th_id t)) (filter p (threads d))))"

definition purge :: "env \<Rightarrow> jstr list \<Rightarrow> unit action" where
  "purge E ids = forE ids (\<lambda>i. if i = [] then returnE () else ignoreE (deleteThreadData E i))"

definition cleanupMail :: "env \<Rightarrow> unit action" where
  "cleanupMail E =
     bindE (date_now E) (\<lambda>start.
     bindE (if messageRetentionDays E > 0 then
         bindE (select E (oldest (expired (days_before start (messageRetentionDays E))) th_last_message_at)) (purge E)
       else returnE ()) (\<lambda>_.
     bindE (date_now E) (\<lambda>later.
     bindE (bindE (select E (oldest (expired_trash (days_before later (trashRetentionDays E))) th_updated_at)) (purge E)) (\<lambda>_.
     batch E (cleanup_statements start)))))"

section \<open>Constraints are kept\<close>

lemma preserves_cleanup [preserves_intros]:
  "preserves db_ok (delete_audits c)" "preserves db_ok (delete_probes c)" "preserves db_ok (delete_forwards c)"
  unfolding delete_audits_def delete_probes_def delete_forwards_def by (rule preserves_intros)+

lemma keeps_deleteThreadData [keeps_intros]:
  assumes "stable E db_ok"
  shows "keeps (\<lambda>w. db_ok (db_of w)) (deleteThreadData E i)"
  unfolding deleteThreadData_def delete_objects_def by (intro keeps_intros preserves_intros assms)

lemma keeps_cleanupMail [keeps_intros]:
  assumes "stable E db_ok"
  shows "keeps (\<lambda>w. db_ok (db_of w)) (cleanupMail E)"
  unfolding cleanupMail_def purge_def
  by (intro keeps_intros assms) (auto simp: cleanup_statements_def intro: preserves_intros)

section \<open>What a deletion does\<close>

text \<open>Two databases with the same rows, which may differ in the objects.\<close>

definition same_rows :: "db \<Rightarrow> db \<Rightarrow> bool" where
  "same_rows d d' \<longleftrightarrow> d' = d\<lparr>objects := objects d'\<rparr>"

lemma same_rows_refl [simp]: "same_rows d d"
  by (simp add: same_rows_def)

lemma same_rows_delete [simp]: "same_rows d (r2_delete ks d)" "same_rows d (r2_put k v d)"
  by (simp_all add: same_rows_def r2_delete_def r2_put_def)

lemma same_rows_trans: "same_rows d d' \<Longrightarrow> same_rows d' d'' \<Longrightarrow> same_rows d d''"
  unfolding same_rows_def by (metis db.surjective db.update_convs(12))

lemma same_rows_sel:
  assumes "same_rows d d'"
  shows "threads d' = threads d" "messages d' = messages d" "attachments d' = attachments d" "events d' = events d"
    "forwards d' = forwards d" "mailboxes d' = mailboxes d" "admins d' = admins d" "sessions d' = sessions d"
    "attempts d' = attempts d" "audits d' = audits d" "probes d' = probes d"
  by (subst assms [unfolded same_rows_def], simp)+

lemma same_rows_ok: "same_rows d d' \<Longrightarrow> db_ok d' = db_ok d"
  unfolding same_rows_def by (metis objects_ok)

lemma delete_objects_run:
  assumes "quiet E" "forE cs (\<lambda>c. catchE (r2_remove E c) (\<lambda>_. throwE deletion_incomplete)) w = (r, w')"
  shows "same_rows (db_of w) (db_of w') \<and> (r = Inr () \<longrightarrow> db_of w' = fold (\<lambda>c. r2_delete c) cs (db_of w))
    \<and> (\<forall>e. r = Inl e \<longrightarrow> e = deletion_incomplete)"
  using assms(2)
proof (induction cs arbitrary: w)
  case (Cons c cs)
  obtain q w1 where one: "r2_remove E c w = (q, w1)" by fastforce
  have rows: "same_rows (db_of w) (db_of w1)"
    using external_db [OF assms(1), of "\<lambda>d. (Inr (), r2_delete c d)" w q w1] one by (auto simp: r2_remove_def r2_call_def)
  show ?case
  proof (cases q)
    case (Inl e)
    then have "catchE (r2_remove E c) (\<lambda>_. throwE deletion_incomplete) w = (Inl deletion_incomplete, w1)"
      using one by (simp add: catchE_def)
    then have "r = Inl deletion_incomplete" "w' = w1" using Cons.prems by (simp_all add: bindE_Inl)
    then show ?thesis using rows by simp
  next
    case (Inr u)
    then have "catchE (r2_remove E c) (\<lambda>_. throwE deletion_incomplete) w = (Inr (), w1)"
      using one by (simp add: catchE_def)
    then have rest: "forE cs (\<lambda>c. catchE (r2_remove E c) (\<lambda>_. throwE deletion_incomplete)) w1 = (r, w')"
      using Cons.prems by (simp add: bindE_Inr)
    have "db_of w1 = r2_delete c (db_of w)" using one Inr r2_step [OF assms(1)] by (simp add: r2_remove_def)
    then show ?thesis using Cons.IH [OF rest] same_rows_trans [OF rows] by simp
  qed
qed (auto simp: returnE_def)

definition without_events :: "jstr list \<Rightarrow> db \<Rightarrow> db" where
  "without_events ids d = d\<lparr>events := filter (\<lambda>e. e_message e \<notin> Some ` set ids) (events d)\<rparr>"

lemma void_Inr: "void s d = (Inr u, d') \<longleftrightarrow> (\<exists>x. s d = (Inr x, d'))"
  by (auto simp: void_def split: prod.splits sum.splits)

lemma delete_events_Inr: "delete_events p d = (Inr n, d') \<Longrightarrow> d' = d\<lparr>events := filter (\<lambda>e. \<not> p e) (events d)\<rparr>"
  by (auto simp: delete_events_def constrained_Inr)

lemma delete_events_run:
  assumes "quiet E" "forE ids (\<lambda>m. external E (void (delete_events (\<lambda>e. e_message e = Some m)))) w = (Inr (), w')"
  shows "db_of w' = without_events ids (db_of w)"
  using assms(2)
proof (induction ids arbitrary: w)
  case (Cons m ids)
  then obtain u w1 where one: "external E (void (delete_events (\<lambda>e. e_message e = Some m))) w = (Inr u, w1)"
    and rest: "forE ids (\<lambda>m. external E (void (delete_events (\<lambda>e. e_message e = Some m)))) w1 = (Inr (), w')"
    by (auto elim: bindE_InrE)
  have "db_of w1 = (db_of w)\<lparr>events := filter (\<lambda>e. e_message e \<noteq> Some m) (events (db_of w))\<rparr>"
    using external_step [OF assms(1) one] by (auto simp: void_Inr dest: delete_events_Inr)
  then show ?case using Cons.IH [OF rest] by (simp add: without_events_def)
qed (simp add: without_events_def)

definition thread_gone :: "jstr \<Rightarrow> db \<Rightarrow> db" where
  "thread_gone i d =
     (let d1 = fold (\<lambda>c. r2_delete c) (chunks 1000 (unique_keys (thread_keys d i))) d;
          d2 = remove_messages (\<lambda>m. m_thread m = i) (without_events (map m_id (thread_messages d i)) d1)
      in d2\<lparr>threads := filter (\<lambda>t. th_id t \<noteq> i) (threads d2)\<rparr>)"

lemma fold_delete_rows: "same_rows d (fold (\<lambda>c. r2_delete c) cs d)"
  by (induction cs arbitrary: d) (auto intro: same_rows_trans [OF same_rows_delete(1)])

lemma deleteThreadData_run:
  assumes "quiet E" "deleteThreadData E i w = (Inr n, w')"
  shows "db_of w' = thread_gone i (db_of w) \<and> n = length (unique_keys (thread_keys (db_of w) i))"
proof -
  let ?ks = "unique_keys (thread_keys (db_of w) i)"
  obtain keys w1 w2 ids w3 w4 a w5 b where
      s1: "threadR2ObjectKeys E i w = (Inr keys, w1)" and s2: "delete_objects E (unique_keys keys) w1 = (Inr (), w2)"
    and s3: "select E (\<lambda>d. map m_id (thread_messages d i)) w2 = (Inr ids, w3)"
    and s4: "forE ids (\<lambda>m. external E (void (delete_events (\<lambda>e. e_message e = Some m)))) w3 = (Inr (), w4)"
    and s5: "external E (delete_messages (\<lambda>m. m_thread m = i)) w4 = (Inr a, w5)"
    and s6: "external E (delete_threads (\<lambda>t. th_id t = i)) w5 = (Inr b, w')" and n: "n = length (unique_keys keys)"
    using assms(2) unfolding deleteThreadData_def by (auto elim!: bindE_InrE)
  have 1: "keys = thread_keys (db_of w) i" "db_of w1 = db_of w"
    using select_step [OF assms(1) s1 [unfolded threadR2ObjectKeys_def]] by simp_all
  have 2: "db_of w2 = fold (\<lambda>c. r2_delete c) (chunks 1000 ?ks) (db_of w)"
    using delete_objects_run [OF assms(1)] s2 1 by (auto simp: delete_objects_def)
  have 3: "ids = map m_id (thread_messages (db_of w) i)" "db_of w3 = db_of w2"
    using select_step [OF assms(1) s3] same_rows_sel(2) [OF fold_delete_rows] 2 by (auto simp: thread_messages_def)
  have 4: "db_of w4 = without_events ids (db_of w2)" using delete_events_run [OF assms(1) s4] 3 by simp
  have 5: "db_of w5 = remove_messages (\<lambda>m. m_thread m = i) (db_of w4)"
    using external_step [OF assms(1) s5] by (auto simp: delete_messages_def constrained_Inr)
  have 6: "db_of w' = (db_of w5)\<lparr>threads := filter (\<lambda>t. th_id t \<noteq> i) (threads (db_of w5))\<rparr>"
    using external_step [OF assms(1) s6] by (auto simp: delete_threads_def constrained_Inr)
  show ?thesis using 1 2 3 4 5 6 n by (simp add: thread_gone_def Let_def)
qed


text \<open>
  What a deletion of the conversation \<open>i\<close> makes of the database \<open>d\<close>: its row, its messages and everything that belongs to them are gone,
  and so are the objects they name (keys are cut to 1000 characters, the empty one is skipped); all else is as it was, but for replies in
  other conversations, which no longer name a removed message as their parent.
\<close>

definition conversation_keys :: "jstr \<Rightarrow> db \<Rightarrow> jstr set" where
  "conversation_keys i d = take 1000 ` ({k. \<exists>m \<in> set (messages d). m_thread m = i \<and> m_raw_key m = Some k}
     \<union> {at_key a |a. a \<in> set (attachments d) \<and> (\<exists>m \<in> set (messages d). m_thread m = i \<and> m_id m = at_message a)}) - {[]}"

definition conversation_removed :: "jstr \<Rightarrow> db \<Rightarrow> db \<Rightarrow> bool" where
  "conversation_removed i d d' \<longleftrightarrow> (let ids = m_id ` {m \<in> set (messages d). m_thread m = i} in
     threads d' = filter (\<lambda>t. th_id t \<noteq> i) (threads d)
     \<and> messages d' = map (\<lambda>m. if m_parent m \<in> Some ` ids then m\<lparr>m_parent := None\<rparr> else m) (filter (\<lambda>m. m_thread m \<noteq> i) (messages d))
     \<and> attachments d' = filter (\<lambda>a. at_message a \<notin> ids) (attachments d)
     \<and> forwards d' = filter (\<lambda>f. f_message f \<notin> ids) (forwards d)
     \<and> events d' = filter (\<lambda>e. e_message e \<notin> Some ` ids) (events d)
     \<and> mailboxes d' = mailboxes d \<and> admins d' = admins d \<and> sessions d' = sessions d \<and> attempts d' = attempts d
     \<and> audits d' = audits d \<and> probes d' = probes d
     \<and> (\<forall>k. objects d' k = (if k \<in> conversation_keys i d then None else objects d k)))"

lemma thread_keys_set: "set (unique_keys (thread_keys d i)) = conversation_keys i d"
proof -
  have "set (thread_keys d i) = {k. \<exists>m \<in> set (messages d). m_thread m = i \<and> m_raw_key m = Some k}
     \<union> {at_key a |a. a \<in> set (attachments d) \<and> (\<exists>m \<in> set (messages d). m_thread m = i \<and> m_id m = at_message a)}" (is "_ = ?K")
    by (force simp: thread_keys_def thread_messages_def list_ex_iff split: option.splits)
  then show ?thesis unfolding unique_keys_def conversation_keys_def by auto
qed

lemma length_unique_keys: "length (unique_keys (thread_keys d i)) = card (conversation_keys i d)"
  unfolding thread_keys_set [symmetric] by (rule distinct_card [symmetric]) (simp add: unique_keys_def)

lemma fold_delete_objects: "objects (fold (\<lambda>c. r2_delete c) cs d) k = (if k \<in> set (concat cs) then None else objects d k)"
  using r2.delete_all [of k cs d] r2.delete_only [of k cs d] by (simp add: r2_get_def)

lemma clear_ref_as: "clear_ref gone z = (if z \<in> Some ` gone then None else z)"
  by (auto simp: clear_ref_def split: option.split)

lemma thread_gone_removed: "conversation_removed i d (thread_gone i d)"
proof -
  let ?d1 = "fold (\<lambda>c. r2_delete c) (chunks 1000 (unique_keys (thread_keys d i))) d"
  let ?ids = "m_id ` {m \<in> set (messages d). m_thread m = i}"
  note rows = same_rows_sel [OF fold_delete_rows [of d "chunks 1000 (unique_keys (thread_keys d i))"]]
  have ids: "set (map m_id (thread_messages d i)) = ?ids" "set (map m_id (filter (\<lambda>m. m_thread m = i) (messages d))) = ?ids"
    by (auto simp: thread_messages_def)
  have objs: "objects (thread_gone i d) k = (if k \<in> conversation_keys i d then None else objects d k)" for k
    unfolding thread_gone_def Let_def
    by (simp add: remove_messages_def Let_def without_events_def fold_delete_objects thread_keys_set)
  have parent: "m\<lparr>m_parent := if m_parent m \<in> S then None else m_parent m\<rparr> = (if m_parent m \<in> S then m\<lparr>m_parent := None\<rparr> else m)" for m S
    by simp
  have event: "e\<lparr>e_message := if e_message e \<in> S then None else e_message e\<rparr> = e" if "e_message e \<notin> S" for e S
    using that by simp
  have evs: "map (\<lambda>e. e\<lparr>e_message := if e_message e \<in> Some ` S then None else e_message e\<rparr>) (filter (\<lambda>e. e_message e \<notin> Some ` S) es)
      = filter (\<lambda>e. e_message e \<notin> Some ` S) es" for S es
    by (rule map_idI) (auto intro: event)
  show ?thesis
    unfolding conversation_removed_def Let_def
    using objs rows
    by (simp add: thread_gone_def Let_def remove_messages_def without_events_def ids clear_ref_as parent evs del: set_map)
qed

text \<open>
  C13. A deletion is complete and touches nothing else: when \<open>deleteThreadData\<close> returns, no row of the conversation is left, no
  message, attachment, forwarding attempt or delivery event of it, and no object that they name; every other row and object is
  there as before, except that a reply in another conversation no longer names a removed message as its parent.
  The number that it returns is that of the distinct keys it removed.
\<close>

theorem deleteThreadData_complete:
  assumes "quiet E" "deleteThreadData E i w = (Inr n, w')"
  shows "conversation_removed i (db_of w) (db_of w') \<and> n = card (conversation_keys i (db_of w))"
  using deleteThreadData_run [OF assms] by (simp add: thread_gone_removed length_unique_keys)

text \<open>
  C35. A deletion fails closed: when the archive could not be emptied, \<open>deleteThreadData\<close> reports
  \<open>deletion_incomplete\<close> and has not changed a single row, so that a later run finds the objects again.
\<close>

theorem deleteThreadData_fail_closed:
  assumes "quiet E" "deleteThreadData E i w = (Inl deletion_incomplete, w')"
  shows "same_rows (db_of w) (db_of w')"
proof -
  have errors: "remote_error \<noteq> deletion_incomplete" "constraint_error \<noteq> deletion_incomplete"
    by (simp_all add: remote_error_def constraint_error_def deletion_incomplete_def app_error_def)
  have keys: "throws_only (\<lambda>e. e \<noteq> deletion_incomplete) (threadR2ObjectKeys E i)"
    unfolding threadR2ObjectKeys_def by (intro throws_intros errors)
  obtain ks w1 where ks: "threadR2ObjectKeys E i w = (Inr ks, w1)" and
      rest: "bindE (delete_objects E (unique_keys ks)) (\<lambda>_.
       bindE (select E (\<lambda>d. map m_id (thread_messages d i))) (\<lambda>ids.
       bindE (forE ids (\<lambda>m. external E (void (delete_events (\<lambda>e. e_message e = Some m))))) (\<lambda>_.
       bindE (external E (delete_messages (\<lambda>m. m_thread m = i))) (\<lambda>_.
       bindE (external E (delete_threads (\<lambda>t. th_id t = i))) (\<lambda>_.
       returnE (length (unique_keys ks))))))) w1 = (Inl deletion_incomplete, w')"
    using assms(2) throws_onlyD [OF keys] unfolding deleteThreadData_def
    by (cases "threadR2ObjectKeys E i w"; cases "fst (threadR2ObjectKeys E i w)") (auto simp: bindE_Inl bindE_Inr)
  have "delete_objects E (unique_keys ks) w1 = (Inl deletion_incomplete, w')"
    by (rule bindE_thrown [OF rest]) (intro throws_intros errors)
  then have "same_rows (db_of w1) (db_of w')" using delete_objects_run [OF assms(1)] by (simp add: delete_objects_def)
  moreover have "db_of w1 = db_of w" using select_step [OF assms(1) ks [unfolded threadR2ObjectKeys_def]] by simp
  ultimately show ?thesis by simp
qed

section \<open>Deletion succeeds when nothing fails\<close>

lemma distinct_concat_filter: "distinct (concat (map g xs)) \<Longrightarrow> distinct (concat (map g (filter p xs)))"
  by (induction xs) auto

lemma distinct_map_filter_comp: "distinct (map g xs) \<Longrightarrow> distinct (map g (filter p xs))"
  by (induction xs) auto

lemma db_ok_filter_events: "db_ok d \<Longrightarrow> db_ok (d\<lparr>events := filter p (events d)\<rparr>)"
  by (auto simp: db_ok_def rows_ok_def references_ok_def event_rows_ok_def account_rows_ok_def
      distinct_map_filter_comp distinct_concat_filter)

lemma refers_clear:
  "refers z (map m_id ms) \<Longrightarrow> refers (clear_ref (set (map m_id (filter p ms))) z) (map m_id (filter (\<lambda>m. \<not> p m) ms))"
  by (auto simp: refers_def clear_ref_def split: option.splits)

lemma message_rows_ok_remove:
  "message_rows_ok ms \<Longrightarrow> message_rows_ok (map (\<lambda>m. m\<lparr>m_parent := f m\<rparr>) (filter p ms))"
  unfolding message_rows_ok_def by (auto simp: comp_def distinct_map_filter_comp distinct_concat_filter)

lemma db_ok_remove_messages:
  assumes "db_ok d"
  shows "db_ok (remove_messages p d)"
proof -
  let ?gone = "set (map m_id (filter p (messages d)))"
  let ?d = "remove_messages p d"
  have ids: "map m_id (messages ?d) = map m_id (filter (\<lambda>m. \<not> p m) (messages d))"
    by (simp add: remove_messages_def Let_def comp_def)
  have rows: "rows_ok ?d"
    using assms message_rows_ok_remove [of "messages d" "\<lambda>m. clear_ref ?gone (m_parent m)" "\<lambda>m. \<not> p m"]
    unfolding db_ok_def rows_ok_def
    by (auto simp: remove_messages_def Let_def event_rows_ok_def account_rows_ok_def comp_def distinct_map_filter_comp
        distinct_concat_filter)
  have kept: "i \<in> set (map m_id (filter (\<lambda>m. \<not> p m) (messages d)))" if "i \<in> set (map m_id (messages d))" "i \<notin> ?gone" for i
    using that by auto
  have "references_ok ?d"
    unfolding references_ok_def ids
    using assms refers_clear [of _ "messages d" p] kept
    by (auto simp: remove_messages_def Let_def db_ok_def references_ok_def)
  then show ?thesis using rows by (simp add: db_ok_def)
qed

lemma db_ok_remove_thread:
  assumes "db_ok d" "thread_messages d i = []"
  shows "db_ok (d\<lparr>threads := filter (\<lambda>t. th_id t \<noteq> i) (threads d)\<rparr>)"
proof -
  let ?d = "d\<lparr>threads := filter (\<lambda>t. th_id t \<noteq> i) (threads d)\<rparr>"
  have "m_thread m \<noteq> i" if "m \<in> set (messages d)" for m
    using assms(2) that by (auto simp: thread_messages_def filter_empty_conv)
  then have "m_thread m \<in> set (map th_id (threads ?d))" if "m \<in> set (messages d)" for m
    using assms(1) that unfolding db_ok_def references_ok_def by fastforce
  then have "references_ok ?d"
    using assms(1) unfolding db_ok_def references_ok_def by simp
  moreover have "rows_ok ?d"
    using assms(1) unfolding db_ok_def rows_ok_def account_rows_ok_def by (simp add: distinct_map_filter_comp)
  ultimately show ?thesis by (simp add: db_ok_def)
qed

lemma delete_objects_runs:
  assumes "quiet E" "reliable E"
  shows "\<exists>w'. forE cs (\<lambda>c. catchE (r2_remove E c) (\<lambda>_. throwE deletion_incomplete)) w = (Inr (), w')"
proof (induction cs arbitrary: w)
  case (Cons c cs)
  have "catchE (r2_remove E c) (\<lambda>_. throwE deletion_incomplete) w = (Inr (), step_db w (r2_delete c (db_of w)))"
    using assms by (simp add: catchE_def r2_remove_def r2_call_quiet)
  then show ?case using Cons.IH by (simp add: bindE_Inr)
qed simp

lemma delete_events_runs:
  assumes "quiet E" "reliable E" "db_ok (db_of w)"
  shows "\<exists>w'. forE ids (\<lambda>m. external E (void (delete_events (\<lambda>e. e_message e = Some m)))) w = (Inr (), w') \<and> db_ok (db_of w')"
  using assms(3)
proof (induction ids arbitrary: w)
  case (Cons m ids)
  let ?d = "(db_of w)\<lparr>events := filter (\<lambda>e. e_message e \<noteq> Some m) (events (db_of w))\<rparr>"
  have ok: "db_ok ?d" using Cons.prems by (rule db_ok_filter_events)
  then have "external E (void (delete_events (\<lambda>e. e_message e = Some m))) w = (Inr (), step_db w ?d)"
    using assms(1,2) by (simp add: external_quiet void_def delete_events_def constrained_def)
  then show ?case using Cons.IH [of "step_db w ?d"] ok by (simp add: bindE_Inr)
qed auto

lemma deleteThreadData_runs:
  assumes "quiet E" "reliable E" "db_ok (db_of w)"
  shows "\<exists>w'. deleteThreadData E i w = (Inr (length (unique_keys (thread_keys (db_of w) i))), w')
    \<and> thread_messages (db_of w') i = [] \<and> db_ok (db_of w')"
proof -
  let ?ks = "unique_keys (thread_keys (db_of w) i)"
  let ?w1 = "step_db w (db_of w)"
  have s1: "threadR2ObjectKeys E i w = (Inr (thread_keys (db_of w) i), ?w1)"
    using assms by (simp add: threadR2ObjectKeys_def select_quiet)
  obtain w2 where s2: "delete_objects E ?ks ?w1 = (Inr (), w2)"
    using delete_objects_runs [OF assms(1,2)] by (auto simp: delete_objects_def)
  have "same_rows (db_of ?w1) (db_of w2)" using delete_objects_run [OF assms(1) s2 [unfolded delete_objects_def]] by blast
  then have rows: "same_rows (db_of w) (db_of w2)" by simp
  have ok2: "db_ok (db_of w2)" using rows assms(3) same_rows_ok by simp
  let ?ids = "map m_id (thread_messages (db_of w) i)"
  let ?w3 = "step_db w2 (db_of w2)"
  have s3: "select E (\<lambda>d. map m_id (thread_messages d i)) w2 = (Inr ?ids, ?w3)"
    using assms same_rows_sel(2) [OF rows] by (simp add: select_quiet thread_messages_def)
  obtain w4 where s4: "forE ?ids (\<lambda>m. external E (void (delete_events (\<lambda>e. e_message e = Some m)))) ?w3 = (Inr (), w4)" and ok4: "db_ok (db_of w4)"
    using delete_events_runs [OF assms(1,2), of ?w3] ok2 by auto
  let ?d5 = "remove_messages (\<lambda>m. m_thread m = i) (db_of w4)"
  let ?w5 = "step_db w4 ?d5"
  have ok5: "db_ok ?d5" using ok4 by (rule db_ok_remove_messages)
  have none: "thread_messages ?d5 i = []" by (simp add: thread_messages_def remove_messages_def Let_def filter_empty_conv)
  have s5: "external E (delete_messages (\<lambda>m. m_thread m = i)) w4 = (Inr (count_rows (\<lambda>m. m_thread m = i) (messages (db_of w4))), ?w5)"
    using assms ok5 by (simp add: external_quiet delete_messages_def constrained_def)
  let ?d6 = "?d5\<lparr>threads := filter (\<lambda>t. th_id t \<noteq> i) (threads ?d5)\<rparr>"
  have ok6: "db_ok ?d6" by (rule db_ok_remove_thread [OF ok5 none])
  have s6: "external E (delete_threads (\<lambda>t. th_id t = i)) ?w5 = (Inr (count_rows (\<lambda>t. th_id t = i) (threads ?d5)), step_db ?w5 ?d6)"
    using assms ok6 by (simp add: external_quiet delete_threads_def constrained_def)
  have "deleteThreadData E i w = (Inr (length ?ks), step_db ?w5 ?d6)"
    unfolding deleteThreadData_def by (simp only: bindE_app s1 s2 s3 s4 s5 s6 prod.case sum.case returnE_app)
  then show ?thesis using ok6 none by (auto simp: thread_messages_def)
qed

text \<open>
  C36. Deletion always gets through when nothing fails: on a database that satisfies its constraints,
  with no lost calls and no interference, \<open>deleteThreadData\<close> returns the number of objects it removed,
  the conversation is gone with everything that belongs to it, and the constraints still hold (no foreign key stands in the way).
\<close>

theorem deleteThreadData_succeeds:
  assumes "quiet E" "reliable E" "db_ok (db_of w)"
  shows "\<exists>w'. deleteThreadData E i w = (Inr (card (conversation_keys i (db_of w))), w')
    \<and> conversation_removed i (db_of w) (db_of w') \<and> db_ok (db_of w')"
proof -
  obtain n w' where run: "deleteThreadData E i w = (Inr n, w')" "db_ok (db_of w')" using deleteThreadData_runs [OF assms] by blast
  then show ?thesis using deleteThreadData_run [OF assms(1) run(1)] by (auto simp: thread_gone_removed length_unique_keys)
qed

section \<open>Only expired conversations are deleted\<close>

text \<open>The row and the messages of one conversation, as an invariant of the other steps.\<close>

definition holds_thread :: "thread \<Rightarrow> jstr list \<Rightarrow> db \<Rightarrow> bool" where
  "holds_thread t ids d \<longleftrightarrow> db_ok d \<and> t \<in> set (threads d) \<and> map m_id (thread_messages d (th_id t)) = ids"

lemma holds_thread_rows: "same_rows d d' \<Longrightarrow> holds_thread t ids d' = holds_thread t ids d"
  by (simp add: holds_thread_def same_rows_ok same_rows_sel thread_messages_def)

lemma holds_remove: "holds_thread t ids d \<Longrightarrow> th_id t \<noteq> i \<Longrightarrow> db_ok (remove_messages (\<lambda>m. m_thread m = i) d)
    \<Longrightarrow> holds_thread t ids (remove_messages (\<lambda>m. m_thread m = i) d)"
  by (auto simp: holds_thread_def remove_messages_def Let_def thread_messages_def filter_map comp_def conj_commute
      intro!: arg_cong [of _ _ "map m_id"] filter_cong)

lemma preserves_holds:
  "preserves (holds_thread t ids) (void (delete_events p))"
  "th_id t \<noteq> i \<Longrightarrow> preserves (holds_thread t ids) (delete_messages (\<lambda>m. m_thread m = i))"
  "th_id t \<noteq> i \<Longrightarrow> preserves (holds_thread t ids) (delete_threads (\<lambda>x. th_id x = i))"
  "preserves (holds_thread t ids) (delete_audits c)" "preserves (holds_thread t ids) (delete_probes c)"
  "preserves (holds_thread t ids) (delete_forwards c)"
proof -
  show "preserves (holds_thread t ids) (void (delete_events p))"
    by (rule preserves_void) (auto simp: preserves_def delete_events_def constrained_def holds_thread_def thread_messages_def)
  assume i: "th_id t \<noteq> i"
  show "preserves (holds_thread t ids) (delete_messages (\<lambda>m. m_thread m = i))"
    using holds_remove [OF _ i] by (auto simp: preserves_def delete_messages_def constrained_def)
  show "preserves (holds_thread t ids) (delete_threads (\<lambda>x. th_id x = i))"
    using i by (auto simp: preserves_def delete_threads_def constrained_def holds_thread_def thread_messages_def)
next
  show "preserves (holds_thread t ids) (delete_audits c)" "preserves (holds_thread t ids) (delete_probes c)"
      "preserves (holds_thread t ids) (delete_forwards c)"
    by (auto simp: preserves_def delete_audits_def delete_probes_def delete_forwards_def constrained_def holds_thread_def thread_messages_def)
qed

lemma keeps_holds_delete:
  assumes "stable E (holds_thread t ids)" "th_id t \<noteq> i"
  shows "keeps (\<lambda>w. holds_thread t ids (db_of w)) (deleteThreadData E i)"
proof -
  have "holds_thread t ids d \<Longrightarrow> holds_thread t ids (r2_delete c d)" for d c
    using holds_thread_rows [OF same_rows_delete(1)] by blast
  then show ?thesis
    unfolding deleteThreadData_def delete_objects_def threadR2ObjectKeys_def r2_remove_def
    by (intro keeps_flow keeps_select keeps_r2_call keeps_external preserves_holds assms)
qed

lemma keeps_holds_purge:
  assumes "stable E (holds_thread t ids)" "th_id t \<notin> set doomed"
  shows "keeps (\<lambda>w. holds_thread t ids (db_of w)) (purge E doomed)"
  unfolding purge_def using assms(2) by (intro keeps_flow keeps_holds_delete assms(1)) auto

lemma oldest_expired:
  assumes "holds_thread t ids d" "\<not> p t"
  shows "th_id t \<notin> set (oldest p since d)"
proof
  assume "th_id t \<in> set (oldest p since d)"
  then obtain x where "x \<in> set (take 50 (sort_key (\<lambda>t. (since t, th_id t)) (filter p (threads d))))" "th_id x = th_id t"
    by (auto simp: oldest_def)
  then have x: "x \<in> set (threads d)" "p x" "th_id x = th_id t"
    using in_set_takeD [of x 50 "sort_key (\<lambda>t. (since t, th_id t)) (filter p (threads d))"] by simp_all
  have "distinct (map th_id (threads d))" using assms(1) by (simp add: holds_thread_def db_ok_def rows_ok_def)
  then have "x = t" using x assms(1) by (auto simp: holds_thread_def distinct_map dest: inj_onD)
  then show False using x(2) assms(2) by simp
qed

text \<open>
  C37. The scheduled cleanup never removes mail before its time: whatever fails and whatever other requests
  do to other conversations in between, a conversation that is neither past the configured retention
  nor in the trash for longer than the trash retention keeps its row and all of its messages, and
  the constraints of the schema hold throughout.
\<close>

theorem cleanup_only_expired:
  assumes "stable E (holds_thread t ids)" "holds_thread t ids (db_of w)"
    "\<forall>k. 0 < messageRetentionDays E \<longrightarrow> \<not> expired (days_before (clock E k) (messageRetentionDays E)) t"
    "\<forall>k. \<not> expired_trash (days_before (clock E k) (trashRetentionDays E)) t"
  shows "holds_thread t ids (db_of (snd (cleanupMail E w)))"
proof -
  have now_bind: "keeps I (bindE (date_now E) f)" if "\<And>k. keeps I (f (clock E k))" for I and f :: "int \<Rightarrow> unit action"
    using that by (simp add: keeps_def bindE_def date_now_def)
  have "keeps (\<lambda>w. holds_thread t ids (db_of w)) (batch E (cleanup_statements s))" for s
    by (rule keeps_batch [OF assms(1)]) (auto simp: cleanup_statements_def intro: preserves_holds)
  moreover have "keeps (\<lambda>w. holds_thread t ids (db_of w)) (purge E (oldest p since d))" if "holds_thread t ids d" "\<not> p t" for p since d
    by (rule keeps_holds_purge [OF assms(1) oldest_expired [of t ids d p since, OF that]])
  ultimately have "keeps (\<lambda>w. holds_thread t ids (db_of w)) (cleanupMail E)"
    unfolding cleanupMail_def using assms(3,4)
    by (intro now_bind keeps_bind keeps_if keeps_return keeps_bind_select [OF assms(1)]) auto
  then show ?thesis using assms(2) by (rule keeps_snd)
qed


section \<open>Examples\<close>

definition old_thread :: thread where
  "old_thread = (new_thread (js ''t1'') None (js ''Hi'') (js ''[]'') (js ''2024'') (js ''2024''))\<lparr>th_status := js ''trash''\<rparr>"

definition example_trash :: db where
  "example_trash = empty_db\<lparr>threads := [old_thread],
     messages := [message_defaults\<lparr>m_id := js ''m1'', m_thread := js ''t1'', m_raw_key := Some (js ''raw/1'')\<rparr>],
     objects := [js ''raw/1'' \<mapsto> []]\<rparr>"

lemma example_trash_ok: "db_ok example_trash"
  by (simp add: example_trash_def old_thread_def db_ok_defs empty_db_def new_thread_def message_defaults_def)

lemma example_trash_keys: "thread_keys example_trash (js ''t1'') = [js ''raw/1'']"
  by (simp add: thread_keys_def thread_messages_def example_trash_def empty_db_def)

lemma example_trash_unique: "unique_keys [js ''raw/1''] = [js ''raw/1'']"
  by (simp add: unique_keys_def)

lemma example_trash_card: "conversation_keys (js ''t1'') example_trash = {js ''raw/1''}"
  using thread_keys_set [of example_trash "js ''t1''"] by (simp add: example_trash_keys example_trash_unique)

lemma example_trash_removed: "conversation_removed (js ''t1'') example_trash d \<Longrightarrow>
    threads d = [] \<and> messages d = [] \<and> objects d (js ''raw/1'') = None"
  by (auto simp: conversation_removed_def Let_def example_trash_card) (simp_all add: example_trash_def old_thread_def new_thread_def)

theorem deleteThreadData_succeeds_witness:
  "\<exists>w'. deleteThreadData example_env (js ''t1'') (start_world example_trash) = (Inr 1, w') \<and> messages (db_of w') = [] \<and> threads (db_of w') = []"
proof -
  have ok: "db_ok (db_of (start_world example_trash))" by (simp add: example_trash_ok)
  show ?thesis
    using deleteThreadData_succeeds [OF example_env_ok(1,2) ok, of "js ''t1''"] example_trash_removed
    by (auto simp: example_trash_card)
qed

lemma example_deletes: "\<exists>n w'. deleteThreadData example_env (js ''t1'') (start_world example_trash) = (Inr n, w')"
  using deleteThreadData_runs [of example_env "start_world example_trash" "js ''t1''"] example_trash_ok by auto

theorem deleteThreadData_complete_witness:
  "\<exists>n w'. deleteThreadData example_env (js ''t1'') (start_world example_trash) = (Inr n, w')
     \<and> n = 1 \<and> objects (db_of w') (js ''raw/1'') = None \<and> threads (db_of w') = [] \<and> objects example_trash (js ''raw/1'') = Some []"
proof -
  obtain n w' where run: "deleteThreadData example_env (js ''t1'') (start_world example_trash) = (Inr n, w')"
    using example_deletes by blast
  have "conversation_removed (js ''t1'') example_trash (db_of w') \<and> n = 1"
    using deleteThreadData_complete [OF _ run] by (simp add: example_trash_card)
  moreover have "objects example_trash (js ''raw/1'') = Some []" by (simp add: example_trash_def)
  ultimately show ?thesis using run example_trash_removed by blast
qed

text \<open>An environment in which the second remote call is lost.\<close>

definition failing_env :: env where
  "failing_env = example_env\<lparr>fault := (\<lambda>k. if k = 1 then Lost else Works)\<rparr>"

theorem deleteThreadData_fail_closed_witness:
  "\<exists>w'. deleteThreadData failing_env (js ''t1'') (start_world example_trash) = (Inl deletion_incomplete, w')
     \<and> same_rows example_trash (db_of w')"
proof -
  have env: "others failing_env k = id" "fault failing_env k = (if k = 1 then Lost else Works)" for k
    by (simp_all add: failing_env_def example_env_def)
  have q: "quiet failing_env" using env by (simp add: quiet_def)
  have one: "delete_objects failing_env [js ''raw/1''] u = (Inl deletion_incomplete, u\<lparr>calls := Suc (calls u)\<rparr>)" if "calls u = 1" for u
    using that by (simp add: delete_objects_def bindE_def catchE_def r2_remove_def r2_call_def external_def env Let_def throwE_def)
  have "threadR2ObjectKeys failing_env (js ''t1'') (start_world example_trash) = (Inr [js ''raw/1''], step_db (start_world example_trash) example_trash)"
    by (simp add: threadR2ObjectKeys_def select_def external_def env query_def Let_def example_trash_keys step_db_def start_world_def)
  then have "\<exists>w'. deleteThreadData failing_env (js ''t1'') (start_world example_trash) = (Inl deletion_incomplete, w')"
    unfolding deleteThreadData_def by (simp add: bindE_Inr bindE_Inl one example_trash_unique)
  then show ?thesis using deleteThreadData_fail_closed [OF q] by fastforce
qed

theorem cleanup_only_expired_witness:
  "holds_thread (hd (threads example_thread_db)) [js ''m1''] (db_of (snd (cleanupMail example_env (start_world example_thread_db))))"
proof (rule cleanup_only_expired)
  show "holds_thread (hd (threads example_thread_db)) [js ''m1''] (db_of (start_world example_thread_db))"
    by (simp add: holds_thread_def thread_messages_def example_thread_db_def new_thread_def db_ok_defs empty_db_def message_defaults_def)
  have "messageRetentionDays example_env = 0" by code_simp
  then show "\<forall>k. 0 < messageRetentionDays example_env \<longrightarrow>
      \<not> expired (days_before (clock example_env k) (messageRetentionDays example_env)) (hd (threads example_thread_db))" by simp
  show "\<forall>k. \<not> expired_trash (days_before (clock example_env k) (trashRetentionDays example_env)) (hd (threads example_thread_db))"
    by (simp add: expired_trash_def example_thread_db_def new_thread_def)
qed simp

end
