(* ===== verification/Forwarding.thy ===== *)
theory Forwarding
  imports Retention
begin

text \<open>
  Forwarding backup copies of incoming mail (\<open>src/src/inbound-forwarding.ts\<close>). Each destination has an
  attempt row per message: \<open>pending\<close>, then \<open>in_flight\<close> while a delivery attempt owns it (a claim
  that is older than fifteen minutes may be taken over), then \<open>accepted\<close> or \<open>failed\<close>. The call
  \<open>message.forward\<close> is a remote call that leaves a \<open>Forwarded\<close> effect.
\<close>

section \<open>Configuration\<close>

record inbound_mail =
  im_from :: jstr
  im_to :: jstr
  im_headers :: "(jstr \<times> jstr) list"
  im_raw :: bytes
  im_raw_size :: nat

definition inboundForwardAddresses :: "env \<Rightarrow> exn + jstr list" where
  "inboundForwardAddresses E =
     (let raw = filter (\<lambda>a. a \<noteq> []) (map (\<lambda>t. normalizeEmail (uni (plat E)) (JStr t))
            (split_runs list_separator (asText (var E ''INBOUND_FORWARD_TO'') 2000)))
      in if list_ex (\<lambda>a. \<not> validEmail a) raw then
           Inl (app_error 503 ''Inbound forwarding contains an invalid address. Fix INBOUND_FORWARD_TO or leave it empty to disable forwarding.''
             ''inbound_forward_invalid_config'')
         else Inr (dedup raw))"

definition header_safe :: "jstr \<Rightarrow> jstr" where
  "header_safe t = trim (replace_runs line_or_tab (js '' '') t)"

definition exn_name :: "exn \<Rightarrow> jstr" where
  "exn_name e = (case e of AppError status message code \<Rightarrow> code | JsError name text \<Rightarrow> name)"

definition exn_message :: "exn \<Rightarrow> jstr" where
  "exn_message e = (case e of AppError status message code \<Rightarrow> message | JsError name text \<Rightarrow> text)"

definition safeForwardError :: "exn \<Rightarrow> jstr \<times> jstr" where
  "safeForwardError e =
     (truncateUtf8 (or_else (header_safe (take 100 (exn_name e))) (js ''Error'')) 100,
      truncateUtf8 (or_else (header_safe (take 2000 (exn_message e))) (js ''Unknown forwarding error'')) 500)"

definition safeAuditHeader :: "jsval \<Rightarrow> nat \<Rightarrow> jstr" where
  "safeAuditHeader v maxBytes = truncateUtf8 (header_safe (asText v maxBytes)) (int maxBytes)"

definition forwardAuditHeaders :: "env \<Rightarrow> inbound_mail \<Rightarrow> jstr \<Rightarrow> jstr \<Rightarrow> jstr \<Rightarrow> (jstr \<times> jstr) list" where
  "forwardAuditHeaders E im messageId envelopeTo target =
     (let internetMessageId = safeAuditHeader (opt_val (header_of (im_headers im) (js ''message-id''))) 500;
          base = set_header ''X-Mailbox-Forward-Target'' (safeAuditHeader (JStr target) 300)
            (set_header ''X-Mailbox-Original-Recipient''
              (safeAuditHeader (JStr (normalizeEmail (uni (plat E)) (JStr envelopeTo))) 300)
              (set_header ''X-Mailbox-Archive-ID'' (safeAuditHeader (JStr messageId) 200) []))
      in if internetMessageId = [] then base else set_header ''X-Mailbox-Original-Message-ID'' internetMessageId base)"

section \<open>Attempts\<close>

definition attempt_of :: "jstr \<Rightarrow> jstr \<Rightarrow> forward_row \<Rightarrow> bool" where
  "attempt_of messageId target f \<longleftrightarrow> f_message f = messageId \<and> nocase (f_target f) = nocase target"

definition update_forwards :: "(forward_row \<Rightarrow> bool) \<Rightarrow> (forward_row \<Rightarrow> forward_row) \<Rightarrow> nat statement" where
  "update_forwards p f = constrained (\<lambda>d. (count_rows p (forwards d), d\<lparr>forwards := map_rows p f (forwards d)\<rparr>))"

definition new_attempt :: "jstr \<Rightarrow> jstr \<Rightarrow> jstr \<Rightarrow> forward_row" where
  "new_attempt messageId target ts =
     \<lparr> f_message = messageId, f_target = target, f_status = js ''pending'', f_attempts = 0, f_last_error = None,
       f_last_attempt_at = None, f_accepted_at = None, f_created_at = ts, f_updated_at = ts \<rparr>"

definition ensureAttemptRows :: "env \<Rightarrow> jstr \<Rightarrow> jstr list \<Rightarrow> jstr \<Rightarrow> unit action" where
  "ensureAttemptRows E messageId targets ts =
     batch E (map (\<lambda>target. void (insert_or_ignore (\<lambda>d. d\<lparr>forwards := forwards d @ [new_attempt messageId target ts]\<rparr>))) targets)"

definition attemptStatus :: "env \<Rightarrow> jstr \<Rightarrow> jstr \<Rightarrow> jstr action" where
  "attemptStatus E messageId target =
     select E (\<lambda>d. case find (attempt_of messageId target) (forwards d) of None \<Rightarrow> [] | Some f \<Rightarrow> take 40 (f_status f))"

text \<open>\<open>datetime(last) <= datetime(now, '-15 minutes')\<close>: seconds, and no answer for a text that is not a time.\<close>

definition stale_claim :: "jstr \<Rightarrow> jstr option \<Rightarrow> bool" where
  "stale_claim ts last_at =
     (case last_at of
        None \<Rightarrow> True
      | Some l \<Rightarrow>
          (case (date_parse (\<lambda>_. None) l, date_parse (\<lambda>_. None) ts) of
             (Some a, Some b) \<Rightarrow> a div 1000 \<le> b div 1000 - 900
           | _ \<Rightarrow> False))"

definition claimable :: "jstr \<Rightarrow> jstr \<Rightarrow> jstr \<Rightarrow> forward_row \<Rightarrow> bool" where
  "claimable messageId target ts f \<longleftrightarrow> attempt_of messageId target f
     \<and> (f_status f = js ''pending'' \<or> f_status f = js ''failed'' \<or> f_status f = js ''in_flight'' \<and> stale_claim ts (f_last_attempt_at f))"

datatype claim = Claimed | Already_Accepted | Busy

definition claimTarget :: "env \<Rightarrow> jstr \<Rightarrow> jstr \<Rightarrow> jstr \<Rightarrow> claim action" where
  "claimTarget E messageId target ts =
     bindE (external E (update_forwards (claimable messageId target ts)
       (\<lambda>f. f\<lparr>f_status := js ''in_flight'', f_attempts := f_attempts f + 1, f_last_error := None,
          f_last_attempt_at := Some ts, f_updated_at := ts\<rparr>))) (\<lambda>changes.
     if changes = 1 then returnE Claimed
     else
       bindE (attemptStatus E messageId target) (\<lambda>status.
       returnE (if status = js ''accepted'' then Already_Accepted else Busy)))"

definition markForwardAccepted :: "env \<Rightarrow> jstr \<Rightarrow> jstr \<Rightarrow> jstr \<Rightarrow> unit action" where
  "markForwardAccepted E messageId target ts =
     bindE (external E (update_forwards (attempt_of messageId target)
       (\<lambda>f. f\<lparr>f_status := js ''accepted'', f_last_error := None,
          f_accepted_at := (case f_accepted_at f of None \<Rightarrow> Some ts | Some t \<Rightarrow> Some t), f_updated_at := ts\<rparr>))) (\<lambda>_. returnE ())"

definition markFailed :: "env \<Rightarrow> jstr \<Rightarrow> jstr \<Rightarrow> exn \<Rightarrow> jstr \<Rightarrow> unit action" where
  "markFailed E messageId target e ts =
     bindE (external E (update_forwards (\<lambda>f. attempt_of messageId target f \<and> f_status f \<noteq> js ''accepted'')
       (\<lambda>f. f\<lparr>f_status := js ''failed'',
          f_last_error := Some (fst (safeForwardError e) @ js '': '' @ snd (safeForwardError e)), f_updated_at := ts\<rparr>))) (\<lambda>_. returnE ())"

section \<open>Forwarding\<close>

definition forward_mail :: "env \<Rightarrow> jstr \<Rightarrow> (jstr \<times> jstr) list \<Rightarrow> unit action" where
  "forward_mail E target headers = (\<lambda>w.
     let k = calls w; w' = w\<lparr>calls := Suc k, db_of := others E k (db_of w)\<rparr>;
         sent = w'\<lparr>effects := effects w @ [Forwarded target headers]\<rparr> in
     case fault E k of
       Works \<Rightarrow> (Inr (), sent)
     | Lost \<Rightarrow> (Inl remote_error, w')
     | Unacked \<Rightarrow> (Inl remote_error, sent))"

text \<open>The targets that were claimed, and how many were already accepted and how many are busy.\<close>

definition claim_one :: "env \<Rightarrow> jstr \<Rightarrow> jstr \<Rightarrow> jstr list \<times> nat \<times> nat \<Rightarrow> jstr \<Rightarrow> (jstr list \<times> nat \<times> nat) action" where
  "claim_one E messageId ts st target =
     bindE (claimTarget E messageId target ts) (\<lambda>c.
     returnE (case st of (claimed, accepted, busy) \<Rightarrow>
       (case c of
          Claimed \<Rightarrow> (claimed @ [target], accepted, busy)
        | Already_Accepted \<Rightarrow> (claimed, accepted + 1, busy)
        | Busy \<Rightarrow> (claimed, accepted, busy + 1))))"

definition claim_targets :: "env \<Rightarrow> jstr \<Rightarrow> jstr \<Rightarrow> jstr list \<Rightarrow> (jstr list \<times> nat \<times> nat) action" where
  "claim_targets E messageId ts targets = foldE (claim_one E messageId ts) ([], 0, 0) targets"

text \<open>
  One claimed target: the counts of accepted and failed targets. The \<open>accepted\<close> count is raised as
  soon as the call returns, before the row is marked.
\<close>

definition forward_one :: "env \<Rightarrow> inbound_mail \<Rightarrow> jstr \<Rightarrow> jstr \<Rightarrow> nat \<times> nat \<Rightarrow> jstr \<Rightarrow> (nat \<times> nat) action" where
  "forward_one E im messageId envelopeTo counts target =
     bindE (attemptE (forward_mail E target (forwardAuditHeaders E im messageId envelopeTo target))) (\<lambda>sent.
     let accepted = fst counts + (case sent of Inr _ \<Rightarrow> 1 | Inl _ \<Rightarrow> 0) in
     bindE (case sent of
         Inl e \<Rightarrow> returnE (Inl e)
       | Inr _ \<Rightarrow> bindE (now E) (\<lambda>ts. attemptE (markForwardAccepted E messageId target ts))) (\<lambda>marked.
     case marked of
       Inr _ \<Rightarrow> returnE (accepted, snd counts)
     | Inl e \<Rightarrow>
         bindE (now E) (\<lambda>ts.
         bindE (markFailed E messageId target e ts) (\<lambda>_.
         returnE (accepted, snd counts + 1)))))"

definition forward_loop_error :: exn where
  "forward_loop_error = app_error 503 ''Inbound forwarding would create a delivery loop.'' ''inbound_forward_loop''"

definition forward_failed_error :: exn where
  "forward_failed_error = app_error 502 ''No inbound backup forwarding destination accepted the request.'' ''inbound_forward_failed''"

definition forwardInboundCopies :: "env \<Rightarrow> inbound_mail \<Rightarrow> jstr \<Rightarrow> jstr \<Rightarrow> unit action" where
  "forwardInboundCopies E im messageId envelopeTo =
     bindE (liftE (inboundForwardAddresses E)) (\<lambda>targets.
     if targets = [] then returnE ()
     else
       bindE (throw_if (normalizeEmail (uni (plat E)) (JStr envelopeTo) \<in> set targets) forward_loop_error) (\<lambda>_.
       bindE (now E) (\<lambda>ts.
       bindE (ensureAttemptRows E messageId targets ts) (\<lambda>_.
       bindE (claim_targets E messageId ts targets) (\<lambda>(claimed, alreadyAccepted, busy).
       bindE (foldE (forward_one E im messageId envelopeTo) (alreadyAccepted, 0) claimed) (\<lambda>(accepted, failed).
       throw_if (accepted = 0 \<and> (failed > 0 \<or> busy > 0)) forward_failed_error))))))"

lemma preserves_update_forwards [preserves_intros]: "preserves db_ok (update_forwards p f)"
  unfolding update_forwards_def by (rule preserves_intros)

lemma keeps_forward_mail [keeps_intros]: "stable E I \<Longrightarrow> keeps (\<lambda>w. I (db_of w)) (forward_mail E t h)"
  by (auto simp: keeps_def forward_mail_def stable_def Let_def split: fault.split)

lemma keeps_forwarding [keeps_intros]:
  assumes "stable E db_ok"
  shows "keeps (\<lambda>w. db_ok (db_of w)) (forwardInboundCopies E im i to)"
  unfolding forwardInboundCopies_def ensureAttemptRows_def claim_targets_def claim_one_def claimTarget_def attemptStatus_def forward_one_def
    markForwardAccepted_def markFailed_def Let_def
  by (intro keeps_intros preserves_intros assms) (auto intro: preserves_intros)

section \<open>Accepted copies\<close>

text \<open>The attempt of a message for a target, if there is one, was accepted, and there is one.\<close>

definition accepted_row :: "jstr \<Rightarrow> jstr \<Rightarrow> db \<Rightarrow> bool" where
  "accepted_row messageId target d \<longleftrightarrow> (\<exists>f \<in> set (forwards d). attempt_of messageId target f)
     \<and> (\<forall>f \<in> set (forwards d). attempt_of messageId target f \<longrightarrow> f_status f = js ''accepted'')"

definition forwards_to :: "jstr \<Rightarrow> effect list \<Rightarrow> effect list" where
  "forwards_to target es = filter (\<lambda>e. case e of Forwarded t h \<Rightarrow> nocase t = nocase target | _ \<Rightarrow> False) es"

lemma accepted_insert: "preserves (accepted_row i t) (void (insert_or_ignore (\<lambda>d. d\<lparr>forwards := forwards d @ [new_attempt j u ts]\<rparr>)))"
proof (rule preserves_void, unfold preserves_def, intro allI impI)
  fix d
  assume acc: "accepted_row i t d"
  let ?d = "d\<lparr>forwards := forwards d @ [new_attempt j u ts]\<rparr>"
  have "accepted_row i t ?d" if "rows_ok ?d"
  proof -
    have "distinct (map (\<lambda>f. (f_message f, nocase (f_target f))) (forwards d @ [new_attempt j u ts]))"
      using that by (simp add: rows_ok_def)
    moreover obtain f where "f \<in> set (forwards d)" "attempt_of i t f" using acc by (auto simp: accepted_row_def)
    ultimately have "\<not> attempt_of i t (new_attempt j u ts)" by (force simp: attempt_of_def)
    then show ?thesis using acc by (auto simp: accepted_row_def)
  qed
  then show "accepted_row i t (snd (insert_or_ignore (\<lambda>d. d\<lparr>forwards := forwards d @ [new_attempt j u ts]\<rparr>) d))"
    using acc by (auto simp: insert_or_ignore_def Let_def)
qed

lemma accepted_update:
  assumes "\<And>f. attempt_of i t (g f) = attempt_of i t f" "\<And>f. attempt_of i t f \<Longrightarrow> f_status f = js ''accepted'' \<Longrightarrow> p f \<Longrightarrow> f_status (g f) = js ''accepted''"
  shows "preserves (accepted_row i t) (update_forwards p g)"
proof (unfold preserves_def, intro allI impI)
  fix d
  assume acc: "accepted_row i t d"
  have "accepted_row i t (d\<lparr>forwards := map_rows p g (forwards d)\<rparr>)"
  proof -
    obtain f where f: "f \<in> set (forwards d)" "attempt_of i t f" using acc by (auto simp: accepted_row_def)
    then have "(if p f then g f else f) \<in> set (map_rows p g (forwards d))" "attempt_of i t (if p f then g f else f)"
      using assms(1) by (auto simp: in_map_rows)
    moreover have "f_status y = js ''accepted''" if "y \<in> set (map_rows p g (forwards d))" "attempt_of i t y" for y
    proof -
      note y = that
      obtain x where x: "x \<in> set (forwards d)" "y = (if p x then g x else x)" using y(1) unfolding in_map_rows by blast
      then have "attempt_of i t x" using y(2) assms(1) by (cases "p x") simp_all
      then show ?thesis using x acc assms(2) by (cases "p x") (simp_all add: accepted_row_def)
    qed
    ultimately show ?thesis by (auto simp: accepted_row_def)
  qed
  then show "accepted_row i t (snd (update_forwards p g d))"
    using acc by (simp add: update_forwards_def constrained_def)
qed

lemma attempt_of_update [simp]:
  "attempt_of i t (f\<lparr>f_status := a, f_attempts := b, f_last_error := c, f_last_attempt_at := e, f_updated_at := g\<rparr>) = attempt_of i t f"
  "attempt_of i t (f\<lparr>f_status := a, f_last_error := c, f_accepted_at := e, f_updated_at := g\<rparr>) = attempt_of i t f"
  "attempt_of i t (f\<lparr>f_status := a, f_last_error := c, f_updated_at := g\<rparr>) = attempt_of i t f"
  by (simp_all add: attempt_of_def)

lemma claim_accepted:
  assumes "stable E (accepted_row i t)"
  shows "triple (holds (accepted_row i t) F) (claimTarget E i u ts)
    (\<lambda>c w. holds (accepted_row i t) F w \<and> (c = Claimed \<longrightarrow> nocase u \<noteq> nocase t)) (\<lambda>_. holds (accepted_row i t) F)"
  unfolding claimTarget_def
proof (rule triple_bind)
  show "triple (holds (accepted_row i t) F)
     (external E (update_forwards (claimable i u ts)
       (\<lambda>f. f\<lparr>f_status := js ''in_flight'', f_attempts := f_attempts f + 1, f_last_error := None,
          f_last_attempt_at := Some ts, f_updated_at := ts\<rparr>)))
     (\<lambda>n w. holds (accepted_row i t) F w \<and> (n = 1 \<longrightarrow> nocase u \<noteq> nocase t)) (\<lambda>_. holds (accepted_row i t) F)"
  proof (rule triple_external [OF assms])
    show "preserves (accepted_row i t) (update_forwards (claimable i u ts)
       (\<lambda>f. f\<lparr>f_status := js ''in_flight'', f_attempts := f_attempts f + 1, f_last_error := None,
          f_last_attempt_at := Some ts, f_updated_at := ts\<rparr>))"
      by (rule accepted_update) (auto simp: claimable_def)
    fix d n d'
    assume acc: "accepted_row i t d" and run: "update_forwards (claimable i u ts)
       (\<lambda>f. f\<lparr>f_status := js ''in_flight'', f_attempts := f_attempts f + 1, f_last_error := None,
          f_last_attempt_at := Some ts, f_updated_at := ts\<rparr>) d = (Inr n, d')"
    show "n = 1 \<longrightarrow> nocase u \<noteq> nocase t"
    proof (intro impI notI)
      assume "n = 1" and same: "nocase u = nocase t"
      then obtain f where f: "f \<in> set (forwards d)" "claimable i u ts f"
        using run count_rows_0 [of "claimable i u ts" "forwards d"] by (auto simp: update_forwards_def constrained_Inr)
      then have "attempt_of i t f" using same by (simp add: claimable_def attempt_of_def)
      then show False using acc f by (auto simp: accepted_row_def claimable_def)
    qed
  qed
next
  fix n
  have fin: "triple (\<lambda>w. holds (accepted_row i t) F w \<and> Q x) (returnE y) (\<lambda>c w. holds (accepted_row i t) F w \<and> (c = Claimed \<longrightarrow> nocase u \<noteq> nocase t))
      (\<lambda>_. holds (accepted_row i t) F)" if "y \<noteq> Claimed" for Q :: "jstr \<Rightarrow> bool" and x y
    using that by (auto intro: triple_return)
  show "triple (\<lambda>w. holds (accepted_row i t) F w \<and> (n = 1 \<longrightarrow> nocase u \<noteq> nocase t))
     (if n = 1 then returnE Claimed
      else bindE (attemptStatus E i u) (\<lambda>status. returnE (if status = js ''accepted'' then Already_Accepted else Busy)))
     (\<lambda>c w. holds (accepted_row i t) F w \<and> (c = Claimed \<longrightarrow> nocase u \<noteq> nocase t)) (\<lambda>_. holds (accepted_row i t) F)"
  proof (cases "n = 1")
    case True
    then show ?thesis by (auto intro: triple_return)
  next
    case False
    have "triple (holds (accepted_row i t) F) (bindE (attemptStatus E i u) (\<lambda>status. returnE (if status = js ''accepted'' then Already_Accepted else Busy)))
       (\<lambda>c w. holds (accepted_row i t) F w \<and> (c = Claimed \<longrightarrow> nocase u \<noteq> nocase t)) (\<lambda>_. holds (accepted_row i t) F)"
      unfolding attemptStatus_def by (rule triple_bind [OF triple_select [OF assms, where Q = "\<lambda>_. True"] fin]) auto
    then show ?thesis using False by (auto elim: triple_conseq)
  qed
qed


lemma forward_other:
  assumes "stable E (accepted_row i t)" "nocase u \<noteq> nocase t"
  shows "triple (holds (accepted_row i t) (\<lambda>es. forwards_to t es = fs)) (forward_one E im i to counts u)
    (\<lambda>_. holds (accepted_row i t) (\<lambda>es. forwards_to t es = fs)) (\<lambda>_. holds (accepted_row i t) (\<lambda>es. forwards_to t es = fs))"
    (is "triple ?J _ _ _")
proof -
  have mail: "triple ?J (forward_mail E u h) (\<lambda>_. ?J) (\<lambda>_. ?J)" for h
    using assms by (auto simp: triple_def forward_mail_def holds_def stable_def forwards_to_def Let_def split: fault.split)
  have mark: "triple ?J (markForwardAccepted E i u ts) (\<lambda>_. ?J) (\<lambda>_. ?J)" for ts
    unfolding markForwardAccepted_def
    by (rule triple_bind [OF triple_external [OF assms(1) accepted_update, where Q = "\<lambda>_. True"]]) (auto intro: triple_return)
  have failed: "triple ?J (markFailed E i u e ts) (\<lambda>_. ?J) (\<lambda>_. ?J)" for e ts
    unfolding markFailed_def
    by (rule triple_bind [OF triple_external [OF assms(1) accepted_update, where Q = "\<lambda>_. True"]]) (auto intro: triple_return)
  have attempt: "triple ?J (attemptE m) (\<lambda>_. ?J) (\<lambda>_. ?J)" if "triple ?J m (\<lambda>_. ?J) (\<lambda>_. ?J)" for m :: "unit action"
    by (rule triple_conseq [OF triple_attempt [OF that]]) (auto split: sum.splits)
  show ?thesis
    unfolding forward_one_def Let_def
    by (rule triple_bind [OF attempt [OF mail]], rule triple_bind [where Q' = "\<lambda>_. ?J"])
       (auto intro!: triple_return triple_bind [OF triple_local(1)] triple_bind [OF failed] attempt mark split: sum.split)
qed

text \<open>
  C10. A backup copy that a destination has accepted is never sent to it again: however often the message
  is delivered to the Worker, and whatever other requests do that leave accepted attempts accepted,
  \<open>forwardInboundCopies\<close> makes no further \<open>forward\<close> call for that target and the attempt stays
  accepted.
\<close>

theorem accepted_copy_not_repeated:
  assumes "stable E (accepted_row i t)" "accepted_row i t (db_of w)"
  shows "forwards_to t (effects (snd (forwardInboundCopies E im i to w))) = forwards_to t (effects w)
    \<and> accepted_row i t (db_of (snd (forwardInboundCopies E im i to w)))"
proof -
  let ?J = "holds (accepted_row i t) (\<lambda>es. forwards_to t es = forwards_to t (effects w))"
  have batch: "triple ?J (ensureAttemptRows E i targets ts) (\<lambda>_. ?J) (\<lambda>_. ?J)" for targets ts
    unfolding ensureAttemptRows_def batch_def
    by (rule triple_conseq [OF triple_external [OF assms(1) preserves_transaction, where Q = "\<lambda>_. True"]]) (auto intro: accepted_insert)
  have claims: "triple (\<lambda>w. ?J w \<and> (\<forall>x \<in> set (fst b). nocase x \<noteq> nocase t)) (foldE (claim_one E i ts) b targets)
      (\<lambda>b w. ?J w \<and> (\<forall>x \<in> set (fst b). nocase x \<noteq> nocase t)) (\<lambda>_. ?J)" for ts targets b
  proof (rule triple_fold)
    fix b :: "jstr list \<times> nat \<times> nat" and u
    show "triple (\<lambda>w. ?J w \<and> (\<forall>x \<in> set (fst b). nocase x \<noteq> nocase t)) (claim_one E i ts b u)
      (\<lambda>b w. ?J w \<and> (\<forall>x \<in> set (fst b). nocase x \<noteq> nocase t)) (\<lambda>_. ?J)"
    proof (rule triple_pure)
      assume True: "\<forall>x \<in> set (fst b). nocase x \<noteq> nocase t"
      show "triple ?J (claim_one E i ts b u) (\<lambda>b w. ?J w \<and> (\<forall>x \<in> set (fst b). nocase x \<noteq> nocase t)) (\<lambda>_. ?J)"
        unfolding claim_one_def
        by (rule triple_bind [OF claim_accepted [OF assms(1)]], rule triple_return)
           (use True in \<open>auto split: prod.split claim.split\<close>)
    qed
  qed
  have sends: "triple ?J (foldE (forward_one E im i to) b us) (\<lambda>_. ?J) (\<lambda>_. ?J)" if "\<forall>x \<in> set us. nocase x \<noteq> nocase t" for b us
    by (rule triple_fold [where I = "\<lambda>_. ?J"]) (use that forward_other [OF assms(1)] in blast)
  have "triple ?J (forwardInboundCopies E im i to) (\<lambda>_. ?J) (\<lambda>_. ?J)"
    unfolding forwardInboundCopies_def claim_targets_def
  proof (rule triple_bind)
    show "triple ?J (liftE (inboundForwardAddresses E)) (\<lambda>_. ?J) (\<lambda>_. ?J)" by (auto simp: triple_def liftE_def split: sum.split)
    fix targets
    let ?rest = "\<lambda>ts. bindE (foldE (claim_one E i ts) ([], 0, 0) targets) (\<lambda>(claimed, alreadyAccepted, busy).
       bindE (foldE (forward_one E im i to) (alreadyAccepted, 0) claimed) (\<lambda>(accepted, failed).
       throw_if (accepted = 0 \<and> (failed > 0 \<or> busy > 0)) forward_failed_error))"
    have rest: "triple ?J (?rest ts) (\<lambda>_. ?J) (\<lambda>_. ?J)" for ts
    proof (rule triple_bind)
      show "triple ?J (foldE (claim_one E i ts) ([], 0, 0) targets) (\<lambda>b w. ?J w \<and> (\<forall>x \<in> set (fst b). nocase x \<noteq> nocase t)) (\<lambda>_. ?J)"
        using claims [of "([], 0, 0)"] by simp
      fix b :: "jstr list \<times> nat \<times> nat"
      show "triple (\<lambda>w. ?J w \<and> (\<forall>x \<in> set (fst b). nocase x \<noteq> nocase t))
         (case b of (claimed, alreadyAccepted, busy) \<Rightarrow>
            bindE (foldE (forward_one E im i to) (alreadyAccepted, 0) claimed) (\<lambda>(accepted, failed).
            throw_if (accepted = 0 \<and> (failed > 0 \<or> busy > 0)) forward_failed_error)) (\<lambda>_. ?J) (\<lambda>_. ?J)"
      proof (rule triple_pure)
        assume True: "\<forall>x \<in> set (fst b). nocase x \<noteq> nocase t"
        obtain c a n where b: "b = (c, a, n)" by (cases b)
        have "triple ?J (bindE (foldE (forward_one E im i to) (a, 0) c) (\<lambda>(accepted, failed).
            throw_if (accepted = 0 \<and> (failed > 0 \<or> n > 0)) forward_failed_error)) (\<lambda>_. ?J) (\<lambda>_. ?J)"
          by (rule triple_bind [OF sends]) (use True b in \<open>auto intro: triple_throw_if split: prod.split\<close>)
        then show "triple ?J (case b of (claimed, alreadyAccepted, busy) \<Rightarrow>
            bindE (foldE (forward_one E im i to) (alreadyAccepted, 0) claimed) (\<lambda>(accepted, failed).
            throw_if (accepted = 0 \<and> (failed > 0 \<or> busy > 0)) forward_failed_error)) (\<lambda>_. ?J) (\<lambda>_. ?J)"
          using b by simp
      qed
    qed
    have "triple ?J (bindE (now E) (\<lambda>ts. bindE (ensureAttemptRows E i targets ts) (\<lambda>_. ?rest ts))) (\<lambda>_. ?J) (\<lambda>_. ?J)"
      by (rule triple_bind [OF triple_local(1)], rule triple_bind [OF batch], rule rest)
    then have "triple ?J (bindE (throw_if (normalizeEmail (uni (plat E)) (JStr to) \<in> set targets) forward_loop_error) (\<lambda>_.
       bindE (now E) (\<lambda>ts. bindE (ensureAttemptRows E i targets ts) (\<lambda>_. ?rest ts)))) (\<lambda>_. ?J) (\<lambda>_. ?J)"
      by - (rule triple_bind [where Q' = "\<lambda>_. ?J"], rule triple_throw_if, assumption+)
    then show "triple ?J (if targets = [] then returnE ()
     else bindE (throw_if (normalizeEmail (uni (plat E)) (JStr to) \<in> set targets) forward_loop_error) (\<lambda>_.
       bindE (now E) (\<lambda>ts. bindE (ensureAttemptRows E i targets ts) (\<lambda>_. ?rest ts)))) (\<lambda>_. ?J) (\<lambda>_. ?J)"
      by (auto intro: triple_return)
  qed
  then show ?thesis
    using assms(2) unfolding triple_keeps by (auto simp: keeps_def holds_def)
qed

definition forwarding_env :: env where
  "forwarding_env = example_env\<lparr>var := (\<lambda>name. JStr (js ''b@c.dd''))\<rparr>"

definition example_mail :: inbound_mail where
  "example_mail = \<lparr> im_from = js ''x@y.zz'', im_to = js ''me@m.example'', im_headers = [], im_raw = [], im_raw_size = 0 \<rparr>"

definition example_accepted :: db where
  "example_accepted = empty_db\<lparr>forwards := [(new_attempt (js ''m1'') (js ''b@c.dd'') (js ''2024''))\<lparr>f_status := js ''accepted''\<rparr>]\<rparr>"

theorem accepted_copy_not_repeated_witness:
  "forwards_to (js ''b@c.dd'') (effects (snd (forwardInboundCopies forwarding_env example_mail (js ''m1'') (js ''me@m.example'')
     (start_world example_accepted)))) = []"
proof -
  have "stable forwarding_env I" for I by (simp add: forwarding_env_def stable_def example_env_def)
  moreover have "accepted_row (js ''m1'') (js ''b@c.dd'') example_accepted"
    by (simp add: accepted_row_def example_accepted_def new_attempt_def attempt_of_def)
  ultimately show ?thesis
    using accepted_copy_not_repeated [of forwarding_env "js ''m1''" "js ''b@c.dd''" "start_world example_accepted"]
    by (simp add: forwards_to_def)
qed

end
