(* ===== verification/Inbound.thy ===== *)
theory Inbound
  imports Forwarding
begin

text \<open>
  Receiving a message (\<open>handleInbound\<close>, \<open>src/src/mail/inbound.ts\<close>): the recipient and size checks, parsing,
  joining a conversation, archiving the raw message under a name of its own, claiming the message row
  (its identifier is a hash of mailbox and content, so a redelivery finds the row taken), storing the
  attachments, and forwarding backup copies.
\<close>

section \<open>Parsing\<close>

definition set_reject :: "string \<Rightarrow> unit action" where
  "set_reject reason = (\<lambda>w. (Inr (), w\<lparr>effects := effects w @ [Set_Reject (js reason)]\<rparr>))"

definition fallback_mail :: "bytes \<Rightarrow> email" where
  "fallback_mail raw = \<lparr> em_headers = [], em_attachments = [], em_text = Some (take 1000000 (text_decode raw)), em_html = None,
     em_subject = None, em_from = [], em_reply_to = [], em_to = [], em_cc = [], em_bcc = [] \<rparr>"

definition parse_inbound :: "env \<Rightarrow> bytes \<Rightarrow> email" where
  "parse_inbound E raw = (case parse_mime E raw of None \<Rightarrow> fallback_mail raw | Some m \<Rightarrow> m)"

definition addresses_json :: "parsed_address list \<Rightarrow> jstr" where
  "addresses_json xs = json_text (JArr (map (\<lambda>p. obj [(''name'', JStr (pa_name p)), (''address'', JStr (pa_address p))]) xs))"

definition inbound_id :: "env \<Rightarrow> jstr \<Rightarrow> bytes \<Rightarrow> jstr" where
  "inbound_id E mailboxId raw = js ''in_'' @ sha256_text E (mailboxId @ js ''|'' @ sha256 E raw)"

definition inbound_references :: "env \<Rightarrow> email \<Rightarrow> jstr" where
  "inbound_references E parsed = join_text (js '' '') (references (header (uni (plat E)) parsed ''references''))"

definition inbound_reply_to :: "env \<Rightarrow> email \<Rightarrow> jstr" where
  "inbound_reply_to E parsed = normalizeInternetMessageId (JStr (header (uni (plat E)) parsed ''in-reply-to''))"

definition inbound_subject :: "email \<Rightarrow> jstr" where
  "inbound_subject parsed = or_else (safeHeaderValue (opt_val (em_subject parsed)) MAX_SUBJECT) (js ''(No subject)'')"

definition mail_header :: "inbound_mail \<Rightarrow> string \<Rightarrow> jsval" where
  "mail_header im name = opt_val (header_of (im_headers im) (js name))"

text \<open>The row that claims the message.\<close>

definition inbound_row :: "env \<Rightarrow> inbound_mail \<Rightarrow> jstr \<Rightarrow> email \<Rightarrow> jstr \<Rightarrow> jstr \<Rightarrow> jstr \<Rightarrow> message" where
  "inbound_row E im mailboxId parsed threadId rawKey ts =
     (let U = uni (plat E);
          textPreview = previewBody (asText (opt_val (em_text parsed)) 1000000) MAX_TEXT_PREVIEW_BYTES;
          htmlPreview = previewBody (sanitizeHtml (asText (opt_val (em_html parsed)) 1000000)) MAX_HTML_PREVIEW_BYTES;
          internetId = normalizeInternetMessageId (js_or (JStr (header U parsed ''message-id'')) (mail_header im ''message-id''));
          xId = or_else (header U parsed ''x-mailbox-mail-id'') (asText (mail_header im ''x-mailbox-mail-id'') 200)
      in message_defaults\<lparr>
        m_id := inbound_id E mailboxId (im_raw im), m_thread := threadId, m_mailbox := Some mailboxId,
        m_direction := js ''incoming'', m_from := Some (normalizeEmail U (JStr (im_from im))),
        m_to := normalizeEmail U (JStr (im_to im)),
        m_from_json := addresses_json (addressArray U (em_from parsed)),
        m_reply_to_json := addresses_json (addressArray U (em_reply_to parsed)),
        m_to_json := addresses_json (addressArray U (em_to parsed)),
        m_cc_json := addresses_json (addressArray U (em_cc parsed)),
        m_bcc_json := addresses_json (addressArray U (em_bcc parsed)),
        m_subject := inbound_subject parsed,
        m_text := text_option (fst textPreview), m_html := text_option (fst htmlPreview),
        m_body_truncated := (snd textPreview \<or> snd htmlPreview),
        m_internet_id := text_option internetId, m_in_reply_to := text_option (inbound_reply_to E parsed),
        m_references := text_option (inbound_references E parsed), m_x_id := text_option xId, m_parent := None,
        m_status := js ''received'', m_is_read := False, m_received_at := Some ts,
        m_raw_key := Some rawKey, m_raw_size := length (im_raw im), m_archive_status := js ''pending'',
        m_created_at := ts, m_updated_at := ts\<rparr>)"

section \<open>Claiming\<close>

definition add_message :: "message \<Rightarrow> nat statement" where
  "add_message m = insert_or_ignore (\<lambda>d. d\<lparr>messages := messages d @ [m]\<rparr>)"

definition drop_empty_thread :: "env \<Rightarrow> jstr \<Rightarrow> unit action" where
  "drop_empty_thread E threadId = ignoreE (external E (delete_thread_if_empty threadId))"

definition claim_failed :: exn where
  "claim_failed = app_error 500 ''Could not claim the incoming message.'' ''inbound_claim_failed''"

text \<open>Archives the raw message; a failure takes the placeholder back.\<close>

definition archive_raw :: "env \<Rightarrow> jstr \<Rightarrow> jstr \<Rightarrow> bytes \<Rightarrow> unit action" where
  "archive_raw E threadId rawKey raw =
     catchE (putR2 E rawKey raw) (\<lambda>e. bindE (drop_empty_thread E threadId) (\<lambda>_. throwE e))"

text \<open>Whether this delivery claimed the row; on any error its own object is removed again.\<close>

definition claim_message :: "env \<Rightarrow> jstr \<Rightarrow> message \<Rightarrow> bool action" where
  "claim_message E rawKey m =
     catchE
       (bindE (external E (add_message m)) (\<lambda>changes.
        if changes = 1 then returnE True
        else
          bindE (findMessage E (m_id m)) (\<lambda>existing.
          bindE (throw_if (existing = None) claim_failed) (\<lambda>_. returnE False))))
       (\<lambda>e.
        bindE (ignoreE (r2_remove E [rawKey])) (\<lambda>_.
        bindE (drop_empty_thread E (m_thread m)) (\<lambda>_. throwE e)))"

definition set_archive_status :: "env \<Rightarrow> jstr \<Rightarrow> (message \<Rightarrow> bool) \<Rightarrow> jstr \<Rightarrow> jstr option \<Rightarrow> unit action" where
  "set_archive_status E messageId p status detail =
     bindE (now E) (\<lambda>ts.
     bindE (external E (update_messages (\<lambda>m. m_id m = messageId \<and> p m)
       (\<lambda>m. m\<lparr>m_archive_status := status, m_last_error := detail, m_updated_at := ts\<rparr>))) (\<lambda>_. returnE ()))"

definition error_code :: "exn \<Rightarrow> jstr" where
  "error_code e = (case e of AppError status message code \<Rightarrow> code | JsError name text \<Rightarrow> js ''attachment_archive_failed'')"

definition store_attachments :: "env \<Rightarrow> jstr \<Rightarrow> jstr \<Rightarrow> attachment_item list \<Rightarrow> unit action" where
  "store_attachments E messageId mailboxId items =
     catchE
       (bindE (storeIncomingAttachments E messageId mailboxId items) (\<lambda>(stored, skipped).
        if skipped > 0 then
          set_archive_status E messageId (\<lambda>_. True) (js ''partial'') (Some (js ''attachment_limit_exceeded:'' @ nat_text skipped))
        else set_archive_status E messageId (\<lambda>m. m_archive_status m = js ''pending'') (js ''archived'') None))
       (\<lambda>e. set_archive_status E messageId (\<lambda>_. True) (js ''partial'') (Some (error_code e)))"

section \<open>The handler\<close>

definition finish_inbound :: "env \<Rightarrow> inbound_mail \<Rightarrow> jstr \<Rightarrow> email \<Rightarrow> message \<Rightarrow> jstr \<Rightarrow> unit action" where
  "finish_inbound E im mailboxId parsed m ts =
     (let U = uni (plat E);
          participants = normalizeEmail U (JStr (im_from im)) # map pa_address (addressArray U (em_to parsed))
            @ map pa_address (addressArray U (em_cc parsed)) in
      bindE (ensureThread E (m_thread m) (Some mailboxId) (m_subject m) participants ts) (\<lambda>_.
      bindE (store_attachments E (m_id m) mailboxId (em_attachments parsed)) (\<lambda>_.
      bindE (refreshThread E (m_thread m)) (\<lambda>_.
      forwardInboundCopies E im (m_id m) (m_to m)))))"

definition receive :: "env \<Rightarrow> inbound_mail \<Rightarrow> jstr \<Rightarrow> unit action" where
  "receive E im mailboxId =
     (let raw = im_raw im; parsed = parse_inbound E raw; messageId = inbound_id E mailboxId raw in
      bindE (now E) (\<lambda>ts.
      bindE (threadFromHeaders E (inbound_reply_to E parsed) (references (inbound_references E parsed)) mailboxId) (\<lambda>joined.
      let threadId = or_else joined (js ''thread_'' @ drop 3 messageId) in
      bindE (createThreadPlaceholder E threadId (Some mailboxId) ts) (\<lambda>_.
      bindE (incomingRawObjectName E) (\<lambda>name.
      bindE (objectPath E (js ''incoming'') mailboxId messageId name) (\<lambda>rawKey.
      bindE (archive_raw E threadId rawKey raw) (\<lambda>_.
      let m = inbound_row E im mailboxId parsed threadId rawKey ts in
      bindE (claim_message E rawKey m) (\<lambda>inserted.
      if inserted then finish_inbound E im mailboxId parsed m ts
      else
        bindE (ignoreE (r2_remove E [rawKey])) (\<lambda>_.
        bindE (drop_empty_thread E threadId) (\<lambda>_.
        forwardInboundCopies E im messageId (m_to m)))))))))))"

definition handleInbound :: "env \<Rightarrow> inbound_mail \<Rightarrow> unit action" where
  "handleInbound E im =
     (if im_raw_size im > MAX_RAW_BYTES then set_reject ''Message exceeds the 20 MB mailbox limit.''
      else
        bindE (mailboxByAddress E (normalizeEmail (uni (plat E)) (JStr (im_to im)))) (\<lambda>found.
        case found of
          None \<Rightarrow> set_reject ''Unknown or inactive recipient.''
        | Some mb \<Rightarrow>
            if \<not> mb_can_receive mb then set_reject ''Unknown or inactive recipient.''
            else if length (im_raw im) > MAX_RAW_BYTES then set_reject ''Message exceeds the 20 MB mailbox limit.''
            else receive E im (mb_id mb)))"

lemma preserves_add_message [preserves_intros]: "preserves db_ok (add_message m)"
  unfolding add_message_def by (rule preserves_intros)

lemma keeps_set_reject [keeps_intros]: "keeps (\<lambda>w. I (db_of w)) (set_reject reason)"
  by (simp add: keeps_def set_reject_def)

lemma keeps_inbound_parts [keeps_intros]:
  assumes "stable E db_ok"
  shows "keeps (\<lambda>w. db_ok (db_of w)) (drop_empty_thread E t)" "keeps (\<lambda>w. db_ok (db_of w)) (archive_raw E t k raw)"
    "keeps (\<lambda>w. db_ok (db_of w)) (claim_message E k m)" "keeps (\<lambda>w. db_ok (db_of w)) (store_attachments E i b items)"
    "keeps (\<lambda>w. db_ok (db_of w)) (finish_inbound E im b p m ts)"
  unfolding drop_empty_thread_def archive_raw_def claim_message_def store_attachments_def finish_inbound_def set_archive_status_def
    Let_def
  by (intro keeps_intros preserves_intros assms)+

lemma keeps_handleInbound [keeps_intros]:
  assumes "stable E db_ok"
  shows "keeps (\<lambda>w. db_ok (db_of w)) (handleInbound E im)"
  unfolding handleInbound_def receive_def Let_def by (intro keeps_intros assms)

end
