(* ===== verification/Mime_Out.thy ===== *)
theory Mime_Out
  imports Inbound
begin

text \<open>
  The plan of a message that is to be sent (\<open>SendPlan\<close> of \<open>src/src/mail/types.ts\<close>) and the raw MIME
  message that is archived for it (\<open>rawOutgoingMessage\<close>, \<open>src/src/mail/outbound.ts\<close>). The lemmas show that the
  header block is one line per header, whatever the subject and the names are.
\<close>

record send_plan =
  p_body :: jsval
  p_mailbox :: mailbox
  p_to :: "jstr list"
  p_cc :: "jstr list"
  p_bcc :: "jstr list"
  p_subject :: jstr
  p_html :: jstr
  p_text :: jstr
  p_uploads :: "upload list"
  p_parent :: "message option"
  p_thread :: jstr
  p_hash :: jstr

section \<open>The raw message\<close>

definition utc_date :: "env \<Rightarrow> jstr \<Rightarrow> jstr" where
  "utc_date E t = (case date_parse (date_ext (plat E)) t of None \<Rightarrow> js ''Invalid Date'' | Some ms \<Rightarrow> utc_text ms)"

definition in_quotes :: "jstr \<Rightarrow> jstr" where
  "in_quotes t = [34] @ t @ [34]"

definition outgoing_headers :: "env \<Rightarrow> jstr \<Rightarrow> jstr list \<Rightarrow> jstr list \<Rightarrow> jstr \<Rightarrow> jstr \<Rightarrow> jstr \<Rightarrow> jstr \<Rightarrow> jstr \<Rightarrow> jstr list" where
  "outgoing_headers E from to cc subject messageId timestamp inReplyTo refs =
     filter (\<lambda>h. h \<noteq> [])
       [js ''From: '' @ from,
        js ''To: '' @ join_text (js '', '') to,
        if cc \<noteq> [] then js ''Cc: '' @ join_text (js '', '') cc else [],
        js ''Subject: '' @ mimeHeader subject,
        js ''Date: '' @ utc_date E timestamp,
        js ''Message-ID: '' @ messageId,
        if inReplyTo \<noteq> [] then js ''In-Reply-To: '' @ inReplyTo else [],
        if refs \<noteq> [] then js ''References: '' @ refs else [],
        js ''MIME-Version: 1.0'']"

definition text_part :: "string \<Rightarrow> jstr \<Rightarrow> jstr list" where
  "text_part subtype body =
     [js ''Content-Type: text/'' @ js subtype @ js ''; charset=UTF-8'', js ''Content-Transfer-Encoding: base64'', [],
      wrapBase64 (bytesToBase64 (utf8 body))]"

definition dashed :: "jstr \<Rightarrow> jstr" where
  "dashed boundary = js ''--'' @ boundary"

definition upload_part :: "jstr \<Rightarrow> upload \<Rightarrow> exn + jstr list" where
  "upload_part mixed u =
     (case encode_uri (up_filename u) of
        None \<Rightarrow> Inl uri_error
      | Some name \<Rightarrow> Inr
          [dashed mixed,
           js ''Content-Type: '' @ up_content_type u @ js ''; name*=UTF-8'' @ [39, 39] @ name,
           js ''Content-Transfer-Encoding: base64'',
           js ''Content-Disposition: attachment; filename*=UTF-8'' @ [39, 39] @ name,
           [], wrapBase64 (up_content u)])"

definition body_parts :: "jstr \<Rightarrow> jstr \<Rightarrow> jstr \<Rightarrow> jstr list" where
  "body_parts alternative plainText html =
     (if html \<noteq> [] then
        [js ''Content-Type: multipart/alternative; boundary='' @ in_quotes alternative, [], dashed alternative]
        @ text_part ''plain'' plainText @ [dashed alternative] @ text_part ''html'' html @ [dashed alternative @ js ''--'']
      else text_part ''plain'' plainText)"

definition rawOutgoingMessage ::
  "env \<Rightarrow> jstr \<Rightarrow> jstr list \<Rightarrow> jstr list \<Rightarrow> jstr \<Rightarrow> jstr \<Rightarrow> jstr \<Rightarrow> jstr \<Rightarrow> jstr \<Rightarrow> upload list \<Rightarrow> jstr \<Rightarrow> jstr \<Rightarrow> bytes action" where
  "rawOutgoingMessage E from to cc subject text html messageId timestamp uploads inReplyTo refs =
     (let headers = outgoing_headers E from to cc subject messageId timestamp inReplyTo refs;
          plainText = or_else text (htmlToText html) in
      if uploads = [] \<and> html = [] then returnE (utf8 (join_text crlf (headers @ text_part ''plain'' plainText)))
      else
        bindE (randomToken E 12) (\<lambda>t1.
        bindE (randomToken E 12) (\<lambda>t2.
        let mixed = js ''mixed_'' @ t1; alternative = js ''alt_'' @ t2 in
        bindE (mapE (\<lambda>u. liftE (upload_part mixed u)) uploads) (\<lambda>parts.
        returnE (utf8 (join_text crlf
          (headers @ [js ''Content-Type: multipart/mixed; boundary='' @ in_quotes mixed, [], dashed mixed]
           @ body_parts alternative plainText html @ concat parts @ [dashed mixed @ js ''--'', []])))))))"

lemma keeps_rawOutgoing [keeps_intros]: "keeps (\<lambda>w. I (db_of w)) (rawOutgoingMessage E f t c s x h m ts us i r)"
  unfolding rawOutgoingMessage_def Let_def by (intro keeps_intros)

section \<open>Headers are single lines\<close>

definition one_line :: "jstr \<Rightarrow> bool" where
  "one_line t \<longleftrightarrow> (\<forall>c \<in> set t. \<not> line_break c)"

lemma one_line_append [simp]: "one_line (s @ t) \<longleftrightarrow> one_line s \<and> one_line t"
  by (auto simp: one_line_def)

lemma one_line_Nil [simp]: "one_line []"
  by (simp add: one_line_def)

lemma one_line_Cons [simp]: "one_line (c # t) \<longleftrightarrow> \<not> line_break c \<and> one_line t"
  by (auto simp: one_line_def)

lemma one_line_join: "one_line sep \<Longrightarrow> \<forall>x \<in> set xs. one_line x \<Longrightarrow> one_line (join_text sep xs)"
  by (induction sep xs rule: join_text.induct) auto

lemma one_line_js: "list_all (\<lambda>c. c \<noteq> CHR 0x0D \<and> c \<noteq> CHR 0x0A) s \<Longrightarrow> one_line (js s)"
proof (induction s)
  case (Cons c s)
  have "(of_char c :: code_unit) \<noteq> 13" "(of_char c :: code_unit) \<noteq> 10"
    using of_char_16_inject [of c "CHR 0x0D"] of_char_16_inject [of c "CHR 0x0A"] Cons.prems by simp_all
  with Cons show ?case by (simp add: js_Cons_unit line_break_def)
qed simp

lemma one_line_sub: "set s \<subseteq> set t \<Longrightarrow> one_line t \<Longrightarrow> one_line s"
  by (auto simp: one_line_def)

lemma one_line_trim: "one_line s \<Longrightarrow> one_line (trim s)"
  using set_trim by (rule one_line_sub)

lemma one_line_replace: "one_line t \<Longrightarrow> (\<And>c. line_break c \<Longrightarrow> p c) \<Longrightarrow> one_line (replace_runs p t s)"
  using set_replace_runs [of p t s] by (fastforce simp: one_line_def)

lemma one_line_unit: "one_line t \<Longrightarrow> one_line s \<Longrightarrow> one_line (replace_unit p t s)"
  using set_replace_unit [of p t s] by (fastforce simp: one_line_def)

lemma one_line_space: "one_line (js '' '')"
  by (rule one_line_js) simp

lemma one_line_safeHeader: "one_line (safeHeaderValue v n)"
  unfolding safeHeaderValue_def by (intro one_line_trim one_line_replace one_line_space)

lemma one_line_display: "one_line (safeDisplayText v n)"
  unfolding safeDisplayText_def stripBidiControls_def
  by (intro one_line_unit one_line_trim one_line_replace one_line_space one_line_Nil) (auto simp: line_break_def line_or_tab_def)

lemma one_line_displayFrom: "one_line (normalizeEmail (uni (plat E)) (JStr (mb_address m))) \<Longrightarrow> one_line (displayFrom E m)"
  unfolding displayFrom_def Let_def one_line_append
  by (intro conjI one_line_unit one_line_display one_line_space one_line_js; simp)

lemma validEmail_units: "validEmail a \<Longrightarrow> c \<in> set a \<Longrightarrow> \<not> js_space c"
proof -
  assume "validEmail a" "c \<in> set a"
  then obtain l d t where "a = l @ [64] @ d @ [46] @ t" "list_all email_unit l" "list_all email_unit d" "list_all email_unit t"
    unfolding validEmail_iff by blast
  moreover have "\<not> js_space 64" "\<not> js_space 46" by (simp_all add: js_space_def)
  ultimately show ?thesis using \<open>c \<in> set a\<close> by (auto simp: list_all_iff email_unit_def)
qed

lemma line_break_space: "line_break c \<Longrightarrow> js_space c"
  by (auto simp: line_break_def js_space_def)

lemma one_line_email: "validEmail a \<Longrightarrow> one_line a"
  using validEmail_units line_break_space by (fastforce simp: one_line_def)

lemma one_line_base64: "one_line (bytesToBase64 bs)"
  using btoa_no_space line_break_space by (fastforce simp: one_line_def bytesToBase64_def)

lemma one_line_mimeHeader: "one_line (mimeHeader s)"
proof (cases "list_all printable_unit s")
  case True
  then show ?thesis by (auto simp: mimeHeader_def one_line_def list_all_iff printable_unit_def line_break_def)
next
  case False
  have "one_line (js ''=?UTF-8?B?'')" "one_line (js ''?='')" by (rule one_line_js; simp)+
  with False show ?thesis by (simp add: mimeHeader_def one_line_base64)
qed

lemma one_line_digits: "one_line (digits k n)"
  using digits_are_digits [of k n] by (auto simp: one_line_def list_all_iff is_digit_def line_break_def)

lemma one_line_names:
  "n < 7 \<Longrightarrow> one_line (js ([''Sat'', ''Sun'', ''Mon'', ''Tue'', ''Wed'', ''Thu'', ''Fri''] ! n))"
  "m < 12 \<Longrightarrow> one_line (js ([''Jan'', ''Feb'', ''Mar'', ''Apr'', ''May'', ''Jun'', ''Jul'', ''Aug'', ''Sep'', ''Oct'', ''Nov'', ''Dec''] ! m))"
  by (rule one_line_js, auto simp: less_Suc_eq numeral_eq_Suc)+

lemma one_line_utc: "one_line (utc_date E t)"
proof -
  have "one_line (utc_text ms)" for ms
    unfolding utc_text_def hms_text_def Let_def one_line_append
    by (intro conjI one_line_digits one_line_names one_line_js month_index_less) (simp_all add: line_break_def)
  moreover have "one_line (js ''Invalid Date'')" by (rule one_line_js) simp
  ultimately show ?thesis by (simp add: utc_date_def split: option.split)
qed

lemma outgoing_headers_one_line:
  assumes "one_line from" "\<forall>a \<in> set (to @ cc). validEmail a" "one_line messageId" "one_line inReplyTo" "one_line refs"
    and "h \<in> set (outgoing_headers E from to cc subject messageId ts inReplyTo refs)"
  shows "h \<noteq> [] \<and> one_line h"
proof -
  have names: "list_all (one_line \<circ> js)
      [''From: '', ''To: '', ''Cc: '', ''Subject: '', ''Date: '', ''Message-ID: '', ''In-Reply-To: '', ''References: '', ''MIME-Version: 1.0'', '', '']"
    by (simp add: one_line_js)
  then have sep: "one_line (js '', '')" by simp
  have "one_line (join_text (js '', '') to)" "one_line (join_text (js '', '') cc)"
    by (rule one_line_join [OF sep], use assms(2) one_line_email in simp)+
  with names assms one_line_mimeHeader [of subject] one_line_utc [of E ts] show ?thesis
    by (auto simp: outgoing_headers_def split: if_splits)
qed

end
