(* ===== verification/Providers.thy ===== *)
theory Providers
  imports Mime_Out
begin

text \<open>
  The outbound providers (\<open>src/src/providers\<close>): Resend, Brevo and the Cloudflare email binding, with
  their capabilities, payloads, the classification of their failures and the state each outcome
  leaves on the message row (\<open>send\<close>), and the registry that picks one. What the three
  promise their callers is the locale \<open>outbound_provider\<close>, interpreted for all of them at the end.
\<close>

section \<open>Capabilities\<close>

datatype provider = Resend | Brevo | Cloudflare

datatype event_channel = Webhook | Queue | No_Channel

record capabilities =
  cap_events :: event_channel
  cap_idempotency :: bool
  cap_window :: "int option"
  cap_max_bytes :: "nat option"
  cap_attachments :: bool
  cap_cc_bcc :: bool
  cap_threading :: bool

definition provider_id :: "provider \<Rightarrow> jstr" where
  "provider_id p = (case p of Resend \<Rightarrow> js ''resend'' | Brevo \<Rightarrow> js ''brevo'' | Cloudflare \<Rightarrow> js ''cloudflare'')"

definition RESEND_SAFE_RETRY_WINDOW_MS :: int where
  "RESEND_SAFE_RETRY_WINDOW_MS = 23 * 60 * 60000"

definition BREVO_SAFE_RETRY_WINDOW_MS :: int where
  "BREVO_SAFE_RETRY_WINDOW_MS = 25 * 60000"

definition CLOUDFLARE_EMAIL_MAX_BYTES :: nat where
  "CLOUDFLARE_EMAIL_MAX_BYTES = 5 * 1024 * 1024"

definition resend_capabilities :: capabilities where
  "resend_capabilities = \<lparr> cap_events = Webhook, cap_idempotency = True, cap_window = Some RESEND_SAFE_RETRY_WINDOW_MS,
     cap_max_bytes = None, cap_attachments = True, cap_cc_bcc = True, cap_threading = True \<rparr>"

definition brevo_capabilities :: capabilities where
  "brevo_capabilities = \<lparr> cap_events = Webhook, cap_idempotency = True, cap_window = Some BREVO_SAFE_RETRY_WINDOW_MS,
     cap_max_bytes = None, cap_attachments = True, cap_cc_bcc = True, cap_threading = False \<rparr>"

definition cloudflare_capabilities :: capabilities where
  "cloudflare_capabilities = \<lparr> cap_events = Queue, cap_idempotency = False, cap_window = None,
     cap_max_bytes = Some CLOUDFLARE_EMAIL_MAX_BYTES, cap_attachments = True, cap_cc_bcc = True, cap_threading = True \<rparr>"

definition provider_capabilities :: "provider \<Rightarrow> capabilities" where
  "provider_capabilities p = (case p of Resend \<Rightarrow> resend_capabilities | Brevo \<Rightarrow> brevo_capabilities | Cloudflare \<Rightarrow> cloudflare_capabilities)"

definition resend_configured :: "env \<Rightarrow> bool" where
  "resend_configured E = truthy (var E ''RESEND_API_KEY'')"

definition brevo_configured :: "env \<Rightarrow> bool" where
  "brevo_configured E = truthy (var E ''BREVO_API_KEY'')"

definition cloudflare_configured :: "env \<Rightarrow> bool" where
  "cloudflare_configured E \<longleftrightarrow> email_binding E \<noteq> None"

definition isConfigured :: "env \<Rightarrow> provider \<Rightarrow> bool" where
  "isConfigured E p = (case p of Resend \<Rightarrow> resend_configured E | Brevo \<Rightarrow> brevo_configured E | Cloudflare \<Rightarrow> cloudflare_configured E)"

section \<open>Shared steps\<close>

definition not_configured :: "string \<Rightarrow> exn" where
  "not_configured message = app_error 503 message ''provider_not_configured''"

definition outcome_unknown :: "string \<Rightarrow> exn" where
  "outcome_unknown message = app_error 503 message ''provider_outcome_unknown''"

text \<open>The row keeps its status once delivery has moved it on: only \<open>sending\<close> and \<open>retryable_failed\<close> are overwritten.\<close>

definition updateRetryableState :: "env \<Rightarrow> jstr \<Rightarrow> jstr \<Rightarrow> jstr \<Rightarrow> unit action" where
  "updateRetryableState E messageId status detail =
     bindE (now E) (\<lambda>ts.
     bindE (external E (update_messages (\<lambda>m. m_id m = messageId \<and> retryable_status (m_status m))
       (\<lambda>m. m\<lparr>m_status := status, m_last_error := Some detail, m_updated_at := ts\<rparr>))) (\<lambda>_. returnE ()))"

definition fill :: "jstr option \<Rightarrow> jstr \<Rightarrow> jstr option" where
  "fill z v = Some (case z of None \<Rightarrow> v | Some t \<Rightarrow> or_else t v)"

definition confirm :: "env \<Rightarrow> jstr \<Rightarrow> jstr \<Rightarrow> jstr action" where
  "confirm E messageId providerMessageId =
     bindE (now E) (\<lambda>ts.
     bindE (external E (update_messages (\<lambda>m. m_id m = messageId)
       (\<lambda>m. m\<lparr>m_provider_message_id := fill (m_provider_message_id m) providerMessageId, m_updated_at := ts\<rparr>))) (\<lambda>_.
     returnE providerMessageId))"

text \<open>A request leaves its trace whatever becomes of it, and others may act before it is answered.\<close>

definition submit :: "env \<Rightarrow> jstr \<Rightarrow> (jstr \<times> jstr) list \<Rightarrow> jsval \<Rightarrow> unit action" where
  "submit E url headers payload =
     (\<lambda>w. (Inr (), w\<lparr>calls := Suc (calls w), db_of := others E (calls w) (db_of w),
        effects := effects w @ [Submitted url headers payload]\<rparr>))"

definition http_post :: "env \<Rightarrow> jstr \<Rightarrow> (jstr \<times> jstr) list \<Rightarrow> jsval \<Rightarrow> outcome action" where
  "http_post E url headers payload =
     (\<lambda>w. case submit E url headers payload w of (_, w') \<Rightarrow> (Inr (network E (calls w) url payload), w'))"

definition reply_ok :: "http_reply \<Rightarrow> bool" where
  "reply_ok r \<longleftrightarrow> 200 \<le> rp_status r \<and> rp_status r \<le> 299"

text \<open>\<open>await response.json().catch(() => ({}))\<close>, and the property access on \<open>null\<close> that throws.\<close>

definition reply_value :: "env \<Rightarrow> http_reply \<Rightarrow> exn + jsval" where
  "reply_value E r = (case json_parse (num_text (plat E)) (rp_body r) of
     None \<Rightarrow> Inr (JObj []) | Some JNull \<Rightarrow> Inl type_error | Some v \<Rightarrow> Inr v)"

definition http_status_text :: "http_reply \<Rightarrow> jstr" where
  "http_status_text r = js ''HTTP '' @ nat_text (rp_status r)"

definition reply_property :: "jsval \<Rightarrow> string \<Rightarrow> jsval" where
  "reply_property v name = js_get v (js name)"

definition some_items :: "jstr list \<Rightarrow> jsval" where
  "some_items xs = (if xs = [] then JUndef else JArr (map JStr xs))"

definition some_text :: "jstr \<Rightarrow> jsval" where
  "some_text t = (if t = [] then JUndef else JStr t)"

definition field_if :: "bool \<Rightarrow> string \<Rightarrow> jsval \<Rightarrow> (string \<times> jsval) list" where
  "field_if c name v = (if c then [(name, v)] else [])"

definition filled :: "jstr option \<Rightarrow> bool" where
  "filled z \<longleftrightarrow> coalesce z [] \<noteq> []"

section \<open>Resend\<close>

definition RESEND_API :: jstr where
  "RESEND_API = js ''https://api.resend.com/emails''"

definition resend_payload :: "env \<Rightarrow> message \<Rightarrow> send_plan \<Rightarrow> jsval" where
  "resend_payload E row plan =
     obj [(''from'', JStr (displayFrom E (p_mailbox plan))), (''to'', JArr (map JStr (p_to plan))),
       (''cc'', some_items (p_cc plan)), (''bcc'', some_items (p_bcc plan)), (''subject'', JStr (m_subject row)),
       (''text'', some_text (p_text plan)), (''html'', some_text (p_html plan)),
       (''tags'', JArr [obj [(''name'', JStr (js ''message_id'')), (''value'', JStr (m_id row))]]),
       (''headers'', obj ([(''X-Mailbox-Mail-ID'', opt_val (m_x_id row))]
          @ field_if (filled (m_in_reply_to row)) ''In-Reply-To'' (opt_val (m_in_reply_to row))
          @ field_if (filled (m_references row)) ''References'' (opt_val (m_references row)))),
       (''attachments'', if p_uploads plan = [] then JUndef
          else JArr (map (\<lambda>u. obj [(''filename'', JStr (up_filename u)), (''content'', JStr (up_content u))]) (p_uploads plan)))]"

definition isRetryableResendResponse :: "nat \<Rightarrow> jstr \<Rightarrow> bool" where
  "isRetryableResendResponse status code \<longleftrightarrow> status = 408 \<or> status = 425 \<or> status = 429 \<or> status \<ge> 500
     \<or> status = 409 \<and> code = js ''concurrent_idempotent_requests''"

definition classifyResendFailure :: "nat \<Rightarrow> jstr \<Rightarrow> string" where
  "classifyResendFailure status code =
     (if isRetryableResendResponse status code then ''provider_retryable''
      else if status = 409 \<and> code = js ''invalid_idempotent_request'' then ''provider_idempotency_mismatch''
      else ''provider_rejected'')"

definition temporarily_rejected :: "nat \<Rightarrow> string \<Rightarrow> exn" where
  "temporarily_rejected status code =
     app_error (if status = 429 then 429 else 503)
       ''The provider temporarily rejected the request. Retry the archived message unchanged.'' code"

definition rejected :: "nat \<Rightarrow> string \<Rightarrow> exn" where
  "rejected status code = app_error status ''Email provider rejected the message.'' code"

definition resend_failure :: "env \<Rightarrow> message \<Rightarrow> http_reply \<Rightarrow> jsval \<Rightarrow> jstr action" where
  "resend_failure E row r result =
     (let providerCode = asText (js_or (reply_property result ''name'') (reply_property result ''code'')) 100;
          providerMessage = or_else (asText (js_or (reply_property result ''message'') (reply_property result ''name'')) 500) (http_status_text r);
          retryAfter = asText (opt_val (header_of (rp_headers r) (js ''Retry-After''))) 100;
          providerError = (if retryAfter = [] then providerMessage else providerMessage @ js ''; retry-after='' @ retryAfter);
          failureCode = classifyResendFailure (rp_status r) providerCode in
      if failureCode = ''provider_retryable'' then
        bindE (updateRetryableState E (m_id row) (js ''retryable_failed'') providerError) (\<lambda>_.
        throwE (temporarily_rejected (rp_status r) failureCode))
      else
        bindE (updateRetryableState E (m_id row) (js ''failed'') providerError) (\<lambda>_.
        throwE (rejected (if failureCode = ''provider_idempotency_mismatch'' then 409 else 422) failureCode)))"

definition resend_headers :: "env \<Rightarrow> message \<Rightarrow> (jstr \<times> jstr) list" where
  "resend_headers E row =
     [(js ''Authorization'', js ''Bearer '' @ js_string (var E ''RESEND_API_KEY'')), (js ''Content-Type'', js ''application/json''),
      (js ''Idempotency-Key'', asText (opt_val (m_idempotency row)) 256)]"

definition resend_send :: "env \<Rightarrow> message \<Rightarrow> send_plan \<Rightarrow> jstr action" where
  "resend_send E row plan =
     bindE (throw_if (\<not> resend_configured E) (not_configured ''RESEND_API_KEY is not configured.'')) (\<lambda>_.
     bindE (http_post E RESEND_API (resend_headers E row) (resend_payload E row plan)) (\<lambda>out.
     case out of
       Replied r \<Rightarrow>
         bindE (liftE (reply_value E r)) (\<lambda>result.
         if reply_ok r then
           (if truthy (reply_property result ''id'') then confirm E (m_id row) (asText (reply_property result ''id'') 200)
            else
              bindE (updateRetryableState E (m_id row) (js ''sending'') (js ''resend_success_without_confirmed_id'')) (\<lambda>_.
              throwE (outcome_unknown ''The provider accepted the request but did not return a confirmation id. Retry the archived message with the same key.'')))
         else resend_failure E row r result)
     | _ \<Rightarrow>
         bindE (updateRetryableState E (m_id row) (js ''sending'')
           (js (if out = Timed_Out then ''resend_timeout_outcome_unknown'' else ''resend_outcome_unknown''))) (\<lambda>_.
         throwE (outcome_unknown ''The provider outcome is unknown. Retry the archived message; the same key prevents duplicates.''))))"

section \<open>Brevo\<close>

definition BREVO_API :: jstr where
  "BREVO_API = js ''https://api.brevo.com/v3/smtp/email''"

definition normalizeSender :: "env \<Rightarrow> mailbox \<Rightarrow> jstr" where
  "normalizeSender E m = to_lower (uni (plat E)) (trim (take 320 (mb_address m)))"

definition email_objects :: "jstr list \<Rightarrow> jsval" where
  "email_objects xs = JArr (map (\<lambda>a. obj [(''email'', JStr a)]) xs)"

definition brevoPayload :: "env \<Rightarrow> message \<Rightarrow> send_plan \<Rightarrow> jsval" where
  "brevoPayload E row plan =
     obj ([(''sender'', obj [(''name'', JStr (take 200 (mb_display_name (p_mailbox plan)))), (''email'', JStr (normalizeSender E (p_mailbox plan)))]),
       (''to'', email_objects (p_to plan))]
       @ field_if (p_cc plan \<noteq> []) ''cc'' (email_objects (p_cc plan))
       @ field_if (p_bcc plan \<noteq> []) ''bcc'' (email_objects (p_bcc plan))
       @ [(''subject'', JStr (take 998 (m_subject row)))]
       @ field_if (p_text plan \<noteq> []) ''textContent'' (JStr (p_text plan))
       @ field_if (p_html plan \<noteq> []) ''htmlContent'' (JStr (p_html plan))
       @ field_if (p_uploads plan \<noteq> []) ''attachment''
           (JArr (map (\<lambda>u. obj [(''name'', JStr (up_filename u)), (''content'', JStr (up_content u))]) (p_uploads plan)))
       @ [(''headers'', obj [(''X-Mailbox-Mail-ID'', opt_val (m_x_id row)), (''idempotencyKey'', JStr (m_id row))]),
          (''tags'', JArr [JStr (js ''mailbox:'' @ m_id row)])])"

definition classifyBrevoFailure :: "nat \<Rightarrow> jstr \<Rightarrow> string" where
  "classifyBrevoFailure status code =
     (if status = 401 \<or> status = 403 then ''provider_auth_failed''
      else if status = 429 then ''provider_retryable''
      else if status = 400 \<and> re_search (words_i [''validation'', ''payload'']) code \<noteq> None then ''provider_rejected''
      else if status \<ge> 500 then ''provider_retryable''
      else ''provider_rejected'')"

definition brevo_failure :: "env \<Rightarrow> message \<Rightarrow> http_reply \<Rightarrow> jsval \<Rightarrow> jstr action" where
  "brevo_failure E row r result =
     (let providerCode = asText (reply_property result ''code'') 100;
          providerMessage = or_else (asText (reply_property result ''message'') 500) (http_status_text r);
          failureCode = classifyBrevoFailure (rp_status r) providerCode in
      if failureCode = ''provider_retryable'' then
        bindE (updateRetryableState E (m_id row) (js ''retryable_failed'') providerMessage) (\<lambda>_.
        throwE (temporarily_rejected (rp_status r) failureCode))
      else
        bindE (updateRetryableState E (m_id row) (js ''failed'') providerMessage) (\<lambda>_.
        throwE (rejected (if rp_status r = 401 \<or> rp_status r = 403 then 503 else 422) failureCode)))"

definition brevo_headers :: "env \<Rightarrow> (jstr \<times> jstr) list" where
  "brevo_headers E = [(js ''api-key'', js_string (var E ''BREVO_API_KEY'')), (js ''content-type'', js ''application/json''),
     (js ''accept'', js ''application/json'')]"

definition brevo_send :: "env \<Rightarrow> message \<Rightarrow> send_plan \<Rightarrow> jstr action" where
  "brevo_send E row plan =
     bindE (throw_if (\<not> brevo_configured E) (not_configured ''BREVO_API_KEY is not configured.'')) (\<lambda>_.
     bindE (http_post E BREVO_API (brevo_headers E) (brevoPayload E row plan)) (\<lambda>out.
     case out of
       Replied r \<Rightarrow>
         bindE (liftE (reply_value E r)) (\<lambda>result.
         if reply_ok r then
           (if truthy (reply_property result ''messageId'') then confirm E (m_id row) (asText (reply_property result ''messageId'') 200)
            else
              bindE (updateRetryableState E (m_id row) (js ''sending'') (js ''brevo_success_without_confirmed_id'')) (\<lambda>_.
              throwE (outcome_unknown ''The provider accepted the request but did not return a confirmation id. Retry the archived message.'')))
         else brevo_failure E row r result)
     | _ \<Rightarrow>
         bindE (updateRetryableState E (m_id row) (js ''sending'')
           (js (if out = Timed_Out then ''brevo_timeout_outcome_unknown'' else ''brevo_outcome_unknown''))) (\<lambda>_.
         throwE (outcome_unknown ''The provider outcome is unknown. Retry the archived message.''))))"

definition serializeOutgoingBytes :: "env \<Rightarrow> message \<Rightarrow> send_plan \<Rightarrow> nat" where
  "serializeOutgoingBytes E row plan = byte_length (json_text (brevoPayload E row plan))"

section \<open>The Cloudflare email binding\<close>

definition cloudflare_rejections :: "string list" where
  "cloudflare_rejections = [''E_VALIDATION_ERROR'', ''E_FIELD_MISSING'', ''E_TOO_MANY_RECIPIENTS'', ''E_TOO_MANY_ATTACHMENTS'',
     ''E_RECIPIENT_NOT_ALLOWED'', ''E_RECIPIENT_SUPPRESSED'']"

definition classifyCloudflareEmailFailure :: "jstr \<Rightarrow> string" where
  "classifyCloudflareEmailFailure code =
     (if code = js ''E_RATE_LIMIT_EXCEEDED'' \<or> code = js ''E_DAILY_LIMIT_EXCEEDED'' then ''provider_rate_limited''
      else if code = js ''E_CONTENT_TOO_LARGE'' then ''provider_payload_too_large''
      else if code = js ''E_SENDER_NOT_VERIFIED'' \<or> code = js ''E_SENDER_DOMAIN_NOT_AVAILABLE'' then ''provider_auth_failed''
      else if code \<in> js ` set cloudflare_rejections then ''provider_rejected''
      else ''provider_outcome_unknown'')"

definition message_timestamp :: "env \<Rightarrow> message \<Rightarrow> jstr action" where
  "message_timestamp E row =
     (case filter (\<lambda>t. t \<noteq> []) [coalesce (m_sent_at row) [], m_created_at row] of t # _ \<Rightarrow> returnE t | [] \<Rightarrow> now E)"

definition estimateProviderMessageBytes :: "env \<Rightarrow> message \<Rightarrow> send_plan \<Rightarrow> nat action" where
  "estimateProviderMessageBytes E row plan =
     bindE (message_timestamp E row) (\<lambda>ts.
     bindE (rawOutgoingMessage E (displayFrom E (p_mailbox plan)) (p_to plan) (p_cc plan @ p_bcc plan)
         (take 998 (m_subject row)) (p_text plan) (p_html plan) (or_else (coalesce (m_internet_id row) []) (m_id row)) ts
         (p_uploads plan) (take 998 (coalesce (m_in_reply_to row) [])) (take 8000 (coalesce (m_references row) []))) (\<lambda>raw.
     returnE (length raw)))"

definition buildCloudflarePayload :: "env \<Rightarrow> message \<Rightarrow> send_plan \<Rightarrow> jsval" where
  "buildCloudflarePayload E row plan =
     obj ([(''from'', JStr (displayFrom E (p_mailbox plan))), (''to'', JArr (map JStr (p_to plan)))]
       @ field_if (p_cc plan \<noteq> []) ''cc'' (JArr (map JStr (p_cc plan)))
       @ field_if (p_bcc plan \<noteq> []) ''bcc'' (JArr (map JStr (p_bcc plan)))
       @ [(''subject'', JStr (take 998 (m_subject row))), (''text'', JStr (p_text plan))]
       @ field_if (p_html plan \<noteq> []) ''html'' (JStr (p_html plan))
       @ [(''headers'', obj ([(''X-Mailbox-Mail-ID'', JStr (take 200 (coalesce (m_x_id row) [])))]
            @ field_if (filled (m_in_reply_to row)) ''In-Reply-To'' (opt_val (m_in_reply_to row))
            @ field_if (filled (m_references row)) ''References'' (opt_val (m_references row))))]
       @ field_if (p_uploads plan \<noteq> []) ''attachments''
           (JArr (map (\<lambda>u. obj [(''content'', JStr (up_content u)), (''filename'', JStr (up_filename u)),
              (''type'', JStr (up_content_type u)), (''disposition'', JStr (js ''attachment''))]) (p_uploads plan))))"

definition EMAIL_BINDING :: jstr where
  "EMAIL_BINDING = js ''EMAIL''"

definition binding_send :: "env \<Rightarrow> (nat \<Rightarrow> jsval \<Rightarrow> (jstr \<times> jstr) + jsval) \<Rightarrow> jsval \<Rightarrow> ((jstr \<times> jstr) + jsval) action" where
  "binding_send E reply payload =
     (\<lambda>w. case submit E EMAIL_BINDING [] payload w of (_, w') \<Rightarrow> (Inr (reply (calls w) payload), w'))"

definition cloudflare_failure :: "env \<Rightarrow> message \<Rightarrow> jstr \<Rightarrow> jstr \<Rightarrow> jstr action" where
  "cloudflare_failure E row code message =
     (let failureCode = classifyCloudflareEmailFailure code; detail = (\<lambda>name. or_else code (js name) @ js '':'' @ take 200 message) in
      if failureCode = ''provider_rate_limited'' then
        bindE (updateRetryableState E (m_id row) (js ''retryable_failed'') (detail ''rate_limited'')) (\<lambda>_.
        throwE (app_error 429 ''The provider is rate limiting requests.'' ''provider_rate_limited''))
      else if failureCode \<in> {''provider_rejected'', ''provider_payload_too_large'', ''provider_auth_failed''} then
        bindE (updateRetryableState E (m_id row) (js ''failed'') (detail ''rejected'')) (\<lambda>_.
        throwE (rejected (if failureCode = ''provider_auth_failed'' then 503 else 422) failureCode))
      else
        bindE (updateRetryableState E (m_id row) (js ''sending'') (js ''cloudflare_outcome_unknown:'' @ take 200 message)) (\<lambda>_.
        throwE (outcome_unknown ''The provider outcome is unknown. Verify the provider record before deciding on a new send.'')))"

definition cloudflare_send :: "env \<Rightarrow> message \<Rightarrow> send_plan \<Rightarrow> jstr action" where
  "cloudflare_send E row plan =
     (case email_binding E of
        None \<Rightarrow> throwE (not_configured ''The EMAIL (send_email) binding is not configured.'')
      | Some reply \<Rightarrow>
          bindE (estimateProviderMessageBytes E row plan) (\<lambda>estimated.
          bindE (throw_if (estimated > CLOUDFLARE_EMAIL_MAX_BYTES)
            (app_error 413 ''Message exceeds the Cloudflare Email Service 5 MiB limit.'' ''provider_payload_too_large'')) (\<lambda>_.
          bindE (binding_send E reply (buildCloudflarePayload E row plan)) (\<lambda>result.
          case result of
            Inl (code, message) \<Rightarrow> cloudflare_failure E row (take 200 code) message
          | Inr v \<Rightarrow>
              let providerMessageId = asText (reply_property v ''messageId'') 200 in
              if providerMessageId = [] then
                bindE (updateRetryableState E (m_id row) (js ''sending'') (js ''cloudflare_success_without_confirmed_id'')) (\<lambda>_.
                throwE (outcome_unknown ''The provider accepted the request but did not return a confirmation id.''))
              else confirm E (m_id row) providerMessageId))))"

section \<open>The registry\<close>

definition REGISTRY :: "provider list" where
  "REGISTRY = [Resend, Brevo, Cloudflare]"

definition getProviderById :: "jstr \<Rightarrow> provider option" where
  "getProviderById i = find (\<lambda>p. provider_id p = i) REGISTRY"

definition configuredProviderId :: "env \<Rightarrow> jstr option" where
  "configuredProviderId E =
     (let configured = to_lower (uni (plat E)) (or_else (var_text E ''OUTBOUND_PROVIDER'') (js ''none'')) in
      if configured = js ''none'' then None
      else (case getProviderById configured of
          Some p \<Rightarrow> if isConfigured E p then Some (provider_id p) else None
        | None \<Rightarrow> None))"

definition getOutboundProvider :: "env \<Rightarrow> provider option" where
  "getOutboundProvider E = (case configuredProviderId E of None \<Rightarrow> None | Some i \<Rightarrow> getProviderById i)"

text \<open>A pinned provider that lost its credentials is an \<open>Error\<close>, not an \<open>AppError\<close>.\<close>

definition pinned_unconfigured :: "jstr \<Rightarrow> exn" where
  "pinned_unconfigured pinned = JsError (js ''Error'') (js ''provider '' @ pinned @ js '' is not configured for retry of archived message.'')"

definition pinned_id :: "message \<Rightarrow> jstr" where
  "pinned_id row = coalesce (m_provider row) []"

definition providerForMessage :: "env \<Rightarrow> message \<Rightarrow> exn + provider option" where
  "providerForMessage E row =
     (if pinned_id row = [] \<or> pinned_id row = js ''none'' then Inr None
      else (case getProviderById (pinned_id row) of
          None \<Rightarrow> Inr None
        | Some p \<Rightarrow> if isConfigured E p then Inr (Some p) else Inl (pinned_unconfigured (pinned_id row))))"

definition provider_send :: "provider \<Rightarrow> env \<Rightarrow> message \<Rightarrow> send_plan \<Rightarrow> jstr action" where
  "provider_send p = (case p of Resend \<Rightarrow> resend_send | Brevo \<Rightarrow> brevo_send | Cloudflare \<Rightarrow> cloudflare_send)"

definition provider_endpoint :: "provider \<Rightarrow> jstr" where
  "provider_endpoint p = (case p of Resend \<Rightarrow> RESEND_API | Brevo \<Rightarrow> BREVO_API | Cloudflare \<Rightarrow> EMAIL_BINDING)"

lemma getProviderById_id [simp]: "getProviderById (provider_id p) = Some p"
  by (cases p) (simp_all add: getProviderById_def REGISTRY_def provider_id_def)

lemma getProviderById_Some: "getProviderById i = Some p \<Longrightarrow> i = provider_id p"
  by (simp add: getProviderById_def find_Some_iff) blast

lemma getOutboundProvider_configured: "getOutboundProvider E = Some p \<Longrightarrow> isConfigured E p"
  by (auto simp: getOutboundProvider_def configuredProviderId_def Let_def split: option.splits if_splits)

lemma providerForMessage_pinned: "providerForMessage E row = Inr (Some p) \<Longrightarrow> pinned_id row = provider_id p \<and> isConfigured E p"
  by (auto simp: providerForMessage_def dest: getProviderById_Some split: option.splits if_splits)

section \<open>Quiet steps\<close>

text \<open>Steps that submit nothing.\<close>

lemma effects_external [intro!]: "keeps (\<lambda>w. F (effects w)) (external E s)"
  by (auto simp: keeps_def external_def Let_def split: fault.split prod.split)

lemma effects_local [intro!]:
  "keeps (\<lambda>w. F (effects w)) (now E)" "keeps (\<lambda>w. F (effects w)) (date_now E)" "keeps (\<lambda>w. F (effects w)) (uuid E)"
  "keeps (\<lambda>w. F (effects w)) (randomToken E n)" "keeps (\<lambda>w. F (effects w)) (select E f)" "keeps (\<lambda>w. F (effects w)) (r2_call E h)"
  "keeps (\<lambda>w. F (effects w)) (batch E ss)"
  by (auto simp: select_def r2_call_def batch_def) (auto simp: keeps_def now_def date_now_def uuid_def randomToken_def)

lemmas silent_intros = keeps_flow effects_external effects_local

lemma silent_updates:
  "keeps (\<lambda>w. F (effects w)) (updateRetryableState E i st detail)" "keeps (\<lambda>w. F (effects w)) (confirm E i p)"
  unfolding updateRetryableState_def confirm_def by (intro silent_intros)+

lemma silent_raw: "keeps (\<lambda>w. F (effects w)) (rawOutgoingMessage E f t c s x h m ts us i r)"
  unfolding rawOutgoingMessage_def Let_def by (intro silent_intros)

lemma silent_estimate: "keeps (\<lambda>w. F (effects w)) (estimateProviderMessageBytes E row plan)"
  unfolding estimateProviderMessageBytes_def message_timestamp_def
  by (intro silent_intros silent_raw) (auto intro: silent_intros split: list.split)

lemma silent_failures:
  "keeps (\<lambda>w. F (effects w)) (resend_failure E row r v)" "keeps (\<lambda>w. F (effects w)) (brevo_failure E row r v)"
  "keeps (\<lambda>w. F (effects w)) (cloudflare_failure E row c t)"
  unfolding resend_failure_def brevo_failure_def cloudflare_failure_def Let_def by (intro silent_intros silent_updates)+

section \<open>The contract\<close>

text \<open>
  What a delivery may do to a row: its status when it is still open, its error, its timestamp and the
  provider's identifier. A predicate that survives every such edit of row \<open>i\<close> survives a delivery of it.
\<close>

definition delivery_edit :: "message \<Rightarrow> message \<Rightarrow> bool" where
  "delivery_edit m m' \<longleftrightarrow> (\<exists>s e t p. m' = m\<lparr>m_status := s, m_last_error := e, m_updated_at := t, m_provider_message_id := p\<rparr>
     \<and> (s = m_status m \<or> retryable_status (m_status m)))"

definition delivery_stable :: "jstr \<Rightarrow> (db \<Rightarrow> bool) \<Rightarrow> bool" where
  "delivery_stable i I \<longleftrightarrow> (\<forall>d p g. I d \<longrightarrow> (\<forall>m \<in> set (messages d). p m \<longrightarrow> m_id m = i \<and> delivery_edit m (g m))
     \<longrightarrow> I (d\<lparr>messages := map_rows p g (messages d)\<rparr>))"

text \<open>Exactly one submission, to the endpoint \<open>u\<close>.\<close>

definition one_more :: "jstr \<Rightarrow> effect list \<Rightarrow> effect list \<Rightarrow> bool" where
  "one_more u es es' \<longleftrightarrow> (\<exists>h v. es' = es @ [Submitted u h v])"

definition settled :: "jstr \<Rightarrow> jstr \<Rightarrow> db \<Rightarrow> bool" where
  "settled i s d \<longleftrightarrow> (\<forall>m \<in> set (messages d). m_id m = i \<longrightarrow> m_status m = s)"

lemma delivery_editI:
  "retryable_status (m_status m) \<Longrightarrow> delivery_edit m (m\<lparr>m_status := s, m_last_error := e, m_updated_at := t\<rparr>)"
  "delivery_edit m (m\<lparr>m_provider_message_id := p, m_updated_at := t\<rparr>)"
proof -
  have "m\<lparr>m_status := s, m_last_error := e, m_updated_at := t\<rparr>
      = m\<lparr>m_status := s, m_last_error := e, m_updated_at := t, m_provider_message_id := m_provider_message_id m\<rparr>"
    by (cases m) simp
  then show "retryable_status (m_status m) \<Longrightarrow> delivery_edit m (m\<lparr>m_status := s, m_last_error := e, m_updated_at := t\<rparr>)"
    unfolding delivery_edit_def by blast
  have "m\<lparr>m_provider_message_id := p, m_updated_at := t\<rparr>
      = m\<lparr>m_status := m_status m, m_last_error := m_last_error m, m_updated_at := t, m_provider_message_id := p\<rparr>"
    by (cases m) simp
  then show "delivery_edit m (m\<lparr>m_provider_message_id := p, m_updated_at := t\<rparr>)"
    unfolding delivery_edit_def by blast
qed

lemma delivery_edit_status: "delivery_edit m m' \<Longrightarrow> \<not> retryable_status (m_status m) \<Longrightarrow> m_status m' = m_status m"
  by (auto simp: delivery_edit_def)

lemma delivery_edit_frame:
  assumes "delivery_edit m m'"
  shows "m_id m' = m_id m" "m_thread m' = m_thread m" "m_archive_status m' = m_archive_status m" "m_raw_key m' = m_raw_key m"
    "m_provider m' = m_provider m" "m_idempotency m' = m_idempotency m" "m_request_hash m' = m_request_hash m"
  using assms by (auto simp: delivery_edit_def)

lemma delivery_edit_kept:
  assumes "\<forall>m \<in> set xs. p m \<longrightarrow> m_id m = i \<and> delivery_edit m (g m)" "y \<in> set (map_rows p g xs)"
  obtains x where "x \<in> set xs" "y = x \<or> m_id x = i \<and> delivery_edit x y"
proof -
  obtain x where x: "x \<in> set xs" "y = (if p x then g x else x)" using assms(2) unfolding in_map_rows by blast
  then show ?thesis using assms(1) that by (cases "p x") auto
qed

lemma settled_delivery: "\<not> retryable_status s \<Longrightarrow> delivery_stable i (settled j s)"
  unfolding delivery_stable_def
proof (intro allI impI)
  fix d p g
  assume s: "\<not> retryable_status s" and d: "settled j s d" and edits: "\<forall>m \<in> set (messages d). p m \<longrightarrow> m_id m = i \<and> delivery_edit m (g m)"
  show "settled j s (d\<lparr>messages := map_rows p g (messages d)\<rparr>)"
    unfolding settled_def
  proof (intro ballI impI)
    fix y
    assume "y \<in> set (messages (d\<lparr>messages := map_rows p g (messages d)\<rparr>))" "m_id y = j"
    then have y: "y \<in> set (map_rows p g (messages d))" by simp
    obtain x where x: "x \<in> set (messages d)" "y = x \<or> m_id x = i \<and> delivery_edit x y"
      using delivery_edit_kept [OF edits y] .
    then have "m_id x = j" using \<open>m_id y = j\<close> delivery_edit_frame(1) by fastforce
    then have "m_status x = s" using x d by (simp add: settled_def)
    then show "m_status y = s" using x s delivery_edit_status by fastforce
  qed
qed

locale outbound_provider =
  fixes endpoint :: jstr and configured :: "env \<Rightarrow> bool" and send :: "env \<Rightarrow> message \<Rightarrow> send_plan \<Rightarrow> jstr action"
  assumes refuses: "\<not> configured E \<Longrightarrow> \<exists>e. send E row plan w = (Inl e, w)"
    and submission: "triple (\<lambda>w. effects w = es) (send E row plan) (\<lambda>_ w. one_more endpoint es (effects w))
      (\<lambda>_ w. effects w = es \<or> one_more endpoint es (effects w))"
    and edits: "stable E I \<Longrightarrow> delivery_stable (m_id row) I \<Longrightarrow> keeps (\<lambda>w. I (db_of w)) (send E row plan)"
    and consistent: "stable E db_ok \<Longrightarrow> keeps (\<lambda>w. db_ok (db_of w)) (send E row plan)"
begin

lemma status_settled: "stable E (settled i s) \<Longrightarrow> \<not> retryable_status s \<Longrightarrow> keeps (\<lambda>w. settled i s (db_of w)) (send E row plan)"
  by (intro edits settled_delivery)

lemma configured_if_sent: "send E row plan w = (Inr x, w') \<Longrightarrow> configured E"
  using refuses [of E row plan w] by (metis Inl_Inr_False fst_conv)

lemma returns_submitted: "send E row plan w = (Inr x, w') \<Longrightarrow> one_more endpoint (effects w) (effects w')"
  using triple_Inr [OF submission] by blast

lemma at_most_one: "effects (snd (send E row plan w)) = effects w \<or> one_more endpoint (effects w) (effects (snd (send E row plan w)))"
proof (cases "send E row plan w")
  case (Pair r w')
  then show ?thesis
    using triple_Inr [OF submission, of w "effects w"] triple_Inl [OF submission, of w "effects w"] by (cases r) auto
qed

end

section \<open>All three providers keep it\<close>

lemma delivery_updates:
  assumes "stable E I" "delivery_stable i I"
  shows "keeps (\<lambda>w. I (db_of w)) (updateRetryableState E i st detail)" "keeps (\<lambda>w. I (db_of w)) (confirm E i p)"
proof -
  have edit: "preserves I (update_messages q g)"
    if "\<And>m. q m \<Longrightarrow> m_id m = i \<and> delivery_edit m (g m)" for q g
    unfolding preserves_def
  proof (intro allI impI)
    fix d
    assume d: "I d"
    have "\<forall>m \<in> set (messages d). q m \<longrightarrow> m_id m = i \<and> delivery_edit m (g m)" using that by simp
    then have "I (d\<lparr>messages := map_rows q g (messages d)\<rparr>)"
      using assms(2) [unfolded delivery_stable_def, rule_format, of d q g] d by simp
    then show "I (snd (update_messages q g d))" using update_messages_snd [of q g d] d by metis
  qed
  show "keeps (\<lambda>w. I (db_of w)) (updateRetryableState E i st detail)"
    unfolding updateRetryableState_def
    by (intro keeps_bind keeps_return keeps_local keeps_external [OF assms(1)] edit) (rule conjI, blast, rule delivery_editI(1), blast)
  show "keeps (\<lambda>w. I (db_of w)) (confirm E i p)"
    unfolding confirm_def
    by (intro keeps_bind keeps_return keeps_local keeps_external [OF assms(1)] edit) (rule conjI, assumption, rule delivery_editI(2))
qed

lemma delivery_submit: "stable E I \<Longrightarrow> keeps (\<lambda>w. I (db_of w)) (http_post E u h v)" "stable E I \<Longrightarrow> keeps (\<lambda>w. I (db_of w)) (binding_send E reply v)"
  by (simp_all add: keeps_def http_post_def binding_send_def submit_def stable_def)

lemma provider_keeps:
  assumes "stable E I" "\<And>st detail. keeps (\<lambda>w. I (db_of w)) (updateRetryableState E (m_id row) st detail)"
    "\<And>p. keeps (\<lambda>w. I (db_of w)) (confirm E (m_id row) p)"
  shows "keeps (\<lambda>w. I (db_of w)) (provider_send p E row plan)"
proof -
  have failures: "keeps (\<lambda>w. I (db_of w)) (resend_failure E row r v)" "keeps (\<lambda>w. I (db_of w)) (brevo_failure E row r v)"
    "keeps (\<lambda>w. I (db_of w)) (cloudflare_failure E row c t)" for r v c t
    unfolding resend_failure_def brevo_failure_def cloudflare_failure_def Let_def by (intro keeps_flow assms)+
  have estimate: "keeps (\<lambda>w. I (db_of w)) (estimateProviderMessageBytes E row plan)"
    unfolding estimateProviderMessageBytes_def message_timestamp_def
    by (intro keeps_flow keeps_rawOutgoing) (auto intro: keeps_return keeps_local split: list.split)
  have "keeps (\<lambda>w. I (db_of w)) (resend_send E row plan)" "keeps (\<lambda>w. I (db_of w)) (brevo_send E row plan)"
    unfolding resend_send_def brevo_send_def
    by (intro keeps_flow delivery_submit assms, simp split: outcome.split, intro conjI allI impI keeps_flow assms failures)+
  moreover have "keeps (\<lambda>w. I (db_of w)) (cloudflare_send E row plan)"
    unfolding cloudflare_send_def Let_def by (intro keeps_flow delivery_submit estimate failures assms)
  ultimately show ?thesis by (cases p) (simp_all add: provider_send_def)
qed

lemma submission_first:
  assumes "keeps (\<lambda>w. effects w = es) m" "\<And>x. triple (\<lambda>w. effects w = es) (f x) Q (\<lambda>_ w. effects w = es \<or> one_more u es (effects w))"
  shows "triple (\<lambda>w. effects w = es) (bindE m f) Q (\<lambda>_ w. effects w = es \<or> one_more u es (effects w))"
proof (rule triple_bind [OF _ assms(2)])
  show "triple (\<lambda>w. effects w = es) m (\<lambda>_ w. effects w = es) (\<lambda>_ w. effects w = es \<or> one_more u es (effects w))"
    by (rule triple_conseq [OF assms(1) [folded triple_keeps]]) auto
qed

lemma submission_then:
  assumes "\<And>w r w'. m w = (r, w') \<Longrightarrow> (\<exists>x. r = Inr x) \<and> one_more u (effects w) (effects w')"
    and "\<And>x F. keeps (\<lambda>w. F (effects w)) (f x)"
  shows "triple (\<lambda>w. effects w = es) (bindE m f) (\<lambda>_ w. one_more u es (effects w)) (\<lambda>_ w. effects w = es \<or> one_more u es (effects w))"
proof (rule triple_bind)
  show "triple (\<lambda>w. effects w = es) m (\<lambda>_ w. one_more u es (effects w)) (\<lambda>_ w. effects w = es \<or> one_more u es (effects w))"
    using assms(1) by (fastforce simp: triple_def split: prod.split sum.split)
  show "triple (\<lambda>w. one_more u es (effects w)) (f x) (\<lambda>_ w. one_more u es (effects w)) (\<lambda>_ w. effects w = es \<or> one_more u es (effects w))" for x
    by (rule triple_conseq [OF assms(2) [of "one_more u es", folded triple_keeps]]) auto
qed

lemma submit_one: "http_post E u h v w = (r, w') \<Longrightarrow> (\<exists>x. r = Inr x) \<and> one_more u (effects w) (effects w')"
  "binding_send E reply v w = (q, w') \<Longrightarrow> (\<exists>x. q = Inr x) \<and> one_more EMAIL_BINDING (effects w) (effects w')"
  by (auto simp: http_post_def binding_send_def submit_def one_more_def)

lemma provider_submission:
  "triple (\<lambda>w. effects w = es) (provider_send p E row plan) (\<lambda>_ w. one_more (provider_endpoint p) es (effects w)) (\<lambda>_ w. effects w = es \<or> one_more (provider_endpoint p) es (effects w))"
proof -
  have "triple (\<lambda>w. effects w = es) (resend_send E row plan) (\<lambda>_ w. one_more RESEND_API es (effects w)) (\<lambda>_ w. effects w = es \<or> one_more RESEND_API es (effects w))"
    unfolding resend_send_def
    by (intro submission_first submission_then silent_intros) (auto dest: submit_one intro!: silent_intros silent_updates silent_failures split: outcome.split)
  moreover have "triple (\<lambda>w. effects w = es) (brevo_send E row plan) (\<lambda>_ w. one_more BREVO_API es (effects w)) (\<lambda>_ w. effects w = es \<or> one_more BREVO_API es (effects w))"
    unfolding brevo_send_def
    by (intro submission_first submission_then silent_intros) (auto dest: submit_one intro!: silent_intros silent_updates silent_failures split: outcome.split)
  moreover have "triple (\<lambda>w. effects w = es) (cloudflare_send E row plan) (\<lambda>_ w. one_more EMAIL_BINDING es (effects w)) (\<lambda>_ w. effects w = es \<or> one_more EMAIL_BINDING es (effects w))"
    unfolding cloudflare_send_def Let_def
    by (cases "email_binding E", simp add: triple_def throwE_def, simp, intro submission_first submission_then silent_intros silent_estimate)
      (auto dest: submit_one intro!: silent_intros silent_updates silent_failures split: sum.split)
  ultimately show ?thesis by (cases p) (simp_all add: provider_send_def provider_endpoint_def)
qed

lemma provider_refuses: "\<not> isConfigured E p \<Longrightarrow> \<exists>e. provider_send p E row plan w = (Inl e, w)"
proof (cases p)
  case Cloudflare
  assume "\<not> isConfigured E p"
  with Cloudflare show ?thesis by (simp add: provider_send_def cloudflare_send_def isConfigured_def cloudflare_configured_def act_simps)
qed (simp_all add: provider_send_def resend_send_def brevo_send_def isConfigured_def act_simps)

interpretation delivery: outbound_provider "provider_endpoint p" "\<lambda>E. isConfigured E p" "provider_send p" for p
proof
  fix E row plan w and es :: "effect list" and I :: "db \<Rightarrow> bool"
  show "\<not> isConfigured E p \<Longrightarrow> \<exists>e. provider_send p E row plan w = (Inl e, w)" by (rule provider_refuses)
  show "triple (\<lambda>w. effects w = es) (provider_send p E row plan) (\<lambda>_ w. one_more (provider_endpoint p) es (effects w))
      (\<lambda>_ w. effects w = es \<or> one_more (provider_endpoint p) es (effects w))"
    by (rule provider_submission)
  show "stable E I \<Longrightarrow> delivery_stable (m_id row) I \<Longrightarrow> keeps (\<lambda>w. I (db_of w)) (provider_send p E row plan)"
    by (rule provider_keeps) (simp_all add: delivery_updates)
  show "stable E db_ok \<Longrightarrow> keeps (\<lambda>w. db_ok (db_of w)) (provider_send p E row plan)"
    by (rule provider_keeps) (auto simp: updateRetryableState_def confirm_def intro!: keeps_intros preserves_intros)
qed

declare delivery.consistent [keeps_intros]

end
