(* ===== verification/Outbound.thy ===== *)
theory Outbound
  imports Providers
begin

text \<open>
  Sending mail (\<open>src/src/mail/outbound.ts\<close>): the plan built from a request, the archive of what will be
  sent, and the three handlers \<open>sendMessage\<close>, \<open>retryMessage\<close> and \<open>forwardMessage\<close>. A send is identified by its
  idempotency key: the message row is inserted first, then the raw message is archived, and only then
  is it handed to a provider.
\<close>

section \<open>The plan\<close>

definition bcc_not_configured :: exn where
  "bcc_not_configured = app_error 503 ''Automatic BCC addresses are not configured correctly.'' ''auto_bcc_not_configured''"

definition bcc_required :: exn where
  "bcc_required = app_error 503 ''Automatic BCC is required by deployment policy but no addresses are configured.''
     ''auto_bcc_required_unconfigured''"

definition automaticBccAddresses :: "env \<Rightarrow> exn + jstr list" where
  "automaticBccAddresses E =
     (case strictRecipientList (uni (plat E)) (var E ''AUTO_BCC_ADDRESSES'') ''Automatic BCC'' of
        Inl e \<Rightarrow> Inl bcc_not_configured
      | Inr configured \<Rightarrow>
          if js_string (var E ''AUTO_BCC_REQUIRED'') = js ''true'' \<and> configured = [] then Inl bcc_required
          else Inr configured)"

definition sender_usable :: "env \<Rightarrow> mailbox \<Rightarrow> bool" where
  "sender_usable E mb \<longleftrightarrow> mb_can_send mb \<and> validateMailboxDomain E (normalizeEmail (uni (plat E)) (JStr (mb_address mb)))"

definition usable_mailbox :: "env \<Rightarrow> jstr \<Rightarrow> exn \<Rightarrow> mailbox action" where
  "usable_mailbox E i e =
     bindE (mailboxById E i) (\<lambda>found.
     case found of None \<Rightarrow> throwE e | Some mb \<Rightarrow> if sender_usable E mb then returnE mb else throwE e)"

definition without :: "jstr list \<Rightarrow> jstr list \<Rightarrow> jstr list" where
  "without known xs = filter (\<lambda>a. a \<notin> set known) xs"

text \<open>\<open>body.k = v\<close> on an object.\<close>

definition set_property :: "string \<Rightarrow> jsval \<Rightarrow> jsval \<Rightarrow> jsval" where
  "set_property k v body = (case body of JObj kvs \<Rightarrow> JObj (put_key (js k) v kvs) | _ \<Rightarrow> body)"

definition body_get :: "jsval \<Rightarrow> string \<Rightarrow> jsval" where
  "body_get body k = js_get body (js k)"

text \<open>The four recipient lists: to, CC, BCC, and the whole.\<close>

definition plan_recipients :: "env \<Rightarrow> jsval \<Rightarrow> jstr list \<Rightarrow> exn + jstr list \<times> jstr list \<times> jstr list" where
  "plan_recipients E body automaticBcc =
     (case strictRecipientList (uni (plat E)) (body_get body ''to'') ''To'' of
        Inl e \<Rightarrow> Inl e
      | Inr to \<Rightarrow>
     (case strictRecipientList (uni (plat E)) (body_get body ''cc'') ''CC'' of
        Inl e \<Rightarrow> Inl e
      | Inr cc0 \<Rightarrow>
     (case strictRecipientList (uni (plat E)) (body_get body ''bcc'') ''BCC'' of
        Inl e \<Rightarrow> Inl e
      | Inr requestedBcc \<Rightarrow>
          let cc = without to cc0; bcc = without (to @ cc) (dedup (requestedBcc @ automaticBcc)) in
          if to = [] then Inl (app_error 400 ''At least one recipient is required.'' ''invalid_recipient'')
          else if length to + length cc + length bcc > MAX_RECIPIENTS then
            Inl (app_error 400 ''A message can have at most 50 recipients.'' ''too_many_recipients'')
          else Inr (to, cc, bcc))))"

text \<open>The subject, the HTML and the text of the request.\<close>

definition plan_content :: "jsval \<Rightarrow> exn + jstr \<times> jstr \<times> jstr" where
  "plan_content body =
     (case boundedBody (body_get body ''html'') 1000000 ''HTML body'' of
        Inl e \<Rightarrow> Inl e
      | Inr rawHtml \<Rightarrow>
     (case boundedBody (body_get body ''text'') 1000000 ''Text body'' of
        Inl e \<Rightarrow> Inl e
      | Inr rawText \<Rightarrow>
          let subject = or_else (safeHeaderValue (body_get body ''subject'') MAX_SUBJECT) (js ''(No subject)'');
              html = sanitizeHtml rawHtml; text = or_else rawText (htmlToText html) in
          if html = [] \<and> text = [] then Inl (app_error 400 ''Message body cannot be empty.'' ''empty_body'')
          else Inr (subject, html, text)))"

definition plan_parent :: "env \<Rightarrow> jsval \<Rightarrow> mailbox \<Rightarrow> message option action" where
  "plan_parent E body mb =
     (let parentId = asText (body_get body ''parent_message_id'') 200;
          requestedThreadId = asText (body_get body ''thread_id'') 200 in
      bindE (if parentId = [] then returnE None else findMessage E parentId) (\<lambda>parent.
      bindE (throw_if (parentId \<noteq> [] \<and> parent = None) (app_error 404 ''Parent message not found.'' ''not_found'')) (\<lambda>_.
      bindE (throw_if (case parent of None \<Rightarrow> False | Some m \<Rightarrow> coalesce (m_mailbox m) [] \<noteq> mb_id mb)
        (app_error 400 ''Replies must use the mailbox identity that owns the conversation.'' ''reply_mailbox_mismatch'')) (\<lambda>_.
      bindE (throw_if (parent = None \<and> requestedThreadId \<noteq> [])
        (app_error 400 ''A thread can only be selected through a parent message.'' ''thread_parent_required'')) (\<lambda>_.
      returnE parent)))))"

definition plan_hash :: "env \<Rightarrow> jsval \<Rightarrow> jstr" where
  "plan_hash E body = sha256_text E (coalesce (stableStringify body) (js ''undefined''))"

definition buildSendPlan :: "env \<Rightarrow> jsval \<Rightarrow> send_plan action" where
  "buildSendPlan E body =
     bindE (usable_mailbox E (asText (body_get body ''from_mailbox_id'') 100)
       (app_error 400 ''Selected sender mailbox is unavailable.'' ''invalid_sender'')) (\<lambda>mb.
     bindE (liftE (automaticBccAddresses E)) (\<lambda>automaticBcc.
     bindE (liftE (plan_recipients E body automaticBcc)) (\<lambda>(to, cc, bcc).
     bindE (liftE (plan_content body)) (\<lambda>(subject, html, text).
     bindE (liftE (parseUploads E (body_get body ''attachments''))) (\<lambda>uploads.
     bindE (plan_parent E body mb) (\<lambda>parent.
     bindE (case parent of Some m \<Rightarrow> (if m_thread m = [] then uuid E else returnE (m_thread m)) | None \<Rightarrow> uuid E) (\<lambda>threadId.
     let body' = set_property ''bcc'' (JArr (map JStr bcc)) body in
     returnE \<lparr> p_body = body', p_mailbox = mb, p_to = to, p_cc = cc, p_bcc = bcc, p_subject = subject, p_html = html,
       p_text = text, p_uploads = uploads, p_parent = parent, p_thread = threadId, p_hash = plan_hash E body' \<rparr>)))))))"

section \<open>Archiving\<close>

definition enforceSendRate :: "env \<Rightarrow> jstr \<Rightarrow> unit action" where
  "enforceSendRate E adminId =
     bindE (date_now E) (\<lambda>t.
     bindE (select E (\<lambda>d. count_rows (\<lambda>m. m_created_by m = Some adminId \<and> m_direction m = js ''outgoing''
         \<and> iso (t - 60 * 60000) \<le> m_created_at m) (messages d))) (\<lambda>count.
     throw_if (count \<ge> MAX_SENDS_PER_HOUR) (app_error 429 ''Hourly sending limit reached.'' ''send_rate_limited'')))"

definition set_archived :: "env \<Rightarrow> jstr \<Rightarrow> jstr \<Rightarrow> nat \<Rightarrow> unit action" where
  "set_archived E messageId rawKey n =
     bindE (now E) (\<lambda>ts.
     bindE (external E (update_messages (\<lambda>m. m_id m = messageId)
       (\<lambda>m. m\<lparr>m_raw_key := Some rawKey, m_raw_size := n, m_archive_status := js ''archived'', m_last_error := None,
          m_updated_at := ts\<rparr>))) (\<lambda>_. returnE ()))"

definition archiveOutgoing :: "env \<Rightarrow> message \<Rightarrow> send_plan \<Rightarrow> unit action" where
  "archiveOutgoing E row plan =
     bindE (deleteOutgoingAttachments E (m_id row)) (\<lambda>_.
     bindE (archiveOutgoingAttachments E (m_id row) (mb_id (p_mailbox plan)) (p_uploads plan)) (\<lambda>_.
     bindE (message_timestamp E row) (\<lambda>ts.
     bindE (rawOutgoingMessage E (displayFrom E (p_mailbox plan)) (p_to plan) (p_cc plan) (m_subject row) (p_text plan)
         (p_html plan) (coalesce (m_internet_id row) (js ''null'')) ts (p_uploads plan)
         (take 998 (coalesce (m_in_reply_to row) [])) (take 8000 (coalesce (m_references row) []))) (\<lambda>raw.
     bindE (randomToken E 12) (\<lambda>t.
     bindE (objectPath E (js ''outgoing'') (mb_id (p_mailbox plan)) (m_id row) (js ''original-'' @ t @ js ''.eml'')) (\<lambda>rawKey.
     bindE (putR2 E rawKey raw) (\<lambda>_.
     catchE (set_archived E (m_id row) rawKey (length raw))
       (\<lambda>e. bindE (ignoreE (r2_remove E [rawKey])) (\<lambda>_. throwE e)))))))))"

section \<open>A stored plan\<close>

definition stored_address :: "env \<Rightarrow> jsval \<Rightarrow> jstr" where
  "stored_address E v = normalizeEmail (uni (plat E)) (js_get v (js ''address''))"

definition storedAddresses :: "env \<Rightarrow> jstr \<Rightarrow> exn + jstr list" where
  "storedAddresses E t =
     (case parseJson (num_text (plat E)) (JStr t) (JArr []) of
        JArr xs \<Rightarrow> if JNull \<in> set xs then Inl type_error
          else Inr (dedup (filter validEmail (map (stored_address E) xs)))
      | _ \<Rightarrow> Inl type_error)"

definition stored_recipients :: "env \<Rightarrow> message \<Rightarrow> exn + jstr list \<times> jstr list \<times> jstr list" where
  "stored_recipients E row =
     (case storedAddresses E (m_to_json row) of
        Inl e \<Rightarrow> Inl e
      | Inr to \<Rightarrow>
     (case storedAddresses E (m_cc_json row) of
        Inl e \<Rightarrow> Inl e
      | Inr cc0 \<Rightarrow>
     (case storedAddresses E (m_bcc_json row) of
        Inl e \<Rightarrow> Inl e
      | Inr bcc0 \<Rightarrow>
          let cc = without to cc0; bcc = without (to @ cc) bcc0 in
          if to = [] \<or> length to + length cc + length bcc > MAX_RECIPIENTS then
            Inl (app_error 503 ''The archived recipient list is invalid.'' ''invalid_recipient_archive'')
          else Inr (to, cc, bcc))))"

text \<open>The archived raw message of a row, read back and parsed.\<close>

definition load_raw :: "env \<Rightarrow> message \<Rightarrow> exn \<Rightarrow> exn \<Rightarrow> email action" where
  "load_raw E row missing invalid =
     bindE (if filled (m_raw_key row) then r2_fetch E (take 1000 (coalesce (m_raw_key row) [])) else returnE None) (\<lambda>content.
     case content of
       None \<Rightarrow> throwE missing
     | Some bs \<Rightarrow> (case parse_mime E bs of None \<Rightarrow> throwE invalid | Some m \<Rightarrow> returnE m))"

definition archive_missing :: exn where
  "archive_missing = app_error 503 ''The archived raw message is missing.'' ''archive_missing''"

definition archive_invalid :: "string \<Rightarrow> exn" where
  "archive_invalid message = app_error 503 message ''archive_invalid''"

definition storedSendPlan :: "env \<Rightarrow> message \<Rightarrow> send_plan action" where
  "storedSendPlan E row =
     bindE (usable_mailbox E (take 100 (coalesce (m_mailbox row) []))
       (app_error 503 ''The archived sender mailbox is unavailable.'' ''invalid_sender'')) (\<lambda>mb.
     bindE (liftE (stored_recipients E row)) (\<lambda>(to, cc, bcc).
     bindE (load_raw E row archive_missing (archive_invalid ''The archived raw message cannot be parsed safely.'')) (\<lambda>parsed.
     bindE (loadArchivedAttachments E (m_id row)) (\<lambda>uploads.
     bindE (if filled (m_parent row) then findMessage E (coalesce (m_parent row) []) else returnE None) (\<lambda>parent.
     let html = sanitizeHtml (asText (opt_val (em_html parsed)) 1000000);
         text = or_else (asText (opt_val (em_text parsed)) 1000000) (htmlToText html) in
     bindE (throw_if (text = [] \<and> html = []) (archive_invalid ''The archived message body is unavailable.'')) (\<lambda>_.
     returnE \<lparr> p_body = JObj [], p_mailbox = mb, p_to = to, p_cc = cc, p_bcc = bcc,
       p_subject = safeHeaderValue (JStr (m_subject row)) MAX_SUBJECT, p_html = html, p_text = text, p_uploads = uploads,
       p_parent = parent, p_thread = m_thread row, p_hash = take 200 (coalesce (m_request_hash row) []) \<rparr>))))))"

section \<open>Delivery\<close>

definition no_provider :: exn where
  "no_provider = app_error 503 ''No outbound provider is configured.'' ''provider_not_configured''"

text \<open>The provider that took the message, and its identifier there.\<close>

definition deliverWithProvider :: "env \<Rightarrow> message \<Rightarrow> send_plan \<Rightarrow> (provider \<times> jstr) action" where
  "deliverWithProvider E row plan =
     (case getOutboundProvider E of
        None \<Rightarrow> throwE no_provider
      | Some p \<Rightarrow> bindE (provider_send p E row plan) (\<lambda>i. returnE (p, i)))"

definition providerRetryWindowMs :: "env \<Rightarrow> message \<Rightarrow> int option" where
  "providerRetryWindowMs E row =
     (if pinned_id row \<noteq> [] \<and> pinned_id row \<noteq> js ''none'' then
        (case getProviderById (pinned_id row) of None \<Rightarrow> None | Some p \<Rightarrow> cap_window (provider_capabilities p))
      else (case getOutboundProvider E of None \<Rightarrow> None | Some p \<Rightarrow> cap_window (provider_capabilities p)))"

definition pinned_unknown :: exn where
  "pinned_unknown = app_error 503 ''The pinned outbound provider is no longer configured for this retry.'' ''provider_not_configured_for_retry''"

definition window_expired :: exn where
  "window_expired = app_error 409 ''The provider retry window expired. Verify the provider record before sending a new message.''
     ''provider_retry_window_expired''"

text \<open>The retry window of the pinned provider; past it the row is closed.\<close>

definition check_window :: "env \<Rightarrow> message \<Rightarrow> provider action" where
  "check_window E row =
     bindE (liftE (providerForMessage E row)) (\<lambda>pinned.
     case pinned of
       None \<Rightarrow> throwE pinned_unknown
     | Some p \<Rightarrow>
         bindE (date_now E) (\<lambda>t.
         if (case (cap_window (provider_capabilities p), date_parse (date_ext (plat E)) (take 100 (m_created_at row))) of
               (Some window, Some createdAt) \<Rightarrow> t - createdAt \<le> window | _ \<Rightarrow> False)
         then returnE p
         else
           bindE (now E) (\<lambda>ts.
           bindE (external E (update_messages (\<lambda>m. m_id m = m_id row)
             (\<lambda>m. m\<lparr>m_status := js ''failed'', m_last_error := Some (js ''provider_retry_window_expired''), m_updated_at := ts\<rparr>))) (\<lambda>_.
           throwE window_expired))))"

definition set_sending :: "env \<Rightarrow> jstr \<Rightarrow> (message \<Rightarrow> bool) \<Rightarrow> unit action" where
  "set_sending E messageId p =
     bindE (now E) (\<lambda>ts.
     bindE (external E (update_messages (\<lambda>m. m_id m = messageId \<and> p m)
       (\<lambda>m. m\<lparr>m_status := js ''sending'', m_last_error := None, m_updated_at := ts\<rparr>))) (\<lambda>_. returnE ()))"

definition mark_sent :: "provider \<times> jstr \<Rightarrow> jstr \<Rightarrow> message \<Rightarrow> message" where
  "mark_sent result ts m =
     m\<lparr>m_status := (if retryable_status (m_status m) then js ''sent'' else m_status m),
       m_provider_message_id := fill (m_provider_message_id m) (snd result),
       m_resend_id := (case m_resend_id m of
          Some t \<Rightarrow> if t = [] then (if fst result = Resend then Some (snd result) else None) else Some t
        | None \<Rightarrow> if fst result = Resend then Some (snd result) else None),
       m_last_error := None, m_updated_at := ts\<rparr>"

definition record_sent :: "env \<Rightarrow> message \<Rightarrow> provider \<times> jstr \<Rightarrow> unit action" where
  "record_sent E row result =
     bindE (now E) (\<lambda>ts.
     batch E (void (update_messages (\<lambda>m. m_id m = m_id row) (mark_sent result ts))
       # (if filled (m_parent row) then
            [void (update_messages (\<lambda>m. Some (m_id m) = m_parent row) (\<lambda>m. m\<lparr>m_is_replied := True, m_updated_at := ts\<rparr>))]
          else [])))"

section \<open>The handlers\<close>

definition KEY_REGEX :: regex where
  "KEY_REGEX = Plus (Cls (\<lambda>c. is_alnum c \<or> c \<in> set (js '':_./-'')))"

definition valid_key :: "jstr \<Rightarrow> bool" where
  "valid_key k \<longleftrightarrow> 8 \<le> length k \<and> length k \<le> 256 \<and> re_full KEY_REGEX k"

definition no_provider_mode :: exn where
  "no_provider_mode = app_error 503 ''No outbound provider is configured (receive-only mode).'' ''provider_not_configured''"

definition send_not_retryable :: "string \<Rightarrow> exn" where
  "send_not_retryable message = app_error 409 message ''send_not_retryable''"

definition provider_reference :: "message \<Rightarrow> jstr" where
  "provider_reference row = or_else (coalesce (m_provider_message_id row) []) (coalesce (m_resend_id row) [])"

definition idempotent_reply :: "message \<Rightarrow> response" where
  "idempotent_reply row =
     json (obj [(''message_id'', JStr (m_id row)), (''thread_id'', JStr (m_thread row)), (''provider'', JStr (pinned_id row)),
       (''provider_message_id'', JStr (provider_reference row)), (''status'', JStr (take 100 (m_status row))),
       (''idempotent'', JBool True)]) 200 []"

definition bare_addresses :: "jstr list \<Rightarrow> jstr" where
  "bare_addresses xs = json_text (JArr (map (\<lambda>a. obj [(''name'', JStr []), (''address'', JStr a)]) xs))"

definition parent_internet_id :: "send_plan \<Rightarrow> jstr" where
  "parent_internet_id plan = (case p_parent plan of None \<Rightarrow> []
     | Some m \<Rightarrow> normalizeInternetMessageId (js_or (opt_val (m_provider_internet_id m)) (opt_val (m_internet_id m))))"

definition plan_references :: "send_plan \<Rightarrow> jstr" where
  "plan_references plan = (case p_parent plan of None \<Rightarrow> []
     | Some m \<Rightarrow>
         (let ids = filter (\<lambda>t. t \<noteq> []) (references (take 8000 (coalesce (m_references m) [])) @ [parent_internet_id plan]) in
          join_text (js '' '') (drop (length ids - 30) ids)))"

definition outgoing_subject :: "send_plan \<Rightarrow> jstr" where
  "outgoing_subject plan = (if p_parent plan \<noteq> None then replySubject (p_subject plan) else p_subject plan)"

definition outgoing_row :: "env \<Rightarrow> user \<Rightarrow> provider \<Rightarrow> send_plan \<Rightarrow> jstr \<Rightarrow> jstr \<Rightarrow> jstr \<Rightarrow> jstr \<Rightarrow> message" where
  "outgoing_row E session p plan idempotency messageId xId ts =
     (let U = uni (plat E); mb = p_mailbox plan; address = normalizeEmail U (JStr (mb_address mb));
          textPreview = previewBody (p_text plan) MAX_TEXT_PREVIEW_BYTES;
          htmlPreview = previewBody (p_html plan) MAX_HTML_PREVIEW_BYTES in
      message_defaults\<lparr>
        m_id := messageId, m_thread := p_thread plan, m_mailbox := Some (mb_id mb), m_direction := js ''outgoing'',
        m_from := Some address, m_to := hd (p_to plan),
        m_from_json := json_text (JArr [obj [(''name'', JStr (mb_display_name mb)), (''address'', JStr address)]]),
        m_to_json := bare_addresses (p_to plan), m_cc_json := bare_addresses (p_cc plan), m_bcc_json := bare_addresses (p_bcc plan),
        m_subject := outgoing_subject plan,
        m_text := text_option (fst textPreview), m_html := text_option (fst htmlPreview),
        m_body_truncated := (snd textPreview \<or> snd htmlPreview),
        m_internet_id := Some (js ''<'' @ messageId @ js ''@'' @ to_lower U (trim (or_else (var_text E ''MAIL_DOMAIN'') (js ''example.com''))) @ js ''>''),
        m_in_reply_to := text_option (parent_internet_id plan), m_references := text_option (plan_references plan),
        m_x_id := Some xId, m_parent := (case p_parent plan of None \<Rightarrow> None | Some m \<Rightarrow> text_option (m_id m)), m_idempotency := Some idempotency,
        m_request_hash := Some (p_hash plan), m_status := js ''sending'', m_is_read := True, m_sent_at := Some ts,
        m_archive_status := js ''pending'', m_created_by := Some (us_admin session), m_provider := Some (provider_id p),
        m_created_at := ts, m_updated_at := ts\<rparr>)"

definition insert_message :: "message \<Rightarrow> unit statement" where
  "insert_message m = constrained (\<lambda>d. ((), d\<lparr>messages := messages d @ [m]\<rparr>))"

definition same_key :: "jstr \<Rightarrow> message \<Rightarrow> bool" where
  "same_key idempotency m \<longleftrightarrow> m_idempotency m = Some idempotency"

definition stored_hash :: "message \<Rightarrow> jstr" where
  "stored_hash m = take 200 (coalesce (m_request_hash m) [])"

text \<open>When the insert fails, the key was taken meanwhile, by the same message or by another one.\<close>

definition insert_outgoing :: "env \<Rightarrow> message \<Rightarrow> jstr \<Rightarrow> jstr \<Rightarrow> unit action" where
  "insert_outgoing E m idempotency requestHash =
     catchE (external E (insert_message m)) (\<lambda>_.
       bindE (select E (\<lambda>d. find (same_key idempotency) (messages d))) (\<lambda>concurrent.
       if (case concurrent of None \<Rightarrow> False | Some c \<Rightarrow> timingSafeEqual (stored_hash c) requestHash)
       then throwE (app_error 409 ''Another identical send attempt is in progress. Retry shortly with the same key.'' ''send_in_progress'')
       else throwE (app_error 409 ''The idempotency key is already in use.'' ''idempotency_conflict'')))"

text \<open>A new send: the rate limit, the conversation, the row.\<close>

definition create_send :: "env \<Rightarrow> user \<Rightarrow> provider \<Rightarrow> send_plan \<Rightarrow> jstr \<Rightarrow> message action" where
  "create_send E session p plan idempotency =
     bindE (enforceSendRate E (us_admin session)) (\<lambda>_.
     bindE (now E) (\<lambda>ts.
     bindE (uuid E) (\<lambda>messageId.
     bindE (randomToken E 24) (\<lambda>xId.
     let m = outgoing_row E session p plan idempotency messageId xId ts in
     bindE (ensureThread E (p_thread plan) (Some (mb_id (p_mailbox plan))) (outgoing_subject plan)
       (p_to plan @ p_cc plan @ [normalizeEmail (uni (plat E)) (JStr (mb_address (p_mailbox plan)))]) ts) (\<lambda>_.
     bindE (insert_outgoing E m idempotency (p_hash plan)) (\<lambda>_.
     bindE (findMessage E messageId) (\<lambda>row.
     case row of None \<Rightarrow> throwE (app_error 500 ''Could not create the outgoing message.'' ''send_create_failed'')
     | Some r \<Rightarrow> returnE r)))))))"

text \<open>The row that a key already has: \<open>Inl\<close> is the answer, \<open>Inr\<close> the row to send again.\<close>

definition resume_send :: "env \<Rightarrow> send_plan \<Rightarrow> message \<Rightarrow> (response + message) action" where
  "resume_send E plan row =
     bindE (throw_if (\<not> timingSafeEqual (stored_hash row) (p_hash plan))
       (app_error 409 ''This idempotency key was already used with different content.'' ''idempotency_payload_mismatch'')) (\<lambda>_.
     if success_status (take 100 (m_status row)) then returnE (Inl (idempotent_reply row))
     else
       bindE (throw_if (\<not> retryable_status (take 100 (m_status row)))
         (send_not_retryable ''The existing send attempt cannot be retried.'')) (\<lambda>_.
       bindE (check_window E row) (\<lambda>_.
       bindE (set_sending E (m_id row) (\<lambda>_. True)) (\<lambda>_. returnE (Inr row)))))"

text \<open>The archive comes before the provider; when it fails, the row says so and stays retryable.\<close>

definition ensure_archived :: "env \<Rightarrow> send_plan \<Rightarrow> message \<Rightarrow> message action" where
  "ensure_archived E plan row =
     (if m_archive_status row = js ''archived'' then returnE row
      else
        catchE
          (bindE (archiveOutgoing E row plan) (\<lambda>_.
           bindE (findMessage E (m_id row)) (\<lambda>found. returnE (coalesce found row))))
          (\<lambda>e.
           bindE (now E) (\<lambda>ts.
           bindE (external E (update_messages (\<lambda>m. m_id m = m_id row)
             (\<lambda>m. m\<lparr>m_status := js ''retryable_failed'', m_archive_status := js ''failed'',
                m_last_error := Some (case e of AppError status text code \<Rightarrow> code | JsError name text \<Rightarrow> js ''archive_failed''),
                m_updated_at := ts\<rparr>))) (\<lambda>_. throwE e))))"

definition audit_details :: "send_plan \<Rightarrow> provider \<Rightarrow> jsval" where
  "audit_details plan p =
     obj [(''mailbox'', JStr (mb_address (p_mailbox plan))),
       (''recipients'', JNum (nat_text (length (p_to plan) + length (p_cc plan) + length (p_bcc plan)))),
       (''provider'', JStr (provider_id p))]"

definition sent_fields :: "message \<Rightarrow> provider \<times> jstr \<Rightarrow> (string \<times> jsval) list" where
  "sent_fields row result =
     [(''message_id'', JStr (m_id row)), (''thread_id'', JStr (m_thread row)), (''provider'', JStr (provider_id (fst result))),
      (''provider_message_id'', JStr (snd result))]"

text \<open>From the archived row to the answer.\<close>

definition finish_send :: "env \<Rightarrow> http_request \<Rightarrow> user \<Rightarrow> send_plan \<Rightarrow> jstr \<Rightarrow> message \<Rightarrow> response action" where
  "finish_send E r session plan idempotency row0 =
     bindE (ensure_archived E plan row0) (\<lambda>row.
     bindE (deliverWithProvider E row plan) (\<lambda>result.
     bindE (record_sent E row result) (\<lambda>_.
     bindE (refreshThread E (m_thread row)) (\<lambda>_.
     bindE (audit E r (Some session) (js ''mail_send'') (js ''message'') (m_id row) (Some (audit_details plan (fst result))) idempotency) (\<lambda>_.
     returnE (json (obj (sent_fields row result @ [(''status'', JStr (js ''sent''))])) 201 []))))))"

definition idempotency_key :: "http_request \<Rightarrow> jstr" where
  "idempotency_key r = take 256 (header_text r ''Idempotency-Key'')"

definition sendMessage :: "env \<Rightarrow> http_request \<Rightarrow> user \<Rightarrow> response action" where
  "sendMessage E r session =
     (case getOutboundProvider E of
        None \<Rightarrow> throwE no_provider_mode
      | Some p \<Rightarrow>
          bindE (throw_if (\<not> valid_key (idempotency_key r))
            (app_error 400 ''A valid Idempotency-Key header is required.'' ''invalid_idempotency_key'')) (\<lambda>_.
          bindE (liftE (readJson E r MAX_SEND_BODY_BYTES)) (\<lambda>body.
          bindE (buildSendPlan E body) (\<lambda>plan.
          bindE (select E (\<lambda>d. find (same_key (idempotency_key r)) (messages d))) (\<lambda>existing.
          bindE (case existing of
              Some row \<Rightarrow> resume_send E plan row
            | None \<Rightarrow> bindE (create_send E session p plan (idempotency_key r)) (\<lambda>row. returnE (Inr row))) (\<lambda>next_step.
          case next_step of
            Inl reply \<Rightarrow> returnE reply
          | Inr row \<Rightarrow> finish_send E r session plan (idempotency_key r) row))))))"

definition message_missing :: "string \<Rightarrow> exn" where
  "message_missing message = app_error 404 message ''not_found''"

definition archive_incomplete :: exn where
  "archive_incomplete = app_error 409 ''The archived message is incomplete and cannot be safely retried.'' ''archive_incomplete''"

definition redeliver :: "env \<Rightarrow> http_request \<Rightarrow> user \<Rightarrow> message \<Rightarrow> provider \<Rightarrow> response action" where
  "redeliver E r session row p =
     bindE (storedSendPlan E row) (\<lambda>plan.
     bindE (set_sending E (m_id row) (\<lambda>m. retryable_status (m_status m))) (\<lambda>_.
     bindE (provider_send p E row plan) (\<lambda>i.
     bindE (record_sent E row (p, i)) (\<lambda>_.
     bindE (refreshThread E (m_thread row)) (\<lambda>_.
     bindE (audit E r (Some session) (js ''mail_retry'') (js ''message'') (m_id row) (Some (audit_details plan p))
       (js ''retry/'' @ coalesce (m_idempotency row) (js ''null''))) (\<lambda>_.
     bindE (findMessage E (m_id row)) (\<lambda>current.
     returnE (json (obj (sent_fields row (p, i)
       @ [(''status'', JStr (case current of None \<Rightarrow> js ''sent'' | Some m \<Rightarrow> or_else (m_status m) (js ''sent''))), (''retried'', JBool True)])) 200 []))))))))"

definition resend_stored :: "env \<Rightarrow> http_request \<Rightarrow> user \<Rightarrow> message \<Rightarrow> response action" where
  "resend_stored E r session row =
     bindE (throw_if (m_archive_status row \<noteq> js ''archived'' \<or> \<not> filled (m_raw_key row)) archive_incomplete) (\<lambda>_.
     bindE (check_window E row) (redeliver E r session row))"

definition retryMessage :: "env \<Rightarrow> http_request \<Rightarrow> user \<Rightarrow> jstr \<Rightarrow> response action" where
  "retryMessage E r session messageId =
     bindE (findMessage E messageId) (\<lambda>found.
     case found of
       None \<Rightarrow> throwE (message_missing ''Outgoing message not found.'')
     | Some row \<Rightarrow>
         if m_direction row \<noteq> js ''outgoing'' then throwE (message_missing ''Outgoing message not found.'')
         else if success_status (take 100 (m_status row)) then returnE (idempotent_reply row)
         else if \<not> retryable_status (take 100 (m_status row)) then throwE (send_not_retryable ''This send attempt cannot be retried.'')
         else resend_stored E r session row)"

text \<open>Forwarding composes a new request and sends it.\<close>

definition forward_archive_invalid :: "string \<Rightarrow> exn" where
  "forward_archive_invalid message = app_error 503 message ''forward_archive_invalid''"

definition message_date :: "env \<Rightarrow> message \<Rightarrow> jstr action" where
  "message_date E m = bindE (messageTime E m) (\<lambda>t. returnE (utc_date E t))"

definition forwarded_text :: "message \<Rightarrow> jstr \<Rightarrow> jstr \<Rightarrow> jstr \<Rightarrow> jstr \<Rightarrow> jstr" where
  "forwarded_text original note date originalText originalHtml =
     trim (note @ [10, 10] @ js ''---------- Forwarded message ----------'' @ [10] @ js ''From: '' @ take 320 (coalesce (m_from original) [])
       @ [10] @ js ''Date: '' @ date @ [10] @ js ''Subject: '' @ take MAX_SUBJECT (m_subject original)
       @ [10] @ js ''To: '' @ take 320 (m_to original) @ [10, 10] @ or_else originalText (htmlToText originalHtml))"

definition upload_value :: "upload \<Rightarrow> jsval" where
  "upload_value u = obj [(''filename'', JStr (up_filename u)), (''contentType'', JStr (up_content_type u)), (''content'', JStr (up_content u))]"

definition forward_limits :: "upload list \<Rightarrow> exn + unit" where
  "forward_limits items =
     (if length items > 10 then
        Inl (app_error 413 ''The forwarded message would exceed the 10-attachment limit. Compose a new message with selected files.''
          ''forward_attachments_exceed_limits'')
      else if sum_list (map (length \<circ> up_bytes) items) > 8 * 1024 * 1024 then
        Inl (app_error 413 ''The forwarded message would exceed the 8 MB attachment limit. Compose a new message with selected files.''
          ''forward_attachments_exceed_limits'')
      else Inr ())"

definition forward_body :: "env \<Rightarrow> message \<Rightarrow> jsval \<Rightarrow> jstr \<Rightarrow> jstr \<Rightarrow> jsval action" where
  "forward_body E original body originalText originalHtml =
     (let subject = forwardSubject (or_else (asText (body_get body ''subject'') MAX_SUBJECT) (take MAX_SUBJECT (m_subject original)));
          body1 = set_property ''subject'' (JStr subject) body in
      bindE (liftE (boundedBody (body_get body1 ''text'') 1000000 ''Forward note'')) (\<lambda>note.
      bindE (message_date E original) (\<lambda>date.
      let body2 = set_property ''text'' (JStr (forwarded_text original note date originalText originalHtml)) body1 in
      if originalHtml = [] then returnE body2
      else
        bindE (liftE (boundedBody (body_get body2 ''html'') 1000000 ''Forward note HTML'')) (\<lambda>noteHtml.
        returnE (set_property ''html'' (JStr (sanitizeHtml noteHtml @ js ''<hr><p><strong>Forwarded message</strong></p>'' @ originalHtml)) body2)))))"

definition forwarded_request :: "http_request \<Rightarrow> jsval \<Rightarrow> http_request" where
  "forwarded_request r body =
     r\<lparr>rq_method := js ''POST'',
       rq_headers := filter (\<lambda>(k, v). map lower_unit k \<noteq> js ''content-length'') (rq_headers r),
       rq_body := utf8 (json_text body)\<rparr>"

definition forward_archive_incomplete :: exn where
  "forward_archive_incomplete = app_error 409 ''The original message archive is incomplete and cannot be forwarded safely.'' ''forward_archive_incomplete''"

definition forward_archive_missing :: exn where
  "forward_archive_missing = app_error 503 ''The original raw message is missing and cannot be forwarded safely.'' ''forward_archive_missing''"

definition forwardMessage :: "env \<Rightarrow> http_request \<Rightarrow> user \<Rightarrow> jstr \<Rightarrow> response action" where
  "forwardMessage E r session messageId =
     bindE (findMessage E messageId) (\<lambda>found.
     case found of
       None \<Rightarrow> throwE (message_missing ''Message not found.'')
     | Some original \<Rightarrow>
         bindE (liftE (readJson E r MAX_SEND_BODY_BYTES)) (\<lambda>body.
         bindE (throw_if (m_archive_status original \<noteq> js ''archived'' \<or> \<not> filled (m_raw_key original)) forward_archive_incomplete) (\<lambda>_.
         bindE (load_raw E original forward_archive_missing (forward_archive_invalid ''The original raw message cannot be parsed safely.'')) (\<lambda>parsed.
         bindE (liftE (boundedBody (opt_val (em_text parsed)) 1000000 ''Forwarded text body'')) (\<lambda>originalText.
         bindE (liftE (boundedBody (opt_val (em_html parsed)) 1000000 ''Forwarded HTML body'')) (\<lambda>rawHtml.
         let originalHtml = sanitizeHtml rawHtml in
         bindE (throw_if (originalText = [] \<and> originalHtml = []) (forward_archive_invalid ''The original archived message body is unavailable.'')) (\<lambda>_.
         bindE (forward_body E original body originalText originalHtml) (\<lambda>body'.
         bindE (liftE (parseUploads E (body_get body' ''attachments''))) (\<lambda>supplied.
         bindE (loadArchivedAttachments E messageId) (\<lambda>archived.
         bindE (liftE (forward_limits (supplied @ archived))) (\<lambda>_.
         sendMessage E (forwarded_request r (set_property ''attachments'' (JArr (map upload_value (supplied @ archived))) body')) session)))))))))))"

section \<open>Constraints are kept\<close>

lemma preserves_insert_message [preserves_intros]: "preserves db_ok (insert_message m)"
  unfolding insert_message_def by (rule preserves_intros)

lemma keeps_plan [keeps_intros]:
  assumes "stable E db_ok"
  shows "keeps (\<lambda>w. db_ok (db_of w)) (usable_mailbox E i e)" "keeps (\<lambda>w. db_ok (db_of w)) (plan_parent E body mb)"
    "keeps (\<lambda>w. db_ok (db_of w)) (load_raw E row x y)"
  unfolding usable_mailbox_def plan_parent_def load_raw_def Let_def by (intro keeps_intros assms)+

lemma keeps_plans [keeps_intros]:
  assumes "stable E db_ok"
  shows "keeps (\<lambda>w. db_ok (db_of w)) (buildSendPlan E body)" "keeps (\<lambda>w. db_ok (db_of w)) (storedSendPlan E row)"
  unfolding buildSendPlan_def storedSendPlan_def Let_def by (intro keeps_intros assms)+

lemma keeps_timestamp [keeps_intros]: "keeps (\<lambda>w. I (db_of w)) (message_timestamp E row)"
  unfolding message_timestamp_def by (auto intro: keeps_return keeps_local split: list.split)

lemma keeps_outgoing_archive [keeps_intros]:
  assumes "stable E db_ok"
  shows "keeps (\<lambda>w. db_ok (db_of w)) (set_archived E i k n)" "keeps (\<lambda>w. db_ok (db_of w)) (enforceSendRate E i)"
    "keeps (\<lambda>w. db_ok (db_of w)) (check_window E row)" "keeps (\<lambda>w. db_ok (db_of w)) (set_sending E i p)"
    "keeps (\<lambda>w. db_ok (db_of w)) (insert_outgoing E m k h)"
  unfolding set_archived_def enforceSendRate_def check_window_def set_sending_def insert_outgoing_def
  by (intro keeps_intros preserves_intros assms)+

lemma keeps_delivery [keeps_intros]:
  assumes "stable E db_ok"
  shows "keeps (\<lambda>w. db_ok (db_of w)) (archiveOutgoing E row plan)" "keeps (\<lambda>w. db_ok (db_of w)) (deliverWithProvider E row plan)"
    "keeps (\<lambda>w. db_ok (db_of w)) (record_sent E row result)"
  unfolding archiveOutgoing_def deliverWithProvider_def record_sent_def
  by (intro keeps_intros assms; auto intro: preserves_intros)+

lemma keeps_send_parts [keeps_intros]:
  assumes "stable E db_ok"
  shows "keeps (\<lambda>w. db_ok (db_of w)) (create_send E u p plan k)" "keeps (\<lambda>w. db_ok (db_of w)) (resume_send E plan row)"
    "keeps (\<lambda>w. db_ok (db_of w)) (ensure_archived E plan row)"
  unfolding create_send_def resume_send_def ensure_archived_def Let_def by (intro keeps_intros preserves_intros assms)+

lemma keeps_finish [keeps_intros]:
  assumes "stable E db_ok"
  shows "keeps (\<lambda>w. db_ok (db_of w)) (finish_send E r u plan k row)" "keeps (\<lambda>w. db_ok (db_of w)) (resend_stored E r u row)"
  unfolding finish_send_def resend_stored_def redeliver_def by (intro keeps_intros assms)+

lemma keeps_outbound [keeps_intros]:
  assumes "stable E db_ok"
  shows "keeps (\<lambda>w. db_ok (db_of w)) (sendMessage E r u)" "keeps (\<lambda>w. db_ok (db_of w)) (retryMessage E r u i)"
proof -
  show send: "keeps (\<lambda>w. db_ok (db_of w)) (sendMessage E r u)" for r u
    unfolding sendMessage_def by (intro keeps_intros assms)
  show "keeps (\<lambda>w. db_ok (db_of w)) (retryMessage E r u i)"
    unfolding retryMessage_def by (intro keeps_intros assms)
qed

lemma keeps_forwardMessage [keeps_intros]:
  assumes "stable E db_ok"
  shows "keeps (\<lambda>w. db_ok (db_of w)) (forwardMessage E r u i)"
  unfolding forwardMessage_def forward_body_def message_date_def Let_def by (intro keeps_intros assms)

end
