(* ===== verification/Sending.thy ===== *)
theory Sending
  imports Outbound
begin

text \<open>
  What sending guarantees: a well-formed plan, at most one submission per request and only to the
  provider in charge, the archive before the provider, idempotent repetition, the retry window, and
  what the row says afterwards.
\<close>

section \<open>At most one submission\<close>

definition silent :: "'a action \<Rightarrow> bool" where
  "silent m \<longleftrightarrow> (\<forall>w. effects (snd (m w)) = effects w)"

definition at_most_once :: "jstr \<Rightarrow> 'a action \<Rightarrow> bool" where
  "at_most_once u m \<longleftrightarrow> (\<forall>w. effects (snd (m w)) = effects w \<or> one_more u (effects w) (effects (snd (m w))))"

lemma silentI: "(\<And>es. keeps (\<lambda>w. effects w = es) m) \<Longrightarrow> silent m"
  by (auto simp: silent_def keeps_def)

lemma silent_iff: "silent m \<longleftrightarrow> (\<forall>es. keeps (\<lambda>w. effects w = es) m)"
  by (auto simp: silent_def keeps_def)

lemma silent_keeps: "silent m \<Longrightarrow> keeps (\<lambda>w. F (effects w)) m"
  by (simp add: silent_def keeps_def)

lemma at_most_silent: "silent m \<Longrightarrow> at_most_once u m"
  by (simp add: silent_def at_most_once_def)

lemma at_most_first: "silent m \<Longrightarrow> (\<And>x. at_most_once u (f x)) \<Longrightarrow> at_most_once u (bindE m f)"
  by (auto simp: silent_def at_most_once_def bindE_def split: prod.split sum.split) (metis snd_conv)+

lemma at_most_last: "at_most_once u m \<Longrightarrow> (\<And>x. silent (f x)) \<Longrightarrow> at_most_once u (bindE m f)"
  by (auto simp: silent_def at_most_once_def bindE_def split: prod.split sum.split) (metis snd_conv)+

lemma at_most_provider: "at_most_once (provider_endpoint p) (provider_send p E row plan)"
  unfolding at_most_once_def using delivery.at_most_one by blast

named_theorems silent_rules \<open>actions that submit nothing\<close>

lemma silent_flow [silent_rules]:
  "silent (returnE x)" "silent (throwE e)" "silent (liftE z)" "silent (throw_if c e)"
  "silent m \<Longrightarrow> (\<And>x. silent (f x)) \<Longrightarrow> silent (bindE m f)"
  "silent m \<Longrightarrow> (\<And>e. silent (h e)) \<Longrightarrow> silent (catchE m h)"
  "silent m \<Longrightarrow> silent (attemptE m)" "silent m \<Longrightarrow> silent (ignoreE m)"
  unfolding silent_iff by (simp_all add: keeps_flow)

lemma silent_for [silent_rules]: "(\<And>x. silent (g x)) \<Longrightarrow> silent (forE xs g)"
  by (induction xs) (simp_all add: silent_flow)

lemma silent_fold [silent_rules]: "(\<And>b x. silent (k b x)) \<Longrightarrow> silent (foldE k b xs)"
  by (induction xs arbitrary: b) (simp_all add: silent_flow)

lemma silent_map [silent_rules]: "(\<And>x. silent (h x)) \<Longrightarrow> silent (mapE h xs)"
  by (induction xs) (simp_all add: silent_flow)

lemma silent_cases [silent_rules]:
  "(c \<Longrightarrow> silent m) \<Longrightarrow> (\<not> c \<Longrightarrow> silent n) \<Longrightarrow> silent (if c then m else n)"
  "silent m \<Longrightarrow> (\<And>x. silent (f x)) \<Longrightarrow> silent (case z of None \<Rightarrow> m | Some x \<Rightarrow> f x)"
  "(\<And>x y. silent (g x y)) \<Longrightarrow> silent (case q of (x, y) \<Rightarrow> g x y)"
  "(\<And>x. silent (h x)) \<Longrightarrow> silent (Let t h)"
  "silent n' \<Longrightarrow> (\<And>x xs. silent (k x xs)) \<Longrightarrow> silent (case ys of [] \<Rightarrow> n' | x # xs \<Rightarrow> k x xs)"
  by (auto split: option.split prod.split list.split)

lemma silent_calls [silent_rules]:
  "silent (external E s)" "silent (select E f)" "silent (r2_call E h)" "silent (batch E ss)"
  "silent (now E)" "silent (date_now E)" "silent (uuid E)" "silent (randomToken E n)"
  by (rule silentI, intro silent_intros)+

lemma silent_store [silent_rules]:
  "silent (findMessage E i)" "silent (mailboxById E i)" "silent (r2_fetch E k)" "silent (r2_remove E ks)" "silent (putR2 E k v)"
  "silent (objectPath E a b c n)" "silent (refreshThread E i)" "silent (ensureThread E i mb s ps ts)" "silent (audit E r u a b c d e)"
  "silent (message_timestamp E row)" "silent (messageTime E row)" "silent (rawOutgoingMessage E f t c' s' x h m ts' us i' rs)"
  unfolding findMessage_def mailboxById_def r2_fetch_def r2_remove_def putR2_def objectPath_def refreshThread_def ensureThread_def
    audit_def message_timestamp_def messageTime_def rawOutgoingMessage_def
  by (intro silent_rules)+

lemma silent_attachments [silent_rules]:
  "silent (deleteOutgoingAttachments E i)" "silent (archiveOutgoingAttachments E i b us)" "silent (loadArchivedAttachments E i)"
  unfolding deleteOutgoingAttachments_def archiveOutgoingAttachments_def archive_upload_def insert_attachments_def
    loadArchivedAttachments_def load_attachment_def
  by (intro silent_rules)+

lemma silent_plans [silent_rules]:
  "silent (buildSendPlan E body)" "silent (storedSendPlan E row)" "silent (load_raw E row x y)"
  unfolding buildSendPlan_def storedSendPlan_def usable_mailbox_def plan_parent_def load_raw_def
  by (intro silent_rules)+

lemma silent_outgoing [silent_rules]:
  "silent (archiveOutgoing E row plan)" "silent (check_window E row)" "silent (set_sending E i p)" "silent (record_sent E row result)"
  unfolding archiveOutgoing_def set_archived_def check_window_def set_sending_def record_sent_def
  by (intro silent_rules)+

lemma silent_steps [silent_rules]:
  "silent (create_send E u p plan k)" "silent (resume_send E plan row)" "silent (ensure_archived E plan row)"
  unfolding create_send_def enforceSendRate_def insert_outgoing_def resume_send_def ensure_archived_def
  by (intro silent_rules)+

lemma at_most_finish:
  assumes "getOutboundProvider E = Some p"
  shows "at_most_once (provider_endpoint p) (finish_send E r u plan k row)"
  unfolding finish_send_def deliverWithProvider_def assms option.case bindE_assoc return_bindE
  by (intro at_most_first [OF silent_steps(3)] at_most_last [OF at_most_provider] silent_rules)

lemma at_most_send:
  assumes "getOutboundProvider E = Some p"
  shows "at_most_once (provider_endpoint p) (sendMessage E r u)"
proof -
  have "at_most_once (provider_endpoint p) (case z of Inl reply \<Rightarrow> returnE reply | Inr row \<Rightarrow> finish_send E r u plan k row)" for z plan k
    by (auto intro: at_most_silent silent_rules at_most_finish [OF assms] split: sum.split)
  then show ?thesis
    unfolding sendMessage_def assms option.case by (intro at_most_first silent_rules)
qed

text \<open>
  C1. A send request hands the message to at most one provider, once, and that provider is the one the
  configuration names now. (A repeated send of a row that was pinned to another provider therefore
  leaves through the new one, although the window that was checked is the pinned one's.)
\<close>

theorem send_at_most_once:
  "effects (snd (sendMessage E r u w)) = effects w
    \<or> (\<exists>p. getOutboundProvider E = Some p \<and> one_more (provider_endpoint p) (effects w) (effects (snd (sendMessage E r u w))))"
proof (cases "getOutboundProvider E")
  case None
  then show ?thesis by (simp add: sendMessage_def act_simps)
next
  case (Some p)
  with at_most_send [OF Some, of r u] show ?thesis by (auto simp: at_most_once_def)
qed

section \<open>The retry window\<close>

lemma check_window_Inr:
  assumes "check_window E row w = (Inr p, w')"
  shows "w' = w \<and> pinned_id row = provider_id p \<and> isConfigured E p \<and> (\<exists>window created. cap_window (provider_capabilities p) = Some window
    \<and> date_parse (date_ext (plat E)) (take 100 (m_created_at row)) = Some created \<and> clock E (calls w) - created \<le> window)"
proof -
  obtain q where q: "providerForMessage E row = Inr (Some q)"
    using assms by (cases "providerForMessage E row") (auto simp: check_window_def act_simps split: option.splits)
  let ?ok = "case (cap_window (provider_capabilities q), date_parse (date_ext (plat E)) (take 100 (m_created_at row))) of
    (Some window, Some createdAt) \<Rightarrow> clock E (calls w) - createdAt \<le> window | _ \<Rightarrow> False"
  have ok: ?ok
  proof (rule ccontr)
    assume "\<not> ?ok"
    then show False using assms q by (auto simp: check_window_def act_simps split: prod.splits sum.splits)
  qed
  then have "q = p" "w' = w" using assms q by (simp_all add: check_window_def act_simps)
  with ok q show ?thesis
    using providerForMessage_pinned [OF q] by (cases "cap_window (provider_capabilities q)"; cases "date_parse (date_ext (plat E)) (take 100 (m_created_at row))") simp_all
qed

definition resend_allowed :: "env \<Rightarrow> nat \<Rightarrow> message \<Rightarrow> provider \<Rightarrow> bool" where
  "resend_allowed E k row p \<longleftrightarrow> pinned_id row = provider_id p \<and> isConfigured E p
     \<and> m_direction row = js ''outgoing'' \<and> retryable_status (take 100 (m_status row))
     \<and> m_archive_status row = js ''archived'' \<and> filled (m_raw_key row)
     \<and> (\<exists>window created. cap_window (provider_capabilities p) = Some window
          \<and> date_parse (date_ext (plat E)) (take 100 (m_created_at row)) = Some created \<and> clock E k - created \<le> window)"

lemma resend_stored_submits:
  "effects (snd (resend_stored E r u row w)) = effects w
   \<or> m_archive_status row = js ''archived'' \<and> filled (m_raw_key row)
     \<and> (\<exists>p. check_window E row w = (Inr p, w) \<and> one_more (provider_endpoint p) (effects w) (effects (snd (resend_stored E r u row w))))"
proof (cases "m_archive_status row \<noteq> js ''archived'' \<or> \<not> filled (m_raw_key row)")
  case True
  then show ?thesis by (simp add: resend_stored_def act_simps)
next
  case False
  then have run: "resend_stored E r u row w = bindE (check_window E row) (redeliver E r u row) w"
    by (simp add: resend_stored_def)
  have once: "at_most_once (provider_endpoint p) (redeliver E r u row p)" for p
    unfolding redeliver_def by (intro at_most_first [OF silent_plans(2)] at_most_first [OF silent_outgoing(3)] at_most_last [OF at_most_provider] silent_rules)
  show ?thesis
  proof (cases "check_window E row w")
    case (Pair z w1)
    then have "effects w1 = effects w" using silent_outgoing(2) [of E row] unfolding silent_def by (metis snd_conv)
    then show ?thesis
      using Pair once run False check_window_Inr [of E row w _ w1] by (cases z) (auto simp: bindE_def at_most_once_def)
  qed
qed

text \<open>
  C4. A retry submits at most once, to the provider the message is pinned to, and only while it is an
  open outgoing message with a complete archive within that provider's retry window. In particular
  a message pinned to Cloudflare, which has no window, is never submitted again.
\<close>

theorem retry_within_window:
  "effects (snd (retryMessage E r u i w)) = effects w
   \<or> (\<exists>row p. find (\<lambda>m. m_id m = i) (messages (others E (calls w) (db_of w))) = Some row \<and> resend_allowed E (Suc (calls w)) row p
        \<and> p \<noteq> Cloudflare \<and> one_more (provider_endpoint p) (effects w) (effects (snd (retryMessage E r u i w))))"
proof -
  obtain z w1 where find: "findMessage E i w = (z, w1)" by fastforce
  then have quiet: "effects w1 = effects w" using silent_store(1) [of E i] unfolding silent_def by (metis snd_conv)
  show ?thesis
  proof (cases "\<exists>row. z = Inr (Some row) \<and> m_direction row = js ''outgoing'' \<and> \<not> success_status (take 100 (m_status row)) \<and> retryable_status (take 100 (m_status row))")
    case False
    then show ?thesis using find quiet by (auto simp: retryMessage_def act_simps split: option.split sum.split)
  next
    case True
    then obtain row where row: "z = Inr (Some row)" "m_direction row = js ''outgoing''" "\<not> success_status (take 100 (m_status row))"
      "retryable_status (take 100 (m_status row))" by blast
    then have run: "retryMessage E r u i w = resend_stored E r u row w1"
      using find by (simp add: retryMessage_def bindE_def)
    have found: "find (\<lambda>m. m_id m = i) (messages (others E (calls w) (db_of w))) = Some row" "calls w1 = Suc (calls w)"
      using find row(1) unfolding findMessage_def by (auto elim!: select_InrE)
    have "p \<noteq> Cloudflare" if "cap_window (provider_capabilities p) = Some x" for p x
      using that by (auto simp: provider_capabilities_def cloudflare_capabilities_def)
    then show ?thesis
      using resend_stored_submits [of E r u row w1] check_window_Inr [of E row w1 _ w1] run quiet found row
      by (auto simp: resend_allowed_def) (metis+)?
  qed
qed

section \<open>Idempotency\<close>

text \<open>The key belongs to messages that are no longer open.\<close>

definition closed_key :: "jstr \<Rightarrow> db \<Rightarrow> bool" where
  "closed_key k d \<longleftrightarrow> (\<exists>m \<in> set (messages d). same_key k m) \<and> (\<forall>m \<in> set (messages d). same_key k m \<longrightarrow> \<not> retryable_status (m_status m))"

lemma reads_plan:
  assumes "stable E I"
  shows "keeps (\<lambda>w. I (db_of w)) (buildSendPlan E body)"
  unfolding buildSendPlan_def usable_mailbox_def plan_parent_def mailboxById_def findMessage_def Let_def
  by (intro keeps_flow keeps_local keeps_select assms)

lemma silent_bind_run:
  assumes "silent m" "\<And>x w1. m w = (Inr x, w1) \<Longrightarrow> effects (snd (f x w1)) = effects w1"
  shows "effects (snd (bindE m f w)) = effects w"
proof (cases "m w")
  case (Pair z w1)
  then have "effects w1 = effects w" using assms(1) unfolding silent_def by (metis snd_conv)
  then show ?thesis using Pair assms(2) by (cases z) (auto simp: bindE_def)
qed

lemma retryable_take: "retryable_status (take 100 s) \<Longrightarrow> retryable_status s"
proof -
  assume r: "retryable_status (take 100 s)"
  then have "length (take 100 s) < 100" by (auto simp: retryable_status_def dest: arg_cong [where f = length])
  then have "take 100 s = s" by simp
  with r show ?thesis by simp
qed

lemma resume_closed:
  assumes "\<not> retryable_status (m_status row)" "resume_send E plan row w = (Inr z, w')"
  shows "\<exists>reply. z = Inl reply"
  using assms retryable_take by (auto simp: resume_send_def act_simps split: if_splits)

text \<open>
  C23. A key whose message has left the open states (it was sent, or it failed for good) never causes
  another submission: whatever else happens, a request with that key only gets an answer or an error.
\<close>

theorem sent_key_not_repeated:
  assumes "stable E (closed_key (idempotency_key r))" "closed_key (idempotency_key r) (db_of w)"
  shows "effects (snd (sendMessage E r u w)) = effects w"
proof (cases "getOutboundProvider E")
  case None
  then show ?thesis by (simp add: sendMessage_def act_simps)
next
  case (Some p)
  let ?k = "idempotency_key r"
  have last: "effects (snd (bindE (case existing of Some row \<Rightarrow> resume_send E plan row
        | None \<Rightarrow> bindE (create_send E u p plan ?k) (\<lambda>row. returnE (Inr row))) (\<lambda>next_step.
          case next_step of Inl reply \<Rightarrow> returnE reply | Inr row \<Rightarrow> finish_send E r u plan ?k row) w1)) = effects w1"
    if closed: "existing = Some row" "\<not> retryable_status (m_status row)" for existing plan row w1
    unfolding closed option.case
    by (rule silent_bind_run, rule silent_steps) (auto dest!: resume_closed [OF closed(2)] simp: returnE_def)
  have chosen: "\<exists>row. find (same_key ?k) (messages d) = Some row \<and> \<not> retryable_status (m_status row)" if "closed_key ?k d" for d
    using that unfolding closed_key_def by (cases "find (same_key ?k) (messages d)") (auto simp: find_None_iff find_Some_iff)
  have main: "effects (snd (bindE (select E (\<lambda>d. find (same_key ?k) (messages d))) (\<lambda>existing.
      bindE (case existing of Some row \<Rightarrow> resume_send E plan row
        | None \<Rightarrow> bindE (create_send E u p plan ?k) (\<lambda>row. returnE (Inr row))) (\<lambda>next_step.
          case next_step of Inl reply \<Rightarrow> returnE reply | Inr row \<Rightarrow> finish_send E r u plan ?k row)) w1)) = effects w1"
    if w1: "closed_key ?k (db_of w1)" for plan w1
  proof (rule silent_bind_run [OF silent_calls(2)])
    fix x w2
    assume "select E (\<lambda>d. find (same_key ?k) (messages d)) w1 = (Inr x, w2)"
    then have "x = find (same_key ?k) (messages (others E (calls w1) (db_of w1)))" by (auto elim: select_InrE)
    moreover have "closed_key ?k (others E (calls w1) (db_of w1))" using assms(1) w1 by (simp add: stable_def)
    ultimately show "effects (snd (bindE (case x of Some row \<Rightarrow> resume_send E plan row
        | None \<Rightarrow> bindE (create_send E u p plan ?k) (\<lambda>row. returnE (Inr row))) (\<lambda>next_step.
          case next_step of Inl reply \<Rightarrow> returnE reply | Inr row \<Rightarrow> finish_send E r u plan ?k row) w2)) = effects w2"
      using chosen last by metis
  qed
  have "closed_key ?k (db_of w1)" if "buildSendPlan E body w = (Inr plan, w1)" for body plan w1
    using keeps_snd [OF reads_plan [OF assms(1)], of w body] assms(2) that by simp
  then show ?thesis
    unfolding sendMessage_def Some option.case
    by (intro silent_bind_run [OF silent_flow(4)] silent_bind_run [OF silent_flow(3)] silent_bind_run [OF silent_plans(1)])
       (auto intro: main)
qed

section \<open>The archive comes first\<close>

definition archived_with_object :: "db \<Rightarrow> message \<Rightarrow> bool" where
  "archived_with_object d m \<longleftrightarrow> m_archive_status m = js ''archived'' \<and> (\<exists>key. m_raw_key m = Some key \<and> objects d key \<noteq> None)"

definition archived_key :: "jstr \<Rightarrow> db \<Rightarrow> bool" where
  "archived_key k d \<longleftrightarrow> (\<exists>m \<in> set (messages d). same_key k m \<and> archived_with_object d m)"

definition archive_sound :: "jstr \<Rightarrow> db \<Rightarrow> bool" where
  "archive_sound k d \<longleftrightarrow> (\<forall>m \<in> set (messages d). same_key k m \<and> m_archive_status m = js ''archived'' \<longrightarrow> archived_with_object d m)"

definition has_row :: "jstr \<Rightarrow> jstr \<Rightarrow> db \<Rightarrow> bool" where
  "has_row i k d \<longleftrightarrow> (\<exists>m \<in> set (messages d). m_id m = i \<and> same_key k m)"

text \<open>A row is ready when it exists and, if it claims to be archived, the archive is there.\<close>

definition ready :: "jstr \<Rightarrow> message \<Rightarrow> db \<Rightarrow> bool" where
  "ready k row d \<longleftrightarrow> has_row (m_id row) k d \<and> (m_archive_status row = js ''archived'' \<longrightarrow> archived_key k d)"

lemma quiet_stable: "quiet E \<Longrightarrow> stable E I"
  by (simp add: quiet_def stable_def)

lemma has_row_frame [simp]:
  "has_row i k (d\<lparr>attachments := as\<rparr>) = has_row i k d" "has_row i k (d\<lparr>threads := ts\<rparr>) = has_row i k d"
  "has_row i k (d\<lparr>audits := ls\<rparr>) = has_row i k d" "has_row i k (d\<lparr>objects := f\<rparr>) = has_row i k d"
  by (simp_all add: has_row_def)

lemma archived_key_frame [simp]:
  "archived_key k (d\<lparr>threads := ts\<rparr>) = archived_key k d" "archived_key k (d\<lparr>audits := ls\<rparr>) = archived_key k d"
  by (simp_all add: archived_key_def archived_with_object_def)

text \<open>Edits of rows that keep the key and the archive.\<close>

definition archive_edit :: "message \<Rightarrow> message \<Rightarrow> bool" where
  "archive_edit m m' \<longleftrightarrow> m_id m' = m_id m \<and> m_idempotency m' = m_idempotency m \<and> m_archive_status m' = m_archive_status m \<and> m_raw_key m' = m_raw_key m"

lemma map_rows_image: "x \<in> set xs \<Longrightarrow> (if p x then f x else x) \<in> set (map_rows p f xs)"
  by (auto simp: in_map_rows)

lemma archived_key_edit:
  assumes "archived_key k d" "\<And>m. p m \<Longrightarrow> archive_edit m (f m)"
  shows "archived_key k (d\<lparr>messages := map_rows p f (messages d)\<rparr>)"
proof -
  obtain m where m: "m \<in> set (messages d)" "same_key k m" "archived_with_object d m" using assms(1) unfolding archived_key_def by blast
  let ?m = "if p m then f m else m"
  have "same_key k ?m" "archived_with_object (d\<lparr>messages := map_rows p f (messages d)\<rparr>) ?m"
    using m assms(2) [of m] by (auto simp: same_key_def archived_with_object_def archive_edit_def)
  then show ?thesis unfolding archived_key_def using map_rows_image [OF m(1), of p f] by auto
qed

lemma has_row_edit:
  assumes "has_row i k d" "\<And>m. p m \<Longrightarrow> archive_edit m (f m)"
  shows "has_row i k (d\<lparr>messages := map_rows p f (messages d)\<rparr>)"
proof -
  obtain m where m: "m \<in> set (messages d)" "m_id m = i" "same_key k m" using assms(1) unfolding has_row_def by blast
  let ?m = "if p m then f m else m"
  have "m_id ?m = i" "same_key k ?m" using m assms(2) [of m] by (auto simp: same_key_def archive_edit_def)
  then show ?thesis unfolding has_row_def using map_rows_image [OF m(1), of p f] by auto
qed

lemma ready_edit:
  "ready k row d \<Longrightarrow> (\<And>m. p m \<Longrightarrow> archive_edit m (f m)) \<Longrightarrow> ready k row (d\<lparr>messages := map_rows p f (messages d)\<rparr>)"
  unfolding ready_def using has_row_edit archived_key_edit by blast

lemma preserves_edit:
  assumes "\<And>d. I d \<Longrightarrow> I (d\<lparr>messages := map_rows p f (messages d)\<rparr>)"
  shows "preserves I (update_messages p f)"
  unfolding preserves_def using update_messages_snd [of p f] assms by metis

lemma delivery_edit_archive: "delivery_edit m m' \<Longrightarrow> archive_edit m m'"
  by (simp add: archive_edit_def delivery_edit_frame)

lemma archived_key_delivery: "delivery_stable i (archived_key k)"
  unfolding delivery_stable_def
proof (intro allI impI)
  fix d p g
  assume "archived_key k d" and edits: "\<forall>m \<in> set (messages d). p m \<longrightarrow> m_id m = i \<and> delivery_edit m (g m)"
  have "map_rows p g (messages d) = map_rows (\<lambda>m. p m \<and> m \<in> set (messages d)) g (messages d)" by (simp add: map_rows_def)
  moreover have "archived_key k (d\<lparr>messages := map_rows (\<lambda>m. p m \<and> m \<in> set (messages d)) g (messages d)\<rparr>)"
    by (rule archived_key_edit [OF \<open>archived_key k d\<close>]) (use edits delivery_edit_archive in blast)
  ultimately show "archived_key k (d\<lparr>messages := map_rows p g (messages d)\<rparr>)" by simp
qed

text \<open>After the archive nothing takes it away.\<close>

lemma mark_sent_archive: "archive_edit m (mark_sent z ts m)"
  by (simp add: archive_edit_def mark_sent_def)

lemma after_archive:
  assumes "quiet E"
  shows "keeps (\<lambda>w. archived_key k (db_of w)) (deliverWithProvider E row plan)"
    "keeps (\<lambda>w. archived_key k (db_of w)) (record_sent E row z)" "keeps (\<lambda>w. archived_key k (db_of w)) (refreshThread E i)"
    "keeps (\<lambda>w. archived_key k (db_of w)) (audit E r u a b c dt e)" "keeps (\<lambda>w. archived_key k (db_of w)) (findMessage E i)"
proof -
  note st = quiet_stable [OF assms]
  show "keeps (\<lambda>w. archived_key k (db_of w)) (deliverWithProvider E row plan)"
    unfolding deliverWithProvider_def by (intro keeps_flow delivery.edits st archived_key_delivery)
  have edit: "preserves (archived_key k) (void (update_messages p f))" if "\<And>m. archive_edit m (f m)" for p f
    by (intro preserves_void preserves_edit archived_key_edit that)
  have "preserves (archived_key k) (void (update_messages (\<lambda>m. m_id m = m_id row) (mark_sent z ts)))" for ts
    by (rule edit, rule mark_sent_archive)
  moreover have "preserves (archived_key k) (void (update_messages (\<lambda>m. Some (m_id m) = m_parent row) (\<lambda>m. m\<lparr>m_is_replied := True, m_updated_at := ts\<rparr>)))" for ts
    by (rule edit) (simp add: archive_edit_def)
  ultimately have "keeps (\<lambda>w. archived_key k (db_of w)) (batch E (void (update_messages (\<lambda>m. m_id m = m_id row) (mark_sent z ts))
      # (if filled (m_parent row) then [void (update_messages (\<lambda>m. Some (m_id m) = m_parent row) (\<lambda>m. m\<lparr>m_is_replied := True, m_updated_at := ts\<rparr>))] else [])))" for ts
    by (intro keeps_batch st) (simp split: if_splits, blast)
  then show "keeps (\<lambda>w. archived_key k (db_of w)) (record_sent E row z)"
    unfolding record_sent_def by (intro keeps_bind keeps_local)
  show "keeps (\<lambda>w. archived_key k (db_of w)) (refreshThread E i)"
    unfolding refreshThread_def by (intro keeps_flow keeps_local keeps_external st preserves_frame) simp
  show "keeps (\<lambda>w. archived_key k (db_of w)) (audit E r u a b c dt e)"
    unfolding audit_def by (intro keeps_flow keeps_local keeps_external st preserves_frame) simp
  show "keeps (\<lambda>w. archived_key k (db_of w)) (findMessage E i)"
    unfolding findMessage_def by (intro keeps_select st)
qed

text \<open>An archive step that returns has stored the object and the row that names it.\<close>

lemma set_archived_done:
  assumes "quiet E"
  shows "triple (\<lambda>w. has_row i k (db_of w) \<and> objects (db_of w) rawKey \<noteq> None) (set_archived E i rawKey n) (\<lambda>_ w. archived_key k (db_of w)) (\<lambda>_ _. True)"
proof -
  have upd: "archived_key k d'" if run: "constrained (\<lambda>d. (c d, d\<lparr>messages := map_rows (\<lambda>m. m_id m = i)
      (\<lambda>m. m\<lparr>m_raw_key := Some rawKey, m_raw_size := n, m_archive_status := js ''archived'', m_last_error := None, m_updated_at := ts\<rparr>) (messages d)\<rparr>)) d = (Inr x, d')"
    and row: "has_row i k d" and obj: "objects d rawKey \<noteq> None" for c ts d x d'
  proof -
    let ?f = "\<lambda>m. m\<lparr>m_raw_key := Some rawKey, m_raw_size := n, m_archive_status := js ''archived'', m_last_error := None, m_updated_at := ts\<rparr>"
    obtain m where m: "m \<in> set (messages d)" "m_id m = i" "same_key k m" using row unfolding has_row_def by blast
    have d': "d' = d\<lparr>messages := map_rows (\<lambda>m. m_id m = i) ?f (messages d)\<rparr>" using run by (simp add: constrained_Inr)
    then have "?f m \<in> set (messages d')" using map_rows_image [OF m(1), of "\<lambda>m. m_id m = i" ?f] m(2) by simp
    moreover have "same_key k (?f m)" "archived_with_object d' (?f m)"
      using m d' obj by (simp_all add: same_key_def archived_with_object_def)
    ultimately show ?thesis unfolding archived_key_def by blast
  qed
  have "archived_key k (db_of w')"
    if pre: "has_row i k (db_of w)" "objects (db_of w) rawKey \<noteq> None" and run: "set_archived E i rawKey n w = (Inr u, w')" for u w w'
  proof -
    obtain x d' where "constrained (\<lambda>d. (count_rows (\<lambda>m. m_id m = i) (messages d), d\<lparr>messages := map_rows (\<lambda>m. m_id m = i)
        (\<lambda>m. m\<lparr>m_raw_key := Some rawKey, m_raw_size := n, m_archive_status := js ''archived'', m_last_error := None,
           m_updated_at := iso (clock E (calls w))\<rparr>) (messages d)\<rparr>)) (db_of w) = (Inr x, d')" "db_of w' = d'"
      using run assms unfolding set_archived_def update_messages_def by (auto elim!: bindE_InrE external_InrE)
    then show ?thesis using upd [where c = "\<lambda>d. count_rows (\<lambda>m. m_id m = i) (messages d)"] pre by simp
  qed
  then show ?thesis by (auto simp: triple_def split: prod.split sum.split)
qed

lemma keeps_has_row:
  assumes "quiet E"
  shows "keeps (\<lambda>w. has_row i k (db_of w)) (deleteOutgoingAttachments E j)"
    "keeps (\<lambda>w. has_row i k (db_of w)) (archiveOutgoingAttachments E j b us)"
    "keeps (\<lambda>w. has_row i k (db_of w)) (rawOutgoingMessage E f t c' s' x h m ts' us' i' rs)"
    "keeps (\<lambda>w. has_row i k (db_of w)) (message_timestamp E row)"
    "keeps (\<lambda>w. has_row i k (db_of w)) (objectPath E a1 a2 a3 a4)"
  unfolding deleteOutgoingAttachments_def archiveOutgoingAttachments_def archive_upload_def insert_attachments_def r2_remove_def putR2_def
    objectPath_def add_attachments_def remove_attachment_rows_def
  by (intro keeps_flow keeps_local keeps_select keeps_external keeps_r2_call keeps_timestamp keeps_rawOutgoing quiet_stable [OF assms]
      preserves_constrained_frame; simp add: r2_put_def r2_delete_def)+

lemma put_done:
  assumes "quiet E"
  shows "triple (\<lambda>w. has_row i k (db_of w)) (putR2 E key v) (\<lambda>_ w. has_row i k (db_of w) \<and> objects (db_of w) key \<noteq> None) (\<lambda>_ _. True)"
  using assms by (auto simp: triple_def putR2_def r2_call_def catchE_def external_def throwE_def r2_put_def Let_def split: fault.split)

lemma triple_then_keeps:
  assumes "keeps P m" "\<And>x. triple P (f x) Q (\<lambda>_ _. True)"
  shows "triple P (bindE m f) Q (\<lambda>_ _. True)"
  by (rule triple_bind [OF triple_conseq [OF assms(1) [folded triple_keeps]] assms(2)]) auto

lemma archiveOutgoing_done:
  assumes "quiet E"
  shows "triple (\<lambda>w. has_row (m_id row) k (db_of w)) (archiveOutgoing E row plan) (\<lambda>_ w. archived_key k (db_of w)) (\<lambda>_ _. True)"
proof -
  let ?P = "\<lambda>w. has_row (m_id row) k (db_of w)" and ?Q = "\<lambda>_ w. archived_key k (db_of w)"
  have put: "triple ?P (bindE (putR2 E key raw) (\<lambda>_. catchE (set_archived E (m_id row) key (length raw))
      (\<lambda>e. bindE (ignoreE (r2_remove E [key])) (\<lambda>_. throwE e)))) ?Q (\<lambda>_ _. True)" for key raw
  proof (rule triple_bind [OF put_done [OF assms]], rule triple_catch [OF set_archived_done [OF assms]])
    show "triple (\<lambda>_. True) (bindE (ignoreE (r2_remove E [key])) (\<lambda>_. throwE e)) ?Q (\<lambda>_ _. True)" for e
      by (simp add: triple_def bindE_def ignoreE_def throwE_def split: prod.split)
  qed
  show ?thesis
    unfolding archiveOutgoing_def
    by (rule triple_then_keeps [OF keeps_has_row(1) [OF assms]], rule triple_then_keeps [OF keeps_has_row(2) [OF assms]],
        rule triple_then_keeps [OF keeps_has_row(4) [OF assms]], rule triple_then_keeps [OF keeps_has_row(3) [OF assms]],
        rule triple_then_keeps [OF keeps_local(4)], rule triple_then_keeps [OF keeps_has_row(5) [OF assms]], rule put)
qed

lemma ensure_archived_done:
  assumes "quiet E"
  shows "triple (\<lambda>w. ready k row (db_of w)) (ensure_archived E plan row) (\<lambda>_ w. archived_key k (db_of w)) (\<lambda>_ _. True)"
proof (cases "m_archive_status row = js ''archived''")
  case True
  then show ?thesis by (simp add: ensure_archived_def triple_def returnE_def ready_def)
next
  case False
  have arch: "triple (\<lambda>w. ready k row (db_of w)) (archiveOutgoing E row plan) (\<lambda>_ w. archived_key k (db_of w)) (\<lambda>_ _. True)"
    by (rule triple_conseq [OF archiveOutgoing_done [OF assms]]) (auto simp: ready_def)
  have found: "triple (\<lambda>w. archived_key k (db_of w)) (findMessage E i) (\<lambda>_ w. archived_key k (db_of w)) (\<lambda>_ _. True)" for i
    by (rule triple_conseq [OF after_archive(5) [OF assms, folded triple_keeps]]) auto
  have first: "triple (\<lambda>w. ready k row (db_of w)) (bindE (archiveOutgoing E row plan) (\<lambda>_.
      bindE (findMessage E (m_id row)) (\<lambda>found. returnE (coalesce found row)))) (\<lambda>_ w. archived_key k (db_of w)) (\<lambda>_ _. True)"
    by (rule triple_bind [OF arch], rule triple_bind [OF found], rule triple_return)
  have failed: "triple (\<lambda>_. True) (bindE (now E) (\<lambda>ts. bindE (external E (s ts)) (\<lambda>_. throwE e))) Q (\<lambda>_ _. True)" for s :: "jstr \<Rightarrow> nat statement" and e Q
    by (simp add: triple_def bindE_def throwE_def split: prod.split sum.split)
  show ?thesis
    unfolding ensure_archived_def if_not_P [OF False] by (rule triple_catch [OF first]) (rule failed)
qed

text \<open>What is known along a send: nothing was submitted, or the archive is there.\<close>

definition covered :: "jstr \<Rightarrow> effect list \<Rightarrow> world \<Rightarrow> bool" where
  "covered k es w \<longleftrightarrow> effects w = es \<or> archived_key k (db_of w)"

lemma triple_silent:
  assumes "triple P m Q (\<lambda>_ _. True)" "silent m"
  shows "triple (\<lambda>w. effects w = es \<and> P w) m (\<lambda>x w. effects w = es \<and> Q x w) (\<lambda>_ w. covered k es w)"
proof (rule tripleI)
  fix w :: world
  assume w: "effects w = es \<and> P w"
  obtain z w' where run: "m w = (z, w')" by fastforce
  have "effects w' = es" using assms(2) w run unfolding silent_def by (metis snd_conv)
  then show "case m w of (r, s') \<Rightarrow> (case r of Inl e \<Rightarrow> covered k es s' | Inr x \<Rightarrow> effects s' = es \<and> Q x s')"
    using run w assms(1) by (cases z) (auto simp: covered_def dest: triple_Inr)
qed

lemma covered_after: "keeps (\<lambda>w. archived_key k (db_of w)) m \<Longrightarrow> triple (\<lambda>w. archived_key k (db_of w)) m (\<lambda>_ w. archived_key k (db_of w)) (\<lambda>_ w. covered k es w)"
  by (auto simp: triple_def keeps_def covered_def split: prod.split sum.split)

lemma finish_covered:
  assumes "quiet E"
  shows "triple (\<lambda>w. effects w = es \<and> ready k row (db_of w)) (finish_send E r u plan idem row) (\<lambda>_ w. covered k es w) (\<lambda>_ w. covered k es w)"
  unfolding finish_send_def
proof (rule triple_bind [OF triple_silent [OF ensure_archived_done [OF assms] silent_steps(3)]])
  fix row'
  have "keeps (\<lambda>w. archived_key k (db_of w)) (bindE (deliverWithProvider E row' plan) (\<lambda>result.
     bindE (record_sent E row' result) (\<lambda>_.
     bindE (refreshThread E (m_thread row')) (\<lambda>_.
     bindE (audit E r (Some u) (js ''mail_send'') (js ''message'') (m_id row') (Some (audit_details plan (fst result))) idem) (\<lambda>_.
     returnE (json (obj (sent_fields row' result @ [(''status'', JStr (js ''sent''))])) 201 []))))))"
    by (intro keeps_flow after_archive assms)
  from covered_after [OF this, of es]
  show "triple (\<lambda>w. effects w = es \<and> archived_key k (db_of w)) (bindE (deliverWithProvider E row' plan) (\<lambda>result.
     bindE (record_sent E row' result) (\<lambda>_.
     bindE (refreshThread E (m_thread row')) (\<lambda>_.
     bindE (audit E r (Some u) (js ''mail_send'') (js ''message'') (m_id row') (Some (audit_details plan (fst result))) idem) (\<lambda>_.
     returnE (json (obj (sent_fields row' result @ [(''status'', JStr (js ''sent''))])) 201 []))))))
     (\<lambda>_ w. covered k es w) (\<lambda>_ w. covered k es w)"
    by (rule triple_conseq) (auto simp: covered_def)
qed

text \<open>A resumed row is ready because the key's rows are sound, a new one because it was just inserted.\<close>

lemma ready_window:
  assumes "quiet E"
  shows "keeps (\<lambda>w. ready k row (db_of w)) (check_window E row)" "keeps (\<lambda>w. ready k row (db_of w)) (set_sending E i p)"
proof -
  have "preserves (ready k row) (update_messages q (\<lambda>m. m\<lparr>m_status := s, m_last_error := e, m_updated_at := ts\<rparr>))" for q s e ts
    by (rule preserves_edit, erule ready_edit) (simp add: archive_edit_def)
  then show "keeps (\<lambda>w. ready k row (db_of w)) (check_window E row)" "keeps (\<lambda>w. ready k row (db_of w)) (set_sending E i p)"
    unfolding check_window_def set_sending_def
    by (intro keeps_flow keeps_local keeps_external quiet_stable [OF assms]; simp)+
qed

lemma resume_ready:
  assumes "quiet E"
  shows "triple (\<lambda>w. ready k row (db_of w)) (resume_send E plan row)
    (\<lambda>z w. case z of Inl reply \<Rightarrow> True | Inr row' \<Rightarrow> ready k row' (db_of w)) (\<lambda>_ _. True)"
proof -
  let ?P = "\<lambda>w. ready k row (db_of w)" and ?Q = "\<lambda>z w. case z of Inl reply \<Rightarrow> True | Inr row' \<Rightarrow> ready k row' (db_of w)"
  have stop: "triple ?P (returnE (Inr row)) ?Q (\<lambda>_ _. True)" by (rule triple_return) simp
  have go: "triple ?P (bindE (check_window E row) (\<lambda>_. bindE (set_sending E (m_id row) (\<lambda>_. True)) (\<lambda>_. returnE (Inr row)))) ?Q (\<lambda>_ _. True)"
    by (rule triple_then_keeps [OF ready_window(1) [OF assms]], rule triple_then_keeps [OF ready_window(2) [OF assms]], rule stop)
  show ?thesis
    unfolding resume_send_def
    by (rule triple_then_keeps [OF keeps_throw_if])
      (auto intro!: triple_return triple_then_keeps [OF keeps_throw_if] go)
qed

lemma insert_done:
  assumes "quiet E"
  shows "triple (\<lambda>_. True) (insert_outgoing E m k h) (\<lambda>_ w. m \<in> set (messages (db_of w)) \<and> db_ok (db_of w)) (\<lambda>_ _. True)"
proof -
  have ins: "triple (\<lambda>_. True) (external E (insert_message m)) (\<lambda>_ w. m \<in> set (messages (db_of w)) \<and> db_ok (db_of w)) (\<lambda>_ _. True)"
    by (auto simp: triple_def insert_message_def constrained_Inr elim!: external_InrE split: prod.split sum.split)
  have "triple (\<lambda>_. True) (bindE (select E f) (\<lambda>c. if b c then throwE e1 else throwE e2)) Q (\<lambda>_ _. True)" for f and b :: "message option \<Rightarrow> bool" and e1 e2 Q
    by (simp add: triple_def bindE_def throwE_def split: prod.split sum.split)
  then show ?thesis unfolding insert_outgoing_def by (intro triple_catch [OF ins]) simp
qed

lemma outgoing_row_sel [simp]:
  "m_id (outgoing_row E u p plan k i x ts) = i" "m_idempotency (outgoing_row E u p plan k i x ts) = Some k"
  "m_archive_status (outgoing_row E u p plan k i x ts) = js ''pending''"
  by (simp_all add: outgoing_row_def Let_def)

lemma find_message_distinct: "db_ok d \<Longrightarrow> m \<in> set (messages d) \<Longrightarrow> find (\<lambda>x. m_id x = m_id m) (messages d) = Some m"
proof -
  assume "db_ok d" "m \<in> set (messages d)"
  then have "inj_on m_id (set (messages d))" by (simp add: db_ok_def rows_ok_def message_rows_ok_def distinct_map)
  moreover obtain x where x: "find (\<lambda>x. m_id x = m_id m) (messages d) = Some x"
    using \<open>m \<in> set (messages d)\<close> by (cases "find (\<lambda>x. m_id x = m_id m) (messages d)") (auto simp: find_None_iff)
  then have "x \<in> set (messages d)" "m_id x = m_id m" by (auto simp: find_Some_iff)
  ultimately show ?thesis using x \<open>m \<in> set (messages d)\<close> by (simp add: inj_onD)
qed

lemma create_ready:
  assumes "quiet E"
  shows "triple (\<lambda>_. True) (create_send E u p plan k) (\<lambda>row w. ready k row (db_of w)) (\<lambda>_ _. True)"
proof -
  let ?Q = "\<lambda>row w. ready k row (db_of w)"
  have "keeps (\<lambda>_. True) m" for m :: "'z action" by (simp add: keeps_def)
  note anything = triple_then_keeps [OF this]
  have found: "triple (\<lambda>w. m \<in> set (messages (db_of w)) \<and> db_ok (db_of w)) (bindE (findMessage E (m_id m)) (\<lambda>row.
      case row of None \<Rightarrow> throwE e | Some r \<Rightarrow> returnE r)) ?Q (\<lambda>_ _. True)"
    if m: "m_idempotency m = Some k" "m_archive_status m = js ''pending''" for m e
  proof (rule triple_bind)
    show "triple (\<lambda>w. m \<in> set (messages (db_of w)) \<and> db_ok (db_of w)) (findMessage E (m_id m))
      (\<lambda>row w. row = Some m \<and> m \<in> set (messages (db_of w))) (\<lambda>_ _. True)"
      using assms find_message_distinct
      by (auto simp: triple_def findMessage_def elim!: select_InrE split: prod.split sum.split)
    show "triple (\<lambda>w. row = Some m \<and> m \<in> set (messages (db_of w))) (case row of None \<Rightarrow> throwE e | Some r \<Rightarrow> returnE r) ?Q (\<lambda>_ _. True)" for row
      using m by (auto simp: triple_def returnE_def ready_def has_row_def same_key_def)
  qed
  have inserted: "triple (\<lambda>_. True) (bindE (insert_outgoing E (outgoing_row E u p plan k i x ts) k h) (\<lambda>_. bindE (findMessage E i) (\<lambda>row.
      case row of None \<Rightarrow> throwE e | Some r \<Rightarrow> returnE r))) ?Q (\<lambda>_ _. True)" for i x ts h e
    using triple_bind [OF insert_done [OF assms] found [of "outgoing_row E u p plan k i x ts"]] by simp
  show ?thesis
    unfolding create_send_def Let_def
    by (rule anything, rule anything, rule anything, rule anything, rule anything, rule inserted)
qed

lemma covered_start:
  assumes "silent m" "\<And>x w1. m w = (Inr x, w1) \<Longrightarrow> effects w1 = effects w \<Longrightarrow> covered k (effects w1) (snd (f x w1))"
  shows "covered k (effects w) (snd (bindE m f w))"
proof (cases "m w")
  case (Pair z w1)
  then have "effects w1 = effects w" using assms(1) unfolding silent_def by (metis snd_conv)
  then show ?thesis using Pair assms(2) by (cases z) (auto simp: bindE_def covered_def)
qed

lemma covered_triple: "triple P m (\<lambda>_. covered k es) (\<lambda>_. covered k es) \<Longrightarrow> P w \<Longrightarrow> covered k es (snd (m w))"
proof -
  assume t: "triple P m (\<lambda>_. covered k es) (\<lambda>_. covered k es)" "P w"
  obtain z w' where run: "m w = (z, w')" by fastforce
  then show "covered k es (snd (m w))" using t by (cases z) (auto dest: triple_Inr triple_Inl)
qed

definition choose_row :: "env \<Rightarrow> user \<Rightarrow> provider \<Rightarrow> send_plan \<Rightarrow> jstr \<Rightarrow> message option \<Rightarrow> (response + message) action" where
  "choose_row E u p plan k existing = (case existing of Some row \<Rightarrow> resume_send E plan row
     | None \<Rightarrow> bindE (create_send E u p plan k) (\<lambda>row. returnE (Inr row)))"

lemma silent_choose: "silent (choose_row E u p plan k existing)"
  unfolding choose_row_def by (auto intro: silent_rules split: option.split)

lemma choose_ready:
  assumes "quiet E"
  shows "triple (\<lambda>w. \<forall>row. existing = Some row \<longrightarrow> ready k row (db_of w)) (choose_row E u p plan k existing)
    (\<lambda>z w. case z of Inl reply \<Rightarrow> True | Inr row \<Rightarrow> ready k row (db_of w)) (\<lambda>_ _. True)"
proof (cases existing)
  case (Some row)
  then show ?thesis using resume_ready [OF assms, of k row plan] by (simp add: choose_row_def)
next
  case None
  have "triple (\<lambda>_. True) (bindE (create_send E u p plan k) (\<lambda>row. returnE (Inr row)))
    (\<lambda>z w. case z of Inl reply \<Rightarrow> True | Inr row \<Rightarrow> ready k row (db_of w)) (\<lambda>_ _. True)"
    by (rule triple_bind [OF create_ready [OF assms]], rule triple_return) simp
  then show ?thesis using None by (simp add: choose_row_def)
qed

lemma sound_ready: "archive_sound k d \<Longrightarrow> find (same_key k) (messages d) = Some row \<Longrightarrow> ready k row d"
proof -
  assume sound: "archive_sound k d" and "find (same_key k) (messages d) = Some row"
  then have row: "row \<in> set (messages d)" "same_key k row" by (auto simp: find_Some_iff)
  then show "ready k row d"
    using sound by (auto simp: ready_def has_row_def archived_key_def archive_sound_def)
qed

text \<open>
  C7. Nothing leaves before it is archived. If a send request, in which any call may be lost or go
  unacknowledged, submitted anything to a provider, then the row of its idempotency key is marked
  archived and the raw message it names is stored.
\<close>

theorem archived_before_submission:
  assumes "quiet E" "archive_sound (idempotency_key r) (db_of w)"
  shows "effects (snd (sendMessage E r u w)) = effects w \<or> archived_key (idempotency_key r) (db_of (snd (sendMessage E r u w)))"
proof -
  let ?k = "idempotency_key r" and ?rest = "\<lambda>plan z. case z of Inl reply \<Rightarrow> returnE reply | Inr row \<Rightarrow> finish_send E r u plan (idempotency_key r) row"
  have rest: "triple (\<lambda>w. effects w = es \<and> (case z of Inl reply \<Rightarrow> True | Inr row \<Rightarrow> ready ?k row (db_of w))) (?rest plan z)
      (\<lambda>_. covered ?k es) (\<lambda>_. covered ?k es)" for z plan es
    using finish_covered [OF assms(1)] by (auto simp: triple_def covered_def returnE_def split: sum.split)
  have chosen: "triple (\<lambda>w. effects w = es \<and> (\<forall>row. existing = Some row \<longrightarrow> ready ?k row (db_of w)))
      (bindE (choose_row E u p plan ?k existing) (?rest plan)) (\<lambda>_. covered ?k es) (\<lambda>_. covered ?k es)" for existing p plan es
    by (rule triple_bind [OF triple_silent [OF choose_ready [OF assms(1)] silent_choose]], rule rest)
  have found: "covered ?k es (snd (bindE (select E (\<lambda>d. find (same_key ?k) (messages d)))
      (\<lambda>existing. bindE (choose_row E u p plan ?k existing) (?rest plan)) w1))" if "archive_sound ?k (db_of w1)" "effects w1 = es" for p plan w1 es
    unfolding that(2) [symmetric]
  proof (rule covered_start [OF silent_calls(2)])
    fix existing w2
    assume sel: "select E (\<lambda>d. find (same_key ?k) (messages d)) w1 = (Inr existing, w2)" and "effects w2 = effects w1"
    then have "existing = find (same_key ?k) (messages (db_of w1))" "db_of w2 = db_of w1" using select_step [OF assms(1) sel] by simp_all
    then have "\<forall>row. existing = Some row \<longrightarrow> ready ?k row (db_of w2)" using sound_ready that(1) by simp
    then show "covered ?k (effects w2) (snd (bindE (choose_row E u p plan ?k existing) (?rest plan) w2))"
      using covered_triple [OF chosen] by blast
  qed
  have sound: "archive_sound ?k (db_of w1)" if "buildSendPlan E body w = (Inr plan, w1)" for body plan w1
    using keeps_snd [OF reads_plan [OF quiet_stable [OF assms(1)]], of "archive_sound ?k" w body] assms(2) that by simp
  have "covered ?k (effects w) (snd (sendMessage E r u w))"
  proof (cases "getOutboundProvider E")
    case None
    then show ?thesis by (simp add: sendMessage_def throwE_def covered_def)
  next
    case (Some p)
    show ?thesis
      unfolding sendMessage_def Some option.case choose_row_def [symmetric]
      by (intro covered_start [OF silent_flow(4)] covered_start [OF silent_flow(3)] covered_start [OF silent_plans(1)])
         (auto intro!: found sound)
  qed
  then show ?thesis by (simp add: covered_def)
qed

section \<open>What a sent message looks like\<close>

definition closed_row :: "jstr \<Rightarrow> db \<Rightarrow> bool" where
  "closed_row i d \<longleftrightarrow> (\<forall>m \<in> set (messages d). m_id m = i \<longrightarrow>
     \<not> retryable_status (m_status m) \<and> m_provider_message_id m \<noteq> None \<and> m_last_error m = None)"

lemma closed_row_frame [simp]:
  "closed_row i (d\<lparr>threads := ts\<rparr>) = closed_row i d" "closed_row i (d\<lparr>audits := ls\<rparr>) = closed_row i d"
  by (simp_all add: closed_row_def)

lemma mark_sent_closes: "closed_row i (d\<lparr>messages := map_rows (\<lambda>m. m_id m = i) (mark_sent z ts) xs\<rparr>)"
  unfolding closed_row_def
proof (intro ballI impI)
  fix y
  assume "y \<in> set (messages (d\<lparr>messages := map_rows (\<lambda>m. m_id m = i) (mark_sent z ts) xs\<rparr>))" "m_id y = i"
  then have "y \<in> set (map_rows (\<lambda>m. m_id m = i) (mark_sent z ts) xs)" by simp
  then obtain x where x: "y = (if m_id x = i then mark_sent z ts x else x)" unfolding in_map_rows by blast
  then have "m_id x = i" using \<open>m_id y = i\<close> by (cases "m_id x = i") simp_all
  then have "y = mark_sent z ts x" using x by simp
  moreover have "\<not> retryable_status (js ''sent'')" by (simp add: retryable_status_def)
  ultimately show "\<not> retryable_status (m_status y) \<and> m_provider_message_id y \<noteq> None \<and> m_last_error y = None"
    by (simp add: mark_sent_def fill_def)
qed

lemma closed_row_edit:
  assumes "closed_row i d" "\<And>m. m_id (f m) = m_id m \<and> m_status (f m) = m_status m \<and> m_provider_message_id (f m) = m_provider_message_id m
    \<and> m_last_error (f m) = m_last_error m"
  shows "closed_row i (d\<lparr>messages := map_rows p f (messages d)\<rparr>)"
  unfolding closed_row_def
proof (intro ballI impI)
  fix y
  assume "y \<in> set (messages (d\<lparr>messages := map_rows p f (messages d)\<rparr>))" "m_id y = i"
  then have "y \<in> set (map_rows p f (messages d))" by simp
  then obtain x where x: "x \<in> set (messages d)" "y = (if p x then f x else x)" unfolding in_map_rows by blast
  have "m_id y = m_id x" "m_status y = m_status x" "m_provider_message_id y = m_provider_message_id x" "m_last_error y = m_last_error x"
    using x(2) assms(2) [of x] by simp_all
  then show "\<not> retryable_status (m_status y) \<and> m_provider_message_id y \<noteq> None \<and> m_last_error y = None"
    using assms(1) x(1) \<open>m_id y = i\<close> by (simp add: closed_row_def)
qed

lemma record_sent_closes:
  assumes "quiet E" "record_sent E row z w = (Inr v, w')"
  shows "closed_row (m_id row) (db_of w')"
proof -
  let ?sent = "\<lambda>ts. void (update_messages (\<lambda>m. m_id m = m_id row) (mark_sent z ts))"
  let ?replied = "\<lambda>ts. void (update_messages (\<lambda>m. Some (m_id m) = m_parent row) (\<lambda>m. m\<lparr>m_is_replied := True, m_updated_at := ts\<rparr>))"
  obtain ts d' where run: "run_all (?sent ts # (if filled (m_parent row) then [?replied ts] else [])) (db_of w) = (Inr (), d')" "db_of w' = d'"
  proof -
    let ?ts = "iso (clock E (calls w))"
    have "external E (transaction (?sent ?ts # (if filled (m_parent row) then [?replied ?ts] else []))) w = (Inr v, w')"
      using assms(2) unfolding record_sent_def batch_def by (simp add: bindE_def now_def)
    then have "transaction (?sent ?ts # (if filled (m_parent row) then [?replied ?ts] else [])) (db_of w) = (Inr v, db_of w')"
      by (rule external_step [OF assms(1)])
    then have "run_all (?sent ?ts # (if filled (m_parent row) then [?replied ?ts] else [])) (db_of w) = (Inr (), db_of w')"
      unfolding transaction_def by (auto split: prod.splits sum.splits)
    then show thesis using that by blast
  qed
  obtain d1 where d1: "?sent ts (db_of w) = (Inr (), d1)" "run_all (if filled (m_parent row) then [?replied ts] else []) d1 = (Inr (), d')"
    using run(1) by (auto split: prod.splits sum.splits)
  have "closed_row (m_id row) d1"
  proof -
    have "d1 = (db_of w)\<lparr>messages := map_rows (\<lambda>m. m_id m = m_id row) (mark_sent z ts) (messages (db_of w))\<rparr>"
      using d1(1) by (auto simp: void_def update_messages_def constrained_def split: prod.splits sum.splits if_splits)
    then show ?thesis by (simp only: mark_sent_closes)
  qed
  have kept: "closed_row i (snd (?replied ts d))" if "closed_row i d" for i d
  proof -
    have "preserves (closed_row i) (?replied ts)" by (intro preserves_void preserves_edit closed_row_edit) simp_all
    then show ?thesis using that unfolding preserves_def by blast
  qed
  have "closed_row (m_id row) d'"
  proof (cases "filled (m_parent row)")
    case True
    then have "?replied ts d1 = (Inr (), d')" using d1(2) by (simp split: prod.splits sum.splits)
    with \<open>closed_row (m_id row) d1\<close> kept show ?thesis by (metis snd_conv)
  next
    case False
    with d1(2) \<open>closed_row (m_id row) d1\<close> show ?thesis by simp
  qed
  then show ?thesis using run(2) by simp
qed

lemma closed_row_kept:
  assumes "quiet E"
  shows "keeps (\<lambda>w. closed_row i (db_of w)) (refreshThread E j)" "keeps (\<lambda>w. closed_row i (db_of w)) (audit E r u a b c dt e)"
  unfolding refreshThread_def audit_def
  by (intro keeps_flow keeps_local keeps_external quiet_stable [OF assms] preserves_frame; simp)+

lemma finish_send_closes:
  assumes "quiet E" "finish_send E r u plan k row w = (Inr resp, w')"
  shows "\<exists>row' z. resp = json (obj (sent_fields row' z @ [(''status'', JStr (js ''sent''))])) 201 [] \<and> closed_row (m_id row') (db_of w')"
proof -
  obtain row' z w1 w2 w3 where rec: "record_sent E row' z w1 = (Inr (), w2)" and ref: "refreshThread E (m_thread row') w2 = (Inr (), w3)"
    and aud: "audit E r (Some u) (js ''mail_send'') (js ''message'') (m_id row') (Some (audit_details plan (fst z))) k w3 = (Inr (), w')"
    and resp: "resp = json (obj (sent_fields row' z @ [(''status'', JStr (js ''sent''))])) 201 []"
    using assms(2) unfolding finish_send_def by (elim bindE_InrE) simp
  have "closed_row (m_id row') (db_of w2)" by (rule record_sent_closes [OF assms(1) rec])
  then have "closed_row (m_id row') (db_of w3)" using keepsD [OF closed_row_kept(1) [OF assms(1)] _ ref] by blast
  then have "closed_row (m_id row') (db_of w')" using keepsD [OF closed_row_kept(2) [OF assms(1)] _ aud] by blast
  with resp show ?thesis by blast
qed

text \<open>
  The answer 201 is the truth: the row it names is no longer open, carries the provider's
  identifier and no error.
\<close>

theorem sent_answer_true:
  assumes "quiet E" "finish_send E r u plan k row w = (Inr resp, w')"
  shows "\<exists>row' z. resp = json (obj (sent_fields row' z @ [(''status'', JStr (js ''sent''))])) 201 [] \<and> closed_row (m_id row') (db_of w')"
  using assms by (rule finish_send_closes)

section \<open>Examples\<close>

text \<open>A worker with a Resend key, and a request that repeats a send.\<close>

definition sending_env :: env where
  "sending_env = example_env\<lparr>var := (\<lambda>name. if name = ''OUTBOUND_PROVIDER'' then JStr (js ''resend'')
     else if name = ''RESEND_API_KEY'' then JStr (js ''key'') else JUndef)\<rparr>"

definition sending_request :: http_request where
  "sending_request = example_request\<lparr>rq_headers := [(js ''Idempotency-Key'', js ''send-0001'')]\<rparr>"

definition sent_db :: db where
  "sent_db = empty_db\<lparr>messages := [message_defaults\<lparr>m_id := js ''m1'', m_idempotency := Some (js ''send-0001''), m_status := js ''sent''\<rparr>]\<rparr>"

lemma sending_env_ok: "quiet sending_env" "stable sending_env I" "getOutboundProvider sending_env = Some Resend"
proof -
  show "quiet sending_env" by (simp add: sending_env_def quiet_def example_env_def)
  then show "stable sending_env I" by (rule quiet_stable)
  show "getOutboundProvider sending_env = Some Resend" by code_simp
qed

lemma sending_key: "idempotency_key sending_request = js ''send-0001''"
  by code_simp

theorem sent_key_not_repeated_witness:
  "effects (snd (sendMessage sending_env sending_request example_user (start_world sent_db))) = []"
proof -
  have "closed_key (idempotency_key sending_request) (db_of (start_world sent_db))"
    by (simp add: sending_key closed_key_def sent_db_def same_key_def retryable_status_def)
  with sent_key_not_repeated [OF sending_env_ok(2), of sending_request "start_world sent_db" example_user] show ?thesis by simp
qed

theorem archived_before_submission_witness:
  "effects (snd (sendMessage sending_env sending_request example_user (start_world empty_db))) = []
   \<or> archived_key (js ''send-0001'') (db_of (snd (sendMessage sending_env sending_request example_user (start_world empty_db))))"
  using archived_before_submission [OF sending_env_ok(1), of sending_request "start_world empty_db" example_user]
  by (simp add: sending_key archive_sound_def empty_db_def)

text \<open>A send that goes through: Resend takes the message, and the row of an archived send is closed.\<close>

definition id_reply :: http_reply where
  "id_reply = \<lparr> rp_status = 200, rp_headers = [], rp_body = [123] @ json_quote (js ''id'') @ [58] @ json_quote (js ''p1'') @ [125] \<rparr>"

definition accepting_env :: env where
  "accepting_env = sending_env\<lparr>var := (\<lambda>name. if name = ''OUTBOUND_PROVIDER'' then JStr (js ''resend'')
       else if name = ''RESEND_API_KEY'' then JStr (js ''key'') else if name = ''AUTH_PEPPER'' then JStr (replicate 32 112) else JUndef),
     network := (\<lambda>_ _ _. Replied id_reply)\<rparr>"

definition open_example :: message where
  "open_example = message_defaults\<lparr>m_id := js ''m1'', m_thread := js ''t1'', m_direction := js ''outgoing'', m_status := js ''sending'',
     m_archive_status := js ''archived'', m_provider := Some (js ''resend''), m_idempotency := Some (js ''send-0001'')\<rparr>"

definition open_db :: db where
  "open_db = empty_db\<lparr>threads := [new_thread (js ''t1'') None (js ''Hi'') (js ''[]'') (js ''2024'') (js ''2024'')],
     messages := [open_example], admins := [example_admin]\<rparr>"

definition example_plan :: send_plan where
  "example_plan = \<lparr> p_body = JObj [], p_mailbox = \<lparr> mb_id = js ''b1'', mb_address = js ''me@m.example'', mb_display_name = js ''Me'',
       mb_can_receive = True, mb_can_send = True, mb_active = True, mb_routing_managed = False, mb_created_at = [], mb_updated_at = [] \<rparr>,
     p_to = [js ''a@b.cc''], p_cc = [], p_bcc = [], p_subject = js ''Hi'', p_html = [], p_text = js ''hello'', p_uploads = [],
     p_parent = None, p_thread = js ''t1'', p_hash = [] \<rparr>"

lemma accepting_env_ok: "quiet accepting_env" "reliable accepting_env" "getOutboundProvider accepting_env = Some Resend"
  "requireAuthPepper accepting_env = Inr (replicate 32 112)"
proof -
  show "quiet accepting_env" "reliable accepting_env" by (simp_all add: accepting_env_def sending_env_def quiet_def reliable_def example_env_def)
  show "getOutboundProvider accepting_env = Some Resend" by code_simp
  show "requireAuthPepper accepting_env = Inr (replicate 32 112)" by code_simp
qed

lemma open_example_sel [simp]:
  "m_id open_example = js ''m1''" "m_thread open_example = js ''t1''" "m_provider_message_id open_example = None"
  "m_archive_status open_example = js ''archived''" "m_parent open_example = None" "messages open_db = [open_example]"
  "admins open_db = [example_admin]"
  by (simp_all add: open_example_def open_db_def message_defaults_def)

lemma open_db_edits:
  assumes "m_thread m = js ''t1''" "m_mailbox m = None" "m_parent m = None" "m_created_by m = None" "m_provider m = Some (js ''resend'')"
    "m_direction m = js ''outgoing''" "m_archive_status m = js ''archived''"
  shows "db_ok (open_db\<lparr>messages := [m]\<rparr>)"
  using assms
  by (simp add: db_ok_defs open_db_def empty_db_def new_thread_def example_admin_def split: option.split)

lemma accepted_confirm:
  obtains w' where "resend_send accepting_env open_example example_plan (start_world open_db) = (Inr (js ''p1''), w')"
    "db_of w' = open_db\<lparr>messages := [open_example\<lparr>m_provider_message_id := Some (js ''p1''), m_updated_at := iso (clock accepting_env (Suc 0))\<rparr>]\<rparr>"
proof -
  have body: "reply_value accepting_env id_reply = Inr (JObj [(js ''id'', JStr (js ''p1''))])" by code_simp
  have ok: "db_ok (open_db\<lparr>messages := [open_example\<lparr>m_provider_message_id := Some (js ''p1''), m_updated_at := ts\<rparr>]\<rparr>)" for ts
    by (rule open_db_edits) (simp_all add: open_example_def message_defaults_def)
  have net: "network accepting_env k u v = Replied id_reply" for k u v by (simp add: accepting_env_def)
  have "resend_configured accepting_env" "reply_ok id_reply"
    by (simp_all add: resend_configured_def accepting_env_def reply_ok_def id_reply_def)
  then have "\<exists>w'. resend_send accepting_env open_example example_plan (start_world open_db) = (Inr (js ''p1''), w')
     \<and> db_of w' = open_db\<lparr>messages := [open_example\<lparr>m_provider_message_id := Some (js ''p1''), m_updated_at := iso (clock accepting_env (Suc 0))\<rparr>]\<rparr>"
    using accepting_env_ok
    by (simp add: resend_send_def act_simps http_post_def submit_def net body reply_property_def confirm_def external_quiet
        update_messages_def constrained_def fill_def ok)
  then show thesis using that by blast
qed

lemma db_ok_refreshed: "db_ok d \<Longrightarrow> db_ok (d\<lparr>threads := map_rows (\<lambda>t. th_id t = i) (refreshed i ts d) (threads d)\<rparr>)"
proof -
  assume ok: "db_ok d"
  let ?ts = "map_rows (\<lambda>t. th_id t = i) (refreshed i ts d) (threads d)"
  have same: "map th_id ?ts = map th_id (threads d)" by (rule map_map_rows) simp
  have kept: "\<exists>t' \<in> set (threads d). th_status t = th_status t' \<and> th_mailbox t = th_mailbox t'" if row: "t \<in> set ?ts" for t
  proof -
    obtain x where "x \<in> set (threads d)" "t = (if th_id x = i then refreshed i ts d x else x)" using row unfolding in_map_rows by blast
    then show ?thesis by (intro bexI [of _ x]) (simp_all add: refreshed_def Let_def)
  qed
  have "rows_ok (d\<lparr>threads := ?ts\<rparr>)"
    using ok same kept unfolding db_ok_def rows_ok_def account_rows_ok_def by simp metis
  moreover have "references_ok (d\<lparr>threads := ?ts\<rparr>)"
    using ok same kept image_set [of th_id ?ts] unfolding db_ok_def references_ok_def by simp metis
  ultimately show ?thesis by (simp add: db_ok_def)
qed

lemma refreshThread_returns:
  assumes "quiet E" "reliable E" "db_ok (db_of w)"
  obtains w' ts where "refreshThread E i w = (Inr (), w')" "db_of w' = (db_of w)\<lparr>threads := ts\<rparr>" "db_ok (db_of w')"
proof -
  have "\<exists>w'. refreshThread E i w = (Inr (), w') \<and> db_of w' = (db_of w)\<lparr>threads := map_rows (\<lambda>t. th_id t = i)
      (refreshed i (iso (clock E (calls w))) (db_of w)) (threads (db_of w))\<rparr>"
    using assms db_ok_refreshed by (simp add: refreshThread_def act_simps external_quiet update_threads_def constrained_def)
  then show thesis using that db_ok_refreshed assms(3) by metis
qed

lemma accepted_finish:
  obtains resp w' where "finish_send accepting_env example_request example_user example_plan [] open_example (start_world open_db) = (Inr resp, w')"
proof -
  obtain w1 where sent: "resend_send accepting_env open_example example_plan (start_world open_db) = (Inr (js ''p1''), w1)"
    and d1: "db_of w1 = open_db\<lparr>messages := [open_example\<lparr>m_provider_message_id := Some (js ''p1''), m_updated_at := iso (clock accepting_env (Suc 0))\<rparr>]\<rparr>"
    using accepted_confirm .
  let ?m = "\<lambda>ts. mark_sent (Resend, js ''p1'') ts (open_example\<lparr>m_provider_message_id := Some (js ''p1''), m_updated_at := iso (clock accepting_env (Suc 0))\<rparr>)"
  have ok: "db_ok (open_db\<lparr>messages := [?m ts]\<rparr>)" for ts
    by (rule open_db_edits) (simp_all add: open_example_def message_defaults_def mark_sent_def)
  have "\<exists>w2. record_sent accepting_env open_example (Resend, js ''p1'') w1 = (Inr (), w2) \<and> db_of w2 = open_db\<lparr>messages := [?m (iso (clock accepting_env (calls w1)))]\<rparr>"
    using accepting_env_ok ok
    by (simp add: record_sent_def act_simps batch_def external_quiet transaction_def void_def update_messages_def constrained_def d1
        filled_def coalesce_def)
  then obtain w2 where rec: "record_sent accepting_env open_example (Resend, js ''p1'') w1 = (Inr (), w2)"
    and d2: "db_of w2 = open_db\<lparr>messages := [?m (iso (clock accepting_env (calls w1)))]\<rparr>" by blast
  obtain w3 ts where ref: "refreshThread accepting_env (m_thread open_example) w2 = (Inr (), w3)" and d3: "db_of w3 = (db_of w2)\<lparr>threads := ts\<rparr>" "db_ok (db_of w3)"
    using refreshThread_returns [OF accepting_env_ok(1,2), of w2] ok d2 by metis
  have "refers (map_option us_admin (Some example_user)) (map ad_id (admins (db_of w3)))"
    by (simp add: refers_def example_user_def d3(1) d2 example_admin_def)
  then obtain w4 where "audit accepting_env example_request (Some example_user) (js ''mail_send'') (js ''message'') (m_id open_example)
      (Some (audit_details example_plan Resend)) [] w3 = (Inr (), w4)"
    using audit_returns [OF accepting_env_ok(1,2,4) d3(2)] by metis
  then have "\<exists>resp w'. finish_send accepting_env example_request example_user example_plan [] open_example (start_world open_db) = (Inr resp, w')"
    using sent rec ref
    by (simp add: finish_send_def ensure_archived_def deliverWithProvider_def accepting_env_ok(3) provider_send_def bindE_app returnE_app)
  then show thesis using that by blast
qed

theorem sent_answer_true_witness:
  "\<exists>resp row z w'. finish_send accepting_env example_request example_user example_plan [] open_example (start_world open_db) = (Inr resp, w')
     \<and> resp = json (obj (sent_fields row z @ [(''status'', JStr (js ''sent''))])) 201 [] \<and> closed_row (m_id row) (db_of w')"
proof -
  obtain resp w' where run: "finish_send accepting_env example_request example_user example_plan [] open_example (start_world open_db) = (Inr resp, w')"
    using accepted_finish .
  from sent_answer_true [OF accepting_env_ok(1) run] run show ?thesis by blast
qed

end
