(* ===== verification/Plans.thy ===== *)
theory Plans
  imports Sending
begin

text \<open>
  What a send plan is (\<open>plan_ok\<close>): who it may go to, from which mailbox, with which subject, body and
  attachments. Every plan that \<open>buildSendPlan\<close> returns is one, includes the automatic blind copies of the
  deployment, and gives a raw message whose header block cannot be broken by the subject or by a name.
\<close>

section \<open>Recipients\<close>

definition addresses_ok :: "jstr list \<Rightarrow> bool" where
  "addresses_ok xs \<longleftrightarrow> distinct xs \<and> (\<forall>a \<in> set xs. validEmail a)"

definition recipients_ok :: "jstr list \<Rightarrow> jstr list \<Rightarrow> jstr list \<Rightarrow> bool" where
  "recipients_ok to cc bcc \<longleftrightarrow> to \<noteq> [] \<and> addresses_ok (to @ cc @ bcc) \<and> length to + length cc + length bcc \<le> MAX_RECIPIENTS"

lemma strict_recipients:
  assumes "strictRecipientList U v label = Inr xs"
  shows "addresses_ok xs \<and> length xs \<le> 50"
proof -
  obtain tokens where "recipientTokens v = Inr tokens"
    using assms by (auto simp: strictRecipientList_def split: sum.splits)
  then have t: "length tokens \<le> 50" "filter (\<lambda>entry. \<not> validEmail (normalizeEmail U (JStr entry))) tokens = []"
    "xs = dedup (map (\<lambda>entry. normalizeEmail U (JStr entry)) tokens)"
    using assms by (simp_all add: strictRecipientList_def Let_def split: if_splits)
  then show ?thesis
    using length_dedup [of "map (\<lambda>entry. normalizeEmail U (JStr entry)) tokens"] by (auto simp: addresses_ok_def filter_empty_conv)
qed

lemma without_ok: "addresses_ok xs \<Longrightarrow> addresses_ok (without known xs)"
  by (auto simp: addresses_ok_def without_def)

lemma addresses_append:
  "addresses_ok xs \<Longrightarrow> addresses_ok ys \<Longrightarrow> set xs \<inter> set ys = {} \<Longrightarrow> addresses_ok (xs @ ys)"
  by (auto simp: addresses_ok_def)

lemma split_recipients_ok:
  assumes "addresses_ok to" "addresses_ok cc" "addresses_ok bcc"
  shows "addresses_ok (to @ without to cc @ without (to @ without to cc) bcc)"
  using assms by (intro addresses_append without_ok) (auto simp: without_def)

lemma automatic_ok: "automaticBccAddresses E = Inr xs \<Longrightarrow> addresses_ok xs"
  using strict_recipients by (auto simp: automaticBccAddresses_def split: sum.splits if_splits)

lemma plan_recipients_ok:
  assumes "plan_recipients E body automatic = Inr (to, cc, bcc)" "addresses_ok automatic"
  shows "recipients_ok to cc bcc \<and> set automatic \<subseteq> set (to @ cc @ bcc)"
proof -
  obtain cc0 bcc0 where parts: "strictRecipientList (uni (plat E)) (body_get body ''to'') ''To'' = Inr to"
    "strictRecipientList (uni (plat E)) (body_get body ''cc'') ''CC'' = Inr cc0"
    "strictRecipientList (uni (plat E)) (body_get body ''bcc'') ''BCC'' = Inr bcc0"
    and lists: "cc = without to cc0" "bcc = without (to @ cc) (dedup (bcc0 @ automatic))"
    and bounds: "to \<noteq> []" "\<not> length to + length cc + length bcc > MAX_RECIPIENTS"
    using assms(1) by (auto simp: plan_recipients_def Let_def split: sum.splits if_splits)
  have "addresses_ok (dedup (bcc0 @ automatic))"
    using strict_recipients [OF parts(3)] assms(2) by (auto simp: addresses_ok_def)
  then have "addresses_ok (to @ cc @ bcc)"
    using split_recipients_ok [of to cc0] strict_recipients [OF parts(1)] strict_recipients [OF parts(2)] by (simp add: lists)
  moreover have "set automatic \<subseteq> set (to @ cc @ bcc)" by (auto simp: lists without_def)
  ultimately show ?thesis using bounds by (simp add: recipients_ok_def)
qed

section \<open>Attachments\<close>

definition uploads_ok :: "nat \<Rightarrow> upload list \<Rightarrow> bool" where
  "uploads_ok so_far us \<longleftrightarrow> (\<forall>u \<in> set us. up_bytes u \<noteq> [] \<and> length (up_bytes u) \<le> MAX_OUTGOING_ATTACHMENT_BYTES)
     \<and> (us \<noteq> [] \<longrightarrow> so_far + sum_list (map (length \<circ> up_bytes) us) \<le> MAX_OUTGOING_TOTAL_ATTACHMENT_BYTES)"

lemma parse_upload_ok:
  assumes "parse_upload E so_far item = Inr u"
  shows "up_bytes u \<noteq> [] \<and> length (up_bytes u) \<le> MAX_OUTGOING_ATTACHMENT_BYTES
    \<and> so_far + length (up_bytes u) \<le> MAX_OUTGOING_TOTAL_ATTACHMENT_BYTES"
  using assms by (auto simp: parse_upload_def Let_def split: if_splits jsval.splits sum.splits)

lemma parse_uploads_ok: "parse_uploads E so_far items = Inr us \<Longrightarrow> uploads_ok so_far us \<and> length us = length items"
proof (induction E so_far items arbitrary: us rule: parse_uploads.induct)
  case (2 E so_far item items)
  obtain u us' where u: "parse_upload E so_far item = Inr u" "parse_uploads E (so_far + length (up_bytes u)) items = Inr us'" "us = u # us'"
    using 2(2) by (auto split: sum.splits)
  with 2(1) have "uploads_ok (so_far + length (up_bytes u)) us' \<and> length us' = length items" by blast
  with parse_upload_ok [OF u(1)] u(3) show ?case by (cases us') (auto simp: uploads_ok_def)
qed (simp add: uploads_ok_def)

lemma parseUploads_ok: "parseUploads E v = Inr us \<Longrightarrow> uploads_ok 0 us \<and> length us \<le> 10"
  using parse_uploads_ok by (fastforce simp: parseUploads_def uploads_ok_def split: jsval.splits if_splits)

section \<open>Plans\<close>

definition plan_ok :: "env \<Rightarrow> send_plan \<Rightarrow> bool" where
  "plan_ok E plan \<longleftrightarrow> sender_usable E (p_mailbox plan) \<and> recipients_ok (p_to plan) (p_cc plan) (p_bcc plan)
     \<and> p_subject plan \<noteq> [] \<and> one_line (p_subject plan) \<and> (p_text plan \<noteq> [] \<or> p_html plan \<noteq> [])
     \<and> uploads_ok 0 (p_uploads plan) \<and> length (p_uploads plan) \<le> 10
     \<and> (case p_parent plan of None \<Rightarrow> True | Some m \<Rightarrow> coalesce (m_mailbox m) [] = mb_id (p_mailbox plan)
          \<and> (m_thread m \<noteq> [] \<longrightarrow> p_thread plan = m_thread m))"

lemma usable_mailbox_Inr: "usable_mailbox E i e w = (Inr mb, w') \<Longrightarrow> sender_usable E mb"
  by (auto simp: usable_mailbox_def elim!: bindE_InrE split: option.splits if_splits)

lemma plan_content_ok:
  "plan_content body = Inr (subject, html, text) \<Longrightarrow> subject \<noteq> [] \<and> one_line subject \<and> (text \<noteq> [] \<or> html \<noteq> [])"
proof -
  assume c: "plan_content body = Inr (subject, html, text)"
  then have "subject = or_else (safeHeaderValue (body_get body ''subject'') MAX_SUBJECT) (js ''(No subject)'')"
    "text \<noteq> [] \<or> html \<noteq> []"
    by (auto simp: plan_content_def Let_def split: sum.splits if_splits)
  moreover have "one_line (js ''(No subject)'')" by (rule one_line_js) simp
  ultimately show ?thesis using one_line_safeHeader by (auto simp: or_else_def)
qed

lemma plan_parent_Inr:
  "plan_parent E body mb w = (Inr parent, w') \<Longrightarrow> case parent of None \<Rightarrow> True | Some m \<Rightarrow> coalesce (m_mailbox m) [] = mb_id mb"
  by (auto simp: plan_parent_def Let_def elim!: bindE_InrE split: option.splits)

lemma buildSendPlan_ok:
  assumes "buildSendPlan E body w = (Inr plan, w')"
  shows "plan_ok E plan \<and> (\<exists>automatic. automaticBccAddresses E = Inr automatic
    \<and> set automatic \<subseteq> set (p_to plan @ p_cc plan @ p_bcc plan))"
proof -
  obtain mb automatic to cc bcc sub html plain uploads parent i w1 w2 w3 w4 where
    mb: "usable_mailbox E (asText (body_get body ''from_mailbox_id'') 100)
       (app_error 400 ''Selected sender mailbox is unavailable.'' ''invalid_sender'') w = (Inr mb, w1)"
    and auto: "automaticBccAddresses E = Inr automatic" and rec: "plan_recipients E body automatic = Inr (to, cc, bcc)"
    and con: "plan_content body = Inr (sub, html, plain)" and ups: "parseUploads E (body_get body ''attachments'') = Inr uploads"
    and par: "plan_parent E body mb w2 = (Inr parent, w3)"
    and thr: "(case parent of Some m \<Rightarrow> (if m_thread m = [] then uuid E else returnE (m_thread m)) | None \<Rightarrow> uuid E) w3 = (Inr i, w4)"
    and plan: "plan = \<lparr> p_body = set_property ''bcc'' (JArr (map JStr bcc)) body, p_mailbox = mb, p_to = to, p_cc = cc, p_bcc = bcc, p_subject = sub, p_html = html,
       p_text = plain, p_uploads = uploads, p_parent = parent, p_thread = i, p_hash = plan_hash E (set_property ''bcc'' (JArr (map JStr bcc)) body) \<rparr>"
    using assms unfolding buildSendPlan_def Let_def by (elim bindE_InrE) (auto split: prod.splits elim!: bindE_InrE)
  have "case parent of None \<Rightarrow> True | Some m \<Rightarrow> m_thread m \<noteq> [] \<longrightarrow> i = m_thread m"
    using thr by (auto split: option.splits if_splits)
  then have "plan_ok E plan"
    using usable_mailbox_Inr [OF mb] plan_recipients_ok [OF rec automatic_ok [OF auto]] plan_content_ok [OF con] parseUploads_ok [OF ups]
      plan_parent_Inr [OF par]
    by (auto simp: plan_ok_def plan split: option.splits)
  then show ?thesis using auto plan_recipients_ok [OF rec automatic_ok [OF auto]] by (auto simp: plan)
qed

text \<open>
  C22. Every plan that \<open>buildSendPlan\<close> returns can be sent safely: the sender is an active mailbox of the
  deployment's domain that may send, there is a recipient and at most 50 of them, each a valid address that
  occurs in exactly one of the three lists, the deployment's automatic blind copies are among them, the subject is one
  non-empty line, there is a body, each attachment and their sum are within the limits, and a reply is
  sent by the mailbox that owns the conversation, in that conversation.
\<close>

theorem plan_well_formed:
  assumes "buildSendPlan E body w = (Inr plan, w')"
  shows "sender_usable E (p_mailbox plan) \<and> recipients_ok (p_to plan) (p_cc plan) (p_bcc plan)
    \<and> (\<exists>automatic. automaticBccAddresses E = Inr automatic \<and> set automatic \<subseteq> set (p_to plan @ p_cc plan @ p_bcc plan))
    \<and> p_subject plan \<noteq> [] \<and> one_line (p_subject plan) \<and> (p_text plan \<noteq> [] \<or> p_html plan \<noteq> [])
    \<and> uploads_ok 0 (p_uploads plan) \<and> length (p_uploads plan) \<le> 10
    \<and> (case p_parent plan of None \<Rightarrow> True | Some m \<Rightarrow> coalesce (m_mailbox m) [] = mb_id (p_mailbox plan)
         \<and> (m_thread m \<noteq> [] \<longrightarrow> p_thread plan = m_thread m))"
  using buildSendPlan_ok [OF assms] by (simp add: plan_ok_def)

definition plan_body :: jsval where
  "plan_body = obj [(''from_mailbox_id'', JStr (js ''b1'')), (''to'', JStr (js ''a@b.cc'')), (''subject'', JStr (js ''Hi'')),
     (''text'', JStr (js ''hello''))]"

definition plan_db :: db where
  "plan_db = open_db\<lparr>mailboxes := [(p_mailbox example_plan)\<lparr>mb_address := js ''me@example.com''\<rparr>]\<rparr>"

lemma plan_body_get:
  "body_get plan_body ''from_mailbox_id'' = JStr (js ''b1'')" "body_get plan_body ''to'' = JStr (js ''a@b.cc'')"
  "body_get plan_body ''cc'' = JUndef" "body_get plan_body ''bcc'' = JUndef" "body_get plan_body ''html'' = JUndef"
  "body_get plan_body ''text'' = JStr (js ''hello'')" "body_get plan_body ''subject'' = JStr (js ''Hi'')"
  "body_get plan_body ''attachments'' = JUndef" "body_get plan_body ''parent_message_id'' = JUndef" "body_get plan_body ''thread_id'' = JUndef"
  by code_simp+

lemma plan_body_parts:
  "automaticBccAddresses accepting_env = Inr []"
  "plan_recipients accepting_env plan_body [] = Inr ([js ''a@b.cc''], [], [])"
  "sender_usable accepting_env ((p_mailbox example_plan)\<lparr>mb_address := js ''me@example.com''\<rparr>)"
  by code_simp+

lemma plan_body_content: "plan_content plan_body = Inr (js ''Hi'', [], js ''hello'')"
proof -
  have "sanitizeHtml [] = []"
    by (simp add: sanitizeHtml_def strip_active_def strip_attributes_def re_remove_def needs_replace [OF needs_lt(1)]
        needs_replace [OF needs_lt(2)] needs_replace [OF needs_lt(3)] needs_replace [OF needs_eq])
  moreover have "safeHeaderValue (JStr (js ''Hi'')) MAX_SUBJECT = js ''Hi''" by code_simp
  moreover have "boundedBody JUndef n l = Inr []" for n l by (simp add: boundedBody_def)
  moreover have "byte_length (js ''hello'') = 5" by code_simp
  then have "boundedBody (JStr (js ''hello'')) 1000000 l = Inr (js ''hello'')" for l by (simp add: boundedBody_def)
  ultimately show ?thesis by (simp add: plan_content_def plan_body_get Let_def or_else_def)
qed

theorem plan_well_formed_witness:
  "\<exists>plan w'. buildSendPlan accepting_env plan_body (start_world plan_db) = (Inr plan, w')
     \<and> sender_usable accepting_env (p_mailbox plan) \<and> recipients_ok (p_to plan) (p_cc plan) (p_bcc plan)"
proof -
  have "asText (JStr (js ''b1'')) 100 = js ''b1''" "asText JUndef 200 = []" "parseUploads accepting_env JUndef = Inr []" by code_simp+
  then have "\<exists>plan w'. buildSendPlan accepting_env plan_body (start_world plan_db) = (Inr plan, w')"
    using accepting_env_ok(1,2) plan_body_parts
    by (simp add: buildSendPlan_def plan_body_get plan_body_content usable_mailbox_def mailboxById_def act_simps select_quiet plan_parent_def
        plan_db_def example_plan_def Let_def)
  then show ?thesis using plan_well_formed by blast
qed

section \<open>The header block\<close>

lemma re_matches_lang: "plain r \<Longrightarrow> t \<in> set (re_matches r s) \<Longrightarrow> t \<in> lang r"
proof (induction r s rule: re_matches.induct)
  case (1 r s)
  from 1(5) have "(\<exists>m rest k. re_first r s = Some (m, rest, k) \<and> (t = m \<or> m \<noteq> [] \<and> t \<in> set (re_matches r rest)))
      \<or> (\<exists>c cs. s = c # cs \<and> t \<in> set (re_matches r cs) \<and> (re_first r s = None \<or> (\<exists>rest k. re_first r s = Some ([], rest, k))))"
    by (subst (asm) re_matches.simps) (auto split: option.splits if_splits list.splits)
  then show ?case using 1(1-4) re_first_lang [of r s] by (auto split: option.split)
qed

lemma bracketed_lang: "t \<in> lang bracketed_id \<Longrightarrow> one_line t"
proof -
  assume "t \<in> lang bracketed_id"
  then obtain u where u: "t = 60 # u @ [62]" "list_all id_unit u"
    by (auto simp: bracketed_id_def)
  have "one_line u" using u(2) line_break_space by (fastforce simp: one_line_def list_all_iff id_unit_def)
  then show ?thesis by (simp add: u(1) line_break_def)
qed

lemma one_line_reference: "t \<in> set (references v) \<Longrightarrow> one_line t"
proof -
  assume "t \<in> set (references v)"
  then have "t \<in> set (re_matches bracketed_id v)" by (auto simp: references_def Let_def dest: in_set_dropD)
  moreover have "plain bracketed_id" by (simp add: bracketed_id_def)
  ultimately show ?thesis using re_matches_lang bracketed_lang by blast
qed


lemma one_line_references: "one_line (plan_references plan)" and one_line_parent: "one_line (parent_internet_id plan)"
proof -
  have id: "one_line (normalizeInternetMessageId v)" for v
  proof -
    let ?raw = "safeHeaderValue v 998"
    have "one_line m" if found: "re_search bracketed_id ?raw = Some (m, rest, k)" for m rest k
    proof -
      have "plain bracketed_id" by (simp add: bracketed_id_def)
      from re_search_lang [OF this found] bracketed_lang show ?thesis by blast
    qed
    moreover have "one_line (js ''<'')" "one_line (js ''>'')" by (rule one_line_js; simp)+
    ultimately show ?thesis using one_line_safeHeader [of v 998]
      by (auto simp: normalizeInternetMessageId_def Let_def split: option.split)
  qed
  then show parent: "one_line (parent_internet_id plan)" by (simp add: parent_internet_id_def split: option.split)
  have "one_line (join_text (js '' '') (drop n (filter (\<lambda>t. t \<noteq> []) (references v @ [parent_internet_id plan]))))" for n v
    by (rule one_line_join [OF one_line_space]) (use one_line_reference parent in \<open>auto dest!: in_set_dropD split: if_splits\<close>)
  then show "one_line (plan_references plan)"
    unfolding plan_references_def Let_def by (simp split: option.split del: filter_append)
qed

text \<open>What \<open>crypto.randomUUID\<close> is documented to return is made of lower-case letters, digits and hyphens.\<close>

definition uuids_plain :: "env \<Rightarrow> bool" where
  "uuids_plain E \<longleftrightarrow> (\<forall>n. list_all (\<lambda>c. is_lower c \<or> is_digit c \<or> c = 45) (uuid_at E n))"

text \<open>The row that a new send creates.\<close>

lemma create_send_row:
  assumes "quiet E" "create_send E session p plan key w = (Inr row, w')"
  obtains n x t where "row = outgoing_row E session p plan key (uuid_at E n) x (iso t)"
proof -
  obtain n x t w1 w2 u where ins: "insert_outgoing E (outgoing_row E session p plan key (uuid_at E n) x (iso t)) key (p_hash plan) w1 = (Inr u, w2)"
    and row: "find (\<lambda>m. m_id m = uuid_at E n) (messages (db_of w2)) = Some row"
    using assms(2) unfolding create_send_def Let_def
    by (elim bindE_InrE, simp only: now_Inr uuid_Inr, elim conjE, hypsubst) (auto simp: findMessage_def dest!: select_step [OF assms(1)] split: option.splits)
  let ?m = "outgoing_row E session p plan key (uuid_at E n) x (iso t)"
  have id: "m_id ?m = uuid_at E n" by (simp add: outgoing_row_def Let_def)
  have "external E (insert_message ?m) w1 = (Inr u, w2)"
    using ins unfolding insert_outgoing_def
    by (auto simp: catchE_def bindE_def throwE_def split: prod.splits sum.splits if_splits)
  then have "insert_message ?m (db_of w1) = (Inr u, db_of w2)" by (rule external_step [OF assms(1)])
  then have "db_of w2 = (db_of w1)\<lparr>messages := messages (db_of w1) @ [?m]\<rparr>" "db_ok (db_of w2)"
    by (auto simp: insert_message_def constrained_Inr)
  then have "messages (db_of w2) = messages (db_of w1) @ [?m]" "distinct (map m_id (messages (db_of w2)))"
    by (simp_all add: db_ok_def rows_ok_def message_rows_ok_def)
  moreover have "row \<in> set (messages (db_of w2)) \<and> m_id row = m_id ?m" using row id by (auto simp: find_Some_iff)
  moreover have "?m \<in> set (messages (db_of w2))" using calculation(1) by simp
  ultimately have "row = ?m" unfolding distinct_map by (metis inj_onD)
  then show thesis using that by blast
qed

lemma archiveOutgoing_stores:
  assumes "quiet E" "archiveOutgoing E row plan w = (Inr (), w')"
  obtains k raw ts v v' where "objects (db_of w') k = Some raw" "\<forall>m \<in> set (messages (db_of w')). m_id m = m_id row \<longrightarrow> m_raw_key m = Some k"
    "message_timestamp E row v = (Inr ts, v)"
    "rawOutgoingMessage E (displayFrom E (p_mailbox plan)) (p_to plan) (p_cc plan) (m_subject row) (p_text plan)
         (p_html plan) (coalesce (m_internet_id row) (js ''null'')) ts (p_uploads plan)
         (take 998 (coalesce (m_in_reply_to row) [])) (take 8000 (coalesce (m_references row) [])) v = (Inr raw, v')"
proof -
  obtain v ts v1 raw v' k w1 w2 where ts: "message_timestamp E row v = (Inr ts, v1)"
    and raw: "rawOutgoingMessage E (displayFrom E (p_mailbox plan)) (p_to plan) (p_cc plan) (m_subject row) (p_text plan)
         (p_html plan) (coalesce (m_internet_id row) (js ''null'')) ts (p_uploads plan)
         (take 998 (coalesce (m_in_reply_to row) [])) (take 8000 (coalesce (m_references row) [])) v1 = (Inr raw, v')"
    and put: "putR2 E k raw w1 = (Inr (), w2)"
    and set: "catchE (set_archived E (m_id row) k (length raw)) (\<lambda>e. bindE (ignoreE (r2_remove E [k])) (\<lambda>_. throwE e)) w2 = (Inr (), w')"
    using assms(2) unfolding archiveOutgoing_def by (elim bindE_InrE) auto
  have "v1 = v" using ts by (auto simp: message_timestamp_def split: list.splits)
  have "r2_call E (r2_put k raw) w1 = (Inr (), w2)"
    using put by (auto simp: putR2_def catchE_def throwE_def split: prod.splits sum.splits)
  then have obj: "objects (db_of w2) k = Some raw" using r2_step [OF assms(1)] by (simp add: r2_put_def)
  have "set_archived E (m_id row) k (length raw) w2 = (Inr (), w')"
    using set by (auto simp: catchE_def bindE_def throwE_def ignoreE_def split: prod.splits sum.splits)
  then obtain t where "(db_of w2)\<lparr>messages := map_rows (\<lambda>m. m_id m = m_id row)
      (\<lambda>m. m\<lparr>m_raw_key := Some k, m_raw_size := length raw, m_archive_status := js ''archived'', m_last_error := None, m_updated_at := t\<rparr>) (messages (db_of w2))\<rparr> = db_of w'"
    unfolding set_archived_def by (auto elim!: bindE_InrE dest!: external_step [OF assms(1)] simp: update_messages_def constrained_Inr)
  note set = this [symmetric]
  have "objects (db_of w') k = Some raw \<and> (\<forall>m \<in> set (messages (db_of w')). m_id m = m_id row \<longrightarrow> m_raw_key m = Some k)"
    using obj by (auto simp: set in_map_rows)
  then show thesis using that ts raw \<open>v1 = v\<close> by blast
qed

text \<open>What comes after the fixed headers: one or two content headers, an empty line, the body.\<close>

definition content_headers :: "jstr list \<Rightarrow> bool" where
  "content_headers hs \<longleftrightarrow> hs = [js ''Content-Type: text/plain; charset=UTF-8'', js ''Content-Transfer-Encoding: base64'']
     \<or> (\<exists>bs. hs = [js ''Content-Type: multipart/mixed; boundary='' @ in_quotes (js ''mixed_'' @ base64Url bs)])"

lemma rawOutgoing_block:
  assumes "rawOutgoingMessage E from to cc sub body_text html mid ts us irt refs w = (Inr raw, w')"
  obtains content body where "raw = utf8 (join_text crlf (outgoing_headers E from to cc sub mid ts irt refs @ content @ [] # body))" "content_headers content"
proof (cases "us = [] \<and> html = []")
  case True
  have "raw = utf8 (join_text crlf (outgoing_headers E from to cc sub mid ts irt refs
      @ [js ''Content-Type: text/plain; charset=UTF-8'', js ''Content-Transfer-Encoding: base64''] @ [] # [wrapBase64 (bytesToBase64 (utf8 (or_else body_text (htmlToText html))))]))"
    using assms True by (simp add: rawOutgoingMessage_def Let_def returnE_app text_part_def js_append [symmetric])
  then show thesis by (rule that) (simp add: content_headers_def)
next
  case False
  then obtain bs body where raw: "raw = utf8 (join_text crlf (outgoing_headers E from to cc sub mid ts irt refs
      @ [js ''Content-Type: multipart/mixed; boundary='' @ in_quotes (js ''mixed_'' @ base64Url bs)] @ [] # body))"
    using assms unfolding rawOutgoingMessage_def Let_def by (auto elim!: bindE_InrE simp: randomToken_def split: if_splits)
  have "content_headers [js ''Content-Type: multipart/mixed; boundary='' @ in_quotes (js ''mixed_'' @ base64Url bs)]"
    unfolding content_headers_def by blast
  then show thesis by (rule that [OF raw])
qed

lemma ends_with_set: "ends_with p s \<Longrightarrow> set p \<subseteq> set s"
proof -
  have "starts_with a b \<Longrightarrow> set a \<subseteq> set b" for a b :: jstr by (induction a b rule: starts_with.induct) auto
  then show "ends_with p s \<Longrightarrow> set p \<subseteq> set s" unfolding ends_with_def by (metis set_rev)
qed

text \<open>The domain part of the identifiers that the mailbox gives to its messages.\<close>

definition mail_domain :: "env \<Rightarrow> jstr" where
  "mail_domain E = to_lower (uni (plat E)) (trim (or_else (var_text E ''MAIL_DOMAIN'') (js ''example.com'')))"

lemma one_line_domain:
  assumes "sender_usable E mb" "validEmail (normalizeEmail (uni (plat E)) (JStr (mb_address mb)))"
  shows "one_line (mail_domain E)"
proof -
  have "ends_with (js ''@'' @ mail_domain E) (normalizeEmail (uni (plat E)) (JStr (mb_address mb)))"
    using assms(1) by (simp add: sender_usable_def validateMailboxDomain_def mail_domain_def Let_def)
  from ends_with_set [OF this] have "set (mail_domain E) \<subseteq> set (normalizeEmail (uni (plat E)) (JStr (mb_address mb)))" by simp
  then show ?thesis using one_line_email [OF assms(2)] by (rule one_line_sub)
qed

lemma one_line_uuid: "uuids_plain E \<Longrightarrow> one_line (uuid_at E n)"
  by (fastforce simp: uuids_plain_def one_line_def list_all_iff is_lower_def is_digit_def line_break_def)

lemma timestamp_row: "message_timestamp E (outgoing_row E session p plan key i x (iso t)) v = (Inr ts, v') \<Longrightarrow> ts = iso t"
  by (simp add: message_timestamp_def outgoing_row_def Let_def iso_def coalesce_def returnE_app)

text \<open>
  C38. Header injection is impossible: whatever the request says, and whatever an attacker put into the headers of the parent message, the raw
  message that is archived for a new send starts with exactly these lines: From, To, Cc when there are any, Subject, Date, Message-ID, In-Reply-To and
  References for a reply, MIME-Version and the content headers, and then the empty line that ends the header block. Each is one
  non-empty line, and the blind copies are in none of them. The sender's mailbox has a valid address, and the identifiers
  of the platform are made of letters, digits and hyphens.
\<close>

theorem raw_header_block:
  assumes "quiet E" "uuids_plain E" "validEmail (normalizeEmail (uni (plat E)) (JStr (mb_address (p_mailbox plan))))"
    and "buildSendPlan E body w = (Inr plan, w1)" "create_send E session p plan key w2 = (Inr row, w3)" "archiveOutgoing E row plan w4 = (Inr (), w5)"
  shows "\<exists>k headers content rest t i. objects (db_of w5) k = Some (utf8 (join_text crlf (headers @ content @ [] # rest)))
    \<and> (\<forall>m \<in> set (messages (db_of w5)). m_id m = m_id row \<longrightarrow> m_raw_key m = Some k)
    \<and> headers = [js ''From: '' @ displayFrom E (p_mailbox plan), js ''To: '' @ join_text (js '', '') (p_to plan)]
        @ (if p_cc plan = [] then [] else [js ''Cc: '' @ join_text (js '', '') (p_cc plan)])
        @ [js ''Subject: '' @ mimeHeader (outgoing_subject plan), js ''Date: '' @ utc_date E (iso t),
           js ''Message-ID: <'' @ m_id row @ js ''@'' @ mail_domain E @ js ''>'']
        @ (if parent_internet_id plan = [] then [] else [js ''In-Reply-To: '' @ take 998 (parent_internet_id plan)])
        @ (if plan_references plan = [] then [] else [js ''References: '' @ take 8000 (plan_references plan)])
        @ [js ''MIME-Version: 1.0'']
    \<and> (content = [js ''Content-Type: text/plain; charset=UTF-8'', js ''Content-Transfer-Encoding: base64'']
       \<or> content = [js ''Content-Type: multipart/mixed; boundary='' @ in_quotes (js ''mixed_'' @ base64Url i)])
    \<and> (\<forall>h \<in> set headers. h \<noteq> [] \<and> one_line h)"
proof -
  have plan: "plan_ok E plan" using buildSendPlan_ok [OF assms(4)] by blast
  obtain n x t where row: "row = outgoing_row E session p plan key (uuid_at E n) x (iso t)"
    using create_send_row [OF assms(1,5)] .
  let ?id = "js ''<'' @ uuid_at E n @ js ''@'' @ mail_domain E @ js ''>''"
  let ?hs = "outgoing_headers E (displayFrom E (p_mailbox plan)) (p_to plan) (p_cc plan) (outgoing_subject plan) ?id (iso t)
      (take 998 (parent_internet_id plan)) (take 8000 (plan_references plan))"
  have fields: "m_id row = uuid_at E n" "m_subject row = outgoing_subject plan" "coalesce (m_internet_id row) (js ''null'') = ?id"
    "coalesce (m_in_reply_to row) [] = parent_internet_id plan" "coalesce (m_references row) [] = plan_references plan"
    by (simp_all add: row outgoing_row_def Let_def coalesce_def text_option_def mail_domain_def)
  obtain k raw ts v v' where stored: "objects (db_of w5) k = Some raw" "\<forall>m \<in> set (messages (db_of w5)). m_id m = m_id row \<longrightarrow> m_raw_key m = Some k"
    and ts: "message_timestamp E row v = (Inr ts, v)"
    and raw: "rawOutgoingMessage E (displayFrom E (p_mailbox plan)) (p_to plan) (p_cc plan) (m_subject row) (p_text plan)
         (p_html plan) (coalesce (m_internet_id row) (js ''null'')) ts (p_uploads plan)
         (take 998 (coalesce (m_in_reply_to row) [])) (take 8000 (coalesce (m_references row) [])) v = (Inr raw, v')"
    using archiveOutgoing_stores [OF assms(1,6)] .
  have same: "ts = iso t" using timestamp_row ts unfolding row .
  obtain content rest where block: "raw = utf8 (join_text crlf (?hs @ content @ [] # rest))" "content_headers content"
    using raw unfolding fields same by (rule rawOutgoing_block)
  have "\<forall>a \<in> set (p_to plan @ p_cc plan). validEmail a"
    using plan by (auto simp: plan_ok_def recipients_ok_def addresses_ok_def)
  moreover have "one_line (take 998 (parent_internet_id plan))" "one_line (take 8000 (plan_references plan))"
    by (rule one_line_sub [OF set_take_subset], rule one_line_parent one_line_references)+
  moreover have "one_line (js ''<'')" "one_line (js ''@'')" "one_line (js ''>'')" by (rule one_line_js; simp)+
  then have "one_line ?id" using plan one_line_domain [OF _ assms(3)] one_line_uuid [OF assms(2)] by (simp add: plan_ok_def)
  ultimately have lines: "\<forall>h \<in> set ?hs. h \<noteq> [] \<and> one_line h"
    using outgoing_headers_one_line [OF one_line_displayFrom [OF one_line_email [OF assms(3)]]] by blast
  have hs: "?hs = [js ''From: '' @ displayFrom E (p_mailbox plan), js ''To: '' @ join_text (js '', '') (p_to plan)]
        @ (if p_cc plan = [] then [] else [js ''Cc: '' @ join_text (js '', '') (p_cc plan)])
        @ [js ''Subject: '' @ mimeHeader (outgoing_subject plan), js ''Date: '' @ utc_date E (iso t),
           js ''Message-ID: <'' @ m_id row @ js ''@'' @ mail_domain E @ js ''>'']
        @ (if parent_internet_id plan = [] then [] else [js ''In-Reply-To: '' @ take 998 (parent_internet_id plan)])
        @ (if plan_references plan = [] then [] else [js ''References: '' @ take 8000 (plan_references plan)])
        @ [js ''MIME-Version: 1.0'']"
    by (simp add: outgoing_headers_def fields js_def)
  show ?thesis
    using stored block lines unfolding hs content_headers_def by blast
qed

text \<open>The plan of the example, and a mailbox with one conversation that may hold one outgoing message.\<close>

definition new_plan :: send_plan where
  "new_plan = \<lparr> p_body = set_property ''bcc'' (JArr []) plan_body, p_mailbox = (p_mailbox example_plan)\<lparr>mb_address := js ''me@example.com''\<rparr>,
     p_to = [js ''a@b.cc''], p_cc = [], p_bcc = [], p_subject = js ''Hi'', p_html = [], p_text = js ''hello'', p_uploads = [],
     p_parent = None, p_thread = js ''id-'' @ nat_text 0, p_hash = plan_hash accepting_env (set_property ''bcc'' (JArr []) plan_body) \<rparr>"

lemma new_plan_built: "\<exists>w'. buildSendPlan accepting_env plan_body (start_world plan_db) = (Inr new_plan, w')"
proof -
  have "asText (JStr (js ''b1'')) 100 = js ''b1''" "asText JUndef 200 = []" "parseUploads accepting_env JUndef = Inr []" by code_simp+
  moreover have "uuid_at accepting_env 0 = js ''id-'' @ nat_text 0" by (simp add: accepting_env_def sending_env_def example_env_def del: nat_text.simps)
  ultimately show ?thesis
    using accepting_env_ok(1,2) plan_body_parts
    by (simp add: buildSendPlan_def plan_body_get plan_body_content usable_mailbox_def mailboxById_def act_simps select_quiet plan_parent_def
        plan_db_def example_plan_def Let_def new_plan_def)
qed

definition outbox :: "thread list \<Rightarrow> message list \<Rightarrow> db" where
  "outbox ts ms = empty_db\<lparr>mailboxes := [p_mailbox new_plan], admins := [example_admin], threads := ts, messages := ms\<rparr>"

lemma outbox_sel [simp]:
  "threads (outbox ts ms) = ts" "messages (outbox ts ms) = ms" "attachments (outbox ts ms) = []"
  "(outbox ts ms)\<lparr>threads := xs\<rparr> = outbox xs ms" "(outbox ts ms)\<lparr>messages := ys\<rparr> = outbox ts ys"
  by (simp_all add: outbox_def empty_db_def)

lemma outbox_ok:
  assumes "th_mailbox t = Some (js ''b1'')" "th_status t = js ''open''"
  shows "db_ok (outbox [t] [])"
    and "\<exists>i x ts. m = (outgoing_row accepting_env example_user Resend new_plan (js ''send-0001'') i x ts) \<Longrightarrow> th_id t = p_thread new_plan \<Longrightarrow> db_ok (outbox [t] [m])"
  using assms
  by (auto simp: db_ok_defs outbox_def empty_db_def new_plan_def example_plan_def example_admin_def outgoing_row_def Let_def message_defaults_def
      example_user_def text_option_def provider_id_def)

lemma outbox_thread:
  assumes "db_of w = outbox [] []"
  shows "\<exists>t w'. ensureThread accepting_env i (Some (js ''b1'')) s ps ts w = (Inr (), w') \<and> db_of w' = outbox [t] []
    \<and> th_id t = i \<and> th_mailbox t = Some (js ''b1'') \<and> th_status t = js ''open''"
proof -
  let ?E = accepting_env
  let ?t0 = "new_thread i (Some (js ''b1'')) (take MAX_SUBJECT s) (people_text ps) ts ts"
  let ?w1 = "step_db w (outbox [?t0] [])"
  let ?t1 = "joined_thread (Some (js ''b1'')) (take MAX_SUBJECT s) (people_text ps) ts (iso (clock ?E (calls ?w1))) ?t0"
  have t0: "th_mailbox ?t0 = Some (js ''b1'')" "th_status ?t0 = js ''open''" "th_id ?t0 = i" by (simp_all add: new_thread_def)
  have t1: "th_mailbox ?t1 = Some (js ''b1'')" "th_status ?t1 = js ''open''" "th_id ?t1 = i" using t0 by (simp_all add: joined_thread_def)
  have add: "external ?E (add_thread ?t0) w = (Inr 1, ?w1)"
    using outbox_ok(1) [OF t0(1,2)] assms
    by (simp add: external_quiet accepting_env_ok(1,2) add_thread_def insert_or_ignore_def Let_def db_ok_def)
  have upd: "external ?E (update_threads (\<lambda>x. th_id x = i) (\<lambda>d. joined_thread (Some (js ''b1'')) (take MAX_SUBJECT s) (people_text ps) ts
      (iso (clock ?E (calls ?w1))))) ?w1 = (Inr 1, step_db ?w1 (outbox [?t1] []))"
    using outbox_ok(1) [OF t1(1,2)] t0(3)
    by (simp add: external_quiet accepting_env_ok(1,2) update_threads_def constrained_def count_rows_def)
  have "ensureThread ?E i (Some (js ''b1'')) s ps ts w = (Inr (), step_db ?w1 (outbox [?t1] []))"
    unfolding ensureThread_def by (simp only: bindE_app add upd local_app prod.case sum.case returnE_app)
  then show ?thesis using t1 by (intro exI [of _ ?t1] exI [of _ "step_db ?w1 (outbox [?t1] [])"]) simp
qed

lemma new_row_created:
  "\<exists>row w'. create_send accepting_env example_user Resend new_plan (js ''send-0001'') (start_world (outbox [] [])) = (Inr row, w')"
proof -
  let ?E = accepting_env and ?w = "start_world (outbox [] [])"
  note ok = accepting_env_ok(1,2)
  let ?w1 = "step_db ?w (outbox [] [])"
  let ?ts = "iso (clock ?E (calls ?w1))"
  have rate: "enforceSendRate ?E (us_admin example_user) ?w = (Inr (), ?w1)"
    by (simp add: enforceSendRate_def act_simps select_quiet ok count_rows_def throw_if_def MAX_SENDS_PER_HOUR_def)
  let ?i = "uuid_at ?E (draws ?w1)" and ?x = "base64Url (random_at ?E (Suc (draws ?w1)) 24)"
  let ?w2 = "?w1\<lparr>draws := Suc (Suc (draws ?w1))\<rparr>"
  let ?m = "outgoing_row ?E example_user Resend new_plan (js ''send-0001'') ?i ?x ?ts"
  have mb: "mb_id (p_mailbox new_plan) = js ''b1''" by (simp add: new_plan_def example_plan_def)
  have start: "db_of ?w2 = outbox [] []" by simp
  obtain t w3 where thread: "ensureThread ?E (p_thread new_plan) (Some (js ''b1'')) (outgoing_subject new_plan)
       (p_to new_plan @ p_cc new_plan @ [normalizeEmail (uni (plat ?E)) (JStr (mb_address (p_mailbox new_plan)))]) ?ts ?w2 = (Inr (), w3)"
    and w3: "db_of w3 = outbox [t] []" "th_id t = p_thread new_plan" "th_mailbox t = Some (js ''b1'')" "th_status t = js ''open''"
    using outbox_thread [OF start] by blast
  have row: "db_ok (outbox [t] [?m])" by (rule outbox_ok(2) [OF w3(3,4) _ w3(2)]) blast
  then have ins: "insert_outgoing ?E ?m (js ''send-0001'') (p_hash new_plan) w3 = (Inr (), step_db w3 (outbox [t] [?m]))"
    by (simp add: insert_outgoing_def act_simps external_quiet ok insert_message_def constrained_def w3(1))
  have "m_id ?m = ?i" by (simp add: outgoing_row_def Let_def)
  then have get: "findMessage ?E ?i (step_db w3 (outbox [t] [?m])) = (Inr (Some ?m), step_db (step_db w3 (outbox [t] [?m])) (outbox [t] [?m]))"
    by (simp add: findMessage_def select_quiet ok)
  have draw: "uuid ?E ?w1 = (Inr ?i, ?w1\<lparr>draws := Suc (draws ?w1)\<rparr>)" "now ?E ?w1 = (Inr ?ts, ?w1)"
    "randomToken ?E 24 (?w1\<lparr>draws := Suc (draws ?w1)\<rparr>) = (Inr ?x, ?w2)"
    by (simp_all add: local_app randomToken_def)
  show ?thesis
    unfolding create_send_def Let_def mb
    by (simp only: bindE_app rate draw thread ins get prod.case sum.case option.case returnE_app) (intro exI, rule refl)
qed

lemma new_row_archived:
  "\<exists>w'. archiveOutgoing accepting_env row new_plan (start_world (outbox [] [])) = (Inr (), w')"
proof -
  let ?E = accepting_env and ?w = "start_world (outbox [] [])"
  note ok = accepting_env_ok(1,2)
  have d: "db_ok (outbox [] [])" "db_ok ((outbox [] [])\<lparr>attachments := []\<rparr>)" "db_ok ((outbox [] [])\<lparr>attachments := [], objects := os, messages := []\<rparr>)" for os
    by (simp_all add: db_ok_defs outbox_def empty_db_def new_plan_def example_plan_def example_admin_def)
  have files: "p_uploads new_plan = []" "p_html new_plan = []" by (simp_all add: new_plan_def)
  show ?thesis
    using d
    by (simp add: archiveOutgoing_def deleteOutgoingAttachments_def archiveOutgoingAttachments_def insert_attachments_def act_simps select_quiet
        external_quiet ok remove_attachment_rows_def constrained_def files rawOutgoingMessage_def Let_def message_timestamp_def
        randomToken_def objectPath_def putR2_def r2_call_quiet r2_put_def set_archived_def update_messages_def split: list.split)
qed

lemma nat_text_digits: "list_all is_digit (nat_text n)"
proof (induction n rule: nat_text.induct)
  case (1 n)
  have digit: "is_digit (digit_text d)" if "d < 10" for d
  proof -
    have "d \<in> set [0..<10]" using that by simp
    moreover have "list_all (\<lambda>d. is_digit (digit_text d)) [0..<10]" by code_simp
    ultimately show ?thesis by (metis list_all_iff)
  qed
  show ?case using 1 digit by (subst nat_text.simps) (simp del: nat_text.simps)
qed

theorem raw_header_block_witness:
  "\<exists>row w5 k headers content rest. archiveOutgoing accepting_env row new_plan (start_world (outbox [] [])) = (Inr (), w5)
    \<and> objects (db_of w5) k = Some (utf8 (join_text crlf (headers @ content @ [] # rest)))
    \<and> js ''To: a@b.cc'' \<in> set headers \<and> (\<forall>h \<in> set headers. h \<noteq> [] \<and> one_line h)"
proof -
  have "list_all (\<lambda>c. is_lower c \<or> is_digit c \<or> c = 45) (js ''id-'')" by code_simp
  moreover have "list_all (\<lambda>c. is_lower c \<or> is_digit c \<or> c = 45) (nat_text n)" for n
    by (rule list.pred_mono_strong [OF nat_text_digits]) blast
  moreover have "uuid_at accepting_env n = js ''id-'' @ nat_text n" for n
    by (simp add: accepting_env_def sending_env_def example_env_def del: nat_text.simps)
  ultimately have "list_all (\<lambda>c. is_lower c \<or> is_digit c \<or> c = 45) (uuid_at accepting_env n)" for n
    by (simp only: list_all_append simp_thms)
  then have uuids: "uuids_plain accepting_env" by (simp only: uuids_plain_def simp_thms)
  have "validEmail (normalizeEmail (uni (plat accepting_env)) (JStr (js ''me@example.com'')))" by code_simp
  then have valid: "validEmail (normalizeEmail (uni (plat accepting_env)) (JStr (mb_address (p_mailbox new_plan))))" by (simp add: new_plan_def)
  obtain w1 where plan: "buildSendPlan accepting_env plan_body (start_world plan_db) = (Inr new_plan, w1)" using new_plan_built by blast
  obtain row w3 where row: "create_send accepting_env example_user Resend new_plan (js ''send-0001'') (start_world (outbox [] [])) = (Inr row, w3)"
    using new_row_created by blast
  obtain w5 where arch: "archiveOutgoing accepting_env row new_plan (start_world (outbox [] [])) = (Inr (), w5)" using new_row_archived by blast
  obtain k headers content rest others where block: "objects (db_of w5) k = Some (utf8 (join_text crlf (headers @ content @ [] # rest)))"
    "headers = [js ''From: '' @ displayFrom accepting_env (p_mailbox new_plan), js ''To: '' @ join_text (js '', '') (p_to new_plan)] @ others"
    "\<forall>h \<in> set headers. h \<noteq> [] \<and> one_line h"
    using raw_header_block [OF accepting_env_ok(1) uuids valid plan row arch] by blast
  have "js ''To: '' @ join_text (js '', '') (p_to new_plan) = js ''To: a@b.cc''" by (simp add: new_plan_def js_def)
  then have "js ''To: a@b.cc'' \<in> set headers" unfolding block(2) by simp
  then show ?thesis using arch block(1,3) by blast
qed

end
