(* ===== verification/Auth.thy ===== *)
theory Auth
  imports Plans
begin

text \<open>
  The administrator's account (\<open>src/src/auth.ts\<close>): password digests, the one-time setup, login with its rate
  limit, sessions, logout and the change of a password. PBKDF2, HMAC and SHA-256 are the platform's
  (\<open>pbkdf2_bits\<close>, \<open>hmac_digest\<close>, \<open>sha256_digest\<close>).
\<close>

section \<open>Configuration\<close>

definition LOGIN_WINDOW_MINUTES :: int where
  "LOGIN_WINDOW_MINUTES = 15"

definition LOGIN_IP_LIMIT :: nat where
  "LOGIN_IP_LIMIT = 12"

definition LOGIN_EMAIL_LIMIT :: nat where
  "LOGIN_EMAIL_LIMIT = 8"

definition MAX_ACTIVE_SESSIONS :: nat where
  "MAX_ACTIVE_SESSIONS = 5"

definition passwordIterations :: "env \<Rightarrow> nat" where
  "passwordIterations E = nat (asInt (var E ''PASSWORD_ITERATIONS'') 8000 8000 100000)"

definition sessionHours :: "env \<Rightarrow> int" where
  "sessionHours E = asInt (var E ''SESSION_HOURS'') 12 1 72"

definition sessionIdleMinutes :: "env \<Rightarrow> int" where
  "sessionIdleMinutes E = asInt (var E ''SESSION_IDLE_MINUTES'') 60 0 (sessionHours E * 60)"

lemma configuration_bounds:
  "8000 \<le> passwordIterations E" "passwordIterations E \<le> 100000" "1 \<le> sessionHours E" "sessionHours E \<le> 72"
  using asInt_bounds [of 8000 8000 100000 "var E ''PASSWORD_ITERATIONS''"] asInt_bounds [of 1 12 72 "var E ''SESSION_HOURS''"]
  by (simp_all add: passwordIterations_def sessionHours_def nat_le_iff le_nat_iff)

section \<open>Passwords\<close>

definition PASSWORD_SCHEME_V1 :: jstr where
  "PASSWORD_SCHEME_V1 = js ''pbkdf2-sha256+hmac-sha256-v1''"

definition normalizePassword :: "env \<Rightarrow> jstr \<Rightarrow> jstr" where
  "normalizePassword E password = nfc (uni (plat E)) password"

definition passwordDigest :: "env \<Rightarrow> jstr \<Rightarrow> bytes \<Rightarrow> nat \<Rightarrow> exn + jstr" where
  "passwordDigest E password salt iterations =
     (case requireAuthPepper E of
        Inl e \<Rightarrow> Inl e
      | Inr pepper \<Rightarrow>
          let key = pbkdf2_bits (plat E) (utf8 (normalizePassword E password)) salt iterations in
          Inr (base64Url (hmac_digest (plat E) (utf8 pepper) key)))"

definition legacyPasswordDigest :: "env \<Rightarrow> jstr \<Rightarrow> bytes \<Rightarrow> nat \<Rightarrow> jstr" where
  "legacyPasswordDigest E password salt iterations =
     base64Url (pbkdf2_bits (plat E) (utf8 (normalizePassword E password)) salt iterations)"

text \<open>\<open>Array.from(s).length\<close>: the number of code points.\<close>

fun code_points :: "jstr \<Rightarrow> nat" where
  "code_points [] = 0"
| "code_points [c] = 1"
| "code_points (c # d # ds) =
     (if high_surrogate c \<and> low_surrogate d then Suc (code_points ds) else Suc (code_points (d # ds)))"

definition password_too_long :: exn where
  "password_too_long = app_error 400 ''Password must be 128 characters or fewer and is rejected, not truncated.'' ''password_too_long''"

definition password_too_many_bytes :: exn where
  "password_too_many_bytes = app_error 400 ''Password exceeds the maximum supported byte length.'' ''password_too_long''"

definition validatePassword :: "env \<Rightarrow> jstr \<Rightarrow> exn + unit" where
  "validatePassword E password =
     (let normalized = normalizePassword E password; points = code_points normalized in
      if points = 0 then Inl (app_error 400 ''Password must be non-empty.'' ''invalid_password'')
      else if points < 15 then Inl (app_error 400 ''Password must be at least 15 characters.'' ''invalid_password'')
      else if points > 128 then Inl password_too_long
      else if byte_length normalized > 512 then Inl password_too_many_bytes
      else Inr ())"

definition boundedPassword :: "env \<Rightarrow> jsval \<Rightarrow> exn + jstr" where
  "boundedPassword E v =
     (case v of
        JStr t \<Rightarrow>
          (let normalized = normalizePassword E t in
           if code_points normalized > 128 then Inl password_too_long
           else if byte_length normalized > 512 then Inl password_too_many_bytes
           else Inr normalized)
      | _ \<Rightarrow> Inl (app_error 400 ''Password must be text.'' ''invalid_password''))"

definition adminUsesV1Scheme :: "admin \<Rightarrow> bool" where
  "adminUsesV1Scheme a \<longleftrightarrow> ad_scheme a = PASSWORD_SCHEME_V1"

definition stored_digest :: "env \<Rightarrow> admin \<Rightarrow> jstr \<Rightarrow> bytes \<Rightarrow> exn + jstr" where
  "stored_digest E a password salt =
     (if adminUsesV1Scheme a then passwordDigest E password salt (ad_iterations a)
      else Inr (legacyPasswordDigest E password salt (ad_iterations a)))"

text \<open>Whether a password is the one whose digest is stored, in the scheme and with the salt of the row.\<close>

definition password_matches :: "env \<Rightarrow> admin \<Rightarrow> jstr \<Rightarrow> exn + bool" where
  "password_matches E a password =
     (case base64UrlToBytes (ad_salt a) of
        Inl e \<Rightarrow> Inl e
      | Inr salt \<Rightarrow>
          (case stored_digest E a password salt of
             Inl e \<Rightarrow> Inl e
           | Inr actual \<Rightarrow> Inr (timingSafeEqual actual (ad_hash a))))"

section \<open>Statements\<close>

definition update_admins :: "(admin \<Rightarrow> bool) \<Rightarrow> (admin \<Rightarrow> admin) \<Rightarrow> nat statement" where
  "update_admins p f = constrained (\<lambda>d. (count_rows p (admins d), d\<lparr>admins := map_rows p f (admins d)\<rparr>))"

definition update_sessions :: "(db \<Rightarrow> session \<Rightarrow> bool) \<Rightarrow> (session \<Rightarrow> session) \<Rightarrow> nat statement" where
  "update_sessions p f = constrained (\<lambda>d. (count_rows (p d) (sessions d), d\<lparr>sessions := map_rows (p d) f (sessions d)\<rparr>))"

definition insert_admin :: "admin \<Rightarrow> unit statement" where
  "insert_admin a = constrained (\<lambda>d. ((), d\<lparr>admins := admins d @ [a]\<rparr>))"

definition insert_session :: "session \<Rightarrow> unit statement" where
  "insert_session s = constrained (\<lambda>d. ((), d\<lparr>sessions := sessions d @ [s]\<rparr>))"

definition insert_attempt :: "attempt \<Rightarrow> unit statement" where
  "insert_attempt a = constrained (\<lambda>d. ((), d\<lparr>attempts := attempts d @ [a]\<rparr>))"

definition delete_attempts :: "(attempt \<Rightarrow> bool) \<Rightarrow> unit statement" where
  "delete_attempts p = constrained (\<lambda>d. ((), d\<lparr>attempts := filter (\<lambda>a. \<not> p a) (attempts d)\<rparr>))"

definition delete_sessions :: "(session \<Rightarrow> bool) \<Rightarrow> unit statement" where
  "delete_sessions p = constrained (\<lambda>d. ((), d\<lparr>sessions := filter (\<lambda>s. \<not> p s) (sessions d)\<rparr>))"

lemma preserves_accounts [preserves_intros]:
  "preserves db_ok (update_admins p f)" "preserves db_ok (update_sessions q g)" "preserves db_ok (insert_admin a)"
  "preserves db_ok (insert_session s)" "preserves db_ok (insert_attempt x)" "preserves db_ok (delete_attempts r)"
  "preserves db_ok (delete_sessions t)"
  unfolding update_admins_def update_sessions_def insert_admin_def insert_session_def insert_attempt_def delete_attempts_def
    delete_sessions_def
  by (rule preserves_intros)+

text \<open>\<open>UPDATE admin_sessions SET revoked_at=COALESCE(revoked_at,?)\<close>.\<close>

definition revoke :: "jstr \<Rightarrow> session \<Rightarrow> session" where
  "revoke ts s = s\<lparr>s_revoked_at := Some (coalesce (s_revoked_at s) ts)\<rparr>"

definition getRandomValues :: "env \<Rightarrow> nat \<Rightarrow> bytes action" where
  "getRandomValues E n = (\<lambda>w. (Inr (random_at E (draws w) n), w\<lparr>draws := Suc (draws w)\<rparr>))"

lemma keeps_getRandomValues [keeps_intros]: "keeps (\<lambda>w. I (db_of w)) (getRandomValues E n)"
  by (simp add: keeps_def getRandomValues_def)

text \<open>\<open>Promise.all([a, b])\<close>: both are started, and the first failure is reported.\<close>

definition both :: "'a action \<Rightarrow> 'b action \<Rightarrow> ('a \<times> 'b) action" where
  "both a b =
     bindE (attemptE a) (\<lambda>x.
     bindE (attemptE b) (\<lambda>y.
     case x of Inl e \<Rightarrow> throwE e | Inr u \<Rightarrow> (case y of Inl e \<Rightarrow> throwE e | Inr v \<Rightarrow> returnE (u, v))))"

lemma keeps_both [keeps_intros]: "keeps I a \<Longrightarrow> keeps I b \<Longrightarrow> keeps I (both a b)"
  unfolding both_def by (intro keeps_intros)

section \<open>Sessions\<close>

definition initialized :: "env \<Rightarrow> bool action" where
  "initialized E = select E (\<lambda>d. admins d \<noteq> [])"

definition revokeSession :: "env \<Rightarrow> jstr \<Rightarrow> unit action" where
  "revokeSession E i =
     bindE (now E) (\<lambda>ts. bindE (external E (update_sessions (\<lambda>d s. s_id s = i) (revoke ts))) (\<lambda>_. returnE ()))"

definition unrevoked_of :: "jstr \<Rightarrow> session \<Rightarrow> bool" where
  "unrevoked_of i s \<longleftrightarrow> s_admin s = i \<and> s_revoked_at s = None"

text \<open>The sessions of an administrator that stay when the others are revoked: the newest five.\<close>

definition kept_sessions :: "jstr \<Rightarrow> session list \<Rightarrow> jstr list" where
  "kept_sessions i ss = map s_id (take MAX_ACTIVE_SESSIONS (sort_desc s_created_at (filter (unrevoked_of i) ss)))"

definition trimSessions :: "env \<Rightarrow> jstr \<Rightarrow> unit action" where
  "trimSessions E i =
     bindE (now E) (\<lambda>ts.
     bindE (external E (update_sessions (\<lambda>d s. unrevoked_of i s \<and> s_id s \<notin> set (kept_sessions i (sessions d)))
       (\<lambda>s. s\<lparr>s_revoked_at := Some ts\<rparr>))) (\<lambda>_. returnE ()))"

definition createSession :: "env \<Rightarrow> http_request \<Rightarrow> jstr \<Rightarrow> jstr \<Rightarrow> response action" where
  "createSession E r adminId email =
     bindE (randomToken E 32) (\<lambda>token.
     bindE (randomToken E 24) (\<lambda>csrfToken.
     bindE (uuid E) (\<lambda>sessionId.
     bindE (now E) (\<lambda>createdAt.
     bindE (date_now E) (\<lambda>t.
     let maxAge = sessionHours E * 60 * 60; expiresAt = iso (t + maxAge * 1000) in
     bindE (liftE (requestIpHash E r)) (\<lambda>ipHash.
     bindE (liftE (userAgentHash E r)) (\<lambda>uaHash.
     bindE (batch E
       [insert_session \<lparr> s_id = sessionId, s_admin = adminId, s_token_hash = sha256_text E token, s_csrf = csrfToken,
          s_ip_hash = Some ipHash, s_agent_hash = Some uaHash, s_created_at = createdAt, s_last_seen_at = createdAt,
          s_expires_at = expiresAt, s_revoked_at = None \<rparr>,
        void (update_admins (\<lambda>a. ad_id a = adminId) (\<lambda>a. a\<lparr>ad_last_login_at := Some createdAt, ad_updated_at := createdAt\<rparr>))]) (\<lambda>_.
     bindE (trimSessions E adminId) (\<lambda>_.
     bindE (liftE (sessionCookie token (nat maxAge))) (\<lambda>cookie.
     returnE (json (obj [(''authenticated'', JBool True), (''email'', JStr email), (''csrf_token'', JStr csrfToken)]) 200
       [(''Set-Cookie'', cookie)])))))))))))"

definition session_row :: "jstr \<Rightarrow> db \<Rightarrow> (session \<times> admin) option" where
  "session_row tokenHash d =
     (case [(s, a). s \<leftarrow> sessions d, s_token_hash s = tokenHash \<and> s_revoked_at s = None, a \<leftarrow> admins d, ad_id a = s_admin s] of
        [] \<Rightarrow> None | x # _ \<Rightarrow> Some x)"

text \<open>A session is idle for too long, and has not been seen for five minutes.\<close>

definition idle :: "env \<Rightarrow> session \<Rightarrow> int \<Rightarrow> bool" where
  "idle E s t \<longleftrightarrow> 0 < sessionIdleMinutes E * 60000
     \<and> (case date_parse (date_ext (plat E)) (s_last_seen_at s) of None \<Rightarrow> False | Some seen \<Rightarrow> t - seen > sessionIdleMinutes E * 60000)"

definition unseen :: "env \<Rightarrow> session \<Rightarrow> int \<Rightarrow> bool" where
  "unseen E s t \<longleftrightarrow> (case date_parse (date_ext (plat E)) (s_last_seen_at s) of None \<Rightarrow> True | Some seen \<Rightarrow> t - seen > 5 * 60000)"

definition wrong_agent :: "session \<Rightarrow> jstr \<Rightarrow> bool" where
  "wrong_agent s uaHash \<longleftrightarrow> filled (s_agent_hash s) \<and> \<not> timingSafeEqual (coalesce (s_agent_hash s) []) uaHash"

definition touchSession :: "env \<Rightarrow> jstr \<Rightarrow> unit action" where
  "touchSession E i =
     bindE (now E) (\<lambda>ts. bindE (external E (update_sessions (\<lambda>d s. s_id s = i) (\<lambda>s. s\<lparr>s_last_seen_at := ts\<rparr>))) (\<lambda>_. returnE ()))"

definition session_user :: "session \<times> admin \<Rightarrow> user" where
  "session_user row = \<lparr> us_admin = ad_id (snd row), us_email = ad_email (snd row), us_csrf = s_csrf (fst row), us_session = s_id (fst row) \<rparr>"

definition getSession :: "env \<Rightarrow> http_request \<Rightarrow> user option action" where
  "getSession E r =
     (case cookieMap r SESSION_COOKIE_NAME of
        None \<Rightarrow> returnE None
      | Some token \<Rightarrow>
          if token = [] then returnE None
          else
            bindE (select E (session_row (sha256_text E token))) (\<lambda>row.
            case row of
              None \<Rightarrow> returnE None
            | Some (s, a) \<Rightarrow>
                bindE (now E) (\<lambda>ts.
                if ad_disabled a \<or> s_expires_at s \<le> ts then
                  bindE (if s_id s = [] then returnE () else revokeSession E (s_id s)) (\<lambda>_. returnE None)
                else
                  bindE (liftE (userAgentHash E r)) (\<lambda>uaHash.
                  if wrong_agent s uaHash then bindE (revokeSession E (s_id s)) (\<lambda>_. returnE None)
                  else
                    bindE (date_now E) (\<lambda>t.
                    if idle E s t then bindE (revokeSession E (s_id s)) (\<lambda>_. returnE None)
                    else
                      bindE (if unseen E s t then touchSession E (s_id s) else returnE ()) (\<lambda>_.
                      returnE (Some (session_user (s, a)))))))))"

definition csrf_header :: "http_request \<Rightarrow> jstr" where
  "csrf_header r = header_text r ''X-CSRF-Token''"

definition requireSession :: "env \<Rightarrow> http_request \<Rightarrow> bool \<Rightarrow> user action" where
  "requireSession E r csrf =
     bindE (getSession E r) (\<lambda>found.
     case found of
       None \<Rightarrow> throwE (app_error 401 ''Sign in to continue.'' ''unauthorized'')
     | Some u \<Rightarrow>
         if csrf then
           bindE (liftE (requireOrigin E r)) (\<lambda>_.
           bindE (throw_if (csrf_header r = [] \<or> \<not> timingSafeEqual (csrf_header r) (us_csrf u))
             (app_error 403 ''Security token is invalid. Refresh and try again.'' ''csrf_invalid'')) (\<lambda>_.
           returnE u))
         else returnE u)"

definition authStatus :: "env \<Rightarrow> http_request \<Rightarrow> response action" where
  "authStatus E r =
     bindE (initialized E) (\<lambda>ready.
     bindE (if ready then getSession E r else returnE None) (\<lambda>found.
     returnE (json (obj [(''initialized'', JBool ready), (''authenticated'', JBool (found \<noteq> None)),
       (''email'', case found of None \<Rightarrow> JNull | Some u \<Rightarrow> js_or (JStr (us_email u)) JNull),
       (''csrf_token'', case found of None \<Rightarrow> JNull | Some u \<Rightarrow> js_or (JStr (us_csrf u)) JNull)]) 200 [])))"


lemma keeps_sessions [keeps_intros]:
  assumes "stable E db_ok"
  shows "keeps (\<lambda>w. db_ok (db_of w)) (initialized E)" "keeps (\<lambda>w. db_ok (db_of w)) (revokeSession E i)"
    "keeps (\<lambda>w. db_ok (db_of w)) (trimSessions E i)" "keeps (\<lambda>w. db_ok (db_of w)) (touchSession E i)"
  unfolding initialized_def revokeSession_def trimSessions_def touchSession_def
  by (intro keeps_intros preserves_intros assms)+

lemma keeps_createSession [keeps_intros]: "stable E db_ok \<Longrightarrow> keeps (\<lambda>w. db_ok (db_of w)) (createSession E r i e)"
  unfolding createSession_def Let_def by (intro keeps_intros) (auto intro: preserves_intros)

lemma keeps_getSession [keeps_intros]: "stable E db_ok \<Longrightarrow> keeps (\<lambda>w. db_ok (db_of w)) (getSession E r)"
  unfolding getSession_def by (intro keeps_intros)

lemma keeps_requireSession [keeps_intros]:
  assumes "stable E db_ok"
  shows "keeps (\<lambda>w. db_ok (db_of w)) (requireSession E r c)" "keeps (\<lambda>w. db_ok (db_of w)) (authStatus E r)"
  unfolding requireSession_def authStatus_def by (intro keeps_intros assms)+

section \<open>Setup and login\<close>

definition upgradePasswordHash :: "env \<Rightarrow> jstr \<Rightarrow> admin \<Rightarrow> unit action" where
  "upgradePasswordHash E password a =
     (if passwordIterations E \<le> ad_iterations a \<and> adminUsesV1Scheme a then returnE ()
      else
        bindE (getRandomValues E 16) (\<lambda>salt.
        bindE (liftE (passwordDigest E password salt (passwordIterations E))) (\<lambda>hash.
        bindE (now E) (\<lambda>ts.
        bindE (external E (update_admins (\<lambda>x. ad_id x = ad_id a \<and> ad_hash x = ad_hash a)
          (\<lambda>x. x\<lparr>ad_hash := hash, ad_salt := base64Url salt, ad_iterations := passwordIterations E, ad_scheme := PASSWORD_SCHEME_V1,
             ad_updated_at := ts\<rparr>))) (\<lambda>_. returnE ())))))"

definition subjectHash :: "env \<Rightarrow> jstr \<Rightarrow> jstr \<Rightarrow> exn + jstr" where
  "subjectHash E scope v =
     (case requireAuthPepper E of Inl e \<Rightarrow> Inl e | Inr pepper \<Rightarrow> Inr (sha256_text E (pepper @ js ''|'' @ scope @ js ''|'' @ v)))"

definition attempt_row :: "env \<Rightarrow> jstr \<Rightarrow> jstr \<Rightarrow> bool \<Rightarrow> attempt action" where
  "attempt_row E scope hash success =
     bindE (uuid E) (\<lambda>i.
     bindE (now E) (\<lambda>ts.
     returnE \<lparr> au_id = i, au_scope = scope, au_subject = hash, au_success = success, au_created_at = ts \<rparr>))"

text \<open>The two attempts of a login: both rows are made before either is sent.\<close>

definition recordAttempts :: "env \<Rightarrow> jstr \<Rightarrow> jstr \<Rightarrow> bool \<Rightarrow> unit action" where
  "recordAttempts E ipHash emailHash valid =
     bindE (attempt_row E (js ''ip'') ipHash valid) (\<lambda>ip.
     bindE (attempt_row E (js ''email'') emailHash valid) (\<lambda>email.
     bindE (both (external E (insert_attempt ip)) (external E (insert_attempt email))) (\<lambda>_. returnE ())))"

definition recent_failures :: "jstr \<Rightarrow> jstr \<Rightarrow> jstr \<Rightarrow> db \<Rightarrow> nat" where
  "recent_failures scope hash cutoff d =
     count_rows (\<lambda>a. au_scope a = scope \<and> au_subject a = hash \<and> \<not> au_success a \<and> cutoff \<le> au_created_at a) (attempts d)"

definition rate_limited :: exn where
  "rate_limited = app_error 429 ''Too many login attempts. Try again later.'' ''rate_limited''"

definition enforceLoginRateLimit :: "env \<Rightarrow> jstr \<Rightarrow> jstr \<Rightarrow> unit action" where
  "enforceLoginRateLimit E ipHash emailHash =
     bindE (date_now E) (\<lambda>t.
     let cutoff = iso (t - LOGIN_WINDOW_MINUTES * 60000) in
     bindE (both (select E (recent_failures (js ''ip'') ipHash cutoff)) (select E (recent_failures (js ''email'') emailHash cutoff))) (\<lambda>(ip, email).
     throw_if (LOGIN_IP_LIMIT \<le> ip \<or> LOGIN_EMAIL_LIMIT \<le> email) rate_limited))"

definition already_initialized :: exn where
  "already_initialized = app_error 409 ''Mailbox administrator is already initialized.'' ''already_initialized''"

definition no_pepper :: "env \<Rightarrow> bool" where
  "no_pepper E \<longleftrightarrow> (case var E ''AUTH_PEPPER'' of JStr p \<Rightarrow> length p < 32 | v \<Rightarrow> \<not> truthy v)"

definition bootstrap :: "env \<Rightarrow> http_request \<Rightarrow> response action" where
  "bootstrap E r =
     bindE (liftE (requireOrigin E r)) (\<lambda>_.
     bindE (initialized E) (\<lambda>ready.
     bindE (throw_if ready already_initialized) (\<lambda>_.
     let expected = var_text E ''ADMIN_BOOTSTRAP_TOKEN''; supplied = header_text r ''X-Bootstrap-Token'' in
     bindE (throw_if (expected = [] \<or> supplied = [] \<or> \<not> timingSafeEqual expected supplied)
       (app_error 403 ''Bootstrap token is invalid.'' ''bootstrap_denied'')) (\<lambda>_.
     bindE (throw_if (no_pepper E) (app_error 503 ''AUTH_PEPPER must be configured before setup.'' ''auth_not_configured'')) (\<lambda>_.
     bindE (liftE (readJson E r 16384)) (\<lambda>body.
     let U = uni (plat E); configuredEmail = normalizeEmail U (var E ''ADMIN_EMAIL'');
         email = normalizeEmail U (js_or (body_get body ''email'') (JStr configuredEmail)) in
     bindE (liftE (boundedPassword E (body_get body ''password''))) (\<lambda>password.
     bindE (throw_if (\<not> validEmail email \<or> configuredEmail \<noteq> [] \<and> email \<noteq> configuredEmail)
       (app_error 400 ''Administrator email does not match the configured address.'' ''invalid_admin_email'')) (\<lambda>_.
     bindE (liftE (validatePassword E password)) (\<lambda>_.
     bindE (getRandomValues E 16) (\<lambda>salt.
     bindE (liftE (passwordDigest E password salt (passwordIterations E))) (\<lambda>hash.
     bindE (uuid E) (\<lambda>adminId.
     bindE (now E) (\<lambda>ts.
     bindE (catchE (external E (insert_admin \<lparr> ad_id = adminId, ad_email = email, ad_hash = hash, ad_salt = base64Url salt,
         ad_iterations = passwordIterations E, ad_scheme = PASSWORD_SCHEME_V1, ad_disabled = False, ad_created_at = ts, ad_updated_at = ts,
         ad_last_login_at = None \<rparr>))
       (\<lambda>_. throwE already_initialized)) (\<lambda>_.
     createSession E r adminId email))))))))))))))"

definition invalid_credentials :: exn where
  "invalid_credentials = app_error 401 ''Email or password is incorrect.'' ''invalid_credentials''"

text \<open>The check of the password; an unknown or disabled account costs a digest too.\<close>

definition login_valid :: "env \<Rightarrow> admin option \<Rightarrow> jstr \<Rightarrow> exn + bool" where
  "login_valid E found password =
     (case found of
        Some a \<Rightarrow>
          if ad_disabled a then
            (case passwordDigest E (or_else password (js ''invalid-password'')) (replicate 16 0) (passwordIterations E) of
               Inl e \<Rightarrow> Inl e | Inr _ \<Rightarrow> Inr False)
          else password_matches E a password
      | None \<Rightarrow>
          (case passwordDigest E (or_else password (js ''invalid-password'')) (replicate 16 0) (passwordIterations E) of
             Inl e \<Rightarrow> Inl e | Inr _ \<Rightarrow> Inr False))"

text \<open>The account that a login opens, once the attempt is on record.\<close>

definition authenticate :: "env \<Rightarrow> jstr \<Rightarrow> jstr \<Rightarrow> jstr \<Rightarrow> jstr \<Rightarrow> admin action" where
  "authenticate E email password ipHash emailHash =
     bindE (enforceLoginRateLimit E ipHash emailHash) (\<lambda>_.
     bindE (if validEmail email then select E (\<lambda>d. find (\<lambda>a. nocase (ad_email a) = nocase email) (admins d)) else returnE None) (\<lambda>found.
     bindE (liftE (login_valid E found password)) (\<lambda>valid.
     bindE (recordAttempts E ipHash emailHash valid) (\<lambda>_.
     case found of
       Some a \<Rightarrow> if valid then returnE a else throwE invalid_credentials
     | None \<Rightarrow> throwE invalid_credentials))))"

definition login :: "env \<Rightarrow> http_request \<Rightarrow> response action" where
  "login E r =
     bindE (liftE (requireOrigin E r)) (\<lambda>_.
     bindE (initialized E) (\<lambda>ready.
     bindE (throw_if (\<not> ready) (app_error 409 ''Complete one-time mailbox setup first.'' ''not_initialized'')) (\<lambda>_.
     bindE (liftE (readJson E r 16384)) (\<lambda>body.
     let email = normalizeEmail (uni (plat E)) (body_get body ''email'') in
     bindE (liftE (boundedPassword E (body_get body ''password''))) (\<lambda>password.
     bindE (liftE (requestIpHash E r)) (\<lambda>ipHash.
     bindE (liftE (subjectHash E (js ''email'') email)) (\<lambda>emailHash.
     bindE (authenticate E email password ipHash emailHash) (\<lambda>a.
     bindE (upgradePasswordHash E password a) (\<lambda>_.
     createSession E r (ad_id a) (ad_email a))))))))))"

section \<open>Logout and the change of a password\<close>

definition ok_cleared :: "(string \<times> jsval) list \<Rightarrow> response" where
  "ok_cleared extra = json (obj ((''ok'', JBool True) # extra)) 200 [(''Set-Cookie'', clearSessionCookie)]"

definition logout :: "env \<Rightarrow> http_request \<Rightarrow> response action" where
  "logout E r =
     bindE (liftE (requireOrigin E r)) (\<lambda>_.
     bindE (getSession E r) (\<lambda>found.
     bindE (case found of
         None \<Rightarrow> returnE ()
       | Some u \<Rightarrow>
           bindE (throw_if (csrf_header r = [] \<or> \<not> timingSafeEqual (csrf_header r) (us_csrf u))
             (app_error 403 ''Security token is invalid.'' ''csrf_invalid'')) (\<lambda>_. revokeSession E (us_session u))) (\<lambda>_.
     returnE (ok_cleared []))))"

definition logoutAll :: "env \<Rightarrow> http_request \<Rightarrow> user \<Rightarrow> response action" where
  "logoutAll E r u =
     bindE (now E) (\<lambda>ts.
     bindE (external E (update_sessions (\<lambda>d s. s_admin s = us_admin u) (revoke ts))) (\<lambda>_.
     bindE (audit E r (Some u) (js ''auth_logout_all'') (js ''admin'') (us_admin u) None []) (\<lambda>_.
     returnE (ok_cleared []))))"

definition wrong_password :: exn where
  "wrong_password = app_error 401 ''Current password is incorrect.'' ''invalid_credentials''"

definition new_password_statements :: "env \<Rightarrow> user \<Rightarrow> jstr \<Rightarrow> bytes \<Rightarrow> jstr \<Rightarrow> unit statement list" where
  "new_password_statements E u hash salt ts =
     [void (update_admins (\<lambda>x. ad_id x = us_admin u)
        (\<lambda>x. x\<lparr>ad_hash := hash, ad_salt := base64Url salt, ad_iterations := passwordIterations E, ad_scheme := PASSWORD_SCHEME_V1,
           ad_updated_at := ts\<rparr>)),
      void (update_sessions (\<lambda>d s. s_admin s = us_admin u) (revoke ts))]"

definition change_found :: "env \<Rightarrow> http_request \<Rightarrow> user \<Rightarrow> jstr \<Rightarrow> jstr \<Rightarrow> admin option \<Rightarrow> response action" where
  "change_found E r u currentPassword newPassword found =
     (case found of
        None \<Rightarrow> throwE (app_error 401 ''Administrator account is unavailable.'' ''unauthorized'')
      | Some a \<Rightarrow>
          bindE (liftE (password_matches E a currentPassword)) (\<lambda>matches.
          bindE (throw_if (\<not> matches) wrong_password) (\<lambda>_.
          bindE (getRandomValues E 16) (\<lambda>salt.
          bindE (liftE (passwordDigest E newPassword salt (passwordIterations E))) (\<lambda>hash.
          bindE (now E) (\<lambda>ts.
          bindE (batch E (new_password_statements E u hash salt ts)) (\<lambda>_.
          bindE (audit E r (Some u) (js ''auth_password_changed'') (js ''admin'') (us_admin u) None []) (\<lambda>_.
          returnE (ok_cleared [(''reauthenticate'', JBool True)])))))))))"

definition changePassword :: "env \<Rightarrow> http_request \<Rightarrow> user \<Rightarrow> response action" where
  "changePassword E r u =
     bindE (liftE (readJson E r 16384)) (\<lambda>body.
     bindE (liftE (boundedPassword E (body_get body ''current_password''))) (\<lambda>currentPassword.
     bindE (liftE (boundedPassword E (body_get body ''new_password''))) (\<lambda>newPassword.
     bindE (liftE (validatePassword E newPassword)) (\<lambda>_.
     bindE (throw_if (timingSafeEqual currentPassword newPassword) (app_error 400 ''New password must be different.'' ''password_unchanged'')) (\<lambda>_.
     bindE (select E (\<lambda>d. find (\<lambda>a. ad_id a = us_admin u \<and> \<not> ad_disabled a) (admins d))) (\<lambda>found.
     change_found E r u currentPassword newPassword found))))))"

definition cleanupAuth :: "env \<Rightarrow> unit action" where
  "cleanupAuth E =
     bindE (date_now E) (\<lambda>t.
     bindE (now E) (\<lambda>ts.
     batch E
       [delete_attempts (\<lambda>a. au_created_at a < iso (t - 2 * 24 * 60 * 60000)),
        delete_sessions (\<lambda>s. s_expires_at s < ts
          \<or> (case s_revoked_at s of None \<Rightarrow> False | Some at_ts \<Rightarrow> at_ts < iso (t - 30 * 24 * 60 * 60000)))]))"

lemma keeps_accounts [keeps_intros]:
  assumes "stable E db_ok"
  shows "keeps (\<lambda>w. db_ok (db_of w)) (upgradePasswordHash E p a)" "keeps (\<lambda>w. db_ok (db_of w)) (recordAttempts E i e v)"
    "keeps (\<lambda>w. db_ok (db_of w)) (enforceLoginRateLimit E i e)" "keeps (\<lambda>w. db_ok (db_of w)) (logout E r)"
    "keeps (\<lambda>w. db_ok (db_of w)) (logoutAll E r u)"
  unfolding upgradePasswordHash_def recordAttempts_def attempt_row_def enforceLoginRateLimit_def logout_def logoutAll_def Let_def
  by (intro keeps_intros preserves_intros assms)+

lemma keeps_cleanupAuth [keeps_intros]: "stable E db_ok \<Longrightarrow> keeps (\<lambda>w. db_ok (db_of w)) (cleanupAuth E)"
  unfolding cleanupAuth_def by (intro keeps_intros) (auto intro: preserves_intros)

lemma keeps_bootstrap [keeps_intros]: "stable E db_ok \<Longrightarrow> keeps (\<lambda>w. db_ok (db_of w)) (bootstrap E r)"
  unfolding bootstrap_def Let_def by (intro keeps_intros preserves_intros)

lemma keeps_login [keeps_intros]: "stable E db_ok \<Longrightarrow> keeps (\<lambda>w. db_ok (db_of w)) (login E r)"
  unfolding login_def authenticate_def Let_def by (intro keeps_intros)

lemma keeps_changePassword [keeps_intros]: "stable E db_ok \<Longrightarrow> keeps (\<lambda>w. db_ok (db_of w)) (changePassword E r u)"
  unfolding changePassword_def change_found_def by (intro keeps_intros) (auto simp: new_password_statements_def intro: preserves_intros)

end
