(* ===== verification/Routing_Sync.thy ===== *)
theory Routing_Sync
  imports Auth
begin

text \<open>
  The synchronisation of the mailboxes with the routing rules of Cloudflare
  (\<open>src/src/routing-sync.ts\<close>): reading every page of the rules, deriving the mailboxes that should
  exist, and bringing the table to that plan in one batch, with a check afterwards. The collation of
  \<open>localeCompare\<close> is the parameter \<open>locale_less\<close> of the environment. The sharing of one running
  synchronisation between the requests of an isolate (\<open>routingSyncInFlight\<close>) is the step relation \<open>sync_step\<close>.
\<close>

section \<open>Configuration and rules\<close>

definition ROUTING_PAGE_SIZE :: nat where
  "ROUTING_PAGE_SIZE = 50"

definition MAX_ROUTING_PAGES :: nat where
  "MAX_ROUTING_PAGES = 100"

definition CLOUDFLARE_API :: jstr where
  "CLOUDFLARE_API = js ''https://api.cloudflare.com/client/v4''"

record routing_config =
  rc_token :: jstr
  rc_zone :: jstr
  rc_domain :: jstr
  rc_worker :: jstr

record desired_mailbox =
  dm_address :: jstr
  dm_can_receive :: bool

text \<open>\<open>asObject\<close>: an object that is not an array.\<close>

definition asObject :: "jsval \<Rightarrow> jsval option" where
  "asObject v = (case v of JObj kvs \<Rightarrow> Some v | _ \<Rightarrow> None)"

definition sync_error :: "nat \<Rightarrow> string \<Rightarrow> string \<Rightarrow> exn" where
  "sync_error status message code = app_error status message code"

definition domain_unit :: "code_unit \<Rightarrow> bool" where
  "domain_unit c \<longleftrightarrow> is_lower c \<or> is_digit c \<or> c = 46 \<or> c = 45"

definition zone_unit :: "code_unit \<Rightarrow> bool" where
  "zone_unit c \<longleftrightarrow> is_digit c \<or> 97 \<le> c \<and> c \<le> 102"

definition runtimeConfig :: "env \<Rightarrow> exn + routing_config" where
  "runtimeConfig E =
     (let U = uni (plat E); token = trim (var_text E ''CLOUDFLARE_ROUTING_READ_TOKEN'');
          zoneId = to_lower U (trim (var_text E ''CLOUDFLARE_ZONE_ID''));
          domain = to_lower U (trim (var_text E ''MAIL_DOMAIN'')); workerName = trim (var_text E ''MAIL_WORKER_NAME'') in
      if token = [] then Inl (sync_error 503 ''Cloudflare routing synchronization is not configured.'' ''routing_sync_not_configured'')
      else if \<not> (length zoneId = 32 \<and> list_all zone_unit zoneId) then
        Inl (sync_error 503 ''Cloudflare routing synchronization has an invalid zone configuration.'' ''routing_sync_not_configured'')
      else if domain = [] \<or> length domain > 253 \<or> \<not> list_all domain_unit domain \<or> contains_text (js ''..'') domain then
        Inl (sync_error 503 ''Cloudflare routing synchronization has an invalid mail domain configuration.'' ''routing_sync_not_configured'')
      else if workerName = [] \<or> length workerName > 128 then
        Inl (sync_error 503 ''Cloudflare routing synchronization has an invalid Worker configuration.'' ''routing_sync_not_configured'')
      else Inr \<lparr> rc_token = token, rc_zone = zoneId, rc_domain = domain, rc_worker = workerName \<rparr>)"

text \<open>The address of a rule that forwards one literal address of the domain, or the empty text.\<close>

definition literalDomainAddress :: "env \<Rightarrow> jsval \<Rightarrow> jstr \<Rightarrow> jstr" where
  "literalDomainAddress E rule domain =
     (if js_get rule (js ''enabled'') \<noteq> JBool True then []
      else (case js_get rule (js ''matchers'') of
          JArr [m] \<Rightarrow>
            (case asObject m of
               None \<Rightarrow> []
             | Some matcher \<Rightarrow>
                 if js_get matcher (js ''type'') \<noteq> JStr (js ''literal'') \<or> js_get matcher (js ''field'') \<noteq> JStr (js ''to'') then []
                 else
                   let address = normalizeEmail (uni (plat E)) (js_get matcher (js ''value''));
                       localPart = take (length address - (length domain + 1)) address in
                   if address = [] \<or> \<not> ends_with (js ''@'' @ domain) address then []
                   else if localPart = [] \<or> list_ex js_space localPart then []
                   else address)
        | _ \<Rightarrow> []))"

definition routesToCanonicalWorker :: "jsval \<Rightarrow> jstr \<Rightarrow> bool" where
  "routesToCanonicalWorker rule workerName \<longleftrightarrow>
     (case js_get rule (js ''actions'') of
        JArr [a] \<Rightarrow>
          (case asObject a of
             None \<Rightarrow> False
           | Some action \<Rightarrow> js_get action (js ''type'') = JStr (js ''worker'')
               \<and> (case js_get action (js ''value'') of
                    JArr [v] \<Rightarrow> js_string (js_or v (JStr [])) = workerName | _ \<Rightarrow> False))
      | _ \<Rightarrow> False)"

definition desire :: "env \<Rightarrow> jstr \<Rightarrow> jstr \<Rightarrow> (jstr \<times> bool) list \<Rightarrow> jsval \<Rightarrow> (jstr \<times> bool) list" where
  "desire E domain workerName desired rule =
     (let address = literalDomainAddress E rule domain in
      if address = [] then desired
      else put_key address ((case map_of desired address of None \<Rightarrow> False | Some b \<Rightarrow> b) \<or> routesToCanonicalWorker rule workerName) desired)"

definition desired_of :: "jstr \<times> bool \<Rightarrow> desired_mailbox" where
  "desired_of x = \<lparr> dm_address = fst x, dm_can_receive = snd x \<rparr>"

definition deriveRoutingMailboxPlan :: "env \<Rightarrow> jsval list \<Rightarrow> jstr \<Rightarrow> jstr \<Rightarrow> desired_mailbox list" where
  "deriveRoutingMailboxPlan E rules domain workerName =
     (let normalizedDomain = to_lower (uni (plat E)) (trim domain) in
      sort_by (\<lambda>a b. locale_less E (dm_address a) (dm_address b))
        (map desired_of (foldl (desire E normalizedDomain workerName) [] rules)))"

section \<open>Reading the rules\<close>

definition http_get :: "env \<Rightarrow> jstr \<Rightarrow> outcome action" where
  "http_get E url = (\<lambda>w. (Inr (network E (calls w) url JUndef), w\<lparr>calls := Suc (calls w), db_of := others E (calls w) (db_of w)\<rparr>))"

definition rules_url :: "jstr \<Rightarrow> nat \<Rightarrow> jstr" where
  "rules_url zoneId page =
     CLOUDFLARE_API @ js ''/zones/'' @ zoneId @ js ''/email/routing/rules?page='' @ nat_text page @ js ''&per_page='' @ nat_text ROUTING_PAGE_SIZE"

definition upstream_invalid :: "string \<Rightarrow> exn" where
  "upstream_invalid message = sync_error 502 message ''routing_sync_upstream_invalid''"

definition snapshot_changed :: exn where
  "snapshot_changed = sync_error 503 ''Cloudflare Email Routing changed while synchronization was running. Retry the sync.'' ''routing_sync_snapshot_changed''"

definition upstream_unavailable :: exn where
  "upstream_unavailable = sync_error 502 ''Cloudflare Email Routing is temporarily unavailable.'' ''routing_sync_upstream_failed''"

definition page_payload :: "env \<Rightarrow> http_reply \<Rightarrow> exn + jsval" where
  "page_payload E r =
     (if \<not> reply_ok r then
        Inl (if rp_status r = 401 \<or> rp_status r = 403
          then sync_error 503 ''Cloudflare Email Routing could not be read.'' ''routing_sync_permission_denied''
          else sync_error 502 ''Cloudflare Email Routing could not be read.'' ''routing_sync_upstream_failed'')
      else (case json_parse (num_text (plat E)) (rp_body r) of
          None \<Rightarrow> Inl (upstream_invalid ''Cloudflare Email Routing returned an invalid response.'')
        | Some JNull \<Rightarrow> Inl upstream_unavailable
        | Some payload \<Rightarrow>
            if js_get payload (js ''success'') \<noteq> JBool True \<or> (case js_get payload (js ''result'') of JArr _ \<Rightarrow> False | _ \<Rightarrow> True) then
              Inl (upstream_invalid ''Cloudflare Email Routing returned an incomplete response.'')
            else Inr payload))"

definition fetchRulesPage :: "env \<Rightarrow> jstr \<Rightarrow> nat \<Rightarrow> jsval action" where
  "fetchRulesPage E zoneId page =
     bindE (http_get E (rules_url zoneId page)) (\<lambda>out.
     case out of
       Timed_Out \<Rightarrow> throwE (sync_error 504 ''Cloudflare Email Routing synchronization timed out.'' ''routing_sync_timeout'')
     | Unreachable _ _ \<Rightarrow> throwE upstream_unavailable
     | Replied r \<Rightarrow> liftE (page_payload E r))"

text \<open>\<open>Number(v)\<close> as ECMAScript text, and the numbers that are integers.\<close>

fun number_text :: "env \<Rightarrow> jsval \<Rightarrow> jstr" where
  "number_text E JUndef = js ''NaN''"
| "number_text E JNull = js ''0''"
| "number_text E (JBool b) = js (if b then ''1'' else ''0'')"
| "number_text E (JNum t) = t"
| "number_text E (JStr s) = (let t = trim s in if t = [] then js ''0'' else number_value (num_text (plat E)) t)"
| "number_text E (JArr xs) =
     (let t = trim (js_string (JArr xs)) in if t = [] then js ''0'' else number_value (num_text (plat E)) t)"
| "number_text E (JObj _) = js ''NaN''"

definition whole_number :: "jstr \<Rightarrow> bool" where
  "whole_number t \<longleftrightarrow> (let ds = (if t \<noteq> [] \<and> hd t = 45 then tl t else t) in ds \<noteq> [] \<and> list_all is_digit ds) \<or> contains_text (js ''e+'') t"

definition nullish_or :: "jsval \<Rightarrow> jsval \<Rightarrow> jsval" where
  "nullish_or v d = (if v = JUndef \<or> v = JNull then d else v)"

record rules_state =
  rt_rules :: "jsval list"
  rt_seen :: "jstr list"
  rt_pages :: "nat option"
  rt_total :: "jstr option"

definition no_rules :: rules_state where
  "no_rules = \<lparr> rt_rules = [], rt_seen = [], rt_pages = None, rt_total = None \<rparr>"

text \<open>The number of pages the reply announces, which must be a page number from 1 to 100.\<close>

definition page_count :: "env \<Rightarrow> jsval \<Rightarrow> nat option" where
  "page_count E info =
     find (\<lambda>n. nat_text n = number_text E (nullish_or (js_get info (js ''total_pages'')) (JNum (js ''1'')))) [1..<Suc MAX_ROUTING_PAGES]"

definition inconsistent_pages :: exn where
  "inconsistent_pages = upstream_invalid ''Cloudflare Email Routing pagination is inconsistent.''"

definition note_total :: "env \<Rightarrow> jsval \<Rightarrow> rules_state \<Rightarrow> exn + rules_state" where
  "note_total E info st =
     (let v = js_get info (js ''total_count''); t = number_text E v in
      if v = JUndef \<or> v = JNull then Inr st
      else if \<not> whole_number t \<or> hd t = 45 then Inl inconsistent_pages
      else (case rt_total st of
          None \<Rightarrow> Inr (st\<lparr>rt_total := Some t\<rparr>)
        | Some expected \<Rightarrow> if t \<noteq> expected then Inl snapshot_changed else Inr st))"

fun add_rules :: "rules_state \<Rightarrow> jsval list \<Rightarrow> exn + rules_state" where
  "add_rules st [] = Inr st"
| "add_rules st (v # vs) =
     (case asObject v of
        None \<Rightarrow> Inl (upstream_invalid ''Cloudflare Email Routing returned an invalid rule.'')
      | Some rule \<Rightarrow>
          let i = (case js_get rule (js ''id'') of JStr t \<Rightarrow> t | _ \<Rightarrow> []) in
          if i \<noteq> [] \<and> i \<in> set (rt_seen st) then Inl snapshot_changed
          else add_rules (st\<lparr>rt_rules := rt_rules st @ [rule], rt_seen := (if i = [] then rt_seen st else i # rt_seen st)\<rparr>) vs)"

definition accept_page :: "env \<Rightarrow> nat \<Rightarrow> jsval \<Rightarrow> rules_state \<Rightarrow> exn + rules_state" where
  "accept_page E page payload st =
     (let info = js_or (js_get payload (js ''result_info'')) (JObj []);
          reportedPage = number_text E (nullish_or (js_get info (js ''page'')) (JNum (nat_text page))) in
      case page_count E info of
        None \<Rightarrow> Inl inconsistent_pages
      | Some totalPages \<Rightarrow>
          if reportedPage \<noteq> nat_text page then Inl inconsistent_pages
          else if (case rt_pages st of None \<Rightarrow> False | Some expected \<Rightarrow> totalPages \<noteq> expected) then Inl snapshot_changed
          else (case note_total E info (st\<lparr>rt_pages := Some totalPages\<rparr>) of
              Inl e \<Rightarrow> Inl e
            | Inr st' \<Rightarrow> add_rules st' (case js_get payload (js ''result'') of JArr vs \<Rightarrow> vs | _ \<Rightarrow> [])))"

text \<open>The loop over the pages, with a bound on the number of its rounds.\<close>

primrec fetch_pages :: "nat \<Rightarrow> env \<Rightarrow> jstr \<Rightarrow> nat \<Rightarrow> rules_state \<Rightarrow> rules_state action" where
  "fetch_pages 0 E zoneId page st = returnE st"
| "fetch_pages (Suc n) E zoneId page st =
     (if page \<le> (case rt_pages st of None \<Rightarrow> 1 | Some p \<Rightarrow> p) then
        bindE (fetchRulesPage E zoneId page) (\<lambda>payload.
        bindE (liftE (accept_page E page payload st)) (\<lambda>st'.
        fetch_pages n E zoneId (Suc page) st'))
      else returnE st)"

definition fetchAllRoutingRules :: "env \<Rightarrow> jstr \<Rightarrow> jsval list action" where
  "fetchAllRoutingRules E zoneId =
     bindE (fetch_pages (Suc MAX_ROUTING_PAGES) E zoneId 1 no_rules) (\<lambda>st.
     bindE (throw_if (case rt_total st of None \<Rightarrow> False | Some t \<Rightarrow> nat_text (length (rt_rules st)) \<noteq> t) snapshot_changed) (\<lambda>_.
     returnE (rt_rules st)))"

section \<open>Applying the plan\<close>

definition stableMailboxId :: "env \<Rightarrow> jstr \<Rightarrow> jstr" where
  "stableMailboxId E address =
     js ''route_'' @ take 24 (hex_text (sha256_digest (plat E) (utf8 (to_lower (uni (plat E)) address))))"

definition title_word :: "unicode \<Rightarrow> jstr \<Rightarrow> jstr" where
  "title_word U word = to_upper U (take 1 word) @ to_lower U (drop 1 word)"

definition displayName :: "env \<Rightarrow> jstr \<Rightarrow> jstr" where
  "displayName E address =
     (let localPart = takeWhile (\<lambda>c. c \<noteq> 64) address;
          parts = filter (\<lambda>t. t \<noteq> []) (split_runs js_space (trim (replace_runs (\<lambda>c. c \<in> {46, 95, 43, 45}) (js '' '') localPart))) in
      if parts = [] then js ''Mailbox''
      else join_text (js '' '') (map (title_word (uni (plat E))) parts) @ js '' Mailbox'')"

definition update_mailboxes :: "(mailbox \<Rightarrow> bool) \<Rightarrow> (mailbox \<Rightarrow> mailbox) \<Rightarrow> nat statement" where
  "update_mailboxes p f = constrained (\<lambda>d. (count_rows p (mailboxes d), d\<lparr>mailboxes := map_rows p f (mailboxes d)\<rparr>))"

definition insert_mailbox :: "mailbox \<Rightarrow> unit statement" where
  "insert_mailbox m = constrained (\<lambda>d. ((), d\<lparr>mailboxes := mailboxes d @ [m]\<rparr>))"

lemma preserves_mailboxes [preserves_intros]: "preserves db_ok (update_mailboxes p f)" "preserves db_ok (insert_mailbox m)"
  unfolding update_mailboxes_def insert_mailbox_def by (rule preserves_intros)+

definition by_address :: "env \<Rightarrow> mailbox list \<Rightarrow> jstr \<Rightarrow> mailbox option" where
  "by_address E rows = foldl (\<lambda>m row. let a = normalizeEmail (uni (plat E)) (JStr (mb_address row)) in if a = [] then m else m(a \<mapsto> row)) (\<lambda>_. None) rows"

definition routed :: "bool \<Rightarrow> jstr \<Rightarrow> mailbox \<Rightarrow> mailbox" where
  "routed canReceive ts m = m\<lparr>mb_can_receive := canReceive, mb_can_send := True, mb_active := True, mb_routing_managed := True, mb_updated_at := ts\<rparr>"

definition unrouted :: "jstr \<Rightarrow> mailbox \<Rightarrow> mailbox" where
  "unrouted ts m = m\<lparr>mb_can_receive := False, mb_can_send := False, mb_active := False, mb_updated_at := ts\<rparr>"

definition new_mailbox :: "env \<Rightarrow> desired_mailbox \<Rightarrow> jstr \<Rightarrow> mailbox" where
  "new_mailbox E item ts =
     \<lparr> mb_id = stableMailboxId E (dm_address item), mb_address = dm_address item, mb_display_name = displayName E (dm_address item),
       mb_can_receive = dm_can_receive item, mb_can_send = True, mb_active = True, mb_routing_managed = True,
       mb_created_at = ts, mb_updated_at = ts \<rparr>"

definition plan_statement :: "env \<Rightarrow> (jstr \<Rightarrow> mailbox option) \<Rightarrow> jstr \<Rightarrow> desired_mailbox \<Rightarrow> unit statement" where
  "plan_statement E known ts item =
     (case known (dm_address item) of
        Some m \<Rightarrow> void (update_mailboxes (\<lambda>x. mb_id x = mb_id m) (routed (dm_can_receive item) ts))
      | None \<Rightarrow> insert_mailbox (new_mailbox E item ts))"

definition to_change :: "mailbox \<Rightarrow> desired_mailbox \<Rightarrow> bool" where
  "to_change m item \<longleftrightarrow> mb_can_receive m \<noteq> dm_can_receive item \<or> \<not> mb_can_send m \<or> \<not> mb_active m \<or> \<not> mb_routing_managed m"

definition to_deactivate :: "env \<Rightarrow> desired_mailbox list \<Rightarrow> mailbox \<Rightarrow> bool" where
  "to_deactivate E plan m \<longleftrightarrow>
     mb_routing_managed m \<and> normalizeEmail (uni (plat E)) (JStr (mb_address m)) \<notin> set ([] # map dm_address plan)"

definition drop_statement :: "jstr \<Rightarrow> mailbox \<Rightarrow> unit statement" where
  "drop_statement ts m = void (update_mailboxes (\<lambda>x. mb_id x = mb_id m \<and> mb_routing_managed x) (unrouted ts))"

definition managed_rows :: "db \<Rightarrow> mailbox list" where
  "managed_rows d = sort_key (nocase \<circ> mb_address) (filter (\<lambda>m. mb_active m \<and> mb_routing_managed m) (mailboxes d))"

definition verified :: "env \<Rightarrow> desired_mailbox list \<Rightarrow> mailbox list \<Rightarrow> bool" where
  "verified E plan rows \<longleftrightarrow> length rows = length plan
     \<and> list_all (\<lambda>(m, item). normalizeEmail (uni (plat E)) (JStr (mb_address m)) = dm_address item
          \<and> mb_can_receive m = dm_can_receive item \<and> mb_can_send m) (zip rows plan)"

definition verify_failed :: exn where
  "verify_failed = sync_error 503 ''Routing mailbox synchronization did not pass its consistency check.'' ''routing_sync_verify_failed''"

record sync_counts =
  sc_inserted :: nat
  sc_changed :: nat
  sc_deactivated :: nat

definition plan_counts :: "env \<Rightarrow> (jstr \<Rightarrow> mailbox option) \<Rightarrow> mailbox list \<Rightarrow> desired_mailbox list \<Rightarrow> sync_counts" where
  "plan_counts E known rows plan =
     \<lparr> sc_inserted = count_rows (\<lambda>item. known (dm_address item) = None) plan,
       sc_changed = count_rows (\<lambda>item. case known (dm_address item) of None \<Rightarrow> False | Some m \<Rightarrow> to_change m item) plan,
       sc_deactivated = count_rows (to_deactivate E plan) rows \<rparr>"

definition applyRoutingPlan :: "env \<Rightarrow> desired_mailbox list \<Rightarrow> sync_counts action" where
  "applyRoutingPlan E plan =
     bindE (select E (\<lambda>d. sort_key (nocase \<circ> mb_address) (mailboxes d))) (\<lambda>rows.
     let known = by_address E rows in
     bindE (now E) (\<lambda>ts.
     let statements = map (plan_statement E known ts) plan @ map (drop_statement ts) (filter (to_deactivate E plan) rows) in
     bindE (catchE (if statements = [] then returnE () else batch E statements)
       (\<lambda>_. throwE (sync_error 503 ''Routing mailbox synchronization could not be committed.'' ''routing_sync_database_failed''))) (\<lambda>_.
     bindE (select E managed_rows) (\<lambda>actual.
     bindE (throw_if (\<not> verified E plan actual) verify_failed) (\<lambda>_.
     returnE (plan_counts E known rows plan))))))"

record sync_result =
  sr_synced_at :: jstr
  sr_route_count :: nat
  sr_counts :: sync_counts

definition performRoutingSync :: "env \<Rightarrow> sync_result action" where
  "performRoutingSync E =
     bindE (liftE (runtimeConfig E)) (\<lambda>config.
     bindE (fetchAllRoutingRules E (rc_zone config)) (\<lambda>rules.
     let plan = deriveRoutingMailboxPlan E rules (rc_domain config) (rc_worker config) in
     bindE (applyRoutingPlan E plan) (\<lambda>changes.
     bindE (now E) (\<lambda>ts.
     returnE \<lparr> sr_synced_at = ts, sr_route_count = length plan, sr_counts = changes \<rparr>))))"

lemma keeps_http_get [keeps_intros]: "stable E I \<Longrightarrow> keeps (\<lambda>w. I (db_of w)) (http_get E u)"
  by (simp add: keeps_def http_get_def stable_def)

lemma keeps_fetch [keeps_intros]:
  assumes "stable E I"
  shows "keeps (\<lambda>w. I (db_of w)) (fetchRulesPage E z p)" "keeps (\<lambda>w. I (db_of w)) (fetch_pages n E z p st)"
    "keeps (\<lambda>w. I (db_of w)) (fetchAllRoutingRules E z)"
proof -
  show page: "keeps (\<lambda>w. I (db_of w)) (fetchRulesPage E z p)" for p
    unfolding fetchRulesPage_def by (intro keeps_intros assms, simp split: outcome.split, intro conjI allI impI keeps_intros)
  show pages: "keeps (\<lambda>w. I (db_of w)) (fetch_pages n E z p st)" for n p st
    by (induction n arbitrary: p st) (auto intro!: keeps_intros page)
  show "keeps (\<lambda>w. I (db_of w)) (fetchAllRoutingRules E z)"
    unfolding fetchAllRoutingRules_def by (intro keeps_intros pages)
qed

lemma keeps_applyRoutingPlan [keeps_intros]: "stable E db_ok \<Longrightarrow> keeps (\<lambda>w. db_ok (db_of w)) (applyRoutingPlan E plan)"
  unfolding applyRoutingPlan_def Let_def
  by (intro keeps_intros) (auto simp: plan_statement_def drop_statement_def intro!: preserves_intros split: option.split)

lemma keeps_performRoutingSync [keeps_intros]: "stable E db_ok \<Longrightarrow> keeps (\<lambda>w. db_ok (db_of w)) (performRoutingSync E)"
  unfolding performRoutingSync_def Let_def by (intro keeps_intros)

section \<open>Sharing a running synchronisation\<close>

text \<open>
  \<open>routingSyncInFlight\<close>: the task that is running in this isolate, the callers that wait for a task, and what they
  were answered. Tasks are numbered in the order in which they start.
\<close>

record sharing =
  sh_running :: "nat option"
  sh_started :: nat
  sh_waiting :: "(nat \<times> nat) list"
  sh_answers :: "(nat \<times> nat \<times> (exn + sync_result)) list"

definition idle_sharing :: sharing where
  "idle_sharing = \<lparr> sh_running = None, sh_started = 0, sh_waiting = [], sh_answers = [] \<rparr>"

inductive sync_step :: "sharing \<Rightarrow> sharing \<Rightarrow> bool" where
  join: "sh_running s = Some t \<Longrightarrow> sync_step s (s\<lparr>sh_waiting := (caller, t) # sh_waiting s\<rparr>)"
| start: "sh_running s = None \<Longrightarrow>
    sync_step s (s\<lparr>sh_running := Some (sh_started s), sh_started := Suc (sh_started s), sh_waiting := (caller, sh_started s) # sh_waiting s\<rparr>)"
| settle: "sh_running s = Some t \<Longrightarrow>
    sync_step s (s\<lparr>sh_running := None, sh_waiting := filter (\<lambda>(c, u). u \<noteq> t) (sh_waiting s),
      sh_answers := map (\<lambda>(c, u). (c, u, r)) (filter (\<lambda>(c, u). u = t) (sh_waiting s)) @ sh_answers s\<rparr>)"

inductive_cases sync_stepE: "sync_step s s'"

text \<open>The synchronisation that a caller runs when no other is running.\<close>

definition syncRoutingMailboxes :: "env \<Rightarrow> sync_result action" where
  "syncRoutingMailboxes E = performRoutingSync E"

lemma keeps_syncRoutingMailboxes [keeps_intros]: "stable E db_ok \<Longrightarrow> keeps (\<lambda>w. db_ok (db_of w)) (syncRoutingMailboxes E)"
  unfolding syncRoutingMailboxes_def by (rule keeps_performRoutingSync)

end
