(* ===== verification/Routing.thy ===== *)
theory Routing
  imports Routing_Sync
begin

text \<open>
  What the synchronisation of the mailboxes guarantees: the plan is the set of literal addresses of the rules, the loop
  over the pages ends, a synchronisation that returns has left exactly the plan, and, because the check afterwards
  compares two different orders, some plans can never pass it.
\<close>

section \<open>The plan\<close>

definition wants :: "env \<Rightarrow> jstr \<Rightarrow> jsval list \<Rightarrow> jstr \<Rightarrow> bool" where
  "wants E domain rules a \<longleftrightarrow> a \<noteq> [] \<and> (\<exists>rule \<in> set rules. literalDomainAddress E rule domain = a)"

definition receives :: "env \<Rightarrow> jstr \<Rightarrow> jstr \<Rightarrow> jsval list \<Rightarrow> jstr \<Rightarrow> bool" where
  "receives E domain workerName rules a \<longleftrightarrow>
     (\<exists>rule \<in> set rules. literalDomainAddress E rule domain = a \<and> routesToCanonicalWorker rule workerName)"

lemma desire_fold:
  "map_of (foldl (desire E D W) [] rules) a = (if wants E D rules a then Some (receives E D W rules a) else None)
    \<and> distinct (map fst (foldl (desire E D W) [] rules))"
proof (induction rules arbitrary: a rule: rev_induct)
  case (snoc rule rules)
  let ?kvs = "foldl (desire E D W) [] rules" and ?l = "literalDomainAddress E rule D"
  have step: "foldl (desire E D W) [] (rules @ [rule]) = desire E D W ?kvs rule" by simp
  have wants: "wants E D (rules @ [rule]) a \<longleftrightarrow> wants E D rules a \<or> ?l = a \<and> a \<noteq> []" by (auto simp: wants_def)
  have receives: "receives E D W (rules @ [rule]) a \<longleftrightarrow> receives E D W rules a \<or> ?l = a \<and> routesToCanonicalWorker rule W"
    by (auto simp: receives_def)
  have none: "\<not> receives E D W rules a" if "\<not> wants E D rules a" "a \<noteq> []" using that by (auto simp: wants_def receives_def)
  have d: "distinct (map fst ?kvs)" using snoc by blast
  have m: "map_of ?kvs b = (if wants E D rules b then Some (receives E D W rules b) else None)" for b using snoc by blast
  show ?case
  proof (cases "?l = []")
    case True
    have "wants E D (rules @ [rule]) a = wants E D rules a" "wants E D rules a \<Longrightarrow> receives E D W (rules @ [rule]) a = receives E D W rules a"
      using True by (auto simp: wants receives wants_def)
    then show ?thesis unfolding step using True d m [of a] by (simp add: desire_def)
  next
    case False
    then have "desire E D W ?kvs rule = put_key ?l ((case map_of ?kvs ?l of None \<Rightarrow> False | Some b \<Rightarrow> b) \<or> routesToCanonicalWorker rule W) ?kvs"
      by (simp add: desire_def Let_def)
    then show ?thesis
      unfolding step using False d m none distinct_put_key [OF d]
      by (auto simp: map_of_put_key wants receives)
  qed
qed (simp add: wants_def)

text \<open>
  C21. The plan of a synchronisation is exactly what the routing rules say, whatever their order and their
  repetitions: one mailbox for each address of the domain that an enabled literal rule names, which receives if and only
  if one of its rules routes to this Worker; and the plan is sorted in the locale's order.
\<close>

theorem plan_is_the_rules:
  assumes "weak_order (locale_less E)"
  shows "set (deriveRoutingMailboxPlan E rules domain worker)
      = {\<lparr> dm_address = a, dm_can_receive = receives E (to_lower (uni (plat E)) (trim domain)) worker rules a \<rparr> | a.
           wants E (to_lower (uni (plat E)) (trim domain)) rules a}
    \<and> distinct (map dm_address (deriveRoutingMailboxPlan E rules domain worker))
    \<and> sorted_wrt (\<lambda>x y. \<not> locale_less E (dm_address y) (dm_address x)) (deriveRoutingMailboxPlan E rules domain worker)"
proof -
  let ?D = "to_lower (uni (plat E)) (trim domain)"
  let ?kvs = "foldl (desire E ?D worker) [] rules"
  let ?before = "\<lambda>a b. locale_less E (dm_address a) (dm_address b)"
  have plan: "deriveRoutingMailboxPlan E rules domain worker = sort_by ?before (map desired_of ?kvs)"
    by (simp add: deriveRoutingMailboxPlan_def Let_def)
  have d: "distinct (map fst ?kvs)" using desire_fold by blast
  have kvs: "(a, b) \<in> set ?kvs \<longleftrightarrow> wants E ?D rules a \<and> b = receives E ?D worker rules a" for a b
  proof -
    have "(a, b) \<in> set ?kvs \<longleftrightarrow> map_of ?kvs a = Some b" using map_of_eq_Some_iff [OF d, of a b] by blast
    then show ?thesis using desire_fold [of E ?D worker rules a] by (simp split: if_splits) blast
  qed
  have addresses: "map dm_address (map desired_of ?kvs) = map fst ?kvs" by (simp add: desired_of_def)
  have "weak_order ?before" using assms unfolding weak_order_def by blast
  from sorted_sort_by [OF this] have "sorted_wrt (\<lambda>x y. \<not> ?before y x) (deriveRoutingMailboxPlan E rules domain worker)"
    unfolding plan .
  moreover have "distinct (map dm_address (deriveRoutingMailboxPlan E rules domain worker))"
    unfolding plan distinct_sort_by addresses by (rule d)
  moreover have "set (deriveRoutingMailboxPlan E rules domain worker) = desired_of ` set ?kvs" by (simp add: plan)
  then have "set (deriveRoutingMailboxPlan E rules domain worker)
      = {\<lparr> dm_address = a, dm_can_receive = receives E ?D worker rules a \<rparr> | a. wants E ?D rules a}"
  proof -
    assume "set (deriveRoutingMailboxPlan E rules domain worker) = desired_of ` set ?kvs"
    also have "\<dots> = {desired_of (a, b) | a b. (a, b) \<in> set ?kvs}" by auto
    also have "\<dots> = {\<lparr> dm_address = a, dm_can_receive = receives E ?D worker rules a \<rparr> | a. wants E ?D rules a}"
      unfolding kvs desired_of_def by auto
    finally show ?thesis .
  qed
  ultimately show ?thesis by blast
qed

section \<open>The pages\<close>

lemma page_count_bound: "page_count E info = Some p \<Longrightarrow> p \<le> MAX_ROUTING_PAGES"
  by (auto simp: page_count_def find_Some_iff MAX_ROUTING_PAGES_def)

lemma add_rules_pages: "add_rules st vs = Inr st' \<Longrightarrow> rt_pages st' = rt_pages st"
  by (induction st vs rule: add_rules.induct) (auto simp: Let_def split: option.splits if_splits)

lemma note_total_pages: "note_total E info st = Inr st' \<Longrightarrow> rt_pages st' = rt_pages st"
  by (auto simp: note_total_def Let_def split: if_splits option.splits)

lemma accept_page_pages:
  assumes "accept_page E page payload st = Inr st'"
  obtains p where "rt_pages st' = Some p" "p \<le> MAX_ROUTING_PAGES" "rt_pages st = None \<or> rt_pages st = Some p"
  using assms
  by (auto simp: accept_page_def Let_def dest!: add_rules_pages note_total_pages page_count_bound split: option.splits if_splits sum.splits)

lemma bind_accept_cong:
  "(\<And>st'. accept_page E page payload st = Inr st' \<Longrightarrow> f st' = g st') \<Longrightarrow>
    bindE (liftE (accept_page E page payload st)) f = bindE (liftE (accept_page E page payload st)) g"
  by (auto simp: bindE_def liftE_def split: sum.split)

lemma fetch_pages_known:
  assumes "rt_pages st = Some p" "p < page + n"
  shows "fetch_pages (n + k) E z page st = fetch_pages n E z page st"
  using assms
proof (induction n arbitrary: page st)
  case 0
  then show ?case by (cases k) simp_all
next
  case (Suc n)
  have "fetch_pages (n + k) E z (Suc page) st' = fetch_pages n E z (Suc page) st'" if accepted: "accept_page E page payload st = Inr st'" for payload st'
  proof (rule Suc.IH)
    show "rt_pages st' = Some p" using accept_page_pages [OF accepted] Suc.prems(1) by auto
    show "p < Suc page + n" using Suc.prems(2) by simp
  qed
  then have "bindE (liftE (accept_page E page payload st)) (\<lambda>st'. fetch_pages (n + k) E z (Suc page) st')
      = bindE (liftE (accept_page E page payload st)) (\<lambda>st'. fetch_pages n E z (Suc page) st')" for payload
    by (rule bind_accept_cong)
  then show ?case by simp
qed

text \<open>
  Reading the rules ends: however the pages of the replies are numbered, the bound of 101 rounds is never
  what stops the loop, because the first reply fixes a number of pages of at most 100. So any larger bound gives the same
  run, with the same calls and the same outcome.
\<close>

theorem page_loop_ends:
  "fetch_pages (Suc MAX_ROUTING_PAGES + k) E zoneId 1 no_rules = fetch_pages (Suc MAX_ROUTING_PAGES) E zoneId 1 no_rules"
proof -
  have "fetch_pages (MAX_ROUTING_PAGES + k) E zoneId 2 st' = fetch_pages MAX_ROUTING_PAGES E zoneId 2 st'"
    if accepted: "accept_page E 1 payload no_rules = Inr st'" for payload st'
  proof -
    obtain p where "rt_pages st' = Some p" "p \<le> MAX_ROUTING_PAGES" using accept_page_pages [OF accepted] by blast
    then show ?thesis by (intro fetch_pages_known [where p = p]) linarith+
  qed
  then have "bindE (liftE (accept_page E 1 payload no_rules)) (\<lambda>st'. fetch_pages (MAX_ROUTING_PAGES + k) E zoneId 2 st')
      = bindE (liftE (accept_page E 1 payload no_rules)) (\<lambda>st'. fetch_pages MAX_ROUTING_PAGES E zoneId 2 st')" for payload
    by (rule bind_accept_cong)
  then show ?thesis by (simp add: numeral_2_eq_2 no_rules_def)
qed

section \<open>Applying a plan\<close>

lemma by_address_Some:
  "by_address E rows a = Some m \<Longrightarrow> m \<in> set rows \<and> normalizeEmail (uni (plat E)) (JStr (mb_address m)) = a"
proof (induction rows rule: rev_induct)
  case (snoc x xs)
  then show ?case by (auto simp: by_address_def Let_def split: if_splits)
qed (simp add: by_address_def)

text \<open>A mailbox that a plan does not touch: it is not managed, and its address is not in the plan.\<close>

definition untouched :: "env \<Rightarrow> desired_mailbox list \<Rightarrow> mailbox \<Rightarrow> bool" where
  "untouched E plan m \<longleftrightarrow> \<not> mb_routing_managed m \<and> normalizeEmail (uni (plat E)) (JStr (mb_address m)) \<notin> dm_address ` set plan"

definition only_mailboxes :: "env \<Rightarrow> desired_mailbox list \<Rightarrow> db \<Rightarrow> db \<Rightarrow> bool" where
  "only_mailboxes E plan d0 d \<longleftrightarrow> d = d0\<lparr>mailboxes := mailboxes d\<rparr> \<and> {m \<in> set (mailboxes d0). untouched E plan m} \<subseteq> set (mailboxes d)"

lemma only_mailboxes_edit:
  assumes "only_mailboxes E plan d0 d" "{m \<in> set (mailboxes d0). untouched E plan m} \<inter> set (mailboxes d) \<subseteq> set ms"
  shows "only_mailboxes E plan d0 (d\<lparr>mailboxes := ms\<rparr>)"
proof -
  have d: "d = d0\<lparr>mailboxes := mailboxes d\<rparr>" and sub: "{m \<in> set (mailboxes d0). untouched E plan m} \<subseteq> set (mailboxes d)"
    using assms(1) unfolding only_mailboxes_def by blast+
  have "d\<lparr>mailboxes := ms\<rparr> = d0\<lparr>mailboxes := ms\<rparr>" by (subst d) simp
  moreover have "{m \<in> set (mailboxes d0). untouched E plan m} \<subseteq> set ms" using sub assms(2) by blast
  ultimately show ?thesis by (simp add: only_mailboxes_def)
qed

lemma update_untouched:
  assumes "\<And>x. x \<in> set (mailboxes d0) \<Longrightarrow> untouched E plan x \<Longrightarrow> \<not> p x"
  shows "preserves (only_mailboxes E plan d0) (void (update_mailboxes p f))"
proof (rule preserves_void)
  have "{m \<in> set (mailboxes d0). untouched E plan m} \<inter> set (mailboxes d) \<subseteq> set (map_rows p f (mailboxes d))" for d
    using assms unfolding set_map_rows by force
  then have "only_mailboxes E plan d0 (d\<lparr>mailboxes := map_rows p f (mailboxes d)\<rparr>)" if "only_mailboxes E plan d0 d" for d
    using only_mailboxes_edit [OF that] by blast
  then show "preserves (only_mailboxes E plan d0) (update_mailboxes p f)"
    unfolding update_mailboxes_def by (intro preserves_constrained_frame) simp
qed

lemma statements_untouched:
  assumes "db_ok d0" "s \<in> set (map (plan_statement E (by_address E rows) ts) plan @ map (drop_statement ts) gone)" "set rows = set (mailboxes d0)"
  shows "preserves (only_mailboxes E plan d0) s"
proof -
  have ids: "x = y" if "x \<in> set (mailboxes d0)" "y \<in> set (mailboxes d0)" "mb_id x = mb_id y" for x y
    using assms(1) that unfolding db_ok_def rows_ok_def by (meson distinct_map inj_onD)
  consider item where "item \<in> set plan" "s = plan_statement E (by_address E rows) ts item" | m where "s = drop_statement ts m"
    using assms(2) by auto
  then show ?thesis
  proof cases
    case 1
    show ?thesis
    proof (cases "by_address E rows (dm_address item)")
      case None
      have "preserves (only_mailboxes E plan d0) (insert_mailbox (new_mailbox E item ts))"
        unfolding insert_mailbox_def by (intro preserves_constrained_frame) (auto intro: only_mailboxes_edit)
      with None 1 show ?thesis by (simp add: plan_statement_def)
    next
      case (Some m)
      from by_address_Some [OF Some] assms(3) have m: "m \<in> set (mailboxes d0)" "\<not> untouched E plan m"
        using 1(1) by (auto simp: untouched_def)
      have "preserves (only_mailboxes E plan d0) (void (update_mailboxes (\<lambda>x. mb_id x = mb_id m) (routed (dm_can_receive item) ts)))"
        by (rule update_untouched) (use ids m in blast)
      with Some 1 show ?thesis by (simp add: plan_statement_def)
    qed
  next
    case 2
    then show ?thesis unfolding drop_statement_def by (auto intro: update_untouched simp: untouched_def)
  qed
qed

definition plan_statements :: "env \<Rightarrow> desired_mailbox list \<Rightarrow> mailbox list \<Rightarrow> jstr \<Rightarrow> unit statement list" where
  "plan_statements E plan rows ts =
     map (plan_statement E (by_address E rows) ts) plan @ map (drop_statement ts) (filter (to_deactivate E plan) rows)"

lemma apply_keeps:
  assumes "quiet E" "I (db_of w)"
    "\<And>ts s. s \<in> set (plan_statements E plan (sort_key (nocase \<circ> mb_address) (mailboxes (db_of w))) ts) \<Longrightarrow> preserves I s"
    and run: "applyRoutingPlan E plan w = (Inr c, w')"
  shows "I (db_of w') \<and> verified E plan (managed_rows (db_of w'))"
proof -
  obtain rows w1 where rows: "select E (\<lambda>d. sort_key (nocase \<circ> mb_address) (mailboxes d)) w = (Inr rows, w1)"
    and rest: "bindE (now E) (\<lambda>ts. bindE (catchE (if plan_statements E plan rows ts = [] then returnE () else batch E (plan_statements E plan rows ts))
       (\<lambda>_. throwE (sync_error 503 ''Routing mailbox synchronization could not be committed.'' ''routing_sync_database_failed''))) (\<lambda>_.
     bindE (select E managed_rows) (\<lambda>actual.
     bindE (throw_if (\<not> verified E plan actual) verify_failed) (\<lambda>_. returnE (plan_counts E (by_address E rows) rows plan))))) w1 = (Inr c, w')"
    using run unfolding applyRoutingPlan_def Let_def plan_statements_def by (rule bindE_InrE)
  from select_step [OF assms(1) rows] have r: "rows = sort_key (nocase \<circ> mb_address) (mailboxes (db_of w))" and d: "db_of w1 = db_of w"
    by simp_all
  have keep: "keeps (\<lambda>w. I (db_of w)) (catchE (if plan_statements E plan rows ts = [] then returnE () else batch E (plan_statements E plan rows ts))
       (\<lambda>_. throwE (sync_error 503 ''Routing mailbox synchronization could not be committed.'' ''routing_sync_database_failed'')))" for ts
    using assms(3) by (intro keeps_intros quiet_stable assms(1)) (simp add: r)
  obtain ts w1' where clock: "now E w1 = (Inr ts, w1')" and commit: "bindE (catchE (if plan_statements E plan rows ts = [] then returnE () else batch E (plan_statements E plan rows ts))
       (\<lambda>_. throwE (sync_error 503 ''Routing mailbox synchronization could not be committed.'' ''routing_sync_database_failed''))) (\<lambda>_.
     bindE (select E managed_rows) (\<lambda>actual.
     bindE (throw_if (\<not> verified E plan actual) verify_failed) (\<lambda>_. returnE (plan_counts E (by_address E rows) rows plan)))) w1' = (Inr c, w')"
    using rest by (rule bindE_InrE)
  from commit obtain u w2 where
    batch: "catchE (if plan_statements E plan rows ts = [] then returnE () else batch E (plan_statements E plan rows ts))
       (\<lambda>_. throwE (sync_error 503 ''Routing mailbox synchronization could not be committed.'' ''routing_sync_database_failed'')) w1' = (Inr u, w2)"
    and after: "bindE (select E managed_rows) (\<lambda>actual.
     bindE (throw_if (\<not> verified E plan actual) verify_failed) (\<lambda>_. returnE (plan_counts E (by_address E rows) rows plan))) w2 = (Inr c, w')"
    by (rule bindE_InrE)
  from after obtain actual w3 where check: "select E managed_rows w2 = (Inr actual, w3)"
    and final: "bindE (throw_if (\<not> verified E plan actual) verify_failed) (\<lambda>_. returnE (plan_counts E (by_address E rows) rows plan)) w3 = (Inr c, w')"
    by (rule bindE_InrE)
  have "I (db_of w2)" using keepsD [OF keep _ batch] assms(2) d clock by simp
  moreover have "actual = managed_rows (db_of w2)" "db_of w3 = db_of w2" using select_step [OF assms(1) check] by simp_all
  moreover have "verified E plan actual" "w' = w3" using final by (auto elim!: bindE_InrE)
  ultimately show ?thesis by simp
qed

lemma verified_rows:
  "verified E plan rows \<longleftrightarrow> map (\<lambda>m. (normalizeEmail (uni (plat E)) (JStr (mb_address m)), mb_can_receive m, mb_can_send m)) rows
     = map (\<lambda>item. (dm_address item, dm_can_receive item, True)) plan"
  by (auto simp: verified_def list_eq_iff_nth_eq list_all_length)

text \<open>
  C20. A synchronisation that answers has done its work: the active managed mailboxes are those of the plan, one by one
  with their permission to receive, and all of them may send. It wrote no other table, and a mailbox that the rules do not
  manage and do not name is as it was.
\<close>

theorem sync_leaves_plan:
  assumes "quiet E" "db_ok (db_of w)" "applyRoutingPlan E plan w = (Inr c, w')"
  shows "map (\<lambda>m. (normalizeEmail (uni (plat E)) (JStr (mb_address m)), mb_can_receive m, mb_can_send m)) (managed_rows (db_of w'))
       = map (\<lambda>item. (dm_address item, dm_can_receive item, True)) plan
    \<and> db_of w' = (db_of w)\<lparr>mailboxes := mailboxes (db_of w')\<rparr>
    \<and> (\<forall>m \<in> set (mailboxes (db_of w)). untouched E plan m \<longrightarrow> m \<in> set (mailboxes (db_of w')))"
proof -
  have "only_mailboxes E plan (db_of w) (db_of w') \<and> verified E plan (managed_rows (db_of w'))"
  proof (rule apply_keeps [OF assms(1) _ _ assms(3)])
    show "only_mailboxes E plan (db_of w) (db_of w)" by (simp add: only_mailboxes_def)
    show "preserves (only_mailboxes E plan (db_of w)) s"
      if "s \<in> set (plan_statements E plan (sort_key (nocase \<circ> mb_address) (mailboxes (db_of w))) ts)" for ts s
      by (rule statements_untouched [OF assms(2) that [unfolded plan_statements_def]]) simp
  qed
  then show ?thesis unfolding only_mailboxes_def verified_rows by blast
qed

section \<open>The check that cannot pass\<close>

text \<open>Every address is stored in the form that \<open>normalizeEmail\<close> gives it.\<close>

definition plain_addresses :: "env \<Rightarrow> db \<Rightarrow> bool" where
  "plain_addresses E d \<longleftrightarrow> (\<forall>m \<in> set (mailboxes d). normalizeEmail (uni (plat E)) (JStr (mb_address m)) = mb_address m)"

lemma statements_plain:
  assumes "s \<in> set (plan_statements E plan rows ts)"
    "\<forall>item \<in> set plan. normalizeEmail (uni (plat E)) (JStr (dm_address item)) = dm_address item"
  shows "preserves (plain_addresses E) s"
proof -
  have update: "preserves (plain_addresses E) (void (update_mailboxes p f))" if "\<And>x. mb_address (f x) = mb_address x" for p f
    unfolding update_mailboxes_def
    by (intro preserves_void preserves_constrained_frame) (auto simp: plain_addresses_def in_map_rows that)
  have insert: "preserves (plain_addresses E) (insert_mailbox m)" if "normalizeEmail (uni (plat E)) (JStr (mb_address m)) = mb_address m" for m
    unfolding insert_mailbox_def by (intro preserves_constrained_frame) (use that in \<open>auto simp: plain_addresses_def\<close>)
  show ?thesis
    using assms
    by (auto simp: plan_statements_def plan_statement_def drop_statement_def new_mailbox_def routed_def unrouted_def
        intro!: update insert split: option.split)
qed

text \<open>
  C39. The check after the batch compares the plan, which is in the order of \<open>localeCompare\<close>, with the rows in the
  order of SQLite's \<open>NOCASE\<close>. When the two orders differ on two addresses of the plan, the synchronisation
  reports a failure every time, although the batch was committed. The addresses \<open>info@\<close> and \<open>info2@\<close> of one domain
  are such a pair: a digit comes before the at sign in \<open>NOCASE\<close>, and after it in the locale's order.
\<close>

theorem sync_never_passes:
  assumes "quiet E" "plain_addresses E (db_of w)"
    "\<forall>item \<in> set plan. normalizeEmail (uni (plat E)) (JStr (dm_address item)) = dm_address item"
    "i < j" "j < length plan" "nocase (dm_address (plan ! j)) < nocase (dm_address (plan ! i))"
  shows "fst (applyRoutingPlan E plan w) \<noteq> Inr c"
proof
  assume "fst (applyRoutingPlan E plan w) = Inr c"
  then obtain w' where run: "applyRoutingPlan E plan w = (Inr c, w')" by (metis prod.collapse)
  have "plain_addresses E (db_of w') \<and> verified E plan (managed_rows (db_of w'))"
    by (rule apply_keeps [OF assms(1,2) statements_plain [OF _ assms(3)] run])
  then have plain: "plain_addresses E (db_of w')" and ver: "verified E plan (managed_rows (db_of w'))" by simp_all
  let ?rows = "managed_rows (db_of w')"
  have len: "length ?rows = length plan" using ver by (simp add: verified_def)
  have same: "dm_address (plan ! k) = mb_address (?rows ! k)" if k: "k < length plan" for k
  proof -
    have "?rows ! k \<in> set (mailboxes (db_of w'))" using k len nth_mem [of k ?rows] by (simp add: managed_rows_def)
    moreover have "normalizeEmail (uni (plat E)) (JStr (mb_address (?rows ! k))) = dm_address (plan ! k)"
      using ver k len by (auto simp: verified_def list_all_length)
    ultimately show ?thesis using plain by (simp add: plain_addresses_def)
  qed
  have "sorted (map (nocase \<circ> mb_address) ?rows)" unfolding managed_rows_def by (rule sorted_sort_key)
  then have "nocase (mb_address (?rows ! i)) \<le> nocase (mb_address (?rows ! j))"
    using sorted_nth_mono [of "map (nocase \<circ> mb_address) ?rows" i j] assms(4,5) len by simp
  then show False using assms(4-6) same by simp
qed

section \<open>One synchronisation at a time\<close>

definition answered :: "sharing \<Rightarrow> nat \<Rightarrow> (exn + sync_result) \<Rightarrow> bool" where
  "answered s t r \<longleftrightarrow> (t, r) \<in> snd ` set (sh_answers s)"

definition sharing_ok :: "sharing \<Rightarrow> bool" where
  "sharing_ok s \<longleftrightarrow> (\<forall>t. sh_running s = Some t \<longrightarrow> Suc t = sh_started s) \<and> (\<forall>t \<in> snd ` set (sh_waiting s). sh_running s = Some t)
     \<and> (\<forall>t r. answered s t r \<longrightarrow> t < sh_started s \<and> sh_running s \<noteq> Some t) \<and> (\<forall>t r r'. answered s t r \<longrightarrow> answered s t r' \<longrightarrow> r' = r)"

lemma sharing_step: "sync_step s s' \<Longrightarrow> sharing_ok s \<Longrightarrow> sharing_ok s'"
proof (induction rule: sync_step.induct)
  case (settle s t r)
  let ?s' = "s\<lparr>sh_running := None, sh_waiting := filter (\<lambda>(c, u). u \<noteq> t) (sh_waiting s),
      sh_answers := map (\<lambda>(c, u). (c, u, r)) (filter (\<lambda>(c, u). u = t) (sh_waiting s)) @ sh_answers s\<rparr>"
  have waiting: "\<forall>u \<in> snd ` set (sh_waiting s). u = t" and fresh: "\<forall>u q. answered s u q \<longrightarrow> u < sh_started s \<and> u \<noteq> t"
    and same: "\<forall>u q q'. answered s u q \<longrightarrow> answered s u q' \<longrightarrow> q' = q" and last: "Suc t = sh_started s"
    using settle unfolding sharing_ok_def by auto
  have new: "answered s u q \<or> u = t \<and> q = r" if "answered ?s' u q" for u q
    using that by (auto simp: answered_def)
  have "\<forall>u q. answered ?s' u q \<longrightarrow> u < sh_started s" using new fresh last by (metis lessI)
  moreover have "\<forall>u q q'. answered ?s' u q \<longrightarrow> answered ?s' u q' \<longrightarrow> q' = q" using new fresh same by metis
  moreover have "snd ` set (sh_waiting ?s') = {}" using waiting by auto
  ultimately show ?case unfolding sharing_ok_def by simp
next
  case (start s caller)
  let ?s' = "s\<lparr>sh_running := Some (sh_started s), sh_started := Suc (sh_started s), sh_waiting := (caller, sh_started s) # sh_waiting s\<rparr>"
  have waiting: "sh_waiting s = []" and fresh: "\<forall>u q. answered s u q \<longrightarrow> u < sh_started s"
    and same: "\<forall>u q q'. answered s u q \<longrightarrow> answered s u q' \<longrightarrow> q' = q"
    using start unfolding sharing_ok_def by auto
  have "answered ?s' u q = answered s u q" for u q by (simp add: answered_def)
  then show ?case unfolding sharing_ok_def using waiting fresh same by (auto intro: less_SucI)
next
  case (join s t caller)
  then show ?case by (auto simp: sharing_ok_def answered_def)
qed

text \<open>
  However calls arrive and tasks end, at most one synchronisation runs in an isolate, it is the last one that
  was started, every caller that waits is waiting for it, and all the callers of one task get the same answer.
\<close>

theorem one_sync_at_a_time:
  assumes "sync_step\<^sup>*\<^sup>* idle_sharing s"
  shows "(\<forall>t. sh_running s = Some t \<longrightarrow> Suc t = sh_started s) \<and> (\<forall>c t. (c, t) \<in> set (sh_waiting s) \<longrightarrow> sh_running s = Some t)
    \<and> (\<forall>c c' t r r'. (c, t, r) \<in> set (sh_answers s) \<longrightarrow> (c', t, r') \<in> set (sh_answers s) \<longrightarrow> r' = r)"
proof -
  have "sharing_ok s"
    using assms
  proof (induction rule: rtranclp_induct)
    case base
    show ?case by (simp add: sharing_ok_def answered_def idle_sharing_def)
  next
    case (step s s')
    then show ?case using sharing_step by blast
  qed
  then have ok: "\<forall>t. sh_running s = Some t \<longrightarrow> Suc t = sh_started s" "\<forall>t \<in> snd ` set (sh_waiting s). sh_running s = Some t"
    "\<forall>t r r'. answered s t r \<longrightarrow> answered s t r' \<longrightarrow> r' = r"
    unfolding sharing_ok_def by blast+
  have "answered s t r" if "(c, t, r) \<in> set (sh_answers s)" for c t r using that by (force simp: answered_def)
  then have "\<forall>c c' t r r'. (c, t, r) \<in> set (sh_answers s) \<longrightarrow> (c', t, r') \<in> set (sh_answers s) \<longrightarrow> r' = r" using ok(3) by blast
  moreover have "\<forall>c t. (c, t) \<in> set (sh_waiting s) \<longrightarrow> sh_running s = Some t" using ok(2) by force
  ultimately show ?thesis using ok(1) by blast
qed

section \<open>Examples\<close>

definition example_rule :: "string \<Rightarrow> jsval" where
  "example_rule address = obj [(''enabled'', JBool True),
     (''matchers'', JArr [obj [(''type'', JStr (js ''literal'')), (''field'', JStr (js ''to'')), (''value'', JStr (js address))]]),
     (''actions'', JArr [obj [(''type'', JStr (js ''worker'')), (''value'', JArr [JStr (js ''mail'')])]])]"

definition example_item :: "string \<Rightarrow> desired_mailbox" where
  "example_item address = \<lparr> dm_address = js address, dm_can_receive = True \<rparr>"

theorem plan_is_the_rules_witness:
  "weak_order (locale_less example_env)
    \<and> distinct (map dm_address (deriveRoutingMailboxPlan example_env [example_rule ''info@m.example'', example_rule ''info@m.example''] (js ''m.example'') (js ''mail'')))
    \<and> deriveRoutingMailboxPlan example_env [example_rule ''info@m.example'', example_rule ''info@m.example''] (js ''m.example'') (js ''mail'')
       = [example_item ''info@m.example'']"
proof -
  have o: "weak_order (locale_less example_env)" by (auto simp: weak_order_def example_env_def)
  have "deriveRoutingMailboxPlan example_env [example_rule ''info@m.example'', example_rule ''info@m.example''] (js ''m.example'') (js ''mail'')
       = [example_item ''info@m.example'']" by code_simp
  with o plan_is_the_rules [OF o] show ?thesis by blast
qed

theorem sync_leaves_plan_witness:
  "\<exists>c w'. applyRoutingPlan example_env [example_item ''info@m.example''] (start_world empty_db) = (Inr c, w')
     \<and> map (\<lambda>m. (normalizeEmail (uni (plat example_env)) (JStr (mb_address m)), mb_can_receive m, mb_can_send m)) (managed_rows (db_of w'))
       = [(js ''info@m.example'', True, True)]"
proof -
  let ?m = "\<lambda>ts. new_mailbox example_env (example_item ''info@m.example'') ts"
  have ok: "db_ok (empty_db\<lparr>mailboxes := [?m ts]\<rparr>)" for ts by (simp add: db_ok_defs empty_db_def)
  have address: "normalizeEmail (uni (plat example_env)) (JStr (js ''info@m.example'')) = js ''info@m.example''" by code_simp
  have rows: "managed_rows (empty_db\<lparr>mailboxes := [?m ts]\<rparr>) = [?m ts]" for ts by (simp add: managed_rows_def new_mailbox_def)
  have "verified example_env [example_item ''info@m.example''] [?m ts]" for ts
    by (simp add: verified_def new_mailbox_def example_item_def address)
  then have "\<exists>c w'. applyRoutingPlan example_env [example_item ''info@m.example''] (start_world empty_db) = (Inr c, w')"
    using ok rows
    by (simp add: applyRoutingPlan_def act_simps select_quiet Let_def plan_statement_def by_address_def insert_mailbox_def batch_def
        external_quiet transaction_def constrained_def empty_db_def)
  then obtain c w' where run: "applyRoutingPlan example_env [example_item ''info@m.example''] (start_world empty_db) = (Inr c, w')" by blast
  have "db_ok (db_of (start_world empty_db))" by (simp add: db_ok_defs empty_db_def)
  from sync_leaves_plan [OF example_env_ok(1) this run] run show ?thesis by (auto simp: example_item_def)
qed

theorem sync_never_passes_witness:
  "\<nexists>c. fst (applyRoutingPlan example_env [example_item ''info@m.example'', example_item ''info2@m.example''] (start_world empty_db)) = Inr c"
proof -
  have "\<forall>item \<in> set [example_item ''info@m.example'', example_item ''info2@m.example''].
      normalizeEmail (uni (plat example_env)) (JStr (dm_address item)) = dm_address item" by code_simp
  moreover have "nocase (js ''info2@m.example'') < nocase (js ''info@m.example'')" by code_simp
  ultimately show ?thesis
    using sync_never_passes [of example_env "start_world empty_db" "[example_item ''info@m.example'', example_item ''info2@m.example'']" 0 1]
    by (auto simp: plain_addresses_def empty_db_def example_item_def)
qed

theorem one_sync_at_a_time_witness:
  "\<exists>s. sync_step\<^sup>*\<^sup>* idle_sharing s \<and> sh_answers s = [(2, 0, Inl verify_failed), (1, 0, Inl verify_failed)]
     \<and> (\<forall>t. sh_running s = Some t \<longrightarrow> Suc t = sh_started s)"
proof -
  let ?s1 = "idle_sharing\<lparr>sh_running := Some 0, sh_started := 1, sh_waiting := [(1, 0)]\<rparr>"
  let ?s2 = "?s1\<lparr>sh_waiting := [(2, 0), (1, 0)]\<rparr>"
  let ?s3 = "?s2\<lparr>sh_running := None, sh_waiting := [], sh_answers := [(2, 0, Inl verify_failed), (1, 0, Inl verify_failed)]\<rparr>"
  have "sync_step idle_sharing ?s1" using sync_step.start [of idle_sharing 1] by (simp add: idle_sharing_def)
  moreover have "sync_step ?s1 ?s2" using sync_step.join [of ?s1 0 2] by simp
  moreover have "sync_step ?s2 ?s3" using sync_step.settle [of ?s2 0 "Inl verify_failed"] by (simp add: idle_sharing_def)
  ultimately have r: "sync_step\<^sup>*\<^sup>* idle_sharing ?s3" by (meson rtranclp.rtrancl_into_rtrancl rtranclp.rtrancl_refl)
  from one_sync_at_a_time [OF r] r show ?thesis by (intro exI [of _ ?s3]) simp
qed

end
