(* ===== verification/Status.thy ===== *)
theory Status
  imports Routing
begin

text \<open>
  The status pages (\<open>src/src/mail/status.ts\<close>): the state of the mailboxes that routing manages, the
  configuration of the deployment, and the public health check. The R2 binding of the deployment is
  always present here.
\<close>

section \<open>Routing status\<close>

text \<open>
  SQLite's \<open>datetime(t)\<close> on the timestamps of the tables, which are those of \<open>toISOString\<close> or of
  \<open>datetime('now')\<close>.
\<close>

definition sql_datetime :: "jstr \<Rightarrow> jstr option" where
  "sql_datetime t =
     (if date_parse (\<lambda>_. None) t \<noteq> None then Some (take 10 t @ js '' '' @ take 8 (drop 11 t))
      else if length t = 19 \<and> date_parse (\<lambda>_. None) (take 10 t @ js ''T'' @ drop 11 t @ js ''.000Z'') \<noteq> None then Some t
      else None)"

fun max_text :: "jstr list \<Rightarrow> jstr option" where
  "max_text [] = None"
| "max_text (t # ts) = (case max_text ts of None \<Rightarrow> Some t | Some u \<Rightarrow> Some (max t u))"

definition last_synced :: "db \<Rightarrow> jstr option" where
  "last_synced d = max_text (List.map_filter (sql_datetime \<circ> mb_updated_at) (filter (\<lambda>m. mb_routing_managed m \<and> mb_active m) (mailboxes d)))"

definition route_status :: "mailbox \<Rightarrow> jstr" where
  "route_status m =
     js (if mb_can_receive m \<and> mb_can_send m then ''active'' else if mb_can_send m then ''send_only''
       else if mb_can_receive m then ''receive_only'' else ''inactive'')"

definition route_value :: "mailbox \<Rightarrow> jsval" where
  "route_value m = obj [(''mailbox_id'', JStr (mb_id m)), (''address'', JStr (mb_address m)), (''display_name'', JStr (mb_display_name m)),
     (''can_receive'', flag_value (mb_can_receive m)), (''can_send'', flag_value (mb_can_send m)), (''active'', flag_value (mb_active m)),
     (''updated_at'', JStr (mb_updated_at m)), (''route_status'', JStr (route_status m))]"

definition nat_value :: "nat \<Rightarrow> jsval" where
  "nat_value n = JNum (nat_text n)"

definition routingStatus :: "env \<Rightarrow> response action" where
  "routingStatus E =
     bindE (both (select E managed_rows) (both (select E last_synced)
       (select E (\<lambda>d. count_rows (\<lambda>f. f_status f = js ''failed'') (forwards d))))) (\<lambda>(rows, latest, failures).
     let ready = rows \<noteq> [] \<and> list_all (\<lambda>m. mb_can_receive m \<and> mb_can_send m) rows;
         forwardingReady = (case inboundForwardAddresses E of Inl _ \<Rightarrow> False | Inr _ \<Rightarrow> True);
         finishedAt = asText (opt_val latest) 100 in
     returnE (json (obj
       [(''sync'', if finishedAt = [] then JNull
           else obj [(''status'', JStr (js (if ready then ''success'' else ''attention''))), (''finished_at'', JStr finishedAt)]),
        (''forwarding'', obj [(''configured'', JBool forwardingReady), (''failed_attempts'', nat_value failures)]),
        (''routes'', JArr (map route_value rows))]) 200 []))"

section \<open>Configuration and health\<close>

definition publicHealth :: response where
  "publicHealth = json (obj [(''ok'', JBool True)]) 200 []"

definition event_channel_text :: "event_channel \<Rightarrow> string" where
  "event_channel_text c = (case c of Webhook \<Rightarrow> ''webhook'' | Queue \<Rightarrow> ''queue'' | No_Channel \<Rightarrow> ''none'')"

text \<open>\<open>Math.round(ms / 60000)\<close>.\<close>

definition window_minutes :: "int option \<Rightarrow> jsval" where
  "window_minutes z = (case z of None \<Rightarrow> JNull | Some ms \<Rightarrow> JNum (int_text ((ms + 30000) div 60000)))"

definition outbound_status :: "env \<Rightarrow> jsval" where
  "outbound_status E =
     (case getOutboundProvider E of
        Some p \<Rightarrow> obj [(''provider'', JStr (provider_id p)), (''configured'', JBool True),
          (''delivery_events'', JStr (js (event_channel_text (cap_events (provider_capabilities p))))),
          (''safe_retry_window_minutes'', window_minutes (cap_window (provider_capabilities p)))]
      | None \<Rightarrow> obj [(''provider'', JStr (to_lower (uni (plat E)) (js_string (js_or (var E ''OUTBOUND_PROVIDER'') (JStr (js ''none'')))))),
          (''configured'', JBool False), (''delivery_events'', JStr (js ''none'')), (''safe_retry_window_minutes'', JNull)])"

definition configStatus :: "env \<Rightarrow> response action" where
  "configStatus E =
     bindE (both (select E (\<lambda>d. count_rows mb_active (mailboxes d))) (select E (\<lambda>d. count_rows (\<lambda>a. \<not> ad_disabled a) (admins d)))) (\<lambda>(mailboxCount, adminCount).
     returnE (json (obj
       [(''ok'', JBool True), (''deployment'', JStr (js ''mailgable'')), (''database'', JBool True), (''archive'', JBool True),
        (''outbound'', outbound_status E),
        (''forwarding'', case inboundForwardAddresses E of
            Inr addresses \<Rightarrow> obj [(''configured'', JBool True), (''addresses'', nat_value (length addresses))]
          | Inl _ \<Rightarrow> obj [(''configured'', JBool False)]),
        (''auth'', JBool (truthy (var E ''AUTH_PEPPER'') \<and> 0 < adminCount)),
        (''mailboxes'', nat_value mailboxCount),
        (''limits'', obj [(''outgoing_attachment_each_mb'', nat_value (MAX_OUTGOING_ATTACHMENT_BYTES div 1024 div 1024)),
          (''outgoing_attachment_total_mb'', nat_value (MAX_OUTGOING_TOTAL_ATTACHMENT_BYTES div 1024 div 1024)),
          (''thread_page'', nat_value MAX_THREAD_PAGE)])]) 200 []))"

lemma keeps_status [keeps_intros]:
  assumes "stable E I"
  shows "keeps (\<lambda>w. I (db_of w)) (routingStatus E)" "keeps (\<lambda>w. I (db_of w)) (configStatus E)"
  unfolding routingStatus_def configStatus_def Let_def by (intro keeps_intros assms)+

end
