(* ===== verification/Router.thy ===== *)
theory Router
  imports Status
begin

text \<open>
  The Worker (\<open>src/src/index.ts\<close>): the routes of the API and what each of them requires, the assets, the redirect,
  the webhooks, and the handling of every error that reaches the top. The asset binding is a parameter
  (\<open>assets\<close>, from a method and a path to its response). \<open>serve\<close> is one event of the Worker's life, and
  \<open>reachable\<close> the worlds that a sequence of them can lead to.
\<close>

type_synonym asset_binding = "jstr \<Rightarrow> jstr \<Rightarrow> exn + response"

definition APP_PATH :: jstr where
  "APP_PATH = js ''/admin/mail''"

definition API_PATH :: jstr where
  "API_PATH = js ''/api/admin/mail''"

definition ALLOWED_ASSETS :: "jstr list" where
  "ALLOWED_ASSETS = map js [''/index.html'', ''/mail.css'', ''/mail-ready.css'', ''/routing-status.css'', ''/404.html'',
     ''/js/app.mjs'', ''/js/state.mjs'', ''/js/i18n.mjs'', ''/js/auth.mjs'', ''/js/mailbox.mjs'', ''/js/messages.mjs'',
     ''/js/compose.mjs'', ''/js/routing.mjs'']"

section \<open>Paths\<close>

definition isPathOrChild :: "jstr \<Rightarrow> jstr \<Rightarrow> bool" where
  "isPathOrChild pathname base \<longleftrightarrow> pathname = base \<or> starts_with (base @ js ''/'') pathname"

definition internalApiPath :: "jstr \<Rightarrow> jstr" where
  "internalApiPath pathname = (if isPathOrChild pathname API_PATH then js ''/api'' @ drop (length API_PATH) pathname else pathname)"

definition decodePath :: "jstr \<Rightarrow> exn + jstr" where
  "decodePath v = (case decode_uri v of
     None \<Rightarrow> Inl (app_error 400 ''Path contains invalid encoding.'' ''invalid_path'') | Some t \<Rightarrow> Inr t)"

text \<open>The group of \<open>/^prefix([^/]+)suffix$/\<close> in a path.\<close>

definition captured :: "string \<Rightarrow> string \<Rightarrow> jstr \<Rightarrow> jstr option" where
  "captured prefix suffix path =
     (let rest = drop (length prefix) path; m = take (length rest - length suffix) rest in
      if starts_with (js prefix) path \<and> ends_with (js suffix) rest \<and> m \<noteq> [] \<and> 47 \<notin> set m then Some m else None)"

datatype api_route =
    R_Auth_Status | R_Bootstrap | R_Login | R_Logout | R_Logout_All | R_Password
  | R_Config | R_Routing_Status | R_Routing_Sync | R_Storage_Probe | R_Mailboxes | R_Threads
  | R_Thread_Detail jstr | R_Thread_Read jstr | R_Thread_Status string jstr | R_Thread_Delete jstr
  | R_Send | R_Retry jstr | R_Forward jstr | R_Attachment jstr | R_Raw jstr

definition thread_actions :: "(string \<times> string) list" where
  "thread_actions = [(''archive'', ''archived''), (''unarchive'', ''open''), (''spam'', ''spam''), (''trash'', ''trash''), (''restore'', ''open'')]"

text \<open>The routes, in the order in which they are tried.\<close>

definition exact :: "string \<Rightarrow> string \<Rightarrow> api_route \<Rightarrow> jstr \<Rightarrow> jstr \<Rightarrow> api_route option" where
  "exact m p route method path = (if method = js m \<and> path = js p then Some route else None)"

definition matching :: "string \<Rightarrow> string \<Rightarrow> string \<Rightarrow> (jstr \<Rightarrow> api_route) \<Rightarrow> jstr \<Rightarrow> jstr \<Rightarrow> api_route option" where
  "matching m prefix suffix route method path = (if method = js m then map_option route (captured prefix suffix path) else None)"

definition api_routes :: "(jstr \<Rightarrow> jstr \<Rightarrow> api_route option) list" where
  "api_routes =
     [exact ''GET'' ''/api/auth/status'' R_Auth_Status,
      exact ''POST'' ''/api/auth/bootstrap'' R_Bootstrap,
      exact ''POST'' ''/api/auth/login'' R_Login,
      exact ''POST'' ''/api/auth/logout'' R_Logout,
      exact ''POST'' ''/api/auth/logout-all'' R_Logout_All,
      exact ''POST'' ''/api/auth/password'' R_Password,
      exact ''GET'' ''/api/config'' R_Config,
      exact ''GET'' ''/api/routing-status'' R_Routing_Status,
      exact ''POST'' ''/api/routing-sync'' R_Routing_Sync,
      exact ''POST'' ''/api/ops/storage-probe'' R_Storage_Probe,
      exact ''GET'' ''/api/mailboxes'' R_Mailboxes,
      exact ''GET'' ''/api/threads'' R_Threads,
      matching ''GET'' ''/api/threads/'' '''' R_Thread_Detail,
      matching ''POST'' ''/api/threads/'' ''/read'' R_Thread_Read]
     @ map (\<lambda>(action, status). matching ''POST'' ''/api/threads/'' (''/'' @ action) (R_Thread_Status action)) thread_actions
     @ [matching ''DELETE'' ''/api/threads/'' '''' R_Thread_Delete,
      exact ''POST'' ''/api/messages/send'' R_Send,
      matching ''POST'' ''/api/messages/'' ''/retry'' R_Retry,
      matching ''POST'' ''/api/messages/'' ''/forward'' R_Forward,
      matching ''GET'' ''/api/attachments/'' '''' R_Attachment,
      matching ''GET'' ''/api/messages/'' ''/raw'' R_Raw]"

definition find_route :: "jstr \<Rightarrow> jstr \<Rightarrow> api_route option" where
  "find_route method path = (case List.map_filter (\<lambda>f. f method path) api_routes of [] \<Rightarrow> None | route # _ \<Rightarrow> Some route)"

section \<open>The API\<close>

definition sync_details :: "sync_result \<Rightarrow> (string \<times> jsval) list" where
  "sync_details res =
     [(''route_count'', nat_value (sr_route_count res)), (''inserted'', nat_value (sc_inserted (sr_counts res))),
      (''changed'', nat_value (sc_changed (sr_counts res))), (''deactivated'', nat_value (sc_deactivated (sr_counts res)))]"

definition sync_response :: "sync_result \<Rightarrow> response" where
  "sync_response res =
     json (obj ([(''ok'', JBool True), (''source'', JStr (js ''cloudflare'')), (''synced_at'', JStr (sr_synced_at res))] @ sync_details res)) 200 []"

definition route_sync :: "env \<Rightarrow> http_request \<Rightarrow> user \<Rightarrow> response action" where
  "route_sync E r u =
     bindE (syncRoutingMailboxes E) (\<lambda>res.
     bindE (audit E r (Some u) (js ''routing_sync'') (js ''mailboxes'') (var_text E ''MAIL_DOMAIN'')
       (Some (obj ((''source'', JStr (js ''cloudflare'')) # sync_details res))) []) (\<lambda>_.
     returnE (sync_response res)))"

definition status_of_action :: "string \<Rightarrow> jstr" where
  "status_of_action action = (case map_of thread_actions action of Some s \<Rightarrow> js s | None \<Rightarrow> [])"

definition route_thread_status :: "env \<Rightarrow> http_request \<Rightarrow> user \<Rightarrow> string \<Rightarrow> jstr \<Rightarrow> response action" where
  "route_thread_status E r u action i =
     bindE (setThreadStatus E i (status_of_action action)) (\<lambda>status.
     bindE (audit E r (Some u) (js (''thread_'' @ action)) (js ''thread'') i None []) (\<lambda>_.
     returnE (json (obj [(''ok'', JBool True), (''thread_id'', JStr i), (''status'', JStr status)]) 200 [])))"

definition route_thread_delete :: "env \<Rightarrow> http_request \<Rightarrow> user \<Rightarrow> jstr \<Rightarrow> response action" where
  "route_thread_delete E r u i =
     bindE (deleteThreadData E i) (\<lambda>deleted.
     bindE (audit E r (Some u) (js ''thread_delete'') (js ''thread'') i (Some (obj [(''deleted_r2_keys'', nat_value deleted)])) []) (\<lambda>_.
     returnE (json (obj [(''ok'', JBool True), (''thread_id'', JStr i), (''deleted_r2_keys'', nat_value deleted)]) 200 [])))"

text \<open>The part of a path that a handler gets, decoded.\<close>

definition with_path :: "jstr \<Rightarrow> (jstr \<Rightarrow> response action) \<Rightarrow> response action" where
  "with_path raw f = bindE (liftE (decodePath raw)) f"

definition route_not_found :: exn where
  "route_not_found = app_error 404 ''API route not found.'' ''not_found''"

definition handle_route :: "env \<Rightarrow> http_request \<Rightarrow> api_route \<Rightarrow> response action" where
  "handle_route E r route =
     (case route of
        R_Auth_Status \<Rightarrow> authStatus E r
      | R_Bootstrap \<Rightarrow> bootstrap E r
      | R_Login \<Rightarrow> login E r
      | R_Logout \<Rightarrow> bindE (requireSession E r True) (\<lambda>_. logout E r)
      | R_Logout_All \<Rightarrow> bindE (requireSession E r True) (logoutAll E r)
      | R_Password \<Rightarrow> bindE (requireSession E r True) (changePassword E r)
      | R_Config \<Rightarrow> bindE (requireSession E r False) (\<lambda>_. configStatus E)
      | R_Routing_Status \<Rightarrow> bindE (requireSession E r False) (\<lambda>_. routingStatus E)
      | R_Routing_Sync \<Rightarrow> bindE (requireSession E r True) (route_sync E r)
      | R_Storage_Probe \<Rightarrow> bindE (requireSession E r True) (\<lambda>_. storageProbe E)
      | R_Mailboxes \<Rightarrow> bindE (requireSession E r False) (\<lambda>_. listMailboxes E)
      | R_Threads \<Rightarrow> bindE (requireSession E r False) (\<lambda>_. listThreads E r)
      | R_Thread_Detail i \<Rightarrow> bindE (requireSession E r False) (\<lambda>_. with_path i (getThread E r))
      | R_Thread_Read i \<Rightarrow> bindE (requireSession E r True) (\<lambda>u. with_path i (markThread E r u))
      | R_Thread_Status action i \<Rightarrow> bindE (requireSession E r True) (\<lambda>u. with_path i (route_thread_status E r u action))
      | R_Thread_Delete i \<Rightarrow> bindE (requireSession E r True) (\<lambda>u. with_path i (route_thread_delete E r u))
      | R_Send \<Rightarrow> bindE (requireSession E r True) (sendMessage E r)
      | R_Retry i \<Rightarrow> bindE (requireSession E r True) (\<lambda>u. with_path i (retryMessage E r u))
      | R_Forward i \<Rightarrow> bindE (requireSession E r True) (\<lambda>u. with_path i (forwardMessage E r u))
      | R_Attachment i \<Rightarrow> bindE (requireSession E r False) (\<lambda>_. with_path i (attachmentResponse E))
      | R_Raw i \<Rightarrow> bindE (requireSession E r False) (\<lambda>_. with_path i (rawMessageResponse E)))"

definition handleApi :: "env \<Rightarrow> http_request \<Rightarrow> response action" where
  "handleApi E r =
     (case find_route (map upper_unit (rq_method r)) (internalApiPath (rq_path r)) of
        None \<Rightarrow> throwE route_not_found
      | Some route \<Rightarrow> handle_route E r route)"

section \<open>Everything else\<close>

definition page_not_found :: exn where
  "page_not_found = app_error 404 ''Page not found.'' ''not_found''"

definition asset_headers :: "(jstr \<times> jstr) list \<Rightarrow> (jstr \<times> jstr) list" where
  "asset_headers hs = set_header ''Expires'' (js ''0'') (set_header ''Pragma'' (js ''no-cache'')
     (set_header ''Cache-Control'' (js ''private, no-store, max-age=0'') hs))"

definition assetResponse :: "asset_binding \<Rightarrow> http_request \<Rightarrow> jstr \<Rightarrow> exn + response" where
  "assetResponse assets r pathname =
     (if rq_method r \<noteq> js ''GET'' \<and> rq_method r \<noteq> js ''HEAD'' then
        Inr (json (obj [(''error'', JStr (js ''Method not allowed.''))]) 405 [(''Allow'', js ''GET, HEAD'')])
      else
        let suffix = drop (length APP_PATH) pathname;
            assetPath = (if suffix = js ''/'' \<or> suffix = [] then js ''/index.html'' else suffix) in
        if assetPath \<notin> set ALLOWED_ASSETS then Inl page_not_found
        else (case assets (rq_method r) assetPath of
            Inl e \<Rightarrow> Inl e
          | Inr asset \<Rightarrow> Inr (asset\<lparr>rs_headers := asset_headers (rs_headers asset)\<rparr>)))"

definition quota_text :: regex where
  "quota_text = (let gap = Star (Cls (\<lambda>c. \<not> line_terminator c)) in
     alts [lit_i ''D1_QUOTA_EXCEEDED'', cats [lit_i ''rows written'', gap, lit_i ''limit''], cats [lit_i ''database'', gap, lit_i ''quota'']])"

definition quota_reached :: exn where
  "quota_reached = app_error 503 ''Database quota reached. Check Cloudflare D1 usage and query plans.'' ''database_quota_exceeded''"

definition classifyD1QuotaError :: "exn \<Rightarrow> exn option" where
  "classifyD1QuotaError e =
     (case e of
        AppError _ _ _ \<Rightarrow> None
      | JsError _ message \<Rightarrow> if re_search quota_text message \<noteq> None then Some quota_reached else None)"

definition with_request_id :: "jstr \<Rightarrow> http_request \<Rightarrow> http_request" where
  "with_request_id i r = r\<lparr>rq_headers := (js ''X-MailGable-Request-ID'', i)
     # filter (\<lambda>(k, v). map lower_unit k \<noteq> map lower_unit (js ''X-MailGable-Request-ID'')) (rq_headers r)\<rparr>"

definition redirect_to_app :: "http_request \<Rightarrow> response" where
  "redirect_to_app r = \<lparr> rs_status = 308,
     rs_headers = [(js ''location'', rq_origin_of_url r @ APP_PATH @ js ''/'' @ rq_search r)], rs_body = Raw [] \<rparr>"

definition answer :: "env \<Rightarrow> asset_binding \<Rightarrow> http_request \<Rightarrow> response action" where
  "answer E assets r =
     (if rq_path r = js ''/healthz'' \<and> rq_method r = js ''GET'' then returnE publicHealth
      else if rq_path r = js ''/webhooks/resend'' \<and> rq_method r = js ''POST'' then handleResendWebhook E r
      else if rq_path r = js ''/webhooks/brevo'' \<and> rq_method r = js ''POST'' then handleBrevoWebhook E r
      else if isPathOrChild (rq_path r) API_PATH then handleApi E r
      else if rq_path r = APP_PATH then returnE (redirect_to_app r)
      else if starts_with (APP_PATH @ js ''/'') (rq_path r) then liftE (assetResponse assets r (rq_path r))
      else throwE page_not_found)"

definition error_answer :: "exn \<Rightarrow> jstr \<Rightarrow> response" where
  "error_answer e requestId = errorResponse (case classifyD1QuotaError e of Some q \<Rightarrow> q | None \<Rightarrow> e) requestId"

definition fetchHandler :: "env \<Rightarrow> asset_binding \<Rightarrow> http_request \<Rightarrow> response action" where
  "fetchHandler E assets r =
     bindE (createRequestId E r) (\<lambda>requestId.
     catchE (bindE (answer E assets (with_request_id requestId r)) (\<lambda>resp. returnE (securityHeaders resp requestId)))
       (\<lambda>e. returnE (securityHeaders (error_answer e requestId) requestId)))"

definition scheduled :: "env \<Rightarrow> unit action" where
  "scheduled E = bindE (both (cleanupAuth E) (cleanupMail E)) (\<lambda>_. returnE ())"

section \<open>The life of the Worker\<close>

datatype event = Fetch http_request | Email inbound_mail | Queue_Batch "jsval list" | Cron

definition serve :: "env \<Rightarrow> asset_binding \<Rightarrow> event \<Rightarrow> world \<Rightarrow> world" where
  "serve E assets ev w =
     (case ev of
        Fetch r \<Rightarrow> snd (fetchHandler E assets r w)
      | Email im \<Rightarrow> snd (handleInbound E im w)
      | Queue_Batch items \<Rightarrow> snd (handleCloudflareQueueEvent E items w)
      | Cron \<Rightarrow> snd (scheduled E w))"

inductive reachable :: "env \<Rightarrow> asset_binding \<Rightarrow> world \<Rightarrow> bool" for E assets where
  start: "db_ok d \<Longrightarrow> reachable E assets (start_world d)"
| event: "reachable E assets w \<Longrightarrow> reachable E assets (serve E assets ev w)"

inductive_cases reachableE: "reachable E assets w"

end
