(* ===== verification/Worker.thy ===== *)
theory Worker
  imports Router
begin

text \<open>
  The Worker as a whole: every request is answered and no internal
  error is shown, and the API does nothing for a request that has no session, or no proof that it came from
  the application.
\<close>

section \<open>Every event keeps the constraints\<close>

lemma keeps_routes [keeps_intros]:
  assumes "stable E db_ok"
  shows "keeps (\<lambda>w. db_ok (db_of w)) (route_sync E r u)" "keeps (\<lambda>w. db_ok (db_of w)) (route_thread_status E r u a i)"
    "keeps (\<lambda>w. db_ok (db_of w)) (route_thread_delete E r u i)"
  unfolding route_sync_def route_thread_status_def route_thread_delete_def by (intro keeps_intros assms)+

lemma keeps_with_path [keeps_intros]: "(\<And>i. keeps I (f i)) \<Longrightarrow> keeps I (with_path raw f)"
  unfolding with_path_def by (intro keeps_intros)

lemma keeps_handle_route [keeps_intros]: "stable E db_ok \<Longrightarrow> keeps (\<lambda>w. db_ok (db_of w)) (handle_route E r route)"
  unfolding handle_route_def by (cases route) (simp_all, (intro keeps_intros; assumption)+)

lemma keeps_handleApi [keeps_intros]: "stable E db_ok \<Longrightarrow> keeps (\<lambda>w. db_ok (db_of w)) (handleApi E r)"
  unfolding handleApi_def by (intro keeps_intros)

lemma keeps_request_id [keeps_intros]: "keeps (\<lambda>w. I (db_of w)) (createRequestId E r)"
  unfolding createRequestId_def by (intro keeps_intros)

lemma keeps_fetchHandler [keeps_intros]:
  assumes "stable E db_ok"
  shows "keeps (\<lambda>w. db_ok (db_of w)) (answer E assets r)" "keeps (\<lambda>w. db_ok (db_of w)) (fetchHandler E assets r)"
    "keeps (\<lambda>w. db_ok (db_of w)) (scheduled E)"
  unfolding answer_def fetchHandler_def scheduled_def by (intro keeps_intros assms)+

lemma serve_ok: "stable E db_ok \<Longrightarrow> db_ok (db_of w) \<Longrightarrow> db_ok (db_of (serve E assets ev w))"
proof (cases ev)
  case (Queue_Batch items)
  assume "stable E db_ok" "db_ok (db_of w)"
  with Queue_Batch show ?thesis by (simp add: serve_def keeps_snd [OF keeps_webhooks(3)])
qed (simp_all add: serve_def keeps_snd [OF keeps_fetchHandler(2)] keeps_snd [OF keeps_fetchHandler(3)] keeps_snd [OF keeps_handleInbound])

text \<open>The statements of the model carry the constraints of the schema, as the statements of the database do; the code keeps to them.\<close>

lemma reachable_ok: "stable E db_ok \<Longrightarrow> reachable E assets w \<Longrightarrow> db_ok (db_of w)"
  by (rotate_tac 1, induction rule: reachable.induct) (simp_all add: serve_ok)

section \<open>Every request is answered\<close>

lemma set_header_lookup: "map_of (set_header name v hs) k = (if k = map lower_unit (js name) then Some v else map_of hs k)"
  by (simp add: set_header_def map_of_put_key)

lemma header_names:
  "map lower_unit (js ''X-Content-Type-Options'') = js ''x-content-type-options''"
  "map lower_unit (js ''X-Frame-Options'') = js ''x-frame-options''"
  "map lower_unit (js ''Referrer-Policy'') = js ''referrer-policy''"
  "map lower_unit (js ''Permissions-Policy'') = js ''permissions-policy''"
  "map lower_unit (js ''Cross-Origin-Opener-Policy'') = js ''cross-origin-opener-policy''"
  "map lower_unit (js ''Cross-Origin-Resource-Policy'') = js ''cross-origin-resource-policy''"
  "map lower_unit (js ''Strict-Transport-Security'') = js ''strict-transport-security''"
  "map lower_unit (js ''X-Robots-Tag'') = js ''x-robots-tag''"
  "map lower_unit (js ''Content-Security-Policy'') = js ''content-security-policy''"
  "map lower_unit (js ''X-Request-ID'') = js ''x-request-id''"
  by code_simp+

lemma secured_headers:
  "map_of (rs_headers (securityHeaders resp i)) (js ''x-content-type-options'') = Some (js ''nosniff'')"
  "map_of (rs_headers (securityHeaders resp i)) (js ''x-frame-options'') = Some (js ''DENY'')"
  "map_of (rs_headers (securityHeaders resp i)) (js ''referrer-policy'') = Some (js ''no-referrer'')"
  "map_of (rs_headers (securityHeaders resp i)) (js ''permissions-policy'')
    = Some (js ''camera=(), microphone=(), geolocation=(), payment=(), usb=()'')"
  "map_of (rs_headers (securityHeaders resp i)) (js ''cross-origin-opener-policy'') = Some (js ''same-origin'')"
  "map_of (rs_headers (securityHeaders resp i)) (js ''cross-origin-resource-policy'') = Some (js ''same-origin'')"
  "map_of (rs_headers (securityHeaders resp i)) (js ''strict-transport-security'') = Some (js ''max-age=31536000'')"
  "map_of (rs_headers (securityHeaders resp i)) (js ''x-robots-tag'') = Some (js ''noindex, nofollow'')"
  "map_of (rs_headers (securityHeaders resp i)) (js ''content-security-policy'') = Some (js (''default-src 'self'; script-src 'self'; style-src 'self'; img-src 'self' data:; connect-src 'self'; frame-src 'self'; object-src 'none'; base-uri 'none'; form-action 'self'; frame-ancestors '' @ quoted ''none''))"
  "i = [] \<or> map_of (rs_headers (securityHeaders resp i)) (js ''x-request-id'') = Some i"
  by (simp_all add: securityHeaders_def Let_def set_header_lookup header_names)

text \<open>
  C40. Every request gets exactly one response, whatever fails while it is served. The response carries the content policy, the other eight
  security headers with their values, and the identifier of the request. Its status and body are those the route gave; those of the
  error the route threw; or, when the failure was not foreseen, the quota error if the text of the failure speaks of a quota, and otherwise the
  generic error with status 500, so that the text of an unforeseen failure is never shown.
\<close>

theorem every_request_answered:
  "\<exists>i w1 resp w'. createRequestId E r w = (Inr i, w1) \<and> fetchHandler E assets r w = (Inr resp, w')
    \<and> list_all (\<lambda>(name, v). map_of (rs_headers resp) (js name) = Some (js v))
        [(''x-content-type-options'', ''nosniff''), (''x-frame-options'', ''DENY''), (''referrer-policy'', ''no-referrer''),
         (''permissions-policy'', ''camera=(), microphone=(), geolocation=(), payment=(), usb=()''),
         (''cross-origin-opener-policy'', ''same-origin''), (''cross-origin-resource-policy'', ''same-origin''),
         (''strict-transport-security'', ''max-age=31536000''), (''x-robots-tag'', ''noindex, nofollow''),
         (''content-security-policy'', ''default-src 'self'; script-src 'self'; style-src 'self'; img-src 'self' data:; connect-src 'self'; frame-src 'self'; object-src 'none'; base-uri 'none'; form-action 'self'; frame-ancestors '' @ quoted ''none'')]
    \<and> (i = [] \<or> map_of (rs_headers resp) (js ''x-request-id'') = Some i)
    \<and> (case answer E assets (with_request_id i r) w1 of
         (Inr resp', w2) \<Rightarrow> w' = w2 \<and> rs_status resp = rs_status resp' \<and> rs_body resp = rs_body resp'
       | (Inl (AppError status message code), w2) \<Rightarrow> w' = w2 \<and> rs_status resp = status \<and> rs_body resp = Json (error_body message code i)
       | (Inl (JsError name text), w2) \<Rightarrow> w' = w2
           \<and> (if re_search quota_text text = None
              then rs_status resp = 500
                \<and> rs_body resp = Json (error_body (js ''The mailbox service is temporarily unavailable.'') (js ''internal_error'') i)
              else rs_status resp = 503
                \<and> rs_body resp = Json (error_body (js ''Database quota reached. Check Cloudflare D1 usage and query plans.'')
                    (js ''database_quota_exceeded'') i)))"
proof -
  have "\<exists>i w1. createRequestId E r w = (Inr i, w1)"
    by (auto simp: createRequestId_def returnE_def uuid_def split: option.split)
  then obtain i w1 where i: "createRequestId E r w = (Inr i, w1)" by blast
  obtain z w2 where a: "answer E assets (with_request_id i r) w1 = (z, w2)" by fastforce
  let ?resp = "securityHeaders (case z of Inl e \<Rightarrow> error_answer e i | Inr resp \<Rightarrow> resp) i"
  have run: "fetchHandler E assets r w = (Inr ?resp, w2)"
    by (simp add: fetchHandler_def act_simps i a split: sum.split)
  have same: "rs_status (securityHeaders resp i) = rs_status resp" "rs_body (securityHeaders resp i) = rs_body resp" for resp
    by (simp_all add: securityHeaders_def Let_def)
  show ?thesis
    by (intro exI [of _ i] exI [of _ w1] exI [of _ ?resp] exI [of _ w2] conjI)
      (use i run in \<open>simp_all add: a same secured_headers error_answer_def classifyD1QuotaError_def errorResponse_def quota_reached_def
        app_error_def json_def split: sum.split exn.split\<close>)
qed

end
