(* ===== verification/Access.thy ===== *)
theory Access
  imports Router
begin

text \<open>
  Who may do what: what an accepted session is, that the API refuses everything else without touching more than the
  session table, what a login and a change of the password require and leave, and the race of the one-time setup.
\<close>

section \<open>Sessions\<close>

text \<open>
  The session that a request presents, in the database \<open>d\<close> at the time \<open>t\<close>: it belongs to the token of the cookie, is not revoked,
  expired or idle, comes from the browser it was given to, and its administrator is not disabled.
\<close>

definition accepted_session :: "env \<Rightarrow> http_request \<Rightarrow> int \<Rightarrow> db \<Rightarrow> session \<Rightarrow> admin \<Rightarrow> bool" where
  "accepted_session E r t d s a \<longleftrightarrow>
     (\<exists>token. cookieMap r SESSION_COOKIE_NAME = Some token \<and> token \<noteq> [] \<and> s_token_hash s = sha256_text E token)
     \<and> s \<in> set (sessions d) \<and> a \<in> set (admins d) \<and> s_admin s = ad_id a \<and> \<not> ad_disabled a
     \<and> s_revoked_at s = None \<and> iso t < s_expires_at s \<and> \<not> idle E s t
     \<and> (\<exists>uaHash. userAgentHash E r = Inr uaHash \<and> \<not> wrong_agent s uaHash)"

lemma session_row_Some:
  "session_row h d = Some (s, a) \<Longrightarrow> s \<in> set (sessions d) \<and> a \<in> set (admins d) \<and> s_token_hash s = h \<and> s_revoked_at s = None \<and> ad_id a = s_admin s"
proof -
  let ?xs = "[(s, a). s \<leftarrow> sessions d, s_token_hash s = h \<and> s_revoked_at s = None, a \<leftarrow> admins d, ad_id a = s_admin s]"
  assume "session_row h d = Some (s, a)"
  then have "(s, a) \<in> set ?xs" unfolding session_row_def by (cases ?xs) simp_all
  then show ?thesis by (auto split: if_splits)
qed

lemma getSession_Some:
  assumes "getSession E r w = (Inr (Some u), w')"
  obtains s a where "u = session_user (s, a)" "accepted_session E r (clock E (Suc (calls w))) (others E (calls w) (db_of w)) s a"
proof -
  obtain token where token: "cookieMap r SESSION_COOKIE_NAME = Some token" "token \<noteq> []"
    using assms by (auto simp: getSession_def split: option.splits if_splits)
  obtain row w1 where row: "select E (session_row (sha256_text E token)) w = (Inr row, w1)"
    and rest: "(case row of None \<Rightarrow> returnE None
     | Some (s, a) \<Rightarrow>
         bindE (now E) (\<lambda>ts.
         if ad_disabled a \<or> s_expires_at s \<le> ts then bindE (if s_id s = [] then returnE () else revokeSession E (s_id s)) (\<lambda>_. returnE None)
         else
           bindE (liftE (userAgentHash E r)) (\<lambda>uaHash.
           if wrong_agent s uaHash then bindE (revokeSession E (s_id s)) (\<lambda>_. returnE None)
           else
             bindE (date_now E) (\<lambda>t.
             if idle E s t then bindE (revokeSession E (s_id s)) (\<lambda>_. returnE None)
             else
               bindE (if unseen E s t then touchSession E (s_id s) else returnE ()) (\<lambda>_.
               returnE (Some (session_user (s, a)))))))) w1 = (Inr (Some u), w')"
    using assms token by (auto simp: getSession_def elim: bindE_InrE)
  obtain d where d: "d = others E (calls w) (db_of w)" "row = session_row (sha256_text E token) d" "w1 = step_db w d"
    using row by (rule select_InrE)
  obtain s a where some: "row = Some (s, a)" using rest by (cases row) auto
  let ?t = "clock E (Suc (calls w))"
  have now: "now E w1 = (Inr (iso ?t), w1)" "date_now E w1 = (Inr ?t, w1)" by (simp_all add: d(3) now_def date_now_def)
  have live: "\<not> (ad_disabled a \<or> s_expires_at s \<le> iso ?t)"
    using rest by (auto simp: some bindE_app [of "now E"] now elim!: bindE_InrE split: if_splits)
  obtain uaHash where ua: "userAgentHash E r = Inr uaHash" "\<not> wrong_agent s uaHash" "\<not> idle E s ?t" "u = session_user (s, a)"
    using rest live
    by (auto simp: some bindE_app [of "now E"] bindE_app [of "date_now E"] now elim!: bindE_InrE split: if_splits)
  have "accepted_session E r ?t d s a"
    using session_row_Some [of "sha256_text E token" d s a] d(2) some token live ua by (auto simp: accepted_session_def not_le)
  then show thesis using that ua(4) d(1) by blast
qed

lemma requireSession_Inr:
  assumes "requireSession E r csrf w = (Inr u, w')"
  shows "\<exists>s a. accepted_session E r (clock E (Suc (calls w))) (others E (calls w) (db_of w)) s a \<and> us_admin u = ad_id a \<and> us_session u = s_id s
    \<and> (csrf \<longrightarrow> requireOrigin E r = Inr () \<and> csrf_header r \<noteq> [] \<and> timingSafeEqual (csrf_header r) (s_csrf s))"
proof -
  obtain z w1 where z: "getSession E r w = (Inr z, w1)"
    using assms unfolding requireSession_def by (rule bindE_InrE)
  obtain u' where u': "z = Some u'" "u' = u" "csrf \<longrightarrow> requireOrigin E r = Inr () \<and> csrf_header r \<noteq> [] \<and> timingSafeEqual (csrf_header r) (us_csrf u)"
    using assms unfolding requireSession_def by (auto simp: bindE_app [of "getSession E r"] z elim!: bindE_InrE split: option.splits if_splits)
  obtain s a where s: "u = session_user (s, a)" "accepted_session E r (clock E (Suc (calls w))) (others E (calls w) (db_of w)) s a"
    using getSession_Some z u'(1,2) by blast
  then show ?thesis using u'(3) by (intro exI [of _ s] exI [of _ a]) (simp add: session_user_def)
qed

text \<open>
  C5. A request is taken for a signed-in one only with a session that deserves it: at the moment of the
  lookup the table holds, for the token of the cookie, a session that is not revoked, not expired and not idle,
  presented by the browser it was issued to, of an administrator who is not disabled.
\<close>

theorem session_guard:
  assumes "requireSession E r csrf w = (Inr u, w')"
  shows "\<exists>s a. accepted_session E r (clock E (Suc (calls w))) (others E (calls w) (db_of w)) s a \<and> us_admin u = ad_id a \<and> us_session u = s_id s
    \<and> (csrf \<longrightarrow> requireOrigin E r = Inr () \<and> csrf_header r \<noteq> [] \<and> timingSafeEqual (csrf_header r) (s_csrf s))"
  using assms by (rule requireSession_Inr)

section \<open>The API\<close>

definition open_routes :: "api_route set" where
  "open_routes = {R_Auth_Status, R_Bootstrap, R_Login}"

fun changes_state :: "api_route \<Rightarrow> bool" where
  "changes_state R_Auth_Status = False"
| "changes_state R_Config = False"
| "changes_state R_Routing_Status = False"
| "changes_state R_Mailboxes = False"
| "changes_state R_Threads = False"
| "changes_state (R_Thread_Detail i) = False"
| "changes_state (R_Attachment i) = False"
| "changes_state (R_Raw i) = False"
| "changes_state route = True"

lemma find_route_method: "find_route method path = Some route \<Longrightarrow> changes_state route \<longleftrightarrow> method \<noteq> js ''GET''"
proof -
  assume "find_route method path = Some route"
  then have "route \<in> set (List.map_filter (\<lambda>f. f method path) api_routes)"
    by (auto simp: find_route_def split: list.splits)
  then obtain f where "f \<in> set api_routes" "f method path = Some route" by (auto simp: List.map_filter_def)
  then show ?thesis
    unfolding api_routes_def thread_actions_def by (auto simp: exact_def matching_def split: if_splits)
qed

lemma guarded: "route \<notin> open_routes \<Longrightarrow> \<exists>f. handle_route E r route = bindE (requireSession E r (changes_state route)) f"
  by (cases route) (auto simp: handle_route_def open_routes_def)

definition only_sessions :: "db \<Rightarrow> db \<Rightarrow> bool" where
  "only_sessions d0 d \<longleftrightarrow> d = d0\<lparr>sessions := sessions d\<rparr>"

lemma preserves_sessions: "preserves (only_sessions d0) (update_sessions p f)"
proof -
  have "only_sessions d0 (d\<lparr>sessions := ss\<rparr>)" if "only_sessions d0 d" for d ss
  proof -
    have "d = d0\<lparr>sessions := sessions d\<rparr>" using that by (simp add: only_sessions_def)
    then have "d\<lparr>sessions := ss\<rparr> = d0\<lparr>sessions := ss\<rparr>" by (metis db.update_convs(8) db.surjective)
    then show ?thesis by (simp add: only_sessions_def)
  qed
  then show ?thesis unfolding update_sessions_def by (intro preserves_constrained_frame) simp
qed

lemma keeps_only_sessions:
  assumes "quiet E"
  shows "keeps (\<lambda>w. only_sessions d0 (db_of w)) (getSession E r)" "keeps (\<lambda>w. only_sessions d0 (db_of w)) (requireSession E r csrf)"
proof -
  have "keeps (\<lambda>w. only_sessions d0 (db_of w)) (revokeSession E i)" "keeps (\<lambda>w. only_sessions d0 (db_of w)) (touchSession E i)" for i
    unfolding revokeSession_def touchSession_def
    by (intro keeps_flow keeps_local keeps_external quiet_stable assms preserves_sessions)+
  then show session: "keeps (\<lambda>w. only_sessions d0 (db_of w)) (getSession E r)"
    unfolding getSession_def by (intro keeps_flow keeps_local keeps_select quiet_stable assms)
  show "keeps (\<lambda>w. only_sessions d0 (db_of w)) (requireSession E r csrf)"
    unfolding requireSession_def by (intro keeps_flow session)
qed

lemma silent_session [silent_rules]: "silent (getSession E r)" "silent (requireSession E r csrf)"
proof -
  have "silent (revokeSession E i)" "silent (touchSession E i)" for i
    unfolding revokeSession_def touchSession_def by (intro silent_rules)+
  then show session: "silent (getSession E r)" unfolding getSession_def by (intro silent_rules)
  show "silent (requireSession E r csrf)" unfolding requireSession_def by (intro silent_rules session)
qed

text \<open>
  C3. Every API route but the status, the setup and the login either acts for an accepted session, which for every method but
  GET also means the right origin and the session's own security token, or refuses and leaves the world
  as it was, up to the session table.
\<close>

theorem api_guard:
  assumes "quiet E" "find_route (map upper_unit (rq_method r)) (internalApiPath (rq_path r)) = Some route" "route \<notin> open_routes"
  shows "(\<exists>s a. accepted_session E r (clock E (Suc (calls w))) (db_of w) s a
      \<and> (map upper_unit (rq_method r) \<noteq> js ''GET'' \<longrightarrow>
          requireOrigin E r = Inr () \<and> csrf_header r \<noteq> [] \<and> timingSafeEqual (csrf_header r) (s_csrf s)))
    \<or> (\<exists>e w'. handleApi E r w = (Inl e, w') \<and> effects w' = effects w \<and> db_of w' = (db_of w)\<lparr>sessions := sessions (db_of w')\<rparr>)"
proof -
  let ?csrf = "changes_state route"
  obtain f where "handle_route E r route = bindE (requireSession E r ?csrf) f" using guarded [OF assms(3)] by blast
  then have f: "handleApi E r w = bindE (requireSession E r ?csrf) f w" using assms(2) by (simp add: handleApi_def)
  obtain z w1 where z: "requireSession E r ?csrf w = (z, w1)" by (cases "requireSession E r ?csrf w")
  show ?thesis
  proof (cases z)
    case (Inr u)
    obtain s a where "accepted_session E r (clock E (Suc (calls w))) (others E (calls w) (db_of w)) s a"
        "?csrf \<longrightarrow> requireOrigin E r = Inr () \<and> csrf_header r \<noteq> [] \<and> timingSafeEqual (csrf_header r) (s_csrf s)"
      using requireSession_Inr [of E r ?csrf w u w1] z Inr by blast
    then show ?thesis using find_route_method [OF assms(2)] assms(1) by auto
  next
    case (Inl e)
    have "handleApi E r w = (Inl e, w1)" using f z Inl by (simp add: bindE_app)
    moreover have "effects w1 = effects w" using silent_session(2) z by (metis silent_def snd_conv)
    moreover have "only_sessions (db_of w) (db_of w1)"
      using keepsD [OF keeps_only_sessions(2) [OF assms(1)] _ z] by (simp add: only_sessions_def)
    ultimately show ?thesis unfolding only_sessions_def by blast
  qed
qed

section \<open>Login\<close>

lemma rate_limit_run:
  assumes "quiet E" "enforceLoginRateLimit E ipHash emailHash w = (Inr u, w')"
  shows "recent_failures (js ''ip'') ipHash (iso (clock E (calls w) - LOGIN_WINDOW_MINUTES * 60000)) (db_of w) < LOGIN_IP_LIMIT
    \<and> recent_failures (js ''email'') emailHash (iso (clock E (calls w) - LOGIN_WINDOW_MINUTES * 60000)) (db_of w) < LOGIN_EMAIL_LIMIT
    \<and> db_of w' = db_of w"
proof -
  let ?cutoff = "iso (clock E (calls w) - LOGIN_WINDOW_MINUTES * 60000)"
  have both: "x = f (db_of w1) \<and> y = g (db_of w1) \<and> db_of w2 = db_of w1"
    if "both (select E f) (select E g) w1 = (Inr (x, y), w2)" for f g x y w1 w2
  proof -
    obtain p v where p: "select E f w1 = (p, v)" by (cases "select E f w1")
    obtain q v' where q: "select E g v = (q, v')" by (cases "select E g v")
    have z: "p = Inr x" "q = Inr y" "v' = w2"
      using that by (auto simp: both_def act_simps p q split: sum.splits)
    show ?thesis using select_step [OF assms(1) p [unfolded z(1)]] select_step [OF assms(1) q [unfolded z(2)]] z(3) by simp
  qed
  obtain ip email w2 where "both (select E (recent_failures (js ''ip'') ipHash ?cutoff)) (select E (recent_failures (js ''email'') emailHash ?cutoff)) w
      = (Inr (ip, email), w2)" "\<not> (LOGIN_IP_LIMIT \<le> ip \<or> LOGIN_EMAIL_LIMIT \<le> email)" "w' = w2"
    using assms(2) unfolding enforceLoginRateLimit_def Let_def by (auto elim!: bindE_InrE)
  then show ?thesis using both by fastforce
qed

lemma authenticate_run:
  assumes "quiet E" "authenticate E email password ipHash emailHash w = (Inr a, w')"
  shows "a \<in> set (admins (db_of w)) \<and> nocase (ad_email a) = nocase email \<and> \<not> ad_disabled a \<and> password_matches E a password = Inr True
    \<and> recent_failures (js ''ip'') ipHash (iso (clock E (calls w) - LOGIN_WINDOW_MINUTES * 60000)) (db_of w) < LOGIN_IP_LIMIT
    \<and> recent_failures (js ''email'') emailHash (iso (clock E (calls w) - LOGIN_WINDOW_MINUTES * 60000)) (db_of w) < LOGIN_EMAIL_LIMIT"
proof -
  obtain u w1 where rate: "enforceLoginRateLimit E ipHash emailHash w = (Inr u, w1)"
    and rest: "bindE (if validEmail email then select E (\<lambda>d. find (\<lambda>a. nocase (ad_email a) = nocase email) (admins d)) else returnE None) (\<lambda>found.
     bindE (liftE (login_valid E found password)) (\<lambda>valid.
     bindE (recordAttempts E ipHash emailHash valid) (\<lambda>_.
     case found of
       Some a \<Rightarrow> if valid then returnE a else throwE invalid_credentials
     | None \<Rightarrow> throwE invalid_credentials))) w1 = (Inr a, w')"
    using assms(2) unfolding authenticate_def by (rule bindE_InrE)
  note rate = rate_limit_run [OF assms(1) rate]
  obtain found w2 where found: "(if validEmail email then select E (\<lambda>d. find (\<lambda>a. nocase (ad_email a) = nocase email) (admins d)) else returnE None) w1
      = (Inr found, w2)"
    and valid: "bindE (liftE (login_valid E found password)) (\<lambda>valid.
     bindE (recordAttempts E ipHash emailHash valid) (\<lambda>_.
     case found of
       Some a \<Rightarrow> if valid then returnE a else throwE invalid_credentials
     | None \<Rightarrow> throwE invalid_credentials)) w2 = (Inr a, w')"
    using rest by (rule bindE_InrE)
  have ok: "found = Some a" "login_valid E found password = Inr True"
    using valid by (auto elim!: bindE_InrE split: option.splits if_splits)
  then have "find (\<lambda>a. nocase (ad_email a) = nocase email) (admins (db_of w1)) = Some a"
    using found select_step [OF assms(1)] by (fastforce split: if_splits)
  then have "a \<in> set (admins (db_of w))" "nocase (ad_email a) = nocase email" using rate by (auto simp: find_Some_iff in_set_conv_nth)
  moreover have "\<not> ad_disabled a" "password_matches E a password = Inr True"
    using ok by (auto simp: login_valid_def split: if_splits sum.splits)
  ultimately show ?thesis using rate by blast
qed

lemma login_run:
  assumes "quiet E" "login E r w = (Inr resp, w')"
  shows "\<exists>body password ipHash emailHash a. readJson E r 16384 = Inr body \<and> boundedPassword E (body_get body ''password'') = Inr password
    \<and> requireOrigin E r = Inr () \<and> requestIpHash E r = Inr ipHash
    \<and> subjectHash E (js ''email'') (normalizeEmail (uni (plat E)) (body_get body ''email'')) = Inr emailHash
    \<and> a \<in> set (admins (db_of w)) \<and> nocase (ad_email a) = nocase (normalizeEmail (uni (plat E)) (body_get body ''email''))
    \<and> \<not> ad_disabled a \<and> password_matches E a password = Inr True
    \<and> recent_failures (js ''ip'') ipHash (iso (clock E (Suc (calls w)) - LOGIN_WINDOW_MINUTES * 60000)) (db_of w) < LOGIN_IP_LIMIT
    \<and> recent_failures (js ''email'') emailHash (iso (clock E (Suc (calls w)) - LOGIN_WINDOW_MINUTES * 60000)) (db_of w) < LOGIN_EMAIL_LIMIT"
proof -
  obtain w1 body password ipHash emailHash a w2 ready where
    "initialized E w = (Inr ready, w1)" and pure: "requireOrigin E r = Inr ()" "readJson E r 16384 = Inr body"
    "boundedPassword E (body_get body ''password'') = Inr password" "requestIpHash E r = Inr ipHash"
    "subjectHash E (js ''email'') (normalizeEmail (uni (plat E)) (body_get body ''email'')) = Inr emailHash"
    and auth: "authenticate E (normalizeEmail (uni (plat E)) (body_get body ''email'')) password ipHash emailHash w1 = (Inr a, w2)"
    using assms(2) unfolding login_def Let_def by (auto elim!: bindE_InrE)
  then have "db_of w1 = db_of w" "calls w1 = Suc (calls w)"
    using assms(1) by (auto simp: initialized_def elim!: select_InrE)
  with authenticate_run [OF assms(1) auth] pure show ?thesis by auto
qed

text \<open>
  C11. A login that is answered with a session has shown the password of an administrator: it came from the
  application's origin, the account it names exists and is not disabled, the digest of the password with the account's salt and
  scheme is the stored one, and neither the address nor the account had reached its limit of recent failures.
\<close>

theorem login_needs_password:
  assumes "quiet E" "login E r w = (Inr resp, w')"
  shows "\<exists>body password ipHash emailHash a. readJson E r 16384 = Inr body \<and> boundedPassword E (body_get body ''password'') = Inr password
    \<and> requireOrigin E r = Inr () \<and> requestIpHash E r = Inr ipHash
    \<and> subjectHash E (js ''email'') (normalizeEmail (uni (plat E)) (body_get body ''email'')) = Inr emailHash
    \<and> a \<in> set (admins (db_of w)) \<and> nocase (ad_email a) = nocase (normalizeEmail (uni (plat E)) (body_get body ''email''))
    \<and> \<not> ad_disabled a \<and> password_matches E a password = Inr True
    \<and> recent_failures (js ''ip'') ipHash (iso (clock E (Suc (calls w)) - LOGIN_WINDOW_MINUTES * 60000)) (db_of w) < LOGIN_IP_LIMIT
    \<and> recent_failures (js ''email'') emailHash (iso (clock E (Suc (calls w)) - LOGIN_WINDOW_MINUTES * 60000)) (db_of w) < LOGIN_EMAIL_LIMIT"
  using assms by (rule login_run)

section \<open>The change of a password\<close>

lemma timingSafeEqual_refl: "timingSafeEqual a a"
  by (simp add: timingSafeEqual_def Let_def foldl_or_eq_0_iff)

lemma new_password_matches:
  assumes "passwordDigest E password salt n = Inr hash"
  shows "password_matches E (a\<lparr>ad_hash := hash, ad_salt := base64Url salt, ad_iterations := n, ad_scheme := PASSWORD_SCHEME_V1, ad_updated_at := ts\<rparr>) password
    = Inr True"
  using assms by (simp add: password_matches_def base64UrlToBytes_base64Url stored_digest_def adminUsesV1Scheme_def timingSafeEqual_refl)

lemma update_accounts_Inr:
  "void (update_admins p f) d = (Inr u, d') \<Longrightarrow> d' = d\<lparr>admins := map_rows p f (admins d)\<rparr>"
  "void (update_sessions q g) d = (Inr u, d') \<Longrightarrow> d' = d\<lparr>sessions := map_rows (q d) g (sessions d)\<rparr>"
  by (auto simp: void_def update_admins_def update_sessions_def constrained_def split: if_splits)

text \<open>
  C12. A change of the password that succeeds has verified the current password of an active account, and leaves an
  account that accepts the new password, with every session of its owner revoked and every other account as it was.
\<close>

theorem password_change:
  assumes "quiet E" "changePassword E r u w = (Inr resp, w')"
  shows "\<exists>body current new a. readJson E r 16384 = Inr body \<and> boundedPassword E (body_get body ''current_password'') = Inr current
    \<and> boundedPassword E (body_get body ''new_password'') = Inr new \<and> validatePassword E new = Inr ()
    \<and> a \<in> set (admins (db_of w)) \<and> ad_id a = us_admin u \<and> \<not> ad_disabled a \<and> password_matches E a current = Inr True
    \<and> (\<forall>s \<in> set (sessions (db_of w')). s_admin s = us_admin u \<longrightarrow> s_revoked_at s \<noteq> None)
    \<and> (\<forall>b \<in> set (admins (db_of w')). if ad_id b = us_admin u then password_matches E b new = Inr True else b \<in> set (admins (db_of w)))"
proof -
  obtain body current new found w1 where pure: "readJson E r 16384 = Inr body" "boundedPassword E (body_get body ''current_password'') = Inr current"
    "boundedPassword E (body_get body ''new_password'') = Inr new" "validatePassword E new = Inr ()"
    and find: "select E (\<lambda>d. find (\<lambda>a. ad_id a = us_admin u \<and> \<not> ad_disabled a) (admins d)) w = (Inr found, w1)"
    and change: "change_found E r u current new found w1 = (Inr resp, w')"
    using assms(2) unfolding changePassword_def by (auto elim!: bindE_InrE)
  from select_step [OF assms(1) find] have d1: "db_of w1 = db_of w" "found = find (\<lambda>a. ad_id a = us_admin u \<and> \<not> ad_disabled a) (admins (db_of w))"
    by simp_all
  obtain a where a: "found = Some a" using change by (cases found) (simp_all add: change_found_def)
  then have row: "a \<in> set (admins (db_of w))" "ad_id a = us_admin u" "\<not> ad_disabled a" using d1(2) by (auto simp: find_Some_iff in_set_conv_nth)
  let ?n = "passwordIterations E"
  define salt where "salt = random_at E (draws w1) 16"
  define ts where "ts = iso (clock E (calls w1))"
  define w2 where "w2 = w1\<lparr>draws := Suc (draws w1)\<rparr>"
  obtain hash v w3 v' where matches: "password_matches E a current = Inr True" and digest: "passwordDigest E new salt ?n = Inr hash"
    and commit: "batch E (new_password_statements E u hash salt ts) w2 = (Inr v, w3)"
    and log: "audit E r (Some u) (js ''auth_password_changed'') (js ''admin'') (us_admin u) None [] w3 = (Inr v', w')"
    using change unfolding a change_found_def salt_def ts_def w2_def by (auto elim!: bindE_InrE simp: getRandomValues_def)
  have w2: "db_of w2 = db_of w1" by (simp add: w2_def)
  let ?f = "\<lambda>x. x\<lparr>ad_hash := hash, ad_salt := base64Url salt, ad_iterations := ?n, ad_scheme := PASSWORD_SCHEME_V1, ad_updated_at := ts\<rparr>"
  let ?as = "map_rows (\<lambda>x. ad_id x = us_admin u) ?f (admins (db_of w))"
    and ?ss = "map_rows (\<lambda>s. s_admin s = us_admin u) (revoke ts) (sessions (db_of w))"
  have "transaction (new_password_statements E u hash salt ts) (db_of w) = (Inr v, db_of w3)"
    using external_step [OF assms(1) commit [unfolded batch_def]] w2 d1 by simp
  then have "db_of w3 = (db_of w)\<lparr>admins := ?as, sessions := ?ss\<rparr>"
    unfolding transaction_def new_password_statements_def
    by (auto split: prod.splits sum.splits dest!: update_accounts_Inr)
  moreover have "audit_step (db_of w3) (db_of w')" by (rule audit_only [OF assms(1) log])
  ultimately have d: "admins (db_of w') = ?as" "sessions (db_of w') = ?ss" by (auto simp: audit_step_def)
  have "s_revoked_at s \<noteq> None" if mem: "s \<in> set ?ss" and own: "s_admin s = us_admin u" for s
  proof -
    obtain x where "s = (if s_admin x = us_admin u then revoke ts x else x)" using mem unfolding in_map_rows by blast
    then show ?thesis using own by (cases "s_admin x = us_admin u") (simp_all add: revoke_def)
  qed
  moreover have "if ad_id b = us_admin u then password_matches E b new = Inr True else b \<in> set (admins (db_of w))" if mem: "b \<in> set ?as" for b
  proof -
    obtain x where "x \<in> set (admins (db_of w))" "b = (if ad_id x = us_admin u then ?f x else x)" using mem unfolding in_map_rows by blast
    then show ?thesis using new_password_matches [OF digest] by (cases "ad_id x = us_admin u") simp_all
  qed
  ultimately show ?thesis unfolding d using pure row matches by blast
qed

section \<open>Examples\<close>

text \<open>A signed-in browser: its session, its administrator, and a request that carries the cookie.\<close>

definition app_env :: env where
  "app_env = example_env\<lparr>var := (\<lambda>name. if name = ''APP_ORIGIN'' then JStr (js ''https://m.example'')
     else if name = ''ADMIN_BOOTSTRAP_TOKEN'' then JStr (js ''setup'') else if name = ''AUTH_PEPPER'' then JStr (replicate 32 112) else JUndef)\<rparr>"

definition example_session :: session where
  "example_session = \<lparr> s_id = js ''s1'', s_admin = js ''a1'', s_token_hash = sha256_text app_env (js ''tok''), s_csrf = js ''csrf'',
     s_ip_hash = None, s_agent_hash = None, s_created_at = iso 1700000001000, s_last_seen_at = iso 1700000001000,
     s_expires_at = iso 1700000002000, s_revoked_at = None \<rparr>"

definition owner :: admin where
  "owner = \<lparr> ad_id = js ''a1'', ad_email = js ''a@b.cc'',
     ad_hash = (case passwordDigest app_env (js ''correct horse battery'') [1] 8000 of Inr h \<Rightarrow> h | Inl _ \<Rightarrow> []), ad_salt = base64Url [1],
     ad_iterations = 8000, ad_scheme = PASSWORD_SCHEME_V1, ad_disabled = False, ad_created_at = js ''2023'', ad_updated_at = js ''2023'',
     ad_last_login_at = None \<rparr>"

definition account_db :: db where
  "account_db = empty_db\<lparr>admins := [owner], sessions := [example_session]\<rparr>"

definition app_request :: "string \<Rightarrow> string \<Rightarrow> (string \<times> string) list \<Rightarrow> bytes \<Rightarrow> http_request" where
  "app_request method path headers body = example_request\<lparr>rq_method := js method, rq_path := js path,
     rq_headers := map (\<lambda>(k, v). (js k, js v)) ((''Origin'', ''https://m.example'') # headers), rq_body := body\<rparr>"

definition signed_in :: http_request where
  "signed_in = app_request ''POST'' ''/api/admin/mail/auth/password'' [(''Cookie'', ''__Host-mailbox_session=tok''), (''X-CSRF-Token'', ''csrf'')] []"

lemma app_env_ok: "quiet app_env" "reliable app_env"
  by (simp_all add: app_env_def example_env_def quiet_def reliable_def)

lemma signed_in_headers:
  "rq_headers signed_in = [(js ''Origin'', js ''https://m.example''), (js ''Cookie'', js ''__Host-mailbox_session=tok''), (js ''X-CSRF-Token'', js ''csrf'')]"
  by (simp add: signed_in_def app_request_def)

lemma signed_in_values:
  "header_text signed_in ''Cookie'' = js ''__Host-mailbox_session=tok''" "csrf_header signed_in = js ''csrf''"
proof -
  have "header_of [(js ''Origin'', js ''https://m.example''), (js ''Cookie'', js ''__Host-mailbox_session=tok''), (js ''X-CSRF-Token'', js ''csrf'')] (js ''Cookie'')
      = Some (js ''__Host-mailbox_session=tok'')" by code_simp
  then show "header_text signed_in ''Cookie'' = js ''__Host-mailbox_session=tok''"
    by (simp add: header_text_def request_header_def signed_in_headers)
  have "header_of [(js ''Origin'', js ''https://m.example''), (js ''Cookie'', js ''__Host-mailbox_session=tok''), (js ''X-CSRF-Token'', js ''csrf'')] (js ''X-CSRF-Token'')
      = Some (js ''csrf'')" by code_simp
  then show "csrf_header signed_in = js ''csrf''"
    by (simp add: csrf_header_def header_text_def request_header_def signed_in_headers)
qed

lemma signed_in_cookie: "cookieMap signed_in SESSION_COOKIE_NAME = Some (js ''tok'')"
proof -
  have "cookie_part (js ''__Host-mailbox_session=tok'') = Some (SESSION_COOKIE_NAME, js ''tok'')" by code_simp
  moreover have "split_at 59 (js ''__Host-mailbox_session=tok'') = [js ''__Host-mailbox_session=tok'']" by code_simp
  ultimately show ?thesis by (simp add: cookieMap_def signed_in_values)
qed

lemma example_session_live:
  "\<not> idle app_env example_session 1700000001000" "\<not> unseen app_env example_session 1700000001000"
  "\<not> s_expires_at example_session \<le> iso 1700000001000"
proof -
  have era: "in_era 1700000001000" "in_era 1700000002000" by (simp_all add: in_era_def era_ms_def epoch_day_def day_ms_def year_start_def)
  then have "date_parse ext (iso 1700000001000) = Some 1700000001000" for ext by (simp add: date_parse_iso)
  then show "\<not> idle app_env example_session 1700000001000" "\<not> unseen app_env example_session 1700000001000"
    by (simp_all add: idle_def unseen_def example_session_def)
  show "\<not> s_expires_at example_session \<le> iso 1700000001000"
    using era by (simp add: example_session_def iso_le_iff)
qed

lemma signed_in_session:
  "\<exists>w'. requireSession app_env signed_in True (start_world account_db) = (Inr (session_user (example_session, owner)), w')"
proof -
  obtain h where ua: "userAgentHash app_env signed_in = Inr h"
  proof -
    have "requireAuthPepper app_env = Inr (replicate 32 112)" by code_simp
    then show thesis using that by (simp add: userAgentHash_def)
  qed
  have origin: "requireOrigin app_env signed_in = Inr ()" by code_simp
  have row: "session_row (sha256_text app_env (js ''tok'')) account_db = Some (example_session, owner)"
    by (simp add: session_row_def account_db_def example_session_def owner_def)
  have clock: "clock app_env (Suc 0) = 1700000001000" by (simp add: app_env_def example_env_def)
  have agent: "\<not> wrong_agent example_session h" "\<not> ad_disabled owner" by (simp_all add: wrong_agent_def filled_def coalesce_def example_session_def owner_def)
  have "\<exists>w'. getSession app_env signed_in (start_world account_db) = (Inr (Some (session_user (example_session, owner))), w')"
    using app_env_ok
    by (simp add: getSession_def signed_in_cookie act_simps select_quiet row clock agent ua example_session_live)
  then show ?thesis
    by (auto simp: requireSession_def act_simps origin signed_in_values session_user_def example_session_def timingSafeEqual_refl)
qed

theorem session_guard_witness:
  "\<exists>u w'. requireSession app_env signed_in True (start_world account_db) = (Inr u, w')
     \<and> (\<exists>s a. accepted_session app_env signed_in (clock app_env 1) account_db s a \<and> us_admin u = ad_id a)"
proof -
  obtain w' where run: "requireSession app_env signed_in True (start_world account_db) = (Inr (session_user (example_session, owner)), w')"
    using signed_in_session by blast
  from session_guard [OF run] run app_env_ok show ?thesis by fastforce
qed

theorem api_guard_witness:
  "\<exists>e w'. handleApi app_env (app_request ''GET'' ''/api/admin/mail/config'' [] []) (start_world account_db) = (Inl e, w') \<and> effects w' = []"
proof -
  let ?r = "app_request ''GET'' ''/api/admin/mail/config'' [] []"
  have route: "find_route (map upper_unit (rq_method ?r)) (internalApiPath (rq_path ?r)) = Some R_Config"
  proof -
    have "find_route (map upper_unit (js ''GET'')) (internalApiPath (js ''/api/admin/mail/config'')) = Some R_Config" by code_simp
    then show ?thesis by (simp add: app_request_def)
  qed
  have "cookieMap ?r SESSION_COOKIE_NAME = None"
  proof -
    have "header_of [(js ''Origin'', js ''https://m.example'')] (js ''Cookie'') = None" by code_simp
    then have "header_text ?r ''Cookie'' = []" by (simp add: header_text_def request_header_def app_request_def)
    then show ?thesis by (simp add: cookieMap_def cookie_part_def)
  qed
  then have "\<not> accepted_session app_env ?r t d s a" for t d s a by (simp add: accepted_session_def)
  with api_guard [OF app_env_ok(1) route, of "start_world account_db"] show ?thesis by (fastforce simp: open_routes_def)
qed

text \<open>Reading back a JSON body that is plain ASCII.\<close>

lemma readJson_text:
  assumes "v = JObj kvs" "json_ok v" "ascii_text (json_text v)" "length (json_text v) = n" "n \<le> m" "rq_body r = utf8 (json_text v)"
    "header_text r ''Content-Length'' = []"
  shows "readJson E r m = Inr v"
proof -
  obtain t where t: "json_stringify v = Some t" "json_parse (num_text (plat E)) t = Some v" using json_round_trip [OF assms(2)] by blast
  have "length (rq_body r) = n" using assms(3,4,6) by (simp add: utf8_ascii)
  moreover have "text_decode (rq_body r) = t" using assms(3,6) t(1) text_decode_utf8 by (simp add: json_text_def)
  moreover have "rq_body r \<noteq> []" using calculation t by (auto simp: text_decode_def json_parse_empty)
  moreover have "parse_int (js ''0'') = Some 0" by code_simp
  ultimately show ?thesis using assms(1,5,7) t(2) by (simp add: readJson_def or_else_def)
qed

definition login_body :: jsval where
  "login_body = obj [(''email'', JStr (js ''a@b.cc'')), (''password'', JStr (js ''correct horse battery''))]"

definition login_request :: http_request where
  "login_request = app_request ''POST'' ''/api/admin/mail/auth/login'' [] (utf8 (json_text login_body))"

definition login_db :: db where
  "login_db = empty_db\<lparr>admins := [owner]\<rparr>"

lemma login_request_body: "readJson app_env login_request 16384 = Inr login_body"
proof (rule readJson_text)
  show "login_body = JObj [(js ''email'', JStr (js ''a@b.cc'')), (js ''password'', JStr (js ''correct horse battery''))]"
    by (simp add: login_body_def obj_def)
  show "json_ok login_body" by (simp add: login_body_def obj_def)
  show "ascii_text (json_text login_body)" by code_simp
  show "length (json_text login_body) = 53" by code_simp
  show "rq_body login_request = utf8 (json_text login_body)" by (simp add: login_request_def app_request_def)
  have "header_of [(js ''Origin'', js ''https://m.example'')] (js ''Content-Length'') = None" by code_simp
  then show "header_text login_request ''Content-Length'' = []" by (simp add: header_text_def request_header_def login_request_def app_request_def)
qed simp

lemma app_pepper: "requireAuthPepper app_env = Inr (replicate 32 112)"
  by code_simp

lemma app_digest: "\<exists>h. passwordDigest app_env p salt n = Inr h" "\<exists>h. requestIpHash app_env r = Inr h"
  "\<exists>h. userAgentHash app_env r = Inr h" "\<exists>h. subjectHash app_env s v = Inr h"
  by (simp_all add: passwordDigest_def requestIpHash_def userAgentHash_def subjectHash_def app_pepper Let_def)

lemma owner_password: "password_matches app_env owner (js ''correct horse battery'') = Inr True"
proof -
  obtain h where "passwordDigest app_env (js ''correct horse battery'') [1] 8000 = Inr h" using app_digest(1) by blast
  then show ?thesis
    by (simp add: password_matches_def owner_def base64UrlToBytes_base64Url stored_digest_def adminUsesV1Scheme_def timingSafeEqual_refl)
qed

text \<open>The one administrator with some attempts and sessions.\<close>

definition owner_db :: "attempt list \<Rightarrow> session list \<Rightarrow> admin \<Rightarrow> db" where
  "owner_db xs ss a = empty_db\<lparr>admins := [a], attempts := xs, sessions := ss\<rparr>"

lemma owner_db_ok:
  assumes "ad_id a = ad_id owner" "ad_iterations a = 8000" "distinct (map au_id xs)" "\<forall>x \<in> set xs. au_scope x = js ''ip'' \<or> au_scope x = js ''email''"
    "distinct (map s_id ss)" "distinct (map s_token_hash ss)" "\<forall>s \<in> set ss. s_admin s = ad_id owner"
  shows "db_ok (owner_db xs ss a)"
  using assms by (simp add: db_ok_defs owner_db_def empty_db_def)

lemma owner_db_sel [simp]:
  "admins (owner_db xs ss a) = [a]" "attempts (owner_db xs ss a) = xs" "sessions (owner_db xs ss a) = ss"
  "(owner_db xs ss a)\<lparr>admins := [b]\<rparr> = owner_db xs ss b" "(owner_db xs ss a)\<lparr>attempts := ys\<rparr> = owner_db ys ss a"
  "(owner_db xs ss a)\<lparr>sessions := ts\<rparr> = owner_db xs ts a"
  by (simp_all add: owner_db_def empty_db_def)

lemma both_ok:
  assumes "a w = (Inr x, w1)" "b w1 = (Inr y, w2)"
  shows "both a b w = (Inr (x, y), w2)"
  using assms by (simp add: both_def act_simps)

lemma authenticate_owner:
  assumes "db_of w = owner_db [] [] owner" "draws w = 0"
  shows "\<exists>w' xs. authenticate app_env (js ''a@b.cc'') (js ''correct horse battery'') ip email w = (Inr owner, w')
    \<and> db_of w' = owner_db xs [] owner \<and> draws w' = 2 \<and> distinct (map au_id xs)
    \<and> (\<forall>x \<in> set xs. au_scope x = js ''ip'' \<or> au_scope x = js ''email'')"
proof -
  have v: "validEmail (js ''a@b.cc'')" by code_simp
  have e: "ad_email owner = js ''a@b.cc''" "\<not> ad_disabled owner" by (simp_all add: owner_def)
  have rate: "enforceLoginRateLimit app_env ip email w = (Inr (), step_db (step_db w (db_of w)) (db_of w))"
    using app_env_ok assms(1)
    by (simp add: enforceLoginRateLimit_def act_simps both_def select_quiet recent_failures_def count_rows_def throw_if_def Let_def
        LOGIN_IP_LIMIT_def LOGIN_EMAIL_LIMIT_def)
  let ?w = "step_db (step_db (step_db w (db_of w)) (db_of w)) (db_of w)"
  define ts where "ts = iso (clock app_env (calls ?w))"
  let ?x = "\<lparr> au_id = uuid_at app_env 0, au_scope = js ''ip'', au_subject = ip, au_success = True, au_created_at = ts \<rparr>"
    and ?y = "\<lparr> au_id = uuid_at app_env (Suc 0), au_scope = js ''email'', au_subject = email, au_success = True, au_created_at = ts \<rparr>"
  have "uuid_at app_env 0 = js ''id-0''" "uuid_at app_env (Suc 0) = js ''id-1''" by code_simp+
  then have d: "uuid_at app_env 0 \<noteq> uuid_at app_env (Suc 0)" by simp
  have ok: "db_ok (owner_db [?x] [] owner)" "db_ok (owner_db [?x, ?y] [] owner)"
    by (rule owner_db_ok; simp add: owner_def d)+
  have "\<exists>w'. recordAttempts app_env ip email True ?w = (Inr (), w') \<and> db_of w' = owner_db [?x, ?y] [] owner \<and> draws w' = 2"
    using app_env_ok assms ok
    by (simp add: recordAttempts_def attempt_row_def act_simps both_def external_quiet insert_attempt_def constrained_def ts_def)
  then obtain w' where rec: "recordAttempts app_env ip email True ?w = (Inr (), w')" "db_of w' = owner_db [?x, ?y] [] owner" "draws w' = 2"
    by blast
  have "authenticate app_env (js ''a@b.cc'') (js ''correct horse battery'') ip email w = (Inr owner, w')"
    using app_env_ok assms(1)
    by (simp add: authenticate_def act_simps rate v select_quiet e login_valid_def owner_password rec(1) [unfolded assms(1)] del: step_db_sel(2))
  then show ?thesis using rec(2,3) d by (intro exI [of _ w'] exI [of _ "[?x, ?y]"]) simp
qed


lemma batch_quiet:
  "quiet E \<Longrightarrow> reliable E \<Longrightarrow> transaction ss (db_of w) = (Inr x, d) \<Longrightarrow> batch E ss w = (Inr x, step_db w d)"
  by (simp add: batch_def external_quiet)

lemma no_surrogate: "(c :: code_unit) < 128 \<Longrightarrow> \<not> high_surrogate c \<and> \<not> low_surrogate c"
  by (auto simp: high_surrogate_def low_surrogate_def word_le_nat_alt word_less_nat_alt)

lemma well_formed_low: "\<forall>c \<in> set s. c < 128 \<Longrightarrow> well_formed s"
proof (induction s rule: well_formed.induct)
  case (2 c cs)
  then show ?case using no_surrogate [of c] by simp
qed simp

lemma well_formed_token: "well_formed (base64Url bs)"
proof (rule well_formed_low)
  have "c < 128" if "c \<in> b64url_chars" for c
    using that by (auto simp: b64url_chars_def unit_class_defs word_le_nat_alt word_less_nat_alt)
  then show "\<forall>c \<in> set (base64Url bs). c < 128" using set_base64Url [of bs] by blast
qed

lemma createSession_owner:
  assumes "db_of w = owner_db xs [] owner" "draws w = 2" "distinct (map au_id xs)"
    "\<forall>x \<in> set xs. au_scope x = js ''ip'' \<or> au_scope x = js ''email''"
  shows "\<exists>resp w'. createSession app_env r (js ''a1'') email w = (Inr resp, w')"
proof -
  obtain ipHash uaHash where hashes: "requestIpHash app_env r = Inr ipHash" "userAgentHash app_env r = Inr uaHash" using app_digest by blast
  define token where "token = base64Url (random_at app_env 2 32)"
  define csrf where "csrf = base64Url (random_at app_env 3 24)"
  define w3 where "w3 = w\<lparr>draws := 5\<rparr>"
  define t where "t = clock app_env (calls w)"
  define age where "age = sessionHours app_env * 60 * 60"
  define s where "s = \<lparr> s_id = uuid_at app_env 4, s_admin = js ''a1'', s_token_hash = sha256_text app_env token, s_csrf = csrf,
          s_ip_hash = Some ipHash, s_agent_hash = Some uaHash, s_created_at = iso t, s_last_seen_at = iso t,
          s_expires_at = iso (t + age * 1000), s_revoked_at = None \<rparr>"
  define a where "a = owner\<lparr>ad_last_login_at := Some (iso t), ad_updated_at := iso t\<rparr>"
  have ok: "db_ok (owner_db xs [s] b)" if "b \<in> {a, owner}" for b
    using assms(3,4) that by (intro owner_db_ok) (auto simp: a_def s_def owner_def)
  have draws: "randomToken app_env 32 w = (Inr token, w\<lparr>draws := 3\<rparr>)" "randomToken app_env 24 (w\<lparr>draws := 3\<rparr>) = (Inr csrf, w\<lparr>draws := 4\<rparr>)"
    "uuid app_env (w\<lparr>draws := 4\<rparr>) = (Inr (uuid_at app_env 4), w3)" "now app_env w3 = (Inr (iso t), w3)" "date_now app_env w3 = (Inr t, w3)"
    by (simp_all add: randomToken_def uuid_def now_def date_now_def assms(2) token_def csrf_def w3_def t_def)
  have row: "db_of w3 = owner_db xs [] owner" using assms(1) by (simp add: w3_def)
  let ?batch = "[insert_session s, void (update_admins (\<lambda>a. ad_id a = js ''a1'') (\<lambda>a. a\<lparr>ad_last_login_at := Some (iso t), ad_updated_at := iso t\<rparr>))]"
  have "transaction ?batch (db_of w3) = (Inr (), owner_db xs [s] a)"
    using ok [of owner] ok [of a] unfolding a_def
    by (simp add: transaction_def row insert_session_def void_def update_admins_def constrained_def owner_def)
  then have batch: "batch app_env ?batch w3 = (Inr (), step_db w3 (owner_db xs [s] a))"
    by (rule batch_quiet [OF app_env_ok])
  have "kept_sessions (js ''a1'') [s] = [s_id s]"
    by (simp add: kept_sessions_def MAX_ACTIVE_SESSIONS_def unrevoked_of_def s_def sort_desc_def)
  then have "\<exists>w'. trimSessions app_env (js ''a1'') (step_db w3 (owner_db xs [s] a)) = (Inr (), w')"
    using app_env_ok ok [of a]
    by (simp add: trimSessions_def act_simps external_quiet update_sessions_def constrained_def)
  then obtain w' where trim: "trimSessions app_env (js ''a1'') (step_db w3 (owner_db xs [s] a)) = (Inr (), w')" by blast
  obtain cookie where cookie: "sessionCookie token (nat age) = Inr cookie"
    by (simp add: sessionCookie_def token_def encode_uri_def well_formed_token)
  show ?thesis
    unfolding createSession_def Let_def
    using batch trim cookie
    by (simp add: act_simps draws hashes s_def age_def del: local_app)
qed

lemma login_owner: "\<exists>resp w'. login app_env login_request (start_world login_db) = (Inr resp, w')"
proof -
  have origin: "requireOrigin app_env login_request = Inr ()" by code_simp
  have vals: "body_get login_body ''email'' = JStr (js ''a@b.cc'')" "body_get login_body ''password'' = JStr (js ''correct horse battery'')"
    "normalizeEmail (uni (plat app_env)) (JStr (js ''a@b.cc'')) = js ''a@b.cc''"
    "boundedPassword app_env (JStr (js ''correct horse battery'')) = Inr (js ''correct horse battery'')"
    "passwordIterations app_env = 8000"
    by code_simp+
  obtain ip email where hashes: "requestIpHash app_env login_request = Inr ip" "subjectHash app_env (js ''email'') (js ''a@b.cc'') = Inr email"
    using app_digest by blast
  have db: "login_db = owner_db [] [] owner" by (simp add: login_db_def owner_db_def empty_db_def)
  let ?w = "step_db (start_world login_db) login_db"
  have ready: "initialized app_env (start_world login_db) = (Inr True, ?w)"
    using app_env_ok by (simp add: initialized_def select_quiet db)
  obtain w1 xs where auth: "authenticate app_env (js ''a@b.cc'') (js ''correct horse battery'') ip email ?w = (Inr owner, w1)"
    and w1: "db_of w1 = owner_db xs [] owner" "draws w1 = 2" "distinct (map au_id xs)" "\<forall>x \<in> set xs. au_scope x = js ''ip'' \<or> au_scope x = js ''email''"
    using authenticate_owner [of ?w ip email] db by auto
  obtain resp w' where session: "createSession app_env login_request (js ''a1'') (ad_email owner) w1 = (Inr resp, w')"
    using createSession_owner [OF w1] by blast
  have keep: "upgradePasswordHash app_env (js ''correct horse battery'') owner = returnE ()"
    by (simp add: upgradePasswordHash_def vals(5) owner_def adminUsesV1Scheme_def)
  have "ad_id owner = js ''a1''" by (simp add: owner_def)
  then show ?thesis
    using session by (simp add: login_def Let_def act_simps origin ready throw_if_def login_request_body vals hashes auth keep)
qed

theorem login_needs_password_witness:
  "\<exists>resp w' body password. login app_env login_request (start_world login_db) = (Inr resp, w')
     \<and> readJson app_env login_request 16384 = Inr body \<and> boundedPassword app_env (body_get body ''password'') = Inr password
     \<and> password_matches app_env owner password = Inr True"
proof -
  obtain resp w' where run: "login app_env login_request (start_world login_db) = (Inr resp, w')" using login_owner by blast
  have "admins (db_of (start_world login_db)) = [owner]" by (simp add: login_db_def)
  with login_needs_password [OF app_env_ok(1) run] run show ?thesis by (metis empty_iff insert_iff list.set)
qed

definition change_body :: jsval where
  "change_body = obj [(''current_password'', JStr (js ''correct horse battery'')), (''new_password'', JStr (js ''staple horse battery''))]"

definition change_request :: http_request where
  "change_request = app_request ''POST'' ''/api/admin/mail/auth/password'' [] (utf8 (json_text change_body))"

lemma change_request_body: "readJson app_env change_request 16384 = Inr change_body"
proof (rule readJson_text)
  show "change_body = JObj [(js ''current_password'', JStr (js ''correct horse battery'')), (js ''new_password'', JStr (js ''staple horse battery''))]"
    by (simp add: change_body_def obj_def)
  show "json_ok change_body" by (simp add: change_body_def obj_def)
  show "ascii_text (json_text change_body)" by code_simp
  show "length (json_text change_body) = 82" by code_simp
  show "rq_body change_request = utf8 (json_text change_body)" by (simp add: change_request_def app_request_def)
  have "header_of [(js ''Origin'', js ''https://m.example'')] (js ''Content-Length'') = None" by code_simp
  then show "header_text change_request ''Content-Length'' = []" by (simp add: header_text_def request_header_def change_request_def app_request_def)
qed simp

lemma change_owner: "\<exists>resp w'. changePassword app_env change_request example_user (start_world account_db) = (Inr resp, w')"
proof -
  let ?w = "step_db (start_world account_db) account_db"
  have vals: "body_get change_body ''current_password'' = JStr (js ''correct horse battery'')"
    "body_get change_body ''new_password'' = JStr (js ''staple horse battery'')"
    "boundedPassword app_env (JStr (js ''correct horse battery'')) = Inr (js ''correct horse battery'')"
    "boundedPassword app_env (JStr (js ''staple horse battery'')) = Inr (js ''staple horse battery'')"
    "validatePassword app_env (js ''staple horse battery'') = Inr ()"
    "\<not> timingSafeEqual (js ''correct horse battery'') (js ''staple horse battery'')" "passwordIterations app_env = 8000"
    by code_simp+
  have db: "account_db = owner_db [] [example_session] owner" by (simp add: account_db_def owner_db_def empty_db_def)
  have ids: "us_admin example_user = js ''a1''" "ad_id owner = js ''a1''" "\<not> ad_disabled owner" "s_admin example_session = js ''a1''"
    by (simp_all add: example_user_def owner_def example_session_def)
  define salt where "salt = random_at app_env 0 16"
  obtain hash where hash: "passwordDigest app_env (js ''staple horse battery'') salt 8000 = Inr hash" using app_digest(1) by blast
  define ts where "ts = iso (clock app_env 1)"
  define a where "a = owner\<lparr>ad_hash := hash, ad_salt := base64Url salt, ad_iterations := 8000, ad_scheme := PASSWORD_SCHEME_V1, ad_updated_at := ts\<rparr>"
  define w2 where "w2 = ?w\<lparr>draws := 1\<rparr>"
  have ok: "db_ok (owner_db [] [s] a)" if "s_admin s = js ''a1''" for s
    by (rule owner_db_ok) (simp_all add: a_def owner_def that)
  have row: "db_of w2 = owner_db [] [example_session] owner" by (simp add: w2_def db)
  have revoked: "s_admin (revoke ts example_session) = js ''a1''" by (simp add: revoke_def ids)
  have "transaction (new_password_statements app_env example_user hash salt ts) (db_of w2) = (Inr (), owner_db [] [revoke ts example_session] a)"
    using ok [OF ids(4)] ok [OF revoked] unfolding a_def
    by (simp add: transaction_def row new_password_statements_def void_def update_admins_def update_sessions_def constrained_def ids vals(7))
  then have batch: "batch app_env (new_password_statements app_env example_user hash salt ts) w2
      = (Inr (), step_db w2 (owner_db [] [revoke ts example_session] a))"
    by (rule batch_quiet [OF app_env_ok])
  have "refers (map_option us_admin (Some example_user)) (map ad_id (admins (db_of (step_db w2 (owner_db [] [revoke ts example_session] a)))))"
    by (simp add: refers_def a_def ids)
  then obtain w' where log: "audit app_env change_request (Some example_user) (js ''auth_password_changed'') (js ''admin'') (us_admin example_user) None []
      (step_db w2 (owner_db [] [revoke ts example_session] a)) = (Inr (), w')"
    using audit_returns [OF app_env_ok app_pepper] ok [OF revoked] by (metis step_db_sel(1))
  have draws: "getRandomValues app_env 16 ?w = (Inr salt, w2)" "now app_env w2 = (Inr ts, w2)"
    by (simp_all add: getRandomValues_def now_def salt_def ts_def w2_def)
  have "change_found app_env change_request example_user (js ''correct horse battery'') (js ''staple horse battery'') (Some owner) ?w
      = (Inr (ok_cleared [(''reauthenticate'', JBool True)]), w')"
    by (simp add: change_found_def act_simps owner_password throw_if_def draws hash vals(7) batch log del: local_app)
  then show ?thesis
    using app_env_ok by (simp add: changePassword_def act_simps change_request_body vals throw_if_def select_quiet db ids)
qed

theorem password_change_witness:
  "\<exists>resp w'. changePassword app_env change_request example_user (start_world account_db) = (Inr resp, w')
     \<and> (\<forall>s \<in> set (sessions (db_of w')). s_admin s = js ''a1'' \<longrightarrow> s_revoked_at s \<noteq> None)"
proof -
  obtain resp w' where run: "changePassword app_env change_request example_user (start_world account_db) = (Inr resp, w')" using change_owner by blast
  have "us_admin example_user = js ''a1''" by (simp add: example_user_def)
  with password_change [OF app_env_ok(1) run] run show ?thesis by metis
qed

end
