(* ===== verification/Receiving.thy ===== *)
theory Receiving
  imports Sending
begin

text \<open>
  What receiving a message guarantees: a message that is answered is archived, row and object, whatever its
  attachments do; and a message that is delivered again changes nothing but the attempts to forward it.
\<close>

section \<open>Frames\<close>

lemma triple_step:
  assumes "keeps P m" "\<And>x. triple P (f x) Q R" "\<And>e s. P s \<Longrightarrow> R e s"
  shows "triple P (bindE m f) Q R"
  by (rule triple_bind [OF triple_conseq [OF assms(1) [folded triple_keeps]] assms(2)]) (use assms(3) in auto)

lemma triple_of_keeps: "keeps P m \<Longrightarrow> (\<And>s. P s \<Longrightarrow> Q s) \<Longrightarrow> triple P m (\<lambda>_. Q) (\<lambda>_. Q)"
  by (auto simp: triple_def keeps_def split_beta split: sum.split)

lemma triple_if: "(c \<Longrightarrow> triple P m Q R) \<Longrightarrow> (\<not> c \<Longrightarrow> triple P n Q R) \<Longrightarrow> triple P (if c then m else n) Q R"
  by simp

lemma preserves_forwards:
  assumes "\<And>d fs. I (d\<lparr>forwards := fs\<rparr>) = I d"
  shows "preserves I (update_forwards p f)" "preserves I (insert_or_ignore (\<lambda>d. d\<lparr>forwards := g d\<rparr>))"
  unfolding update_forwards_def by (rule preserves_constrained_frame preserves_frame; simp add: assms)+

lemma keeps_forwarding_frame:
  assumes "stable E I" "\<And>d fs. I (d\<lparr>forwards := fs\<rparr>) = I d"
  shows "keeps (\<lambda>w. I (db_of w)) (forwardInboundCopies E im i to)"
proof -
  note rules = keeps_flow keeps_local keeps_select keeps_external keeps_forward_mail preserves_forwards assms
  have "keeps (\<lambda>w. I (db_of w)) (claim_one E i ts st t)" for ts st t
    unfolding claim_one_def claimTarget_def attemptStatus_def by (intro rules)
  moreover have "keeps (\<lambda>w. I (db_of w)) (forward_one E im i to counts t)" for counts t
    unfolding forward_one_def markForwardAccepted_def markFailed_def Let_def by (intro rules)
  moreover have "keeps (\<lambda>w. I (db_of w)) (ensureAttemptRows E i targets ts)" for targets ts
    unfolding ensureAttemptRows_def
    by (rule keeps_batch [OF assms(1)]) (auto intro!: preserves_void preserves_forwards assms(2))
  ultimately show ?thesis
    unfolding forwardInboundCopies_def claim_targets_def by (intro rules) assumption
qed

section \<open>A second delivery\<close>

text \<open>
  The database \<open>d\<close> holds what \<open>d0\<close> held, up to the object \<open>k\<close>, conversations without messages, and the attempts to forward.
\<close>

definition settled :: "db \<Rightarrow> jstr \<Rightarrow> db \<Rightarrow> bool" where
  "settled d0 k d \<longleftrightarrow> messages d = messages d0 \<and> attachments d = attachments d0 \<and> events d = events d0 \<and> mailboxes d = mailboxes d0
     \<and> (\<forall>j. j \<noteq> k \<longrightarrow> objects d j = objects d0 j)
     \<and> (\<forall>t \<in> set (threads d0). (\<exists>m \<in> set (messages d0). m_thread m = th_id t) \<longrightarrow> t \<in> set (threads d))"

lemma settled_refl: "settled d k d"
  by (simp add: settled_def)

lemma preserves_settled:
  "preserves (settled d0 k) (add_thread t)" "preserves (settled d0 k) (delete_thread_if_empty i)"
proof -
  show "preserves (settled d0 k) (add_thread t)"
    unfolding add_thread_def by (rule preserves_frame(5)) (simp add: settled_def)
  show "preserves (settled d0 k) (delete_thread_if_empty i)"
    by (auto simp: preserves_def delete_thread_if_empty_def delete_threads_def constrained_def settled_def list_ex_iff)
qed

lemma keeps_settled:
  assumes "quiet E"
  shows "keeps (\<lambda>w. settled d0 k (db_of w)) (drop_empty_thread E t)" "keeps (\<lambda>w. settled d0 k (db_of w)) (r2_remove E [k])"
    "keeps (\<lambda>w. settled d0 k (db_of w)) (archive_raw E t k raw)" "keeps (\<lambda>w. settled d0 k (db_of w)) (forwardInboundCopies E im i to)"
proof -
  note rules = keeps_flow keeps_external keeps_r2_call quiet_stable assms preserves_settled
  show drop: "keeps (\<lambda>w. settled d0 k (db_of w)) (drop_empty_thread E t)" for t unfolding drop_empty_thread_def by (intro rules)
  show "keeps (\<lambda>w. settled d0 k (db_of w)) (r2_remove E [k])"
    unfolding r2_remove_def by (intro rules) (simp add: settled_def r2_delete_def)
  have "keeps (\<lambda>w. settled d0 k (db_of w)) (putR2 E k raw)"
    unfolding putR2_def by (intro rules) (simp add: settled_def r2_put_def)
  then show "keeps (\<lambda>w. settled d0 k (db_of w)) (archive_raw E t k raw)"
    unfolding archive_raw_def by (intro rules drop)
  show "keeps (\<lambda>w. settled d0 k (db_of w)) (forwardInboundCopies E im i to)"
    by (rule keeps_forwarding_frame [OF quiet_stable [OF assms]]) (simp add: settled_def)
qed

lemma claim_taken:
  assumes "quiet E" "m_id m \<in> m_id ` set (messages d0)"
  shows "triple (\<lambda>w. settled d0 k (db_of w)) (claim_message E k m) (\<lambda>x w. settled d0 k (db_of w) \<and> \<not> x) (\<lambda>_ w. settled d0 k (db_of w))"
    (is "triple ?P _ ?Q ?R")
proof -
  have "add_message m d = (Inr 0, d)" if "settled d0 k d" for d
  proof -
    have "\<not> rows_ok (d\<lparr>messages := messages d @ [m]\<rparr>)" using that assms(2) by (simp add: settled_def rows_ok_def message_rows_ok_def)
    then show ?thesis by (simp add: add_message_def insert_or_ignore_def Let_def)
  qed
  then have add: "triple ?P (external E (add_message m)) (\<lambda>x w. ?P w \<and> x = 0) ?R"
    using assms(1) by (auto simp: triple_def external_def Let_def split: fault.split)
  have undo: "keeps ?P (bindE (ignoreE (r2_remove E [k])) (\<lambda>_. bindE (drop_empty_thread E (m_thread m)) (\<lambda>_. throwE e)))" for e
    by (intro keeps_flow keeps_settled assms(1))
  have find: "keeps ?P (findMessage E i)" for i
    unfolding findMessage_def by (intro keeps_select quiet_stable assms(1))
  show ?thesis
    unfolding claim_message_def
  proof (rule triple_catch, rule triple_bind [OF add], rule triple_pure)
    show "triple ?P (bindE (ignoreE (r2_remove E [k])) (\<lambda>_. bindE (drop_empty_thread E (m_thread m)) (\<lambda>_. throwE e))) ?Q ?R" for e
      by (rule triple_step, intro keeps_flow keeps_settled assms(1), rule triple_step, intro keeps_settled assms(1), rule triple_throw) simp_all
    show "triple ?P (if x = 1 then returnE True else bindE (findMessage E (m_id m)) (\<lambda>existing. bindE (throw_if (existing = None) claim_failed) (\<lambda>_. returnE False)))
        ?Q ?R" if "x = 0" for x :: nat
      by (simp add: that, rule triple_step [OF find], rule triple_step, rule keeps_throw_if, rule triple_return) simp_all
  qed
qed

text \<open>The name that the next delivery gives to the raw message, from the random bytes it draws.\<close>

definition drawn_name :: "env \<Rightarrow> nat \<Rightarrow> jstr" where
  "drawn_name E n = js ''original-'' @ base64Url (random_at E n 12) @ js ''.eml''"

lemma keeps_draws:
  "keeps (\<lambda>w. draws w = n) (external E s)" "keeps (\<lambda>w. draws w = n) (select E f)" "keeps (\<lambda>w. draws w = n) (now E)"
  "keeps (\<lambda>w. draws w = n) (returnE x)"
  by (auto simp: keeps_def external_def select_def now_def date_now_def bindE_def returnE_def Let_def split: fault.split prod.split)

lemma keeps_conj: "keeps P m \<Longrightarrow> keeps Q m \<Longrightarrow> keeps (\<lambda>w. P w \<and> Q w) m"
  by (simp add: keeps_def)

lemma redelivery:
  assumes "quiet E" "inbound_id E b (im_raw im) \<in> m_id ` set (messages d0)"
  shows "triple (\<lambda>w. (\<forall>k. settled d0 k (db_of w)) \<and> draws w = n) (receive E im b)
      (\<lambda>_ w. \<exists>t. settled d0 (path_at t (js ''incoming'') b (inbound_id E b (im_raw im)) (drawn_name E n)) (db_of w))
      (\<lambda>_ w. \<exists>t. settled d0 (path_at t (js ''incoming'') b (inbound_id E b (im_raw im)) (drawn_name E n)) (db_of w))"
    (is "triple ?P _ ?Q ?Q'")
proof -
  let ?parsed = "parse_inbound E (im_raw im)" and ?i = "inbound_id E b (im_raw im)"
  let ?k = "\<lambda>t. path_at t (js ''incoming'') b ?i (drawn_name E n)"
  let ?rest = "\<lambda>t ts k. bindE (archive_raw E t k (im_raw im)) (\<lambda>_.
      bindE (claim_message E k (inbound_row E im b ?parsed t k ts)) (\<lambda>inserted.
      if inserted then finish_inbound E im b ?parsed (inbound_row E im b ?parsed t k ts) ts
      else bindE (ignoreE (r2_remove E [k])) (\<lambda>_. bindE (drop_empty_thread E t)
        (\<lambda>_. forwardInboundCopies E im ?i (m_to (inbound_row E im b ?parsed t k ts))))))"
  have rest: "triple (\<lambda>w. settled d0 k (db_of w)) (?rest t ts k) (\<lambda>_ w. settled d0 k (db_of w)) (\<lambda>_ w. settled d0 k (db_of w))" for t k ts
  proof (rule triple_step [OF keeps_settled(3) [OF assms(1)]], rule triple_bind)
    let ?m = "inbound_row E im b ?parsed t k ts"
    have "m_id ?m \<in> m_id ` set (messages d0)" using assms(2) by (simp add: inbound_row_def Let_def)
    then show "triple (\<lambda>w. settled d0 k (db_of w)) (claim_message E k ?m) (\<lambda>x w. settled d0 k (db_of w) \<and> \<not> x) (\<lambda>_ w. settled d0 k (db_of w))"
      by (rule claim_taken [OF assms(1)])
    have "triple (\<lambda>w. settled d0 k (db_of w)) (bindE (ignoreE (r2_remove E [k])) (\<lambda>_. bindE (drop_empty_thread E t)
        (\<lambda>_. forwardInboundCopies E im ?i to))) (\<lambda>_ w. settled d0 k (db_of w)) (\<lambda>_ w. settled d0 k (db_of w))" for to
      unfolding triple_keeps by (intro keeps_flow keeps_settled assms(1))
    then show "triple (\<lambda>w. settled d0 k (db_of w) \<and> \<not> inserted) (if inserted then finish_inbound E im b ?parsed ?m ts
        else bindE (ignoreE (r2_remove E [k])) (\<lambda>_. bindE (drop_empty_thread E t) (\<lambda>_. forwardInboundCopies E im ?i (m_to ?m))))
        (\<lambda>_ w. settled d0 k (db_of w)) (\<lambda>_ w. settled d0 k (db_of w))" for inserted
      by (cases inserted) (simp_all add: triple_def)
  qed blast
  have keep: "keeps ?P (now E)" "keeps ?P (threadFromHeaders E r refs b)" "keeps ?P (createThreadPlaceholder E t mb ts)" for r refs t mb ts
  proof -
    have "preserves (\<lambda>d. \<forall>k. settled d0 k d) (add_thread u)" for u
      using preserves_settled(1) by (simp add: preserves_def)
    then show "keeps ?P (now E)" "keeps ?P (threadFromHeaders E r refs b)" "keeps ?P (createThreadPlaceholder E t mb ts)"
      unfolding threadFromHeaders_def createThreadPlaceholder_def Let_def
      by (intro keeps_flow keeps_conj keeps_draws keeps_local keeps_select keeps_external quiet_stable assms(1) | assumption)+
  qed
  have name: "triple ?P (incomingRawObjectName E) (\<lambda>x w. (\<forall>k. settled d0 k (db_of w)) \<and> x = drawn_name E n) ?Q'"
    by (auto simp: triple_def incomingRawObjectName_def randomToken_def bindE_def returnE_def drawn_name_def)
  have key: "triple (\<lambda>w. \<forall>k. settled d0 k (db_of w)) (objectPath E (js ''incoming'') b ?i (drawn_name E n))
      (\<lambda>k w. (\<forall>k. settled d0 k (db_of w)) \<and> (\<exists>t. k = ?k t)) ?Q'"
    by (auto simp: triple_def objectPath_def bindE_def date_now_def returnE_def)
  have final: "triple (\<lambda>w. (\<forall>k. settled d0 k (db_of w)) \<and> (\<exists>t. k = ?k t)) (?rest t ts k) ?Q ?Q'" for t ts k
    by (rule triple_pure, elim exE, hypsubst, rule triple_conseq [OF rest]) blast+
  have start: "\<And>(e :: exn) s. ?P s \<Longrightarrow> ?Q' e s" by blast
  show ?thesis
    unfolding receive_def Let_def
    by (rule triple_step [OF keep(1) _ start], rule triple_step [OF keep(2) _ start], rule triple_step [OF keep(3) _ start],
        rule triple_bind [OF name], rule triple_pure, hypsubst, rule triple_bind [OF key], rule final)
qed

text \<open>
  C9. Delivering a message again changes nothing but the attempts to forward it, whether or not calls fail: the messages,
  attachments, events and mailboxes are the same, no conversation with messages changes, and every archived object
  is as it was, except possibly the one whose name carries the random part that this delivery drew. As long as no object
  under that random part is stored, no stored object is lost or changed: in particular not the one that the first delivery archived.
\<close>

theorem redelivery_changes_nothing:
  assumes "quiet E" "m \<in> set (messages (db_of w))" "m_id m = inbound_id E mailboxId (im_raw im)" "receive E im mailboxId w = (z, w')"
    and "name = js ''original-'' @ base64Url (random_at E (draws w) 12) @ js ''.eml''"
  shows "messages (db_of w') = messages (db_of w) \<and> attachments (db_of w') = attachments (db_of w)
    \<and> events (db_of w') = events (db_of w) \<and> mailboxes (db_of w') = mailboxes (db_of w)
    \<and> (\<forall>t \<in> set (threads (db_of w)). (\<exists>x \<in> set (messages (db_of w)). m_thread x = th_id t) \<longrightarrow> t \<in> set (threads (db_of w')))
    \<and> (\<exists>t. \<forall>j. j \<noteq> path_at t (js ''incoming'') mailboxId (inbound_id E mailboxId (im_raw im)) name
          \<longrightarrow> objects (db_of w') j = objects (db_of w) j)
    \<and> ((\<forall>t. objects (db_of w) (path_at t (js ''incoming'') mailboxId (inbound_id E mailboxId (im_raw im)) name) = None)
        \<longrightarrow> (\<forall>j v. objects (db_of w) j = Some v \<longrightarrow> objects (db_of w') j = Some v))"
proof -
  have taken: "inbound_id E mailboxId (im_raw im) \<in> m_id ` set (messages (db_of w))"
    using assms(2,3) by (metis imageI)
  have drawn: "name = drawn_name E (draws w)" by (simp add: assms(5) drawn_name_def)
  have start: "(\<forall>k. settled (db_of w) k (db_of w)) \<and> draws w = draws w" by (simp add: settled_refl)
  have "\<exists>t. settled (db_of w) (path_at t (js ''incoming'') mailboxId (inbound_id E mailboxId (im_raw im)) name) (db_of w')"
  proof (cases z)
    case (Inl e)
    then show ?thesis using triple_Inl [OF redelivery [OF assms(1) taken] start] assms(4) drawn by blast
  next
    case (Inr u)
    then show ?thesis using triple_Inr [OF redelivery [OF assms(1) taken] start] assms(4) drawn by blast
  qed
  then obtain t where s: "settled (db_of w) (path_at t (js ''incoming'') mailboxId (inbound_id E mailboxId (im_raw im)) name) (db_of w')" ..
  have "objects (db_of w') j = Some v"
    if "\<forall>t. objects (db_of w) (path_at t (js ''incoming'') mailboxId (inbound_id E mailboxId (im_raw im)) name) = None"
      "objects (db_of w) j = Some v" for j v
    using s that unfolding settled_def by (metis option.distinct(1))
  then show ?thesis using s unfolding settled_def by blast
qed


section \<open>The first delivery\<close>

text \<open>Two object names with the same last part.\<close>

lemma last_part: "47 \<notin> set (s :: jstr) \<Longrightarrow> 47 \<notin> set s' \<Longrightarrow> p @ 47 # s = p' @ 47 # s' \<Longrightarrow> s = s'"
proof -
  have part: "takeWhile (\<lambda>c. c \<noteq> 47) (rev (p @ 47 # s)) = rev s" if "47 \<notin> set s" for p s :: jstr
    using that by (simp add: takeWhile_append)
  assume clean: "47 \<notin> set s" "47 \<notin> set s'" and eq: "p @ 47 # s = p' @ 47 # s'"
  have "rev s = rev s'" using part [OF clean(1), of p] part [OF clean(2), of p'] by (simp only: eq)
  then show ?thesis by simp
qed

lemma path_name:
  assumes "path_at t d b i n = path_at t' d' b' i' n'"
  shows "safeSegment n = safeSegment n'"
proof -
  have slash: "js ''/'' = [47]" by (simp add: js_def)
  have clean: "47 \<notin> set (safeSegment v)" for v
  proof -
    have "\<not> segment_ok 47" by code_simp
    then show ?thesis using safeSegment_shape [of v] by (auto simp: list_all_iff)
  qed
  have "\<exists>p. path_at t d b i n = p @ 47 # safeSegment n" for t d b i n
  proof -
    let ?parts = "[objectRoot d, safeSegment b, nat_text (year_of (era_ms t div day_ms)), digits 2 (Suc (month_index (era_ms t div day_ms))), safeSegment i]"
    have "path_at t d b i n = join_text [47] ?parts @ 47 # safeSegment n" by (simp add: path_at_def Let_def slash)
    then show ?thesis by blast
  qed
  then show ?thesis using assms last_part clean by metis
qed

definition raw_name :: "jstr \<Rightarrow> bool" where
  "raw_name n \<longleftrightarrow> (\<exists>x. n = js ''original-'' @ x @ js ''.eml'')"

lemma attachment_key: "raw_name n \<Longrightarrow> path_at t d b i (attachment_path j f) \<noteq> path_at t' d' b' i' n"
proof
  have first: "\<exists>y. safeSegment (c # s) = c # y" if "segment_ok c" for c s
    using that by (simp add: safeSegment_def or_else_def replace_unit_def)
  have ok: "segment_ok 97" "segment_ok 111" by code_simp+
  obtain x where x: "attachment_path j f = 97 # x" by (simp add: attachment_path_def js_Cons_unit)
  assume "raw_name n"
  then obtain y where y: "n = 111 # y" by (auto simp: raw_name_def js_Cons_unit)
  obtain u v where "safeSegment (attachment_path j f) = 97 # u" "safeSegment n = 111 # v"
    using first [OF ok(1), of x] first [OF ok(2), of y] x y by auto
  moreover assume "path_at t d b i (attachment_path j f) = path_at t' d' b' i' n"
  ultimately show False using path_name [of t d b i "attachment_path j f" t' d' b' i' n] by simp
qed

text \<open>The row \<open>row\<close> is there, up to its archive state, which is one of \<open>S\<close>, and so is the object \<open>k\<close>.\<close>

definition archived_row :: "message \<Rightarrow> jstr \<Rightarrow> bytes \<Rightarrow> jstr set \<Rightarrow> db \<Rightarrow> bool" where
  "archived_row row k raw S d \<longleftrightarrow> objects d k = Some raw \<and> (\<exists>m \<in> set (messages d). m_id m = m_id row)
     \<and> (\<forall>m \<in> set (messages d). m_id m = m_id row \<longrightarrow> m_archive_status m \<in> S
          \<and> (\<exists>s e u. m = row\<lparr>m_archive_status := s, m_last_error := e, m_updated_at := u\<rparr>))"

lemma archived_frame [simp]:
  "archived_row row k raw S (d\<lparr>threads := ts\<rparr>) = archived_row row k raw S d"
  "archived_row row k raw S (d\<lparr>forwards := fs\<rparr>) = archived_row row k raw S d"
  "archived_row row k raw S (d\<lparr>attachments := as\<rparr>) = archived_row row k raw S d"
  by (simp_all add: archived_row_def)

lemma archived_objects:
  "j \<noteq> k \<Longrightarrow> archived_row row k raw S (r2_put j v d) = archived_row row k raw S d"
  "k \<notin> set ks \<Longrightarrow> archived_row row k raw S (r2_delete ks d) = archived_row row k raw S d"
  by (simp_all add: archived_row_def r2_put_def r2_delete_def)

lemma keeps_archived:
  assumes "quiet E"
  shows "keeps (\<lambda>w. archived_row row k raw S (db_of w)) (ensureThread E t mb subject people ts)"
    "keeps (\<lambda>w. archived_row row k raw S (db_of w)) (refreshThread E t)"
    "keeps (\<lambda>w. archived_row row k raw S (db_of w)) (forwardInboundCopies E im i to)"
proof -
  have "preserves (archived_row row k raw S) (add_thread t)" for t unfolding add_thread_def by (rule preserves_frame(5)) simp
  then show "keeps (\<lambda>w. archived_row row k raw S (db_of w)) (ensureThread E t mb subject people ts)"
    unfolding ensureThread_def by (intro keeps_flow keeps_local keeps_external quiet_stable assms preserves_frame(2)) simp_all
  show "keeps (\<lambda>w. archived_row row k raw S (db_of w)) (refreshThread E t)"
    unfolding refreshThread_def by (intro keeps_flow keeps_local keeps_external quiet_stable assms preserves_frame(2)) simp
  show "keeps (\<lambda>w. archived_row row k raw S (db_of w)) (forwardInboundCopies E im i to)"
    by (rule keeps_forwarding_frame [OF quiet_stable [OF assms]]) simp
qed

lemma take_keeps_raw:
  assumes "quiet E" "raw_name n" "k = path_at t0 (js ''incoming'') b i n"
  shows "triple (\<lambda>w. archived_row row k raw S (db_of w) \<and> (\<forall>a \<in> set (in_rows st). at_key a \<noteq> k)) (take_attachment E i b st item)
      (\<lambda>st' w. archived_row row k raw S (db_of w) \<and> (\<forall>a \<in> set (in_rows st'). at_key a \<noteq> k)) (\<lambda>_ w. archived_row row k raw S (db_of w))"
    (is "triple ?P _ ?Q ?R")
proof -
  let ?K = "\<lambda>w. archived_row row k raw S (db_of w)"
  have put: "keeps ?P (putR2 E (path_at t (js ''incoming'') b i (attachment_path j f)) bs)" for t j f bs
  proof -
    have "path_at t (js ''incoming'') b i (attachment_path j f) \<noteq> k" using attachment_key [OF assms(2)] assms(3) by blast
    then have "keeps ?K (putR2 E (path_at t (js ''incoming'') b i (attachment_path j f)) bs)"
      unfolding putR2_def by (intro keeps_flow keeps_r2_call quiet_stable assms(1)) (simp add: archived_objects)
    then show ?thesis by (auto simp: keeps_def)
  qed
  have key: "triple ?P (objectPath E (js ''incoming'') b i (attachment_path j f)) (\<lambda>key w. ?P w \<and> (\<exists>t. key = path_at t (js ''incoming'') b i (attachment_path j f))) ?R" for j f
    by (auto simp: triple_def objectPath_def bindE_def date_now_def returnE_def)
  have fin: "triple ?P (returnE (st\<lparr>in_total := x, in_stored := y, in_rows := in_rows st @ [a]\<rparr>)) ?Q ?R" if "at_key a \<noteq> k" for x y a
    using that by (simp add: triple_def returnE_def)
  have local: "keeps ?P (uuid E)" by (simp add: keeps_def uuid_def)
  have other: "path_at t (js ''incoming'') b i (attachment_path j f) \<noteq> k" for t j f
    using attachment_key [OF assms(2)] assms(3) by blast
  show ?thesis
    unfolding take_attachment_def Let_def
    by (rule triple_if, rule triple_return, simp, rule triple_step [OF local], rule triple_bind [OF key], rule triple_pure, erule exE, simp,
        rule triple_step [OF put], rule fin, simp add: other) simp_all
qed


lemma store_keeps_raw:
  assumes "quiet E" "raw_name n" "k = path_at t0 (js ''incoming'') b i n"
  shows "keeps (\<lambda>w. archived_row row k raw S (db_of w)) (storeIncomingAttachments E i b items)"
proof -
  let ?K = "\<lambda>w. archived_row row k raw S (db_of w)" and ?rows = "\<lambda>st. \<forall>a \<in> set (in_rows st). at_key a \<noteq> k"
  have insert: "keeps ?K (insert_attachments E rows)" if rows: "\<forall>a \<in> set rows. at_key a \<noteq> k" for rows
  proof -
    have "preserves (archived_row row k raw S) (add_attachments xs)" for xs
      unfolding add_attachments_def by (rule preserves_constrained_frame) simp
    moreover have "keeps ?K (r2_remove E [at_key a])" if "a \<in> set rows" for a
    proof -
      have "k \<notin> set [at_key a]" using that rows by auto
      then have "archived_row row k raw S (r2_delete [at_key a] d) = archived_row row k raw S d" for d by (rule archived_objects(2))
      then show ?thesis unfolding r2_remove_def by (intro keeps_r2_call quiet_stable assms(1)) simp
    qed
    ultimately show ?thesis
      unfolding insert_attachments_def by (intro keeps_flow keeps_local keeps_external quiet_stable assms(1)) simp_all
  qed
  have "triple (\<lambda>w. ?K w \<and> ?rows st) (foldE (take_attachment E i b) st items) (\<lambda>st w. ?K w \<and> ?rows st) (\<lambda>_. ?K)" for st items
    by (rule triple_fold) (rule take_keeps_raw [OF assms])
  moreover have "triple (\<lambda>w. ?K w \<and> ?rows st) (bindE (insert_attachments E (in_rows st)) (\<lambda>_. returnE (in_stored st, in_skipped st))) (\<lambda>_. ?K) (\<lambda>_. ?K)" for st
    by (rule triple_pure, rule triple_step [OF insert], assumption, rule triple_return) simp_all
  ultimately have "triple (\<lambda>w. ?K w \<and> ?rows st) (bindE (foldE (take_attachment E i b) st items)
      (\<lambda>st. bindE (insert_attachments E (in_rows st)) (\<lambda>_. returnE (in_stored st, in_skipped st)))) (\<lambda>_. ?K) (\<lambda>_. ?K)" for st items
    by (rule triple_bind)
  then show ?thesis
    unfolding storeIncomingAttachments_def triple_keeps [symmetric] by (rule triple_conseq) simp_all
qed

definition unsettled :: "jstr set" where
  "unsettled = {js ''pending'', js ''archived'', js ''partial''}"

definition done_states :: "jstr set" where
  "done_states = {js ''archived'', js ''partial''}"

lemma archived_mono: "archived_row row k raw S d \<Longrightarrow> S \<subseteq> T \<Longrightarrow> archived_row row k raw T d"
  unfolding archived_row_def by blast

lemma set_state_done:
  assumes "quiet E" "st \<in> done_states" "\<And>m. \<not> p m \<Longrightarrow> m_archive_status m \<noteq> js ''pending''"
  shows "triple (\<lambda>w. archived_row row k raw unsettled (db_of w)) (set_archive_status E (m_id row) p st detail)
      (\<lambda>_ w. archived_row row k raw done_states (db_of w)) (\<lambda>_ w. archived_row row k raw unsettled (db_of w))"
    (is "triple ?P _ ?Q ?R")
proof -
  have sub: "done_states \<subseteq> unsettled" by (auto simp: done_states_def unsettled_def)
  let ?p = "\<lambda>m. m_id m = m_id row \<and> p m"
  let ?f = "\<lambda>ts m. m\<lparr>m_archive_status := st, m_last_error := detail, m_updated_at := ts\<rparr>"
  have step: "archived_row row k raw done_states (d\<lparr>messages := map_rows ?p (?f ts) (messages d)\<rparr>)" if row: "archived_row row k raw unsettled d" for d ts
  proof -
    let ?ms = "map_rows ?p (?f ts) (messages d)"
    have "m_archive_status m \<in> done_states \<and> (\<exists>s e u. m = row\<lparr>m_archive_status := s, m_last_error := e, m_updated_at := u\<rparr>)"
      if mem: "m \<in> set ?ms" and own: "m_id m = m_id row" for m
    proof -
      obtain x where x: "x \<in> set (messages d)" "m = (if ?p x then ?f ts x else x)" using mem unfolding in_map_rows by blast
      then have "m_id x = m_id row" using own by (cases "?p x") simp_all
      then obtain s e u where c: "m_archive_status x \<in> unsettled" "x = row\<lparr>m_archive_status := s, m_last_error := e, m_updated_at := u\<rparr>"
        using row x(1) unfolding archived_row_def by blast
      show ?thesis
      proof (cases "p x")
        case True
        then have "m = row\<lparr>m_archive_status := st, m_last_error := detail, m_updated_at := ts\<rparr>"
          using x(2) \<open>m_id x = m_id row\<close> c(2) by simp
        then show ?thesis using assms(2) by (intro conjI exI [of _ st] exI [of _ detail] exI [of _ ts]) simp_all
      next
        case False
        then show ?thesis using c x(2) assms(3) [OF False] by (auto simp: unsettled_def done_states_def)
      qed
    qed
    moreover have "\<exists>m \<in> set ?ms. m_id m = m_id row"
    proof -
      obtain x where "x \<in> set (messages d)" "m_id x = m_id row" using row unfolding archived_row_def by blast
      then show ?thesis by (intro bexI [of _ "if ?p x then ?f ts x else x"]) (auto simp: in_map_rows)
    qed
    ultimately show ?thesis using row by (simp add: archived_row_def)
  qed
  have "triple ?P (external E (update_messages ?p (?f ts))) (\<lambda>_ w. archived_row row k raw done_states (db_of w)) ?R" for ts
    using step archived_mono [OF _ sub] assms(1)
    by (auto simp: triple_def external_def update_messages_def constrained_def Let_def split: fault.split)
  then show ?thesis
    unfolding set_archive_status_def
    by (intro triple_step [OF keeps_local(2)] triple_bind [where Q' = "\<lambda>_ w. archived_row row k raw done_states (db_of w)"] triple_return) simp_all
qed


lemma store_attachments_done:
  assumes "quiet E" "raw_name n" "k = path_at t0 (js ''incoming'') b (m_id row) n"
  shows "triple (\<lambda>w. archived_row row k raw unsettled (db_of w)) (store_attachments E (m_id row) b items)
      (\<lambda>_ w. archived_row row k raw done_states (db_of w)) (\<lambda>_ _. True)"
    (is "triple ?P _ ?Q _")
proof -
  have states: "js ''partial'' \<in> done_states" "js ''archived'' \<in> done_states" by (simp_all add: done_states_def)
  have partial: "triple ?P (set_archive_status E (m_id row) (\<lambda>_. True) (js ''partial'') detail) ?Q (\<lambda>_. ?P)" for detail
    by (rule set_state_done [OF assms(1) states(1)]) simp
  have whole: "triple ?P (set_archive_status E (m_id row) (\<lambda>m. m_archive_status m = js ''pending'') (js ''archived'') None) ?Q (\<lambda>_. ?P)"
    by (rule set_state_done [OF assms(1) states(2)]) simp
  show ?thesis
    unfolding store_attachments_def
  proof (rule triple_catch)
    show "triple ?P (bindE (storeIncomingAttachments E (m_id row) b items) (\<lambda>(stored, skipped).
        if skipped > 0 then set_archive_status E (m_id row) (\<lambda>_. True) (js ''partial'') (Some (js ''attachment_limit_exceeded:'' @ nat_text skipped))
        else set_archive_status E (m_id row) (\<lambda>m. m_archive_status m = js ''pending'') (js ''archived'') None)) ?Q (\<lambda>_. ?P)"
      by (rule triple_step [OF store_keeps_raw [OF assms]]) (simp_all add: split_beta partial whole)
    show "triple ?P (set_archive_status E (m_id row) (\<lambda>_. True) (js ''partial'') (Some (error_code e))) ?Q (\<lambda>_ _. True)" for e
      by (rule triple_conseq [OF partial]) simp_all
  qed
qed

definition unclaimed :: "jstr \<Rightarrow> db \<Rightarrow> bool" where
  "unclaimed i d \<longleftrightarrow> (\<forall>m \<in> set (messages d). m_id m \<noteq> i)"

lemma claim_done:
  assumes "quiet E" "m_archive_status row = js ''pending''"
  shows "triple (\<lambda>w. unclaimed (m_id row) (db_of w) \<and> objects (db_of w) k = Some raw) (claim_message E k row)
      (\<lambda>x w. x \<and> archived_row row k raw unsettled (db_of w)) (\<lambda>_ _. True)"
    (is "triple ?P _ ?Q _")
proof -
  let ?A = "\<lambda>w. archived_row row k raw unsettled (db_of w)"
  have ins: "archived_row row k raw unsettled (d\<lparr>messages := messages d @ [row]\<rparr>)" if d: "unclaimed (m_id row) d" "objects d k = Some raw" for d
  proof -
    have self: "m_archive_status row \<in> unsettled \<and> (\<exists>s e u. row = row\<lparr>m_archive_status := s, m_last_error := e, m_updated_at := u\<rparr>)"
      by (intro conjI exI [of _ "m_archive_status row"] exI [of _ "m_last_error row"] exI [of _ "m_updated_at row"])
        (simp_all add: unsettled_def assms(2))
    have "m = row" if "m \<in> set (messages d @ [row])" "m_id m = m_id row" for m using that d(1) by (auto simp: unclaimed_def)
    then show ?thesis using d(2) self unfolding archived_row_def by fastforce
  qed
  have outcome: "add_message row d = (Inr 1, d\<lparr>messages := messages d @ [row]\<rparr>) \<or> add_message row d = (Inr 0, d) \<or> (\<exists>e. add_message row d = (Inl e, d))" for d
    by (simp add: add_message_def insert_or_ignore_def Let_def)
  have add: "triple ?P (external E (add_message row)) (\<lambda>x w. if x = 1 then ?A w else ?P w) (\<lambda>_ _. True)"
  proof (rule tripleI)
    fix w :: world
    assume w: "?P w"
    have "?A (step_db w ((db_of w)\<lparr>messages := messages (db_of w) @ [row]\<rparr>))" using ins w by simp
    then show "case external E (add_message row) w of (Inl e, s') \<Rightarrow> True | (Inr x, s') \<Rightarrow> if x = 1 then ?A s' else ?P s'"
      using outcome [of "db_of w"] w assms(1)
      by (elim disjE exE) (simp_all add: external_def step_db_def Let_def split: fault.split)
  qed
  have find: "triple ?P (findMessage E (m_id row)) (\<lambda>r _. r = None) (\<lambda>_ _. True)"
    using assms(1) by (auto simp: triple_def findMessage_def find_None_iff unclaimed_def elim!: select_InrE split: prod.split sum.split)
  have undo: "triple (\<lambda>_. True) (bindE (ignoreE (r2_remove E [k])) (\<lambda>_. bindE (drop_empty_thread E t) (\<lambda>_. throwE e))) ?Q (\<lambda>_ _. True)" for t e
    by (simp add: triple_def bindE_def throwE_def split: prod.split sum.split)
  have missing: "triple ?P (bindE (findMessage E (m_id row)) (\<lambda>existing. bindE (throw_if (existing = None) claim_failed) (\<lambda>_. returnE False))) ?Q (\<lambda>_ _. True)"
    by (rule triple_bind [OF find]) (simp add: triple_def bindE_def throw_if_def throwE_def)
  show ?thesis
    unfolding claim_message_def
  proof (rule triple_catch [OF triple_bind [OF add] undo])
    show "triple (\<lambda>w. if x = 1 then ?A w else ?P w) (if x = 1 then returnE True
        else bindE (findMessage E (m_id row)) (\<lambda>existing. bindE (throw_if (existing = None) claim_failed) (\<lambda>_. returnE False))) ?Q (\<lambda>_ _. True)" for x :: nat
      using missing by (cases "x = 1") (simp_all add: triple_return)
  qed
qed


lemma finish_done:
  assumes "quiet E" "raw_name n" "k = path_at t0 (js ''incoming'') b (m_id row) n"
  shows "triple (\<lambda>w. archived_row row k raw unsettled (db_of w)) (finish_inbound E im b parsed row ts)
      (\<lambda>_ w. archived_row row k raw done_states (db_of w)) (\<lambda>_ _. True)"
  unfolding finish_inbound_def Let_def
  by (rule triple_step [OF keeps_archived(1) [OF assms(1)]], rule triple_bind [OF store_attachments_done [OF assms]],
      rule triple_step [OF keeps_archived(2) [OF assms(1)]], rule triple_conseq [OF triple_of_keeps [OF keeps_archived(3) [OF assms(1)]]]) simp_all

lemma raw_stored:
  assumes "quiet E"
  shows "triple (\<lambda>w. unclaimed i (db_of w)) (archive_raw E t k raw) (\<lambda>_ w. unclaimed i (db_of w) \<and> objects (db_of w) k = Some raw) (\<lambda>_ _. True)"
proof -
  have put: "triple (\<lambda>w. unclaimed i (db_of w)) (putR2 E k raw) (\<lambda>_ w. unclaimed i (db_of w) \<and> objects (db_of w) k = Some raw) (\<lambda>_ _. True)"
    using assms
    by (auto simp: triple_def putR2_def r2_call_def catchE_def external_def throwE_def r2_put_def unclaimed_def Let_def split: fault.split)
  show ?thesis
    unfolding archive_raw_def
    by (rule triple_catch [OF put]) (simp add: triple_def bindE_def throwE_def split: prod.split sum.split)
qed

text \<open>The row of an accepted message, in one of its final archive states.\<close>

definition accepted_row_of :: "env \<Rightarrow> inbound_mail \<Rightarrow> jstr \<Rightarrow> db \<Rightarrow> bool" where
  "accepted_row_of E im b d \<longleftrightarrow>
     (\<exists>k t ts. archived_row (inbound_row E im b (parse_inbound E (im_raw im)) t k ts) k (im_raw im) done_states d)"

lemma receive_done:
  assumes "quiet E"
  shows "triple (\<lambda>w. unclaimed (inbound_id E b (im_raw im)) (db_of w)) (receive E im b) (\<lambda>_ w. accepted_row_of E im b (db_of w)) (\<lambda>_ _. True)"
    (is "triple ?P _ ?Q ?R")
proof -
  let ?parsed = "parse_inbound E (im_raw im)" and ?i = "inbound_id E b (im_raw im)"
  have rest: "triple ?P (bindE (archive_raw E t k (im_raw im)) (\<lambda>_.
      bindE (claim_message E k (inbound_row E im b ?parsed t k ts)) (\<lambda>inserted.
      if inserted then finish_inbound E im b ?parsed (inbound_row E im b ?parsed t k ts) ts else other))) ?Q ?R"
    if k: "raw_name n" "k = path_at t0 (js ''incoming'') b ?i n" for t k ts other n t0
  proof -
    let ?row = "inbound_row E im b ?parsed t k ts"
    have row: "m_id ?row = ?i" "m_archive_status ?row = js ''pending''" by (simp_all add: inbound_row_def Let_def)
    have claim: "triple (\<lambda>w. ?P w \<and> objects (db_of w) k = Some (im_raw im)) (claim_message E k ?row)
        (\<lambda>x w. x \<and> archived_row ?row k (im_raw im) unsettled (db_of w)) ?R"
      using claim_done [OF assms row(2)] row(1) by simp
    have finish: "triple (\<lambda>w. archived_row ?row k (im_raw im) unsettled (db_of w)) (finish_inbound E im b ?parsed ?row ts) ?Q ?R"
      by (rule triple_conseq [OF finish_done [OF assms k(1)]]) (use k(2) row(1) in \<open>auto simp: accepted_row_of_def\<close>)
    show ?thesis
      by (rule triple_bind [OF raw_stored [OF assms]], rule triple_bind [OF claim]) (use finish in \<open>auto simp: triple_def\<close>)
  qed
  have keep: "keeps ?P (now E)" "keeps ?P (threadFromHeaders E r refs b)" "keeps ?P (createThreadPlaceholder E t mb ts)" for r refs t mb ts
  proof -
    have "preserves (unclaimed ?i) (add_thread u)" for u
      unfolding add_thread_def by (rule preserves_frame(5)) (simp add: unclaimed_def)
    then show "keeps ?P (now E)" "keeps ?P (threadFromHeaders E r refs b)" "keeps ?P (createThreadPlaceholder E t mb ts)"
      unfolding threadFromHeaders_def createThreadPlaceholder_def Let_def
      by (intro keeps_flow keeps_local keeps_select keeps_external quiet_stable assms | assumption)+
  qed
  have name: "triple ?P (incomingRawObjectName E) (\<lambda>n w. ?P w \<and> raw_name n) ?R"
    by (auto simp: triple_def incomingRawObjectName_def bindE_def randomToken_def returnE_def raw_name_def)
  have key: "triple ?P (objectPath E (js ''incoming'') b ?i n) (\<lambda>k w. ?P w \<and> (\<exists>t. k = path_at t (js ''incoming'') b ?i n)) ?R" for n
    by (auto simp: triple_def objectPath_def bindE_def date_now_def returnE_def)
  show ?thesis
    unfolding receive_def Let_def
    by (rule triple_step [OF keep(1)], rule triple_step [OF keep(2)], rule triple_step [OF keep(3)], rule triple_bind [OF name], rule triple_pure,
        rule triple_bind [OF key], rule triple_pure, erule exE, rule rest) (assumption | simp)+
qed

text \<open>
  C2. Mail that is accepted is archived: when the handler returns without a rejection, for a message that no mailbox had
  received before, a mailbox that may receive was addressed, its row says what the message said, its archive state is
  final, and the object the row names holds the raw message, whatever calls failed on the way.
\<close>

theorem accepted_mail_archived:
  assumes "quiet E" "handleInbound E im w = (Inr (), w')" "\<forall>reason. Set_Reject reason \<notin> set (effects w')"
    "\<forall>b m. m \<in> set (messages (db_of w)) \<longrightarrow> m_id m \<noteq> inbound_id E b (im_raw im)"
  shows "\<exists>b k t ts m s e u. b \<in> set (mailboxes (db_of w)) \<and> mb_can_receive b \<and> mb_active b
    \<and> m \<in> set (messages (db_of w')) \<and> s \<in> {js ''archived'', js ''partial''}
    \<and> m = (inbound_row E im (mb_id b) (parse_inbound E (im_raw im)) t k ts)\<lparr>m_archive_status := s, m_last_error := e, m_updated_at := u\<rparr>
    \<and> objects (db_of w') k = Some (im_raw im)"
proof -
  have reject: "set_reject reason v = (Inr (), w') \<Longrightarrow> False" for reason v
    using assms(3) by (auto simp: set_reject_def)
  let ?to = "normalizeEmail (uni (plat E)) (JStr (im_to im))"
  have small: "\<not> im_raw_size im > MAX_RAW_BYTES"
    using assms(2) reject unfolding handleInbound_def by (auto split: if_splits)
  have run: "bindE (mailboxByAddress E ?to) (\<lambda>found.
        case found of
          None \<Rightarrow> set_reject ''Unknown or inactive recipient.''
        | Some mb \<Rightarrow>
            if \<not> mb_can_receive mb then set_reject ''Unknown or inactive recipient.''
            else if length (im_raw im) > MAX_RAW_BYTES then set_reject ''Message exceeds the 20 MB mailbox limit.''
            else receive E im (mb_id mb)) w = (Inr (), w')"
    using assms(2) small by (simp add: handleInbound_def)
  obtain found w1 where found: "mailboxByAddress E ?to w = (Inr found, w1)"
    and cont: "(case found of
          None \<Rightarrow> set_reject ''Unknown or inactive recipient.''
        | Some mb \<Rightarrow>
            if \<not> mb_can_receive mb then set_reject ''Unknown or inactive recipient.''
            else if length (im_raw im) > MAX_RAW_BYTES then set_reject ''Message exceeds the 20 MB mailbox limit.''
            else receive E im (mb_id mb)) w1 = (Inr (), w')"
    using run by (rule bindE_InrE)
  obtain b where b: "found = Some b" "mb_can_receive b" "receive E im (mb_id b) w1 = (Inr (), w')"
    using cont reject by (auto split: option.splits if_splits)
  have look: "found = find (\<lambda>m. nocase (mb_address m) = nocase (normalizeEmail (uni (plat E)) (JStr ?to)) \<and> mb_active m) (mailboxes (db_of w))"
    "db_of w1 = db_of w"
    using select_step [OF assms(1) found [unfolded mailboxByAddress_def]] by simp_all
  have mem: "b \<in> set (mailboxes (db_of w))" "mb_active b"
    using find_Some_in [OF look(1) [unfolded b(1), symmetric]] by simp_all
  have "unclaimed (inbound_id E (mb_id b) (im_raw im)) (db_of w1)" using assms(4) look(2) by (simp add: unclaimed_def)
  then have "accepted_row_of E im (mb_id b) (db_of w')" using triple_Inr [OF receive_done [OF assms(1)] _ b(3)] by blast
  then obtain k t ts where arch: "archived_row (inbound_row E im (mb_id b) (parse_inbound E (im_raw im)) t k ts) k (im_raw im) done_states (db_of w')"
    by (auto simp: accepted_row_of_def)
  let ?row = "inbound_row E im (mb_id b) (parse_inbound E (im_raw im)) t k ts"
  obtain m where m: "m \<in> set (messages (db_of w'))" "m_id m = m_id ?row" using arch unfolding archived_row_def by blast
  then obtain s e u where c: "m_archive_status m \<in> done_states" "m = ?row\<lparr>m_archive_status := s, m_last_error := e, m_updated_at := u\<rparr>"
    using arch unfolding archived_row_def by blast
  have "s \<in> {js ''archived'', js ''partial''}" using c by (simp add: done_states_def)
  moreover have "objects (db_of w') k = Some (im_raw im)" using arch by (simp add: archived_row_def)
  ultimately show ?thesis using mem b(2) m(1) c(2) by blast
qed


section \<open>Examples\<close>

definition inbox :: mailbox where
  "inbox = \<lparr> mb_id = js ''b1'', mb_address = js ''a@b.cc'', mb_display_name = [], mb_can_receive = True, mb_can_send = True, mb_active = True,
     mb_routing_managed = False, mb_created_at = [], mb_updated_at = [] \<rparr>"

definition empty_mail :: inbound_mail where
  "empty_mail = \<lparr> im_from = js ''x@y.zz'', im_to = js ''a@b.cc'', im_headers = [], im_raw = [], im_raw_size = 0 \<rparr>"

definition mail_db :: "thread list \<Rightarrow> message list \<Rightarrow> (jstr \<Rightarrow> bytes option) \<Rightarrow> db" where
  "mail_db ts ms os = empty_db\<lparr>mailboxes := [inbox], threads := ts, messages := ms, objects := os\<rparr>"

lemma mail_db_sel [simp]:
  "threads (mail_db ts ms os) = ts" "messages (mail_db ts ms os) = ms" "objects (mail_db ts ms os) = os" "mailboxes (mail_db ts ms os) = [inbox]"
  "(mail_db ts ms os)\<lparr>threads := xs\<rparr> = mail_db xs ms os" "(mail_db ts ms os)\<lparr>messages := ys\<rparr> = mail_db ts ys os"
  "(mail_db ts ms os)\<lparr>objects := zs\<rparr> = mail_db ts ms zs"
  by (simp_all add: mail_db_def empty_db_def)

lemma mail_db_ok:
  assumes "th_mailbox t = Some (js ''b1'')" "th_status t = js ''open''" "\<forall>m \<in> set ms. m_thread m = th_id t \<and> m_mailbox m = Some (js ''b1'')
    \<and> m_parent m = None \<and> m_created_by m = None \<and> m_direction m = js ''incoming'' \<and> m_archive_status m \<in> unsettled
    \<and> m_idempotency m = None \<and> m_resend_id m = None \<and> m_provider m = None" "length ms \<le> 1"
  shows "db_ok (mail_db [t] ms os)"
proof -
  have "ms = [] \<or> (\<exists>m. ms = [m])" using assms(4) by (cases ms) auto
  then show ?thesis
    using assms(1-3) by (auto simp: db_ok_defs mail_db_def empty_db_def inbox_def unsettled_def)
qed

lemma inbound_row_sel:
  "m_id (inbound_row E im b p t k ts) = inbound_id E b (im_raw im)" "m_thread (inbound_row E im b p t k ts) = t"
  "m_mailbox (inbound_row E im b p t k ts) = Some b" "m_parent (inbound_row E im b p t k ts) = None"
  "m_created_by (inbound_row E im b p t k ts) = None" "m_direction (inbound_row E im b p t k ts) = js ''incoming''"
  "m_archive_status (inbound_row E im b p t k ts) = js ''pending''" "m_idempotency (inbound_row E im b p t k ts) = None"
  "m_resend_id (inbound_row E im b p t k ts) = None" "m_provider (inbound_row E im b p t k ts) = None"
  by (simp_all add: inbound_row_def Let_def message_defaults_def)

lemma new_thread_sel: "th_id (new_thread i b s p l ts) = i" "th_mailbox (new_thread i b s p l ts) = b" "th_status (new_thread i b s p l ts) = js ''open''"
  by (simp_all add: new_thread_def)


text \<open>The conditions under which \<open>mail_db\<close> satisfies the schema.\<close>

definition mail_thread :: "thread \<Rightarrow> bool" where
  "mail_thread t \<longleftrightarrow> th_mailbox t = Some (js ''b1'') \<and> th_status t = js ''open''"

definition mail_message :: "jstr \<Rightarrow> message \<Rightarrow> bool" where
  "mail_message i m \<longleftrightarrow> m_thread m = i \<and> m_mailbox m = Some (js ''b1'')
    \<and> m_parent m = None \<and> m_created_by m = None \<and> m_direction m = js ''incoming'' \<and> m_archive_status m \<in> unsettled
    \<and> m_idempotency m = None \<and> m_resend_id m = None \<and> m_provider m = None"

lemma mail_ok:
  "mail_thread t \<Longrightarrow> db_ok (mail_db [t] [] os)" "mail_thread t \<Longrightarrow> mail_message (th_id t) m \<Longrightarrow> db_ok (mail_db [t] [m] os)"
  by (rule mail_db_ok; simp add: mail_thread_def mail_message_def)+

lemma mail_thread_update:
  assumes "db_of w = mail_db [t] [m] os" "mail_thread t" "mail_message (th_id t) m" "\<And>d t. th_id (f d t) = th_id t"
    "\<And>d t. mail_thread t \<Longrightarrow> mail_thread (f d t)"
  shows "external example_env (update_threads (\<lambda>x. th_id x = th_id t) f) w = (Inr 1, step_db w (mail_db [f (db_of w) t] [m] os))"
proof -
  have "db_ok (mail_db [f (db_of w) t] [m] os)" using mail_ok(2) [of "f (db_of w) t" m] assms by simp
  then show ?thesis using assms(1) by (simp add: external_quiet update_threads_def constrained_def count_rows_def)
qed

lemma example_finish:
  assumes "mail_message t row" "m_archive_status row = js ''pending''" "mail_thread t0" "th_id t0 = t"
    "db_of w4 = mail_db [t0] [row] os" "effects w4 = []"
  shows "\<exists>w5. finish_inbound example_env empty_mail (js ''b1'') (fallback_mail []) row ts w4 = (Inr (), w5) \<and> effects w5 = []"
proof -
  let ?E = example_env
  let ?people = "normalizeEmail (uni (plat ?E)) (JStr (im_from empty_mail)) # map pa_address (addressArray (uni (plat ?E)) (em_to (fallback_mail [])))
      @ map pa_address (addressArray (uni (plat ?E)) (em_cc (fallback_mail [])))"
  have thread: "m_thread row = th_id t0" using assms(1) assms(4) by (simp add: mail_message_def)
  have dup: "\<not> rows_ok (mail_db [t0, new_thread (th_id t0) mb sub ps l ts'] [row] os)" for mb sub ps l ts'
    by (simp add: rows_ok_def new_thread_sel)
  define w4' where "w4' = step_db w4 (mail_db [t0] [row] os)"
  have join: "\<exists>t1. ensureThread ?E (m_thread row) (Some (js ''b1'')) (m_subject row) ?people ts w4 = (Inr (), step_db w4' (mail_db [t1] [row] os))
      \<and> mail_thread t1 \<and> th_id t1 = t"
  proof -
    have add: "external ?E (add_thread (new_thread (th_id t0) mb sub ps l ts')) w4 = (Inr 0, w4')" for mb sub ps l ts'
      using dup by (simp add: external_quiet add_thread_def insert_or_ignore_def Let_def assms(5) w4'_def)
    have upd: "external ?E (update_threads (\<lambda>x. th_id x = th_id t0) (\<lambda>d. joined_thread mb sub ps ts' u)) w4'
        = (Inr 1, step_db w4' (mail_db [joined_thread mb sub ps ts' u t0] [row] os))" for mb sub ps ts' u
      by (rule mail_thread_update [OF _ assms(3)]) (use assms(1) assms(4) in \<open>simp_all add: w4'_def joined_thread_def mail_thread_def\<close>)
    have "mail_thread (joined_thread mb sub ps ts' u t0) \<and> th_id (joined_thread mb sub ps ts' u t0) = t" for mb sub ps ts' u
      using assms(3,4) by (simp add: joined_thread_def mail_thread_def)
    then show ?thesis unfolding ensureThread_def thread by (auto simp: act_simps add upd)
  qed
  then obtain t1 where t1: "ensureThread ?E (m_thread row) (Some (js ''b1'')) (m_subject row) ?people ts w4 = (Inr (), step_db w4' (mail_db [t1] [row] os))"
    "mail_thread t1" "th_id t1 = t" by blast
  define w6 where "w6 = step_db w4' (mail_db [t1] [row] os)"
  let ?f = "\<lambda>m. m\<lparr>m_archive_status := js ''archived'', m_last_error := None, m_updated_at := iso (clock ?E (calls w6))\<rparr>"
  have row': "mail_message t (?f row)" using assms(1) by (simp add: mail_message_def unsettled_def)
  define w7 where "w7 = step_db w6 (mail_db [t1] [?f row] os)"
  have store: "store_attachments ?E (m_id row) (js ''b1'') [] w6 = (Inr (), w7)"
  proof -
    have "storeIncomingAttachments ?E (m_id row) (js ''b1'') [] w6 = (Inr (0, 0), w6)"
      by (simp add: storeIncomingAttachments_def insert_attachments_def act_simps)
    moreover have "set_archive_status ?E (m_id row) (\<lambda>m. m_archive_status m = js ''pending'') (js ''archived'') None w6 = (Inr (), w7)"
      using mail_ok(2) [OF t1(2), of "?f row" os] row' t1(3)
      by (simp add: set_archive_status_def act_simps external_quiet update_messages_def constrained_def w6_def w7_def assms(2))
    ultimately show ?thesis by (simp add: store_attachments_def act_simps)
  qed
  have refresh: "\<exists>d. refreshThread ?E (m_thread row) w7 = (Inr (), step_db w7 d)"
  proof -
    have "external ?E (update_threads (\<lambda>x. th_id x = th_id t1) (refreshed i u)) w7
        = (Inr 1, step_db w7 (mail_db [refreshed i u (db_of w7) t1] [?f row] os))" for i u
      by (rule mail_thread_update [OF _ t1(2)]) (use row' t1(3) in \<open>simp_all add: w7_def mail_thread_def refreshed_def Let_def\<close>)
    note upd = this [unfolded t1(3)]
    have "m_thread row = t" using assms(1) by (simp add: mail_message_def)
    then show ?thesis unfolding refreshThread_def by (simp only: act_simps upd prod.case sum.case) (rule exI, rule refl)
  qed
  then obtain d where refresh: "refreshThread ?E (m_thread row) w7 = (Inr (), step_db w7 d)" by blast
  have "inboundForwardAddresses ?E = Inr []" by code_simp
  then have forward: "forwardInboundCopies ?E empty_mail i to = returnE ()" for i to
    by (simp add: forwardInboundCopies_def bindE_def returnE_def liftE_def)
  have "effects (step_db w7 d) = []" by (simp add: w7_def w6_def w4'_def assms(6))
  moreover have "em_attachments (fallback_mail []) = []" by (simp add: fallback_mail_def)
  ultimately show ?thesis
    using t1(1) store refresh
    by (intro exI [of _ "step_db w7 d"]) (simp_all add: finish_inbound_def Let_def act_simps forward w6_def [symmetric])
qed

lemma example_receive:
  assumes "db_of w = mail_db [] [] (\<lambda>_. None)" "draws w = 0" "effects w = []"
  shows "\<exists>w'. receive example_env empty_mail (js ''b1'') w = (Inr (), w') \<and> effects w' = []"
proof -
  let ?E = example_env and ?raw = "im_raw empty_mail" and ?i = "inbound_id example_env (js ''b1'') (im_raw empty_mail)"
  let ?parsed = "parse_inbound ?E ?raw"
  define ts where "ts = iso (clock ?E (calls w))"
  have parsed: "?parsed = fallback_mail []" by (simp add: parse_inbound_def example_env_def empty_mail_def)
  have "trim [] = []" by code_simp
  then have none: "header U (fallback_mail []) name = []" for U name by (simp add: header_def fallback_mail_def)
  have "normalizeInternetMessageId (JStr []) = []" "references [] = []" "join_text (js '' '') [] = []" by code_simp+
  then have plain: "inbound_reply_to ?E (fallback_mail []) = []" "references (inbound_references ?E (fallback_mail [])) = []"
    by (simp_all add: inbound_reply_to_def inbound_references_def none)
  define t where "t = js ''thread_'' @ drop 3 ?i"
  have thread: "or_else [] t = t" "t \<noteq> []" by (simp_all add: or_else_def t_def)
  let ?t0 = "new_thread t (Some (js ''b1'')) [] (js ''[]'') (js ''1970-01-01T00:00:00.000Z'') ts"
  let ?k = "path_at (clock ?E (Suc (calls w))) (js ''incoming'') (js ''b1'') ?i (js ''original-'' @ base64Url (random_at ?E 0 12) @ js ''.eml'')"
  let ?os = "(\<lambda>_. None)(?k \<mapsto> [] :: bytes)"
  let ?row = "inbound_row ?E empty_mail (js ''b1'') (fallback_mail []) t ?k ts"
  have t0: "mail_thread ?t0" "th_id ?t0 = t" by (simp_all add: mail_thread_def new_thread_sel)
  have row: "mail_message t ?row" "m_id ?row = ?i" by (simp_all add: mail_message_def inbound_row_sel unsettled_def)
  define w1 where "w1 = step_db w (mail_db [?t0] [] (\<lambda>_. None))"
  have place: "createThreadPlaceholder ?E t (Some (js ''b1'')) ts w = (Inr (), w1)"
    using mail_ok(1) [OF t0(1), of "\<lambda>_. None"]
    by (simp add: createThreadPlaceholder_def act_simps external_quiet add_thread_def insert_or_ignore_def Let_def db_ok_def w1_def assms(1))
  define w2 where "w2 = w1\<lparr>draws := 1\<rparr>"
  have name: "incomingRawObjectName ?E w1 = (Inr (js ''original-'' @ base64Url (random_at ?E 0 12) @ js ''.eml''), w2)"
    by (simp add: incomingRawObjectName_def act_simps randomToken_def w1_def w2_def assms(2))
  have key: "objectPath ?E (js ''incoming'') (js ''b1'') ?i n w2 = (Inr (path_at (clock ?E (Suc (calls w))) (js ''incoming'') (js ''b1'') ?i n), w2)" for n
    by (simp add: objectPath_def act_simps w1_def w2_def)
  define w3 where "w3 = step_db w2 (mail_db [?t0] [] ?os)"
  have put: "archive_raw ?E t ?k [] w2 = (Inr (), w3)"
    by (simp add: archive_raw_def putR2_def act_simps r2_call_quiet r2_put_def w3_def w1_def w2_def)
  define w4 where "w4 = step_db w3 (mail_db [?t0] [?row] ?os)"
  have claim: "claim_message ?E ?k ?row w3 = (Inr True, w4)"
    using mail_ok(2) [OF t0(1), of ?row ?os] row(1) t0(2)
    by (simp add: claim_message_def act_simps external_quiet add_message_def insert_or_ignore_def Let_def db_ok_def w3_def w4_def)
  have raw: "im_raw empty_mail = []" by (simp add: empty_mail_def)
  have "db_of w4 = mail_db [?t0] [?row] ?os" "effects w4 = []" by (simp_all add: w4_def w3_def w2_def w1_def assms(3))
  then obtain w5 where finish: "finish_inbound ?E empty_mail (js ''b1'') (fallback_mail []) ?row ts w4 = (Inr (), w5)" "effects w5 = []"
    using example_finish [OF _ inbound_row_sel(7) t0(1)] row(1) t0(2) by metis
  have join: "threadFromHeaders ?E [] [] (js ''b1'') = returnE []" by (simp add: threadFromHeaders_def)
  have "receive ?E empty_mail (js ''b1'') w = (Inr (), w5)"
    unfolding receive_def Let_def parsed plain join
    using place name key put claim finish(1)
    by (simp add: act_simps ts_def t_def or_else_def raw del: local_app(3))
  then show ?thesis using finish(2) by blast
qed


lemma example_inbound:
  "\<exists>w'. handleInbound example_env empty_mail (start_world (mail_db [] [] (\<lambda>_. None))) = (Inr (), w') \<and> effects w' = []"
proof -
  let ?w = "start_world (mail_db [] [] (\<lambda>_. None))"
  have addr: "normalizeEmail (uni (plat example_env)) (JStr (js ''a@b.cc'')) = js ''a@b.cc''" by code_simp
  have found: "mailboxByAddress example_env (js ''a@b.cc'') ?w = (Inr (Some inbox), step_db ?w (mail_db [] [] (\<lambda>_. None)))"
    by (simp add: mailboxByAddress_def select_quiet addr inbox_def)
  obtain w' where "receive example_env empty_mail (js ''b1'') (step_db ?w (mail_db [] [] (\<lambda>_. None))) = (Inr (), w')" "effects w' = []"
    using example_receive [of "step_db ?w (mail_db [] [] (\<lambda>_. None))"] by auto
  moreover have "mb_id inbox = js ''b1''" "mb_can_receive inbox" by (simp_all add: inbox_def)
  moreover have "im_to empty_mail = js ''a@b.cc''" "im_raw_size empty_mail = 0" "im_raw empty_mail = []" by (simp_all add: empty_mail_def)
  ultimately show ?thesis by (simp add: handleInbound_def act_simps addr found)
qed

theorem accepted_mail_archived_witness:
  "\<exists>w' k m. handleInbound example_env empty_mail (start_world (mail_db [] [] (\<lambda>_. None))) = (Inr (), w')
     \<and> m \<in> set (messages (db_of w')) \<and> m_raw_key m = Some k \<and> objects (db_of w') k = Some []"
proof -
  obtain w' where run: "handleInbound example_env empty_mail (start_world (mail_db [] [] (\<lambda>_. None))) = (Inr (), w')" "effects w' = []"
    using example_inbound by blast
  have none: "\<forall>reason. Set_Reject reason \<notin> set (effects w')" by (simp add: run(2))
  have fresh: "\<forall>b m. m \<in> set (messages (db_of (start_world (mail_db [] [] (\<lambda>_. None))))) \<longrightarrow> m_id m \<noteq> inbound_id example_env b (im_raw empty_mail)" by simp
  obtain b :: mailbox and k t ts m s e u where m: "m \<in> set (messages (db_of w'))" "objects (db_of w') k = Some (im_raw empty_mail)"
    "m = (inbound_row example_env empty_mail (mb_id b) (parse_inbound example_env (im_raw empty_mail)) t k ts)\<lparr>m_archive_status := s, m_last_error := e, m_updated_at := u\<rparr>"
    using accepted_mail_archived [OF example_env_ok(1) run(1) none fresh] by blast
  have "m_raw_key m = Some k" using m(3) by (simp add: inbound_row_def Let_def)
  moreover have "im_raw empty_mail = []" by (simp add: empty_mail_def)
  ultimately show ?thesis using run(1) m(1,2) by auto
qed

text \<open>The mailbox of the examples after a first delivery of the empty message, archived under the random part \<open>old\<close>.\<close>

definition first_thread :: thread where
  "first_thread = new_thread (js ''thread_'' @ drop 3 (inbound_id example_env (js ''b1'') [])) (Some (js ''b1'')) [] (js ''[]'') (js ''2023'') (js ''2023'')"

definition first_key :: jstr where
  "first_key = path_at 0 (js ''incoming'') (js ''b1'') (inbound_id example_env (js ''b1'') []) (js ''original-old.eml'')"

definition first_row :: message where
  "first_row = (inbound_row example_env empty_mail (js ''b1'') (fallback_mail []) (th_id first_thread) first_key (js ''2023''))\<lparr>m_archive_status := js ''archived''\<rparr>"

definition delivered_db :: db where
  "delivered_db = mail_db [first_thread] [first_row] [first_key \<mapsto> []]"

lemma example_redelivery:
  "\<exists>w'. receive example_env empty_mail (js ''b1'') (start_world delivered_db) = (Inr (), w')"
proof -
  let ?E = example_env and ?i = "inbound_id example_env (js ''b1'') []" and ?w = "start_world delivered_db"
  have row: "m_id first_row = ?i" "m_thread first_row = th_id first_thread"
    by (simp_all add: first_row_def inbound_row_sel empty_mail_def)
  have parsed: "parse_inbound ?E [] = fallback_mail []" by (simp add: parse_inbound_def example_env_def)
  have "trim [] = []" by code_simp
  then have none: "header U (fallback_mail []) name = []" for U name by (simp add: header_def fallback_mail_def)
  have "normalizeInternetMessageId (JStr []) = []" "references [] = []" "join_text (js '' '') [] = []" by code_simp+
  then have plain: "inbound_reply_to ?E (fallback_mail []) = []" "references (inbound_references ?E (fallback_mail [])) = []"
    by (simp_all add: inbound_reply_to_def inbound_references_def none)
  have join: "threadFromHeaders ?E [] [] (js ''b1'') = returnE []" by (simp add: threadFromHeaders_def)
  have thread: "or_else [] (th_id first_thread) = th_id first_thread" "th_id first_thread = js ''thread_'' @ drop 3 ?i"
    by (simp_all add: or_else_def first_thread_def new_thread_sel)
  have dup: "\<not> rows_ok ((mail_db [first_thread] [first_row] os)\<lparr>threads := [first_thread, new_thread (th_id first_thread) mb sub ps l ts]\<rparr>)" for mb sub ps l ts os
    by (simp add: rows_ok_def new_thread_sel)
  have taken: "\<not> rows_ok (mail_db [first_thread] [first_row, x] os)" if "m_id x = ?i" for x os
    by (simp add: rows_ok_def message_rows_ok_def that row)
  have "inboundForwardAddresses ?E = Inr []" by code_simp
  then have forward: "forwardInboundCopies ?E empty_mail i to = returnE ()" for i to
    by (simp add: forwardInboundCopies_def bindE_def returnE_def liftE_def)
  have raw: "im_raw empty_mail = []" by (simp add: empty_mail_def)
  have place: "external ?E (add_thread (new_thread (th_id first_thread) mb sub ps l ts)) w = (Inr 0, step_db w (db_of w))"
    if "db_of w = mail_db [first_thread] [first_row] os" for w os mb sub ps l ts
    using dup [unfolded mail_db_sel] by (simp add: external_quiet add_thread_def insert_or_ignore_def Let_def that)
  have add: "external ?E (add_message x) w = (Inr 0, step_db w (db_of w))"
    if "db_of w = mail_db [first_thread] [first_row] os" "m_id x = ?i" for w os x
    using taken [OF that(2)] by (simp add: external_quiet add_message_def insert_or_ignore_def Let_def that(1))
  define k where "k = path_at (clock ?E (Suc (calls ?w))) (js ''incoming'') (js ''b1'') ?i (js ''original-'' @ base64Url (random_at ?E 0 12) @ js ''.eml'')"
  define ts where "ts = iso (clock ?E 0)"
  let ?os = "[first_key \<mapsto> []]" and ?os' = "([first_key \<mapsto> []])(k \<mapsto> [])"
  define w1 where "w1 = step_db ?w delivered_db"
  have made: "createThreadPlaceholder ?E (th_id first_thread) (Some (js ''b1'')) ts ?w = (Inr (), w1)"
    by (simp add: createThreadPlaceholder_def act_simps place delivered_db_def w1_def)
  define w2 where "w2 = w1\<lparr>draws := 1\<rparr>"
  have name: "incomingRawObjectName ?E w1 = (Inr (js ''original-'' @ base64Url (random_at ?E 0 12) @ js ''.eml''), w2)"
    by (simp add: incomingRawObjectName_def act_simps randomToken_def w1_def w2_def)
  have key: "objectPath ?E (js ''incoming'') (js ''b1'') ?i (js ''original-'' @ base64Url (random_at ?E 0 12) @ js ''.eml'') w2 = (Inr k, w2)"
    by (simp add: objectPath_def act_simps w1_def w2_def k_def)
  define w3 where "w3 = step_db w2 (mail_db [first_thread] [first_row] ?os')"
  have put: "archive_raw ?E (th_id first_thread) k [] w2 = (Inr (), w3)"
    by (simp add: archive_raw_def putR2_def act_simps r2_call_quiet r2_put_def w3_def w1_def w2_def delivered_db_def)
  let ?row = "inbound_row ?E empty_mail (js ''b1'') (fallback_mail []) (th_id first_thread) k ts"
  have own: "m_id ?row = ?i" by (simp add: inbound_row_sel empty_mail_def)
  obtain w4 where claim: "claim_message ?E k ?row w3 = (Inr False, w4)"
  proof -
    have "find (\<lambda>m. m_id m = ?i) [first_row] = Some first_row" by (simp add: row)
    then have "\<exists>w4. claim_message ?E k ?row w3 = (Inr False, w4)"
      using add [of w3 ?os' ?row] own
      by (simp add: claim_message_def act_simps findMessage_def select_quiet throw_if_def w3_def)
    then show thesis using that by blast
  qed
  have swallow: "\<exists>w'. ignoreE m w = (Inr (), w')" for m :: "'x action" and w
    by (cases "m w") (simp add: ignoreE_def)
  obtain w5 where rest: "ignoreE (r2_remove ?E [k]) w4 = (Inr (), w5)" using swallow by blast
  obtain w6 where rest2: "drop_empty_thread ?E (th_id first_thread) w5 = (Inr (), w6)"
    unfolding drop_empty_thread_def using swallow by blast
  have "receive ?E empty_mail (js ''b1'') ?w = (Inr (), w6)"
    unfolding receive_def Let_def raw parsed plain join
    using made name key put claim rest rest2
    by (simp add: act_simps thread(1) thread(2) [symmetric] forward ts_def del: local_app(3))
  then show ?thesis by blast
qed

theorem redelivery_changes_nothing_witness:
  "\<exists>w'. receive example_env empty_mail (js ''b1'') (start_world delivered_db) = (Inr (), w')
    \<and> messages (db_of w') = [first_row] \<and> objects (db_of w') first_key = Some [] \<and> m_raw_key first_row = Some first_key"
proof -
  obtain w' where run: "receive example_env empty_mail (js ''b1'') (start_world delivered_db) = (Inr (), w')"
    using example_redelivery by blast
  let ?name = "js ''original-'' @ base64Url (random_at example_env (draws (start_world delivered_db)) 12) @ js ''.eml''"
  have mem: "first_row \<in> set (messages (db_of (start_world delivered_db)))" by (simp add: delivered_db_def)
  have own: "m_id first_row = inbound_id example_env (js ''b1'') (im_raw empty_mail)" by (simp add: first_row_def inbound_row_sel empty_mail_def)
  have "random_at example_env 0 12 = [0, 0, 0, 0, 0, 0, 0, 0, 0, 0, 0, 0]" by (simp add: example_env_def numeral_eq_Suc)
  moreover have "btoa [0, 0, 0, 0, 0, 0, 0, 0, 0, 0, 0, 0] = js ''AAAAAAAAAAAAAAAA''" by code_simp
  then have "base64Url [0, 0, 0, 0, 0, 0, 0, 0, 0, 0, 0, 0] = js ''AAAAAAAAAAAAAAAA''"
    unfolding base64Url_def bytesToBase64_def by (simp only: concat_chunks zero_less_numeral) code_simp
  moreover have "safeSegment (js ''original-old.eml'') \<noteq> safeSegment (js ''original-'' @ js ''AAAAAAAAAAAAAAAA'' @ js ''.eml'')"
    by code_simp
  ultimately have "safeSegment (js ''original-old.eml'') \<noteq> safeSegment (js ''original-'' @ base64Url (random_at example_env 0 12) @ js ''.eml'')"
    by (simp only: not_False_eq_True)
  then have "path_at t (js ''incoming'') (js ''b1'') (inbound_id example_env (js ''b1'') (im_raw empty_mail)) ?name \<noteq> first_key" for t
    unfolding first_key_def by (metis path_name start_world_sel(3))
  then have none: "\<forall>t. objects (db_of (start_world delivered_db)) (path_at t (js ''incoming'') (js ''b1'') (inbound_id example_env (js ''b1'') (im_raw empty_mail)) ?name) = None"
    by (simp add: delivered_db_def)
  note kept = redelivery_changes_nothing [OF example_env_ok(1) mem own run refl]
  have "messages (db_of w') = [first_row]" using kept by (simp add: delivered_db_def)
  moreover have "objects (db_of (start_world delivered_db)) first_key = Some []" by (simp add: delivered_db_def)
  then have "objects (db_of w') first_key = Some []" using kept none by blast
  moreover have "m_raw_key first_row = Some first_key" by (simp add: first_row_def inbound_row_def Let_def)
  ultimately show ?thesis using run by blast
qed

end
