(* ===== verification/Operator_Config.thy ===== *)
theory Operator_Config
  imports Delivery
begin

text \<open>
  The operator's documents (\<open>src/scripts/config/operator-config.mjs\<close>, \<open>src/scripts/config/operator-state.mjs\<close>): the
  configuration \<open>.mailbox/config.json\<close>, the setup state \<open>.setup-state.json\<close> and the generated
  \<open>wrangler.deploy.jsonc\<close>, their validation against each other and against the commit that is checked out. The
  documents are parsed JSON, so their fields are \<open>jsval\<close>; a regular expression tests the text a field converts to.
\<close>

section \<open>Values\<close>

text \<open>\<open>===\<close> on parsed values: two objects or arrays that were read separately are never the same.\<close>

fun strict_eq :: "jsval \<Rightarrow> jsval \<Rightarrow> bool" where
  "strict_eq (JArr xs) v = False"
| "strict_eq (JObj kvs) v = False"
| "strict_eq v w = (v = w)"

definition field :: "jsval \<Rightarrow> string \<Rightarrow> jsval" where
  "field v k = js_get v (js k)"

text \<open>\<open>v || t\<close> with a text.\<close>

definition or_text :: "jsval \<Rightarrow> string \<Rightarrow> jsval" where
  "or_text v t = js_or v (JStr (js t))"

definition first_item :: "jsval \<Rightarrow> jsval" where
  "first_item v = (case v of JArr (x # xs) \<Rightarrow> x | _ \<Rightarrow> JUndef)"

definition is_array :: "jsval \<Rightarrow> bool" where
  "is_array v = (case v of JArr xs \<Rightarrow> True | _ \<Rightarrow> False)"

text \<open>\<open>{ ...v }\<close>, and an assignment to a property.\<close>

definition spread :: "jsval \<Rightarrow> (jstr \<times> jsval) list" where
  "spread v = (case v of JObj kvs \<Rightarrow> kvs
     | JArr xs \<Rightarrow> zip (map nat_text [0..<length xs]) xs
     | JStr s \<Rightarrow> zip (map nat_text [0..<length s]) (map (\<lambda>c. JStr [c]) s)
     | _ \<Rightarrow> [])"

definition with_fields :: "(jstr \<times> jsval) list \<Rightarrow> (string \<times> jsval) list \<Rightarrow> (jstr \<times> jsval) list" where
  "with_fields kvs updates = fold (\<lambda>(k, v). put_key (js k) v) updates kvs"

definition without_fields :: "(jstr \<times> jsval) list \<Rightarrow> string list \<Rightarrow> (jstr \<times> jsval) list" where
  "without_fields kvs names = filter (\<lambda>(k, v). k \<notin> js ` set names) kvs"

section \<open>The operator's configuration\<close>

definition OPERATOR_CONFIG_KEYS :: "string list" where
  "OPERATOR_CONFIG_KEYS = [''mode'', ''worker_name'', ''mail_domain'', ''admin_email'', ''app_origin'', ''cloudflare_account_id'',
     ''cloudflare_zone_id'', ''outbound_provider'', ''d1_name'', ''r2_name'']"

definition OUTBOUND_PROVIDERS :: "string list" where
  "OUTBOUND_PROVIDERS = [''none'', ''resend'', ''brevo'', ''cloudflare'']"

definition PLACEHOLDER_DOMAINS :: "string list" where
  "PLACEHOLDER_DOMAINS = [''example.com'', ''example.org'', ''example.net'', ''example.test'']"

definition one_of :: "string list \<Rightarrow> jsval \<Rightarrow> bool" where
  "one_of names v \<longleftrightarrow> v \<in> (\<lambda>n. JStr (js n)) ` set names"

definition hex32 :: "jstr \<Rightarrow> bool" where
  "hex32 s \<longleftrightarrow> length s = 32 \<and> list_all is_hex s \<and> \<not> list_all (\<lambda>c. c = 48) s"

definition validateZoneId :: "jsval \<Rightarrow> bool" where
  "validateZoneId v \<longleftrightarrow> hex32 (js_string v)"

definition validateAccountId :: "jsval \<Rightarrow> bool" where
  "validateAccountId v \<longleftrightarrow> hex32 (js_string v)"

definition slug_unit :: "code_unit \<Rightarrow> bool" where
  "slug_unit c \<longleftrightarrow> is_alnum c \<or> c = 45"

definition slug63 :: "jstr \<Rightarrow> bool" where
  "slug63 s \<longleftrightarrow> 1 \<le> length s \<and> length s \<le> 63 \<and> list_all slug_unit s"

definition bare_origin :: "jstr \<Rightarrow> bool" where
  "bare_origin s \<longleftrightarrow> (let host = drop 8 s in starts_with (js ''https://'') s \<and> host \<noteq> [] \<and> 47 \<notin> set host)"

text \<open>The messages of the fields that are not acceptable, in the order of the checks; the configuration is valid when there is none.\<close>

definition validateOperatorConfig :: "jsval \<Rightarrow> string list" where
  "validateOperatorConfig config =
     (let f = field config; production = (f ''mode'' = JStr (js ''production''));
          bad = (\<lambda>c (message :: string). if c then [message] else []) in
      bad (\<not> production \<and> f ''mode'' \<noteq> JStr (js ''dev'')) ''mode must be production|dev''
      @ bad (\<not> truthy (f ''worker_name'') \<or> \<not> slug63 (js_string (f ''worker_name''))) ''invalid worker_name''
      @ bad (\<not> truthy (f ''mail_domain'') \<or> one_of PLACEHOLDER_DOMAINS (f ''mail_domain'')) ''placeholder/invalid mail_domain''
      @ bad (\<not> truthy (f ''admin_email'') \<or> \<not> re_full email_regex (js_string (f ''admin_email''))) ''invalid admin_email''
      @ bad (\<not> truthy (f ''app_origin'') \<or> \<not> bare_origin (js_string (f ''app_origin''))) ''app_origin must be a bare https origin''
      @ bad (production \<and> \<not> validateZoneId (or_text (f ''cloudflare_zone_id'') '''')) ''cloudflare_zone_id must be 32 hex''
      @ bad (production \<and> \<not> validateAccountId (or_text (f ''cloudflare_account_id'') ''''))
          ''cloudflare_account_id must be 32 hex (and not all zeroes)''
      @ bad (truthy (f ''outbound_provider'') \<and> \<not> one_of OUTBOUND_PROVIDERS (f ''outbound_provider'')) ''unknown outbound_provider''
      @ bad (truthy (f ''d1_name'') \<and> \<not> slug63 (js_string (f ''d1_name''))) ''invalid d1_name''
      @ bad (truthy (f ''r2_name'') \<and> \<not> slug63 (js_string (f ''r2_name''))) ''invalid r2_name'')"

definition canonicalOperatorConfig :: "jsval \<Rightarrow> jsval" where
  "canonicalOperatorConfig config =
     obj (concat (map (\<lambda>k. let v = field config k in if v \<noteq> JUndef \<and> v \<noteq> JStr [] then [(k, v)] else [])
       OPERATOR_CONFIG_KEYS))"

section \<open>The canonical text of a document\<close>

text \<open>Keys in code-unit order; \<open>undefined\<close> becomes the text \<open>undefined\<close> under a key and the empty text in an array.\<close>

fun canonicalJson :: "jsval \<Rightarrow> jstr option" where
  "canonicalJson (JArr xs) =
     Some ([91] @ join_text [44] (map (\<lambda>x. case canonicalJson x of None \<Rightarrow> [] | Some t \<Rightarrow> t) xs) @ [93])"
| "canonicalJson (JObj kvs) =
     Some ([123] @ join_text [44] (map snd (sort_key fst (map (\<lambda>kv. (fst kv, json_quote (fst kv) @ [58] @
       (case canonicalJson (snd kv) of None \<Rightarrow> js ''undefined'' | Some t \<Rightarrow> t))) kvs))) @ [125])"
| "canonicalJson v = json_stringify v"

definition sha256Hex :: "platform \<Rightarrow> jstr \<Rightarrow> jstr" where
  "sha256Hex P input = hex_text (sha256_digest P (utf8 input))"

definition generatedConfigHash :: "platform \<Rightarrow> jsval \<Rightarrow> jstr" where
  "generatedConfigHash P generated = sha256Hex P (case canonicalJson generated of None \<Rightarrow> js ''undefined'' | Some t \<Rightarrow> t)"

section \<open>The three documents agree\<close>

text \<open>An \<open>OperatorStateError\<close>: its code and its detail.\<close>

type_synonym state_error = "string \<times> jstr"

definition OPERATOR_STATE_SCHEMA_VERSION :: jsval where
  "OPERATOR_STATE_SCHEMA_VERSION = JNum (js ''1'')"

definition uuid_text :: "jstr \<Rightarrow> bool" where
  "uuid_text s \<longleftrightarrow> map length (split_at 45 s) = [8, 4, 4, 4, 12] \<and> list_all (list_all is_hex) (split_at 45 s)"

definition d1DatabaseOf :: "jsval \<Rightarrow> jsval" where
  "d1DatabaseOf generated = (let v = field generated ''d1_databases'' in if is_array v then first_item v else JNull)"

definition r2BucketOf :: "jsval \<Rightarrow> jsval" where
  "r2BucketOf generated = (let v = field generated ''r2_buckets'' in if is_array v then first_item v else JNull)"

definition generated_var :: "jsval \<Rightarrow> string \<Rightarrow> jsval" where
  "generated_var generated k = field (field generated ''vars'') k"

definition is_document :: "jsval \<Rightarrow> bool" where
  "is_document v = (case v of JObj kvs \<Rightarrow> True | _ \<Rightarrow> False)"

definition mismatches :: "platform \<Rightarrow> jsval \<Rightarrow> jsval \<Rightarrow> jsval \<Rightarrow> jstr \<Rightarrow> state_error list" where
  "mismatches P operatorConfig setupState generated currentSha =
     (let s = field setupState; c = field operatorConfig; g = field generated; v = generated_var generated;
          d1 = d1DatabaseOf generated; r2 = r2BucketOf generated;
          bad = (\<lambda>b (code :: string) detail. if b then [(code, detail)] else []) in
      bad (\<not> strict_eq (s ''schema_version'') OPERATOR_STATE_SCHEMA_VERSION) ''operator_state_missing''
        (js ''unexpected setup-state schema_version '' @ js_string (s ''schema_version'') @ js ''.'')
      @ bad (\<not> strict_eq (s ''rc_sha'') (JStr currentSha)) ''operator_state_rc_mismatch''
        (js ''state rc_sha '' @ js_string (s ''rc_sha'') @ js '' != HEAD '' @ currentSha @ js ''.'')
      @ bad (\<not> strict_eq (s ''worker_name'') (c ''worker_name'') \<or> \<not> strict_eq (s ''worker_name'') (g ''name'')
          \<or> \<not> strict_eq (s ''worker_name'') (v ''MAIL_WORKER_NAME''))
        ''operator_state_worker_mismatch'' (js ''worker name differs across state/config/generated.'')
      @ (if \<not> truthy d1 then [(''operator_state_d1_mismatch'', js ''generated config has no D1 database.'')]
         else
           bad (\<not> strict_eq (s ''d1_name'') (c ''d1_name'') \<or> \<not> strict_eq (s ''d1_name'') (field d1 ''database_name''))
             ''operator_state_d1_mismatch'' (js ''D1 name differs across state/config/generated.'')
           @ bad (\<not> strict_eq (s ''d1_database_id'') (field d1 ''database_id''))
             ''operator_state_d1_mismatch'' (js ''D1 database id differs between state and generated.'')
           @ bad (\<not> uuid_text (js_string (or_text (s ''d1_database_id'') '''')))
             ''operator_state_d1_mismatch'' (js ''setup state D1 id is not a UUID.''))
      @ (if \<not> truthy r2 then [(''operator_state_r2_mismatch'', js ''generated config has no R2 bucket.'')]
         else bad (\<not> strict_eq (s ''r2_name'') (c ''r2_name'') \<or> \<not> strict_eq (s ''r2_name'') (field r2 ''bucket_name''))
           ''operator_state_r2_mismatch'' (js ''R2 name differs across state/config/generated.''))
      @ bad (\<not> strict_eq (s ''mail_domain'') (c ''mail_domain'') \<or> \<not> strict_eq (s ''mail_domain'') (v ''MAIL_DOMAIN''))
        ''operator_state_domain_mismatch'' (js ''mail domain differs across state/config/generated.'')
      @ bad (\<not> strict_eq (s ''cloudflare_zone_id'') (c ''cloudflare_zone_id'')
          \<or> \<not> strict_eq (s ''cloudflare_zone_id'') (v ''CLOUDFLARE_ZONE_ID''))
        ''operator_state_zone_mismatch'' (js ''zone id differs across state/config/generated.'')
      @ bad (\<not> strict_eq (s ''cloudflare_account_id'') (c ''cloudflare_account_id''))
        ''operator_state_account_mismatch'' (js ''Cloudflare account id differs between state and operator config.'')
      @ bad (\<not> strict_eq (s ''outbound_provider'') (c ''outbound_provider'')
          \<or> \<not> strict_eq (s ''outbound_provider'') (v ''OUTBOUND_PROVIDER''))
        ''operator_state_provider_mismatch'' (js ''active provider differs across state/config/generated.'')
      @ bad (\<not> strict_eq (s ''config_hash'') (JStr (generatedConfigHash P generated)))
        ''operator_state_config_hash_mismatch'' (js ''generated config has been modified or the state hash is stale.''))"

text \<open>The validated facts, or the first mismatch.\<close>

definition validateOperatorState :: "platform \<Rightarrow> jsval \<Rightarrow> jsval \<Rightarrow> jsval \<Rightarrow> jstr \<Rightarrow> state_error + jsval" where
  "validateOperatorState P operatorConfig setupState generated currentSha =
     (if \<not> truthy setupState then
        Inl (''operator_state_missing'', js ''no .setup-state.json '' @ [0x2014] @ js '' run the full production setup first.'')
      else if \<not> truthy generated then
        Inl (''generated_config_missing'', js ''no wrangler.deploy.jsonc '' @ [0x2014] @ js '' run the full production setup first.'')
      else if \<not> is_document generated then
        Inl (''generated_config_invalid'', js ''wrangler.deploy.jsonc is not a JSON object.'')
      else
        (case mismatches P operatorConfig setupState generated currentSha of
           m # ms \<Rightarrow> Inl m
         | [] \<Rightarrow>
             (let s = field setupState in
              Inr (obj [(''ok'', JBool True), (''workerName'', s ''worker_name''), (''d1Name'', s ''d1_name''),
                (''d1DatabaseId'', s ''d1_database_id''), (''r2Name'', s ''r2_name''), (''mailDomain'', s ''mail_domain''),
                (''zoneId'', s ''cloudflare_zone_id''), (''outboundProvider'', s ''outbound_provider''),
                (''configHash'', JStr (generatedConfigHash P generated))]))))"

text \<open>A configuration without the name of the database never validates against a state that has one.\<close>

lemma missing_d1_name:
  assumes "field operatorConfig ''d1_name'' = JUndef" "field setupState ''d1_name'' = JStr name"
  shows "\<exists>e. validateOperatorState P operatorConfig setupState generated currentSha = Inl e"
proof -
  have "mismatches P operatorConfig setupState generated currentSha \<noteq> []"
    using assms by (simp add: mismatches_def Let_def)
  then show ?thesis by (simp add: validateOperatorState_def split: list.split)
qed

end
