(* ===== verification/Operator_Setup.thy ===== *)
theory Operator_Setup
  imports Operator_Config
begin

text \<open>
  The deterministic part of the setup command (\<open>src/scripts/setup-core.mjs\<close>): arguments, the checks of a production
  deployment, the plan, the generated Wrangler configuration with its invariants, and the classification of resources that
  exist already. The URL parser of the platform and the variables of the process are in the record \<open>host\<close>.
\<close>

section \<open>The platform\<close>

record url_parts =
  url_protocol :: jstr
  url_hostname :: jstr
  url_username :: jstr
  url_password :: jstr
  url_pathname :: jstr
  url_search :: jstr
  url_hash :: jstr

record host =
  platform_of :: platform
  url_of :: "jstr \<Rightarrow> url_parts option"
  before_text :: "jstr \<Rightarrow> jstr \<Rightarrow> bool"
  os_env :: "jstr \<Rightarrow> jstr option"

text \<open>\<open>process.env.NAME\<close>.\<close>

definition env_value :: "host \<Rightarrow> string \<Rightarrow> jsval" where
  "env_value H name = (case os_env H (js name) of None \<Rightarrow> JUndef | Some t \<Rightarrow> JStr t)"

section \<open>Arguments\<close>

definition MODES :: "string list" where
  "MODES = [''dev'', ''production'']"

definition R2_SENTINEL_SCHEMA :: string where
  "R2_SENTINEL_SCHEMA = ''mailbox-r2-v1''"

definition PLACEHOLDER_WORKER_NAMES :: "string list" where
  "PLACEHOLDER_WORKER_NAMES = [''mailgable-dev'']"

definition KNOWN_MAILBOX_TABLES :: "string list" where
  "KNOWN_MAILBOX_TABLES = [''admins'', ''admin_sessions'', ''auth_attempts'', ''admin_audit_log'', ''mailboxes'', ''mail_threads'',
     ''mail_messages'', ''mail_attachments'', ''mail_delivery_events'', ''inbound_forward_attempts'', ''mail_ops_probes'']"

record setup_args =
  sa_mode :: jsval
  sa_dry_run :: bool
  sa_app_origin :: jsval
  sa_worker :: jsval
  sa_domain :: jsval
  sa_admin :: jsval
  sa_zone :: jsval
  sa_d1 :: jsval
  sa_r2 :: jsval
  sa_account :: jsval
  sa_provider :: jsval
  sa_adopt_empty :: bool
  sa_deploy_only :: bool
  sa_migrate_only :: bool

text \<open>The argument after the first occurrence of a flag.\<close>

fun flag_argument :: "jstr list \<Rightarrow> jstr \<Rightarrow> jsval" where
  "flag_argument [] flag = JStr []"
| "flag_argument (a # args) flag =
     (if a = flag then (case args of [] \<Rightarrow> JUndef | b # _ \<Rightarrow> JStr b) else flag_argument args flag)"

definition parseSetupArgs :: "host \<Rightarrow> jstr list \<Rightarrow> setup_args" where
  "parseSetupArgs H args =
     (let get = (\<lambda>flag. flag_argument args (js flag));
          with_env = (\<lambda>flag name. or_text (js_or (get flag) (env_value H name)) '''') in
      \<lparr> sa_mode = or_text (get ''--mode'') ''dev'', sa_dry_run = (js ''--dry-run'' \<in> set args),
        sa_app_origin = with_env ''--app-origin'' ''APP_ORIGIN'', sa_worker = with_env ''--worker-name'' ''MAILGABLE_WORKER_NAME'',
        sa_domain = with_env ''--mail-domain'' ''MAIL_DOMAIN'', sa_admin = with_env ''--admin-email'' ''ADMIN_EMAIL'',
        sa_zone = with_env ''--zone-id'' ''CLOUDFLARE_ZONE_ID'', sa_d1 = with_env ''--d1-name'' ''MAILGABLE_D1_NAME'',
        sa_r2 = with_env ''--r2-name'' ''MAILGABLE_R2_NAME'', sa_account = JUndef, sa_provider = JUndef,
        sa_adopt_empty = (js ''--adopt-empty-resources'' \<in> set args), sa_deploy_only = (js ''--deploy-only'' \<in> set args),
        sa_migrate_only = (js ''--migrate-only'' \<in> set args) \<rparr>)"

definition validateMode :: "jsval \<Rightarrow> bool" where
  "validateMode mode \<longleftrightarrow> one_of MODES mode"

section \<open>Production inputs\<close>

text \<open>The code of the first rule an origin breaks, or its host name.\<close>

definition strictOrigin :: "host \<Rightarrow> jsval \<Rightarrow> string + jstr" where
  "strictOrigin H appOrigin =
     (case url_of H (js_string appOrigin) of
        None \<Rightarrow> Inl ''origin_invalid''
      | Some u \<Rightarrow>
          if url_protocol u \<noteq> js ''https:'' then Inl ''origin_protocol''
          else if url_hostname u = [] then Inl ''origin_hostname''
          else if url_username u \<noteq> [] \<or> url_password u \<noteq> [] then Inl ''origin_userinfo''
          else if url_pathname u \<noteq> js ''/'' then Inl ''origin_path''
          else if url_search u \<noteq> [] \<or> url_hash u \<noteq> [] then Inl ''origin_query''
          else Inr (url_hostname u))"

definition isPlaceholder :: "host \<Rightarrow> jsval \<Rightarrow> string list \<Rightarrow> bool" where
  "isPlaceholder H v placeholders =
     (let normalized = to_lower (uni (platform_of H)) (trim (js_string (or_text v ''''))) in
      list_ex (\<lambda>p. normalized = js p \<or> ends_with (js (''@'' @ p)) normalized) placeholders)"

definition domain_edge :: "code_unit \<Rightarrow> bool" where
  "domain_edge c \<longleftrightarrow> is_alnum c"

definition mail_domain_text :: "jstr \<Rightarrow> bool" where
  "mail_domain_text s \<longleftrightarrow> s \<noteq> [] \<and> domain_edge (hd s) \<and> domain_edge (last s) \<and> list_all (\<lambda>c. is_alnum c \<or> c = 46 \<or> c = 45) s"

text \<open>\<open>v.length > n\<close> of a truthy value.\<close>

definition longer_than :: "nat \<Rightarrow> jsval \<Rightarrow> bool" where
  "longer_than n v = (case v of JStr s \<Rightarrow> n < length s | JArr xs \<Rightarrow> n < length xs | _ \<Rightarrow> False)"

definition named_after :: "jsval \<Rightarrow> jsval \<Rightarrow> string \<Rightarrow> jsval" where
  "named_after name workerName suffix = js_or name (JStr (js_string workerName @ js suffix))"

definition worker_name_ok :: "jsval \<Rightarrow> bool" where
  "worker_name_ok v \<longleftrightarrow> truthy v \<and> \<not> one_of PLACEHOLDER_WORKER_NAMES v \<and> \<not> longer_than 128 v
     \<and> js_string v \<noteq> [] \<and> list_all slug_unit (js_string v)"

text \<open>The code and the detail of the first failed check, or the host of the origin.\<close>

definition validateProductionInputs :: "host \<Rightarrow> setup_args \<Rightarrow> (string \<times> string) + jstr" where
  "validateProductionInputs H a =
     (let d1Name = named_after (sa_d1 a) (sa_worker a) ''-db''; r2Name = named_after (sa_r2 a) (sa_worker a) ''-r2'' in
      case strictOrigin H (sa_app_origin a) of
        Inl code \<Rightarrow> Inl (code, ''APP_ORIGIN'')
      | Inr origin \<Rightarrow>
          if \<not> truthy (sa_domain a) \<or> isPlaceholder H (sa_domain a) PLACEHOLDER_DOMAINS then Inl (''placeholder_mail_domain'', '''')
          else if \<not> mail_domain_text (js_string (sa_domain a)) then Inl (''invalid_mail_domain'', '''')
          else if \<not> truthy (sa_admin a) \<or> isPlaceholder H (sa_admin a) PLACEHOLDER_DOMAINS then Inl (''placeholder_admin_email'', '''')
          else if \<not> re_full email_regex (js_string (sa_admin a)) then Inl (''invalid_admin_email'', '''')
          else if \<not> truthy (sa_zone a) \<or> \<not> hex32 (js_string (sa_zone a)) then Inl (''invalid_zone_id'', '''')
          else if \<not> hex32 (js_string (or_text (sa_account a) '''')) then Inl (''invalid_account_id'', '''')
          else if \<not> worker_name_ok (sa_worker a) then Inl (''invalid_worker_name'', '''')
          else if \<not> truthy d1Name \<or> \<not> slug63 (js_string d1Name) then Inl (''invalid_d1_name'', '''')
          else if \<not> truthy r2Name \<or> \<not> slug63 (js_string r2Name) then Inl (''invalid_r2_name'', '''')
          else Inr origin)"

section \<open>The plan and the generated configuration\<close>

record setup_plan =
  pl_mode :: jsval
  pl_worker :: jsval
  pl_domain :: jsval
  pl_admin :: jsval
  pl_zone :: jsval
  pl_account :: jsval
  pl_d1 :: jsval
  pl_r2 :: jsval
  pl_database :: jsval
  pl_provider :: jsval
  pl_workers_dev :: bool
  pl_app_origin :: jsval
  pl_origin_host :: jstr
  pl_secrets :: jsval

definition is_production :: "jsval \<Rightarrow> bool" where
  "is_production mode \<longleftrightarrow> mode = JStr (js ''production'')"

text \<open>A dev deployment takes its names from the template; \<open>new URL\<close> throws on an origin that is not a URL.\<close>

definition buildSetupPlan :: "host \<Rightarrow> jsval \<Rightarrow> setup_args \<Rightarrow> jsval \<Rightarrow> jsval \<Rightarrow> exn + setup_plan" where
  "buildSetupPlan H template a databaseId secrets =
     (let production = is_production (sa_mode a);
          workerName = (if production then sa_worker a else JStr (js_string (or_text (field template ''name'') ''mailgable-dev'')));
          from_template = (\<lambda>part name fallback. JStr (js_string (or_text (field (first_item (field template part)) name) fallback)));
          d1Name = js_or (sa_d1 a) (if production then JStr (js_string workerName @ js ''-db'')
            else from_template ''d1_databases'' ''database_name'' ''mailgable-db'');
          r2Name = js_or (sa_r2 a) (if production then JStr (js_string workerName @ js ''-r2'')
            else from_template ''r2_buckets'' ''bucket_name'' ''mailgable-r2'');
          plan = (\<lambda>host.
            \<lparr> pl_mode = sa_mode a, pl_worker = workerName, pl_domain = or_text (sa_domain a) '''', pl_admin = or_text (sa_admin a) '''',
              pl_zone = or_text (sa_zone a) '''', pl_account = or_text (sa_account a) '''', pl_d1 = d1Name, pl_r2 = r2Name,
              pl_database = databaseId, pl_provider = or_text (sa_provider a) ''none'', pl_workers_dev = (\<not> production),
              pl_app_origin = sa_app_origin a, pl_origin_host = host, pl_secrets = secrets \<rparr>) in
      if \<not> truthy (sa_app_origin a) then Inr (plan [])
      else (case url_of H (js_string (sa_app_origin a)) of
              None \<Rightarrow> Inl (JsError (js ''TypeError'') (js ''Invalid URL''))
            | Some u \<Rightarrow> Inr (plan (url_hostname u))))"

text \<open>Only the secrets without which the Worker cannot send are required of a deployment.\<close>

definition PROVIDER_ACTIVATION_REQUIREMENTS :: "(string \<times> string list) list" where
  "PROVIDER_ACTIVATION_REQUIREMENTS =
     [(''none'', []), (''resend'', [''RESEND_API_KEY'']), (''brevo'', [''BREVO_API_KEY'']), (''cloudflare'', [])]"

definition entries_for :: "(string \<times> string list) list \<Rightarrow> jsval \<Rightarrow> string list" where
  "entries_for table provider =
     (case map_of (map (\<lambda>(k, v). (js k, v)) table) (js_string provider) of None \<Rightarrow> [] | Some names \<Rightarrow> names)"

definition requiredSecretsFor :: "jsval \<Rightarrow> string list" where
  "requiredSecretsFor provider = ''AUTH_PEPPER'' # entries_for PROVIDER_ACTIVATION_REQUIREMENTS provider"

definition texts :: "string list \<Rightarrow> jsval" where
  "texts names = JArr (map (\<lambda>n. JStr (js n)) names)"

definition named_items :: "jsval \<Rightarrow> (string \<times> jsval) list \<Rightarrow> exn + jsval" where
  "named_items v updates =
     (case v of JArr xs \<Rightarrow> Inr (JArr (map (\<lambda>x. JObj (with_fields (spread x) updates)) xs)) | _ \<Rightarrow> Inl type_error)"

definition event_queue :: "setup_plan \<Rightarrow> jsval" where
  "event_queue plan = obj [(''consumers'', JArr [obj [(''queue'', JStr (js_string (pl_worker plan) @ js ''-email-events'')),
     (''max_batch_size'', JNum (js ''10'')), (''max_retries'', JNum (js ''5''))]])]"

definition production_vars :: "setup_plan \<Rightarrow> (string \<times> jsval) list" where
  "production_vars plan = [(''APP_ORIGIN'', pl_app_origin plan), (''MAIL_WORKER_NAME'', pl_worker plan), (''MAIL_DOMAIN'', pl_domain plan),
     (''ADMIN_EMAIL'', pl_admin plan), (''CLOUDFLARE_ZONE_ID'', pl_zone plan), (''OUTBOUND_PROVIDER'', pl_provider plan)]"

definition production_fields :: "setup_plan \<Rightarrow> (jstr \<times> jsval) list \<Rightarrow> (jstr \<times> jsval) list" where
  "production_fields plan kvs =
     (let config = with_fields kvs
            [(''workers_dev'', JBool False), (''preview_urls'', JBool False),
             (''routes'', JArr [obj [(''pattern'', JStr (pl_origin_host plan)), (''custom_domain'', JBool True)]]),
             (''vars'', JObj (with_fields (spread (js_or (field (JObj kvs) ''vars'') (JObj []))) (production_vars plan))),
             (''secrets'', obj [(''required'', texts (requiredSecretsFor (pl_provider plan)))])] in
      if pl_provider plan = JStr (js ''cloudflare'') then
        with_fields config [(''send_email'', JArr [obj [(''name'', JStr (js ''EMAIL''))]]), (''queues'', event_queue plan)]
      else without_fields config [''send_email'', ''queues''])"

definition dev_fields :: "(jstr \<times> jsval) list \<Rightarrow> (jstr \<times> jsval) list" where
  "dev_fields kvs = without_fields (with_fields kvs [(''workers_dev'', JBool True), (''preview_urls'', JBool False)])
     [''routes'', ''send_email'', ''queues'']"

text \<open>The template was parsed from a file, so the copy through JSON that the code makes is the template itself.\<close>

definition buildGeneratedConfig :: "jsval \<Rightarrow> setup_plan \<Rightarrow> exn + jsval" where
  "buildGeneratedConfig template plan =
     (case named_items (field template ''d1_databases'') [(''database_name'', pl_d1 plan), (''database_id'', pl_database plan)] of
        Inl e \<Rightarrow> Inl e
      | Inr d1 \<Rightarrow>
          (case named_items (field template ''r2_buckets'') [(''bucket_name'', pl_r2 plan)] of
             Inl e \<Rightarrow> Inl e
           | Inr r2 \<Rightarrow>
               (let kvs = with_fields (spread template) [(''name'', pl_worker plan), (''d1_databases'', d1), (''r2_buckets'', r2)] in
                Inr (JObj (if is_production (pl_mode plan) then production_fields plan kvs else dev_fields kvs)))))"

definition configInvariants :: "jsval \<Rightarrow> string list" where
  "configInvariants config =
     (let routes = field config ''routes''; bad = (\<lambda>c (message :: string). if c then [message] else []) in
      bad (\<not> strict_eq (field config ''name'') (generated_var config ''MAIL_WORKER_NAME'')) ''name must equal MAIL_WORKER_NAME''
      @ bad (field config ''workers_dev'' = JBool False
          \<and> \<not> (case routes of JArr [r] \<Rightarrow> field r ''custom_domain'' = JBool True | _ \<Rightarrow> False))
          ''production requires exactly one custom-domain route''
      @ bad (field config ''workers_dev'' = JBool True \<and> longer_than 0 routes) ''dev mode must not carry production routes'')"

section \<open>Resources that exist already\<close>

datatype resource_state = List_Error string | Missing | Present jstr

definition listed_name :: "string list \<Rightarrow> jsval \<Rightarrow> jstr" where
  "listed_name names item = js_string (foldr js_or (map (field item) names) (JStr []))"

text \<open>Looking for a name throws on an item that is \<open>null\<close>; the items after the match are not looked at.\<close>

fun find_item :: "(jsval \<Rightarrow> bool) \<Rightarrow> jsval list \<Rightarrow> exn + jsval option" where
  "find_item p [] = Inr None"
| "find_item p (x # xs) = (if x = JNull \<or> x = JUndef then Inl type_error else if p x then Inr (Some x) else find_item p xs)"

definition classifyD1State :: "jsval \<Rightarrow> jstr \<Rightarrow> exn + resource_state" where
  "classifyD1State listing name =
     (case listing of
        JArr items \<Rightarrow>
          map_sum id (\<lambda>found. case found of None \<Rightarrow> Missing | Some x \<Rightarrow> Present (listed_name [''uuid'', ''id''] x))
            (find_item (\<lambda>x. listed_name [''name'', ''database_name''] x = name) items)
      | _ \<Rightarrow> Inr (List_Error ''d1_list_error''))"

definition classifyR2State :: "jsval \<Rightarrow> jstr \<Rightarrow> exn + resource_state" where
  "classifyR2State listing name =
     (case listing of
        JArr items \<Rightarrow>
          map_sum id (\<lambda>found. case found of None \<Rightarrow> Missing | Some x \<Rightarrow> Present [])
            (find_item (\<lambda>x. listed_name [''name''] x = name) items)
      | _ \<Rightarrow> Inr (List_Error ''r2_list_error''))"

definition r2Sentinel :: jsval where
  "r2Sentinel = obj [(''schema'', JStr (js R2_SENTINEL_SCHEMA))]"

text \<open>Whether there is no table, and the names of the tables that MailGable does not know; \<open>None\<close> when the listing is not an array.\<close>

definition isKnownMailboxSchema :: "jsval \<Rightarrow> exn + (bool \<times> jstr list) option" where
  "isKnownMailboxSchema tables =
     (case tables of
        JArr rows \<Rightarrow>
          if JNull \<in> set rows \<or> JUndef \<in> set rows then Inl type_error else
          (let names = filter (\<lambda>n. n \<noteq> []) (map (listed_name [''name'']) rows) in
           Inr (Some (names = [], filter (\<lambda>n. n \<notin> js ` set KNOWN_MAILBOX_TABLES) names)))
      | _ \<Rightarrow> Inr None)"

definition buildSecretPlan :: "(jstr \<times> jstr) list \<Rightarrow> jsval" where
  "buildSecretPlan credentials =
     (let present = (\<lambda>name. JBool (case map_of credentials (js name) of None \<Rightarrow> False | Some t \<Rightarrow> t \<noteq> [])) in
      obj [(''auth_pepper'', present ''AUTH_PEPPER''), (''admin_bootstrap_token'', present ''ADMIN_BOOTSTRAP_TOKEN''),
        (''cloudflare_routing_read_token'', present ''CLOUDFLARE_ROUTING_READ_TOKEN''), (''resend_api_key'', present ''RESEND_API_KEY''),
        (''resend_webhook_secret'', present ''RESEND_WEBHOOK_SECRET''),
        (''requiredPresent'', JBool (present ''AUTH_PEPPER'' = JBool True \<and> present ''ADMIN_BOOTSTRAP_TOKEN'' = JBool True))])"

definition configHash :: "platform \<Rightarrow> jsval \<Rightarrow> jstr" where
  "configHash P config = sha256Hex P (json_text config)"

section \<open>The state that setup writes\<close>

definition setup_state :: "platform \<Rightarrow> jstr \<Rightarrow> setup_plan \<Rightarrow> jsval \<Rightarrow> jsval" where
  "setup_state P rcSha plan config =
     obj [(''schema_version'', OPERATOR_STATE_SCHEMA_VERSION), (''rc_sha'', JStr rcSha), (''mode'', pl_mode plan),
       (''worker_name'', pl_worker plan), (''d1_name'', pl_d1 plan), (''d1_database_id'', pl_database plan), (''r2_name'', pl_r2 plan),
       (''mail_domain'', pl_domain plan), (''cloudflare_zone_id'', pl_zone plan), (''cloudflare_account_id'', pl_account plan),
       (''outbound_provider'', pl_provider plan), (''config_hash'', JStr (generatedConfigHash P config))]"

end
