(* ===== verification/Credentials.thy ===== *)
theory Credentials
  imports Operator_Setup
begin

text \<open>
  The credential schema and the text format of the credential store (\<open>src/scripts/config/credentials.mjs\<close>): which credentials
  stay with the operator, which are installed on the Worker, and the writer and the parser of \<open>.mailbox/credentials.env\<close>.
  The theorem is the round trip: every set of credentials the writer accepts is what the parser reads.
\<close>

section \<open>The schema\<close>

datatype role = Operator_Local | Runtime_Persistent | Runtime_Transient

record credential_entry =
  ce_key :: string
  ce_role :: role
  ce_provider :: string

definition credential :: "string \<Rightarrow> role \<Rightarrow> string \<Rightarrow> credential_entry" where
  "credential k r p = \<lparr> ce_key = k, ce_role = r, ce_provider = p \<rparr>"

definition CREDENTIAL_SCHEMA :: "credential_entry list" where
  "CREDENTIAL_SCHEMA =
     [credential ''CLOUDFLARE_API_TOKEN'' Operator_Local ''cloudflare'',
      credential ''CLOUDFLARE_ROUTING_READ_TOKEN'' Runtime_Persistent ''routing'',
      credential ''AUTH_PEPPER'' Runtime_Persistent ''common'',
      credential ''ADMIN_BOOTSTRAP_TOKEN'' Runtime_Transient ''common'',
      credential ''RESEND_SETUP_API_KEY'' Operator_Local ''resend'',
      credential ''RESEND_API_KEY'' Runtime_Persistent ''resend'',
      credential ''RESEND_WEBHOOK_SECRET'' Runtime_Persistent ''resend'',
      credential ''BREVO_SETUP_API_KEY'' Operator_Local ''brevo'',
      credential ''BREVO_API_KEY'' Runtime_Persistent ''brevo'',
      credential ''BREVO_WEBHOOK_TOKEN'' Runtime_Persistent ''brevo'']"

definition CREDENTIAL_KEYS :: "string list" where
  "CREDENTIAL_KEYS = map ce_key CREDENTIAL_SCHEMA"

definition keys_with :: "(credential_entry \<Rightarrow> bool) \<Rightarrow> string list" where
  "keys_with p = map ce_key (filter p CREDENTIAL_SCHEMA)"

definition RUNTIME_UPLOADABLE_SECRETS :: "string list" where
  "RUNTIME_UPLOADABLE_SECRETS = keys_with (\<lambda>e. ce_role e = Runtime_Persistent \<or> ce_role e = Runtime_Transient)"

definition DELIVERY_EVENT_SECRETS :: "(string \<times> string list) list" where
  "DELIVERY_EVENT_SECRETS = [(''resend'', [''RESEND_WEBHOOK_SECRET'']), (''brevo'', [''BREVO_WEBHOOK_TOKEN'']), (''cloudflare'', [])]"

definition OPERATOR_LOCAL_CREDENTIALS :: "string list" where
  "OPERATOR_LOCAL_CREDENTIALS = keys_with (\<lambda>e. ce_role e = Operator_Local)"

definition TRANSIENT_CREDENTIALS :: "string list" where
  "TRANSIENT_CREDENTIALS = keys_with (\<lambda>e. ce_role e = Runtime_Transient)"

definition PERSISTENT_RUNTIME_SECRETS :: "string list" where
  "PERSISTENT_RUNTIME_SECRETS = keys_with (\<lambda>e. ce_role e = Runtime_Persistent)"

definition COMMON_RUNTIME_SECRETS :: "string list" where
  "COMMON_RUNTIME_SECRETS = keys_with (\<lambda>e. (ce_provider e = ''common'' \<or> ce_provider e = ''routing'') \<and> ce_role e = Runtime_Persistent)"

definition PROVIDER_RUNTIME_SECRETS :: "(string \<times> string list) list" where
  "PROVIDER_RUNTIME_SECRETS = [(''none'', []), (''resend'', [''RESEND_API_KEY'', ''RESEND_WEBHOOK_SECRET'']),
     (''brevo'', [''BREVO_API_KEY'', ''BREVO_WEBHOOK_TOKEN'']), (''cloudflare'', [])]"

definition credentialRequiresFor :: "jsval \<Rightarrow> string list" where
  "credentialRequiresFor provider = entries_for PROVIDER_RUNTIME_SECRETS provider"

section \<open>The text of the store\<close>

type_synonym credentials = "(jstr \<times> jstr) list"

definition known_key :: "jstr \<Rightarrow> bool" where
  "known_key k \<longleftrightarrow> k \<in> js ` set CREDENTIAL_KEYS"

definition credential_error :: "jstr \<Rightarrow> exn" where
  "credential_error message = JsError (js ''Error'') message"

definition key_unknown :: "jstr \<Rightarrow> exn" where
  "key_unknown k = credential_error (js ''credential_key_unknown: '' @ [39] @ k @ [39] @ js '' is not part of the credential schema.'')"

definition value_invalid :: "jstr \<Rightarrow> exn" where
  "value_invalid k = credential_error (js ''credential_value_invalid: '' @ k @ js '' contains a line break.'')"

definition malformed_line :: exn where
  "malformed_line = credential_error (js ''malformed credentials line (expected KEY='' @ [34] @ js ''value'' @ [34] @ js '')'')"

definition duplicate_key :: "jstr \<Rightarrow> exn" where
  "duplicate_key k = credential_error (js ''duplicate credentials key: '' @ k)"

definition escape_value :: "jstr \<Rightarrow> jstr" where
  "escape_value v = concat (map (\<lambda>c. if c = 92 \<or> c = 34 then [92, c] else [c]) v)"

definition entry_line :: "jstr \<times> jstr \<Rightarrow> jstr" where
  "entry_line kv = fst kv @ [61, 34] @ escape_value (snd kv) @ [34]"

fun entry_lines :: "credentials \<Rightarrow> exn + jstr list" where
  "entry_lines [] = Inr []"
| "entry_lines ((k, v) # kvs) =
     (if \<not> known_key k then Inl (key_unknown k)
      else if list_ex line_break v then Inl (value_invalid k)
      else map_sum id (\<lambda>ls. entry_line (k, v) # ls) (entry_lines kvs))"

definition serializeCredentialEnv :: "host \<Rightarrow> credentials \<Rightarrow> exn + jstr" where
  "serializeCredentialEnv H credentials =
     map_sum id (\<lambda>ls. if ls = [] then [] else join_text [10] ls @ [10])
       (entry_lines (sort_by (\<lambda>a b. before_text H (fst a) (fst b)) credentials))"

text \<open>\<open>content.split(/\r?\n/)\<close>: the lines between line feeds, each without the carriage return before its end.\<close>

fun strip_returns :: "jstr list \<Rightarrow> jstr list" where
  "strip_returns [] = []"
| "strip_returns [l] = [l]"
| "strip_returns (l # ls) = (if l \<noteq> [] \<and> last l = 13 then butlast l else l) # strip_returns ls"

definition text_lines :: "jstr \<Rightarrow> jstr list" where
  "text_lines content = strip_returns (split_at 10 content)"

definition key_unit :: "code_unit \<Rightarrow> bool" where
  "key_unit c \<longleftrightarrow> is_upper c \<or> is_digit c \<or> c = 95"

definition line_terminator_unit :: "code_unit \<Rightarrow> bool" where
  "line_terminator_unit c \<longleftrightarrow> c = 10 \<or> c = 13 \<or> c = 0x2028 \<or> c = 0x2029"

definition quoted_regex :: regex where
  "quoted_regex = Star (Alt (Cls (\<lambda>c. c \<noteq> 34 \<and> c \<noteq> 92)) (Cat (chr 92) (Cls (\<lambda>c. \<not> line_terminator_unit c))))"

definition bare_regex :: regex where
  "bare_regex = Star (Cls (\<lambda>c. c \<noteq> 34 \<and> \<not> js_space c))"

definition line_regex :: regex where
  "line_regex = cats [Cap 1 (Plus (Cls key_unit)), chr 61, Alt (cats [chr 34, Cap 2 quoted_regex, chr 34]) (Cap 3 bare_regex)]"

text \<open>\<open>quoted.replace(/\\(["\\])/g, "$1")\<close>.\<close>

fun unescape_value :: "jstr \<Rightarrow> jstr" where
  "unescape_value (c # d # ds) = (if c = 92 \<and> (d = 34 \<or> d = 92) then d # unescape_value ds else c # unescape_value (d # ds))"
| "unescape_value s = s"

definition group_text :: "captures \<Rightarrow> nat \<Rightarrow> jstr" where
  "group_text k n = (case map_of k n of None \<Rightarrow> [] | Some t \<Rightarrow> t)"

definition group_value :: "captures \<Rightarrow> jstr" where
  "group_value k = (case map_of k 2 of Some quoted \<Rightarrow> unescape_value quoted | None \<Rightarrow> group_text k 3)"

definition parse_line :: "jstr \<Rightarrow> credentials \<Rightarrow> exn + credentials" where
  "parse_line line result =
     (let t = trim line in
      if t = [] \<or> hd t = 35 then Inr result
      else
        (case re_groups line_regex t of
           None \<Rightarrow> Inl malformed_line
         | Some k \<Rightarrow>
             (let key = group_text k 1 in
              if \<not> known_key key then Inl (key_unknown key)
              else if key \<in> fst ` set result then Inl (duplicate_key key)
              else Inr (result @ [(key, group_value k)]))))"

fun parse_lines :: "jstr list \<Rightarrow> credentials \<Rightarrow> exn + credentials" where
  "parse_lines [] result = Inr result"
| "parse_lines (l # ls) result = (case parse_line l result of Inl e \<Rightarrow> Inl e | Inr result' \<Rightarrow> parse_lines ls result')"

definition parseCredentialEnv :: "jstr \<Rightarrow> exn + credentials" where
  "parseCredentialEnv content = parse_lines (text_lines content) []"

section \<open>Selections\<close>

definition credential_of :: "credentials \<Rightarrow> string \<Rightarrow> jstr" where
  "credential_of c name = (case map_of c (js name) of None \<Rightarrow> [] | Some t \<Rightarrow> t)"

definition selected :: "credentials \<Rightarrow> string list \<Rightarrow> credentials" where
  "selected c names = concat (map (\<lambda>n. let t = credential_of c n in if t = [] then [] else [(js n, t)]) names)"

definition providerActiveCredentials :: "jsval \<Rightarrow> credentials \<Rightarrow> credentials" where
  "providerActiveCredentials provider c = selected c (COMMON_RUNTIME_SECRETS @ entries_for PROVIDER_RUNTIME_SECRETS provider)"

definition sanitizeKeyName :: "jstr \<Rightarrow> jstr" where
  "sanitizeKeyName k = map (\<lambda>c. if key_unit c then c else 95) k"

text \<open>\<open>{ ...fromFile, ...fromProcess }\<close>: the variables of the process win.\<close>

definition from_process :: "host \<Rightarrow> credentials" where
  "from_process H = concat (map (\<lambda>k. case os_env H (js k) of Some t \<Rightarrow> if t = [] then [] else [(js k, t)] | None \<Rightarrow> []) CREDENTIAL_KEYS)"

definition merged :: "credentials \<Rightarrow> credentials \<Rightarrow> credentials" where
  "merged base over = fold (\<lambda>(k, v). put_key k v) over base"

section \<open>The round trip\<close>

text \<open>The groups of an anchored match of \<open>line_regex\<close> are what they are said to be.\<close>

fun no_groups :: "regex \<Rightarrow> bool" where
  "no_groups (Cap n a) = False"
| "no_groups (Back n) = False"
| "no_groups (Cat a b) = (no_groups a \<and> no_groups b)"
| "no_groups (Alt a b) = (no_groups a \<and> no_groups b)"
| "no_groups (Star a) = no_groups a"
| "no_groups (LazyStar a) = no_groups a"
| "no_groups _ = True"

lemma no_groups_plain: "no_groups r \<Longrightarrow> plain r"
  by (induction r) auto

lemma no_groups_keep: "(s', k') \<in> set (re_match r s k) \<Longrightarrow> no_groups r \<Longrightarrow> k' = k"
proof (induction r s k arbitrary: s' k' rule: re_match.induct)
  case (5 a s k)
  from 5(3) consider "k' = k" | s1 k1 where "(s1, k1) \<in> set (re_match a s k)" "length s1 < length s"
      "(s', k') \<in> set (re_match (Star a) s1 k1)"
    by (subst (asm) re_match_Star_step) auto
  then show ?case
  proof cases
    case 2
    then show ?thesis using 5(1) [OF 2(1)] 5(2) [OF 2(1) refl 2(2,3)] 5(4) by simp
  qed
next
  case (6 a s k)
  from 6(3) consider "k' = k" | s1 k1 where "(s1, k1) \<in> set (re_match a s k)" "length s1 < length s"
      "(s', k') \<in> set (re_match (LazyStar a) s1 k1)"
    by (subst (asm) re_match_LazyStar_step) auto
  then show ?case
  proof cases
    case 2
    then show ?thesis using 6(1) [OF 2(1)] 6(2) [OF 2(1) refl 2(2,3)] 6(4) by simp
  qed
next
  case (3 a b s k)
  from 3(3) obtain s1 k1 where "(s1, k1) \<in> set (re_match a s k)" "(s', k') \<in> set (re_match b s1 k1)" by auto
  then show ?case using 3(1) [of s1 k1] 3(2) [OF _ refl, of s1 k1 s' k'] 3(4) by simp
qed (auto split: list.splits if_splits)

lemma match_cat:
  assumes "(s', k') \<in> set (re_match (Cat a b) s k)"
  obtains s1 k1 where "(s1, k1) \<in> set (re_match a s k)" "(s', k') \<in> set (re_match b s1 k1)"
  using assms by auto

lemma match_alt:
  assumes "(s', k') \<in> set (re_match (Alt a b) s k)"
  obtains "(s', k') \<in> set (re_match a s k)" | "(s', k') \<in> set (re_match b s k)"
  using assms by auto

lemma match_plain:
  assumes "(s', k') \<in> set (re_match r s k)" "no_groups r"
  shows "k' = k \<and> (\<exists>w \<in> lang r. s = w @ s')"
proof -
  have "s' \<in> fst ` set (re_match r s k)" using assms(1) by force
  then have "s' \<in> rests (lang r) s" using re_match_lang [OF no_groups_plain [OF assms(2)]] by simp
  then show ?thesis using no_groups_keep [OF assms] by (auto simp: rests_def)
qed

lemma match_group:
  assumes "(s', k') \<in> set (re_match (Cap n r) s k)" "no_groups r"
  shows "\<exists>w \<in> lang r. s = w @ s' \<and> k' = (n, w) # k"
proof -
  obtain k0 where m: "(s', k0) \<in> set (re_match r s k)" "k' = (n, consumed s s') # k0" using assms(1) by auto
  from match_plain [OF m(1) assms(2)] obtain w where "w \<in> lang r" "s = w @ s'" "k0 = k" by blast
  then show ?thesis using m(2) by (auto simp: consumed_def)
qed

lemma no_groups_line: "no_groups (Plus (Cls key_unit))" "no_groups quoted_regex" "no_groups bare_regex"
  by (simp_all add: Plus_def quoted_regex_def bare_regex_def chr_def)

lemma line_groups_sound:
  assumes "(s', k') \<in> set (re_match line_regex s [])"
  shows "\<exists>key \<in> lang (Plus (Cls key_unit)).
    (\<exists>q \<in> lang quoted_regex. s = key @ [61, 34] @ q @ [34] @ s' \<and> k' = [(2, q), (1, key)])
    \<or> (\<exists>b \<in> lang bare_regex. s = key @ [61] @ b @ s' \<and> k' = [(3, b), (1, key)])"
proof -
  let ?q = "Cat (chr 34) (Cat (Cap 2 quoted_regex) (chr 34))"
  have "line_regex = Cat (Cap 1 (Plus (Cls key_unit))) (Cat (chr 61) (Alt ?q (Cap 3 bare_regex)))"
    by (simp add: line_regex_def)
  with assms obtain s1 k1 s2 k2 where
    m1: "(s1, k1) \<in> set (re_match (Cap 1 (Plus (Cls key_unit))) s [])" and
    m2: "(s2, k2) \<in> set (re_match (chr 61) s1 k1)" and
    m3: "(s', k') \<in> set (re_match (Alt ?q (Cap 3 bare_regex)) s2 k2)"
    by (metis match_cat)
  from match_group [OF m1 no_groups_line(1)] obtain key where key: "key \<in> lang (Plus (Cls key_unit))" "s = key @ s1" "k1 = [(1, key)]"
    by blast
  have s2: "s1 = 61 # s2" "k2 = k1" using match_plain [OF m2] by (auto simp: chr_def)
  from m3 show ?thesis
  proof (cases rule: match_alt)
    case 1
    then obtain s3 k3 s4 k4 where
      n1: "(s3, k3) \<in> set (re_match (chr 34) s2 k2)" and
      n2: "(s4, k4) \<in> set (re_match (Cap 2 quoted_regex) s3 k3)" and
      n3: "(s', k') \<in> set (re_match (chr 34) s4 k4)"
      by (metis match_cat)
    have s3: "s2 = 34 # s3" "k3 = k2" using match_plain [OF n1] by (auto simp: chr_def)
    from match_group [OF n2 no_groups_line(2)] obtain q where q: "q \<in> lang quoted_regex" "s3 = q @ s4" "k4 = (2, q) # k3" by blast
    have s4: "s4 = 34 # s'" "k' = k4" using match_plain [OF n3] by (auto simp: chr_def)
    show ?thesis using key s2 s3 q s4 by (intro bexI [of _ key] disjI1 bexI [of _ q]) auto
  next
    case 2
    from match_group [OF this no_groups_line(3)] obtain b where "b \<in> lang bare_regex" "s2 = b @ s'" "k' = (3, b) # k2" by blast
    then show ?thesis using key s2 by (intro bexI [of _ key] disjI2 bexI [of _ b]) auto
  qed
qed

lemma escape_simps [simp]:
  "escape_value [] = []"
  "escape_value (c # v) = (if c = 92 \<or> c = 34 then [92, c] else [c]) @ escape_value v"
  by (simp_all add: escape_value_def)

lemma unescape_plain: "c \<noteq> 92 \<Longrightarrow> unescape_value (c # s) = c # unescape_value s"
  by (cases s) auto

lemma unescape_escape: "unescape_value (escape_value v) = v"
  by (induction v) (auto simp: unescape_plain)

lemma quoted_step:
  "v \<in> lang quoted_regex \<Longrightarrow> w \<in> lang (Alt (Cls (\<lambda>c. c \<noteq> 34 \<and> c \<noteq> 92)) (Cat (chr 92) (Cls (\<lambda>c. \<not> line_terminator_unit c))))
    \<Longrightarrow> w \<noteq> [] \<Longrightarrow> w @ v \<in> lang quoted_regex"
  unfolding quoted_regex_def by (auto intro: closure_app)

lemma escape_quoted: "escape_value v \<in> lang quoted_regex"
proof (induction v)
  case Nil
  then show ?case by (simp add: quoted_regex_def closure_Nil)
next
  case (Cons c v)
  then show ?case using quoted_step [OF Cons.IH]
    by (auto simp: line_terminator_unit_def)
qed

lemma known_key_units: "known_key k \<Longrightarrow> k \<noteq> [] \<and> list_all key_unit k"
proof -
  have "list_all (\<lambda>n. js n \<noteq> [] \<and> list_all key_unit (js n)) CREDENTIAL_KEYS" by code_simp
  then show "known_key k \<Longrightarrow> k \<noteq> [] \<and> list_all key_unit k" by (auto simp: known_key_def list_all_iff)
qed

lemma key_unit_not: "key_unit c \<Longrightarrow> c \<noteq> 61 \<and> c \<noteq> 10 \<and> c \<noteq> 13 \<and> c \<noteq> 35 \<and> \<not> js_space c"
  by (auto simp: key_unit_def unit_class_defs word_le_nat_alt)

lemma cut_at:
  assumes "a @ c # b = a' @ c # b'" "c \<notin> set a" "c \<notin> set a'"
  shows "a = a' \<and> b = b'"
  using assms
proof (induction a arbitrary: a')
  case Nil
  then show ?case by (cases a') auto
next
  case (Cons x a)
  then show ?case by (cases a') auto
qed

lemma entry_line_groups:
  assumes "known_key k"
  shows "re_groups line_regex (entry_line (k, v)) = Some [(2, escape_value v), (1, k)]"
proof -
  let ?line = "entry_line (k, v)"
  have k: "k \<noteq> []" "list_all key_unit k" "61 \<notin> set k"
    using known_key_units [OF assms] key_unit_not by (auto simp: list_all_iff)
  have only: "kk = [(2, escape_value v), (1, k)]" if m: "([], kk) \<in> set (re_match line_regex ?line [])" for kk
  proof -
    from line_groups_sound [OF m] obtain key where key: "key \<in> lang (Plus (Cls key_unit))" and
      alt: "(\<exists>q \<in> lang quoted_regex. ?line = key @ [61, 34] @ q @ [34] @ [] \<and> kk = [(2, q), (1, key)])
        \<or> (\<exists>b \<in> lang bare_regex. ?line = key @ [61] @ b @ [] \<and> kk = [(3, b), (1, key)])" by blast
    have nokey: "61 \<notin> set key" using key key_unit_not by (auto simp: list_all_iff)
    from alt show ?thesis
    proof
      assume "\<exists>q \<in> lang quoted_regex. ?line = key @ [61, 34] @ q @ [34] @ [] \<and> kk = [(2, q), (1, key)]"
      then obtain q where "key @ 61 # (34 # q @ [34]) = k @ 61 # (34 # escape_value v @ [34])" "kk = [(2, q), (1, key)]"
        by (auto simp: entry_line_def)
      then show ?thesis using cut_at [OF _ nokey k(3)] by blast
    next
      assume "\<exists>b \<in> lang bare_regex. ?line = key @ [61] @ b @ [] \<and> kk = [(3, b), (1, key)]"
      then obtain b where "key @ 61 # b = k @ 61 # (34 # escape_value v @ [34])" "b \<in> lang bare_regex"
        by (auto simp: entry_line_def)
      then have "34 # escape_value v @ [34] \<in> lang bare_regex" using cut_at [OF _ nokey k(3)] by blast
      then show ?thesis by (simp only: bare_regex_def lang_star_Cls) simp
    qed
  qed
  have "plain line_regex" using no_groups_plain [OF no_groups_line(2)] no_groups_plain [OF no_groups_line(3)]
    by (simp add: line_regex_def)
  moreover have "?line \<in> lang line_regex"
  proof -
    have "[34] @ escape_value v @ [34] \<in> lang (cats [chr 34, Cap 2 quoted_regex, chr 34])"
      using escape_quoted [of v] by auto
    then have "[61] @ [34] @ escape_value v @ [34] \<in>
        lang (Cat (chr 61) (Alt (cats [chr 34, Cap 2 quoted_regex, chr 34]) (Cap 3 bare_regex)))"
      unfolding lang.simps(3,4) lang_chr by blast
    moreover have "k \<in> lang (Cap 1 (Plus (Cls key_unit)))" using k by simp
    ultimately have "k @ [61] @ [34] @ escape_value v @ [34] \<in>
        lang (Cat (Cap 1 (Plus (Cls key_unit))) (Cat (chr 61) (Alt (cats [chr 34, Cap 2 quoted_regex, chr 34]) (Cap 3 bare_regex))))"
      unfolding lang.simps(3) [of "Cap 1 (Plus (Cls key_unit))"] by blast
    then show ?thesis by (simp add: entry_line_def line_regex_def)
  qed
  ultimately have "\<exists>kk. ([], kk) \<in> set (re_match line_regex ?line [])"
    using re_full_lang by (fastforce simp: re_full_def list_ex_iff)
  then have "find (\<lambda>(rest, kk). rest = []) (re_match line_regex ?line []) \<noteq> None"
    by (auto simp: find_None_iff)
  then obtain m where m: "find (\<lambda>(rest, kk). rest = []) (re_match line_regex ?line []) = Some m" by blast
  then have "fst m = []" "m \<in> set (re_match line_regex ?line [])" using find_Some_in [OF m] by (auto split: prod.splits)
  then have "snd m = [(2, escape_value v), (1, k)]" using only [of "snd m"] by (cases m) auto
  with m show ?thesis by (simp add: re_groups_def)
qed

lemma entry_line_trim: "known_key k \<Longrightarrow> trim (entry_line (k, v)) = entry_line (k, v)"
proof -
  assume "known_key k"
  then obtain c cs where k: "k = c # cs" "\<not> js_space c"
    using known_key_units [of k] key_unit_not by (cases k) auto
  have "\<not> js_space 34" by (simp add: js_space_def)
  then show ?thesis using k by (simp add: trim_def trim_end_def entry_line_def)
qed

lemma parse_entry_line:
  assumes "known_key k" "k \<notin> fst ` set result"
  shows "parse_line (entry_line (k, v)) result = Inr (result @ [(k, v)])"
proof -
  have "entry_line (k, v) \<noteq> []" "hd (entry_line (k, v)) \<noteq> 35"
    using known_key_units [OF assms(1)] key_unit_not by (cases k; auto simp: entry_line_def)+
  then show ?thesis
    using assms entry_line_groups [OF assms(1), of v]
    by (simp add: parse_line_def entry_line_trim group_text_def group_value_def unescape_escape)
qed

lemma parse_entry_lines:
  "list_all (\<lambda>kv. known_key (fst kv)) kvs \<Longrightarrow> distinct (map fst (result @ kvs)) \<Longrightarrow>
   parse_lines (map entry_line kvs @ ls) result = parse_lines ls (result @ kvs)"
proof (induction kvs arbitrary: result)
  case (Cons kv kvs)
  obtain k v where kv: "kv = (k, v)" by fastforce
  then have "parse_line (entry_line kv) result = Inr (result @ [kv])"
    using Cons.prems by (auto intro!: parse_entry_line)
  then show ?case using Cons.IH [of "result @ [kv]"] Cons.prems by simp
qed simp

lemma entry_lines_Inr:
  "entry_lines kvs = Inr ls \<Longrightarrow> ls = map entry_line kvs \<and> list_all (\<lambda>kv. known_key (fst kv) \<and> \<not> list_ex line_break (snd kv)) kvs"
  by (induction kvs arbitrary: ls rule: entry_lines.induct) (auto split: if_splits sum.splits simp: map_sum_def)

lemma split_at_line: "d \<notin> set l \<Longrightarrow> split_at d (l @ d # r) = l # split_at d r"
  by (induction l) auto

lemma split_join_lines:
  "ls \<noteq> [] \<Longrightarrow> \<forall>l \<in> set ls. 10 \<notin> set l \<Longrightarrow> split_at 10 (join_text [10] ls @ [10]) = ls @ [[]]"
proof (induction ls)
  case (Cons l ls)
  then show ?case
    by (cases ls) (simp_all add: split_at_line)
qed simp

lemma strip_returns_lines: "\<forall>l \<in> set ls. l = [] \<or> last l \<noteq> 13 \<Longrightarrow> strip_returns ls = ls"
  by (induction ls rule: strip_returns.induct) auto

lemma set_escape: "set (escape_value v) \<subseteq> insert 92 (set v)"
  by (induction v) auto

lemma entry_line_units:
  assumes "known_key k" "\<not> list_ex line_break v"
  shows "10 \<notin> set (entry_line (k, v))" "last (entry_line (k, v)) \<noteq> 13"
proof -
  have "10 \<notin> set k" using known_key_units [OF assms(1)] key_unit_not by (auto simp: list_all_iff)
  moreover have "10 \<notin> set v" using assms(2) by (auto simp: list_ex_iff line_break_def)
  ultimately show "10 \<notin> set (entry_line (k, v))" using set_escape [of v] by (auto simp: entry_line_def)
  show "last (entry_line (k, v)) \<noteq> 13" by (simp add: entry_line_def)
qed

text \<open>Whatever set of known credentials the writer accepts, the parser returns the same credentials, in the order of the writer.\<close>

lemma store_text_reads:
  assumes "serializeCredentialEnv H c = Inr content" "distinct (map fst c)"
  shows "parseCredentialEnv content = Inr (sort_by (\<lambda>a b. before_text H (fst a) (fst b)) c)"
proof -
  let ?kvs = "sort_by (\<lambda>a b. before_text H (fst a) (fst b)) c"
  from assms(1) obtain ls where "entry_lines ?kvs = Inr ls" and content: "content = (if ls = [] then [] else join_text [10] ls @ [10])"
    by (auto simp: serializeCredentialEnv_def map_sum_def split: sum.splits)
  from entry_lines_Inr [OF this(1)] have ls: "ls = map entry_line ?kvs" and
    ok: "list_all (\<lambda>kv. known_key (fst kv) \<and> \<not> list_ex line_break (snd kv)) ?kvs" by auto
  have d: "distinct (map fst ([] @ ?kvs))" using assms(2) by (simp add: distinct_sort_by)
  have known: "list_all (\<lambda>kv. known_key (fst kv)) ?kvs" using ok by (auto simp: list_all_iff)
  have units: "\<forall>l \<in> set ls. 10 \<notin> set l" "\<forall>l \<in> set (ls @ [[]]). l = [] \<or> last l \<noteq> 13"
    using ok entry_line_units unfolding ls by (fastforce simp: list_all_iff)+
  show ?thesis
  proof (cases "ls = []")
    case True
    then show ?thesis using ls content by (simp add: parseCredentialEnv_def text_lines_def parse_line_def trim_def trim_end_def)
  next
    case False
    then have "text_lines content = ls @ [[]]"
      using units split_join_lines [of ls] strip_returns_lines [of "ls @ [[]]"] by (simp add: text_lines_def content)
    then have "parseCredentialEnv content = parse_lines (map entry_line ?kvs @ [[]]) []" by (simp add: parseCredentialEnv_def ls)
    also have "\<dots> = parse_lines [[]] ([] @ ?kvs)" by (rule parse_entry_lines [OF known d])
    finally show ?thesis by (simp add: parse_line_def trim_def trim_end_def)
  qed
qed

lemma map_of_sort_by:
  assumes "distinct (map fst c)"
  shows "map_of (sort_by precedes c) = map_of c"
  using map_of_inject_set [of "sort_by precedes c" c] assms by (simp add: distinct_sort_by)

lemma entry_lines_known:
  "list_all (\<lambda>(k, v). known_key k \<and> \<not> list_ex line_break v) kvs \<Longrightarrow> entry_lines kvs = Inr (map entry_line kvs)"
  by (induction kvs) auto

text \<open>
  C28. The credential store reads back what was written. The writer accepts every set of known credentials whose values have no
  line break, whatever quotes and backslashes they contain, and the parser gives back exactly these credentials.
\<close>

theorem credential_store_round_trip:
  assumes "distinct (map fst c)" "list_all (\<lambda>(k, v). known_key k \<and> \<not> list_ex line_break v) c"
  shows "\<exists>content stored. serializeCredentialEnv H c = Inr content \<and> parseCredentialEnv content = Inr stored
    \<and> set stored = set c \<and> map_of stored = map_of c"
proof -
  let ?kvs = "sort_by (\<lambda>a b. before_text H (fst a) (fst b)) c"
  have "list_all (\<lambda>(k, v). known_key k \<and> \<not> list_ex line_break v) ?kvs" using assms(2) by (simp add: list_all_iff)
  then obtain content where "serializeCredentialEnv H c = Inr content"
    using entry_lines_known [of ?kvs] by (simp add: serializeCredentialEnv_def)
  with store_text_reads [OF this assms(1)] map_of_sort_by [OF assms(1)] show ?thesis by simp
qed

text \<open>A host for the examples: an empty environment.\<close>

definition example_host :: host where
  "example_host = \<lparr> platform_of = example_platform, url_of = (\<lambda>t. None), before_text = (\<lambda>a b. length a < length b),
     os_env = (\<lambda>k. None) \<rparr>"

theorem credential_store_round_trip_witness:
  "let c = [(js ''RESEND_API_KEY'', js ''a\"b''), (js ''AUTH_PEPPER'', [92, 34, 92])] in
     \<exists>content stored. serializeCredentialEnv example_host c = Inr content \<and> parseCredentialEnv content = Inr stored
       \<and> set stored = set c \<and> map_of stored = map_of c"
proof -
  let ?c = "[(js ''RESEND_API_KEY'', js ''a\"b''), (js ''AUTH_PEPPER'', [92, 34, 92])]"
  have "distinct (map fst ?c)" "list_all (\<lambda>(k, v). known_key k \<and> \<not> list_ex line_break v) ?c" by code_simp+
  then show ?thesis unfolding Let_def by (rule credential_store_round_trip)
qed

end
