(* ===== verification/Operator_World.thy ===== *)
theory Operator_World
  imports Credentials
begin

text \<open>
  The operator's machine: its files, the Wrangler commands and HTTP requests it has issued, and what it printed. The commands
  of \<open>src/scripts\<close> are processes that may be killed before, or in the middle of, any step, and any file operation may
  fail; both are part of the environment, indexed by the number of the step. This theory models the file access of
  \<open>config/operator-state.mjs\<close>, \<open>config/operator-config.mjs\<close> and \<open>config/credentials.mjs\<close>, the Wrangler runner
  \<open>operator-runner.mjs\<close> and \<open>git-state.mjs\<close>.

  Wrangler and the providers' APIs are not part of the repository: what a command answers is a parameter, and what it did is
  the record of the commands that were run with their input.
\<close>

section \<open>State and environment\<close>

record command =
  cm_argv :: "jstr list"
  cm_input :: jstr
  cm_token :: "jstr option"
  cm_account :: "jstr option"
  cm_ok :: bool

record api_request =
  ar_method :: jstr
  ar_url :: jstr
  ar_headers :: "(jstr \<times> jstr) list"
  ar_body :: jsval

record machine =
  files :: "jstr \<Rightarrow> jstr option"
  commands :: "command list"
  requests :: "api_request list"
  printed :: "jstr list"
  ticks :: nat

record command_reply =
  cr_ok :: bool
  cr_stdout :: jstr
  cr_stderr :: jstr

text \<open>
  \<open>killed E k\<close>: the process dies at step \<open>k\<close>; an interrupted write may leave the text \<open>torn E k\<close> in its file, and an
  interrupted command may have run (\<open>landed E k\<close>). \<open>fetched\<close> is the status and the body of a response, or nothing when the
  request failed.
\<close>

record operator_env =
  host_of :: host
  killed :: "nat \<Rightarrow> bool"
  torn :: "nat \<Rightarrow> jstr option"
  landed :: "nat \<Rightarrow> bool"
  io_fails :: "nat \<Rightarrow> bool"
  wrangler :: "nat \<Rightarrow> jstr list \<Rightarrow> jstr \<Rightarrow> command_reply"
  fetched :: "nat \<Rightarrow> api_request \<Rightarrow> (nat \<times> jstr) option"
  typed :: "nat \<Rightarrow> jstr"
  git_head :: "nat \<Rightarrow> command_reply"
  clock_now :: "nat \<Rightarrow> jstr"
  random_text :: "nat \<Rightarrow> jstr"

type_synonym 'a op = "machine \<Rightarrow> (exn + 'a) \<times> machine"

section \<open>Processes\<close>

definition Killed :: exn where
  "Killed = JsError (js ''killed'') []"

definition Exited :: "string \<Rightarrow> exn" where
  "Exited code = JsError (js ''exit'') (js code)"

text \<open>No handler runs when the process has ended.\<close>

definition ends_process :: "exn \<Rightarrow> bool" where
  "ends_process e = (case e of JsError name message \<Rightarrow> name = js ''killed'' \<or> name = js ''exit'' | AppError _ _ _ \<Rightarrow> False)"

definition tryE :: "'a op \<Rightarrow> (exn \<Rightarrow> 'a op) \<Rightarrow> 'a op" where
  "tryE m h = (\<lambda>w. case m w of (r, w') \<Rightarrow>
     (case r of Inl e \<Rightarrow> if ends_process e then (Inl e, w') else h e w' | Inr x \<Rightarrow> (Inr x, w')))"

definition printE :: "jstr \<Rightarrow> unit op" where
  "printE line = (\<lambda>w. (Inr (), w\<lparr>printed := printed w @ [line]\<rparr>))"

text \<open>\<open>fail(code, message)\<close> of a program: a line on the console and the end of the process.\<close>

definition failE :: "string \<Rightarrow> string \<Rightarrow> jstr \<Rightarrow> 'a op" where
  "failE program code message = bindE (printE (js (program @ '': ['' @ code @ ''] '') @ message)) (\<lambda>_. throwE (Exited code))"

definition tick :: "operator_env \<Rightarrow> (nat \<Rightarrow> 'a op) \<Rightarrow> 'a op" where
  "tick E f = (\<lambda>w. let w' = w\<lparr>ticks := Suc (ticks w)\<rparr> in if killed E (ticks w) then (Inl Killed, w') else f (ticks w) w')"

section \<open>Files\<close>

definition ENOENT :: jstr where
  "ENOENT = js ''ENOENT''"

definition EIO :: jstr where
  "EIO = js ''EIO''"

definition file_error :: "jstr \<Rightarrow> exn" where
  "file_error code = JsError code (js ''file system operation failed'')"

definition missing_file :: "exn \<Rightarrow> bool" where
  "missing_file e = (case e of JsError name message \<Rightarrow> name = ENOENT | AppError _ _ _ \<Rightarrow> False)"

text \<open>A file operation that only looks, or changes nothing the model keeps (\<open>statSync\<close>, \<open>chmodSync\<close>, \<open>mkdirSync\<close>).\<close>

definition file_call :: "operator_env \<Rightarrow> (machine \<Rightarrow> exn + 'a) \<Rightarrow> 'a op" where
  "file_call E f = tick E (\<lambda>k w. (if io_fails E k then Inl (file_error EIO) else f w, w))"

definition read_text :: "operator_env \<Rightarrow> jstr \<Rightarrow> jstr op" where
  "read_text E path = file_call E (\<lambda>w. case files w path of None \<Rightarrow> Inl (file_error ENOENT) | Some t \<Rightarrow> Inr t)"

definition stat_file :: "operator_env \<Rightarrow> jstr \<Rightarrow> unit op" where
  "stat_file E path = file_call E (\<lambda>w. case files w path of None \<Rightarrow> Inl (file_error ENOENT) | Some t \<Rightarrow> Inr ())"

definition change_mode :: "operator_env \<Rightarrow> unit op" where
  "change_mode E = file_call E (\<lambda>w. Inr ())"

definition make_directory :: "operator_env \<Rightarrow> unit op" where
  "make_directory E = file_call E (\<lambda>w. Inr ())"

definition set_file :: "jstr \<Rightarrow> jstr option \<Rightarrow> machine \<Rightarrow> machine" where
  "set_file path t w = w\<lparr>files := (files w)(path := t)\<rparr>"

definition torn_file :: "operator_env \<Rightarrow> nat \<Rightarrow> jstr \<Rightarrow> machine \<Rightarrow> machine" where
  "torn_file E k path w = (case torn E k of None \<Rightarrow> w | Some t \<Rightarrow> set_file path (Some t) w)"

definition write_text :: "operator_env \<Rightarrow> jstr \<Rightarrow> jstr \<Rightarrow> unit op" where
  "write_text E path t =
     (\<lambda>w. let k = ticks w; w' = w\<lparr>ticks := Suc k\<rparr> in
        if killed E k then (Inl Killed, torn_file E k path w')
        else if io_fails E k then (Inl (file_error EIO), torn_file E k path w')
        else (Inr (), set_file path (Some t) w'))"

definition rename_file :: "operator_env \<Rightarrow> jstr \<Rightarrow> jstr \<Rightarrow> unit op" where
  "rename_file E old path =
     tick E (\<lambda>k w.
        if io_fails E k then (Inl (file_error EIO), w)
        else (case files w old of
            None \<Rightarrow> (Inl (file_error ENOENT), w)
          | Some t \<Rightarrow> (Inr (), set_file old None (set_file path (Some t) w))))"

text \<open>\<open>rmSync(path, { force: true })\<close>.\<close>

definition remove_file :: "operator_env \<Rightarrow> jstr \<Rightarrow> unit op" where
  "remove_file E path =
     tick E (\<lambda>k w. if io_fails E k then (Inl (file_error EIO), w) else (Inr (), set_file path None w))"

definition exists_file :: "operator_env \<Rightarrow> jstr \<Rightarrow> bool op" where
  "exists_file E path = tick E (\<lambda>k w. (Inr (files w path \<noteq> None), w))"

section \<open>JSON documents\<close>

definition syntax_error :: exn where
  "syntax_error = JsError (js ''SyntaxError'') (js ''invalid JSON'')"

definition parse_json :: "operator_env \<Rightarrow> jstr \<Rightarrow> exn + jsval" where
  "parse_json E t = (case json_parse (num_text (platform_of (host_of E))) t of None \<Rightarrow> Inl syntax_error | Some v \<Rightarrow> Inr v)"

definition read_json :: "operator_env \<Rightarrow> jstr \<Rightarrow> jsval op" where
  "read_json E path = bindE (read_text E path) (\<lambda>t. liftE (parse_json E t))"

definition temporary :: "jstr \<Rightarrow> jstr" where
  "temporary path = path @ js ''.tmp''"

definition document_text :: "jsval \<Rightarrow> jstr" where
  "document_text v = (case json_pretty 0 v of None \<Rightarrow> js ''undefined'' | Some t \<Rightarrow> t) @ [10]"

definition writeJsonAtomic :: "operator_env \<Rightarrow> jstr \<Rightarrow> jsval \<Rightarrow> unit op" where
  "writeJsonAtomic E path v =
     bindE (make_directory E) (\<lambda>_.
     bindE (liftE (parse_json E (document_text v))) (\<lambda>_.
     bindE (write_text E (temporary path) (document_text v)) (\<lambda>_.
     rename_file E (temporary path) path)))"

definition STATE_FILE :: jstr where
  "STATE_FILE = js ''.setup-state.json''"

definition CONFIG_FILE :: jstr where
  "CONFIG_FILE = js ''.mailbox/config.json''"

definition GENERATED_FILE :: jstr where
  "GENERATED_FILE = js ''wrangler.deploy.jsonc''"

definition OPERATION_JOURNAL_FILE :: jstr where
  "OPERATION_JOURNAL_FILE = js ''.mailbox/provider-operation.json''"

definition CREDENTIAL_OPERATION_JOURNAL_FILE :: jstr where
  "CREDENTIAL_OPERATION_JOURNAL_FILE = js ''.mailbox/credential-operation.json''"

definition CREDENTIAL_OPERATION_SCHEMA_VERSION :: jsval where
  "CREDENTIAL_OPERATION_SCHEMA_VERSION = JNum (js ''1'')"

definition document_or :: "jsval \<Rightarrow> jsval \<Rightarrow> jsval" where
  "document_or v other = (case v of JObj kvs \<Rightarrow> v | JArr xs \<Rightarrow> v | _ \<Rightarrow> other)"

definition optional_document :: "operator_env \<Rightarrow> jstr \<Rightarrow> jsval op" where
  "optional_document E path = tryE (bindE (read_json E path) (\<lambda>v. returnE (document_or v JNull))) (\<lambda>e. returnE JNull)"

definition loadSetupState :: "operator_env \<Rightarrow> jsval op" where
  "loadSetupState E = optional_document E STATE_FILE"

definition loadGeneratedConfig :: "operator_env \<Rightarrow> jsval op" where
  "loadGeneratedConfig E = tryE (read_json E GENERATED_FILE) (\<lambda>e. returnE JNull)"

definition env_path :: "operator_env \<Rightarrow> string \<Rightarrow> jstr \<Rightarrow> jstr" where
  "env_path E name usual = (case os_env (host_of E) (js name) of Some t \<Rightarrow> or_else t usual | None \<Rightarrow> usual)"

definition loadOperatorConfig :: "operator_env \<Rightarrow> jsval op" where
  "loadOperatorConfig E =
     tryE (bindE (read_json E (env_path E ''MAILBOX_CONFIG_FILE'' CONFIG_FILE)) (\<lambda>v. returnE (document_or v (JObj []))))
       (\<lambda>e. if missing_file e then returnE (JObj []) else throwE e)"

definition writeSetupState :: "operator_env \<Rightarrow> jsval \<Rightarrow> unit op" where
  "writeSetupState E v = writeJsonAtomic E STATE_FILE v"

definition writeOperatorConfig :: "operator_env \<Rightarrow> jsval \<Rightarrow> unit op" where
  "writeOperatorConfig E v = writeJsonAtomic E CONFIG_FILE (canonicalOperatorConfig v)"

definition writeGeneratedConfig :: "operator_env \<Rightarrow> jsval \<Rightarrow> unit op" where
  "writeGeneratedConfig E v = writeJsonAtomic E GENERATED_FILE v"

definition readOperationJournal :: "operator_env \<Rightarrow> jsval op" where
  "readOperationJournal E = optional_document E OPERATION_JOURNAL_FILE"

definition writeOperationJournal :: "operator_env \<Rightarrow> jsval \<Rightarrow> unit op" where
  "writeOperationJournal E v = writeJsonAtomic E OPERATION_JOURNAL_FILE v"

definition clearOperationJournal :: "operator_env \<Rightarrow> unit op" where
  "clearOperationJournal E = remove_file E OPERATION_JOURNAL_FILE"

definition readCredentialOperationJournal :: "operator_env \<Rightarrow> jsval op" where
  "readCredentialOperationJournal E = optional_document E CREDENTIAL_OPERATION_JOURNAL_FILE"

definition writeCredentialOperationJournal :: "operator_env \<Rightarrow> jsval \<Rightarrow> unit op" where
  "writeCredentialOperationJournal E v = writeJsonAtomic E CREDENTIAL_OPERATION_JOURNAL_FILE v"

definition clearCredentialOperationJournal :: "operator_env \<Rightarrow> unit op" where
  "clearCredentialOperationJournal E = remove_file E CREDENTIAL_OPERATION_JOURNAL_FILE"

section \<open>The credential store\<close>

definition DEFAULT_CREDENTIALS_FILE :: jstr where
  "DEFAULT_CREDENTIALS_FILE = js ''.mailbox/credentials.env''"

definition credentials_file :: "operator_env \<Rightarrow> jstr" where
  "credentials_file E = env_path E ''MAILBOX_CREDENTIALS_FILE'' DEFAULT_CREDENTIALS_FILE"

definition read_store :: "operator_env \<Rightarrow> jstr \<Rightarrow> credentials op" where
  "read_store E path = bindE (read_text E path) (\<lambda>t. liftE (parseCredentialEnv t))"

definition if_missing :: "'a \<Rightarrow> exn \<Rightarrow> 'a op" where
  "if_missing x e = (if missing_file e then returnE x else throwE e)"

definition loadCredentials :: "operator_env \<Rightarrow> credentials op" where
  "loadCredentials E =
     bindE (tryE (bindE (stat_file E (credentials_file E)) (\<lambda>_. read_store E (credentials_file E))) (if_missing []))
       (\<lambda>stored. returnE (merged stored (from_process (host_of E))))"

datatype credential_source = From_Env | From_File | Absent

definition source_of :: "operator_env \<Rightarrow> credentials \<Rightarrow> string \<Rightarrow> credential_source" where
  "source_of E stored k =
     (case os_env (host_of E) (js k) of
        Some t \<Rightarrow> if t \<noteq> [] then From_Env else if js k \<in> fst ` set stored then From_File else Absent
      | None \<Rightarrow> if js k \<in> fst ` set stored then From_File else Absent)"

definition credentialSources :: "operator_env \<Rightarrow> (string \<times> credential_source) list op" where
  "credentialSources E =
     bindE (tryE (read_store E (credentials_file E)) (if_missing []))
       (\<lambda>stored. returnE (map (\<lambda>k. (k, source_of E stored k)) CREDENTIAL_KEYS))"

definition setCredentialsFilePermissions :: "operator_env \<Rightarrow> jstr \<Rightarrow> unit op" where
  "setCredentialsFilePermissions E path =
     bindE (tryE (bindE (stat_file E path) (\<lambda>_. returnE True)) (\<lambda>e. returnE False)) (\<lambda>present.
     if present then tryE (change_mode E) (\<lambda>e. printE (js ''credentials: could not enforce 0600 permissions on '' @ path))
     else returnE ())"

definition mismatch_error :: "jstr \<Rightarrow> exn" where
  "mismatch_error k = credential_error (js ''credentials: round-trip mismatch for '' @ k @ js ''.'')"

text \<open>The values that were to be stored, against those that would be read.\<close>

definition read_back_check :: "credentials \<Rightarrow> credentials \<Rightarrow> exn + unit" where
  "read_back_check expected found =
     (case find (\<lambda>(k, v). map_of found k \<noteq> Some v) (filter (\<lambda>(k, v). v \<noteq> []) expected) of
        Some (k, v) \<Rightarrow> Inl (mismatch_error k) | None \<Rightarrow> Inr ())"

definition writeCredentialsFile :: "operator_env \<Rightarrow> jstr \<Rightarrow> credentials \<Rightarrow> unit op" where
  "writeCredentialsFile E path c =
     bindE (liftE (serializeCredentialEnv (host_of E) c)) (\<lambda>serialized.
     bindE (make_directory E) (\<lambda>_.
     bindE (write_text E (temporary path) serialized) (\<lambda>_.
     bindE (change_mode E) (\<lambda>_.
     bindE (liftE (parseCredentialEnv serialized)) (\<lambda>found.
     bindE (liftE (read_back_check c found)) (\<lambda>_.
     rename_file E (temporary path) path))))))"

definition refuse_store :: "jstr \<Rightarrow> exn \<Rightarrow> exn" where
  "refuse_store path e =
     credential_error (js ''credentials: refusing to modify '' @ [39] @ path @ [39] @ js '' because it cannot be read safely ('' @
       (case e of JsError name message \<Rightarrow> message | AppError status message code \<Rightarrow> message) @ js '').'')"

text \<open>The setter writes the default store whatever \<open>MAILBOX_CREDENTIALS_FILE\<close> says.\<close>

definition setCredential :: "operator_env \<Rightarrow> jstr \<Rightarrow> jstr \<Rightarrow> unit op" where
  "setCredential E name v =
     (let k = to_upper (uni (platform_of (host_of E))) name; path = DEFAULT_CREDENTIALS_FILE in
      if \<not> known_key k then throwE (key_unknown k)
      else
        bindE (tryE (read_store E path) (\<lambda>e. if missing_file e then returnE [] else throwE (refuse_store path e))) (\<lambda>existing.
        writeCredentialsFile E path (put_key k v existing)))"

section \<open>Wrangler and Git\<close>

definition text_if_any :: "jstr \<Rightarrow> jstr option" where
  "text_if_any t = (if t = [] then None else Some t)"

text \<open>The process environment wins for the token; the account is always the configured one.\<close>

definition buildWranglerChildEnv :: "operator_env \<Rightarrow> credentials \<Rightarrow> jsval \<Rightarrow> jstr option \<times> jstr option" where
  "buildWranglerChildEnv E c operator =
     (case os_env (host_of E) (js ''CLOUDFLARE_API_TOKEN'') of
        Some t \<Rightarrow> if t \<noteq> [] then Some t else text_if_any (credential_of c ''CLOUDFLARE_API_TOKEN'')
      | None \<Rightarrow> text_if_any (credential_of c ''CLOUDFLARE_API_TOKEN''),
      (let account = field operator ''cloudflare_account_id'' in if truthy account then Some (js_string account) else None))"

definition wranglerArgs :: "jstr list \<Rightarrow> jstr list" where
  "wranglerArgs args = (case args of a # rest \<Rightarrow> if a = js ''wrangler'' then rest else args | [] \<Rightarrow> args)"

definition log_command :: "command \<Rightarrow> machine \<Rightarrow> machine" where
  "log_command c w = w\<lparr>commands := commands w @ [c]\<rparr>"

definition spawned :: "operator_env \<Rightarrow> jstr list \<Rightarrow> jstr \<Rightarrow> jstr option \<times> jstr option \<Rightarrow> command_reply op" where
  "spawned E argv input childEnv =
     (\<lambda>w. let k = ticks w; w' = w\<lparr>ticks := Suc k\<rparr>; reply = wrangler E k argv input;
            c = \<lparr> cm_argv = argv, cm_input = input, cm_token = fst childEnv, cm_account = snd childEnv, cm_ok = cr_ok reply \<rparr> in
        if killed E k then (Inl Killed, if landed E k then log_command c w' else w') else (Inr reply, log_command c w'))"

text \<open>\<open>runWrangler\<close> with a text on the standard input, \<open>runCaptureWrangler\<close> and \<open>runInheritWrangler\<close>.\<close>

definition runWrangler :: "operator_env \<Rightarrow> jstr list \<Rightarrow> jstr \<Rightarrow> command_reply op" where
  "runWrangler E args input =
     bindE (loadCredentials E) (\<lambda>c.
     bindE (loadOperatorConfig E) (\<lambda>operator.
     spawned E (wranglerArgs args) input (buildWranglerChildEnv E c operator)))"

definition runCaptureWrangler :: "operator_env \<Rightarrow> jstr list \<Rightarrow> command_reply op" where
  "runCaptureWrangler E args = runWrangler E args []"

definition runInheritWrangler :: "operator_env \<Rightarrow> jstr list \<Rightarrow> bool op" where
  "runInheritWrangler E args = bindE (runWrangler E args []) (\<lambda>r. returnE (cr_ok r))"

definition state_exn :: "state_error \<Rightarrow> exn" where
  "state_exn e = JsError (js (fst e)) (snd e)"

definition commit_text :: "jstr \<Rightarrow> bool" where
  "commit_text s \<longleftrightarrow> length s = 40 \<and> list_all is_hex s"

definition currentGitSha :: "operator_env \<Rightarrow> jstr op" where
  "currentGitSha E =
     tick E (\<lambda>k w.
       (let r = git_head E k; sha = trim (cr_stdout r) in
        if \<not> cr_ok r then Inl (state_exn (''git_head_unavailable'', take 200 (cr_stderr r)))
        else if \<not> commit_text sha then Inl (state_exn (''git_head_invalid'', [39] @ take 12 sha @ [39] @ js '' is not a 40-hex commit SHA.''))
        else Inr sha, w))"

definition publicEnvSnapshot :: "credentials \<Rightarrow> credentials" where
  "publicEnvSnapshot e =
     filter (\<lambda>(k, v). \<not> list_ex (\<lambda>word. re_search (lit_i word) k \<noteq> None) [''TOKEN'', ''SECRET'', ''PEPPER'', ''PASSWORD'', ''KEY'']) e"

section \<open>What an operation leaves alone\<close>

named_theorems frame_intros \<open>operations that write certain files only, and run no command\<close>

definition writes_only :: "jstr set \<Rightarrow> 'a op \<Rightarrow> bool" where
  "writes_only S m \<longleftrightarrow> (\<forall>w p. p \<notin> S \<longrightarrow> files (snd (m w)) p = files w p)"

definition runs_nothing :: "'a op \<Rightarrow> bool" where
  "runs_nothing m \<longleftrightarrow> (\<forall>w. commands (snd (m w)) = commands w)"

lemma writes_onlyD: "writes_only S m \<Longrightarrow> m w = (r, w') \<Longrightarrow> p \<notin> S \<Longrightarrow> files w' p = files w p"
  unfolding writes_only_def by (metis snd_conv)

lemma runs_nothingD: "runs_nothing m \<Longrightarrow> m w = (r, w') \<Longrightarrow> commands w' = commands w"
  unfolding runs_nothing_def by (metis snd_conv)

lemma frame_flow [frame_intros]:
  "writes_only S (returnE x)" "writes_only S (throwE e)" "writes_only S (liftE r)" "writes_only S (printE l)"
  "runs_nothing (returnE x)" "runs_nothing (throwE e)" "runs_nothing (liftE r)" "runs_nothing (printE l)"
  by (simp_all add: writes_only_def runs_nothing_def act_simps printE_def)

lemma frame_bind [frame_intros]:
  "writes_only S m \<Longrightarrow> (\<And>x. writes_only S (f x)) \<Longrightarrow> writes_only S (bindE m f)"
  "runs_nothing m \<Longrightarrow> (\<And>x. runs_nothing (f x)) \<Longrightarrow> runs_nothing (bindE m f)"
  by (auto simp: writes_only_def runs_nothing_def bindE_def split: prod.split sum.split) (metis snd_conv)+

lemma frame_try [frame_intros]:
  "writes_only S m \<Longrightarrow> (\<And>e. writes_only S (h e)) \<Longrightarrow> writes_only S (tryE m h)"
  "runs_nothing m \<Longrightarrow> (\<And>e. runs_nothing (h e)) \<Longrightarrow> runs_nothing (tryE m h)"
  by (auto simp: writes_only_def runs_nothing_def tryE_def split: prod.split sum.split) (metis snd_conv)+

lemma frame_cases [frame_intros]:
  "writes_only S m \<Longrightarrow> writes_only S n \<Longrightarrow> writes_only S (if c then m else n)"
  "runs_nothing m \<Longrightarrow> runs_nothing n \<Longrightarrow> runs_nothing (if c then m else n)"
  "writes_only S m \<Longrightarrow> (\<And>x. writes_only S (f x)) \<Longrightarrow> writes_only S (case z of None \<Rightarrow> m | Some x \<Rightarrow> f x)"
  "runs_nothing m \<Longrightarrow> (\<And>x. runs_nothing (f x)) \<Longrightarrow> runs_nothing (case z of None \<Rightarrow> m | Some x \<Rightarrow> f x)"
  "(\<And>e. writes_only S (g e)) \<Longrightarrow> (\<And>x. writes_only S (f x)) \<Longrightarrow> writes_only S (case q of Inl e \<Rightarrow> g e | Inr x \<Rightarrow> f x)"
  "(\<And>e. runs_nothing (g e)) \<Longrightarrow> (\<And>x. runs_nothing (f x)) \<Longrightarrow> runs_nothing (case q of Inl e \<Rightarrow> g e | Inr x \<Rightarrow> f x)"
  by (simp_all split: option.split sum.split)

lemma frame_loops [frame_intros]:
  "(\<And>x. writes_only S (f x)) \<Longrightarrow> writes_only S (forE xs f)" "(\<And>x. runs_nothing (f x)) \<Longrightarrow> runs_nothing (forE xs f)"
  "(\<And>x. writes_only S (g x)) \<Longrightarrow> writes_only S (mapE g xs)" "(\<And>x. runs_nothing (g x)) \<Longrightarrow> runs_nothing (mapE g xs)"
  by (induction xs) (auto intro!: frame_flow frame_bind)

lemma frame_tick:
  "(\<And>k. writes_only S (f k)) \<Longrightarrow> writes_only S (tick E f)" "(\<And>k. runs_nothing (f k)) \<Longrightarrow> runs_nothing (tick E f)"
  by (auto simp: writes_only_def runs_nothing_def tick_def Let_def)

lemma frame_file_call [frame_intros]: "writes_only S (file_call E f)" "runs_nothing (file_call E f)"
  by (simp_all add: file_call_def tick_def writes_only_def runs_nothing_def Let_def)

lemma frame_files [frame_intros]:
  "p \<in> S \<Longrightarrow> writes_only S (write_text E p t)" "runs_nothing (write_text E p t)"
  "p \<in> S \<Longrightarrow> p' \<in> S \<Longrightarrow> writes_only S (rename_file E p p')" "runs_nothing (rename_file E p p')"
  "p \<in> S \<Longrightarrow> writes_only S (remove_file E p)" "runs_nothing (remove_file E p)"
  "writes_only S (exists_file E p)" "runs_nothing (exists_file E p)"
  by (auto simp: write_text_def rename_file_def remove_file_def exists_file_def tick_def writes_only_def runs_nothing_def
      torn_file_def set_file_def Let_def split: option.split)

lemma writes_only_mono: "writes_only S m \<Longrightarrow> S \<subseteq> T \<Longrightarrow> writes_only T m"
  by (auto simp: writes_only_def)

lemma frame_read [frame_intros]:
  "writes_only S (read_text E p)" "runs_nothing (read_text E p)" "writes_only S (stat_file E p)" "runs_nothing (stat_file E p)"
  "writes_only S (read_json E p)" "runs_nothing (read_json E p)" "writes_only S (optional_document E p)" "runs_nothing (optional_document E p)"
  unfolding read_text_def stat_file_def read_json_def optional_document_def by (intro frame_intros)+

lemma frame_load [frame_intros]:
  "writes_only S (loadSetupState E)" "runs_nothing (loadSetupState E)"
  "writes_only S (loadGeneratedConfig E)" "runs_nothing (loadGeneratedConfig E)"
  "writes_only S (loadOperatorConfig E)" "runs_nothing (loadOperatorConfig E)"
  "writes_only S (readOperationJournal E)" "runs_nothing (readOperationJournal E)"
  "writes_only S (readCredentialOperationJournal E)" "runs_nothing (readCredentialOperationJournal E)"
  "writes_only S (if_missing x e)" "runs_nothing (if_missing x e)"
  "writes_only S (read_store E p)" "runs_nothing (read_store E p)"
  "writes_only S (loadCredentials E)" "runs_nothing (loadCredentials E)"
  "writes_only S (credentialSources E)" "runs_nothing (credentialSources E)"
  "writes_only S (failE program code message)" "runs_nothing (failE program code message)"
  unfolding loadSetupState_def loadGeneratedConfig_def loadOperatorConfig_def readOperationJournal_def readCredentialOperationJournal_def
    if_missing_def read_store_def loadCredentials_def credentialSources_def failE_def
  by (intro frame_intros)+

lemma frame_git [frame_intros]: "writes_only S (currentGitSha E)" "runs_nothing (currentGitSha E)"
  by (simp_all add: currentGitSha_def tick_def writes_only_def runs_nothing_def Let_def)

lemma frame_write [frame_intros]:
  "path \<in> S \<Longrightarrow> temporary path \<in> S \<Longrightarrow> writes_only S (writeJsonAtomic E path v)" "runs_nothing (writeJsonAtomic E path v)"
  "path \<in> S \<Longrightarrow> temporary path \<in> S \<Longrightarrow> writes_only S (writeCredentialsFile E path c)" "runs_nothing (writeCredentialsFile E path c)"
  unfolding writeJsonAtomic_def writeCredentialsFile_def make_directory_def change_mode_def by (intro frame_intros; assumption)+

lemma frame_wrangler [frame_intros]:
  "writes_only S (runWrangler E args input)" "writes_only S (runCaptureWrangler E args)" "writes_only S (runInheritWrangler E args)"
proof -
  have s: "writes_only S (spawned E argv input c)" for argv input c
    by (auto simp: writes_only_def spawned_def Let_def log_command_def)
  have run: "writes_only S (runWrangler E args input)" for args input
    unfolding runWrangler_def by (intro frame_intros s)
  show "writes_only S (runWrangler E args input)" by (rule run)
  show "writes_only S (runCaptureWrangler E args)" unfolding runCaptureWrangler_def by (rule run)
  show "writes_only S (runInheritWrangler E args)" unfolding runInheritWrangler_def by (intro frame_intros run)
qed

section \<open>Control flow, and what Wrangler was asked\<close>

lemma keeps_try:
  assumes "keeps I m" "\<And>e. keeps I (h e)"
  shows "keeps I (tryE m h)"
proof (rule keepsI)
  fix w
  assume "I w"
  with assms(1) have "I (snd (m w))" by (rule keeps_snd)
  then show "I (snd (tryE m h w))"
    using assms(2) by (auto simp: tryE_def keeps_def split: prod.split sum.split)
qed

lemma triple_try:
  assumes "triple P m Q R'" "\<And>e. \<not> ends_process e \<Longrightarrow> triple (R' e) (h e) Q R" "\<And>e w. ends_process e \<Longrightarrow> R' e w \<Longrightarrow> R e w"
  shows "triple P (tryE m h) Q R"
  using assms by (fastforce simp: triple_def tryE_def split: prod.splits sum.splits if_splits)

lemma runWrangler_log:
  assumes "runWrangler E args input w = (r, w')"
  shows "(\<exists>c. commands w' = commands w @ [c] \<and> cm_argv c = wranglerArgs args \<and> cm_input c = input
      \<and> (\<forall>reply. r = Inr reply \<longrightarrow> cm_ok c = cr_ok reply))
    \<or> (commands w' = commands w \<and> (\<exists>e. r = Inl e))"
proof -
  have n: "runs_nothing (loadCredentials E)" "runs_nothing (loadOperatorConfig E)" by (rule frame_intros)+
  obtain r1 w1 where 1: "loadCredentials E w = (r1, w1)" by fastforce
  show ?thesis
  proof (cases r1)
    case (Inl e)
    then show ?thesis using assms 1 runs_nothingD [OF n(1) 1] by (auto simp: runWrangler_def bindE_def)
  next
    case (Inr c)
    obtain r2 w2 where 2: "loadOperatorConfig E w1 = (r2, w2)" by fastforce
    have same: "commands w2 = commands w" using runs_nothingD [OF n(1) 1] runs_nothingD [OF n(2) 2] by simp
    show ?thesis
    proof (cases r2)
      case (Inl e)
      then show ?thesis using assms 1 2 Inr same by (auto simp: runWrangler_def bindE_def)
    next
      case (Inr operator)
      then have "spawned E (wranglerArgs args) input (buildWranglerChildEnv E c operator) w2 = (r, w')"
        using assms 1 2 \<open>r1 = Inr c\<close> by (simp add: runWrangler_def bindE_def)
      then show ?thesis using same by (auto simp: spawned_def Let_def log_command_def split: if_splits)
    qed
  qed
qed

section \<open>Atomic replacement\<close>

lemma temporary_neq [simp]: "temporary p \<noteq> p" "p \<noteq> temporary p"
  by (simp_all add: temporary_def)

text \<open>A write through a temporary file and a rename has happened, or has not happened.\<close>

lemma rename_atomic:
  "rename_file E old path w = (r, w') \<Longrightarrow> old \<noteq> path \<Longrightarrow>
   (files w' path = files w path \<and> (\<exists>e. r = Inl e)) \<or> (files w' path = files w old \<and> files w old \<noteq> None \<and> r = Inr ())"
  by (auto simp: rename_file_def tick_def set_file_def Let_def split: if_splits option.splits)

lemma write_text_done: "write_text E p t w = (Inr (), w') \<Longrightarrow> files w' p = Some t"
  by (auto simp: write_text_def set_file_def Let_def split: if_splits)

lemma write_then_rename:
  assumes run: "bindE (write_text E (temporary path) t) f w = (r, w')"
    and f: "\<And>w1 r1 w2. f () w1 = (r1, w2) \<Longrightarrow>
      (files w2 path = files w1 path \<and> (\<exists>e. r1 = Inl e)) \<or> (files w2 path = files w1 (temporary path) \<and> r1 = Inr ())"
  shows "(files w' path = files w path \<and> (\<exists>e. r = Inl e)) \<or> (files w' path = Some t \<and> r = Inr ())"
proof (cases "write_text E (temporary path) t w")
  case (Pair r1 w1)
  have same: "files w1 path = files w path"
    using writes_onlyD [OF frame_files(1) Pair, of "{temporary path}" path] by simp
  show ?thesis
  proof (cases r1)
    case (Inl e)
    then show ?thesis using run Pair same by (auto simp: bindE_def)
  next
    case (Inr u)
    then have "f () w1 = (r, w')" "files w1 (temporary path) = Some t"
      using run Pair write_text_done [of E "temporary path" t w w1] by (simp_all add: bindE_def)
    then show ?thesis using f [of w1 r w'] same by auto
  qed
qed

lemma json_write_atomic:
  assumes "writeJsonAtomic E path v w = (r, w')"
  shows "(files w' path = files w path \<and> (\<exists>e. r = Inl e)) \<or> (files w' path = Some (document_text v) \<and> r = Inr ())"
proof -
  let ?tail = "bindE (write_text E (temporary path) (document_text v)) (\<lambda>_. rename_file E (temporary path) path)"
  have tail: "(files w2 path = files w1 path \<and> (\<exists>e. r = Inl e)) \<or> (files w2 path = Some (document_text v) \<and> r = Inr ())"
    if "?tail w1 = (r, w2)" for w1 r w2
    by (rule write_then_rename [OF that]) (use rename_atomic in force)
  let ?mid = "bindE (liftE (parse_json E (document_text v))) (\<lambda>_. ?tail)"
  have dir: "writes_only {} (make_directory E)" unfolding make_directory_def by (rule frame_intros)
  obtain r0 w0 where m: "make_directory E w = (r0, w0)" by fastforce
  have same: "files w0 path = files w path" using writes_onlyD [OF dir m] by simp
  have run: "bindE (make_directory E) (\<lambda>_. ?mid) w = (r, w')" using assms by (simp add: writeJsonAtomic_def)
  show ?thesis
  proof (cases r0)
    case (Inl e)
    then show ?thesis using run m same by (auto simp: bindE_Inl)
  next
    case (Inr u)
    then have mid: "?mid w0 = (r, w')" using run m by (simp add: bindE_Inr)
    show ?thesis
    proof (cases "parse_json E (document_text v)")
      case (Inl e)
      then show ?thesis using mid same by (auto simp: bindE_def liftE_def)
    next
      case (Inr x)
      then have "?tail w0 = (r, w')" using mid by (simp add: bindE_def liftE_def)
      then show ?thesis using tail same by fastforce
    qed
  qed
qed

lemma frame_set [frame_intros]:
  "writes_only {DEFAULT_CREDENTIALS_FILE, temporary DEFAULT_CREDENTIALS_FILE} (setCredential E name v)" "runs_nothing (setCredential E name v)"
  unfolding setCredential_def Let_def by (intro frame_intros; simp)+

lemma document_reads:
  assumes "json_ok v"
  shows "parse_json E (document_text v) = Inr v"
  using pretty_round_trip [OF assms] json_ok_pretty [OF assms, of 0] by (simp add: parse_json_def document_text_def)

end
