(* ===== verification/Credential_Ops.thy ===== *)
theory Credential_Ops
  imports Operator_World
begin

text \<open>
  The credential commands (\<open>src/scripts/credentials.mjs\<close>): the status, the upload of the runtime secrets, the read-only probes, and
  the rotation of a credential with the journal that lets an interrupted rotation be completed.
\<close>

section \<open>Shared steps\<close>

definition OPERATOR_STATE_ERRORS :: "string list" where
  "OPERATOR_STATE_ERRORS = [''operator_state_missing'', ''operator_state_rc_mismatch'', ''operator_state_worker_mismatch'',
     ''operator_state_d1_mismatch'', ''operator_state_r2_mismatch'', ''operator_state_domain_mismatch'', ''operator_state_zone_mismatch'',
     ''operator_state_account_mismatch'', ''operator_state_provider_mismatch'', ''operator_state_config_hash_mismatch'',
     ''generated_config_missing'', ''generated_config_invalid'']"

text \<open>\<open>error.message\<close>; an \<open>OperatorStateError\<close> puts its code in front of its detail.\<close>

definition message_of :: "exn \<Rightarrow> jstr" where
  "message_of e = (case e of
     JsError name message \<Rightarrow>
       if name \<in> js ` set (OPERATOR_STATE_ERRORS @ [''git_head_unavailable'', ''git_head_invalid'']) then
         (if message = [] then name else name @ js '': '' @ message)
       else message
   | AppError status message code \<Rightarrow> message)"

definition pad_end :: "nat \<Rightarrow> jstr \<Rightarrow> jstr" where
  "pad_end n s = s @ replicate (n - length s) 32"

definition in_quote_marks :: "jstr \<Rightarrow> jstr" where
  "in_quote_marks s = [39] @ s @ [39]"

definition configured_provider :: "jsval \<Rightarrow> jstr" where
  "configured_provider operator = js_string (or_text (field operator ''outbound_provider'') ''none'')"

definition generated_path :: "operator_env \<Rightarrow> jstr" where
  "generated_path E = env_path E ''MAILBOX_GENERATED_CONFIG'' GENERATED_FILE"

definition credentials_fail :: "string \<Rightarrow> jstr \<Rightarrow> 'a op" where
  "credentials_fail code message = failE ''credentials'' code message"

definition exit_with :: "string \<Rightarrow> jstr \<Rightarrow> 'a op" where
  "exit_with code line = bindE (printE line) (\<lambda>_. throwE (Exited code))"

section \<open>Status\<close>

definition ready_text :: "credentials \<Rightarrow> string \<Rightarrow> jstr" where
  "ready_text c name = (if credential_of c name \<noteq> [] then js ''READY'' else js ''NOT CONFIGURED'')"

definition choice :: "(string \<times> jstr) list \<Rightarrow> jstr \<Rightarrow> jstr" where
  "choice table key = (case map_of (map (\<lambda>(k, t). (js k, t)) table) key of None \<Rightarrow> js ''undefined'' | Some t \<Rightarrow> t)"

definition role_text :: "role \<Rightarrow> string" where
  "role_text r = (case r of Operator_Local \<Rightarrow> ''operator-local'' | Runtime_Persistent \<Rightarrow> ''runtime-persistent''
     | Runtime_Transient \<Rightarrow> ''runtime-transient'')"

definition source_text :: "credential_source \<Rightarrow> string" where
  "source_text s = (case s of From_Env \<Rightarrow> ''env'' | From_File \<Rightarrow> ''file'' | Absent \<Rightarrow> ''absent'')"

definition key_row :: "credentials \<Rightarrow> (string \<times> credential_source) list \<Rightarrow> credential_entry \<Rightarrow> jstr" where
  "key_row c sources e =
     pad_end 28 (js (ce_key e)) @ js '' '' @ (if credential_of c (ce_key e) \<noteq> [] then js ''READY '' else js ''ABSENT'') @ js ''  ''
       @ pad_end 20 (js (role_text (ce_role e))) @ js '' source=''
       @ js (source_text (case map_of sources (ce_key e) of None \<Rightarrow> Absent | Some s \<Rightarrow> s))"

definition provider_label :: "jstr \<Rightarrow> jstr" where
  "provider_label provider = (case map_of [(js ''none'', ''none''), (js ''resend'', ''Resend''), (js ''brevo'', ''Brevo''),
     (js ''cloudflare'', ''Cloudflare'')] provider of None \<Rightarrow> provider | Some t \<Rightarrow> js t)"

definition status_lines :: "credentials \<Rightarrow> (string \<times> credential_source) list \<Rightarrow> jsval \<Rightarrow> jstr list" where
  "status_lines c sources operator =
     (let provider = configured_provider operator;
          sending = choice [(''none'', js ''N/A (receive-only)''), (''resend'', ready_text c ''RESEND_API_KEY''), (''brevo'', ready_text c ''BREVO_API_KEY''),
            (''cloudflare'', js ''READY (EMAIL binding, no secret)'')] provider;
          events = choice [(''none'', js ''N/A (receive-only)''), (''resend'', ready_text c ''RESEND_WEBHOOK_SECRET''),
            (''brevo'', ready_text c ''BREVO_WEBHOOK_TOKEN''), (''cloudflare'', js ''READY (queue events, no secret)'')] provider in
      map (key_row c sources) CREDENTIAL_SCHEMA
      @ [[], js ''Cloudflare operator auth       '' @ ready_text c ''CLOUDFLARE_API_TOKEN'',
         js ''Cloudflare account selection   ''
           @ (if truthy (field operator ''cloudflare_account_id'') then js ''READY'' else js ''NOT CONFIGURED''),
         js ''Routing sync                   '' @ ready_text c ''CLOUDFLARE_ROUTING_READ_TOKEN'',
         js ''Mailbox auth                   '' @ ready_text c ''AUTH_PEPPER'', [],
         js ''Outbound provider              '' @ provider_label provider,
         js ''Outbound sending               '' @ sending,
         js ''Delivery events                '' @ events])"

definition print_lines :: "jstr list \<Rightarrow> unit op" where
  "print_lines ls = forE ls printE"

definition credential_status :: "operator_env \<Rightarrow> unit op" where
  "credential_status E =
     bindE (loadCredentials E) (\<lambda>c.
     bindE (credentialSources E) (\<lambda>sources.
     bindE (loadOperatorConfig E) (\<lambda>operator. print_lines (status_lines c sources operator))))"

section \<open>Uploading the runtime secrets\<close>

definition secret_values :: "credentials \<Rightarrow> jsval" where
  "secret_values c = JObj (map (\<lambda>(k, v). (k, JStr v)) c)"

definition indented_text :: "jsval \<Rightarrow> jstr" where
  "indented_text v = pretty_text 0 v"

definition secret_bulk :: "jstr \<Rightarrow> jstr list" where
  "secret_bulk config = [js ''secret'', js ''bulk'', js ''--config'', config]"

definition secret_put :: "jstr \<Rightarrow> jstr \<Rightarrow> jstr list" where
  "secret_put k config = [js ''secret'', js ''put'', k, js ''--config'', config]"

definition operator_local_in :: "credentials \<Rightarrow> string option" where
  "operator_local_in c = find (\<lambda>n. credential_of c n \<noteq> []) OPERATOR_LOCAL_CREDENTIALS"

definition validate_current :: "operator_env \<Rightarrow> jsval \<Rightarrow> unit op" where
  "validate_current E operator =
     bindE (currentGitSha E) (\<lambda>sha.
     bindE (loadSetupState E) (\<lambda>setup.
     bindE (loadGeneratedConfig E) (\<lambda>generated.
     liftE (map_sum state_exn (\<lambda>_. ()) (validateOperatorState (platform_of (host_of E)) operator setup generated sha)))))"

definition applySecrets :: "operator_env \<Rightarrow> unit op" where
  "applySecrets E =
     bindE (loadOperatorConfig E) (\<lambda>operator.
     (let provider = configured_provider operator in
      if provider \<notin> js ` set OUTBOUND_PROVIDERS then
        credentials_fail ''unknown_provider'' (js ''OUTBOUND_PROVIDER '' @ in_quote_marks provider @ js '' is invalid.'')
      else
        bindE (tryE (validate_current E operator) (\<lambda>e. credentials_fail ''operator_state_invalid'' (message_of e))) (\<lambda>_.
        bindE (loadCredentials E) (\<lambda>c.
        (let runtime = providerActiveCredentials (JStr provider) c in
         case operator_local_in runtime of
           Some n \<Rightarrow> credentials_fail ''operator_local_upload'' (js n @ js '' must never be uploaded.'')
         | None \<Rightarrow>
             bindE (runWrangler E (secret_bulk (generated_path E)) (indented_text (secret_values runtime))) (\<lambda>reply.
             if \<not> cr_ok reply then credentials_fail ''secret_apply_failed'' (js ''wrangler secret bulk failed.'')
             else print_lines (map (\<lambda>(k, v). k @ js '': configured'') runtime
               @ [js ''credentials: applied '' @ nat_text (length runtime) @ js '' persistent secrets (provider='' @ provider @ js '').''])))))))"

section \<open>Probes\<close>

datatype verdict = Valid | Invalid | Forbidden | Rate_Limited | Provider_Error | Unreachable

definition classifyCredentialProbe :: "nat \<Rightarrow> bool \<Rightarrow> verdict" where
  "classifyCredentialProbe status contractSuccess =
     (if contractSuccess then Valid else if status = 401 then Invalid else if status = 403 then Forbidden
      else if status = 429 then Rate_Limited else if 500 \<le> status \<and> status < 600 then Provider_Error else Invalid)"

record credential_probe =
  cp_url :: string
  cp_headers :: "jstr \<Rightarrow> (jstr \<times> jstr) list"
  cp_success :: "jsval \<Rightarrow> bool"

definition bearer_header :: "jstr \<Rightarrow> (jstr \<times> jstr) list" where
  "bearer_header token = [(js ''Authorization'', js ''Bearer '' @ token)]"

definition CREDENTIAL_PROBES :: "(string \<times> credential_probe) list" where
  "CREDENTIAL_PROBES =
     [(''CLOUDFLARE_API_TOKEN'', \<lparr> cp_url = ''https://api.cloudflare.com/client/v4/user/tokens/verify'', cp_headers = bearer_header,
        cp_success = (\<lambda>body. field body ''success'' = JBool True) \<rparr>),
      (''RESEND_SETUP_API_KEY'', \<lparr> cp_url = ''https://api.resend.com/webhooks'', cp_headers = bearer_header,
        cp_success = (\<lambda>body. is_array (field body ''data'')) \<rparr>),
      (''BREVO_SETUP_API_KEY'', \<lparr> cp_url = ''https://api.brevo.com/v3/webhooks'', cp_headers = (\<lambda>k. [(js ''api-key'', k)]),
        cp_success = (\<lambda>body. is_array (field body ''webhooks'')) \<rparr>)]"

definition api_call :: "operator_env \<Rightarrow> api_request \<Rightarrow> (nat \<times> jstr) option op" where
  "api_call E request = tick E (\<lambda>k w. (Inr (fetched E k request), w\<lparr>requests := requests w @ [request]\<rparr>))"

definition probe_unknown :: "string \<Rightarrow> exn" where
  "probe_unknown name = credential_error (js ''credential_probe_unknown: no probe for '' @ in_quote_marks (js name) @ js ''.'')"

definition probeCredential :: "operator_env \<Rightarrow> string \<Rightarrow> jstr \<Rightarrow> verdict op" where
  "probeCredential E name v =
     (case map_of CREDENTIAL_PROBES name of
        None \<Rightarrow> throwE (probe_unknown name)
      | Some p \<Rightarrow>
          bindE (api_call E \<lparr> ar_method = js ''GET'', ar_url = js (cp_url p), ar_headers = cp_headers p v, ar_body = JUndef \<rparr>) (\<lambda>reply.
          returnE (case reply of
             None \<Rightarrow> Unreachable
           | Some (status, text) \<Rightarrow>
               (let body = (case parse_json E text of Inl e \<Rightarrow> JNull | Inr b \<Rightarrow> b) in
                classifyCredentialProbe status (truthy body \<and> cp_success p body)))))"

definition verdict_text :: "verdict \<Rightarrow> string" where
  "verdict_text v = (case v of Valid \<Rightarrow> ''VALID'' | Invalid \<Rightarrow> ''INVALID'' | Forbidden \<Rightarrow> ''FORBIDDEN'' | Rate_Limited \<Rightarrow> ''RATE_LIMITED''
     | Provider_Error \<Rightarrow> ''PROVIDER_ERROR'' | Unreachable \<Rightarrow> ''UNREACHABLE'')"

definition probe_line :: "operator_env \<Rightarrow> credentials \<Rightarrow> string \<Rightarrow> jstr op" where
  "probe_line E c name =
     (let v = credential_of c name; row = (\<lambda>t :: string. pad_end 28 (js name) @ js '' '' @ js t) in
      if v = [] then returnE (row ''NOT_CONFIGURED'')
      else bindE (probeCredential E name v) (\<lambda>r. returnE (row (verdict_text r))))"

definition credential_check :: "operator_env \<Rightarrow> unit op" where
  "credential_check E =
     bindE (loadCredentials E) (\<lambda>c.
     bindE (mapE (probe_line E c) [''CLOUDFLARE_API_TOKEN'', ''RESEND_SETUP_API_KEY'', ''BREVO_SETUP_API_KEY'']) print_lines)"

section \<open>Rotation\<close>

definition schema_entry :: "jstr \<Rightarrow> credential_entry option" where
  "schema_entry k = find (\<lambda>e. js (ce_key e) = k) CREDENTIAL_SCHEMA"

definition PENDING_PHASES :: "string list" where
  "PENDING_PHASES = [''prepared'', ''local_written'', ''remote_written'']"

definition rotation_pending :: "jsval \<Rightarrow> bool" where
  "rotation_pending journal \<longleftrightarrow> truthy journal \<and> one_of PENDING_PHASES (field journal ''phase'')"

definition assertNoCredentialRecoveryPending :: "operator_env \<Rightarrow> unit op" where
  "assertNoCredentialRecoveryPending E =
     bindE (readCredentialOperationJournal E) (\<lambda>journal.
     if rotation_pending journal then
       credentials_fail ''credential_recovery_pending'' (js ''a '' @ js_string (or_text (field journal ''operation'') ''credential'') @ js '' rotation for ''
         @ js_string (field journal ''key'') @ js '' is pending; run `npm run credentials:recover` first.'')
     else returnE ())"

definition hiddenInput :: "operator_env \<Rightarrow> jstr \<Rightarrow> jstr op" where
  "hiddenInput E question = bindE (printE question) (\<lambda>_. tick E (\<lambda>k w. (Inr (typed E k), w)))"

definition rotation_journal :: "jstr \<Rightarrow> jstr \<Rightarrow> string \<Rightarrow> jstr \<Rightarrow> jsval" where
  "rotation_journal k worker phase started =
     obj [(''schema_version'', CREDENTIAL_OPERATION_SCHEMA_VERSION), (''operation'', JStr (js ''credential_rotate'')), (''key'', JStr k),
       (''phase'', JStr (js phase)), (''started_at'', JStr started), (''worker_name'', JStr worker)]"

definition note_phase :: "operator_env \<Rightarrow> jstr \<Rightarrow> jstr \<Rightarrow> string \<Rightarrow> unit op" where
  "note_phase E k worker phase =
     (\<lambda>w. writeCredentialOperationJournal E (rotation_journal k worker phase (clock_now E (ticks w))) w)"

definition rotate_remote :: "operator_env \<Rightarrow> jstr \<Rightarrow> jstr \<Rightarrow> jstr \<Rightarrow> unit op" where
  "rotate_remote E k worker v =
     bindE (runWrangler E (secret_put k (generated_path E)) v) (\<lambda>reply.
     if \<not> cr_ok reply then
       exit_with ''worker_update_failed'' (js ''credentials: '' @ k
         @ js '' updated locally but the Worker update failed. Run `npm run credentials:recover` to converge the Worker from the local value.'')
     else
       bindE (note_phase E k worker ''remote_written'') (\<lambda>_.
       bindE (loadCredentials E) (\<lambda>stored.
       if map_of stored k \<noteq> Some v then
         credentials_fail ''local_verify_failed'' (k @ js '' no longer matches the rotated value locally; refusing to declare convergence.'')
       else
         bindE (note_phase E k worker ''converged'') (\<lambda>_.
         bindE (clearCredentialOperationJournal E) (\<lambda>_.
         printE (k @ js '': updated on the Worker.''))))))"

definition rotate_key :: "operator_env \<Rightarrow> jstr \<Rightarrow> role \<Rightarrow> jstr \<Rightarrow> jstr \<Rightarrow> unit op" where
  "rotate_key E k r worker v =
     bindE (note_phase E k worker ''prepared'') (\<lambda>_.
     bindE (setCredential E k v) (\<lambda>_.
     bindE (note_phase E k worker ''local_written'') (\<lambda>_.
     bindE (printE (k @ js '': updated locally (atomic, 0600).'')) (\<lambda>_.
     if r = Operator_Local then
       bindE (clearCredentialOperationJournal E) (\<lambda>_. printE (k @ js '': operator-local '' @ [0x2014] @ js '' no Worker secret update.''))
     else rotate_remote E k worker v))))"

definition rotate_credential :: "operator_env \<Rightarrow> jstr \<Rightarrow> unit op" where
  "rotate_credential E arg =
     (let k = to_upper (uni (platform_of (host_of E))) arg in
      if k = js ''AUTH_PEPPER'' then
        credentials_fail ''pepper_rotation_refused'' (js ''rotating AUTH_PEPPER invalidates every existing password. Procedure: rotate each administrator password through the UI first, then rotate the pepper during a maintenance window.'')
      else (case schema_entry k of
        None \<Rightarrow> credentials_fail ''unknown_key'' (js ''unknown credential key '' @ in_quote_marks k @ js ''.'')
      | Some entry \<Rightarrow>
          bindE (assertNoCredentialRecoveryPending E) (\<lambda>_.
          bindE (hiddenInput E (k @ js '' (hidden input): '')) (\<lambda>v.
          if v = [] then credentials_fail ''empty_value'' (js ''no value entered; rotation aborted.'')
          else
            bindE (loadOperatorConfig E) (\<lambda>operator.
            rotate_key E k (ce_role entry) (js_string (or_text (field operator ''worker_name'') '''')) v)))))"

text \<open>Completing a rotation: the local value is put on the Worker.\<close>

definition converge :: "operator_env \<Rightarrow> jstr \<Rightarrow> unit op" where
  "converge E k =
     bindE (loadCredentials E) (\<lambda>c.
     (let v = (case map_of c k of None \<Rightarrow> [] | Some t \<Rightarrow> t) in
      if v = [] then
        bindE (clearCredentialOperationJournal E) (\<lambda>_.
        printE (k @ js '': no local value present; nothing to converge (journal cleared).''))
      else
        bindE (runWrangler E (secret_put k (generated_path E)) v) (\<lambda>reply.
        if \<not> cr_ok reply then
          credentials_fail ''secret_put_failed'' (k @ js '' still not converged; fix the connection and run `npm run credentials:recover` again.'')
        else
          bindE (clearCredentialOperationJournal E) (\<lambda>_.
          printE (k @ js '': converged to the Worker from the central local store.'')))))"

definition recoverCredentials :: "operator_env \<Rightarrow> unit op" where
  "recoverCredentials E =
     bindE (readCredentialOperationJournal E) (\<lambda>journal.
     if \<not> rotation_pending journal then
       credentials_fail ''no_credential_recovery_needed'' (js ''no pending credential rotation journal found.'')
     else
       (let k = js_string (field journal ''key'') in
        case (if field journal ''key'' = JStr k then schema_entry k else None) of
          None \<Rightarrow> credentials_fail ''journal_key_unknown'' (js ''the journal references unknown key '' @ in_quote_marks k @ js ''.'')
        | Some entry \<Rightarrow>
            if ce_role entry = Operator_Local then
              bindE (clearCredentialOperationJournal E) (\<lambda>_.
              printE (k @ js '': operator-local '' @ [0x2014] @ js '' no Worker secret to converge; journal cleared.''))
            else converge E k))"

section \<open>The command line\<close>

definition credentials_main :: "operator_env \<Rightarrow> jstr list \<Rightarrow> unit op" where
  "credentials_main E argv =
     (let command = (case argv of c # _ \<Rightarrow> or_else c (js ''status'') | [] \<Rightarrow> js ''status'');
          arg = (case argv of _ # a # _ \<Rightarrow> a | _ \<Rightarrow> []) in
      if command = js ''status'' then credential_status E
      else if command = js ''apply'' then applySecrets E
      else if command = js ''check'' then credential_check E
      else if command = js ''rotate'' then rotate_credential E arg
      else if command = js ''recover'' then recoverCredentials E
      else exit_with ''usage'' (js ''usage: node scripts/credentials.mjs <status|apply|check|rotate <KEY>|recover>''))"

end
