(* ===== verification/Rotation.thy ===== *)
theory Rotation
  imports Credential_Ops
begin

text \<open>
  Rotating credentials is safe against interruption: whenever no rotation of a runtime credential is pending in the journal, the value
  that was last put on the Worker is the value in the operator's store. The processes may be killed at any step, in the middle of a write
  or of a Wrangler command, and Wrangler may fail.
\<close>

section \<open>The store and the Worker\<close>

text \<open>
  The conditions of the results below: the credentials come from the default store alone (no other file is configured and the environment of the
  process names none), and no file operation reports an error. A process that is killed, a write that is torn and a command that fails are not
  excluded. A read of the journal that fails is: \<open>readCredentialOperationJournal\<close> takes it for a journal that is not there, so a second
  rotation would overwrite the pending one.
\<close>

definition own_store :: "operator_env \<Rightarrow> bool" where
  "own_store E \<longleftrightarrow> credentials_file E = DEFAULT_CREDENTIALS_FILE \<and> from_process (host_of E) = [] \<and> (\<forall>n. \<not> io_fails E n)"

definition stored_value :: "machine \<Rightarrow> jstr \<Rightarrow> jstr option" where
  "stored_value w k = (case files w DEFAULT_CREDENTIALS_FILE of None \<Rightarrow> None
     | Some t \<Rightarrow> (case parseCredentialEnv t of Inl e \<Rightarrow> None | Inr c \<Rightarrow> map_of c k))"

definition is_put :: "jstr \<Rightarrow> command \<Rightarrow> bool" where
  "is_put k c \<longleftrightarrow> take 3 (cm_argv c) = [js ''secret'', js ''put'', k]"

definition last_put :: "machine \<Rightarrow> jstr \<Rightarrow> command option" where
  "last_put w k = (if filter (is_put k) (commands w) = [] then None else Some (last (filter (is_put k) (commands w))))"

definition in_step :: "machine \<Rightarrow> jstr \<Rightarrow> bool" where
  "in_step w k \<longleftrightarrow> stored_value w k \<in> {None, Some []}
     \<or> (case last_put w k of None \<Rightarrow> True | Some c \<Rightarrow> cm_ok c \<and> stored_value w k = Some (cm_input c))"

definition journal_for :: "operator_env \<Rightarrow> machine \<Rightarrow> jstr \<Rightarrow> bool" where
  "journal_for E w k \<longleftrightarrow> (case files w CREDENTIAL_OPERATION_JOURNAL_FILE of None \<Rightarrow> False
     | Some t \<Rightarrow> (case parse_json E t of Inl e \<Rightarrow> False | Inr j \<Rightarrow> rotation_pending j \<and> field j ''key'' = JStr k))"

definition rotation_safe :: "operator_env \<Rightarrow> jstr \<Rightarrow> machine \<Rightarrow> bool" where
  "rotation_safe E k w \<longleftrightarrow> journal_for E w k \<or> in_step w k"

lemma paths_differ [simp]:
  "DEFAULT_CREDENTIALS_FILE \<noteq> CREDENTIAL_OPERATION_JOURNAL_FILE" "CREDENTIAL_OPERATION_JOURNAL_FILE \<noteq> DEFAULT_CREDENTIALS_FILE"
  "DEFAULT_CREDENTIALS_FILE \<noteq> temporary CREDENTIAL_OPERATION_JOURNAL_FILE"
  "CREDENTIAL_OPERATION_JOURNAL_FILE \<noteq> temporary DEFAULT_CREDENTIALS_FILE"
  by (simp_all add: DEFAULT_CREDENTIALS_FILE_def CREDENTIAL_OPERATION_JOURNAL_FILE_def temporary_def flip: js_append)

lemma stored_value_same:
  "files w' DEFAULT_CREDENTIALS_FILE = files w DEFAULT_CREDENTIALS_FILE \<Longrightarrow> stored_value w' k = stored_value w k"
  by (simp add: stored_value_def)

lemma in_step_same:
  "stored_value w' k = stored_value w k \<Longrightarrow> commands w' = commands w \<Longrightarrow> in_step w' k \<longleftrightarrow> in_step w k"
  by (simp add: in_step_def last_put_def split: option.split)

lemma keeps_in_step:
  assumes "writes_only S m" "runs_nothing m" "DEFAULT_CREDENTIALS_FILE \<notin> S"
  shows "keeps (\<lambda>w. in_step w k) m"
  using assms by (auto simp: keeps_def writes_only_def runs_nothing_def intro: in_step_same [OF stored_value_same, THEN iffD2])

lemma keeps_journal: "writes_only S m \<Longrightarrow> CREDENTIAL_OPERATION_JOURNAL_FILE \<notin> S \<Longrightarrow> keeps (\<lambda>w. journal_for E w k) m"
  by (auto simp: keeps_def writes_only_def journal_for_def)

section \<open>Reading\<close>

lemma file_call_reads:
  assumes "file_call E f w = (r, w')" "\<forall>n. \<not> io_fails E n"
  shows "w' = w\<lparr>ticks := Suc (ticks w)\<rparr> \<and> (r = Inl Killed \<or> r = f w')"
  using assms by (auto simp: file_call_def tick_def Let_def split: if_splits)

lemma Killed_ends [simp]: "ends_process Killed" "\<not> missing_file Killed" "ends_process (Exited code)"
  by (simp_all add: ends_process_def Killed_def Exited_def missing_file_def ENOENT_def)

lemma read_text_reads:
  assumes "read_text E p w = (r, w')" "\<forall>n. \<not> io_fails E n"
  shows "r = Inl Killed \<or> r = (case files w p of None \<Rightarrow> Inl (file_error ENOENT) | Some t \<Rightarrow> Inr t)"
  using file_call_reads [OF assms(1) [unfolded read_text_def] assms(2)] by auto

lemma read_store_reads:
  assumes "read_store E p w = (r, w')" "\<forall>n. \<not> io_fails E n"
  shows "r = Inl Killed \<or> r = (case files w p of None \<Rightarrow> Inl (file_error ENOENT) | Some t \<Rightarrow> parseCredentialEnv t)"
proof -
  obtain r0 w0 where "read_text E p w = (r0, w0)" by fastforce
  with assms read_text_reads [OF this assms(2)] show ?thesis
    by (auto simp: read_store_def bindE_def liftE_def split: option.splits)
qed

lemma missing_file_ENOENT [simp]: "missing_file (file_error ENOENT)" "\<not> ends_process (file_error ENOENT)"
  by (simp_all add: missing_file_def file_error_def ends_process_def ENOENT_def)

lemma parse_lines_errors:
  "parse_lines ls res = Inl e \<Longrightarrow> \<not> missing_file e \<and> \<not> ends_process e"
  by (induction ls arbitrary: res)
    (auto simp: parse_line_def Let_def credential_error_def malformed_line_def key_unknown_def duplicate_key_def missing_file_def
      ends_process_def ENOENT_def split: sum.splits if_splits option.splits)

lemma parse_errors: "parseCredentialEnv t = Inl e \<Longrightarrow> \<not> missing_file e \<and> \<not> ends_process e"
  unfolding parseCredentialEnv_def by (rule parse_lines_errors)

text \<open>What was loaded is what the store says.\<close>

lemma load_reads:
  assumes "loadCredentials E w = (Inr c, w')" "own_store E"
  shows "stored_value w' k = map_of c k"
proof -
  let ?p = DEFAULT_CREDENTIALS_FILE
  have disk: "\<forall>n. \<not> io_fails E n" and path: "credentials_file E = ?p" and env: "from_process (host_of E) = []"
    using assms(2) by (auto simp: own_store_def)
  let ?m = "bindE (stat_file E ?p) (\<lambda>_. read_store E ?p)"
  from assms(1) obtain stored w1 where t: "tryE ?m (if_missing []) w = (Inr stored, w1)" and c: "c = stored" "w' = w1"
    unfolding loadCredentials_def path by (auto elim!: bindE_InrE simp: env merged_def)
  have fr: "writes_only {} (tryE ?m (if_missing []))" by (intro frame_intros)
  have same: "files w' ?p = files w ?p" using writes_onlyD [OF fr t] c by simp
  obtain r0 w0 where s: "stat_file E ?p w = (r0, w0)" by fastforce
  then have s0: "w0 = w\<lparr>ticks := Suc (ticks w)\<rparr>" "r0 = Inl Killed \<or> r0 = (case files w ?p of None \<Rightarrow> Inl (file_error ENOENT) | Some t \<Rightarrow> Inr ())"
    using file_call_reads [of E _ w r0 w0, OF _ disk] unfolding stat_file_def by (force split: option.splits)+
  show ?thesis
  proof (cases "files w ?p")
    case None
    then have "r0 = Inl Killed \<or> r0 = Inl (file_error ENOENT)" using s0 by simp
    then have "stored = []" using t s by (auto simp: tryE_def bindE_def if_missing_def)
    then show ?thesis using None same c by (simp add: stored_value_def)
  next
    case (Some content)
    then have "r0 = Inl Killed \<or> r0 = Inr ()" using s0 by simp
    then have r0: "r0 = Inr ()" using t s by (auto simp: tryE_def bindE_def)
    obtain r2 w2 where rd: "read_store E ?p w0 = (r2, w2)" by fastforce
    have "files w0 ?p = Some content" using s0 Some by simp
    then have "r2 = Inl Killed \<or> r2 = parseCredentialEnv content" using read_store_reads [OF rd disk] by simp
    then have "parseCredentialEnv content = Inr stored"
      using t s r0 rd parse_errors [of content] by (auto simp: tryE_def bindE_def if_missing_def split: sum.splits if_splits)
    then show ?thesis using Some same c by (simp add: stored_value_def)
  qed
qed

lemma keeps_in_step_wrangler:
  assumes "\<not> is_put k \<lparr> cm_argv = wranglerArgs args, cm_input = input, cm_token = None, cm_account = None, cm_ok = True \<rparr>"
  shows "keeps (\<lambda>w. in_step w k) (runWrangler E args input)"
proof (rule keepsI)
  fix w assume w: "in_step w k"
  obtain r w' where run: "runWrangler E args input w = (r, w')" by fastforce
  have fr: "writes_only {} (runWrangler E args input)" by (rule frame_intros)
  have s: "stored_value w' k = stored_value w k" using writes_onlyD [OF fr run] by (intro stored_value_same) simp
  have "filter (is_put k) (commands w') = filter (is_put k) (commands w)"
    using runWrangler_log [OF run] assms by (auto simp: is_put_def)
  then have "last_put w' k = last_put w k" by (simp add: last_put_def)
  then have "in_step w' k" using w unfolding in_step_def s by simp
  then show "in_step (snd (runWrangler E args input w)) k" using run by simp
qed

section \<open>Writing\<close>

lemma rotation_journal_ok: "json_ok (rotation_journal k worker phase started)"
  by (simp add: rotation_journal_def obj_def CREDENTIAL_OPERATION_SCHEMA_VERSION_def plain_integer_def is_digit_def js_def)

lemma rotation_journal_fields:
  "field (rotation_journal k worker phase started) ''key'' = JStr k"
  "field (rotation_journal k worker phase started) ''phase'' = JStr (js phase)"
  by (simp_all add: field_def rotation_journal_def obj_def)

lemma journal_written:
  assumes "phase \<in> set PENDING_PHASES" "files w CREDENTIAL_OPERATION_JOURNAL_FILE = Some (document_text (rotation_journal k worker phase started))"
  shows "journal_for E w k"
proof -
  have "rotation_pending (rotation_journal k worker phase started)"
    using assms(1) rotation_journal_fields(2) [of k worker phase started]
    by (auto simp: rotation_pending_def one_of_def rotation_journal_def obj_def)
  then show ?thesis
    using assms(2) document_reads [OF rotation_journal_ok, of E k worker phase started]
    by (simp add: journal_for_def rotation_journal_fields)
qed

lemma frame_note [frame_intros]:
  "writes_only {CREDENTIAL_OPERATION_JOURNAL_FILE, temporary CREDENTIAL_OPERATION_JOURNAL_FILE} (note_phase E k worker phase)"
  "runs_nothing (note_phase E k worker phase)"
  unfolding note_phase_def writeCredentialOperationJournal_def
  using frame_write(1) [of CREDENTIAL_OPERATION_JOURNAL_FILE "{CREDENTIAL_OPERATION_JOURNAL_FILE, temporary CREDENTIAL_OPERATION_JOURNAL_FILE}" E]
    frame_write(2) [of E CREDENTIAL_OPERATION_JOURNAL_FILE]
  by (auto simp: writes_only_def runs_nothing_def)

lemma note_atomic:
  assumes "note_phase E k worker phase w = (r, w')" "phase \<in> set PENDING_PHASES"
  shows "(files w' CREDENTIAL_OPERATION_JOURNAL_FILE = files w CREDENTIAL_OPERATION_JOURNAL_FILE \<and> (\<exists>e. r = Inl e)) \<or> journal_for E w' k"
  using json_write_atomic [OF assms(1) [unfolded note_phase_def writeCredentialOperationJournal_def]] journal_written [OF assms(2)]
  by blast

lemma keeps_note: "phase \<in> set PENDING_PHASES \<Longrightarrow> keeps (\<lambda>w. journal_for E w k) (note_phase E k worker phase)"
proof (rule keepsI)
  fix w assume p: "phase \<in> set PENDING_PHASES" and w: "journal_for E w k"
  obtain r w' where "note_phase E k worker phase w = (r, w')" by fastforce
  with note_atomic [OF this p] w show "journal_for E (snd (note_phase E k worker phase w)) k"
    by (auto simp: journal_for_def)
qed

lemma keeps_in_step_note: "keeps (\<lambda>w. in_step w k) (note_phase E k' worker phase)"
  by (rule keeps_in_step [OF frame_note]) simp

lemma keeps_in_step_clear: "keeps (\<lambda>w. in_step w k) (clearCredentialOperationJournal E)"
  unfolding clearCredentialOperationJournal_def
  by (rule keeps_in_step [of "{CREDENTIAL_OPERATION_JOURNAL_FILE}"]) (auto intro!: frame_intros)

lemma keeps_print: "keeps (\<lambda>w. in_step w k) (printE l)" "keeps (\<lambda>w. journal_for E w k) (printE l)"
  by (auto intro!: keeps_in_step [of "{}"] keeps_journal [of "{}"] frame_intros)

text \<open>Setting one credential leaves the others as they are.\<close>

lemma parse_lines_distinct: "parse_lines ls res = Inr c \<Longrightarrow> distinct (map fst res) \<Longrightarrow> distinct (map fst c)"
  by (induction ls arbitrary: res)
    (auto simp: parse_line_def Let_def split: sum.splits if_splits option.splits)

lemma parse_distinct: "parseCredentialEnv t = Inr c \<Longrightarrow> distinct (map fst c)"
  unfolding parseCredentialEnv_def by (erule parse_lines_distinct) simp

lemma store_write_atomic:
  assumes "writeCredentialsFile E path c w = (r, w')"
  shows "(files w' path = files w path \<and> (\<exists>e. r = Inl e))
    \<or> (\<exists>t. serializeCredentialEnv (host_of E) c = Inr t \<and> files w' path = Some t \<and> r = Inr ())"
proof (cases "serializeCredentialEnv (host_of E) c")
  case (Inl e)
  then show ?thesis using assms by (auto simp: writeCredentialsFile_def bindE_def liftE_def)
next
  case (Inr t)
  let ?last = "\<lambda>_. bindE (change_mode E) (\<lambda>_. bindE (liftE (parseCredentialEnv t)) (\<lambda>found.
     bindE (liftE (read_back_check c found)) (\<lambda>_. rename_file E (temporary path) path)))"
  have last: "(files w2 path = files w1 path \<and> (\<exists>e. r1 = Inl e)) \<or> (files w2 path = files w1 (temporary path) \<and> r1 = Inr ())"
    if l: "?last () w1 = (r1, w2)" for w1 r1 w2
  proof -
    have m: "writes_only {} (change_mode E)" unfolding change_mode_def by (rule frame_intros)
    obtain r3 w3 where c3: "change_mode E w1 = (r3, w3)" by fastforce
    have same: "files w3 p = files w1 p" for p using writes_onlyD [OF m c3] by simp
    show ?thesis
    proof (cases r3)
      case (Inl e)
      then show ?thesis using l c3 same by (auto simp: bindE_def)
    next
      case Inr
      then have "(\<exists>e. r1 = Inl e \<and> w2 = w3) \<or> rename_file E (temporary path) path w3 = (r1, w2)"
        using l c3 by (cases "parseCredentialEnv t"; cases "read_back_check c (projr (parseCredentialEnv t))")
          (auto simp: bindE_def liftE_def, metis)
      then show ?thesis using rename_atomic [of E "temporary path" path w3 r1 w2] same by auto
    qed
  qed
  have dir: "writes_only {} (make_directory E)" unfolding make_directory_def by (rule frame_intros)
  obtain r0 w0 where m: "make_directory E w = (r0, w0)" by fastforce
  have same: "files w0 path = files w path" using writes_onlyD [OF dir m] by simp
  have run: "bindE (make_directory E) (\<lambda>_. bindE (write_text E (temporary path) t) ?last) w = (r, w')"
    using assms Inr by (simp add: writeCredentialsFile_def bindE_def liftE_def)
  show ?thesis
  proof (cases r0)
    case (Inl e)
    then show ?thesis using run m same by (auto simp: bindE_Inl)
  next
    case (Inr u)
    then have "bindE (write_text E (temporary path) t) ?last w0 = (r, w')" using run m by (simp add: bindE_Inr)
    from write_then_rename [OF this last] show ?thesis using same \<open>serializeCredentialEnv (host_of E) c = Inr t\<close> by auto
  qed
qed

lemma set_stores:
  assumes "setCredential E name v w = (r, w')" "\<forall>n. \<not> io_fails E n" "to_upper (uni (platform_of (host_of E))) name = name"
  shows "(stored_value w' k = stored_value w k \<and> (\<exists>e. r = Inl e)) \<or> (stored_value w' k = (if k = name then Some v else stored_value w k) \<and> r = Inr ())"
proof (cases "known_key name")
  case False
  then show ?thesis using assms by (auto simp: setCredential_def act_simps)
next
  case True
  let ?p = DEFAULT_CREDENTIALS_FILE
  let ?read = "tryE (read_store E ?p) (\<lambda>e. if missing_file e then returnE [] else throwE (refuse_store ?p e))"
  obtain r0 w0 where t: "?read w = (r0, w0)" by fastforce
  have fr: "writes_only {} ?read" by (intro frame_intros)
  have same: "files w0 ?p = files w ?p" using writes_onlyD [OF fr t] by simp
  obtain r1 w1 where rd: "read_store E ?p w = (r1, w1)" by fastforce
  have run: "bindE ?read (\<lambda>existing. writeCredentialsFile E ?p (put_key name v existing)) w = (r, w')"
    using assms True by (simp add: setCredential_def Let_def)
  show ?thesis
  proof (cases r0)
    case (Inl e)
    then show ?thesis using run t same by (auto simp: bindE_Inl intro: stored_value_same)
  next
    case (Inr existing)
    have old: "stored_value w k = map_of existing k" "distinct (map fst existing)"
      using read_store_reads [OF rd assms(2)] t rd Inr parse_errors parse_distinct
      by (auto simp: tryE_def stored_value_def split: sum.splits if_splits option.splits)
    have "writeCredentialsFile E ?p (put_key name v existing) w0 = (r, w')" using run t Inr by (simp add: bindE_Inr)
    from store_write_atomic [OF this] consider "files w' ?p = files w ?p" "\<exists>e. r = Inl e"
      | content where "serializeCredentialEnv (host_of E) (put_key name v existing) = Inr content" "files w' ?p = Some content" "r = Inr ()"
      using same by auto
    then show ?thesis
    proof cases
      case 1
      then show ?thesis using stored_value_same by blast
    next
      case 2
      have d: "distinct (map fst (put_key name v existing))" by (rule distinct_put_key [OF old(2)])
      have "stored_value w' k = map_of (put_key name v existing) k"
        using 2 store_text_reads [OF 2(1) d] map_of_sort_by [OF d] by (simp add: stored_value_def)
      then show ?thesis using 2 old by (simp add: map_of_put_key)
    qed
  qed
qed

section \<open>Rotating\<close>

lemma is_put_secret_put: "is_put k c \<longleftrightarrow> k = k'" if "cm_argv c = wranglerArgs (secret_put k' config)"
  using that by (auto simp: is_put_def secret_put_def wranglerArgs_def)

lemma keeps_in_step_put: "k' \<noteq> k \<Longrightarrow> keeps (\<lambda>w. in_step w k) (runWrangler E (secret_put k' config) v)"
  by (rule keeps_in_step_wrangler) (simp add: is_put_def secret_put_def wranglerArgs_def)

lemma keeps_in_step_set:
  assumes "k' \<noteq> k" "\<forall>n. \<not> io_fails E n" "to_upper (uni (platform_of (host_of E))) k' = k'"
  shows "keeps (\<lambda>w. in_step w k) (setCredential E k' v)"
proof (rule keepsI)
  fix w assume w: "in_step w k"
  obtain r w' where run: "setCredential E k' v w = (r, w')" by fastforce
  have "stored_value w' k = stored_value w k" using set_stores [OF run assms(2,3), of k] assms(1) by auto
  moreover have "commands w' = commands w" by (rule runs_nothingD [OF frame_set(2) run])
  ultimately have "in_step w' k" using w by (rule in_step_same [THEN iffD2])
  then show "in_step (snd (setCredential E k' v w)) k" using run by simp
qed

lemma keeps_frame_load:
  "keeps (\<lambda>w. in_step w k) (loadCredentials E)" "keeps (\<lambda>w. journal_for E w k) (loadCredentials E)"
  "keeps (\<lambda>w. in_step w k) (loadOperatorConfig E)" "keeps (\<lambda>w. journal_for E w k) (loadOperatorConfig E)"
  by (auto intro!: keeps_in_step [of "{}"] keeps_journal [of "{}"] frame_intros)

lemma keeps_exit:
  "keeps (\<lambda>w. in_step w k) (exit_with code l)" "keeps (\<lambda>w. journal_for E w k) (exit_with code l)"
  "keeps (\<lambda>w. in_step w k) (credentials_fail code l)" "keeps (\<lambda>w. journal_for E w k) (credentials_fail code l)"
  unfolding exit_with_def credentials_fail_def failE_def by (intro keeps_bind keeps_print keeps_throw)+

lemmas rotation_keeps = keeps_in_step_note keeps_in_step_clear keeps_print keeps_frame_load keeps_exit

text \<open>The rotation of another credential.\<close>

lemma rotate_other:
  assumes "k' \<noteq> k" "own_store E" "to_upper (uni (platform_of (host_of E))) k' = k'"
  shows "keeps (\<lambda>w. in_step w k) (rotate_key E k' r worker v)"
proof -
  have "\<forall>n. \<not> io_fails E n" using assms(2) by (simp add: own_store_def)
  then show ?thesis
    unfolding rotate_key_def rotate_remote_def
    by (intro keeps_bind keeps_if rotation_keeps keeps_in_step_set keeps_in_step_put assms)
qed

text \<open>The rotation of the credential itself: the journal is there until the Worker has the new value.\<close>

definition put_succeeded :: "machine \<Rightarrow> jstr \<Rightarrow> jstr \<Rightarrow> bool" where
  "put_succeeded w k v \<longleftrightarrow> (case last_put w k of None \<Rightarrow> False | Some c \<Rightarrow> cm_ok c \<and> cm_input c = v)"

lemma put_triple:
  "triple (\<lambda>w. journal_for E w k) (runWrangler E (secret_put k config) v)
     (\<lambda>reply w. journal_for E w k \<and> (cr_ok reply \<longrightarrow> put_succeeded w k v)) (\<lambda>e w. journal_for E w k)"
proof (rule tripleI)
  fix w assume w: "journal_for E w k"
  obtain r w' where run: "runWrangler E (secret_put k config) v w = (r, w')" by fastforce
  have fr: "writes_only {} (runWrangler E (secret_put k config) v)" by (rule frame_intros)
  have j: "journal_for E w' k" using writes_onlyD [OF fr run] w by (simp add: journal_for_def)
  have "cr_ok reply \<longrightarrow> put_succeeded w' k v" if "r = Inr reply" for reply
  proof -
    from runWrangler_log [OF run] that obtain c where c: "commands w' = commands w @ [c]"
        "cm_argv c = wranglerArgs (secret_put k config)" "cm_input c = v" "cm_ok c = cr_ok reply" by auto
    have "is_put k c" using is_put_secret_put [OF c(2)] by simp
    then have "last_put w' k = Some c" using c(1) by (simp add: last_put_def)
    then show ?thesis using c by (simp add: put_succeeded_def)
  qed
  then show "case runWrangler E (secret_put k config) v w of (r, w') \<Rightarrow> (case r of Inl e \<Rightarrow> journal_for E w' k
      | Inr reply \<Rightarrow> journal_for E w' k \<and> (cr_ok reply \<longrightarrow> put_succeeded w' k v))"
    using run j by (simp split: sum.split)
qed

lemma put_succeeded_same: "commands w' = commands w \<Longrightarrow> put_succeeded w' k v \<longleftrightarrow> put_succeeded w k v"
  by (simp add: put_succeeded_def last_put_def)

lemma keeps_put_succeeded: "runs_nothing m \<Longrightarrow> keeps (\<lambda>w. put_succeeded w k v) m"
  by (auto simp: keeps_def runs_nothing_def intro: put_succeeded_same [THEN iffD2])

lemma keeps_conjunction: "keeps P m \<Longrightarrow> keeps Q m \<Longrightarrow> keeps (\<lambda>w. P w \<and> Q w) m"
  by (simp add: keeps_def)

lemma keeps_triple: "keeps P m \<Longrightarrow> (\<And>w. P w \<Longrightarrow> Q w) \<Longrightarrow> triple P m (\<lambda>_. Q) (\<lambda>_. Q)"
  by (rule triple_conseq [of P m "\<lambda>_. P" "\<lambda>_. P"]) (simp_all add: triple_keeps)

lemma load_triple:
  assumes "own_store E"
  shows "triple (\<lambda>w. journal_for E w k \<and> put_succeeded w k v) (loadCredentials E)
    (\<lambda>stored w. journal_for E w k \<and> (map_of stored k = Some v \<longrightarrow> in_step w k)) (\<lambda>e w. journal_for E w k)"
proof (rule tripleI)
  fix w assume w: "journal_for E w k \<and> put_succeeded w k v"
  obtain r w' where run: "loadCredentials E w = (r, w')" by fastforce
  have fr: "writes_only {} (loadCredentials E)" "runs_nothing (loadCredentials E)" by (rule frame_intros)+
  have "journal_for E w' k" using keepsD [OF keeps_frame_load(2) _ run] w by simp
  moreover have "put_succeeded w' k v" using put_succeeded_same [OF runs_nothingD [OF fr(2) run]] w by simp
  moreover have "stored_value w' k = map_of stored k" if "r = Inr stored" for stored
    using load_reads [OF _ assms] run that by simp
  ultimately show "case loadCredentials E w of (r, w') \<Rightarrow> (case r of Inl e \<Rightarrow> journal_for E w' k
      | Inr stored \<Rightarrow> journal_for E w' k \<and> (map_of stored k = Some v \<longrightarrow> in_step w' k))"
    using run by (auto simp: put_succeeded_def in_step_def split: sum.split option.splits)
qed

lemma rotate_remote_safe:
  assumes "own_store E"
  shows "triple (\<lambda>w. journal_for E w k) (rotate_remote E k worker v) (\<lambda>_. rotation_safe E k) (\<lambda>_. rotation_safe E k)"
proof -
  have pending: "triple (\<lambda>w. journal_for E w k \<and> c) m (\<lambda>_. rotation_safe E k) (\<lambda>_. rotation_safe E k)"
    if "keeps (\<lambda>w. journal_for E w k) m" for c and m :: "unit op"
    by (rule triple_conseq [OF that [folded triple_keeps]]) (auto simp: rotation_safe_def)
  have settled: "triple (\<lambda>w. in_step w k) m (\<lambda>_. rotation_safe E k) (\<lambda>_. rotation_safe E k)"
    if "keeps (\<lambda>w. in_step w k) m" for m :: "unit op"
    by (rule triple_conseq [OF that [folded triple_keeps]]) (auto simp: rotation_safe_def)
  have rw: "''remote_written'' \<in> set PENDING_PHASES" by (simp add: PENDING_PHASES_def)
  let ?last = "bindE (note_phase E k worker ''converged'') (\<lambda>_. bindE (clearCredentialOperationJournal E)
      (\<lambda>_. printE (k @ js '': updated on the Worker.'')))"
  have last: "keeps (\<lambda>w. in_step w k) ?last" by (intro keeps_bind rotation_keeps)
  have check: "triple (\<lambda>w. journal_for E w k \<and> (map_of stored k = Some v \<longrightarrow> in_step w k))
      (if map_of stored k \<noteq> Some v then credentials_fail ''local_verify_failed'' l else ?last)
      (\<lambda>_. rotation_safe E k) (\<lambda>_. rotation_safe E k)" for stored l
  proof (cases "map_of stored k = Some v")
    case True
    then show ?thesis by (auto intro: triple_conseq [OF settled [OF last]])
  next
    case False
    then show ?thesis using pending [OF keeps_exit(4), of True] by (auto intro: triple_conseq)
  qed
  have load: "triple (\<lambda>w. journal_for E w k \<and> put_succeeded w k v) (loadCredentials E)
      (\<lambda>stored w. journal_for E w k \<and> (map_of stored k = Some v \<longrightarrow> in_step w k)) (\<lambda>_. rotation_safe E k)"
    by (rule triple_conseq [OF load_triple [OF assms, of k v]]) (simp_all add: rotation_safe_def)
  have rest: "triple (\<lambda>w. journal_for E w k \<and> put_succeeded w k v)
      (bindE (note_phase E k worker ''remote_written'') (\<lambda>_. bindE (loadCredentials E) (\<lambda>stored.
         if map_of stored k \<noteq> Some v then credentials_fail ''local_verify_failed'' (l stored) else ?last)))
      (\<lambda>_. rotation_safe E k) (\<lambda>_. rotation_safe E k)" for l
  proof (rule triple_bind)
    have "keeps (\<lambda>w. journal_for E w k \<and> put_succeeded w k v) (note_phase E k worker ''remote_written'')"
      by (intro keeps_conjunction keeps_note keeps_put_succeeded frame_note rw)
    then show "triple (\<lambda>w. journal_for E w k \<and> put_succeeded w k v) (note_phase E k worker ''remote_written'')
        (\<lambda>_ w. journal_for E w k \<and> put_succeeded w k v) (\<lambda>_. rotation_safe E k)"
      unfolding triple_keeps [symmetric] by (rule triple_conseq) (simp_all add: rotation_safe_def)
    show "triple (\<lambda>w. journal_for E w k \<and> put_succeeded w k v) (bindE (loadCredentials E) (\<lambda>stored.
         if map_of stored k \<noteq> Some v then credentials_fail ''local_verify_failed'' (l stored) else ?last))
      (\<lambda>_. rotation_safe E k) (\<lambda>_. rotation_safe E k)" for u :: unit
      by (rule triple_bind [OF load check])
  qed
  show ?thesis
    unfolding rotate_remote_def
  proof (rule triple_bind)
    show "triple (\<lambda>w. journal_for E w k) (runWrangler E (secret_put k (generated_path E)) v)
       (\<lambda>reply w. journal_for E w k \<and> (cr_ok reply \<longrightarrow> put_succeeded w k v)) (\<lambda>_. rotation_safe E k)"
      by (rule triple_conseq [OF put_triple]) (auto simp: rotation_safe_def)
  next
    fix reply
    show "triple (\<lambda>w. journal_for E w k \<and> (cr_ok reply \<longrightarrow> put_succeeded w k v))
       (if \<not> cr_ok reply then exit_with ''worker_update_failed'' (js ''credentials: '' @ k
         @ js '' updated locally but the Worker update failed. Run `npm run credentials:recover` to converge the Worker from the local value.'')
        else bindE (note_phase E k worker ''remote_written'') (\<lambda>_. bindE (loadCredentials E) (\<lambda>stored.
         if map_of stored k \<noteq> Some v then credentials_fail ''local_verify_failed''
           (k @ js '' no longer matches the rotated value locally; refusing to declare convergence.'') else ?last)))
       (\<lambda>_. rotation_safe E k) (\<lambda>_. rotation_safe E k)"
    proof (cases "cr_ok reply")
      case True
      then show ?thesis using rest by (auto intro: triple_conseq)
    next
      case False
      then show ?thesis using pending [OF keeps_exit(2), of True] by (auto intro: triple_conseq)
    qed
  qed
qed

lemma rotate_same:
  assumes "own_store E" "r \<noteq> Operator_Local"
  shows "triple (\<lambda>w. in_step w k) (rotate_key E k r worker v) (\<lambda>_. rotation_safe E k) (\<lambda>_. rotation_safe E k)"
  unfolding rotate_key_def
proof (rule triple_bind)
  show "triple (\<lambda>w. in_step w k) (note_phase E k worker ''prepared'') (\<lambda>_ w. journal_for E w k) (\<lambda>_. rotation_safe E k)"
  proof (rule tripleI)
    fix w assume w: "in_step w k"
    obtain q w' where run: "note_phase E k worker ''prepared'' w = (q, w')" by fastforce
    have "in_step w' k" using keepsD [OF keeps_in_step_note w run] .
    moreover have "journal_for E w' k" if "q = Inr u" for u
      using note_atomic [OF run] that by (auto simp: PENDING_PHASES_def)
    ultimately show "case note_phase E k worker ''prepared'' w of (q, w') \<Rightarrow>
        (case q of Inl e \<Rightarrow> rotation_safe E k w' | Inr u \<Rightarrow> journal_for E w' k)"
      using run by (simp add: rotation_safe_def split: sum.split)
  qed
next
  fix u :: unit
  have set: "keeps (\<lambda>w. journal_for E w k) (setCredential E k v)" by (rule keeps_journal [OF frame_set(1)]) simp
  have noted: "keeps (\<lambda>w. journal_for E w k) (note_phase E k worker ''local_written'')"
    by (rule keeps_note) (simp add: PENDING_PHASES_def)
  have step: "triple (\<lambda>w. journal_for E w k) m (\<lambda>_ w. journal_for E w k) (\<lambda>_. rotation_safe E k)"
    if "keeps (\<lambda>w. journal_for E w k) m" for m :: "unit op"
    by (rule triple_conseq [OF that [folded triple_keeps]]) (auto simp: rotation_safe_def)
  show "triple (\<lambda>w. journal_for E w k)
     (bindE (setCredential E k v) (\<lambda>_. bindE (note_phase E k worker ''local_written'') (\<lambda>_.
      bindE (printE (k @ js '': updated locally (atomic, 0600).'')) (\<lambda>_.
      if r = Operator_Local then bindE (clearCredentialOperationJournal E)
         (\<lambda>_. printE (k @ js '': operator-local '' @ [0x2014] @ js '' no Worker secret update.''))
      else rotate_remote E k worker v)))) (\<lambda>_. rotation_safe E k) (\<lambda>_. rotation_safe E k)"
    using assms(2)
    by (simp, intro triple_bind [OF step] set noted keeps_print rotate_remote_safe [OF assms(1)])
qed

section \<open>The commands\<close>

lemma keys_upper: "\<forall>n \<in> set CREDENTIAL_KEYS. ascii_text (js n) \<and> map upper_unit (js n) = js n"
  by code_simp

lemma schema_entry_upper:
  assumes "schema_entry k = Some e"
  shows "to_upper U k = k"
proof -
  obtain n where "n \<in> set CREDENTIAL_KEYS" "k = js n"
    using find_Some_in [OF assms [unfolded schema_entry_def]] by (auto simp: CREDENTIAL_KEYS_def)
  then show ?thesis using keys_upper by (simp add: to_upper_def)
qed

lemma pending_document: "rotation_pending (document_or v JNull) \<Longrightarrow> document_or v JNull = v"
  by (cases v) (auto simp: document_or_def rotation_pending_def)

lemma pending_as_read: "rotation_pending v \<Longrightarrow> document_or v JNull = v"
  by (cases v) (auto simp: document_or_def rotation_pending_def one_of_def field_def)

text \<open>What the journal says decides who may write: the credential of a pending journal, or one whose two copies agree.\<close>

definition journal_says :: "operator_env \<Rightarrow> jstr \<Rightarrow> jsval \<Rightarrow> machine \<Rightarrow> bool" where
  "journal_says E k j w \<longleftrightarrow> (if rotation_pending j \<and> field j ''key'' = JStr k then journal_for E w k else in_step w k)"

lemma read_journal_triple:
  assumes "own_store E"
  shows "triple (rotation_safe E k) (readCredentialOperationJournal E) (journal_says E k) (\<lambda>_. rotation_safe E k)"
proof (rule tripleI)
  fix w assume w: "rotation_safe E k w"
  let ?J = CREDENTIAL_OPERATION_JOURNAL_FILE
  have disk: "\<forall>n. \<not> io_fails E n" using assms by (simp add: own_store_def)
  obtain r w' where run: "readCredentialOperationJournal E w = (r, w')" by fastforce
  have fr: "writes_only {} (readCredentialOperationJournal E)" "runs_nothing (readCredentialOperationJournal E)"
    by (rule frame_intros)+
  have files: "files w' p = files w p" for p using writes_onlyD [OF fr(1) run] by simp
  have safe: "rotation_safe E k w'"
    using w in_step_same [OF stored_value_same runs_nothingD [OF fr(2) run]] files
    by (auto simp: rotation_safe_def journal_for_def)
  obtain r0 w0 where t: "read_text E ?J w = (r0, w0)" by fastforce
  have "journal_for E w k \<longleftrightarrow> rotation_pending j \<and> field j ''key'' = JStr k" if "r = Inr j" for j
  proof -
    consider "r0 = Inl Killed" | "files w ?J = None" "r0 = Inl (file_error ENOENT)"
      | content where "files w ?J = Some content" "r0 = Inr content"
      using read_text_reads [OF t disk] by (cases "files w ?J") auto
    then show ?thesis
    proof cases
      case 1
      then show ?thesis using run that t
        by (simp add: readCredentialOperationJournal_def optional_document_def read_json_def tryE_def bindE_def)
    next
      case 2
      then have "j = JNull" using run that t
        by (simp add: readCredentialOperationJournal_def optional_document_def read_json_def tryE_def bindE_def returnE_def)
      then show ?thesis using 2 by (simp add: journal_for_def rotation_pending_def)
    next
      case 3
      have j: "j = (case parse_json E content of Inl e \<Rightarrow> JNull | Inr v \<Rightarrow> document_or v JNull)"
        using run that t 3
        by (auto simp: readCredentialOperationJournal_def optional_document_def read_json_def tryE_def bindE_def liftE_def
            returnE_def parse_json_def syntax_error_def ends_process_def split: option.splits)
      show ?thesis
      proof (cases "parse_json E content")
        case (Inl e)
        then show ?thesis using 3 j by (simp add: journal_for_def rotation_pending_def)
      next
        case (Inr v)
        then show ?thesis using 3 j pending_document [of v] pending_as_read [of v] by (auto simp: journal_for_def)
      qed
    qed
  qed
  moreover have "journal_for E w' k \<longleftrightarrow> journal_for E w k" using files by (simp add: journal_for_def)
  ultimately have "journal_says E k j w'" if "r = Inr j" for j
    using safe that unfolding journal_says_def rotation_safe_def by auto
  then show "case readCredentialOperationJournal E w of (r, w') \<Rightarrow>
      (case r of Inl e \<Rightarrow> rotation_safe E k w' | Inr j \<Rightarrow> journal_says E k j w')"
    using run safe by (simp split: sum.split)
qed

lemma triple_fail:
  assumes "\<And>w. P w \<Longrightarrow> rotation_safe E k w" "keeps (rotation_safe E k) m"
  shows "triple P m (\<lambda>_. rotation_safe E k) (\<lambda>_. rotation_safe E k)"
  by (rule triple_conseq [OF assms(2) [folded triple_keeps]]) (simp_all add: assms(1))

lemma keeps_safe:
  assumes "keeps (\<lambda>w. in_step w k) m" "keeps (\<lambda>w. journal_for E w k) m"
  shows "keeps (rotation_safe E k) m"
  using assms by (auto simp: keeps_def rotation_safe_def)

lemma keeps_safe_quiet:
  "keeps (rotation_safe E k) (printE l)" "keeps (rotation_safe E k) (exit_with code l)"
  "keeps (rotation_safe E k) (credentials_fail code l)" "keeps (rotation_safe E k) (loadOperatorConfig E)"
  by (rule keeps_safe; rule rotation_keeps)+

lemma says_safe: "journal_says E k j w \<Longrightarrow> rotation_safe E k w"
  by (simp add: journal_says_def rotation_safe_def split: if_splits)

lemma keeps_hidden: "keeps (\<lambda>w. in_step w k) (hiddenInput E q)"
proof (rule keeps_in_step [of "{}"])
  show "writes_only {} (hiddenInput E q)" "runs_nothing (hiddenInput E q)"
    unfolding hiddenInput_def tick_def
    by (intro frame_intros; simp add: writes_only_def runs_nothing_def Let_def)+
qed simp

text \<open>A guarded action: nothing is done while a rotation is pending.\<close>

lemma guarded_triple:
  assumes "own_store E" "triple (\<lambda>w. in_step w k) m (\<lambda>_. rotation_safe E k) (\<lambda>_. rotation_safe E k)"
  shows "triple (rotation_safe E k) (bindE (assertNoCredentialRecoveryPending E) (\<lambda>_. m)) (\<lambda>_. rotation_safe E k) (\<lambda>_. rotation_safe E k)"
proof (rule triple_bind [OF _ assms(2)])
  show "triple (rotation_safe E k) (assertNoCredentialRecoveryPending E) (\<lambda>_ w. in_step w k) (\<lambda>_. rotation_safe E k)"
    unfolding assertNoCredentialRecoveryPending_def
  proof (rule triple_bind [OF read_journal_triple [OF assms(1)]])
    fix j
    let ?refuse = "credentials_fail ''credential_recovery_pending'' (js ''a '' @ js_string (or_text (field j ''operation'') ''credential'')
         @ js '' rotation for '' @ js_string (field j ''key'') @ js '' is pending; run `npm run credentials:recover` first.'') :: unit op"
    have "triple (journal_says E k j) ?refuse (\<lambda>_ w. in_step w k) (\<lambda>_. rotation_safe E k)"
    proof (rule tripleI)
      fix w assume "journal_says E k j w"
      then have "rotation_safe E k w" by (rule says_safe)
      moreover obtain e w' where "?refuse w = (Inl e, w')"
        by (auto simp: credentials_fail_def failE_def act_simps printE_def bindE_def throwE_def)
      ultimately show "case ?refuse w of (r, w') \<Rightarrow> (case r of Inl e \<Rightarrow> rotation_safe E k w' | Inr x \<Rightarrow> in_step w' k)"
        using keepsD [OF keeps_safe_quiet(3)] by simp
    qed
    then show "triple (journal_says E k j) (if rotation_pending j then ?refuse else returnE ()) (\<lambda>_ w. in_step w k) (\<lambda>_. rotation_safe E k)"
      by (auto simp: triple_def journal_says_def returnE_def)
  qed
qed

lemma rotate_command_safe:
  assumes own: "own_store E" and k: "schema_entry k = Some e" "ce_role e \<noteq> Operator_Local"
  shows "keeps (rotation_safe E k) (rotate_credential E arg)"
proof -
  let ?k = "to_upper (uni (platform_of (host_of E))) arg"
  have disk: "\<forall>n. \<not> io_fails E n" using own by (simp add: own_store_def)
  have rotated: "triple (\<lambda>w. in_step w k) (rotate_key E ?k (ce_role entry) worker v) (\<lambda>_. rotation_safe E k) (\<lambda>_. rotation_safe E k)"
    if "schema_entry ?k = Some entry" for entry worker v
  proof (cases "?k = k")
    case True
    then show ?thesis using that k rotate_same [OF own, of "ce_role entry" k] by simp
  next
    case False
    have "keeps (\<lambda>w. in_step w k) (rotate_key E ?k (ce_role entry) worker v)"
      by (rule rotate_other [OF False own schema_entry_upper [OF that]])
    then show ?thesis by (rule keeps_triple) (simp add: rotation_safe_def)
  qed
  have quiet: "triple (\<lambda>w. in_step w k) m (\<lambda>_ w. in_step w k) (\<lambda>_. rotation_safe E k)"
    if "keeps (\<lambda>w. in_step w k) m" for m :: "'x op"
    by (rule triple_conseq [OF that [folded triple_keeps]]) (simp_all add: rotation_safe_def)
  have ends: "triple (\<lambda>w. in_step w k) (credentials_fail code l :: unit op) (\<lambda>_. rotation_safe E k) (\<lambda>_. rotation_safe E k)"
    for code l
    by (rule triple_fail) (simp_all add: rotation_safe_def keeps_safe_quiet)
  have body: "triple (\<lambda>w. in_step w k) (bindE (hiddenInput E q) (\<lambda>v. if v = [] then credentials_fail ''empty_value'' l
        else bindE (loadOperatorConfig E) (\<lambda>operator. rotate_key E ?k (ce_role entry) (worker operator) v)))
      (\<lambda>_. rotation_safe E k) (\<lambda>_. rotation_safe E k)" if "schema_entry ?k = Some entry" for entry q l worker
  proof (rule triple_bind [OF quiet [OF keeps_hidden]])
    fix v
    show "triple (\<lambda>w. in_step w k) (if v = [] then credentials_fail ''empty_value'' l
        else bindE (loadOperatorConfig E) (\<lambda>operator. rotate_key E ?k (ce_role entry) (worker operator) v))
      (\<lambda>_. rotation_safe E k) (\<lambda>_. rotation_safe E k)"
      using ends triple_bind [OF quiet [OF keeps_frame_load(3)] rotated [OF that]] by simp
  qed
  show ?thesis
    unfolding rotate_credential_def Let_def
    by (intro keeps_if keeps_option keeps_safe_quiet)
      (simp only: triple_keeps [symmetric], rule guarded_triple [OF own body], assumption)
qed

text \<open>Completing the rotation of another credential, and of the credential itself.\<close>

lemma converge_other:
  assumes "k' \<noteq> k"
  shows "keeps (\<lambda>w. in_step w k) (converge E k')"
  unfolding converge_def Let_def by (intro keeps_bind keeps_if rotation_keeps keeps_in_step_put assms)

lemma cleared_safe:
  assumes "\<And>w. P w \<Longrightarrow> in_step w k"
  shows "triple P (bindE (clearCredentialOperationJournal E) (\<lambda>_. printE l)) (\<lambda>_. rotation_safe E k) (\<lambda>_. rotation_safe E k)"
proof -
  have "keeps (\<lambda>w. in_step w k) (bindE (clearCredentialOperationJournal E) (\<lambda>_. printE l))"
    by (intro keeps_bind rotation_keeps)
  then show ?thesis unfolding triple_keeps [symmetric] by (rule triple_conseq) (simp_all add: assms rotation_safe_def)
qed

lemma put_stored_triple:
  "triple (\<lambda>w. journal_for E w k \<and> stored_value w k = Some v) (runWrangler E (secret_put k config) v)
     (\<lambda>reply w. if cr_ok reply then in_step w k else journal_for E w k) (\<lambda>_ w. journal_for E w k)"
proof (rule tripleI)
  fix w assume w: "journal_for E w k \<and> stored_value w k = Some v"
  obtain r w' where run: "runWrangler E (secret_put k config) v w = (r, w')" by fastforce
  have fr: "writes_only {} (runWrangler E (secret_put k config) v)" by (rule frame_intros)
  have s: "stored_value w' k = Some v" using stored_value_same [of w' w k] writes_onlyD [OF fr run] w by simp
  have "if cr_ok reply then in_step w' k else journal_for E w' k" if "r = Inr reply" for reply
  proof -
    have "journal_for E w' k \<and> (cr_ok reply \<longrightarrow> put_succeeded w' k v)"
      using triple_Inr [OF put_triple] run that w by blast
    then show ?thesis using s by (simp add: in_step_def put_succeeded_def split: option.splits)
  qed
  moreover have "journal_for E w' k" if "r = Inl e" for e
    using triple_Inl [OF put_triple] run that w by blast
  ultimately show "case runWrangler E (secret_put k config) v w of (r, w') \<Rightarrow> (case r of Inl e \<Rightarrow> journal_for E w' k
      | Inr reply \<Rightarrow> if cr_ok reply then in_step w' k else journal_for E w' k)"
    unfolding run by (cases r) simp_all
qed

lemma converge_safe:
  assumes "own_store E"
  shows "triple (\<lambda>w. journal_for E w k) (converge E k) (\<lambda>_. rotation_safe E k) (\<lambda>_. rotation_safe E k)"
  unfolding converge_def Let_def
proof (rule triple_bind)
  show "triple (\<lambda>w. journal_for E w k) (loadCredentials E) (\<lambda>c w. journal_for E w k \<and> stored_value w k = map_of c k) (\<lambda>_. rotation_safe E k)"
  proof (rule tripleI)
    fix w assume w: "journal_for E w k"
    obtain r w' where run: "loadCredentials E w = (r, w')" by fastforce
    have "journal_for E w' k" by (rule keepsD [OF keeps_frame_load(2) w run])
    then show "case loadCredentials E w of (r, w') \<Rightarrow> (case r of Inl e \<Rightarrow> rotation_safe E k w'
        | Inr c \<Rightarrow> journal_for E w' k \<and> stored_value w' k = map_of c k)"
      using run load_reads [OF _ assms] by (auto simp: rotation_safe_def split: sum.split)
  qed
next
  fix c :: credentials
  let ?v = "case map_of c k of None \<Rightarrow> [] | Some t \<Rightarrow> t"
  let ?P = "\<lambda>w. journal_for E w k \<and> stored_value w k = map_of c k"
  show "triple ?P (if ?v = [] then bindE (clearCredentialOperationJournal E)
        (\<lambda>_. printE (k @ js '': no local value present; nothing to converge (journal cleared).''))
      else bindE (runWrangler E (secret_put k (generated_path E)) ?v) (\<lambda>reply. if \<not> cr_ok reply then
          credentials_fail ''secret_put_failed'' (k @ js '' still not converged; fix the connection and run `npm run credentials:recover` again.'')
        else bindE (clearCredentialOperationJournal E) (\<lambda>_. printE (k @ js '': converged to the Worker from the central local store.''))))
      (\<lambda>_. rotation_safe E k) (\<lambda>_. rotation_safe E k)" (is "triple ?P (if _ then ?none else bindE ?put ?after) _ _")
  proof (cases "?v = []")
    case True
    have "triple ?P ?none (\<lambda>_. rotation_safe E k) (\<lambda>_. rotation_safe E k)"
      by (rule cleared_safe) (use True in \<open>auto simp: in_step_def split: option.splits\<close>)
    then show ?thesis using True by simp
  next
    case False
    then have v: "map_of c k = Some ?v" by (cases "map_of c k") simp_all
    have "triple ?P (bindE ?put ?after) (\<lambda>_. rotation_safe E k) (\<lambda>_. rotation_safe E k)"
    proof (rule triple_bind)
      show "triple ?P ?put (\<lambda>reply w. if cr_ok reply then in_step w k else journal_for E w k) (\<lambda>_. rotation_safe E k)"
        by (rule triple_conseq [OF put_stored_triple [of E k ?v]]) (use v in \<open>simp_all add: rotation_safe_def\<close>)
      fix reply
      show "triple (\<lambda>w. if cr_ok reply then in_step w k else journal_for E w k) (?after reply) (\<lambda>_. rotation_safe E k) (\<lambda>_. rotation_safe E k)"
      proof (cases "cr_ok reply")
        case True
        then show ?thesis using cleared_safe [of "\<lambda>w. in_step w k"] by simp
      next
        case False
        have "triple (\<lambda>w. journal_for E w k) (credentials_fail code l :: unit op) (\<lambda>_. rotation_safe E k) (\<lambda>_. rotation_safe E k)" for code l
          by (rule triple_fail) (simp_all add: rotation_safe_def keeps_safe_quiet)
        then show ?thesis using False by simp
      qed
    qed
    then show ?thesis using False by simp
  qed
qed

lemma pending_key:
  "journal_says E k j w \<Longrightarrow> rotation_pending j \<Longrightarrow> field j ''key'' = JStr k' \<Longrightarrow> k' \<noteq> k \<Longrightarrow> in_step w k"
  by (simp add: journal_says_def)

lemma recover_triple:
  assumes own: "own_store E" and k: "schema_entry k = Some e" "ce_role e \<noteq> Operator_Local"
  shows "triple (rotation_safe E k) (recoverCredentials E) (\<lambda>_. rotation_safe E k) (\<lambda>_. rotation_safe E k)"
  unfolding recoverCredentials_def
proof (rule triple_bind [OF read_journal_triple [OF own]])
  fix j
  let ?k = "js_string (field j ''key'')"
  let ?local = "\<lambda>l. bindE (clearCredentialOperationJournal E) (\<lambda>_. printE l)"
  have fails: "triple (journal_says E k j) (credentials_fail code l :: unit op) (\<lambda>_. rotation_safe E k) (\<lambda>_. rotation_safe E k)" for code l
    by (rule triple_fail) (simp_all add: says_safe keeps_safe_quiet)
  have known: "triple (journal_says E k j) (if ce_role entry = Operator_Local then ?local l else converge E ?k)
      (\<lambda>_. rotation_safe E k) (\<lambda>_. rotation_safe E k)"
    if "rotation_pending j" "field j ''key'' = JStr ?k" "schema_entry ?k = Some entry" for entry l
  proof (cases "?k = k")
    case True
    have "triple (journal_says E k j) (converge E k) (\<lambda>_. rotation_safe E k) (\<lambda>_. rotation_safe E k)"
    proof -
      have "journal_says E k j = (\<lambda>w. journal_for E w k)" using that True by (auto simp: fun_eq_iff journal_says_def)
      then show ?thesis using converge_safe [OF own] by simp
    qed
    then show ?thesis using True that k by simp
  next
    case False
    then have step: "journal_says E k j w \<Longrightarrow> in_step w k" for w using pending_key that by blast
    have "keeps (\<lambda>w. in_step w k) (if ce_role entry = Operator_Local then ?local l else converge E ?k)"
      by (intro keeps_if converge_other keeps_bind rotation_keeps False)
    then show ?thesis unfolding triple_keeps [symmetric] by (rule triple_conseq) (simp_all add: step rotation_safe_def)
  qed
  show "triple (journal_says E k j) (if \<not> rotation_pending j then
       credentials_fail ''no_credential_recovery_needed'' (js ''no pending credential rotation journal found.'')
     else (let k = ?k in
        case (if field j ''key'' = JStr k then schema_entry k else None) of
          None \<Rightarrow> credentials_fail ''journal_key_unknown'' (js ''the journal references unknown key '' @ in_quote_marks k @ js ''.'')
        | Some entry \<Rightarrow>
            if ce_role entry = Operator_Local then ?local (k @ js '': operator-local '' @ [0x2014] @ js '' no Worker secret to converge; journal cleared.'')
            else converge E k)) (\<lambda>_. rotation_safe E k) (\<lambda>_. rotation_safe E k)"
    using fails known by (simp add: Let_def split: option.split)
qed

text \<open>A recovery that returns has removed the journal.\<close>

lemma recover_clears:
  assumes "recoverCredentials E w = (Inr (), w')"
  shows "files w' CREDENTIAL_OPERATION_JOURNAL_FILE = None"
proof -
  let ?C = "\<lambda>(_ :: unit) w. files w CREDENTIAL_OPERATION_JOURNAL_FILE = None"
  have clear: "triple (\<lambda>_. True) (bindE (clearCredentialOperationJournal E) (\<lambda>_. printE l)) ?C (\<lambda>_ _. True)" for l
    by (simp add: triple_def bindE_def clearCredentialOperationJournal_def remove_file_def tick_def Let_def set_file_def printE_def)
  have fails: "triple (\<lambda>_. True) (credentials_fail code l :: unit op) ?C (\<lambda>_ _. True)" for code l
    by (simp add: triple_def credentials_fail_def failE_def act_simps printE_def bindE_def throwE_def)
  have any: "triple (\<lambda>_. True) m (\<lambda>_ _. True) (\<lambda>_ _. True)" for m :: "'x op"
    by (simp add: triple_def split: prod.split sum.split)
  have converge: "triple (\<lambda>_. True) (converge E k) ?C (\<lambda>_ _. True)" for k
    unfolding converge_def Let_def
    by (rule triple_bind [OF any]) (auto intro!: clear fails triple_bind [OF any])
  have "triple (\<lambda>_. True) (recoverCredentials E) ?C (\<lambda>_ _. True)"
    unfolding recoverCredentials_def Let_def
    by (rule triple_bind [OF any]) (auto simp: clear fails converge split: option.split)
  then show ?thesis using assms triple_Inr by fastforce
qed

section \<open>Histories of commands\<close>

text \<open>
  The commands that touch a credential, each in an environment of its own: where it is killed, what Wrangler answers, what is
  typed, the time. They run on one host.
\<close>

datatype rotation_command = Rotate jstr | Recover

definition run_command :: "operator_env \<Rightarrow> rotation_command \<Rightarrow> unit op" where
  "run_command E c = (case c of Rotate arg \<Rightarrow> rotate_credential E arg | Recover \<Rightarrow> recoverCredentials E)"

fun run_history :: "(operator_env \<times> rotation_command) list \<Rightarrow> machine \<Rightarrow> machine" where
  "run_history [] w = w"
| "run_history ((E, c) # cs) w = run_history cs (snd (run_command E c w))"

lemma safe_host: "host_of E = host_of E' \<Longrightarrow> rotation_safe E k w \<longleftrightarrow> rotation_safe E' k w"
proof -
  assume "host_of E = host_of E'"
  then have "parse_json E = parse_json E'" by (simp add: fun_eq_iff parse_json_def)
  then show ?thesis unfolding rotation_safe_def journal_for_def by (simp only:)
qed

lemma keeps_command:
  assumes "own_store E" "schema_entry k = Some e" "ce_role e \<noteq> Operator_Local"
  shows "keeps (rotation_safe E k) (run_command E c)"
  using rotate_command_safe [OF assms] recover_triple [OF assms]
  by (cases c) (simp_all add: run_command_def triple_keeps)

lemma keeps_history:
  assumes k: "schema_entry k = Some e" "ce_role e \<noteq> Operator_Local"
  shows "list_all (\<lambda>(E', c). own_store E' \<and> host_of E' = host_of E) cs \<Longrightarrow> rotation_safe E k w
    \<Longrightarrow> rotation_safe E k (run_history cs w)"
proof (induction cs arbitrary: w)
  case (Cons s cs)
  obtain E' c where s: "s = (E', c)" by (cases s)
  then have E': "own_store E'" "host_of E' = host_of E" using Cons.prems by simp_all
  have "rotation_safe E' k (snd (run_command E' c w))"
    using keeps_command [OF E'(1) k, of c] Cons.prems(2) safe_host [OF E'(2)] by (simp add: keeps_def)
  then have "rotation_safe E k (snd (run_command E' c w))" using safe_host [OF E'(2)] by simp
  then show ?case using Cons by (simp add: s)
qed simp

section \<open>Recovery\<close>

text \<open>
  C16. An interrupted credential rotation can always be completed. Let any number of \<open>credentials rotate\<close> and \<open>credentials recover\<close>
  commands run, each of them killed anywhere, also in the middle of a write or while Wrangler runs, with any Wrangler command failing, from a
  machine where the Worker holds the stored value of a runtime credential or a rotation of it is journalled. When a
  \<open>credentials recover\<close> then returns, the journal is gone and the last value put on the Worker, by a put that succeeded, is
  the value in the operator's store. This holds for the default store, when no credential is set in the environment of the
  process, and as long as no file operation of these commands reports an error (\<open>own_store\<close>).
\<close>

theorem recovery_settles_rotation:
  assumes "schema_entry k = Some e" "ce_role e \<noteq> Operator_Local"
    and "own_store E" "list_all (\<lambda>(E', c). own_store E' \<and> host_of E' = host_of E) cs" "rotation_safe E k w"
    and "recoverCredentials E (run_history cs w) = (Inr (), w')"
  shows "in_step w' k \<and> files w' CREDENTIAL_OPERATION_JOURNAL_FILE = None"
proof -
  have "rotation_safe E k (run_history cs w)" by (rule keeps_history [OF assms(1,2,4,5)])
  then have "rotation_safe E k w'" using triple_Inr [OF recover_triple [OF assms(3,1,2)]] assms(6) by blast
  moreover have "files w' CREDENTIAL_OPERATION_JOURNAL_FILE = None" by (rule recover_clears [OF assms(6)])
  ultimately show ?thesis by (simp add: rotation_safe_def journal_for_def)
qed

text \<open>A rotation was cut after the local write; a second one is killed at its first step; then the recovery runs.\<close>

definition example_operator :: operator_env where
  "example_operator = \<lparr> host_of = example_host, killed = (\<lambda>k. k = 0), torn = (\<lambda>k. None), landed = (\<lambda>k. False), io_fails = (\<lambda>k. False),
     wrangler = (\<lambda>k argv input. \<lparr> cr_ok = True, cr_stdout = [], cr_stderr = [] \<rparr>), fetched = (\<lambda>k r. None),
     typed = (\<lambda>k. js ''re_2''), git_head = (\<lambda>k. \<lparr> cr_ok = True, cr_stdout = [], cr_stderr = [] \<rparr>), clock_now = (\<lambda>k. js ''now''),
     random_text = (\<lambda>k. []) \<rparr>"

definition example_store :: jstr where
  "example_store = js ''RESEND_API_KEY=re_1'' @ [10]"

definition example_machine :: machine where
  "example_machine = \<lparr> files = [DEFAULT_CREDENTIALS_FILE \<mapsto> example_store,
     CREDENTIAL_OPERATION_JOURNAL_FILE \<mapsto> document_text (rotation_journal (js ''RESEND_API_KEY'') [] ''local_written'' (js ''now''))],
     commands = [], requests = [], printed = [], ticks = 0 \<rparr>"

lemma example_entry: "schema_entry (js ''RESEND_API_KEY'') = Some (credential ''RESEND_API_KEY'' Runtime_Persistent ''resend'')"
  by code_simp

lemma example_parse: "parseCredentialEnv example_store = Inr [(js ''RESEND_API_KEY'', js ''re_1'')]"
  by code_simp

lemma example_role: "ce_role (credential k r p) = r"
  by (simp add: credential_def)

lemma example_own: "own_store example_operator"
  by (simp add: own_store_def example_operator_def example_host_def credentials_file_def env_path_def from_process_def)

lemma example_upper: "to_upper U (js ''resend_api_key'') = js ''RESEND_API_KEY''"
proof -
  have "ascii_text (js ''resend_api_key'') \<and> map upper_unit (js ''resend_api_key'') = js ''RESEND_API_KEY''" by code_simp
  then show ?thesis by (simp add: to_upper_def)
qed

lemma example_not_pepper: "js ''RESEND_API_KEY'' \<noteq> js ''AUTH_PEPPER''"
  by code_simp

lemma example_killed: "run_history [(example_operator, Rotate (js ''resend_api_key''))] example_machine = example_machine\<lparr>ticks := 1\<rparr>"
proof -
  have "ticks example_machine = 0" "killed example_operator 0" by (simp_all add: example_machine_def example_operator_def)
  then have "read_text example_operator p example_machine = (Inl Killed, example_machine\<lparr>ticks := 1\<rparr>)" for p
    by (simp add: read_text_def file_call_def tick_def)
  then have "readCredentialOperationJournal example_operator example_machine = (Inl Killed, example_machine\<lparr>ticks := 1\<rparr>)"
    by (simp add: readCredentialOperationJournal_def optional_document_def read_json_def tryE_def bindE_def)
  then show ?thesis
    by (simp add: run_command_def rotate_credential_def Let_def example_upper example_entry example_not_pepper
        assertNoCredentialRecoveryPending_def bindE_def)
qed

text \<open>Reading and running in the example, after the first step.\<close>

lemma example_read:
  assumes "0 < ticks w"
  shows "read_text example_operator p w = (case files w p of None \<Rightarrow> Inl (file_error ENOENT) | Some t \<Rightarrow> Inr t, w\<lparr>ticks := Suc (ticks w)\<rparr>)"
    "stat_file example_operator p w = (case files w p of None \<Rightarrow> Inl (file_error ENOENT) | Some t \<Rightarrow> Inr (), w\<lparr>ticks := Suc (ticks w)\<rparr>)"
    "remove_file example_operator p w = (Inr (), set_file p None (w\<lparr>ticks := Suc (ticks w)\<rparr>))"
    "spawned example_operator argv input childEnv w = (Inr \<lparr> cr_ok = True, cr_stdout = [], cr_stderr = [] \<rparr>,
       log_command \<lparr> cm_argv = argv, cm_input = input, cm_token = fst childEnv, cm_account = snd childEnv, cm_ok = True \<rparr> (w\<lparr>ticks := Suc (ticks w)\<rparr>))"
  using assms by (simp_all add: read_text_def stat_file_def remove_file_def spawned_def file_call_def tick_def Let_def example_operator_def)

lemma example_paths:
  "env_path example_operator n p = p" "credentials_file example_operator = DEFAULT_CREDENTIALS_FILE" "from_process (host_of example_operator) = []"
  by (simp_all add: env_path_def credentials_file_def from_process_def example_operator_def example_host_def)

lemma example_load:
  assumes "0 < ticks w" "files w DEFAULT_CREDENTIALS_FILE = Some example_store"
  shows "loadCredentials example_operator w = (Inr [(js ''RESEND_API_KEY'', js ''re_1'')], w\<lparr>ticks := ticks w + 2\<rparr>)"
  using assms by (simp add: loadCredentials_def example_paths tryE_def bindE_def example_read read_store_def liftE_def example_parse
      returnE_def merged_def)

lemma example_config:
  assumes "0 < ticks w" "files w CONFIG_FILE = None"
  shows "loadOperatorConfig example_operator w = (Inr (JObj []), w\<lparr>ticks := ticks w + 1\<rparr>)"
  using assms by (simp add: loadOperatorConfig_def example_paths tryE_def bindE_def example_read read_json_def returnE_def)

lemma example_journal:
  assumes "0 < ticks w"
    "files w CREDENTIAL_OPERATION_JOURNAL_FILE = Some (document_text (rotation_journal (js ''RESEND_API_KEY'') [] ''local_written'' (js ''now'')))"
  shows "readCredentialOperationJournal example_operator w
    = (Inr (rotation_journal (js ''RESEND_API_KEY'') [] ''local_written'' (js ''now'')), w\<lparr>ticks := ticks w + 1\<rparr>)"
  using assms document_reads [OF rotation_journal_ok, of example_operator]
  by (simp add: readCredentialOperationJournal_def optional_document_def tryE_def bindE_def example_read read_json_def returnE_def
      liftE_def document_or_def rotation_journal_def obj_def)

lemma example_wrangler:
  assumes "0 < ticks w" "files w DEFAULT_CREDENTIALS_FILE = Some example_store" "files w CONFIG_FILE = None"
  shows "\<exists>c. runWrangler example_operator args input w
    = (Inr \<lparr> cr_ok = True, cr_stdout = [], cr_stderr = [] \<rparr>, log_command c (w\<lparr>ticks := Suc (Suc (Suc (Suc (ticks w))))\<rparr>))"
  using assms by (auto simp: runWrangler_def bindE_def example_load example_config example_read)

lemma example_recovers:
  assumes "0 < ticks w" "files w DEFAULT_CREDENTIALS_FILE = Some example_store" "files w CONFIG_FILE = None"
    "files w CREDENTIAL_OPERATION_JOURNAL_FILE = Some (document_text (rotation_journal (js ''RESEND_API_KEY'') [] ''local_written'' (js ''now'')))"
  shows "fst (recoverCredentials example_operator w) = Inr ()"
proof -
  let ?j = "rotation_journal (js ''RESEND_API_KEY'') [] ''local_written'' (js ''now'')"
  have pending: "rotation_pending ?j"
    using rotation_journal_fields(2) [of "js ''RESEND_API_KEY''" "[]" "''local_written''"]
    by (auto simp: rotation_pending_def one_of_def PENDING_PHASES_def rotation_journal_def obj_def)
  let ?w = "w\<lparr>ticks := ticks w + 1\<rparr>"
  have load: "loadCredentials example_operator ?w = (Inr [(js ''RESEND_API_KEY'', js ''re_1'')], ?w\<lparr>ticks := ticks ?w + 2\<rparr>)"
    by (rule example_load) (use assms in simp_all)
  obtain c where run: "runWrangler example_operator (secret_put (js ''RESEND_API_KEY'') (generated_path example_operator)) (js ''re_1'')
      (?w\<lparr>ticks := ticks ?w + 2\<rparr>) = (Inr \<lparr> cr_ok = True, cr_stdout = [], cr_stderr = [] \<rparr>,
        log_command c (?w\<lparr>ticks := ticks ?w + 2, ticks := Suc (Suc (Suc (Suc (ticks (?w\<lparr>ticks := ticks ?w + 2\<rparr>)))))\<rparr>))"
    using example_wrangler [of "?w\<lparr>ticks := ticks ?w + 2\<rparr>"] assms by force
  have "js ''re_1'' \<noteq> []" by (simp add: js_def)
  then have "fst (converge example_operator (js ''RESEND_API_KEY'') ?w) = Inr ()"
    using load run by (simp add: converge_def bindE_def Let_def clearCredentialOperationJournal_def example_read log_command_def printE_def)
  then show ?thesis
    using example_journal [OF assms(1,4)] pending
    by (simp add: recoverCredentials_def bindE_def Let_def rotation_journal_fields example_entry example_role)
qed

theorem recovery_settles_rotation_witness:
  "\<exists>w'. recoverCredentials example_operator (run_history [(example_operator, Rotate (js ''resend_api_key''))] example_machine) = (Inr (), w')
    \<and> in_step w' (js ''RESEND_API_KEY'') \<and> files w' CREDENTIAL_OPERATION_JOURNAL_FILE = None"
proof -
  let ?w = "example_machine\<lparr>ticks := 1\<rparr>"
  have "DEFAULT_CREDENTIALS_FILE \<noteq> CREDENTIAL_OPERATION_JOURNAL_FILE" "CONFIG_FILE \<noteq> CREDENTIAL_OPERATION_JOURNAL_FILE"
    "CONFIG_FILE \<noteq> DEFAULT_CREDENTIALS_FILE" by code_simp+
  then have files: "files ?w DEFAULT_CREDENTIALS_FILE = Some example_store" "files ?w CONFIG_FILE = None"
    "files ?w CREDENTIAL_OPERATION_JOURNAL_FILE = Some (document_text (rotation_journal (js ''RESEND_API_KEY'') [] ''local_written'' (js ''now'')))"
    by (simp_all add: example_machine_def)
  have "fst (recoverCredentials example_operator ?w) = Inr ()" by (rule example_recovers [OF _ files]) simp
  then obtain w' where run: "recoverCredentials example_operator ?w = (Inr (), w')" by (cases "recoverCredentials example_operator ?w") auto
  have safe: "rotation_safe example_operator (js ''RESEND_API_KEY'') example_machine"
    by (simp add: rotation_safe_def in_step_def last_put_def example_machine_def)
  have "in_step w' (js ''RESEND_API_KEY'') \<and> files w' CREDENTIAL_OPERATION_JOURNAL_FILE = None"
    by (rule recovery_settles_rotation [OF example_entry _ example_own _ safe, where cs = "[(example_operator, Rotate (js ''resend_api_key''))]"])
      (simp_all only: example_killed run list.pred_inject prod.case example_own example_role, simp_all)
  then show ?thesis using run unfolding example_killed by blast
qed

end
