(* ===== verification/Reconcile.thy ===== *)
theory Reconcile
  imports Credential_Ops
begin

text \<open>
  The reconciliation of the resources a provider holds for MailGable (\<open>src/scripts/reconcile.mjs\<close>): the webhook at Resend or Brevo, and
  the queue with its event subscription at Cloudflare. The two webhook APIs are reached by HTTP, Cloudflare through Wrangler alone.
\<close>

section \<open>Values read from a reply\<close>

text \<open>\<open>v.k\<close>, which throws on \<open>null\<close>, and \<open>v || []\<close> where an array method follows.\<close>

definition property_of :: "jsval \<Rightarrow> string \<Rightarrow> exn + jsval" where
  "property_of v k = (if v = JNull \<or> v = JUndef then Inl type_error else Inr (field v k))"

definition items_of :: "jsval \<Rightarrow> exn + jsval list" where
  "items_of v = (if \<not> truthy v then Inr [] else (case v of JArr xs \<Rightarrow> Inr xs | _ \<Rightarrow> Inl type_error))"

definition list_property :: "jsval \<Rightarrow> string \<Rightarrow> exn + jsval list" where
  "list_property v k = (case property_of v k of Inl e \<Rightarrow> Inl e | Inr x \<Rightarrow> items_of x)"

text \<open>\<open>xs.filter\<close> with a property of the elements.\<close>

definition filter_items :: "(jsval \<Rightarrow> bool) \<Rightarrow> jsval list \<Rightarrow> exn + jsval list" where
  "filter_items p xs = (if JNull \<in> set xs \<or> JUndef \<in> set xs then Inl type_error else Inr (filter p xs))"

text \<open>The values are exactly these texts, in any order, if there are no repetitions.\<close>

definition same_events :: "jsval \<Rightarrow> string list \<Rightarrow> bool" where
  "same_events v names =
     (let events = (case v of JArr xs \<Rightarrow> xs | _ \<Rightarrow> []) in
      length events = length names \<and> list_all (\<lambda>n. JStr (js n) \<in> set events) names)"

section \<open>Events and argument lists\<close>

definition RESEND_MANAGEMENT_API :: jstr where
  "RESEND_MANAGEMENT_API = js ''https://api.resend.com''"

definition BREVO_MANAGEMENT_API :: jstr where
  "BREVO_MANAGEMENT_API = js ''https://api.brevo.com/v3''"

definition RESEND_WEBHOOK_EVENTS :: "string list" where
  "RESEND_WEBHOOK_EVENTS = [''email.delivered'', ''email.delivery_delayed'', ''email.bounced'', ''email.complained'', ''email.failed'']"

definition BREVO_WEBHOOK_EVENTS :: "string list" where
  "BREVO_WEBHOOK_EVENTS = [''sent'', ''delivered'', ''hardBounce'', ''softBounce'', ''blocked'', ''spam'', ''invalid'', ''deferred'']"

definition CLOUDFLARE_QUEUE_EVENTS :: "string list" where
  "CLOUDFLARE_QUEUE_EVENTS = [''message.delivered'', ''message.deferred'', ''message.bounced'', ''message.failed'', ''message.rejected'',
     ''message.complained'']"

definition queue_events_text :: jstr where
  "queue_events_text = join_text (js '','') (map js CLOUDFLARE_QUEUE_EVENTS)"

definition words_of :: "string list \<Rightarrow> jstr list" where
  "words_of ws = map js ws"

definition cloudflareQueueSubscriptionCreateArgv :: "jstr \<Rightarrow> jsval \<Rightarrow> jsval \<Rightarrow> jstr list" where
  "cloudflareQueueSubscriptionCreateArgv queueName zoneId mailDomain =
     words_of [''wrangler'', ''queues'', ''subscription'', ''create''] @ [queueName] @ words_of [''--source'', ''email.sending'', ''--events'']
     @ [queue_events_text]
     @ (if truthy zoneId then [js ''--zone-id'', js_string zoneId] else [])
     @ (if truthy mailDomain then [js ''--domain'', js_string mailDomain] else [])
     @ [js ''--config'', GENERATED_FILE]"

definition cloudflareQueueSubscriptionUpdateArgv :: "jstr \<Rightarrow> jstr \<Rightarrow> jstr list" where
  "cloudflareQueueSubscriptionUpdateArgv queueName subscriptionId =
     words_of [''wrangler'', ''queues'', ''subscription'', ''update''] @ [queueName, js ''--id'', subscriptionId, js ''--events'',
       queue_events_text, js ''--config'', GENERATED_FILE]"

definition cloudflareQueueSubscriptionDeleteArgv :: "jstr \<Rightarrow> jstr \<Rightarrow> jstr list" where
  "cloudflareQueueSubscriptionDeleteArgv queueName subscriptionId =
     words_of [''wrangler'', ''queues'', ''subscription'', ''delete''] @ [queueName, js ''--id'', subscriptionId, js ''--force'',
       js ''--config'', GENERATED_FILE]"

definition cloudflareQueueListArgv :: "jstr list" where
  "cloudflareQueueListArgv = words_of [''wrangler'', ''queues'', ''list'', ''--config''] @ [GENERATED_FILE, js ''--json'']"

definition cloudflareQueueSubscriptionListArgv :: "jstr \<Rightarrow> jstr list" where
  "cloudflareQueueSubscriptionListArgv queueName =
     words_of [''wrangler'', ''queues'', ''subscription'', ''list''] @ [queueName, js ''--config'', GENERATED_FILE, js ''--json'']"

definition queue_create :: "jstr \<Rightarrow> jstr list" where
  "queue_create queueName = words_of [''queues'', ''create''] @ [queueName, js ''--config'', GENERATED_FILE]"

text \<open>A subscription belongs to MailGable when its source and its domain are exactly those, and its zone where both zones are known.\<close>

definition isCloudflareSubscriptionOwned :: "jsval \<Rightarrow> jsval \<Rightarrow> jsval \<Rightarrow> bool" where
  "isCloudflareSubscriptionOwned subscription mailDomain zoneId \<longleftrightarrow>
     truthy subscription \<and> field subscription ''source'' = JStr (js ''email.sending'')
     \<and> strict_eq (field subscription ''domain'') mailDomain
     \<and> \<not> (truthy zoneId \<and> truthy (field subscription ''zone_id'') \<and> \<not> strict_eq (field subscription ''zone_id'') zoneId)"

section \<open>Requests to the providers\<close>

definition readConfig :: "operator_env \<Rightarrow> jsval op" where
  "readConfig E = loadOperatorConfig E"

definition brevoManagementKey :: "credentials \<Rightarrow> jstr" where
  "brevoManagementKey c = or_else (credential_of c ''BREVO_SETUP_API_KEY'') (credential_of c ''BREVO_API_KEY'')"

text \<open>One set of headers serves both providers.\<close>

definition apiHeaders :: "credentials \<Rightarrow> (jstr \<times> jstr) list" where
  "apiHeaders c =
     [(js ''Content-Type'', js ''application/json'')]
     @ (if credential_of c ''RESEND_SETUP_API_KEY'' \<noteq> [] then bearer_header (credential_of c ''RESEND_SETUP_API_KEY'') else [])
     @ (if brevoManagementKey c \<noteq> [] then [(js ''api-key'', brevoManagementKey c)] else [])"

definition plain_error :: "jstr \<Rightarrow> exn" where
  "plain_error message = JsError (js ''Error'') message"

definition provider_fetch :: "operator_env \<Rightarrow> string \<Rightarrow> jstr \<Rightarrow> string \<Rightarrow> jstr \<Rightarrow> jsval \<Rightarrow> credentials \<Rightarrow> jsval op" where
  "provider_fetch E provider base request_method path body c =
     bindE (api_call E \<lparr> ar_method = js request_method, ar_url = base @ path, ar_headers = apiHeaders c, ar_body = body \<rparr>) (\<lambda>reply.
     case reply of
       None \<Rightarrow> throwE (JsError (js ''TypeError'') (js ''fetch failed''))
     | Some (status, t) \<Rightarrow>
         if status < 200 \<or> 300 \<le> status then
           throwE (plain_error (js (provider @ '' '' @ request_method @ '' '') @ path @ js '' failed (HTTP '' @ nat_text status @ js '').''))
         else liftE (parse_json E t))"

definition resendFetch :: "operator_env \<Rightarrow> string \<Rightarrow> jstr \<Rightarrow> jsval \<Rightarrow> credentials \<Rightarrow> jsval op" where
  "resendFetch E request_method path body c = provider_fetch E ''Resend'' RESEND_MANAGEMENT_API request_method path body c"

definition brevoFetch :: "operator_env \<Rightarrow> string \<Rightarrow> jstr \<Rightarrow> jsval \<Rightarrow> credentials \<Rightarrow> jsval op" where
  "brevoFetch E request_method path body c = provider_fetch E ''Brevo'' BREVO_MANAGEMENT_API request_method path body c"

definition json_body :: "(string \<times> jsval) list \<Rightarrow> jsval" where
  "json_body kvs = JStr (json_text (obj kvs))"

definition webhook_path :: "jsval \<Rightarrow> jstr" where
  "webhook_path i = js ''/webhooks/'' @ js_string i"

section \<open>Resend\<close>

text \<open>A report is \<open>pass\<close> or \<open>manual\<close>, with its message.\<close>

type_synonym report = "string \<times> jstr"

type_synonym secret_writer = "string \<Rightarrow> jstr \<Rightarrow> unit op"

definition resend_endpoint :: "jstr \<Rightarrow> jstr" where
  "resend_endpoint appOrigin = appOrigin @ js ''/webhooks/resend''"

text \<open>The identifier of the webhook of this endpoint, after it was brought up to date or created.\<close>

definition resend_webhook :: "operator_env \<Rightarrow> credentials \<Rightarrow> jstr \<Rightarrow> jsval option \<Rightarrow> jsval op" where
  "resend_webhook E c canonical existing =
     (case existing of
        Some hook \<Rightarrow>
          if same_events (field hook ''events'') RESEND_WEBHOOK_EVENTS \<and> field hook ''status'' = JStr (js ''enabled'') then
            returnE (field hook ''id'')
          else
            bindE (resendFetch E ''PATCH'' (webhook_path (field hook ''id''))
              (json_body [(''endpoint'', JStr canonical), (''events'', texts RESEND_WEBHOOK_EVENTS), (''status'', JStr (js ''enabled''))]) c)
              (\<lambda>updated. liftE (map_sum id (\<lambda>i. JStr (js_string (js_or i (or_text (field hook ''id'') '''')))) (property_of updated ''id'')))
      | None \<Rightarrow>
          bindE (resendFetch E ''POST'' (js ''/webhooks'')
            (json_body [(''endpoint'', JStr canonical), (''events'', texts RESEND_WEBHOOK_EVENTS)]) c)
            (\<lambda>created. liftE (map_sum id (\<lambda>i. JStr (js_string (or_text i ''''))) (property_of created ''id''))))"

definition reconcileResend :: "operator_env \<Rightarrow> jstr \<Rightarrow> credentials \<Rightarrow> secret_writer \<Rightarrow> report op" where
  "reconcileResend E appOrigin c writeSecret =
     (if credential_of c ''RESEND_SETUP_API_KEY'' = [] then
        returnE (''manual'', js ''RESEND_SETUP_API_KEY absent '' @ [0x2014] @ js '' configure the webhook manually (docs/providers/RESEND.md).'')
      else
        (let canonical = resend_endpoint appOrigin in
         bindE (resendFetch E ''GET'' (js ''/webhooks'') JUndef c) (\<lambda>reply.
         bindE (liftE (list_property reply ''data'')) (\<lambda>hooks.
         bindE (liftE (find_item (\<lambda>h. field h ''endpoint'' = JStr canonical) hooks)) (\<lambda>existing.
         bindE (resend_webhook E c canonical existing) (\<lambda>webhookId.
         bindE (resendFetch E ''GET'' (webhook_path webhookId) JUndef c) (\<lambda>detail.
         bindE (liftE (property_of detail ''signing_secret'')) (\<lambda>secret.
         (let signingSecret = js_string (or_text secret '''') in
          if signingSecret = [] then
            returnE (''manual'', js ''webhook exists but Resend returned no signing_secret; retrieve it manually.'')
          else
            bindE (writeSecret ''RESEND_WEBHOOK_SECRET'' signingSecret) (\<lambda>_.
            returnE (''pass'', js ''canonical webhook '' @ js_string webhookId
              @ js '' reconciled with provider signing secret (never printed).'')))))))))))"

definition deleteResendWebhook :: "operator_env \<Rightarrow> jstr \<Rightarrow> credentials \<Rightarrow> report op" where
  "deleteResendWebhook E appOrigin c =
     (if credential_of c ''RESEND_SETUP_API_KEY'' = [] then
        returnE (''manual'', js ''RESEND_SETUP_API_KEY absent '' @ [0x2014] @ js '' remove the canonical MailGable webhook manually.'')
      else
        (let canonical = resend_endpoint appOrigin in
         bindE (resendFetch E ''GET'' (js ''/webhooks'') JUndef c) (\<lambda>reply.
         bindE (liftE (list_property reply ''data'')) (\<lambda>hooks.
         bindE (liftE (filter_items (\<lambda>h. field h ''endpoint'' = JStr canonical) hooks)) (\<lambda>targets.
         bindE (forE targets (\<lambda>h. bindE (resendFetch E ''DELETE'' (webhook_path (field h ''id'')) JUndef c) (\<lambda>_. returnE ()))) (\<lambda>_.
         returnE (''pass'', js ''removed '' @ nat_text (length targets) @ js '' webhook(s) with exact endpoint '' @ canonical
           @ js ''; unrelated endpoints untouched.'')))))))"

section \<open>Brevo\<close>

definition brevo_endpoint :: "jstr \<Rightarrow> jstr" where
  "brevo_endpoint appOrigin = appOrigin @ js ''/webhooks/brevo''"

definition brevo_description :: jsval where
  "brevo_description = JStr (js ''MailGable delivery events'')"

definition brevo_hook :: "jstr \<Rightarrow> jsval \<Rightarrow> bool" where
  "brevo_hook canonical h \<longleftrightarrow> field h ''type'' = JStr (js ''transactional'') \<and> field h ''url'' = JStr canonical"

definition brevo_auth :: "credentials \<Rightarrow> jsval" where
  "brevo_auth c = obj [(''type'', JStr (js ''bearer'')), (''token'', JStr (credential_of c ''BREVO_WEBHOOK_TOKEN''))]"

definition brevo_drifted :: "jsval \<Rightarrow> bool" where
  "brevo_drifted h \<longleftrightarrow> json_stringify (js_or (field h ''events'') (JArr [])) \<noteq> json_stringify (texts BREVO_WEBHOOK_EVENTS)
     \<or> field h ''batched'' \<noteq> JBool False"

definition brevo_webhook :: "operator_env \<Rightarrow> credentials \<Rightarrow> jstr \<Rightarrow> jsval option \<Rightarrow> unit op" where
  "brevo_webhook E c canonical existing =
     (case existing of
        Some hook \<Rightarrow>
          if brevo_drifted hook then
            bindE (brevoFetch E ''PUT'' (webhook_path (field hook ''id''))
              (json_body [(''events'', texts BREVO_WEBHOOK_EVENTS), (''batched'', JBool False), (''auth'', brevo_auth c)]) c) (\<lambda>_. returnE ())
          else returnE ()
      | None \<Rightarrow>
          bindE (brevoFetch E ''POST'' (js ''/webhooks'')
            (json_body [(''url'', JStr canonical), (''events'', texts BREVO_WEBHOOK_EVENTS), (''type'', JStr (js ''transactional'')),
              (''batched'', JBool False), (''description'', brevo_description), (''auth'', brevo_auth c)]) c) (\<lambda>_. returnE ()))"

definition reconcileBrevo :: "operator_env \<Rightarrow> jstr \<Rightarrow> credentials \<Rightarrow> report op" where
  "reconcileBrevo E appOrigin c =
     (if brevoManagementKey c = [] then
        returnE (''manual'', js ''BREVO_API_KEY absent '' @ [0x2014] @ js '' configure the webhook manually (docs/providers/BREVO.md).'')
      else if credential_of c ''BREVO_WEBHOOK_TOKEN'' = [] then
        throwE (plain_error (js ''BREVO_WEBHOOK_TOKEN is required for Brevo webhook setup (npm run configure, then provider:set brevo).''))
      else
        (let canonical = brevo_endpoint appOrigin in
         bindE (brevoFetch E ''GET'' (js ''/webhooks'') JUndef c) (\<lambda>reply.
         bindE (liftE (list_property reply ''webhooks'')) (\<lambda>hooks.
         bindE (liftE (find_item (brevo_hook canonical) hooks)) (\<lambda>existing.
         bindE (brevo_webhook E c canonical existing) (\<lambda>_.
         returnE (''pass'', js ''canonical Brevo transactional webhook reconciled (batched=false, bearer auth).'')))))))"

definition deleteBrevoWebhook :: "operator_env \<Rightarrow> jstr \<Rightarrow> credentials \<Rightarrow> report op" where
  "deleteBrevoWebhook E appOrigin c =
     (if brevoManagementKey c = [] then
        returnE (''manual'', js ''BREVO_API_KEY absent '' @ [0x2014] @ js '' remove the canonical MailGable webhook manually.'')
      else
        (let canonical = brevo_endpoint appOrigin in
         bindE (brevoFetch E ''GET'' (js ''/webhooks'') JUndef c) (\<lambda>reply.
         bindE (liftE (list_property reply ''webhooks'')) (\<lambda>hooks.
         bindE (liftE (filter_items (\<lambda>h. brevo_hook canonical h \<and> field h ''description'' = brevo_description) hooks)) (\<lambda>targets.
         bindE (forE targets (\<lambda>h. bindE (brevoFetch E ''DELETE'' (webhook_path (field h ''id'')) JUndef c) (\<lambda>_. returnE ()))) (\<lambda>_.
         returnE (''pass'', js ''removed '' @ nat_text (length targets)
           @ js '' canonical MailGable Brevo webhook(s) (exact URL + transactional + description); unrelated webhooks untouched.'')))))))"

section \<open>Cloudflare\<close>

definition parsed_output :: "operator_env \<Rightarrow> command_reply \<Rightarrow> exn + jsval" where
  "parsed_output E reply = parse_json E (or_else (cr_stdout reply) (js ''[]''))"

definition stderr_text :: "command_reply \<Rightarrow> jstr" where
  "stderr_text reply = or_else (cr_stderr reply) (js ''unknown'')"

definition queue_listed :: "operator_env \<Rightarrow> command_reply \<Rightarrow> jstr \<Rightarrow> exn + bool" where
  "queue_listed E reply queueName =
     (case parsed_output E reply of
        Inl e \<Rightarrow> Inl e
      | Inr (JArr queues) \<Rightarrow>
          map_sum id (\<lambda>found. found \<noteq> None)
            (find_item (\<lambda>q. field q ''queue_name'' = JStr queueName \<or> field q ''name'' = JStr queueName) queues)
      | Inr v \<Rightarrow> Inr False)"

definition subscription_entries :: "operator_env \<Rightarrow> command_reply \<Rightarrow> exn + jsval list" where
  "subscription_entries E reply =
     (case parsed_output E reply of Inl e \<Rightarrow> Inl e | Inr (JArr xs) \<Rightarrow> Inr xs | Inr v \<Rightarrow> list_property v ''subscriptions'')"

definition subscription_id :: "jsval \<Rightarrow> jstr" where
  "subscription_id s = js_string (js_or (field s ''id'') (or_text (field s ''subscription_id'') ''''))"

definition unless :: "bool \<Rightarrow> jstr \<Rightarrow> unit op" where
  "unless b message = (if b then returnE () else throwE (plain_error message))"

definition ensure_queue :: "operator_env \<Rightarrow> jstr \<Rightarrow> unit op" where
  "ensure_queue E queueName =
     bindE (runCaptureWrangler E cloudflareQueueListArgv) (\<lambda>reply.
     bindE (unless (cr_ok reply) (js ''cannot list queues ('' @ stderr_text reply @ js '') '' @ [0x2014] @ js '' no mutation performed.'')) (\<lambda>_.
     case queue_listed E reply queueName of
       Inl e \<Rightarrow> throwE (plain_error (js ''cannot parse the queue list output.''))
     | Inr True \<Rightarrow> returnE ()
     | Inr False \<Rightarrow>
         bindE (runInheritWrangler E (queue_create queueName)) (\<lambda>created.
         unless created (js ''queue '' @ in_quote_marks queueName @ js '' could not be created.''))))"

definition ensure_subscription :: "operator_env \<Rightarrow> jstr \<Rightarrow> jsval \<Rightarrow> jsval \<Rightarrow> jsval option \<Rightarrow> unit op" where
  "ensure_subscription E queueName mailDomain zoneId existing =
     (case existing of
        Some s \<Rightarrow>
          if same_events (field s ''events'') CLOUDFLARE_QUEUE_EVENTS then returnE ()
          else
            bindE (unless (subscription_id s \<noteq> []) (js ''existing subscription has no id; update it manually.'')) (\<lambda>_.
            bindE (runInheritWrangler E (cloudflareQueueSubscriptionUpdateArgv queueName (subscription_id s))) (\<lambda>updated.
            unless updated (js ''queue subscription event drift could not be reconciled.'')))
      | None \<Rightarrow>
          bindE (runInheritWrangler E (cloudflareQueueSubscriptionCreateArgv queueName zoneId mailDomain)) (\<lambda>created.
          unless created (js ''queue event subscription could not be created (run it twice to confirm reuse if it was created concurrently).'')))"

definition event_queue_name :: "jsval \<Rightarrow> jstr" where
  "event_queue_name workerName = js_string workerName @ js ''-email-events''"

definition reconcileCloudflare :: "operator_env \<Rightarrow> jsval \<Rightarrow> jsval \<Rightarrow> jsval \<Rightarrow> report op" where
  "reconcileCloudflare E workerName mailDomain zoneId =
     (let queueName = event_queue_name workerName in
      bindE (ensure_queue E queueName) (\<lambda>_.
      bindE (runCaptureWrangler E (cloudflareQueueSubscriptionListArgv queueName)) (\<lambda>reply.
      bindE (unless (cr_ok reply) (js ''cannot list queue subscriptions ('' @ stderr_text reply @ js '').'')) (\<lambda>_.
      case subscription_entries E reply of
        Inl e \<Rightarrow> throwE (plain_error (js ''cannot parse the queue subscription list output.''))
      | Inr entries \<Rightarrow>
          bindE (ensure_subscription E queueName mailDomain zoneId
            (find (\<lambda>s. isCloudflareSubscriptionOwned s mailDomain zoneId) entries)) (\<lambda>_.
          returnE (''pass'', js ''queue '' @ in_quote_marks queueName @ js '' and its email.sending event subscription are reconciled.''))))))"

text \<open>Whether a subscription could be deleted is not looked at.\<close>

definition delete_subscriptions :: "operator_env \<Rightarrow> jstr \<Rightarrow> jsval list \<Rightarrow> unit op" where
  "delete_subscriptions E queueName owned =
     forE owned (\<lambda>s.
       if subscription_id s = [] then returnE ()
       else bindE (runInheritWrangler E (cloudflareQueueSubscriptionDeleteArgv queueName (subscription_id s))) (\<lambda>_. returnE ()))"

definition deleteCloudflareSubscription :: "operator_env \<Rightarrow> jsval \<Rightarrow> jsval \<Rightarrow> jsval \<Rightarrow> report op" where
  "deleteCloudflareSubscription E workerName mailDomain zoneId =
     (let queueName = event_queue_name workerName in
      bindE (runCaptureWrangler E (cloudflareQueueSubscriptionListArgv queueName)) (\<lambda>reply.
      if \<not> cr_ok reply then
        returnE (''manual'', js ''cannot list subscriptions; remove the MailGable event subscription manually.'')
      else
        tryE
          (bindE (liftE (subscription_entries E reply)) (\<lambda>entries.
           (let owned = filter (\<lambda>s. isCloudflareSubscriptionOwned s mailDomain zoneId) entries in
            bindE (delete_subscriptions E queueName owned) (\<lambda>_.
            returnE (''pass'', js ''removed '' @ nat_text (length owned) @ js '' MailGable email.sending subscription(s) for exact domain ''
              @ js_string mailDomain @ js ''; other domains untouched.'')))))
          (\<lambda>e. returnE (''manual'', js ''cannot parse subscriptions; remove the MailGable event subscription manually.''))))"

end
