(* ===== verification/Provider_Switch.thy ===== *)
theory Provider_Switch
  imports Reconcile
begin

text \<open>
  The provider command (\<open>src/scripts/provider.mjs\<close>): switching the outbound provider in one controlled point, repairing the local
  documents after a switch that was interrupted, removing an inactive provider, and the status.
\<close>

section \<open>Files and shared steps\<close>

definition NEXT :: jstr where
  "NEXT = js ''wrangler.provider-next.jsonc''"

definition NEXT_CONFIG :: jstr where
  "NEXT_CONFIG = js ''.mailbox/config.next.json''"

definition NEXT_STATE :: jstr where
  "NEXT_STATE = js ''.setup-state.next.json''"

definition TEMPLATE :: jstr where
  "TEMPLATE = js ''wrangler.jsonc''"

definition VALID_PROVIDERS :: "string list" where
  "VALID_PROVIDERS = [''none'', ''resend'', ''brevo'', ''cloudflare'']"

definition provider_fail :: "string \<Rightarrow> jstr \<Rightarrow> 'a op" where
  "provider_fail code message = failE ''provider'' code message"

definition remote_switched :: "jsval \<Rightarrow> bool" where
  "remote_switched journal \<longleftrightarrow> truthy journal \<and> field journal ''phase'' = JStr (js ''remote_switched'')"

definition assertNoRecoveryPending :: "operator_env \<Rightarrow> unit op" where
  "assertNoRecoveryPending E =
     bindE (readOperationJournal E) (\<lambda>journal.
     if remote_switched journal then
       provider_fail ''operator_recovery_required''
         (js ''a provider switch reached the remote deploy; run `npm run provider:recover` to repair local state.'')
     else returnE ())"

record current_state =
  cu_sha :: jstr
  cu_operator :: jsval
  cu_setup :: jsval
  cu_generated :: jsval

definition validateCurrentState :: "operator_env \<Rightarrow> current_state op" where
  "validateCurrentState E =
     bindE (currentGitSha E) (\<lambda>sha.
     bindE (loadOperatorConfig E) (\<lambda>operator.
     bindE (loadSetupState E) (\<lambda>setup.
     bindE (loadGeneratedConfig E) (\<lambda>generated.
     case validateOperatorState (platform_of (host_of E)) operator setup generated sha of
       Inl (code, detail) \<Rightarrow> provider_fail code (or_else detail (js ''current operator state validation failed.''))
     | Inr v \<Rightarrow> returnE \<lparr> cu_sha = sha, cu_operator = operator, cu_setup = setup, cu_generated = generated \<rparr>))))"

section \<open>Secrets\<close>

definition writeSecret :: "operator_env \<Rightarrow> secret_writer" where
  "writeSecret E name v =
     bindE (setCredential E (js name) v) (\<lambda>_.
     bindE (runWrangler E (secret_put (js name) GENERATED_FILE) v) (\<lambda>reply.
     if \<not> cr_ok reply then provider_fail ''secret_put_failed'' (js name @ js '' could not be configured.'')
     else printE (js name @ js '': configured'')))"

definition uploadSecrets :: "operator_env \<Rightarrow> jsval \<Rightarrow> credentials \<Rightarrow> unit op" where
  "uploadSecrets E provider c =
     (let runtime = providerActiveCredentials provider c in
      bindE (runWrangler E (secret_bulk GENERATED_FILE) (indented_text (secret_values runtime))) (\<lambda>reply.
      if \<not> cr_ok reply then provider_fail ''secret_apply_failed'' (js ''wrangler secret bulk failed.'')
      else print_lines (map (\<lambda>(k, v). k @ js '': configured'') runtime
        @ [js ''provider: applied '' @ nat_text (length runtime) @ js '' persistent secrets for '' @ js_string provider @ js ''.''])))"

definition staleRuntimeSecrets :: "jsval \<Rightarrow> jsval \<Rightarrow> string list" where
  "staleRuntimeSecrets fromProvider toProvider =
     filter (\<lambda>n. n \<notin> set (entries_for PROVIDER_RUNTIME_SECRETS toProvider)) (entries_for PROVIDER_RUNTIME_SECRETS fromProvider)"

definition null_secrets :: "string list \<Rightarrow> jstr" where
  "null_secrets names = json_text (obj (map (\<lambda>n. (n, JNull)) names))"

definition removeWorkerSecrets :: "operator_env \<Rightarrow> string list \<Rightarrow> unit op" where
  "removeWorkerSecrets E names =
     (if names = [] then returnE ()
      else
        bindE (runWrangler E (secret_bulk GENERATED_FILE) (null_secrets names)) (\<lambda>reply.
        if \<not> cr_ok reply then
          throwE (plain_error (js ''wrangler secret bulk failed while removing '' @ join_text (js '', '') (map js names) @ js ''.''))
        else print_lines (map (\<lambda>n. js (n @ '': removed from the Worker (inactive provider)'')) names
          @ [js ''provider: removed '' @ nat_text (length names) @ js '' inactive-provider Worker secret(s).''])))"

section \<open>The next documents\<close>

record next_package =
  np_operator :: jsval
  np_generated :: jsval
  np_state :: jsval
  np_plan :: setup_plan

definition missing_credentials :: "(string \<times> string list) list \<Rightarrow> jsval \<Rightarrow> credentials \<Rightarrow> string list" where
  "missing_credentials table provider c = filter (\<lambda>n. credential_of c n = []) (entries_for table provider)"

definition comma_text :: "string list \<Rightarrow> jstr" where
  "comma_text names = join_text (js '', '') (map js names)"

definition switch_args :: "host \<Rightarrow> jsval \<Rightarrow> jsval \<Rightarrow> jsval \<Rightarrow> setup_args" where
  "switch_args H operator setupState provider =
     (let f = (\<lambda>name. or_text (field operator name) '''') in
      (parseSetupArgs H [])
        \<lparr> sa_mode := JStr (js ''production''), sa_worker := f ''worker_name'', sa_domain := f ''mail_domain'',
          sa_admin := f ''admin_email'', sa_zone := f ''cloudflare_zone_id'', sa_app_origin := f ''app_origin'',
          sa_provider := provider, sa_d1 := js_or (field operator ''d1_name'') (field setupState ''d1_name''),
          sa_r2 := js_or (field operator ''r2_name'') (field setupState ''r2_name''), sa_account := f ''cloudflare_account_id'' \<rparr>)"

definition switch_state :: "platform \<Rightarrow> jstr \<Rightarrow> setup_plan \<Rightarrow> jsval \<Rightarrow> jsval \<Rightarrow> jsval \<Rightarrow> jsval" where
  "switch_state P sha plan databaseId provider generated =
     obj [(''schema_version'', OPERATOR_STATE_SCHEMA_VERSION), (''rc_sha'', JStr sha), (''mode'', JStr (js ''production'')),
       (''worker_name'', pl_worker plan), (''d1_name'', pl_d1 plan), (''d1_database_id'', databaseId), (''r2_name'', pl_r2 plan),
       (''mail_domain'', pl_domain plan), (''cloudflare_zone_id'', pl_zone plan), (''cloudflare_account_id'', pl_account plan),
       (''outbound_provider'', provider), (''config_hash'', JStr (generatedConfigHash P generated))]"

definition check_state :: "operator_env \<Rightarrow> jsval \<Rightarrow> jsval \<Rightarrow> jsval \<Rightarrow> jstr \<Rightarrow> unit op" where
  "check_state E operator state generated sha =
     liftE (map_sum state_exn (\<lambda>_. ()) (validateOperatorState (platform_of (host_of E)) operator state generated sha))"

definition buildNextPackage :: "operator_env \<Rightarrow> current_state \<Rightarrow> jsval \<Rightarrow> credentials \<Rightarrow> next_package op" where
  "buildNextPackage E current provider c =
     (let H = host_of E; P = platform_of H; sha = cu_sha current; setupState = cu_setup current;
          missing = missing_credentials PROVIDER_ACTIVATION_REQUIREMENTS provider c;
          nextOperator = JObj (with_fields (spread (cu_operator current)) [(''outbound_provider'', provider)]);
          errors = validateOperatorConfig nextOperator;
          args = switch_args H nextOperator setupState provider;
          databaseId = field setupState ''d1_database_id'' in
      if missing \<noteq> [] then
        provider_fail ''provider_credentials_missing'' (js_string provider @ js '' requires '' @ comma_text missing @ js '' '' @ [0x2014]
          @ js '' run `npm run configure` to add them.'')
      else if errors \<noteq> [] then provider_fail ''operator_config_invalid'' (join_text (js ''; '') (map js errors))
      else (case validateProductionInputs H args of
        Inl (code, detail) \<Rightarrow> provider_fail code (js (''invalid production configuration ('' @ detail @ '')''))
      | Inr origin \<Rightarrow>
          if \<not> truthy databaseId then
            provider_fail ''operator_state_missing'' (js ''no D1 database id in .setup-state.json; run the full setup first.'')
          else
            bindE (read_json E TEMPLATE) (\<lambda>template.
            bindE (liftE (buildSetupPlan H template args databaseId (JObj []))) (\<lambda>plan.
            bindE (liftE (buildGeneratedConfig template plan)) (\<lambda>generated.
            (let state = switch_state P sha plan databaseId provider generated in
             bindE (check_state E nextOperator state generated sha) (\<lambda>_.
             returnE \<lparr> np_operator = nextOperator, np_generated = generated, np_state = state, np_plan = plan \<rparr>)))))))"

section \<open>Switching\<close>

definition deploy_dry_run :: "jstr list" where
  "deploy_dry_run = [js ''deploy'', js ''--dry-run'', js ''--config'', NEXT, js ''--outdir'', js ''.wrangler-dry-run/provider-next'']"

definition deploy_next :: "jstr list" where
  "deploy_next = [js ''deploy'', js ''--config'', NEXT]"

definition reconcileFor :: "operator_env \<Rightarrow> jsval \<Rightarrow> setup_plan \<Rightarrow> jsval \<Rightarrow> credentials \<Rightarrow> report option op" where
  "reconcileFor E provider plan config c =
     (let appOrigin = js_or (pl_app_origin plan) (or_text (field config ''app_origin'') '''');
          some = (\<lambda>m :: report op. bindE m (\<lambda>r. returnE (Some r))) in
      if \<not> truthy appOrigin then returnE None
      else if provider = JStr (js ''resend'') then some (reconcileResend E (js_string appOrigin) c (writeSecret E))
      else if provider = JStr (js ''brevo'') then some (reconcileBrevo E (js_string appOrigin) c)
      else if provider = JStr (js ''cloudflare'') then some (reconcileCloudflare E (pl_worker plan) (pl_domain plan) (pl_zone plan))
      else returnE None)"

definition report_line :: "string \<Rightarrow> report \<Rightarrow> jstr" where
  "report_line what r =
     js (''provider: '' @ what @ '': '') @ (if fst r = ''manual'' then js ''MANUAL REQUIRED'' else map upper_unit (js (fst r)))
       @ js '' '' @ [0x2014] @ js '' '' @ snd r"

definition print_report :: "string \<Rightarrow> report option \<Rightarrow> unit op" where
  "print_report what r = (case r of None \<Rightarrow> returnE () | Some r \<Rightarrow> printE (report_line what r))"

definition completion_text :: "jsval \<Rightarrow> setup_plan \<Rightarrow> jstr \<Rightarrow> jstr" where
  "completion_text provider plan host =
     (let webhook = (\<lambda>label path. [10] @ js ''Provider: '' @ js label @ [10] @ js ''Webhook: https://'' @ host @ js ''/webhooks/'' @ js path @ [10]
            @ js ''Webhook reconciliation: reconciled above (MANUAL REQUIRED if no setup key).'') in
      if provider = JStr (js ''none'') then [10] @ js ''Outbound: receive-only'' @ [10] @ js ''No outbound provider setup required.''
      else if provider = JStr (js ''resend'') then webhook ''Resend'' ''resend''
      else if provider = JStr (js ''brevo'') then webhook ''Brevo'' ''brevo''
      else [10] @ js ''Provider: Cloudflare Email Service'' @ [10] @ js ''Event queue: '' @ event_queue_name (pl_worker plan) @ [10]
        @ js ''Event subscription: reconciled above (MANUAL REQUIRED if no zone/domain).'' @ [10] @ js ''No public provider webhook.'')"

definition printCompletion :: "operator_env \<Rightarrow> jsval \<Rightarrow> setup_plan \<Rightarrow> jsval \<Rightarrow> unit op" where
  "printCompletion E provider plan config =
     (let origin = field config ''app_origin'' in
      if pl_origin_host plan \<noteq> [] then printE (completion_text provider plan (pl_origin_host plan))
      else if \<not> truthy origin then printE (completion_text provider plan [])
      else (case url_of (host_of E) (js_string origin) of
              None \<Rightarrow> throwE (JsError (js ''TypeError'') (js ''Invalid URL''))
            | Some u \<Rightarrow> printE (completion_text provider plan (url_hostname u))))"

text \<open>The local documents of a deployment that is active now.\<close>

definition commit_documents :: "operator_env \<Rightarrow> jsval \<Rightarrow> jsval \<Rightarrow> jsval \<Rightarrow> unit op" where
  "commit_documents E generated state operator =
     bindE (writeGeneratedConfig E generated) (\<lambda>_.
     bindE (writeSetupState E state) (\<lambda>_. writeOperatorConfig E operator))"

definition switch_journal :: "current_state \<Rightarrow> jsval \<Rightarrow> jsval \<Rightarrow> jsval" where
  "switch_journal current provider state =
     obj [(''operation'', JStr (js ''provider_switch'')), (''from'', or_text (field (cu_setup current) ''outbound_provider'') ''none''),
       (''to'', provider), (''rc_sha'', JStr (cu_sha current)), (''next_config_hash'', field state ''config_hash''),
       (''phase'', JStr (js ''prepared''))]"

text \<open>Before the switch: NEXT passes a dry run, the secrets of the target are uploaded, its remote resources are reconciled.\<close>

definition prepare_switch :: "operator_env \<Rightarrow> jsval \<Rightarrow> current_state \<Rightarrow> next_package \<Rightarrow> credentials \<Rightarrow> unit op" where
  "prepare_switch E provider current p c =
     bindE (writeOperationJournal E (switch_journal current provider (np_state p))) (\<lambda>_.
     bindE (write_text E NEXT (indented_text (np_generated p))) (\<lambda>_.
     bindE (runCaptureWrangler E deploy_dry_run) (\<lambda>dry.
     if \<not> cr_ok dry then
       bindE (remove_file E NEXT) (\<lambda>_.
       bindE (clearOperationJournal E) (\<lambda>_.
       provider_fail ''provider_next_config_invalid'' (js ''the NEXT provider config failed wrangler validation; nothing was changed.'')))
     else
       bindE (printE (js ''provider: NEXT config for OUTBOUND_PROVIDER='' @ js_string provider @ js '' validated (wrangler dry-run).'')) (\<lambda>_.
       bindE (uploadSecrets E provider c) (\<lambda>_.
       bindE (reconcileFor E provider (np_plan p) (cu_operator current) c) (print_report ''webhook reconciliation''))))))"

text \<open>The switch, and the commit of the local documents.\<close>

definition switch_remote :: "operator_env \<Rightarrow> next_package \<Rightarrow> unit op" where
  "switch_remote E p =
     bindE (runInheritWrangler E deploy_next) (\<lambda>deployed.
     if \<not> deployed then
       bindE (clearOperationJournal E) (\<lambda>_.
       provider_fail ''deploy_failed''
         (js ''deploying the NEXT provider config failed; the previous provider remains active and all local files are unchanged.''))
     else
       bindE (readOperationJournal E) (\<lambda>journal.
       bindE (writeOperationJournal E (JObj (with_fields (spread journal) [(''phase'', JStr (js ''remote_switched''))]))) (\<lambda>_.
       tryE (commit_documents E (np_generated p) (np_state p) (np_operator p))
         (\<lambda>e. exit_with ''local_write_failed'' (js ''provider: remote switch succeeded but local write failed ('' @ message_of e
           @ js ''). Run `npm run provider:recover`.'')))))"

definition finish_switch :: "operator_env \<Rightarrow> jsval \<Rightarrow> current_state \<Rightarrow> next_package \<Rightarrow> unit op" where
  "finish_switch E provider current p =
     bindE (tryE (removeWorkerSecrets E (staleRuntimeSecrets (or_text (field (cu_setup current) ''outbound_provider'') ''none'') provider))
       (\<lambda>e. exit_with ''cleanup_failed'' (js ''provider: switch committed but inactive-provider cleanup failed ('' @ message_of e
         @ js ''). Run `npm run provider:recover` to retry the cleanup.''))) (\<lambda>_.
     bindE (remove_file E NEXT) (\<lambda>_.
     bindE (remove_file E NEXT_CONFIG) (\<lambda>_.
     bindE (remove_file E NEXT_STATE) (\<lambda>_.
     bindE (clearOperationJournal E) (\<lambda>_.
     bindE (tryE (check_state E (np_operator p) (np_state p) (np_generated p) (cu_sha current))
       (\<lambda>e. provider_fail ''operator_state_inconsistent'' (js ''post-switch validation failed ('' @ message_of e
         @ js ''); run `npm run provider:recover`.''))) (\<lambda>_.
     bindE (printE (js ''provider: OUTBOUND_PROVIDER='' @ js_string provider @ js '' committed (single switch point: the NEXT deploy).'')) (\<lambda>_.
     printCompletion E provider (np_plan p) (cu_operator current))))))))"

definition setProvider :: "operator_env \<Rightarrow> jstr \<Rightarrow> unit op" where
  "setProvider E arg =
     (let provider = JStr arg in
      if arg \<notin> js ` set VALID_PROVIDERS then
        provider_fail ''invalid_provider'' (js ''provider must be one of '' @ comma_text VALID_PROVIDERS)
      else
        bindE (assertNoRecoveryPending E) (\<lambda>_.
        bindE (loadCredentials E) (\<lambda>c.
        bindE (validateCurrentState E) (\<lambda>current.
        bindE (buildNextPackage E current provider c) (\<lambda>p.
        bindE (prepare_switch E provider current p c) (\<lambda>_.
        bindE (switch_remote E p) (\<lambda>_. finish_switch E provider current p)))))))"

section \<open>Recovery\<close>

text \<open>\<open>v?.[0]\<close>.\<close>

definition item_zero :: "jsval \<Rightarrow> jsval" where
  "item_zero v = (if is_array v then first_item v else js_get v (js ''0''))"

definition recovered_state :: "platform \<Rightarrow> jstr \<Rightarrow> jsval \<Rightarrow> jsval \<Rightarrow> jsval" where
  "recovered_state P sha operator generated =
     (let d1 = item_zero (field generated ''d1_databases''); r2 = item_zero (field generated ''r2_buckets''); v = generated_var generated in
      obj [(''schema_version'', OPERATOR_STATE_SCHEMA_VERSION), (''rc_sha'', JStr sha), (''mode'', JStr (js ''production'')),
        (''worker_name'', field generated ''name''), (''d1_name'', field d1 ''database_name''), (''d1_database_id'', field d1 ''database_id''),
        (''r2_name'', field r2 ''bucket_name''), (''mail_domain'', v ''MAIL_DOMAIN''), (''cloudflare_zone_id'', v ''CLOUDFLARE_ZONE_ID''),
        (''cloudflare_account_id'', or_text (field operator ''cloudflare_account_id'') ''''), (''outbound_provider'', v ''OUTBOUND_PROVIDER''),
        (''config_hash'', JStr (generatedConfigHash P generated))])"

definition recovered_operator :: "jsval \<Rightarrow> jsval \<Rightarrow> jsval" where
  "recovered_operator config generated =
     JObj (with_fields (spread config) [(''outbound_provider'', generated_var generated ''OUTBOUND_PROVIDER'')])"

definition finish_repair :: "operator_env \<Rightarrow> jsval \<Rightarrow> jsval \<Rightarrow> unit op" where
  "finish_repair E journal provider =
     bindE (tryE (removeWorkerSecrets E (staleRuntimeSecrets (or_text (field journal ''from'') ''none'') provider))
       (\<lambda>e. provider_fail ''cleanup_retry_failed'' (js ''inactive-provider cleanup still failing ('' @ message_of e
         @ js ''); run `npm run provider:recover` again.''))) (\<lambda>_.
     bindE (remove_file E NEXT) (\<lambda>_.
     bindE (clearOperationJournal E) (\<lambda>_.
     printE (js ''provider: recovered local state for OUTBOUND_PROVIDER='' @ js_string provider @ js ''.''))))"

text \<open>The documents are written again from NEXT, and the secrets of the provider before are removed.\<close>

definition repair_documents :: "operator_env \<Rightarrow> jsval \<Rightarrow> jsval \<Rightarrow> jsval \<Rightarrow> jstr \<Rightarrow> unit op" where
  "repair_documents E journal operator generated sha =
     (let state = recovered_state (platform_of (host_of E)) sha operator generated in
      bindE (check_state E operator state generated sha) (\<lambda>_.
      bindE (commit_documents E generated state operator) (\<lambda>_.
      finish_repair E journal (field state ''outbound_provider''))))"

definition recoverProvider :: "operator_env \<Rightarrow> unit op" where
  "recoverProvider E =
     bindE (readOperationJournal E) (\<lambda>journal.
     if \<not> remote_switched journal then
       provider_fail ''no_recovery_needed'' (js ''no remote_switched journal found; nothing to recover.'')
     else
       bindE (currentGitSha E) (\<lambda>sha.
       if \<not> strict_eq (field journal ''rc_sha'') (JStr sha) then
         provider_fail ''recovery_rc_mismatch'' (js ''the journal was created at '' @ js_string (field journal ''rc_sha'')
           @ js ''; refusing to recover at '' @ sha @ js ''.'')
       else
         bindE (exists_file E NEXT) (\<lambda>present.
         if \<not> present then
           provider_fail ''recovery_next_missing'' (NEXT
             @ js '' is missing; re-run `npm run setup` to regenerate, then switch providers again.'')
         else
           bindE (read_json E NEXT) (\<lambda>generated.
           bindE (loadOperatorConfig E) (\<lambda>config.
           bindE (liftE (property_of generated ''vars'')) (\<lambda>_.
           repair_documents E journal (recovered_operator config generated) generated sha))))))"

section \<open>Removing a provider\<close>

definition retryable_query :: "jstr \<Rightarrow> jstr" where
  "retryable_query provider = js ''SELECT COUNT(*) AS n FROM mail_messages WHERE outbound_provider='' @ in_quote_marks provider
     @ js '' AND status IN ('' @ in_quote_marks (js ''sending'') @ js '','' @ in_quote_marks (js ''retryable_failed'') @ js '')''"

definition count_command :: "jstr \<Rightarrow> jstr list" where
  "count_command provider =
     words_of [''d1'', ''execute'', ''DB'', ''--remote'', ''--config''] @ [GENERATED_FILE] @ words_of [''--json'', ''--command'']
       @ [retryable_query provider]"

text \<open>The count as the number it is written as, or nothing when it cannot be told.\<close>

definition countRetryable :: "operator_env \<Rightarrow> jstr \<Rightarrow> jstr option op" where
  "countRetryable E provider =
     bindE (runCaptureWrangler E (count_command provider)) (\<lambda>reply.
     returnE
       (if \<not> cr_ok reply then None
        else (case parse_json E (cr_stdout reply) of
            Inl e \<Rightarrow> None
          | Inr rows \<Rightarrow> (case field (item_zero (field (item_zero rows) ''results'')) ''n'' of JNum t \<Rightarrow> Some t | _ \<Rightarrow> None))))"

definition remove_resources :: "operator_env \<Rightarrow> jstr \<Rightarrow> jsval \<Rightarrow> credentials \<Rightarrow> report op" where
  "remove_resources E provider operator c =
     (let f = (\<lambda>name. or_text (field operator name) ''''); appOrigin = js_string (f ''app_origin'') in
      if provider = js ''resend'' then deleteResendWebhook E appOrigin c
      else if provider = js ''brevo'' then deleteBrevoWebhook E appOrigin c
      else deleteCloudflareSubscription E (f ''worker_name'') (f ''mail_domain'') (f ''cloudflare_zone_id''))"

text \<open>A count that is positive; the sign of the number decides.\<close>

definition positive_count :: "jstr \<Rightarrow> bool" where
  "positive_count t \<longleftrightarrow> t \<noteq> js ''0'' \<and> t \<noteq> js ''-0'' \<and> (t = [] \<or> hd t \<noteq> 45)"

definition removeProvider :: "operator_env \<Rightarrow> jstr \<Rightarrow> bool \<Rightarrow> unit op" where
  "removeProvider E provider force =
     (if provider \<notin> js ` {''resend'', ''brevo'', ''cloudflare''} then
        provider_fail ''invalid_provider'' (js ''remove requires resend|brevo|cloudflare'')
      else
        bindE (assertNoRecoveryPending E) (\<lambda>_.
        bindE (validateCurrentState E) (\<lambda>current.
        if field (cu_setup current) ''outbound_provider'' = JStr provider then
          provider_fail ''provider_active'' (js ''switch away from '' @ provider @ js '' with '' @ in_quote_marks (js ''provider:set'')
            @ js '' before removing its credential.'')
        else
          bindE (countRetryable E provider) (\<lambda>count.
          case count of
            None \<Rightarrow> provider_fail ''d1_check_unavailable''
              (js ''cannot verify D1 retryable rows; run from the project root with the generated config deployed, or use --force deliberately.'')
          | Some t \<Rightarrow>
              if positive_count t \<and> \<not> force then
                provider_fail ''retryable_messages'' (js ''D1 has '' @ t @ js '' '' @ provider
                  @ js '' message(s) in sending/retryable_failed state; use --force only after verifying the provider records.'')
              else
                bindE (if t = js ''0'' \<or> t = js ''-0''
                  then printE (js ''provider: D1 has no retryable '' @ provider @ js '' rows; removal is safe.'') else returnE ()) (\<lambda>_.
                bindE (loadCredentials E) (\<lambda>c.
                bindE (remove_resources E provider (cu_operator current) c) (\<lambda>cleanup.
                bindE (printE (report_line ''remote cleanup'' cleanup)) (\<lambda>_.
                bindE (runWrangler E (secret_bulk GENERATED_FILE) (null_secrets (entries_for PROVIDER_RUNTIME_SECRETS (JStr provider)))) (\<lambda>reply.
                if \<not> cr_ok reply then provider_fail ''secret_remove_failed'' (js ''wrangler secret bulk failed.'')
                else printE (js ''provider: removed '' @ provider @ js '' runtime secrets.''))))))))))"

section \<open>Status and the command line\<close>

text \<open>\<open>s.slice(0, n)\<close> of a text or an array.\<close>

definition slice_to :: "nat \<Rightarrow> jsval \<Rightarrow> exn + jsval" where
  "slice_to n v = (case v of JStr s \<Rightarrow> Inr (JStr (take n s)) | JArr xs \<Rightarrow> Inr (JArr (take n xs)) | _ \<Rightarrow> Inl type_error)"

definition state_line :: "jsval \<Rightarrow> exn + jstr" where
  "state_line state =
     (if \<not> truthy state then Inr (js ''Setup state: MISSING (.setup-state.json)'')
      else map_sum id (\<lambda>sha. js ''Setup state: present ('' @ js_string (or_text (field state ''worker_name'') ''?'') @ js '' @ ''
          @ js_string (or_text sha ''?'') @ js '', d1='' @ (if truthy (field state ''d1_database_id'') then js ''configured'' else js ''MISSING'') @ js '')'')
        (slice_to 7 (or_text (field state ''rc_sha'') '''')))"

definition capability_lines :: "jstr list" where
  "capability_lines = words_of
     [''Capabilities:'',
      ''  Resend:     webhook events | idempotency 24h | app retry 23h | attachments+cc/bcc+threading'',
      ''  Brevo:      webhook events | idempotency ~30m | app retry 25m | attachments+cc/bcc, no threading headers'',
      ''  Cloudflare: queue events | no assumed idempotency | 5 MiB max | attachments+cc/bcc+threading | Workers Paid/Beta'']"

definition provider_lines :: "jsval \<Rightarrow> credentials \<Rightarrow> jstr list" where
  "provider_lines config c =
     (let provider = or_text (field config ''outbound_provider'') ''none'';
          missingSend = missing_credentials PROVIDER_ACTIVATION_REQUIREMENTS provider c;
          missingEvents = missing_credentials DELIVERY_EVENT_SECRETS provider c in
      [js ''OUTBOUND_PROVIDER  '' @ js_string provider] @ capability_lines
      @ [js ''Send: '' @ (if missingSend = [] then js ''CONFIGURED'' else js ''NOT CONFIGURED (missing '' @ comma_text missingSend @ js '')''),
         js ''Delivery events: '' @ (if missingEvents = [] then js ''CONFIGURED'' else js ''MANUAL REQUIRED / NOT CONFIGURED (send-only)''),
         js ''Routing sync: '' @ (if credential_of c ''CLOUDFLARE_ROUTING_READ_TOKEN'' \<noteq> [] then js ''CONFIGURED''
           else js ''NOT CONFIGURED (manual Email Routing)''),
         js ''Credentials: '' @ nat_text (length (filter (\<lambda>n. credential_of c n \<noteq> []) CREDENTIAL_KEYS)) @ js ''/''
           @ nat_text (length CREDENTIAL_KEYS) @ js '' schema keys present''])"

definition provider_status :: "operator_env \<Rightarrow> unit op" where
  "provider_status E =
     bindE (loadOperatorConfig E) (\<lambda>config.
     bindE (loadCredentials E) (\<lambda>c.
     bindE (loadSetupState E) (\<lambda>state.
     bindE (print_lines (provider_lines config c)) (\<lambda>_.
     bindE (liftE (state_line state)) printE))))"

definition provider_main :: "operator_env \<Rightarrow> jstr list \<Rightarrow> unit op" where
  "provider_main E argv =
     (let command = (case argv of c # _ \<Rightarrow> or_else c (js ''status'') | [] \<Rightarrow> js ''status'');
          arg = (case argv of _ # a # _ \<Rightarrow> a | _ \<Rightarrow> []) in
      if command = js ''set'' then setProvider E arg
      else if command = js ''remove'' then removeProvider E arg (js ''--force'' \<in> set argv)
      else if command = js ''recover'' then recoverProvider E
      else if command = js ''status'' then provider_status E
      else exit_with ''usage'' (js ''usage: node scripts/provider.mjs <set|remove|recover|status> [provider] [--force]''))"

end
