(* ===== verification/Switching.thy ===== *)
theory Switching
  imports Provider_Switch
begin

text \<open>
  The switch of the provider has a single controlled point: the local documents change only after Wrangler has accepted the next
  configuration in a dry run and deployed it, at most one deployment is run, and a command that returns leaves documents that
  agree with each other. All of it holds whenever the process is killed and whatever fails.
\<close>

section \<open>What the switch is about\<close>

definition documents :: "machine \<Rightarrow> jstr option \<times> jstr option \<times> jstr option" where
  "documents w = (files w GENERATED_FILE, files w STATE_FILE, files w CONFIG_FILE)"

text \<open>The deployments of NEXT that were run, rehearsed or real, and whether they succeeded.\<close>

definition is_release :: "command \<Rightarrow> bool" where
  "is_release c \<longleftrightarrow> cm_argv c = deploy_dry_run \<or> cm_argv c = deploy_next"

definition releases :: "machine \<Rightarrow> (bool \<times> bool) list" where
  "releases w = map (\<lambda>c. (cm_argv c = deploy_next, cm_ok c)) (filter is_release (commands w))"

definition still :: "jstr option \<times> jstr option \<times> jstr option \<Rightarrow> (bool \<times> bool) list \<Rightarrow> machine \<Rightarrow> bool" where
  "still D X w \<longleftrightarrow> documents w = D \<and> releases w = X"

abbreviation document_files :: "jstr set" where
  "document_files \<equiv> {GENERATED_FILE, STATE_FILE, CONFIG_FILE}"

named_theorems still_intros \<open>operations that leave the documents and the deployments alone\<close>

lemma keeps_still:
  assumes "writes_only S m" "runs_nothing m" "S \<inter> document_files = {}"
  shows "keeps (still D X) m"
proof (rule keepsI)
  fix w assume w: "still D X w"
  obtain r w' where run: "m w = (r, w')" by fastforce
  have "documents w' = documents w" using writes_onlyD [OF assms(1) run] assms(3) by (auto simp: documents_def)
  moreover have "releases w' = releases w" using runs_nothingD [OF assms(2) run] by (simp add: releases_def)
  ultimately show "still D X (snd (m w))" using w run by (simp add: still_def)
qed

lemma distinct_files:
  "OPERATION_JOURNAL_FILE \<notin> document_files" "temporary OPERATION_JOURNAL_FILE \<notin> document_files"
  "DEFAULT_CREDENTIALS_FILE \<notin> document_files" "temporary DEFAULT_CREDENTIALS_FILE \<notin> document_files"
  "NEXT \<notin> document_files" "NEXT_CONFIG \<notin> document_files" "NEXT_STATE \<notin> document_files"
  by code_simp+

lemma still_quiet:
  assumes "\<And>S. writes_only S m" "runs_nothing m"
  shows "keeps (still D X) m"
  by (rule keeps_still [OF assms(1) [of "{}"] assms(2)]) simp

lemma still_journal [still_intros]: "keeps (still D X) (writeOperationJournal E v)"
  unfolding writeOperationJournal_def
  by (rule keeps_still [of "{OPERATION_JOURNAL_FILE, temporary OPERATION_JOURNAL_FILE}"])
    (use distinct_files in \<open>auto intro!: frame_intros\<close>)

lemma still_set [still_intros]: "keeps (still D X) (setCredential E k v)"
  by (rule keeps_still [OF frame_set]) (use distinct_files in auto)

lemma still_file [still_intros]:
  "p \<notin> document_files \<Longrightarrow> keeps (still D X) (remove_file E p)" "p \<notin> document_files \<Longrightarrow> keeps (still D X) (write_text E p t)"
  by (rule keeps_still [of "{p}"]; auto intro!: frame_intros)+

lemma still_wrangler:
  assumes "wranglerArgs args \<noteq> deploy_dry_run" "wranglerArgs args \<noteq> deploy_next"
  shows "keeps (still D X) (runWrangler E args input)"
proof (rule keepsI)
  fix w assume w: "still D X w"
  obtain r w' where run: "runWrangler E args input w = (r, w')" by fastforce
  have fr: "writes_only {} (runWrangler E args input)" by (rule frame_intros)
  have "documents w' = documents w" using writes_onlyD [OF fr run] by (simp add: documents_def)
  moreover have "releases w' = releases w" using runWrangler_log [OF run] assms by (auto simp: releases_def is_release_def)
  ultimately show "still D X (snd (runWrangler E args input w))" using w run by (simp add: still_def)
qed

lemma still_capture: "wranglerArgs args \<noteq> deploy_dry_run \<Longrightarrow> wranglerArgs args \<noteq> deploy_next \<Longrightarrow> keeps (still D X) (runCaptureWrangler E args)"
  unfolding runCaptureWrangler_def by (rule still_wrangler)

lemma still_inherit: "wranglerArgs args \<noteq> deploy_dry_run \<Longrightarrow> wranglerArgs args \<noteq> deploy_next \<Longrightarrow> keeps (still D X) (runInheritWrangler E args)"
  unfolding runInheritWrangler_def by (intro keeps_bind keeps_return still_wrangler)

lemma still_print [still_intros]: "keeps (still D X) (printE l)"
  by (rule still_quiet) (rule frame_intros)+

lemma still_ends [still_intros]:
  "keeps (still D X) (failE program code l)" "keeps (still D X) (provider_fail code l)" "keeps (still D X) (exit_with code l)"
  "keeps (still D X) (print_lines ls)" "keeps (still D X) (unless b l)"
  unfolding provider_fail_def failE_def exit_with_def print_lines_def unless_def
  by (intro keeps_flow still_print)+

lemma still_load [still_intros]:
  "keeps (still D X) (loadCredentials E)" "keeps (still D X) (loadOperatorConfig E)" "keeps (still D X) (loadSetupState E)"
  "keeps (still D X) (loadGeneratedConfig E)" "keeps (still D X) (readOperationJournal E)" "keeps (still D X) (currentGitSha E)"
  "keeps (still D X) (read_json E p)" "keeps (still D X) (exists_file E p)"
  by (rule still_quiet; rule frame_intros)+

lemma still_api [still_intros]: "keeps (still D X) (api_call E request)"
  unfolding api_call_def by (rule still_quiet; rule frame_tick) (simp_all add: writes_only_def runs_nothing_def)

lemma still_clear [still_intros]: "keeps (still D X) (clearOperationJournal E)"
  unfolding clearOperationJournal_def by (rule still_file(1)) (rule distinct_files)

lemma still_commands [still_intros]:
  "keeps (still D X) (runWrangler E (secret_put k config) v)" "keeps (still D X) (runWrangler E (secret_bulk config) v)"
  "keeps (still D X) (runCaptureWrangler E cloudflareQueueListArgv)"
  "keeps (still D X) (runCaptureWrangler E (cloudflareQueueSubscriptionListArgv q))"
  "keeps (still D X) (runInheritWrangler E (queue_create q))"
  "keeps (still D X) (runInheritWrangler E (cloudflareQueueSubscriptionUpdateArgv q i))"
  "keeps (still D X) (runInheritWrangler E (cloudflareQueueSubscriptionCreateArgv q z d))"
  "keeps (still D X) (runInheritWrangler E (cloudflareQueueSubscriptionDeleteArgv q i))"
  by ((intro still_wrangler still_capture still_inherit); simp add: wranglerArgs_def words_of_def deploy_dry_run_def deploy_next_def
    secret_put_def secret_bulk_def cloudflareQueueListArgv_def cloudflareQueueSubscriptionListArgv_def queue_create_def
    cloudflareQueueSubscriptionUpdateArgv_def cloudflareQueueSubscriptionCreateArgv_def cloudflareQueueSubscriptionDeleteArgv_def)+

lemma still_fetch [still_intros]: "keeps (still D X) (resendFetch E m path body c)" "keeps (still D X) (brevoFetch E m path body c)"
  unfolding resendFetch_def brevoFetch_def provider_fetch_def by (intro keeps_flow still_intros)+

lemma still_secret [still_intros]: "keeps (still D X) (writeSecret E name v)"
  unfolding writeSecret_def by (intro keeps_flow still_intros)

lemma still_hooks [still_intros]:
  "keeps (still D X) (resend_webhook E c canonical existing)" "keeps (still D X) (brevo_webhook E c canonical existing)"
  unfolding resend_webhook_def brevo_webhook_def by (intro keeps_flow still_intros)+

lemma keeps_bool: "keeps I m \<Longrightarrow> keeps I n \<Longrightarrow> keeps I (case b of True \<Rightarrow> m | False \<Rightarrow> n)"
  by (cases b) simp_all

lemma still_queue [still_intros]:
  "keeps (still D X) (ensure_queue E q)" "keeps (still D X) (ensure_subscription E q d z existing)"
  unfolding ensure_queue_def ensure_subscription_def
  by (intro keeps_flow keeps_bool still_intros)+

lemma still_reconcile [still_intros]:
  "keeps (still D X) (reconcileResend E appOrigin c (writeSecret E))" "keeps (still D X) (reconcileBrevo E appOrigin c)"
  "keeps (still D X) (reconcileCloudflare E workerName mailDomain zoneId)"
  unfolding reconcileResend_def reconcileBrevo_def reconcileCloudflare_def by (intro keeps_flow still_intros)+

lemma still_secrets [still_intros]:
  "keeps (still D X) (uploadSecrets E provider c)" "keeps (still D X) (removeWorkerSecrets E names)"
  unfolding uploadSecrets_def removeWorkerSecrets_def by (intro keeps_flow still_intros)+

lemma still_reconcileFor [still_intros]:
  "keeps (still D X) (reconcileFor E provider plan config c)" "keeps (still D X) (print_report what r)"
  unfolding reconcileFor_def print_report_def Let_def by (intro keeps_flow still_intros)+

lemma still_gate [still_intros]:
  "keeps (still D X) (assertNoRecoveryPending E)" "keeps (still D X) (validateCurrentState E)"
  "keeps (still D X) (check_state E operator state generated sha)"
  unfolding assertNoRecoveryPending_def validateCurrentState_def check_state_def by (intro keeps_flow still_intros)+

lemma still_package [still_intros]: "keeps (still D X) (buildNextPackage E current provider c)"
  unfolding buildNextPackage_def by (intro keeps_flow still_intros)

lemma still_completion [still_intros]: "keeps (still D X) (printCompletion E provider plan config)"
  unfolding printCompletion_def by (intro keeps_flow still_intros)

lemma still_finish [still_intros]: "keeps (still D X) (finish_switch E provider current p)"
  unfolding finish_switch_def by (intro keeps_flow keeps_try still_intros distinct_files)

section \<open>One point of no return\<close>

definition switch_outcome :: "jstr option \<times> jstr option \<times> jstr option \<Rightarrow> (bool \<times> bool) list \<Rightarrow> machine \<Rightarrow> bool" where
  "switch_outcome D X w \<longleftrightarrow> releases w = X @ [(False, True), (True, True)]
     \<or> (documents w = D \<and> releases w \<in> {X, X @ [(False, False)], X @ [(False, True)], X @ [(False, True), (True, False)]})"

lemma release_triple:
  assumes "args = deploy_dry_run \<or> args = deploy_next"
  shows "triple (still D X) (runWrangler E args input) (\<lambda>reply. still D (X @ [(args = deploy_next, cr_ok reply)]))
    (\<lambda>_ w. still D X w \<or> (\<exists>b. still D (X @ [(args = deploy_next, b)]) w))"
proof (rule tripleI)
  fix w assume w: "still D X w"
  have argv: "wranglerArgs args = args" using assms by (auto simp: wranglerArgs_def deploy_dry_run_def deploy_next_def)
  obtain r w' where run: "runWrangler E args input w = (r, w')" by fastforce
  have fr: "writes_only {} (runWrangler E args input)" by (rule frame_intros)
  have d: "documents w' = D" using writes_onlyD [OF fr run] w by (simp add: documents_def still_def)
  have "(\<exists>b. releases w' = X @ [(args = deploy_next, b)] \<and> (\<forall>reply. r = Inr reply \<longrightarrow> b = cr_ok reply))
    \<or> (releases w' = X \<and> (\<exists>e. r = Inl e))"
    using runWrangler_log [OF run] w assms unfolding argv by (auto simp: releases_def still_def is_release_def)
  then show "case runWrangler E args input w of (r, w') \<Rightarrow> (case r of
      Inl e \<Rightarrow> still D X w' \<or> (\<exists>b. still D (X @ [(args = deploy_next, b)]) w')
    | Inr reply \<Rightarrow> still D (X @ [(args = deploy_next, cr_ok reply)]) w')"
    using run d by (auto simp: still_def split: sum.split)
qed

lemma dry_is_not_deploy: "deploy_dry_run \<noteq> deploy_next"
  by (simp add: deploy_dry_run_def deploy_next_def)

lemma dry_run_triple:
  "triple (still D X) (runCaptureWrangler E deploy_dry_run) (\<lambda>reply. still D (X @ [(False, cr_ok reply)])) (\<lambda>_. switch_outcome D X)"
  unfolding runCaptureWrangler_def
  by (rule triple_conseq [OF release_triple [of deploy_dry_run D X E "[]"]])
    (auto simp: dry_is_not_deploy still_def switch_outcome_def)

lemma deploy_triple:
  "triple (still D (X @ [(False, True)])) (runInheritWrangler E deploy_next)
    (\<lambda>ok. still D (X @ [(False, True), (True, ok)])) (\<lambda>_. switch_outcome D X)"
  unfolding runInheritWrangler_def
proof (rule triple_bind)
  show "triple (still D (X @ [(False, True)])) (runWrangler E deploy_next [])
      (\<lambda>reply. still D (X @ [(False, True), (True, cr_ok reply)])) (\<lambda>_. switch_outcome D X)"
    by (rule triple_conseq [OF release_triple [of deploy_next D "X @ [(False, True)]" E "[]"]])
      (auto simp: still_def switch_outcome_def)
qed (simp add: triple_def returnE_def)

lemma still_triple:
  assumes "keeps (still D X) m" "\<And>w. still D X w \<Longrightarrow> switch_outcome D Y w"
  shows "triple (still D X) m (\<lambda>_. still D X) (\<lambda>_. switch_outcome D Y)"
  by (rule triple_conseq [OF assms(1) [folded triple_keeps]]) (simp_all add: assms(2))

lemma still_bind:
  assumes "keeps (still D Z) m" "\<And>w. still D Z w \<Longrightarrow> switch_outcome D X w"
    "\<And>x. triple (still D Z) (f x) Q (\<lambda>_. switch_outcome D X)"
  shows "triple (still D Z) (bindE m f) Q (\<lambda>_. switch_outcome D X)"
  by (rule triple_bind [OF still_triple [OF assms(1,2)] assms(3)])

lemma still_outcome:
  "still D X w \<Longrightarrow> switch_outcome D X w" "still D (X @ [(False, b)]) w \<Longrightarrow> switch_outcome D X w"
  "still D (X @ [(False, True), (True, b)]) w \<Longrightarrow> switch_outcome D X w"
  by (auto simp: still_def switch_outcome_def)

definition never_returns :: "'a op \<Rightarrow> bool" where
  "never_returns m \<longleftrightarrow> (\<forall>w. \<exists>e. fst (m w) = Inl e)"

lemma never_fail [simp]:
  "never_returns (throwE e)" "never_returns (failE program code l)" "never_returns (provider_fail code l)" "never_returns (exit_with code l)"
  by (simp_all add: never_returns_def provider_fail_def failE_def exit_with_def bindE_def act_simps printE_def)

lemma never_bind [simp]: "(\<And>x. never_returns (f x)) \<Longrightarrow> never_returns (bindE m f)"
  by (simp add: never_returns_def bindE_def split: prod.split sum.split)

lemma triple_stops:
  assumes "keeps (still D Z) m" "\<And>w. still D Z w \<Longrightarrow> switch_outcome D X w" "never_returns m"
  shows "triple (still D Z) m Q (\<lambda>_. switch_outcome D X)"
proof (rule tripleI)
  fix w assume w: "still D Z w"
  obtain r w' where run: "m w = (r, w')" by fastforce
  have "still D Z w'" by (rule keepsD [OF assms(1) w run])
  moreover obtain e where "r = Inl e" using assms(3) run unfolding never_returns_def by (metis fst_conv)
  ultimately show "case m w of (r, w') \<Rightarrow> (case r of Inl e \<Rightarrow> switch_outcome D X w' | Inr x \<Rightarrow> Q x w')"
    using run assms(2) by simp
qed

lemma prepare_triple:
  "triple (still D X) (prepare_switch E provider current p c) (\<lambda>_. still D (X @ [(False, True)])) (\<lambda>_. switch_outcome D X)"
  unfolding prepare_switch_def
proof (rule still_bind [OF still_journal still_outcome(1)], assumption,
    rule still_bind [OF still_file(2) [OF distinct_files(5)] still_outcome(1)], assumption, rule triple_bind [OF dry_run_triple])
  fix dry
  let ?stop = "bindE (remove_file E NEXT) (\<lambda>_. bindE (clearOperationJournal E) (\<lambda>_.
       provider_fail ''provider_next_config_invalid'' (js ''the NEXT provider config failed wrangler validation; nothing was changed.'')))"
  let ?go = "bindE (printE (js ''provider: NEXT config for OUTBOUND_PROVIDER='' @ js_string provider @ js '' validated (wrangler dry-run).'')) (\<lambda>_.
       bindE (uploadSecrets E provider c) (\<lambda>_.
       bindE (reconcileFor E provider (np_plan p) (cu_operator current) c) (print_report ''webhook reconciliation'')))"
  have "keeps (still D (X @ [(False, cr_ok dry)])) ?stop" by (intro keeps_flow still_intros distinct_files)
  then have stop: "triple (still D (X @ [(False, cr_ok dry)])) ?stop (\<lambda>_. still D (X @ [(False, True)])) (\<lambda>_. switch_outcome D X)"
    by (rule triple_stops) (simp_all add: still_outcome)
  have "keeps (still D (X @ [(False, True)])) ?go" by (intro keeps_flow still_intros)
  then have go: "triple (still D (X @ [(False, True)])) ?go (\<lambda>_. still D (X @ [(False, True)])) (\<lambda>_. switch_outcome D X)"
    by (rule still_triple) (rule still_outcome)
  show "triple (still D (X @ [(False, cr_ok dry)])) (if \<not> cr_ok dry then ?stop else ?go)
      (\<lambda>_. still D (X @ [(False, True)])) (\<lambda>_. switch_outcome D X)"
    using stop go by (cases "cr_ok dry") simp_all
qed

text \<open>After the deployment only the log of the deployments matters.\<close>

definition released :: "(bool \<times> bool) list \<Rightarrow> machine \<Rightarrow> bool" where
  "released X w \<longleftrightarrow> releases w = X @ [(False, True), (True, True)]"

lemma keeps_released: "runs_nothing m \<Longrightarrow> keeps (released X) m"
  by (simp add: keeps_def runs_nothing_def released_def releases_def)

lemma released_still: "(\<And>D X. keeps (still D X) m) \<Longrightarrow> keeps (released X) m"
  by (simp add: keeps_def still_def released_def)

lemma runs_documents [frame_intros]:
  "runs_nothing (writeGeneratedConfig E v)" "runs_nothing (writeSetupState E v)" "runs_nothing (writeOperatorConfig E v)"
  "runs_nothing (writeOperationJournal E v)" "runs_nothing (commit_documents E g s v)"
  unfolding writeGeneratedConfig_def writeSetupState_def writeOperatorConfig_def writeOperationJournal_def commit_documents_def
  by (intro frame_intros)+

lemma switch_triple:
  "triple (still D (X @ [(False, True)])) (switch_remote E p) (\<lambda>_. released X) (\<lambda>_. switch_outcome D X)"
  unfolding switch_remote_def
proof (rule triple_bind [OF deploy_triple])
  fix deployed
  let ?Z = "X @ [(False, True), (True, deployed)]"
  let ?stop = "bindE (clearOperationJournal E) (\<lambda>_. provider_fail ''deploy_failed''
         (js ''deploying the NEXT provider config failed; the previous provider remains active and all local files are unchanged.'')) :: unit op"
  let ?go = "bindE (readOperationJournal E) (\<lambda>journal.
       bindE (writeOperationJournal E (JObj (with_fields (spread journal) [(''phase'', JStr (js ''remote_switched''))]))) (\<lambda>_.
       tryE (commit_documents E (np_generated p) (np_state p) (np_operator p))
         (\<lambda>e. exit_with ''local_write_failed'' (js ''provider: remote switch succeeded but local write failed ('' @ message_of e
           @ js ''). Run `npm run provider:recover`.''))))"
  have "keeps (still D ?Z) ?stop" by (intro keeps_flow still_intros)
  then have stop: "triple (still D ?Z) ?stop (\<lambda>_. released X) (\<lambda>_. switch_outcome D X)"
    by (rule triple_stops) (simp_all add: still_outcome)
  have "runs_nothing ?go" unfolding exit_with_def by (intro frame_intros)
  then have "keeps (released X) ?go" by (rule keeps_released)
  then have go: "triple (released X) ?go (\<lambda>_. released X) (\<lambda>_. switch_outcome D X)"
    by (rule triple_conseq [OF iffD2 [OF triple_keeps]]) (simp_all add: released_def switch_outcome_def)
  show "triple (still D ?Z) (if \<not> deployed then ?stop else ?go) (\<lambda>_. released X) (\<lambda>_. switch_outcome D X)"
  proof (cases deployed)
    case True
    have "triple (still D ?Z) ?go (\<lambda>_. released X) (\<lambda>_. switch_outcome D X)"
      by (rule triple_conseq [OF go]) (simp_all add: still_def released_def True)
    then show ?thesis using True by simp
  next
    case False
    then show ?thesis using stop by simp
  qed
qed

lemma outcome_keeps: "still D X w \<Longrightarrow> switch_outcome D X w" "released X w \<Longrightarrow> switch_outcome D X w"
  by (rule still_outcome(1)) (simp_all add: released_def switch_outcome_def)

lemma triple_either: "triple P m Q R \<Longrightarrow> triple P n Q R \<Longrightarrow> triple P (if c then m else n) Q R"
  by simp

lemma set_triple: "triple (still D X) (setProvider E arg) (\<lambda>_. released X) (\<lambda>_. switch_outcome D X)"
proof -
  have finish: "triple (released X) (finish_switch E provider current p) (\<lambda>_. released X) (\<lambda>_. switch_outcome D X)" for provider current p
  proof -
    have "keeps (released X) (finish_switch E provider current p)" by (rule released_still [OF still_finish])
    then show ?thesis unfolding triple_keeps [symmetric] by (rule triple_conseq) (simp_all add: outcome_keeps)
  qed
  have stop: "triple (still D X) (provider_fail code l :: unit op) (\<lambda>_. released X) (\<lambda>_. switch_outcome D X)" for code l
    by (rule triple_stops [OF still_ends(2) outcome_keeps(1)]) simp_all
  have "triple (still D X) (bindE (assertNoRecoveryPending E) (\<lambda>_. bindE (loadCredentials E) (\<lambda>c.
        bindE (validateCurrentState E) (\<lambda>current. bindE (buildNextPackage E current (JStr arg) c) (\<lambda>p.
        bindE (prepare_switch E (JStr arg) current p c) (\<lambda>_. bindE (switch_remote E p) (\<lambda>_.
        finish_switch E (JStr arg) current p)))))))
      (\<lambda>_. released X) (\<lambda>_. switch_outcome D X)"
    by (rule still_bind [OF still_gate(1) outcome_keeps(1)], assumption, rule still_bind [OF still_load(1) outcome_keeps(1)], assumption,
        rule still_bind [OF still_gate(2) outcome_keeps(1)], assumption, rule still_bind [OF still_package outcome_keeps(1)], assumption,
        rule triple_bind [OF prepare_triple], rule triple_bind [OF switch_triple finish])
  then show ?thesis unfolding setProvider_def Let_def by (rule triple_either [OF stop])
qed

text \<open>
  C15. Switching the provider has one point of no return. Whatever fails and wherever the process is killed, \<open>provider set\<close> runs
  at most one rehearsal and one deployment of the next configuration, in this order. Either both succeeded, or the generated
  configuration, the setup state and the operator's configuration are untouched and the command did not return; in particular,
  no document changes before the deployment has succeeded.
\<close>

theorem switch_single_point:
  "case setProvider E arg w of (r, w') \<Rightarrow>
     releases w' = releases w @ [(False, True), (True, True)]
     \<or> (documents w' = documents w \<and> (\<exists>e. r = Inl e)
        \<and> releases w' \<in> (\<lambda>rs. releases w @ rs) ` {[], [(False, False)], [(False, True)], [(False, True), (True, False)]})"
proof -
  obtain r w' where run: "setProvider E arg w = (r, w')" by fastforce
  have start: "still (documents w) (releases w) w" by (simp add: still_def)
  show ?thesis
  proof (cases r)
    case (Inl e)
    have "switch_outcome (documents w) (releases w) w'" using triple_Inl [OF set_triple start run [unfolded Inl]] .
    then show ?thesis unfolding run Inl switch_outcome_def by simp
  next
    case (Inr u)
    have "released (releases w) w'" using triple_Inr [OF set_triple start run [unfolded Inr]] .
    then show ?thesis unfolding run released_def by simp
  qed
qed

section \<open>What a command that returns leaves behind\<close>

lemma remove_returns:
  assumes "remove_file E p w = (Inr u, w')"
  shows "files w' = (files w)(p := None)"
  using assms by (auto simp: remove_file_def tick_def set_file_def Let_def split: if_splits)

lemma document_paths:
  "GENERATED_FILE \<noteq> STATE_FILE" "GENERATED_FILE \<noteq> CONFIG_FILE" "STATE_FILE \<noteq> CONFIG_FILE"
  "GENERATED_FILE \<notin> {STATE_FILE, temporary STATE_FILE, CONFIG_FILE, temporary CONFIG_FILE}"
  "STATE_FILE \<notin> {CONFIG_FILE, temporary CONFIG_FILE}" "NEXT \<noteq> OPERATION_JOURNAL_FILE"
  "NEXT \<noteq> NEXT_CONFIG" "NEXT \<noteq> NEXT_STATE"
  by code_simp+

definition document_texts :: "jsval \<Rightarrow> jsval \<Rightarrow> jsval \<Rightarrow> jstr option \<times> jstr option \<times> jstr option" where
  "document_texts generated state operator =
     (Some (document_text generated), Some (document_text state), Some (document_text (canonicalOperatorConfig operator)))"

lemma commit_returns:
  assumes "commit_documents E generated state operator w = (Inr (), w')"
  shows "documents w' = document_texts generated state operator"
proof -
  from assms obtain w1 w2 where 1: "writeJsonAtomic E GENERATED_FILE generated w = (Inr (), w1)"
    and 2: "writeJsonAtomic E STATE_FILE state w1 = (Inr (), w2)"
    and 3: "writeJsonAtomic E CONFIG_FILE (canonicalOperatorConfig operator) w2 = (Inr (), w')"
    by (auto simp: commit_documents_def writeGeneratedConfig_def writeSetupState_def writeOperatorConfig_def elim!: bindE_InrE)
  have f2: "writes_only {STATE_FILE, temporary STATE_FILE} (writeJsonAtomic E STATE_FILE state)"
    and f3: "writes_only {CONFIG_FILE, temporary CONFIG_FILE} (writeJsonAtomic E CONFIG_FILE (canonicalOperatorConfig operator))"
    by (rule frame_write; simp)+
  have "files w' GENERATED_FILE = files w1 GENERATED_FILE" "files w' STATE_FILE = files w2 STATE_FILE"
    using writes_onlyD [OF f3 3] writes_onlyD [OF f2 2] document_paths by auto
  then show ?thesis
    using json_write_atomic [OF 1] json_write_atomic [OF 2] json_write_atomic [OF 3] by (auto simp: documents_def document_texts_def)
qed

lemma still_documents:
  assumes "\<And>X. keeps (still D X) m" "documents w = D" "m w = (r, w')"
  shows "documents w' = D"
  using keepsD [OF assms(1) [of "releases w"], of w r w'] assms(2,3) by (simp add: still_def)

lemma check_returns:
  assumes "check_state E operator state generated sha w = (Inr u, w')"
  shows "w' = w" "\<exists>v. validateOperatorState (platform_of (host_of E)) operator state generated sha = Inr v"
  using assms by (auto simp: check_state_def act_simps map_sum_def split: sum.splits)

text \<open>The fields in which the operator's configuration has to agree with the setup state.\<close>

definition AGREED_FIELDS :: "string list" where
  "AGREED_FIELDS = [''worker_name'', ''d1_name'', ''r2_name'', ''mail_domain'', ''cloudflare_zone_id'', ''cloudflare_account_id'', ''outbound_provider'']"

lemma field_obj: "field (obj kvs) k = (case map_of kvs k of None \<Rightarrow> JUndef | Some v \<Rightarrow> v)"
proof -
  have "map_of (map (\<lambda>(k, v). (js k, v)) kvs) (js k) = map_of kvs k" by (induction kvs) auto
  then show ?thesis by (simp add: obj_def field_def split: option.split)
qed

lemma canonical_field:
  assumes "k \<in> set OPERATOR_CONFIG_KEYS"
  shows "field (canonicalOperatorConfig c) k = (if field c k = JStr [] then JUndef else field c k)"
proof -
  have "map_of (concat (map (\<lambda>k. let v = field c k in if v \<noteq> JUndef \<and> v \<noteq> JStr [] then [(k, v)] else []) ks)) k
      = (if k \<in> set ks \<and> field c k \<noteq> JUndef \<and> field c k \<noteq> JStr [] then Some (field c k) else None)" for ks
    by (induction ks) (auto simp: Let_def)
  then show ?thesis using assms unfolding canonicalOperatorConfig_def by (simp add: field_obj)
qed

lemma validate_canonical:
  assumes "validateOperatorState P c s g sha = Inr v" "\<forall>k \<in> set AGREED_FIELDS. field s k \<noteq> JStr []"
  shows "validateOperatorState P (canonicalOperatorConfig c) s g sha = Inr v"
proof -
  have ok: "mismatches P c s g sha = []" using assms(1) by (auto simp: validateOperatorState_def Let_def split: if_splits list.splits)
  have agreed: "strict_eq (field s k) (field c k)" if "k \<in> set AGREED_FIELDS" for k
    using ok that by (auto simp: mismatches_def AGREED_FIELDS_def Let_def split: if_splits)
  have same: "field (canonicalOperatorConfig c) k = field c k" if "k \<in> set AGREED_FIELDS" for k
  proof -
    have "field c k \<noteq> JStr []"
    proof
      assume "field c k = JStr []"
      then have "strict_eq (field s k) (JStr [])" using agreed [OF that] by simp
      then have "field s k = JStr []" by (cases "field s k") simp_all
      then show False using assms(2) that by blast
    qed
    moreover have "k \<in> set OPERATOR_CONFIG_KEYS" using that by (auto simp: AGREED_FIELDS_def OPERATOR_CONFIG_KEYS_def)
    ultimately show ?thesis by (simp add: canonical_field)
  qed
  have "mismatches P (canonicalOperatorConfig c) s g sha = mismatches P c s g sha"
    unfolding mismatches_def Let_def by (simp add: same AGREED_FIELDS_def)
  then show ?thesis using assms(1) unfolding validateOperatorState_def by (simp only:)
qed

text \<open>
  The three documents on the disk pass the validation together, against a commit that \<open>git rev-parse HEAD\<close> named.
\<close>

definition documents_agree :: "operator_env \<Rightarrow> machine \<Rightarrow> bool" where
  "documents_agree E w \<longleftrightarrow> (\<exists>generated state config k v.
     documents w = (Some (document_text generated), Some (document_text state), Some (document_text config))
     \<and> cr_ok (git_head E k)
     \<and> validateOperatorState (platform_of (host_of E)) config state generated (trim (cr_stdout (git_head E k))) = Inr v)"

text \<open>As above, but the setup state on the disk may have the empty text for one of the agreed fields.\<close>

definition documents_recovered :: "operator_env \<Rightarrow> machine \<Rightarrow> bool" where
  "documents_recovered E w \<longleftrightarrow> (\<exists>generated state config k.
     documents w = (Some (document_text generated), Some (document_text state), Some (document_text config))
     \<and> cr_ok (git_head E k)
     \<and> ((\<exists>v. validateOperatorState (platform_of (host_of E)) config state generated (trim (cr_stdout (git_head E k))) = Inr v)
        \<or> (\<exists>name \<in> set AGREED_FIELDS. field state name = JStr [])))"

lemma currentGitSha_Inr: "currentGitSha E w = (Inr sha, w') \<Longrightarrow> \<exists>k. cr_ok (git_head E k) \<and> sha = trim (cr_stdout (git_head E k))"
  by (auto simp: currentGitSha_def tick_def Let_def split: if_splits)

lemma tryE_returns:
  assumes "tryE m h w = (Inr x, w')" "\<And>e. never_returns (h e)"
  shows "m w = (Inr x, w')"
proof (cases "m w")
  case (Pair r w1)
  then show ?thesis
  proof (cases r)
    case (Inl e)
    obtain e' where "fst (h e w1) = Inl e'" using assms(2) unfolding never_returns_def by blast
    then have False using assms(1) Pair Inl by (auto simp: tryE_def split: if_splits)
    then show ?thesis ..
  next
    case (Inr y)
    then show ?thesis using assms(1) Pair by (simp add: tryE_def)
  qed
qed

lemma finish_returns:
  assumes "finish_switch E provider current p w = (Inr (), w')"
  shows "documents w' = documents w" "files w' OPERATION_JOURNAL_FILE = None" "files w' NEXT = None"
    "\<exists>v. validateOperatorState (platform_of (host_of E)) (np_operator p) (np_state p) (np_generated p) (cu_sha current) = Inr v"
proof -
  show "documents w' = documents w" by (rule still_documents [OF still_finish _ assms]) simp
  from assms obtain w1 w2 w3 w4 w5 w6 w7 where n: "remove_file E NEXT w1 = (Inr (), w2)" "remove_file E NEXT_CONFIG w2 = (Inr (), w3)"
      "remove_file E NEXT_STATE w3 = (Inr (), w4)" "remove_file E OPERATION_JOURNAL_FILE w4 = (Inr (), w5)"
    and c: "tryE (check_state E (np_operator p) (np_state p) (np_generated p) (cu_sha current))
       (\<lambda>e. provider_fail ''operator_state_inconsistent'' (js ''post-switch validation failed ('' @ message_of e
         @ js ''); run `npm run provider:recover`.''))  w5 = (Inr (), w6)"
    and t: "printE (js ''provider: OUTBOUND_PROVIDER='' @ js_string provider @ js '' committed (single switch point: the NEXT deploy).'') w6 = (Inr (), w7)"
      "printCompletion E provider (np_plan p) (cu_operator current) w7 = (Inr (), w')"
    unfolding finish_switch_def clearOperationJournal_def by (elim bindE_InrE) simp
  have c': "check_state E (np_operator p) (np_state p) (np_generated p) (cu_sha current) w5 = (Inr (), w6)"
    by (rule tryE_returns [OF c]) simp
  show "\<exists>v. validateOperatorState (platform_of (host_of E)) (np_operator p) (np_state p) (np_generated p) (cu_sha current) = Inr v"
    by (rule check_returns [OF c'])
  have fr: "writes_only {} (printCompletion E provider (np_plan p) (cu_operator current))"
    unfolding printCompletion_def Let_def by (intro frame_intros)
  have "files w' q = files w5 q" for q
    using writes_onlyD [OF fr t(2)] check_returns(1) [OF c'] t(1) by (auto simp: printE_def)
  then show "files w' OPERATION_JOURNAL_FILE = None" "files w' NEXT = None"
    using n [THEN remove_returns] document_paths by simp_all
qed

lemma still_repair [still_intros]: "keeps (still D X) (finish_repair E journal provider)"
  unfolding finish_repair_def by (intro keeps_flow keeps_try still_intros distinct_files)

lemma repair_returns:
  assumes "repair_documents E journal operator generated sha w = (Inr (), w')" "cr_ok (git_head E k)" "sha = trim (cr_stdout (git_head E k))"
  shows "documents_recovered E w'" "files w' OPERATION_JOURNAL_FILE = None" "files w' NEXT = None"
proof -
  let ?state = "recovered_state (platform_of (host_of E)) sha operator generated"
  from assms(1) obtain w1 w2 where c: "check_state E operator ?state generated sha w = (Inr (), w1)"
    and d: "commit_documents E generated ?state operator w1 = (Inr (), w2)"
    and t: "finish_repair E journal (field ?state ''outbound_provider'') w2 = (Inr (), w')"
    unfolding repair_documents_def Let_def by (elim bindE_InrE) simp
  have disk: "documents w' = document_texts generated ?state operator"
    by (rule still_documents [OF still_repair commit_returns [OF d] t])
  obtain v where v: "validateOperatorState (platform_of (host_of E)) operator ?state generated sha = Inr v" using check_returns(2) [OF c] by blast
  have "(\<exists>v. validateOperatorState (platform_of (host_of E)) (canonicalOperatorConfig operator) ?state generated sha = Inr v)
      \<or> (\<exists>name \<in> set AGREED_FIELDS. field ?state name = JStr [])"
    using validate_canonical [OF v] by blast
  then show "documents_recovered E w'"
    unfolding documents_recovered_def using disk assms(2,3) unfolding document_texts_def by blast
  from t obtain w3 w4 w5 where "remove_file E NEXT w3 = (Inr (), w4)" "remove_file E OPERATION_JOURNAL_FILE w4 = (Inr (), w5)"
      "files w' = files w5"
    unfolding finish_repair_def clearOperationJournal_def by (elim bindE_InrE) (auto simp: printE_def)
  then show "files w' OPERATION_JOURNAL_FILE = None" "files w' NEXT = None"
    using remove_returns document_paths by simp_all
qed

lemma fail_never [simp]: "provider_fail code l w = (Inr x, w') \<longleftrightarrow> False"
  by (simp add: provider_fail_def failE_def bindE_def printE_def throwE_def)

lemma next_state_named:
  assumes "buildNextPackage E current (JStr arg) c w = (Inr p, w')" "arg \<in> js ` set VALID_PROVIDERS"
  shows "\<forall>k \<in> set AGREED_FIELDS. field (np_state p) k \<noteq> JStr []"
proof -
  let ?op = "JObj (with_fields (spread (cu_operator current)) [(''outbound_provider'', JStr arg)])"
  let ?args = "switch_args (host_of E) ?op (cu_setup current) (JStr arg)"
  obtain origin template plan generated where v: "validateProductionInputs (host_of E) ?args = Inr origin"
    and plan: "buildSetupPlan (host_of E) template ?args (field (cu_setup current) ''d1_database_id'') (JObj []) = Inr plan"
    and p: "np_state p = switch_state (platform_of (host_of E)) (cu_sha current) plan (field (cu_setup current) ''d1_database_id'') (JStr arg) generated"
    using assms(1) unfolding buildNextPackage_def Let_def
    by (auto split: if_splits sum.splits elim!: bindE_InrE simp: liftE_def)
  have mode: "sa_mode ?args = JStr (js ''production'')" by (simp add: switch_args_def Let_def)
  have pl: "pl_worker plan = sa_worker ?args" "pl_domain plan = or_text (sa_domain ?args) ''''" "pl_zone plan = or_text (sa_zone ?args) ''''"
    "pl_account plan = or_text (sa_account ?args) ''''"
    "pl_d1 plan = js_or (sa_d1 ?args) (JStr (js_string (sa_worker ?args) @ js ''-db''))"
    "pl_r2 plan = js_or (sa_r2 ?args) (JStr (js_string (sa_worker ?args) @ js ''-r2''))"
    using plan mode by (auto simp: buildSetupPlan_def Let_def is_production_def split: if_splits option.splits)
  have named: "truthy (sa_domain ?args)" "truthy (sa_zone ?args)" "hex32 (js_string (or_text (sa_account ?args) ''''))" "truthy (sa_worker ?args)"
    using v by (auto simp: validateProductionInputs_def Let_def worker_name_ok_def split: sum.splits if_splits)
  have texts: "truthy v \<Longrightarrow> or_text v t \<noteq> JStr []" "truthy v \<Longrightarrow> v \<noteq> JStr []" "hex32 (js_string v) \<Longrightarrow> v \<noteq> JStr []" for v t
    by (auto simp: or_text_def hex32_def)
  have names: "js_or v (JStr (s @ js ''-db'')) \<noteq> JStr []" "js_or v (JStr (s @ js ''-r2'')) \<noteq> JStr []" for v s
    by (auto simp: js_def)
  have "arg \<noteq> []" using assms(2) by (auto simp: VALID_PROVIDERS_def js_def)
  then show ?thesis
    unfolding p switch_state_def
    using texts(1) [OF named(1)] texts(1) [OF named(2)] texts(3) [OF named(3)] texts(2) [OF named(4)] names
    by (simp add: AGREED_FIELDS_def field_obj pl del: js_or.simps)
qed

lemma set_returns:
  assumes "setProvider E arg w = (Inr (), w')"
  shows "documents_agree E w'" "files w' OPERATION_JOURNAL_FILE = None" "files w' NEXT = None"
proof -
  from assms obtain p current c w0 w1 w2 w3 w4 where arg: "arg \<in> js ` set VALID_PROVIDERS" and cur: "validateCurrentState E w0 = (Inr current, w1)"
    and built: "buildNextPackage E current (JStr arg) c w1 = (Inr p, w2)" and s: "switch_remote E p w3 = (Inr (), w4)"
    and f: "finish_switch E (JStr arg) current p w4 = (Inr (), w')"
    by (auto simp: setProvider_def Let_def split: if_splits elim!: bindE_InrE)
  obtain k where head: "cr_ok (git_head E k)" "cu_sha current = trim (cr_stdout (git_head E k))"
    using cur by (auto simp: validateCurrentState_def elim!: bindE_InrE dest!: currentGitSha_Inr split: sum.splits)
  from s obtain deployed w5 w6 where "deployed" and t: "tryE (commit_documents E (np_generated p) (np_state p) (np_operator p))
         (\<lambda>e. exit_with ''local_write_failed'' (js ''provider: remote switch succeeded but local write failed ('' @ message_of e
           @ js ''). Run `npm run provider:recover`.'')) w6 = (Inr (), w4)"
    by (auto simp: switch_remote_def split: if_splits elim!: bindE_InrE)
  have "commit_documents E (np_generated p) (np_state p) (np_operator p) w6 = (Inr (), w4)" by (rule tryE_returns [OF t]) simp
  then have disk: "documents w' = document_texts (np_generated p) (np_state p) (np_operator p)"
    using commit_returns finish_returns(1) [OF f] by simp
  obtain v where "validateOperatorState (platform_of (host_of E)) (np_operator p) (np_state p) (np_generated p) (cu_sha current) = Inr v"
    using finish_returns(4) [OF f] by blast
  then have "validateOperatorState (platform_of (host_of E)) (canonicalOperatorConfig (np_operator p)) (np_state p) (np_generated p) (cu_sha current) = Inr v"
    using next_state_named [OF built arg] by (rule validate_canonical)
  then show "documents_agree E w'" unfolding documents_agree_def head(2) using disk head(1) unfolding document_texts_def by blast
  show "files w' OPERATION_JOURNAL_FILE = None" "files w' NEXT = None" by (rule finish_returns [OF f])+
qed

lemma recover_returns:
  assumes "recoverProvider E w = (Inr (), w')"
  shows "documents_recovered E w'" "files w' OPERATION_JOURNAL_FILE = None" "files w' NEXT = None"
proof -
  from assms obtain journal config generated sha w1 w2 w3 where git: "currentGitSha E w1 = (Inr sha, w2)"
    and rep: "repair_documents E journal (recovered_operator config generated) generated sha w3 = (Inr (), w')"
    by (auto simp: recoverProvider_def split: if_splits elim!: bindE_InrE)
  obtain k where "cr_ok (git_head E k)" "sha = trim (cr_stdout (git_head E k))" using currentGitSha_Inr [OF git] by blast
  from repair_returns [OF rep this]
  show "documents_recovered E w'" "files w' OPERATION_JOURNAL_FILE = None" "files w' NEXT = None" by blast+
qed

text \<open>
  C17. A \<open>provider set\<close> that returns leaves a consistent machine: the generated configuration, the setup state and the operator's
  configuration, as they are on the disk, pass the validation together against the commit that \<open>git\<close> named, and neither the journal nor
  the next configuration is left. The same holds for a \<open>provider recover\<close> that returns, unless the state that it wrote has the
  empty text for one of the agreed names: the operator's configuration is written without its empty fields.
\<close>

theorem switch_commits:
  assumes "m = setProvider E arg \<or> m = recoverProvider E" "m w = (Inr (), w')"
  shows "(m = setProvider E arg \<longrightarrow> documents_agree E w') \<and> documents_recovered E w'
    \<and> files w' OPERATION_JOURNAL_FILE = None \<and> files w' NEXT = None"
proof -
  have "documents_agree E w' \<Longrightarrow> documents_recovered E w'" unfolding documents_agree_def documents_recovered_def by blast
  then show ?thesis using assms set_returns [of E arg w w'] recover_returns [of E w w'] by auto
qed


section \<open>Recovery on a machine that works\<close>

definition calm :: "operator_env \<Rightarrow> bool" where
  "calm E \<longleftrightarrow> (\<forall>k. \<not> killed E k \<and> \<not> io_fails E k)"

lemma calm_calls:
  assumes "calm E"
  shows "read_text E p w = (case files w p of None \<Rightarrow> Inl (file_error ENOENT) | Some t \<Rightarrow> Inr t, w\<lparr>ticks := Suc (ticks w)\<rparr>)"
    "make_directory E w = (Inr (), w\<lparr>ticks := Suc (ticks w)\<rparr>)"
    "write_text E p t w = (Inr (), set_file p (Some t) (w\<lparr>ticks := Suc (ticks w)\<rparr>))"
    "rename_file E q p w = (case files w q of None \<Rightarrow> (Inl (file_error ENOENT), w\<lparr>ticks := Suc (ticks w)\<rparr>)
      | Some t \<Rightarrow> (Inr (), set_file q None (set_file p (Some t) (w\<lparr>ticks := Suc (ticks w)\<rparr>))))"
    "remove_file E p w = (Inr (), set_file p None (w\<lparr>ticks := Suc (ticks w)\<rparr>))"
    "exists_file E p w = (Inr (files w p \<noteq> None), w\<lparr>ticks := Suc (ticks w)\<rparr>)"
  using assms by (simp_all add: calm_def read_text_def make_directory_def write_text_def rename_file_def remove_file_def exists_file_def
      file_call_def tick_def Let_def)

lemma calm_write:
  assumes "calm E" "json_ok v"
  shows "\<exists>w'. writeJsonAtomic E p v w = (Inr (), w')"
  using assms document_reads [OF assms(2), of E]
  by (simp add: writeJsonAtomic_def bindE_def liftE_def calm_calls set_file_def)

lemma calm_commit:
  assumes "calm E" "json_ok generated" "json_ok state" "json_ok (canonicalOperatorConfig operator)"
  shows "\<exists>w'. commit_documents E generated state operator w = (Inr (), w')"
  unfolding commit_documents_def writeGeneratedConfig_def writeSetupState_def writeOperatorConfig_def bindE_def
  using calm_write [OF assms(1,2)] calm_write [OF assms(1,3)] calm_write [OF assms(1,4)] by (metis (no_types, lifting) case_prod_conv sum.case(2))

lemma calm_finish:
  assumes "calm E" "staleRuntimeSecrets (or_text (field journal ''from'') ''none'') provider = []"
  shows "\<exists>w'. finish_repair E journal provider w = (Inr (), w')"
  using assms by (simp add: finish_repair_def removeWorkerSecrets_def bindE_def tryE_def returnE_def clearOperationJournal_def calm_calls printE_def)

lemma pretty_reads_bare:
  assumes "json_ok v"
  shows "parse_json E (indented_text v) = Inr v"
proof -
  let ?num = "num_text (platform_of (host_of E))"
  have "ends_value []" by (simp add: ends_value_def)
  then have "json_value ?num (pretty_text 0 v @ []) = Some (v, [])"
    using json_pretty_reads [OF assms, of ?num] unfolding pretty_reads_def by blast
  then show ?thesis by (simp add: indented_text_def parse_json_def json_parse_def skip_space_def)
qed

lemma calm_read:
  assumes "calm E" "files w p = Some t" "parse_json E t = Inr v"
  shows "read_json E p w = (Inr v, w\<lparr>ticks := Suc (ticks w)\<rparr>)"
  using assms by (simp add: read_json_def bindE_def liftE_def calm_calls)

lemma document_itself: "is_document v \<Longrightarrow> document_or v x = v" "is_document v \<Longrightarrow> \<exists>u. property_of v n = Inr u"
  by (cases v; simp add: is_document_def document_or_def property_of_def)+

lemma calm_document:
  assumes "calm E" "files w p = Some (document_text v)" "json_ok v" "is_document v"
  shows "optional_document E p w = (Inr v, w\<lparr>ticks := Suc (ticks w)\<rparr>)"
  using calm_read [OF assms(1,2) document_reads [OF assms(3)]]
  by (simp add: optional_document_def tryE_def bindE_def returnE_def document_itself assms(4))

lemma calm_config:
  assumes "calm E" "files w (env_path E ''MAILBOX_CONFIG_FILE'' CONFIG_FILE) = Some (document_text v)" "json_ok v" "is_document v"
  shows "loadOperatorConfig E w = (Inr v, w\<lparr>ticks := Suc (ticks w)\<rparr>)"
  using calm_read [OF assms(1,2) document_reads [OF assms(3)]]
  by (simp add: loadOperatorConfig_def tryE_def bindE_def returnE_def document_itself assms(4))

lemma calm_head:
  assumes "calm E" "git_head E (ticks w) = \<lparr> cr_ok = True, cr_stdout = sha, cr_stderr = [] \<rparr>" "commit_text (trim sha)"
  shows "currentGitSha E w = (Inr (trim sha), w\<lparr>ticks := Suc (ticks w)\<rparr>)"
  using assms by (simp add: currentGitSha_def tick_def Let_def calm_def)

lemma calm_repair:
  assumes "calm E" "validateOperatorState (platform_of (host_of E)) operator state generated sha = Inr result"
    and "state = recovered_state (platform_of (host_of E)) sha operator generated"
    and "json_ok generated" "json_ok state" "json_ok (canonicalOperatorConfig operator)"
    and "staleRuntimeSecrets (or_text (field journal ''from'') ''none'') (field state ''outbound_provider'') = []"
  shows "\<exists>w'. repair_documents E journal operator generated sha w = (Inr (), w')"
proof -
  have "check_state E operator state generated sha w = (Inr (), w)" using assms(2) by (simp add: check_state_def liftE_def)
  moreover obtain w1 where "commit_documents E generated state operator w = (Inr (), w1)"
    using calm_commit [OF assms(1,4,5,6)] by blast
  moreover obtain w2 where "finish_repair E journal (field state ''outbound_provider'') w1 = (Inr (), w2)"
    using calm_finish [OF assms(1,7)] by blast
  ultimately show ?thesis by (simp add: repair_documents_def Let_def bindE_def flip: assms(3))
qed

lemma calm_recover:
  assumes "calm E" "git_head E (Suc (ticks w)) = \<lparr> cr_ok = True, cr_stdout = sha, cr_stderr = [] \<rparr>" "commit_text (trim sha)"
    and j: "files w OPERATION_JOURNAL_FILE = Some (document_text journal)" "json_ok journal" "is_document journal" "remote_switched journal"
      "field journal ''rc_sha'' = JStr (trim sha)"
    and g: "files w NEXT = Some (indented_text generated)" "json_ok generated" "is_document generated"
    and c: "files w (env_path E ''MAILBOX_CONFIG_FILE'' CONFIG_FILE) = Some (document_text config)" "json_ok config" "is_document config"
    and v: "validateOperatorState (platform_of (host_of E)) (recovered_operator config generated)
        (recovered_state (platform_of (host_of E)) (trim sha) (recovered_operator config generated) generated) generated (trim sha) = Inr result"
    and ok: "json_ok (recovered_state (platform_of (host_of E)) (trim sha) (recovered_operator config generated) generated)"
      "json_ok (canonicalOperatorConfig (recovered_operator config generated))"
      "staleRuntimeSecrets (or_text (field journal ''from'') ''none'') (generated_var generated ''OUTBOUND_PROVIDER'') = []"
  shows "\<exists>w'. recoverProvider E w = (Inr (), w')"
proof -
  let ?w = "\<lambda>n. w\<lparr>ticks := n\<rparr>" and ?t = "ticks w"
  let ?operator = "recovered_operator config generated" and ?sha = "trim sha"
  let ?state = "recovered_state (platform_of (host_of E)) ?sha ?operator generated"
  have 1: "readOperationJournal E w = (Inr journal, ?w (Suc ?t))"
    unfolding readOperationJournal_def by (rule calm_document [OF assms(1) j(1,2,3)])
  have 2: "currentGitSha E (?w (Suc ?t)) = (Inr ?sha, ?w (Suc (Suc ?t)))"
    using calm_head [of E "?w (Suc ?t)"] assms(1,2,3) by simp
  have 3: "exists_file E NEXT (?w (Suc (Suc ?t))) = (Inr True, ?w (Suc (Suc (Suc ?t))))"
    using calm_calls(6) [OF assms(1)] g(1) by simp
  have 4: "read_json E NEXT (?w (Suc (Suc (Suc ?t)))) = (Inr generated, ?w (Suc (Suc (Suc (Suc ?t)))))"
    using calm_read [OF assms(1) _ pretty_reads_bare [OF g(2)], of "?w (Suc (Suc (Suc ?t)))" NEXT] g(1) by simp
  have 5: "loadOperatorConfig E (?w (Suc (Suc (Suc (Suc ?t))))) = (Inr config, ?w (Suc (Suc (Suc (Suc (Suc ?t))))))"
    using calm_config [OF assms(1) _ c(2,3), of "?w (Suc (Suc (Suc (Suc ?t))))"] c(1) by simp
  have "field ?state ''outbound_provider'' = generated_var generated ''OUTBOUND_PROVIDER''"
    by (simp add: recovered_state_def Let_def field_def obj_def)
  then obtain w' where 6: "repair_documents E journal ?operator generated ?sha (?w (Suc (Suc (Suc (Suc (Suc ?t)))))) = (Inr (), w')"
    using calm_repair [OF assms(1) v refl g(2) ok(1,2)] ok(3) by fastforce
  obtain u where "property_of generated ''vars'' = Inr u" using document_itself(2) [OF g(3)] by blast
  moreover have "strict_eq (field journal ''rc_sha'') (JStr ?sha)" using j(5) by simp
  ultimately show ?thesis
    using 1 2 3 4 5 6 j(4) by (simp add: recoverProvider_def bindE_def liftE_def)
qed

section \<open>A journal without its configuration\<close>

text \<open>
  \<open>provider set\<close> and \<open>provider recover\<close> remove NEXT before they clear the journal. A process killed between the two leaves a journal
  that every command refuses: the switch and the removal because a recovery is pending, the recovery because NEXT is gone.
\<close>

lemma journal_refuses:
  assumes "calm E" "files w OPERATION_JOURNAL_FILE = Some (document_text journal)" "json_ok journal" "is_document journal"
    "remote_switched journal"
  shows "\<exists>e. fst (bindE (assertNoRecoveryPending E) f w) = Inl e"
  using calm_document [OF assms(1-4)] assms(5)
  by (simp add: assertNoRecoveryPending_def readOperationJournal_def bindE_def provider_fail_def failE_def printE_def throwE_def)

lemma switch_stuck:
  assumes "calm E" "files w OPERATION_JOURNAL_FILE = Some (document_text journal)" "json_ok journal" "is_document journal"
    "remote_switched journal" "files w NEXT = None"
  shows "\<exists>e. fst (setProvider E arg w) = Inl e" "\<exists>e. fst (removeProvider E arg force w) = Inl e" "\<exists>e. fst (recoverProvider E w) = Inl e"
proof -
  have fails: "\<exists>e. fst ((provider_fail code l :: unit op) w) = Inl e" for code l w
    using never_fail(3) unfolding never_returns_def by blast
  have refuses: "\<exists>e. fst (bindE (assertNoRecoveryPending E) f w) = Inl e" for f :: "unit \<Rightarrow> unit op"
    by (rule journal_refuses [OF assms(1-5)])
  show "\<exists>e. fst (setProvider E arg w) = Inl e"
    unfolding setProvider_def Let_def using fails refuses by simp
  show "\<exists>e. fst (removeProvider E arg force w) = Inl e"
    unfolding removeProvider_def Let_def using fails refuses by simp
  show "\<exists>e. fst (recoverProvider E w) = Inl e"
  proof (cases "fst (recoverProvider E w)")
    case (Inr u)
    then obtain w' where "recoverProvider E w = (Inr (), w')" by (cases "recoverProvider E w") simp
    then obtain w1 w2 w3 sha where "readOperationJournal E w = (Inr w1, w2)" "currentGitSha E w2 = (Inr sha, w3)" "fst (exists_file E NEXT w3) = Inr True"
      by (auto simp: recoverProvider_def split: if_splits elim!: bindE_InrE)
    moreover from this have "files w3 NEXT = files w NEXT"
      using writes_onlyD [OF frame_git(1)] writes_onlyD [OF frame_load(7)] by (metis empty_iff)
    ultimately show ?thesis using assms(6) calm_calls(6) [OF assms(1)] by simp
  qed simp
qed

text \<open>A recovery after a switch from no provider to Resend.\<close>

definition example_sha :: jstr where
  "example_sha = replicate 40 97"

definition example_switcher :: operator_env where
  "example_switcher = \<lparr> host_of = example_host, killed = (\<lambda>k. False), torn = (\<lambda>k. None), landed = (\<lambda>k. False), io_fails = (\<lambda>k. False),
     wrangler = (\<lambda>k argv input. \<lparr> cr_ok = True, cr_stdout = [], cr_stderr = [] \<rparr>), fetched = (\<lambda>k r. None), typed = (\<lambda>k. []),
     git_head = (\<lambda>k. \<lparr> cr_ok = True, cr_stdout = example_sha, cr_stderr = [] \<rparr>), clock_now = (\<lambda>k. []), random_text = (\<lambda>k. []) \<rparr>"

definition example_generated :: jsval where
  "example_generated = obj [(''name'', JStr (js ''mb'')),
     (''d1_databases'', JArr [obj [(''database_name'', JStr (js ''mb-db'')), (''database_id'', JStr (js ''11111111-2222-4333-8444-555555555555''))]]),
     (''r2_buckets'', JArr [obj [(''bucket_name'', JStr (js ''mb-r2''))]]),
     (''vars'', obj [(''MAIL_WORKER_NAME'', JStr (js ''mb'')), (''MAIL_DOMAIN'', JStr (js ''mail.org'')),
        (''CLOUDFLARE_ZONE_ID'', JStr (js ''zone'')), (''OUTBOUND_PROVIDER'', JStr (js ''resend''))])]"

definition example_config_document :: jsval where
  "example_config_document = obj [(''worker_name'', JStr (js ''mb'')), (''mail_domain'', JStr (js ''mail.org'')),
     (''cloudflare_account_id'', JStr (js ''account'')), (''cloudflare_zone_id'', JStr (js ''zone'')), (''outbound_provider'', JStr (js ''none'')),
     (''d1_name'', JStr (js ''mb-db'')), (''r2_name'', JStr (js ''mb-r2''))]"

definition example_switch_journal :: jsval where
  "example_switch_journal = obj [(''operation'', JStr (js ''provider_switch'')), (''from'', JStr (js ''none'')), (''to'', JStr (js ''resend'')),
     (''rc_sha'', JStr example_sha), (''phase'', JStr (js ''remote_switched''))]"

definition example_interrupted :: machine where
  "example_interrupted = \<lparr> files = [OPERATION_JOURNAL_FILE \<mapsto> document_text example_switch_journal,
     NEXT \<mapsto> indented_text example_generated, CONFIG_FILE \<mapsto> document_text example_config_document],
     commands = [], requests = [], printed = [], ticks = 0 \<rparr>"

lemma example_recovery_facts:
  "trim example_sha = example_sha" "commit_text example_sha"
  "json_ok example_switch_journal" "is_document example_switch_journal" "remote_switched example_switch_journal"
  "field example_switch_journal ''rc_sha'' = JStr example_sha" "json_ok example_generated" "is_document example_generated"
  "json_ok example_config_document" "is_document example_config_document"
  "json_ok (canonicalOperatorConfig (recovered_operator example_config_document example_generated))"
  "staleRuntimeSecrets (or_text (field example_switch_journal ''from'') ''none'') (generated_var example_generated ''OUTBOUND_PROVIDER'') = []"
  by code_simp+

lemma example_recovered:
  "json_ok (recovered_state (platform_of example_host) example_sha (recovered_operator example_config_document example_generated) example_generated)"
  by code_simp

lemma recovered_fields:
  "field (recovered_state P sha operator generated) ''schema_version'' = OPERATOR_STATE_SCHEMA_VERSION"
  "field (recovered_state P sha operator generated) ''rc_sha'' = JStr sha"
  "field (recovered_state P sha operator generated) ''worker_name'' = field generated ''name''"
  "field (recovered_state P sha operator generated) ''d1_name'' = field (item_zero (field generated ''d1_databases'')) ''database_name''"
  "field (recovered_state P sha operator generated) ''d1_database_id'' = field (item_zero (field generated ''d1_databases'')) ''database_id''"
  "field (recovered_state P sha operator generated) ''r2_name'' = field (item_zero (field generated ''r2_buckets'')) ''bucket_name''"
  "field (recovered_state P sha operator generated) ''mail_domain'' = generated_var generated ''MAIL_DOMAIN''"
  "field (recovered_state P sha operator generated) ''cloudflare_zone_id'' = generated_var generated ''CLOUDFLARE_ZONE_ID''"
  "field (recovered_state P sha operator generated) ''cloudflare_account_id'' = or_text (field operator ''cloudflare_account_id'') ''''"
  "field (recovered_state P sha operator generated) ''outbound_provider'' = generated_var generated ''OUTBOUND_PROVIDER''"
  "field (recovered_state P sha operator generated) ''config_hash'' = JStr (generatedConfigHash P generated)"
  "truthy (recovered_state P sha operator generated)"
  by (simp_all add: recovered_state_def Let_def field_def obj_def)

lemma example_fields:
  "field example_generated ''name'' = JStr (js ''mb'')" "generated_var example_generated ''MAIL_WORKER_NAME'' = JStr (js ''mb'')"
  "generated_var example_generated ''MAIL_DOMAIN'' = JStr (js ''mail.org'')" "generated_var example_generated ''CLOUDFLARE_ZONE_ID'' = JStr (js ''zone'')"
  "generated_var example_generated ''OUTBOUND_PROVIDER'' = JStr (js ''resend'')"
  "d1DatabaseOf example_generated = item_zero (field example_generated ''d1_databases'')"
  "r2BucketOf example_generated = item_zero (field example_generated ''r2_buckets'')"
  "truthy (item_zero (field example_generated ''d1_databases''))" "truthy (item_zero (field example_generated ''r2_buckets''))"
  "field (item_zero (field example_generated ''d1_databases'')) ''database_name'' = JStr (js ''mb-db'')"
  "field (item_zero (field example_generated ''r2_buckets'')) ''bucket_name'' = JStr (js ''mb-r2'')"
  "field (item_zero (field example_generated ''d1_databases'')) ''database_id'' = JStr (js ''11111111-2222-4333-8444-555555555555'')"
  "truthy example_generated" "is_document example_generated"
  "field (recovered_operator example_config_document example_generated) ''worker_name'' = JStr (js ''mb'')"
  "field (recovered_operator example_config_document example_generated) ''mail_domain'' = JStr (js ''mail.org'')"
  "field (recovered_operator example_config_document example_generated) ''cloudflare_zone_id'' = JStr (js ''zone'')"
  "field (recovered_operator example_config_document example_generated) ''cloudflare_account_id'' = JStr (js ''account'')"
  "field (recovered_operator example_config_document example_generated) ''outbound_provider'' = JStr (js ''resend'')"
  "field (recovered_operator example_config_document example_generated) ''d1_name'' = JStr (js ''mb-db'')"
  "field (recovered_operator example_config_document example_generated) ''r2_name'' = JStr (js ''mb-r2'')"
  by (simp_all add: example_generated_def example_config_document_def recovered_operator_def field_def obj_def generated_var_def item_zero_def
      first_item_def is_array_def d1DatabaseOf_def r2BucketOf_def is_document_def with_fields_def spread_def)

lemma example_uuid: "uuid_text (js ''11111111-2222-4333-8444-555555555555'')" "js ''11111111-2222-4333-8444-555555555555'' \<noteq> []"
  by code_simp+

lemma example_valid:
  "\<exists>result. validateOperatorState P (recovered_operator example_config_document example_generated)
    (recovered_state P example_sha (recovered_operator example_config_document example_generated) example_generated)
    example_generated example_sha = Inr result"
  by (simp add: validateOperatorState_def mismatches_def Let_def recovered_fields example_fields example_uuid or_text_def
      OPERATOR_STATE_SCHEMA_VERSION_def)

theorem switch_commits_witness:
  "\<exists>w'. recoverProvider example_switcher example_interrupted = (Inr (), w') \<and> documents_recovered example_switcher w'
    \<and> files w' OPERATION_JOURNAL_FILE = None \<and> files w' NEXT = None"
proof -
  have host: "host_of example_switcher = example_host" "calm example_switcher" by (simp_all add: example_switcher_def calm_def)
  have "CONFIG_FILE \<noteq> NEXT" "CONFIG_FILE \<noteq> OPERATION_JOURNAL_FILE" "NEXT \<noteq> OPERATION_JOURNAL_FILE" by code_simp+
  then have f: "files example_interrupted OPERATION_JOURNAL_FILE = Some (document_text example_switch_journal)"
      "files example_interrupted NEXT = Some (indented_text example_generated)"
      "files example_interrupted (env_path example_switcher ''MAILBOX_CONFIG_FILE'' CONFIG_FILE) = Some (document_text example_config_document)"
    by (simp_all add: example_interrupted_def env_path_def host example_host_def)
  obtain result where v: "validateOperatorState (platform_of example_host) (recovered_operator example_config_document example_generated)
      (recovered_state (platform_of example_host) example_sha (recovered_operator example_config_document example_generated) example_generated)
      example_generated example_sha = Inr result"
    using example_valid by blast
  have "git_head example_switcher (Suc (ticks example_interrupted)) = \<lparr> cr_ok = True, cr_stdout = example_sha, cr_stderr = [] \<rparr>"
    by (simp add: example_switcher_def)
  from calm_recover [OF host(2) this _ f(1) _ _ _ _ f(2) _ _ f(3), where result = result]
  obtain w' where run: "recoverProvider example_switcher example_interrupted = (Inr (), w')"
    unfolding host example_recovery_facts(1) using example_recovery_facts example_recovered v by blast
  have "documents_recovered example_switcher w' \<and> files w' OPERATION_JOURNAL_FILE = None \<and> files w' NEXT = None"
    using switch_commits [of "recoverProvider example_switcher" example_switcher "[]", OF _ run] by blast
  then show ?thesis using run by blast
qed

end
