(* ===== verification/Setup_Command.thy ===== *)
theory Setup_Command
  imports Switching
begin

text \<open>
  The setup command (\<open>src/scripts/setup.mjs\<close>): the arguments and the template, the discovery and creation of the D1 database and
  the R2 bucket, migrations, secrets and the deployment, the modes that only migrate or only deploy, the dry run, and the removal
  of the bootstrap secret. \<open>node\<close> is the version of the runtime. At the end: a run stops at its first command that fails, never
  uploads a credential that is meant for the operator's machine only, and touches nothing in a dry run.
\<close>

section \<open>Files and arguments\<close>

definition R2_SENTINEL_KEY :: jstr where
  "R2_SENTINEL_KEY = js ''_mailbox/install.json''"

definition setup_fail :: "string \<Rightarrow> jstr \<Rightarrow> 'a op" where
  "setup_fail code message = failE ''setup'' code message"

definition dash :: jstr where
  "dash = js '' '' @ [0x2014] @ js '' ''"

definition readJsonFile :: "operator_env \<Rightarrow> jstr \<Rightarrow> jsval \<Rightarrow> jsval op" where
  "readJsonFile E path fallback = tryE (read_json E path) (\<lambda>e. returnE fallback)"

lemma comment_shorter:
  assumes "starts_with (js ''//'') rest"
  shows "length (dropWhile (\<lambda>d. \<not> line_terminator d) rest) < length rest"
proof (cases rest)
  case (Cons d t)
  then have "\<not> line_terminator d" using assms by (auto simp: js_def line_terminator_def)
  then show ?thesis using Cons length_dropWhile_le [of _ t] by (simp add: le_imp_less_Suc)
qed (use assms in \<open>simp add: js_def\<close>)

text \<open>
  \<open>raw.replace(/^\s*\/\/.*$/gm, "")\<close>. White space at the start of a line may go over several lines; the comment ends before the
  line terminator, which stays. \<open>start\<close> says that the text begins at the start of a line.
\<close>

function strip_comments :: "bool \<Rightarrow> jstr \<Rightarrow> jstr" where
  "strip_comments start [] = []"
| "strip_comments start (c # s) =
     (let rest = dropWhile js_space (c # s) in
      if start \<and> starts_with (js ''//'') rest then strip_comments False (dropWhile (\<lambda>d. \<not> line_terminator d) rest)
      else c # strip_comments (line_terminator c) s)"
  by pat_completeness auto

termination
proof (relation "measure (\<lambda>(start, s). length s)")
  fix start :: bool and c :: code_unit and s rest
  assume "rest = dropWhile js_space (c # s)" "start \<and> starts_with (js ''//'') rest"
  then show "((False, dropWhile (\<lambda>d. \<not> line_terminator d) rest), (start, c # s)) \<in> measure (\<lambda>(start, s). length s)"
    using comment_shorter [of rest] length_dropWhile_le [of js_space "c # s"] by simp
qed simp_all

definition parseTemplate :: "operator_env \<Rightarrow> jsval op" where
  "parseTemplate E =
     bindE (tryE (read_text E TEMPLATE) (\<lambda>e. setup_fail ''template_missing'' (js ''wrangler template missing: '' @ TEMPLATE))) (\<lambda>raw.
     tryE (liftE (parse_json E (strip_comments True raw)))
       (\<lambda>e. setup_fail ''template_invalid'' (js ''wrangler.jsonc is not valid JSON after comment stripping.'')))"

text \<open>In production a value of the operator's configuration stands in for an argument that was not given.\<close>

definition with_operator :: "jsval \<Rightarrow> setup_args \<Rightarrow> setup_args" where
  "with_operator operator a =
     (let given = (\<lambda>v name. js_or v (or_text (field operator name) '''')) in
      a\<lparr> sa_worker := given (sa_worker a) ''worker_name'', sa_domain := given (sa_domain a) ''mail_domain'',
         sa_admin := given (sa_admin a) ''admin_email'', sa_app_origin := given (sa_app_origin a) ''app_origin'',
         sa_zone := given (sa_zone a) ''cloudflare_zone_id'', sa_account := given (sa_account a) ''cloudflare_account_id'',
         sa_provider := or_text (field operator ''outbound_provider'') ''none'' \<rparr>)"

definition loadArgs :: "operator_env \<Rightarrow> jstr list \<Rightarrow> setup_args op" where
  "loadArgs E argv =
     (let a = parseSetupArgs (host_of E) argv in
      if \<not> validateMode (sa_mode a) then
        setup_fail ''invalid_mode'' (js ''--mode must be '' @ in_quote_marks (js ''dev'') @ js '' or '' @ in_quote_marks (js ''production'') @ js ''.'')
      else
        bindE (loadOperatorConfig E) (\<lambda>operator.
        returnE (if is_production (sa_mode a) then with_operator operator a else a)))"

definition preflight :: "operator_env \<Rightarrow> jstr \<Rightarrow> setup_args \<Rightarrow> jsval op" where
  "preflight E node a =
     (if parse_int (hd (split_at 46 node)) \<noteq> Some 22 then
        setup_fail ''runtime_unsupported'' (js ''canonical runtime is Node 22 (found '' @ node @ js ''); use nvm use 22.'')
      else
        bindE (parseTemplate E) (\<lambda>template.
        if is_production (sa_mode a) then
          (case validateProductionInputs (host_of E) a of
             Inl (code, detail) \<Rightarrow> setup_fail code (js (''production input invalid ('' @ detail @ ''). No resource was touched.''))
           | Inr origin \<Rightarrow> returnE template)
        else returnE template))"

section \<open>The setup state\<close>

text \<open>The commit of the state is empty when Git did not answer.\<close>

definition head_text :: "operator_env \<Rightarrow> jstr op" where
  "head_text E = tick E (\<lambda>k w. (Inr (if cr_ok (git_head E k) then trim (cr_stdout (git_head E k)) else []), w))"

definition writeState :: "operator_env \<Rightarrow> setup_plan \<Rightarrow> jsval \<Rightarrow> unit op" where
  "writeState E plan config =
     bindE (head_text E) (\<lambda>rcSha. writeSetupState E (setup_state (platform_of (host_of E)) rcSha plan config))"

definition assertStateMatches :: "operator_env \<Rightarrow> jstr \<Rightarrow> unit op" where
  "assertStateMatches E rcSha =
     bindE (loadOperatorConfig E) (\<lambda>operator.
     bindE (loadSetupState E) (\<lambda>setup.
     bindE (readJsonFile E GENERATED_FILE JNull) (\<lambda>generated.
     case validateOperatorState (platform_of (host_of E)) operator setup generated rcSha of
       Inl (code, detail) \<Rightarrow> setup_fail code (or_else detail (js ''operator state validation failed.''))
     | Inr v \<Rightarrow> returnE ())))"

section \<open>Discovery\<close>

text \<open>The listing, or the code of the failure with what Wrangler printed.\<close>

definition listing_of :: "operator_env \<Rightarrow> string \<Rightarrow> command_reply \<Rightarrow> (string \<times> jstr) + jsval" where
  "listing_of E resource reply =
     (if \<not> cr_ok reply then Inl (resource @ ''_auth_or_api_error'', take 200 (cr_stderr reply))
      else (case parse_json E (or_else (cr_stdout reply) (js ''[]'')) of
              Inl e \<Rightarrow> Inl (resource @ ''_list_parse_error'', []) | Inr listing \<Rightarrow> Inr listing))"

definition d1_list :: "jstr list" where
  "d1_list = words_of [''d1'', ''list'', ''--json'', ''--config''] @ [TEMPLATE]"

definition r2_list :: "jstr list" where
  "r2_list = words_of [''r2'', ''bucket'', ''list'', ''--json'', ''--config''] @ [TEMPLATE]"

definition listD1 :: "operator_env \<Rightarrow> ((string \<times> jstr) + jsval) op" where
  "listD1 E = bindE (runCaptureWrangler E d1_list) (\<lambda>reply. returnE (listing_of E ''d1'' reply))"

definition listR2 :: "operator_env \<Rightarrow> ((string \<times> jstr) + jsval) op" where
  "listR2 E = bindE (runCaptureWrangler E r2_list) (\<lambda>reply. returnE (listing_of E ''r2'' reply))"

definition tables_command :: "jsval \<Rightarrow> jstr list" where
  "tables_command databaseId =
     words_of [''d1'', ''execute'', ''DB''] @ [js ''--database-id='' @ js_string databaseId] @ words_of [''--remote'', ''--json'', ''--command'']
       @ [js ''SELECT name FROM sqlite_master WHERE type='' @ in_quote_marks (js ''table'') @ js '' AND name NOT LIKE ''
         @ in_quote_marks (js ''sqlite_%'') @ js '' ORDER BY name'']"

definition flat_items :: "jsval \<Rightarrow> jsval list" where
  "flat_items v = (case v of JArr xs \<Rightarrow> xs | _ \<Rightarrow> [v])"

definition result_rows :: "jsval \<Rightarrow> exn + jsval" where
  "result_rows v =
     (case v of
        JArr entries \<Rightarrow>
          if JNull \<in> set entries \<or> JUndef \<in> set entries then Inl type_error
          else Inr (JArr (concat (map (\<lambda>entry. flat_items (js_or (field entry ''results'') (JArr []))) entries)))
      | _ \<Rightarrow> Inl type_error)"

definition d1Tables :: "operator_env \<Rightarrow> jsval \<Rightarrow> (string + jsval) op" where
  "d1Tables E databaseId =
     bindE (runCaptureWrangler E (tables_command databaseId)) (\<lambda>reply.
     returnE
       (if \<not> cr_ok reply then Inl ''d1_schema_query_error''
        else (case parse_json E (or_else (cr_stdout reply) (js ''[]'')) of
            Inl e \<Rightarrow> Inl ''d1_schema_parse_error''
          | Inr v \<Rightarrow> map_sum (\<lambda>e. ''d1_schema_parse_error'') id (result_rows v))))"

definition cannot_discover :: "string \<Rightarrow> jstr \<Rightarrow> jstr" where
  "cannot_discover what detail =
     js (''cannot discover '' @ what @ '' ('') @ or_else detail (js ''unknown'') @ js '')'' @ dash @ js ''no mutation performed.''"

section \<open>The database\<close>

definition d1_create :: "jstr \<Rightarrow> jstr list" where
  "d1_create name = words_of [''d1'', ''create''] @ [name] @ words_of [''--json'', ''--config''] @ [TEMPLATE]"

definition created_id :: "operator_env \<Rightarrow> jstr \<Rightarrow> exn + jstr" where
  "created_id E out =
     (case parse_json E out of
        Inl e \<Rightarrow> Inl e
      | Inr v \<Rightarrow> map_sum id (\<lambda>uuid. js_string (or_text (js_or uuid (field v ''id'')) '''')) (property_of v ''uuid''))"

definition createD1 :: "operator_env \<Rightarrow> jstr \<Rightarrow> jsval op" where
  "createD1 E name =
     bindE (runCaptureWrangler E (d1_create name)) (\<lambda>created.
     if \<not> cr_ok created then setup_fail ''d1_create_failed'' (js ''D1 creation failed.'')
     else
       tryE
         (bindE (liftE (created_id E (cr_stdout created))) (\<lambda>uuid.
          if uuid = [] then setup_fail ''d1_create_no_id'' (js ''D1 creation returned no id.'')
          else bindE (printE (js ''setup: created D1 '' @ in_quote_marks name @ js ''.'')) (\<lambda>_. returnE (JStr uuid))))
         (\<lambda>e. setup_fail ''d1_create_parse_error'' (js ''D1 creation returned invalid output.'')))"

text \<open>A listing that is not an array has no identifier: the tables of a database called \<open>undefined\<close> are asked for.\<close>

definition state_id :: "resource_state \<Rightarrow> jsval" where
  "state_id state = (case state of Present uuid \<Rightarrow> JStr uuid | _ \<Rightarrow> JUndef)"

definition adoptD1 :: "operator_env \<Rightarrow> jstr \<Rightarrow> jsval \<Rightarrow> jsval op" where
  "adoptD1 E name databaseId =
     bindE (d1Tables E databaseId) (\<lambda>schema.
     case schema of
       Inl code \<Rightarrow> setup_fail code (js ''cannot read the existing D1 schema'' @ dash @ js ''no migration performed.'')
     | Inr tables \<Rightarrow>
         bindE (liftE (isKnownMailboxSchema tables)) (\<lambda>known.
         case known of
           None \<Rightarrow> throwE type_error
         | Some (fresh, unknown) \<Rightarrow>
             if unknown \<noteq> [] then
               setup_fail ''existing_resource_not_mailbox'' (js ''D1 '' @ in_quote_marks name @ js '' contains unknown tables (''
                 @ join_text (js '', '') unknown @ js '') and will not be adopted.'')
             else
               bindE (printE (js ''setup: reused D1 '' @ in_quote_marks name @ js '' ('' @ js (if fresh then ''empty'' else ''known Mailbox schema'')
                 @ js '').'')) (\<lambda>_. returnE databaseId)))"

definition ensureD1 :: "operator_env \<Rightarrow> setup_plan \<Rightarrow> jsval op" where
  "ensureD1 E plan =
     (let name = js_string (pl_d1 plan) in
      bindE (listD1 E) (\<lambda>found.
      case found of
        Inl (code, detail) \<Rightarrow> setup_fail code (cannot_discover ''D1 databases'' detail)
      | Inr listing \<Rightarrow>
          bindE (liftE (classifyD1State listing name)) (\<lambda>state.
          if state = Missing then createD1 E name else adoptD1 E name (state_id state))))"

section \<open>The bucket\<close>

definition r2_create :: "jstr \<Rightarrow> jstr list" where
  "r2_create name = words_of [''r2'', ''bucket'', ''create''] @ [name] @ [js ''--config'', TEMPLATE]"

definition sentinel_put :: "jstr \<Rightarrow> jstr list" where
  "sentinel_put name = words_of [''r2'', ''object'', ''put''] @ [name, R2_SENTINEL_KEY] @ words_of [''--file'', ''-'', ''--config''] @ [TEMPLATE]"

definition sentinel_get :: "jstr \<Rightarrow> jstr list" where
  "sentinel_get name = words_of [''r2'', ''object'', ''get''] @ [name, R2_SENTINEL_KEY] @ [js ''--config'', TEMPLATE]"

text \<open>The put inherits the standard input of the command; the text of the sentinel is not given to it.\<close>

definition createR2 :: "operator_env \<Rightarrow> jstr \<Rightarrow> unit op" where
  "createR2 E name =
     bindE (runInheritWrangler E (r2_create name)) (\<lambda>created.
     if \<not> created then setup_fail ''r2_create_failed'' (js ''R2 bucket creation failed.'')
     else
       bindE (runInheritWrangler E (sentinel_put name)) (\<lambda>marked.
       if \<not> marked then
         setup_fail ''r2_sentinel_failed'' (js ''R2 bucket was created but the ownership sentinel could not be written.'')
       else printE (js ''setup: created R2 '' @ in_quote_marks name @ js '' with ownership sentinel.'')))"

definition adoptR2 :: "operator_env \<Rightarrow> jstr \<Rightarrow> unit op" where
  "adoptR2 E name =
     bindE (runCaptureWrangler E (sentinel_get name)) (\<lambda>probe.
     if \<not> cr_ok probe then
       setup_fail ''existing_bucket_not_owned'' (js ''R2 '' @ in_quote_marks name
         @ js '' has no Mailbox sentinel and will not be adopted (use --adopt-empty-resources only with an explicitly empty bucket).'')
     else
       bindE (liftE (parse_json E (or_else (cr_stdout probe) (js ''{}'')))) (\<lambda>sentinel.
       bindE (liftE (property_of sentinel ''schema'')) (\<lambda>schema.
       if schema \<noteq> JStr (js R2_SENTINEL_SCHEMA) then setup_fail ''existing_bucket_not_owned'' (js ''R2 sentinel schema mismatch.'')
       else printE (js ''setup: reused R2 '' @ in_quote_marks name @ js '' (owned).''))))"

definition ensureR2 :: "operator_env \<Rightarrow> setup_plan \<Rightarrow> unit op" where
  "ensureR2 E plan =
     (let name = js_string (pl_r2 plan) in
      bindE (listR2 E) (\<lambda>found.
      case found of
        Inl (code, detail) \<Rightarrow> setup_fail code (cannot_discover ''R2 buckets'' detail)
      | Inr listing \<Rightarrow>
          bindE (liftE (classifyR2State listing name)) (\<lambda>state. if state = Missing then createR2 E name else adoptR2 E name)))"

section \<open>Deployment and secrets\<close>

definition migrate_command :: "jstr \<Rightarrow> jstr list" where
  "migrate_command generated = words_of [''d1'', ''migrations'', ''apply'', ''DB'', ''--remote'', ''--config''] @ [generated]"

definition deploy_command :: "jstr \<Rightarrow> jstr list" where
  "deploy_command generated = words_of [''deploy'', ''--config''] @ [generated]"

definition applyMigrations :: "operator_env \<Rightarrow> jstr \<Rightarrow> unit op" where
  "applyMigrations E generated =
     bindE (runInheritWrangler E (migrate_command generated)) (\<lambda>ok.
     if \<not> ok then setup_fail ''migration_failed'' (js ''D1 migrations failed.'') else returnE ())"

definition deploy :: "operator_env \<Rightarrow> jstr \<Rightarrow> unit op" where
  "deploy E generated =
     bindE (runInheritWrangler E (deploy_command generated)) (\<lambda>ok.
     if \<not> ok then setup_fail ''deploy_failed'' (js ''Worker deployment failed.'') else returnE ())"

definition put_secret :: "operator_env \<Rightarrow> string \<Rightarrow> jstr \<Rightarrow> jstr \<Rightarrow> bool op" where
  "put_secret E name v generated =
     bindE (runWrangler E (secret_put (js name) generated) v) (\<lambda>reply. returnE (cr_ok reply))"

definition secrets_for :: "setup_plan \<Rightarrow> string list" where
  "secrets_for plan =
     (let provider = (if is_production (pl_mode plan) then pl_provider plan else JStr (js ''none'')) in
      dedup ([''AUTH_PEPPER'', ''ADMIN_BOOTSTRAP_TOKEN'', ''CLOUDFLARE_ROUTING_READ_TOKEN'']
        @ entries_for PROVIDER_RUNTIME_SECRETS provider))"

definition absent_line :: "string \<Rightarrow> jstr" where
  "absent_line name = js (name @ '': absent ('' @
     (if name = ''RESEND_API_KEY'' \<or> name = ''BREVO_API_KEY'' then ''receive-only for this provider?'' else ''routing sync will degrade gracefully'')
     @ '')'')"

definition configure_secret :: "operator_env \<Rightarrow> jstr \<Rightarrow> bool \<Rightarrow> credentials \<Rightarrow> string \<Rightarrow> unit op" where
  "configure_secret E generated forceAll c name =
     (let v = credential_of c name in
      if v = [] then
        if forceAll \<and> name \<in> {''AUTH_PEPPER'', ''ADMIN_BOOTSTRAP_TOKEN''} then
          setup_fail ''secret_missing'' (js (name @ '' must be provided (npm run configure) for this deployment.''))
        else printE (absent_line name)
      else if name \<in> set OPERATOR_LOCAL_CREDENTIALS then
        setup_fail ''operator_local_upload'' (js (name @ '' is operator-local and must never be installed into the Worker.''))
      else
        bindE (put_secret E name v generated) (\<lambda>ok.
        if \<not> ok then setup_fail ''secret_put_failed'' (js (name @ '' could not be configured.''))
        else printE (js (name @ '': configured''))))"

definition configureSecrets :: "operator_env \<Rightarrow> setup_plan \<Rightarrow> jstr \<Rightarrow> bool \<Rightarrow> unit op" where
  "configureSecrets E plan generated forceAll =
     bindE (loadCredentials E) (\<lambda>c. forE (secrets_for plan) (configure_secret E generated forceAll c))"

section \<open>What is printed\<close>

definition hook_steps :: "jstr \<Rightarrow> string \<Rightarrow> string \<Rightarrow> string \<Rightarrow> jstr list" where
  "hook_steps host label provider doc =
     [js (''Provider: '' @ label), js ''  Webhook: https://'' @ host @ js (''/webhooks/'' @ provider),
      js ''  Webhook reconciliation: run '' @ in_quote_marks (js (''npm run provider:set '' @ provider))
        @ js ('' with a setup key, or configure manually (docs/providers/'' @ doc @ '').'')]"

definition provider_steps :: "setup_plan \<Rightarrow> jstr list" where
  "provider_steps plan =
     (let host = pl_origin_host plan; provider = js_string (pl_provider plan) in
      if provider = js ''none'' then [js ''Outbound: receive-only'', js ''  No outbound provider setup required.'']
      else if provider = js ''resend'' then hook_steps host ''Resend'' ''resend'' ''RESEND.md''
      else if provider = js ''brevo'' then hook_steps host ''Brevo'' ''brevo'' ''BREVO.md''
      else if provider = js ''cloudflare'' then
        [js ''Provider: Cloudflare Email Service'', js ''  Event queue: '' @ js_string (pl_worker plan) @ js ''-email-events'',
         js ''  Event subscription: run '' @ in_quote_marks (js ''npm run provider:set cloudflare'')
           @ js '' (Queue Event Subscription for email.sending)'',
         js ''  No public provider webhook.'']
      else [js ''Outbound: receive-only''])"

definition printManualSteps :: "setup_plan \<Rightarrow> unit op" where
  "printManualSteps plan =
     (let host = pl_origin_host plan in
      printE (join_text [10]
        ([[], js ''setup: deployment complete.'', js ''  Admin:   https://'' @ host @ js ''/admin/mail/'',
          js ''  Health:  https://'' @ host @ js ''/healthz'', js ''  '' @ join_text [10] (provider_steps plan), [],
          js ''Remaining manual operations:'',
          js ''  1. Cloudflare dashboard -> Email -> Email Routing: enable, verify a destination.'',
          js ''  2. Routing rules: mailbox addresses -> Send to a Worker -> '' @ js_string (pl_worker plan) @ js ''.'',
          js ''  3. After first sign-in: npm run setup:remove-bootstrap'', []])))"

definition dry_run_lines :: "setup_plan \<Rightarrow> jstr list" where
  "dry_run_lines plan =
     (let production = is_production (pl_mode plan); provider = pl_provider plan in
      (if production then
         [js ''  MAIL_DOMAIN:         '' @ js_string (pl_domain plan), js ''  ADMIN_EMAIL:         '' @ js_string (pl_admin plan),
          js ''  CLOUDFLARE_ZONE_ID:  '' @ js (if truthy (pl_zone plan) then ''configured'' else ''MISSING (would fail)'')]
       else [])
      @ [js ''setup: DRY RUN (mode='' @ js_string (pl_mode plan) @ js '')'' @ dash @ js ''no resource was created or modified.'',
         js ''  planned Worker name: '' @ js_string (pl_worker plan), js ''  planned D1 binding:  '' @ js_string (pl_d1 plan),
         js ''  planned R2 binding:  '' @ js_string (pl_r2 plan), js ''  workers.dev enabled: '' @ js_string (JBool (pl_workers_dev plan)),
         js ''  APP_ORIGIN:          ''
           @ (if production then js_string (pl_app_origin plan) else js ''dev auto-inferred (loopback only)''),
         js ''  required secrets:    ''
           @ js (if truthy (field (pl_secrets plan) ''requiredPresent'') then ''present'' else ''MISSING (would fail)''),
         js ''  remaining manual:    Email Routing, domain verification, ''
           @ (if provider = JStr (js ''cloudflare'') then js ''queue event subscription''
              else if provider = JStr (js ''none'') then js ''no outbound provider'' else js_string provider @ js '' webhook'')])"

section \<open>The command\<close>

definition planned :: "operator_env \<Rightarrow> jsval \<Rightarrow> setup_args \<Rightarrow> jsval \<Rightarrow> setup_plan op" where
  "planned E template a databaseId =
     bindE (loadCredentials E) (\<lambda>c.
     bindE (liftE (buildSetupPlan (host_of E) template a databaseId (buildSecretPlan c))) (\<lambda>plan.
     returnE (plan\<lparr>pl_provider := or_text (sa_provider a) ''none''\<rparr>)))"

definition dry_run :: "operator_env \<Rightarrow> jstr \<Rightarrow> setup_args \<Rightarrow> unit op" where
  "dry_run E node a =
     bindE (preflight E node a) (\<lambda>_.
     bindE (parseTemplate E) (\<lambda>template.
     bindE (planned E template a (JStr (js ''(discovery)''))) (\<lambda>plan. print_lines (dry_run_lines plan))))"

text \<open>The modes that use the generated configuration of an earlier setup.\<close>

definition generated_only :: "operator_env \<Rightarrow> setup_args \<Rightarrow> jstr \<Rightarrow> unit op" where
  "generated_only E a rcSha =
     bindE (assertStateMatches E rcSha) (\<lambda>_.
     bindE (exists_file E GENERATED_FILE) (\<lambda>present.
     if \<not> present then setup_fail ''generated_missing'' (js ''wrangler.deploy.jsonc is missing; run the full setup first.'')
     else
       bindE (if sa_deploy_only a then deploy E GENERATED_FILE else returnE ()) (\<lambda>_.
       if sa_migrate_only a then applyMigrations E GENERATED_FILE else returnE ())))"

text \<open>The resources of the plan, and the configuration that binds them.\<close>

definition provision :: "operator_env \<Rightarrow> jsval \<Rightarrow> setup_plan \<Rightarrow> (setup_plan \<times> jsval) op" where
  "provision E template plan =
     bindE (ensureD1 E plan) (\<lambda>databaseId.
     bindE (ensureR2 E plan) (\<lambda>_.
     (let plan = plan\<lparr>pl_database := databaseId\<rparr> in
      bindE (liftE (buildGeneratedConfig template plan)) (\<lambda>config.
      if configInvariants config \<noteq> [] then setup_fail ''config_invariant'' (join_text (js ''; '') (map js (configInvariants config)))
      else returnE (plan, config)))))"

definition record_setup :: "operator_env \<Rightarrow> setup_plan \<Rightarrow> jsval \<Rightarrow> unit op" where
  "record_setup E plan config =
     bindE (writeGeneratedConfig E config) (\<lambda>_.
     bindE (writeState E plan config) (\<lambda>_.
     printE (js ''setup: generated '' @ GENERATED_FILE @ js '' (mode='' @ js_string (pl_mode plan) @ js '', worker='' @ js_string (pl_worker plan)
       @ js '').'')))"

definition full_setup :: "operator_env \<Rightarrow> jsval \<Rightarrow> setup_args \<Rightarrow> unit op" where
  "full_setup E template a =
     bindE (remove_file E GENERATED_FILE) (\<lambda>_.
     bindE (planned E template a (JStr [])) (\<lambda>plan.
     bindE (provision E template plan) (\<lambda>(plan, config).
     bindE (record_setup E plan config) (\<lambda>_.
     bindE (applyMigrations E GENERATED_FILE) (\<lambda>_.
     bindE (configureSecrets E plan GENERATED_FILE True) (\<lambda>_.
     bindE (deploy E GENERATED_FILE) (\<lambda>_.
     printManualSteps plan)))))))"

definition setup_main :: "operator_env \<Rightarrow> jstr \<Rightarrow> jstr list \<Rightarrow> unit op" where
  "setup_main E node argv =
     bindE (loadArgs E argv) (\<lambda>a.
     if sa_dry_run a then dry_run E node a
     else
       bindE (preflight E node a) (\<lambda>template.
       bindE (currentGitSha E) (\<lambda>rcSha.
       if sa_deploy_only a \<or> sa_migrate_only a then generated_only E a rcSha else full_setup E template a)))"

definition bootstrap_delete :: "jstr list" where
  "bootstrap_delete = words_of [''secret'', ''delete'', ''ADMIN_BOOTSTRAP_TOKEN'', ''--config''] @ [GENERATED_FILE]"

definition removeBootstrap :: "operator_env \<Rightarrow> unit op" where
  "removeBootstrap E =
     bindE (currentGitSha E) (\<lambda>rcSha.
     bindE (assertStateMatches E rcSha) (\<lambda>_.
     bindE (exists_file E GENERATED_FILE) (\<lambda>present.
     if \<not> present then setup_fail ''generated_missing'' (js ''wrangler.deploy.jsonc is missing; run the full setup first.'')
     else
       bindE (loadSetupState E) (\<lambda>state.
       if field state ''mode'' \<noteq> JStr (js ''production'') then
         setup_fail ''bootstrap_delete_dev_target'' (js ''refusing to delete ADMIN_BOOTSTRAP_TOKEN from a non-production generated config.'')
       else
         bindE (runInheritWrangler E bootstrap_delete) (\<lambda>ok.
         if \<not> ok then
           setup_fail ''bootstrap_delete_failed'' (js ''could not delete ADMIN_BOOTSTRAP_TOKEN from the production Worker.'')
         else printE (js ''setup: ADMIN_BOOTSTRAP_TOKEN deleted from the production Worker.''))))))"

text \<open>The text of \<open>--help\<close> is the argument \<open>usage\<close>.\<close>

definition setup_command :: "operator_env \<Rightarrow> jstr \<Rightarrow> jstr \<Rightarrow> jstr list \<Rightarrow> unit op" where
  "setup_command E usage node argv =
     (if js ''--help'' \<in> set argv \<or> js ''-h'' \<in> set argv then printE usage
      else if js ''--remove-bootstrap'' \<in> set argv then removeBootstrap E
      else setup_main E node argv)"

end
