(* ===== verification/Deploying.thy ===== *)
theory Deploying
  imports Setup_Command
begin

text \<open>
  Theorems about the setup command: it stops at the first Wrangler command that fails and never uploads a credential of the
  operator's machine, a deployment follows migrations and the required secrets, and a dry run touches nothing.
\<close>

section \<open>Operations that run no command\<close>

lemma frame_fails [frame_intros]:
  "writes_only S (setup_fail code l)" "runs_nothing (setup_fail code l)"
  "writes_only S (print_lines ls)" "runs_nothing (print_lines ls)"
  unfolding setup_fail_def print_lines_def by (intro frame_intros)+

lemma frame_pairs [frame_intros]:
  "(\<And>x y. writes_only S (f x y)) \<Longrightarrow> writes_only S (case p of (x, y) \<Rightarrow> f x y)"
  "(\<And>x y. runs_nothing (f x y)) \<Longrightarrow> runs_nothing (case p of (x, y) \<Rightarrow> f x y)"
  by (simp_all split: prod.split)

lemma frame_template [frame_intros]:
  "writes_only S (parseTemplate E)" "runs_nothing (parseTemplate E)"
  "writes_only S (loadArgs E argv)" "runs_nothing (loadArgs E argv)"
  "writes_only S (preflight E node a)" "runs_nothing (preflight E node a)"
  "writes_only S (readJsonFile E path fallback)" "runs_nothing (readJsonFile E path fallback)"
  "writes_only S (assertStateMatches E sha)" "runs_nothing (assertStateMatches E sha)"
  "writes_only S (planned E template a i)" "runs_nothing (planned E template a i)"
  unfolding parseTemplate_def loadArgs_def preflight_def readJsonFile_def assertStateMatches_def planned_def Let_def
  by (intro frame_intros)+

lemma frame_dry_run [frame_intros]: "writes_only S (dry_run E node a)" "runs_nothing (dry_run E node a)"
  unfolding dry_run_def by (intro frame_intros)+

lemma frame_head [frame_intros]: "writes_only S (head_text E)" "runs_nothing (head_text E)"
  unfolding head_text_def by (rule frame_tick; simp add: writes_only_def runs_nothing_def)+

lemma frame_record [frame_intros]: "runs_nothing (record_setup E plan config)" "runs_nothing (writeState E plan config)"
  unfolding record_setup_def writeState_def by (intro frame_intros)+

section \<open>Stopping at the first failure\<close>

definition safe_input :: "command \<Rightarrow> bool" where
  "safe_input c \<longleftrightarrow> cm_input c = []
     \<or> (\<exists>n. n \<notin> set OPERATOR_LOCAL_CREDENTIALS \<and> cm_argv c = secret_put (js n) GENERATED_FILE)"

definition fine :: "command list \<Rightarrow> machine \<Rightarrow> bool" where
  "fine X w \<longleftrightarrow> (\<exists>cs. commands w = X @ cs \<and> list_all cm_ok cs \<and> list_all safe_input cs)"

definition ended :: "command list \<Rightarrow> machine \<Rightarrow> bool" where
  "ended X w \<longleftrightarrow> (\<exists>cs. commands w = X @ cs \<and> list_all cm_ok (butlast cs) \<and> list_all safe_input cs)"

lemma fine_ended: "fine X w \<Longrightarrow> ended X w"
  by (auto simp: fine_def ended_def list_all_iff dest: in_set_butlastD)

text \<open>Every command so far has worked; when the operation throws, every command but the last.\<close>

definition stops :: "command list \<Rightarrow> 'a op \<Rightarrow> bool" where
  "stops X m \<longleftrightarrow> triple (fine X) m (\<lambda>_. fine X) (\<lambda>_. ended X)"

named_theorems stops_intros \<open>operations that stop at the first command that fails\<close>

lemma quiet_triple: "runs_nothing m \<Longrightarrow> triple (ended X) m (\<lambda>_. ended X) (\<lambda>_. ended X)"
  unfolding triple_keeps by (simp add: keeps_def runs_nothing_def ended_def)

lemma stops_quiet: "runs_nothing m \<Longrightarrow> stops X m"
  unfolding stops_def
  by (rule triple_conseq [where P' = "fine X" and Q' = "\<lambda>_. fine X" and R' = "\<lambda>_. fine X"])
    (auto simp: triple_keeps keeps_def runs_nothing_def fine_def intro: fine_ended)

lemma stops_bind [stops_intros]: "stops X m \<Longrightarrow> (\<And>x. stops X (f x)) \<Longrightarrow> stops X (bindE m f)"
  unfolding stops_def by (rule triple_bind)

lemma stops_cases [stops_intros]:
  "stops X m \<Longrightarrow> stops X n \<Longrightarrow> stops X (if c then m else n)"
  "stops X m \<Longrightarrow> (\<And>x. stops X (f x)) \<Longrightarrow> stops X (case z of None \<Rightarrow> m | Some x \<Rightarrow> f x)"
  "(\<And>x. stops X (g x)) \<Longrightarrow> (\<And>x. stops X (f x)) \<Longrightarrow> stops X (case q of Inl x \<Rightarrow> g x | Inr x \<Rightarrow> f x)"
  "(\<And>x y. stops X (h x y)) \<Longrightarrow> stops X (case p of (x, y) \<Rightarrow> h x y)"
  by (simp_all split: option.split sum.split prod.split)

lemma stops_for [stops_intros]: "(\<And>x. stops X (f x)) \<Longrightarrow> stops X (forE xs f)"
  unfolding stops_def by (rule triple_for)

lemma run_triple:
  assumes "input = [] \<or> (\<exists>n. n \<notin> set OPERATOR_LOCAL_CREDENTIALS \<and> wranglerArgs args = secret_put (js n) GENERATED_FILE)"
  shows "triple (fine X) (runWrangler E args input) (\<lambda>reply w. if cr_ok reply then fine X w else ended X w) (\<lambda>_. ended X)"
proof (rule tripleI)
  fix w assume "fine X w"
  then obtain cs where w: "commands w = X @ cs" "list_all cm_ok cs" "list_all safe_input cs" by (auto simp: fine_def)
  obtain r w' where run: "runWrangler E args input w = (r, w')" by fastforce
  from runWrangler_log [OF run]
  have "ended X w' \<and> (\<forall>reply. r = Inr reply \<longrightarrow> cr_ok reply \<longrightarrow> fine X w')"
  proof (elim disjE conjE exE)
    fix c assume c: "commands w' = commands w @ [c]" "cm_argv c = wranglerArgs args" "cm_input c = input"
      "\<forall>reply. r = Inr reply \<longrightarrow> cm_ok c = cr_ok reply"
    then have "safe_input c" using assms by (auto simp: safe_input_def)
    then have "commands w' = X @ (cs @ [c])" "list_all safe_input (cs @ [c])" using c w by simp_all
    then show ?thesis using w c(4) by (fastforce simp: fine_def ended_def)
  next
    fix e assume "commands w' = commands w" "r = Inl e"
    then show ?thesis using w fine_ended [of X w'] by (auto simp: fine_def)
  qed
  then show "case runWrangler E args input w of (r, w') \<Rightarrow> (case r of Inl e \<Rightarrow> ended X w'
      | Inr reply \<Rightarrow> if cr_ok reply then fine X w' else ended X w')"
    using run by (simp split: sum.split)
qed

lemma stops_run:
  assumes "input = [] \<or> (\<exists>n. n \<notin> set OPERATOR_LOCAL_CREDENTIALS \<and> wranglerArgs args = secret_put (js n) GENERATED_FILE)"
    and "\<And>reply. \<not> cr_ok reply \<Longrightarrow> runs_nothing (f reply) \<and> never_returns (f reply)"
    and "\<And>reply. cr_ok reply \<Longrightarrow> stops X (f reply)"
  shows "stops X (bindE (runWrangler E args input) f)"
  unfolding stops_def
proof (rule triple_bind [OF run_triple [OF assms(1)]])
  fix reply
  show "triple (\<lambda>w. if cr_ok reply then fine X w else ended X w) (f reply) (\<lambda>_. fine X) (\<lambda>_. ended X)"
  proof (cases "cr_ok reply")
    case True
    then show ?thesis using assms(3) [OF True] by (simp add: stops_def)
  next
    case False
    have "case f reply w of (r, w') \<Rightarrow> (case r of Inl e \<Rightarrow> ended X w' | Inr x \<Rightarrow> fine X w')" if "ended X w" for w
    proof -
      obtain r w' where run: "f reply w = (r, w')" by fastforce
      obtain e where "r = Inl e" using assms(2) [OF False] run unfolding never_returns_def by (metis fst_conv)
      moreover have "ended X w'" using quiet_triple [of "f reply" X] assms(2) [OF False] that run \<open>r = Inl e\<close> triple_Inl by metis
      ultimately show ?thesis using run by simp
    qed
    then show ?thesis using False by (simp add: triple_def)
  qed
qed

lemma stops_capture:
  assumes "\<And>reply. \<not> cr_ok reply \<Longrightarrow> runs_nothing (f reply) \<and> never_returns (f reply)" "\<And>reply. cr_ok reply \<Longrightarrow> stops X (f reply)"
  shows "stops X (bindE (runCaptureWrangler E args) f)"
  unfolding runCaptureWrangler_def by (rule stops_run) (use assms in auto)

lemma stops_inherit:
  assumes "runs_nothing (f False) \<and> never_returns (f False)" "stops X (f True)"
  shows "stops X (bindE (runInheritWrangler E args) f)"
  unfolding runInheritWrangler_def bindE_assoc by (rule stops_run) (use assms in auto)

lemma setup_fail_ends: "runs_nothing (setup_fail code l) \<and> never_returns (setup_fail code l)"
  by (simp add: setup_fail_def frame_intros)

lemma stops_frame [stops_intros]:
  "stops X (setup_fail code l)" "stops X (printE l)" "stops X (print_lines ls)" "stops X (returnE x)" "stops X (throwE e)" "stops X (liftE r)"
  "stops X (loadArgs E argv)" "stops X (preflight E node a)" "stops X (currentGitSha E)" "stops X (assertStateMatches E sha)"
  "stops X (exists_file E p)" "stops X (remove_file E p)" "stops X (planned E template a i)" "stops X (loadCredentials E)"
  "stops X (loadSetupState E)" "stops X (record_setup E plan config)" "stops X (dry_run E node a)"
  by (rule stops_quiet, rule frame_intros)+

section \<open>The steps of a setup\<close>

lemma stops_command [stops_intros]:
  "stops X (applyMigrations E generated)" "stops X (deploy E generated)"
  unfolding applyMigrations_def deploy_def by (rule stops_inherit; simp add: setup_fail_ends stops_intros)+

lemma stops_secret [stops_intros]: "stops X (configure_secret E GENERATED_FILE forceAll c name)"
proof (cases "name \<in> set OPERATOR_LOCAL_CREDENTIALS")
  case True
  then show ?thesis unfolding configure_secret_def Let_def by (simp add: stops_intros)
next
  case False
  have argv: "wranglerArgs (secret_put (js name) GENERATED_FILE) = secret_put (js name) GENERATED_FILE"
    by (simp add: wranglerArgs_def secret_put_def)
  have "stops X (bindE (put_secret E name (credential_of c name) GENERATED_FILE) (\<lambda>ok.
        if \<not> ok then setup_fail ''secret_put_failed'' (js (name @ '' could not be configured.''))
        else printE (js (name @ '': configured''))))"
    unfolding put_secret_def bindE_assoc
    by (rule stops_run) (use False argv in \<open>auto simp: setup_fail_ends stops_intros\<close>)
  then show ?thesis unfolding configure_secret_def Let_def by (intro stops_cases stops_frame)
qed

lemma stops_secrets [stops_intros]: "stops X (configureSecrets E plan GENERATED_FILE forceAll)"
  unfolding configureSecrets_def by (intro stops_intros)

lemma stops_createD1 [stops_intros]: "stops X (createD1 E name)"
  unfolding createD1_def
  by (rule stops_capture) (simp_all add: setup_fail_ends, intro stops_quiet frame_intros)

lemma stops_adoptD1 [stops_intros]: "stops X (adoptD1 E name i)"
  unfolding adoptD1_def d1Tables_def bindE_assoc
  by (rule stops_capture) (simp_all add: setup_fail_ends, intro stops_intros)

lemma stops_ensureD1 [stops_intros]: "stops X (ensureD1 E plan)"
  unfolding ensureD1_def listD1_def Let_def bindE_assoc
  by (rule stops_capture) (simp_all add: setup_fail_ends listing_of_def, intro stops_intros)

lemma stops_createR2 [stops_intros]: "stops X (createR2 E name)"
  unfolding createR2_def
  by (rule stops_inherit) (simp_all add: setup_fail_ends, rule stops_inherit, simp_all add: setup_fail_ends stops_intros)

lemma stops_adoptR2 [stops_intros]: "stops X (adoptR2 E name)"
  unfolding adoptR2_def
  by (rule stops_capture) (simp_all add: setup_fail_ends, intro stops_intros)

lemma stops_ensureR2 [stops_intros]: "stops X (ensureR2 E plan)"
  unfolding ensureR2_def listR2_def Let_def bindE_assoc
  by (rule stops_capture) (simp_all add: setup_fail_ends listing_of_def, intro stops_intros)

lemma stops_full [stops_intros]: "stops X (full_setup E template a)"
  unfolding full_setup_def provision_def printManualSteps_def Let_def by (intro stops_intros)

lemma stops_generated [stops_intros]: "stops X (generated_only E a sha)"
  unfolding generated_only_def by (intro stops_intros)

lemma stops_main [stops_intros]: "stops X (setup_main E node argv)"
  unfolding setup_main_def by (intro stops_intros)

lemma stops_bootstrap [stops_intros]: "stops X (removeBootstrap E)"
  unfolding removeBootstrap_def
  by (intro stops_intros stops_inherit) (simp_all add: setup_fail_ends stops_intros)

lemma stops_setup: "stops X (setup_command E usage node argv)"
  unfolding setup_command_def by (intro stops_intros)

text \<open>
  C19. A setup stops at the first Wrangler command that fails: whatever its arguments, replies and failures, and wherever it is
  killed, all its commands but possibly the last have worked, and all of them when it returns. The only texts it sends to a command
  are values of secrets of the Worker that are not reserved to the operator's machine.
\<close>

theorem setup_stops_at_failure:
  "case setup_command E usage node argv w of (r, w') \<Rightarrow>
     \<exists>cs. commands w' = commands w @ cs
       \<and> list_all cm_ok (case r of Inl e \<Rightarrow> butlast cs | Inr u \<Rightarrow> cs)
       \<and> list_all (\<lambda>c. cm_input c = [] \<or> (\<exists>n. n \<notin> set OPERATOR_LOCAL_CREDENTIALS \<and> cm_argv c = secret_put (js n) GENERATED_FILE)) cs"
proof -
  obtain r w' where run: "setup_command E usage node argv w = (r, w')" by fastforce
  have "fine (commands w) w" by (simp add: fine_def)
  then have "case r of Inl e \<Rightarrow> ended (commands w) w' | Inr u \<Rightarrow> fine (commands w) w'"
    using triple_Inl [OF stops_setup [unfolded stops_def]] triple_Inr [OF stops_setup [unfolded stops_def]] run by (cases r; fastforce)
  then show ?thesis using run by (auto simp: fine_def ended_def safe_input_def [abs_def] split: sum.splits)
qed

section \<open>What precedes a deployment\<close>

definition undeployed :: "command list \<Rightarrow> machine \<Rightarrow> bool" where
  "undeployed X w \<longleftrightarrow> (\<exists>cs. commands w = X @ cs \<and> deploy_command GENERATED_FILE \<notin> cm_argv ` set cs)"

text \<open>The configuration and the state on the disk belong together.\<close>

definition recorded :: "operator_env \<Rightarrow> jsval \<Rightarrow> machine \<Rightarrow> bool" where
  "recorded E template w \<longleftrightarrow> (\<exists>plan config sha. buildGeneratedConfig template plan = Inr config \<and> configInvariants config = []
     \<and> files w GENERATED_FILE = Some (document_text config)
     \<and> files w STATE_FILE = Some (document_text (setup_state (platform_of (host_of E)) sha plan config)))"

definition puts_secret :: "string \<Rightarrow> command list \<Rightarrow> bool" where
  "puts_secret name cs \<longleftrightarrow> list_ex (\<lambda>c. cm_argv c = secret_put (js name) GENERATED_FILE \<and> cm_input c \<noteq> []) cs"

lemma keeps_undeployed: "runs_nothing m \<Longrightarrow> keeps (undeployed X) m"
  by (simp add: keeps_def runs_nothing_def undeployed_def)

lemma keeps_recorded: "writes_only {} m \<Longrightarrow> keeps (recorded E template) m"
  by (simp add: keeps_def writes_only_def recorded_def)

named_theorems undeployed_intros \<open>operations that deploy nothing\<close>

lemma undeployed_run:
  assumes "wranglerArgs args \<noteq> deploy_command GENERATED_FILE"
  shows "keeps (undeployed X) (runWrangler E args input)"
proof (rule keepsI)
  fix w assume w: "undeployed X w"
  obtain r w' where run: "runWrangler E args input w = (r, w')" by fastforce
  from runWrangler_log [OF run] w assms have "undeployed X w'"
    by (auto simp: undeployed_def)
  then show "undeployed X (snd (runWrangler E args input w))" using run by simp
qed

lemma argv_distinct:
  "wranglerArgs d1_list \<noteq> deploy_command g" "wranglerArgs r2_list \<noteq> deploy_command g"
  "wranglerArgs (tables_command i) \<noteq> deploy_command g" "wranglerArgs (d1_create n) \<noteq> deploy_command g"
  "wranglerArgs (r2_create n) \<noteq> deploy_command g" "wranglerArgs (sentinel_put n) \<noteq> deploy_command g"
  "wranglerArgs (sentinel_get n) \<noteq> deploy_command g" "wranglerArgs (migrate_command g') \<noteq> deploy_command g"
  "wranglerArgs (secret_put n g') \<noteq> deploy_command g"
  by (simp_all add: wranglerArgs_def words_of_def deploy_command_def d1_list_def r2_list_def tables_command_def d1_create_def
      r2_create_def sentinel_put_def sentinel_get_def migrate_command_def secret_put_def)

lemma undeployed_capture: "wranglerArgs args \<noteq> deploy_command GENERATED_FILE \<Longrightarrow> keeps (undeployed X) (runCaptureWrangler E args)"
  unfolding runCaptureWrangler_def by (rule undeployed_run)

lemma undeployed_inherit: "wranglerArgs args \<noteq> deploy_command GENERATED_FILE \<Longrightarrow> keeps (undeployed X) (runInheritWrangler E args)"
  unfolding runInheritWrangler_def by (intro keeps_bind keeps_return undeployed_run)

lemma undeployed_quiet [undeployed_intros]:
  "keeps (undeployed X) (setup_fail code l)" "keeps (undeployed X) (printE l)" "keeps (undeployed X) (remove_file E p)"
  "keeps (undeployed X) (planned E template a i)" "keeps (undeployed X) (record_setup E plan config)" "keeps (undeployed X) (loadCredentials E)"
  by (rule keeps_undeployed, rule frame_intros)+

lemma undeployed_provision [undeployed_intros]: "keeps (undeployed X) (provision E template plan)"
  unfolding provision_def ensureD1_def ensureR2_def listD1_def listR2_def createD1_def adoptD1_def d1Tables_def createR2_def adoptR2_def Let_def
  by (intro keeps_flow keeps_try undeployed_intros undeployed_capture undeployed_inherit argv_distinct)

lemma triple_value:
  assumes "keeps I m" "\<And>w x w'. m w = (Inr x, w') \<Longrightarrow> V x w'"
  shows "triple I m (\<lambda>x w. I w \<and> V x w) (\<lambda>_. I)"
proof (rule tripleI)
  fix w assume "I w"
  obtain r w' where run: "m w = (r, w')" by fastforce
  have "I w'" by (rule keepsD [OF assms(1) \<open>I w\<close> run])
  then show "case m w of (r, w') \<Rightarrow> (case r of Inl e \<Rightarrow> I w' | Inr x \<Rightarrow> I w' \<and> V x w')"
    using run assms(2) [of w _ w'] by (simp split: sum.split)
qed

lemma provision_value:
  assumes "provision E template plan w = (Inr x, w')"
  shows "case x of (p, config) \<Rightarrow> buildGeneratedConfig template p = Inr config \<and> configInvariants config = []"
  using assms
  by (auto simp: provision_def Let_def setup_fail_def failE_def throwE_def liftE_def returnE_def split: if_splits sum.splits elim!: bindE_InrE)

lemma document_paths_differ: "GENERATED_FILE \<noteq> STATE_FILE" "GENERATED_FILE \<noteq> temporary STATE_FILE"
  by (simp_all add: GENERATED_FILE_def STATE_FILE_def temporary_def js_def)

lemma record_value:
  assumes "record_setup E plan config w = (Inr (), w')"
  shows "files w' GENERATED_FILE = Some (document_text config)
    \<and> (\<exists>sha. files w' STATE_FILE = Some (document_text (setup_state (platform_of (host_of E)) sha plan config)))"
proof -
  from assms obtain w1 sha w2 w3 where g: "writeGeneratedConfig E config w = (Inr (), w1)" and h: "head_text E w1 = (Inr sha, w2)"
    and s: "writeSetupState E (setup_state (platform_of (host_of E)) sha plan config) w2 = (Inr (), w3)" and w': "files w' = files w3"
    unfolding record_setup_def writeState_def by (elim bindE_InrE) (auto simp: printE_def)
  have "files w1 GENERATED_FILE = Some (document_text config)" using json_write_atomic [OF g [unfolded writeGeneratedConfig_def]] by auto
  moreover have "files w2 = files w1" using writes_onlyD [OF frame_head(1) h, of _ "{}"] by auto
  moreover have "files w3 GENERATED_FILE = files w2 GENERATED_FILE"
    by (rule writes_onlyD [OF frame_write(1) s [unfolded writeSetupState_def], where S = "{STATE_FILE, temporary STATE_FILE}"])
      (simp_all add: document_paths_differ)
  moreover have "files w3 STATE_FILE = Some (document_text (setup_state (platform_of (host_of E)) sha plan config))"
    using json_write_atomic [OF s [unfolded writeSetupState_def]] by auto
  ultimately show ?thesis using w' by metis
qed

section \<open>Migrations, secrets, deployment\<close>

text \<open>The commands of a setup that has applied the migrations and has put the secrets of \<open>names\<close>.\<close>

definition releasing :: "operator_env \<Rightarrow> jsval \<Rightarrow> command list \<Rightarrow> string set \<Rightarrow> machine \<Rightarrow> bool" where
  "releasing E template X names w \<longleftrightarrow> recorded E template w \<and> (\<exists>found m puts. commands w = X @ found @ [m] @ puts
     \<and> deploy_command GENERATED_FILE \<notin> cm_argv ` set (found @ [m] @ puts)
     \<and> cm_argv m = migrate_command GENERATED_FILE \<and> cm_ok m \<and> (\<forall>name \<in> names. puts_secret name puts))"

definition launched :: "operator_env \<Rightarrow> jsval \<Rightarrow> command list \<Rightarrow> machine \<Rightarrow> bool" where
  "launched E template X w \<longleftrightarrow> recorded E template w \<and> (\<exists>found m puts d. commands w = X @ found @ [m] @ puts @ [d]
     \<and> deploy_command GENERATED_FILE \<notin> cm_argv ` set (found @ [m] @ puts)
     \<and> cm_argv m = migrate_command GENERATED_FILE \<and> cm_argv d = deploy_command GENERATED_FILE
     \<and> puts_secret ''AUTH_PEPPER'' puts \<and> puts_secret ''ADMIN_BOOTSTRAP_TOKEN'' puts)"

text \<open>
  The commands of a setup that has run its deployment: every command before it has worked, among them the migrations and, after
  them, the upload of both required secrets. With \<open>worked\<close> the deployment has worked, too.
\<close>

definition deployed :: "operator_env \<Rightarrow> jsval \<Rightarrow> command list \<Rightarrow> bool \<Rightarrow> machine \<Rightarrow> bool" where
  "deployed E template X worked w \<longleftrightarrow> recorded E template w \<and> (\<exists>found m puts d. commands w = X @ found @ [m] @ puts @ [d]
     \<and> list_all cm_ok (found @ [m] @ puts) \<and> deploy_command GENERATED_FILE \<notin> cm_argv ` set (found @ [m] @ puts)
     \<and> cm_argv m = migrate_command GENERATED_FILE
     \<and> puts_secret ''AUTH_PEPPER'' puts \<and> puts_secret ''ADMIN_BOOTSTRAP_TOKEN'' puts
     \<and> cm_argv d = deploy_command GENERATED_FILE \<and> (worked \<longrightarrow> cm_ok d))"

lemma releasing_undeployed: "releasing E template X names w \<Longrightarrow> undeployed X w"
  unfolding releasing_def undeployed_def by blast

lemma keeps_releasing: "runs_nothing m \<Longrightarrow> writes_only {} m \<Longrightarrow> keeps (releasing E template X names) m"
  by (simp add: keeps_def runs_nothing_def writes_only_def releasing_def recorded_def)

lemma recorded_run: "recorded E template w \<Longrightarrow> runWrangler E' args input w = (r, w') \<Longrightarrow> recorded E template w'"
  using keepsD [OF keeps_recorded [OF frame_wrangler(1)]] by blast

text \<open>A command either is not run, or is the last of the log.\<close>

lemma run_cases:
  assumes "runWrangler E args input w = (r, w')" "recorded E template w"
  obtains e where "r = Inl e" "commands w' = commands w" "recorded E template w'"
  | c where "commands w' = commands w @ [c]" "cm_argv c = wranglerArgs args" "cm_input c = input"
      "\<And>reply. r = Inr reply \<Longrightarrow> cm_ok c = cr_ok reply" "recorded E template w'"
  using runWrangler_log [OF assms(1)] recorded_run [OF assms(2,1)] by blast

lemma migrate_triple:
  "triple (\<lambda>w. undeployed X w \<and> recorded E template w) (applyMigrations E GENERATED_FILE)
    (\<lambda>_. releasing E template X {}) (\<lambda>_. undeployed X)"
proof (rule tripleI, elim conjE)
  fix w assume w: "undeployed X w" "recorded E template w"
  obtain r w' where run: "runWrangler E (migrate_command GENERATED_FILE) [] w = (r, w')" by fastforce
  have argv: "wranglerArgs (migrate_command GENERATED_FILE) = migrate_command GENERATED_FILE"
    "migrate_command GENERATED_FILE \<noteq> deploy_command GENERATED_FILE"
    by (simp_all add: wranglerArgs_def migrate_command_def words_of_def deploy_command_def)
  from w(1) obtain cs where cs: "commands w = X @ cs" "deploy_command GENERATED_FILE \<notin> cm_argv ` set cs" by (auto simp: undeployed_def)
  have u: "undeployed X w'" by (rule keepsD [OF undeployed_run [OF argv_distinct(8)] w(1) run])
  have ok: "releasing E template X {} w'" if "r = Inr reply" "cr_ok reply" for reply
    using run w(2)
  proof (rule run_cases)
    fix c assume "commands w' = commands w @ [c]" "cm_argv c = wranglerArgs (migrate_command GENERATED_FILE)"
      "\<And>reply. r = Inr reply \<Longrightarrow> cm_ok c = cr_ok reply" "recorded E template w'"
    then show ?thesis using cs that argv unfolding releasing_def by (intro conjI exI [of _ cs] exI [of _ c] exI [of _ "[]"]) auto
  qed (use that in simp)
  show "case applyMigrations E GENERATED_FILE w of (r, w') \<Rightarrow>
      (case r of Inl e \<Rightarrow> undeployed X w' | Inr x \<Rightarrow> releasing E template X {} w')"
    using run u ok
    by (cases r) (auto simp: applyMigrations_def runInheritWrangler_def bindE_def returnE_def setup_fail_def failE_def printE_def
      throwE_def undeployed_def)
qed

abbreviation required_secrets :: "string set" where
  "required_secrets \<equiv> {''AUTH_PEPPER'', ''ADMIN_BOOTSTRAP_TOKEN''}"

lemma releasing_fail: "triple (releasing E template X names) (setup_fail code l) Q (\<lambda>_. undeployed X)"
proof (rule tripleI)
  fix w assume w: "releasing E template X names w"
  then have "undeployed X w" by (rule releasing_undeployed)
  then show "case setup_fail code l w of (r, w') \<Rightarrow> (case r of Inl e \<Rightarrow> undeployed X w' | Inr x \<Rightarrow> Q x w')"
    by (simp add: setup_fail_def failE_def bindE_def printE_def throwE_def undeployed_def)
qed

lemma releasing_quiet:
  assumes "runs_nothing m" "writes_only {} m"
  shows "triple (releasing E template X names) m (\<lambda>_. releasing E template X names) (\<lambda>_. undeployed X)"
  by (rule triple_conseq [OF keeps_releasing [OF assms, folded triple_keeps]]) (auto intro: releasing_undeployed)

lemma secret_put_triple:
  assumes "v \<noteq> []"
  shows "triple (releasing E template X names) (put_secret E name v GENERATED_FILE)
    (\<lambda>ok. releasing E template X (insert name names)) (\<lambda>_. undeployed X)"
proof (rule tripleI)
  fix w assume w: "releasing E template X names w"
  obtain r w' where run: "runWrangler E (secret_put (js name) GENERATED_FILE) v w = (r, w')" by fastforce
  have argv: "wranglerArgs (secret_put (js name) GENERATED_FILE) = secret_put (js name) GENERATED_FILE"
    by (simp add: wranglerArgs_def secret_put_def)
  then have other: "deploy_command GENERATED_FILE \<noteq> secret_put (js name) GENERATED_FILE" using argv_distinct(9) by metis
  have u: "undeployed X w'" by (rule keepsD [OF undeployed_run [OF argv_distinct(9)] releasing_undeployed [OF w] run])
  from w obtain found m puts where l: "commands w = X @ found @ [m] @ puts"
    "deploy_command GENERATED_FILE \<notin> cm_argv ` set (found @ [m] @ puts)" "cm_argv m = migrate_command GENERATED_FILE" "cm_ok m"
    "\<forall>n \<in> names. puts_secret n puts" and rec: "recorded E template w"
    unfolding releasing_def by blast
  have ok: "releasing E template X (insert name names) w'" if "r = Inr reply" for reply
    using run rec
  proof (rule run_cases)
    fix c assume c: "commands w' = commands w @ [c]" "cm_argv c = wranglerArgs (secret_put (js name) GENERATED_FILE)" "cm_input c = v"
      "recorded E template w'"
    then have "commands w' = X @ found @ [m] @ (puts @ [c])" "\<forall>n \<in> insert name names. puts_secret n (puts @ [c])"
      "deploy_command GENERATED_FILE \<notin> cm_argv ` set (found @ [m] @ puts @ [c])"
      using l argv other assms by (auto simp: puts_secret_def)
    then show ?thesis using c(4) l(3,4) unfolding releasing_def by blast
  qed (use that in simp)
  show "case put_secret E name v GENERATED_FILE w of (r, w') \<Rightarrow>
      (case r of Inl e \<Rightarrow> undeployed X w' | Inr x \<Rightarrow> releasing E template X (insert name names) w')"
    using run u ok by (cases r) (auto simp: put_secret_def bindE_def returnE_def)
qed

lemma releasing_mono: "releasing E template X names w \<Longrightarrow> names' \<subseteq> names \<Longrightarrow> releasing E template X names' w"
  unfolding releasing_def by blast

lemma secret_triple:
  "triple (releasing E template X names) (configure_secret E GENERATED_FILE True c name)
    (\<lambda>_. releasing E template X (names \<union> {name} \<inter> required_secrets)) (\<lambda>_. undeployed X)"
proof -
  let ?Q = "\<lambda>_ :: unit. releasing E template X (names \<union> {name} \<inter> required_secrets)"
  have print: "triple (releasing E template X names') (printE l) (\<lambda>_. releasing E template X names') (\<lambda>_. undeployed X)" for names' l
    by (rule releasing_quiet; rule frame_intros)
  have absent: "triple (releasing E template X names)
      (if True \<and> name \<in> required_secrets then setup_fail code l else printE l') ?Q (\<lambda>_. undeployed X)" for code l l'
    using print [of names l'] by (auto intro: releasing_fail)
  have put: "triple (releasing E template X names) (bindE (put_secret E name v GENERATED_FILE) (\<lambda>ok.
        if \<not> ok then setup_fail code l else printE l')) ?Q (\<lambda>_. undeployed X)" if "v \<noteq> []" for v code l l'
  proof (rule triple_bind [OF secret_put_triple [OF that]])
    fix ok
    have "triple (releasing E template X (insert name names)) (printE l') ?Q (\<lambda>_. undeployed X)"
      by (rule triple_conseq [OF print]) (auto intro: releasing_mono)
    then show "triple (releasing E template X (insert name names)) (if \<not> ok then setup_fail code l else printE l') ?Q (\<lambda>_. undeployed X)"
      by (cases ok) (simp_all add: releasing_fail)
  qed
  show ?thesis unfolding configure_secret_def Let_def
    by (cases "credential_of c name = []"; cases "name \<in> set OPERATOR_LOCAL_CREDENTIALS")
      (use absent put releasing_fail in \<open>simp_all only: if_True if_False simp_thms not_False_eq_True\<close>)
qed

lemma triple_for_union:
  assumes "\<And>x N. triple (I N) (f x) (\<lambda>_. I (N \<union> g x)) R"
  shows "triple (I N) (forE xs f) (\<lambda>_. I (N \<union> \<Union> (g ` set xs))) R"
proof (induction xs arbitrary: N)
  case Nil
  show ?case by (simp add: triple_return)
next
  case (Cons x xs)
  have "triple (I (N \<union> g x)) (forE xs f) (\<lambda>_. I (N \<union> \<Union> (g ` set (x # xs)))) R"
    using Cons [of "N \<union> g x"] by (simp add: Un_assoc)
  then show ?case using triple_bind [OF assms [of N x]] by simp
qed

lemma secrets_triple:
  "triple (releasing E template X {}) (configureSecrets E plan GENERATED_FILE True)
    (\<lambda>_. releasing E template X required_secrets) (\<lambda>_. undeployed X)"
  unfolding configureSecrets_def
proof (rule triple_bind [OF releasing_quiet])
  fix c
  have "required_secrets \<subseteq> \<Union> ((\<lambda>name. {name} \<inter> required_secrets) ` set (secrets_for plan))"
    by (auto simp: secrets_for_def Let_def)
  then show "triple (releasing E template X {}) (forE (secrets_for plan) (configure_secret E GENERATED_FILE True c))
      (\<lambda>_. releasing E template X required_secrets) (\<lambda>_. undeployed X)"
    using triple_for_union [where I = "releasing E template X" and f = "configure_secret E GENERATED_FILE True c"
        and g = "\<lambda>name. {name} \<inter> required_secrets", OF secret_triple, of "{}" "secrets_for plan"]
    by (elim triple_conseq) (auto intro: releasing_mono)
qed (rule frame_intros)+

lemma deploy_last:
  "triple (releasing E template X required_secrets) (deploy E GENERATED_FILE)
    (\<lambda>_. launched E template X) (\<lambda>_ w. undeployed X w \<or> launched E template X w)"
proof (rule tripleI)
  fix w assume w: "releasing E template X required_secrets w"
  obtain r w' where run: "runWrangler E (deploy_command GENERATED_FILE) [] w = (r, w')" by fastforce
  have argv: "wranglerArgs (deploy_command GENERATED_FILE) = deploy_command GENERATED_FILE"
    by (simp add: wranglerArgs_def deploy_command_def words_of_def)
  from w obtain found m puts where l: "commands w = X @ found @ [m] @ puts"
    "deploy_command GENERATED_FILE \<notin> cm_argv ` set (found @ [m] @ puts)" "cm_argv m = migrate_command GENERATED_FILE" "cm_ok m"
    "\<forall>n \<in> required_secrets. puts_secret n puts" and rec: "recorded E template w"
    unfolding releasing_def by blast
  have "launched E template X w' \<or> (undeployed X w' \<and> (\<exists>e. r = Inl e))"
    using run rec
  proof (rule run_cases)
    fix e assume e: "r = Inl e" "commands w' = commands w"
    then have "undeployed X w'" unfolding undeployed_def using l by (intro exI [of _ "found @ [m] @ puts"]) simp
    then show ?thesis using e by blast
  next
    fix d assume "commands w' = commands w @ [d]" "cm_argv d = wranglerArgs (deploy_command GENERATED_FILE)" "recorded E template w'"
    then show ?thesis unfolding launched_def using l argv by (intro disjI1 conjI exI [of _ found] exI [of _ m] exI [of _ puts] exI [of _ d]) auto
  qed
  then show "case deploy E GENERATED_FILE w of (r, w') \<Rightarrow>
      (case r of Inl e \<Rightarrow> undeployed X w' \<or> launched E template X w' | Inr x \<Rightarrow> launched E template X w')"
    using run
    by (cases r) (auto simp: deploy_def runInheritWrangler_def bindE_def returnE_def setup_fail_def failE_def printE_def
      throwE_def undeployed_def launched_def recorded_def)
qed

lemma full_triple:
  "triple (undeployed X) (full_setup E template a) (\<lambda>_. launched E template X) (\<lambda>_ w. undeployed X w \<or> launched E template X w)"
proof -
  let ?R = "\<lambda>w. undeployed X w \<or> launched E template X w"
  have early: "triple (undeployed X) m (\<lambda>_. undeployed X) (\<lambda>_. ?R)" if "keeps (undeployed X) m" for m :: "'a op"
    by (rule triple_conseq [OF that [folded triple_keeps]]) simp_all
  have weaker: "triple P m Q (\<lambda>_. ?R)" if "triple P m Q (\<lambda>_. undeployed X)" for P and m :: "'b op" and Q
    by (rule triple_conseq [OF that]) simp_all
  have tail: "triple (\<lambda>w. undeployed X w \<and> (buildGeneratedConfig template plan = Inr config \<and> configInvariants config = []))
      (bindE (record_setup E plan config) (\<lambda>_. bindE (applyMigrations E GENERATED_FILE) (\<lambda>_.
       bindE (configureSecrets E plan GENERATED_FILE True) (\<lambda>_. bindE (deploy E GENERATED_FILE) (\<lambda>_. printManualSteps plan)))))
      (\<lambda>_. launched E template X) (\<lambda>_. ?R)" for plan config
  proof (rule triple_pure, rule triple_bind)
    assume c: "buildGeneratedConfig template plan = Inr config \<and> configInvariants config = []"
    show "triple (undeployed X) (record_setup E plan config) (\<lambda>_ w. undeployed X w \<and> recorded E template w) (\<lambda>_. ?R)"
    proof (rule weaker, rule triple_value [OF undeployed_quiet(5)])
      fix w w' :: machine and u :: unit
      assume "record_setup E plan config w = (Inr u, w')"
      then show "recorded E template w'" using record_value [of E plan config w w'] c unfolding recorded_def by auto
    qed
    have print: "triple (launched E template X) (printManualSteps plan) (\<lambda>_. launched E template X) (\<lambda>_. ?R)"
      by (simp add: triple_def printManualSteps_def Let_def printE_def launched_def recorded_def)
    show "triple (\<lambda>w. undeployed X w \<and> recorded E template w) (bindE (applyMigrations E GENERATED_FILE) (\<lambda>_.
       bindE (configureSecrets E plan GENERATED_FILE True) (\<lambda>_. bindE (deploy E GENERATED_FILE) (\<lambda>_. printManualSteps plan))))
      (\<lambda>_. launched E template X) (\<lambda>_. ?R)" for u
      by (rule triple_bind [OF weaker [OF migrate_triple]], rule triple_bind [OF weaker [OF secrets_triple]],
          rule triple_bind [OF deploy_last print])
  qed
  have prov: "triple (undeployed X) (provision E template plan) (\<lambda>x w. undeployed X w \<and> (case x of (p, config) \<Rightarrow>
      buildGeneratedConfig template p = Inr config \<and> configInvariants config = [])) (\<lambda>_. ?R)" for plan
    by (rule weaker, rule triple_value [OF undeployed_provision]) (rule provision_value)
  have step: "triple (undeployed X) (bindE (provision E template plan) (\<lambda>(p, config). F p config)) Q (\<lambda>_. ?R)"
    if "\<And>p config. triple (\<lambda>w. undeployed X w \<and> (buildGeneratedConfig template p = Inr config \<and> configInvariants config = []))
      (F p config) Q (\<lambda>_. ?R)" for plan and F :: "setup_plan \<Rightarrow> jsval \<Rightarrow> unit op" and Q
    by (rule triple_bind [OF prov]) (auto simp: split_beta intro: that split: prod.split)
  show ?thesis
    unfolding full_setup_def
    by (rule triple_bind [OF early [OF undeployed_quiet(3)]], rule triple_bind [OF early [OF undeployed_quiet(4)]], rule step, rule tail)
qed

lemma launched_deployed:
  assumes "launched E template X w"
  shows "fine X w \<Longrightarrow> deployed E template X True w" "ended X w \<Longrightarrow> deployed E template X False w"
proof -
  from assms obtain found m puts d where rec: "recorded E template w" and l: "commands w = X @ found @ [m] @ puts @ [d]"
    "deploy_command GENERATED_FILE \<notin> cm_argv ` set (found @ [m] @ puts)" "cm_argv m = migrate_command GENERATED_FILE"
    "cm_argv d = deploy_command GENERATED_FILE" "puts_secret ''AUTH_PEPPER'' puts" "puts_secret ''ADMIN_BOOTSTRAP_TOKEN'' puts"
    unfolding launched_def by blast
  have log: "cs = (found @ [m] @ puts) @ [d]" if "commands w = X @ cs" for cs using l(1) that by simp
  have last: "deployed E template X worked w" if "list_all cm_ok (found @ [m] @ puts)" "worked \<longrightarrow> cm_ok d" for worked
    unfolding deployed_def using rec l that by blast
  show "deployed E template X True w" if "fine X w"
  proof (rule last)
    obtain cs where "commands w = X @ cs" "list_all cm_ok cs" using \<open>fine X w\<close> by (auto simp: fine_def)
    then have "list_all cm_ok ((found @ [m] @ puts) @ [d])" using log by blast
    then show "list_all cm_ok (found @ [m] @ puts)" "True \<longrightarrow> cm_ok d" by simp_all
  qed
  show "deployed E template X False w" if "ended X w"
  proof (rule last)
    obtain cs where "commands w = X @ cs" "list_all cm_ok (butlast cs)" using \<open>ended X w\<close> by (auto simp: ended_def)
    then show "list_all cm_ok (found @ [m] @ puts)" using butlast_snoc [of "found @ [m] @ puts" d] log by metis
  qed simp
qed

text \<open>
  C18. A full setup deploys last. Whatever fails and wherever it is killed, either it has run no deployment and does not return, or
  its last command is its only deployment. Then every command before the deployment has worked, among them the migrations and,
  after them, the upload of the two required secrets, each with a value; and the generated configuration on the disk is the one of
  a plan, passes its invariants and is described by the setup state on the disk. When the setup returns, the deployment has worked.
\<close>

theorem setup_deploys_last:
  "case full_setup E template a w of (r, w') \<Rightarrow>
     (case r of Inl e \<Rightarrow> undeployed (commands w) w' \<or> deployed E template (commands w) False w'
      | Inr u \<Rightarrow> deployed E template (commands w) True w')"
proof -
  obtain r w' where run: "full_setup E template a w = (r, w')" by fastforce
  have start: "undeployed (commands w) w" "fine (commands w) w" by (simp_all add: undeployed_def fine_def)
  show ?thesis
  proof (cases r)
    case (Inl e)
    have "ended (commands w) w'" by (rule triple_Inl [OF stops_full [unfolded stops_def] start(2) run [unfolded Inl]])
    then have "undeployed (commands w) w' \<or> deployed E template (commands w) False w'"
      using triple_Inl [OF full_triple start(1) run [unfolded Inl]] launched_deployed(2) by blast
    then show ?thesis using run Inl by simp
  next
    case (Inr u)
    have "fine (commands w) w'" by (rule triple_Inr [OF stops_full [unfolded stops_def] start(2) run [unfolded Inr]])
    then have "deployed E template (commands w) True w'"
      using triple_Inr [OF full_triple start(1) run [unfolded Inr]] launched_deployed(1) by blast
    then show ?thesis using run Inr by simp
  qed
qed

section \<open>The dry run\<close>

lemma dry_run_flag:
  "sa_dry_run (parseSetupArgs H argv) \<longleftrightarrow> js ''--dry-run'' \<in> set argv" "sa_dry_run (with_operator operator a) = sa_dry_run a"
  by (simp_all add: parseSetupArgs_def with_operator_def Let_def)

lemma setup_fail_never [simp]: "setup_fail code l w \<noteq> (Inr x, w')"
  by (simp add: setup_fail_def failE_def bindE_def printE_def throwE_def)

lemma loadArgs_dry:
  assumes "loadArgs E argv w = (Inr a, w1)"
  shows "sa_dry_run a \<longleftrightarrow> js ''--dry-run'' \<in> set argv"
proof -
  let ?a = "parseSetupArgs (host_of E) argv"
  from assms obtain operator w2 where
    "returnE (if is_production (sa_mode ?a) then with_operator operator ?a else ?a) w2 = (Inr a, w1)"
    unfolding loadArgs_def Let_def by (cases "validateMode (sa_mode ?a)") (auto elim!: bindE_InrE)
  then show ?thesis by (auto simp: returnE_def dry_run_flag split: if_splits)
qed

text \<open>
  C8. A dry run changes nothing: with \<open>--dry-run\<close> the setup command runs no Wrangler command and leaves every file as it was, whatever
  the other arguments are, unless they ask for the removal of the bootstrap secret.
\<close>

theorem setup_dry_run_inert:
  assumes "js ''--dry-run'' \<in> set argv" "js ''--remove-bootstrap'' \<notin> set argv" "setup_command E usage node argv w = (r, w')"
  shows "files w' = files w \<and> commands w' = commands w"
proof (cases "js ''--help'' \<in> set argv \<or> js ''-h'' \<in> set argv")
  case True
  then show ?thesis using assms(3) by (auto simp: setup_command_def printE_def)
next
  case False
  then have main: "setup_main E node argv w = (r, w')" using assms(2,3) by (simp add: setup_command_def)
  obtain r1 w1 where load: "loadArgs E argv w = (r1, w1)" by fastforce
  have one: "files w1 = files w" "commands w1 = commands w"
    using writes_onlyD [OF frame_template(3) load, of _ "{}"] runs_nothingD [OF frame_template(4) load] by auto
  show ?thesis
  proof (cases r1)
    case (Inl e)
    then show ?thesis using main load one by (simp add: setup_main_def bindE_def)
  next
    case (Inr a)
    then have "dry_run E node a w1 = (r, w')"
      using main load loadArgs_dry [of E argv w a w1] assms(1) by (simp add: setup_main_def bindE_Inr)
    then show ?thesis
      using one writes_onlyD [OF frame_dry_run(1), of E node a w1 r w' _ "{}"] runs_nothingD [OF frame_dry_run(2)] by fastforce
  qed
qed

theorem setup_dry_run_inert_witness:
  "case setup_command example_switcher (js ''usage'') (js ''22.12.0'') [js ''--mode'', js ''production'', js ''--dry-run''] example_interrupted of
     (r, w') \<Rightarrow> files w' = files example_interrupted \<and> commands w' = commands example_interrupted"
  using setup_dry_run_inert [of "[js ''--mode'', js ''production'', js ''--dry-run'']"] by (simp split: prod.split)

end
