(* ===== verification/Configure.thy ===== *)
theory Configure
  imports Deploying
begin

text \<open>
  The configuration wizard (\<open>src/scripts/configure.mjs\<close>): which credentials it collects and when it keeps a stored one, the reader of
  lines that come through a pipe, the interview, the documents it writes, and the non-interactive check. An answer at a
  prompt is \<open>typed\<close>; how the wizard gets it from a pipe is the model of the line reader. The editing of a line at a hidden
  prompt is not modelled.
\<close>

section \<open>Which credentials are collected\<close>

datatype credential_action = Ask_For | Keep_Stored

definition credentialAction :: "string \<Rightarrow> credentials \<Rightarrow> bool \<Rightarrow> credential_action" where
  "credentialAction name c replace = (if credential_of c name = [] then Ask_For else if replace then Ask_For else Keep_Stored)"

definition secretCollectionOrder :: "jsval \<Rightarrow> bool \<Rightarrow> string list" where
  "secretCollectionOrder config allProviders =
     (let wants = (\<lambda>name :: string. allProviders \<or> field config ''outbound_provider'' = JStr (js name)) in
      (if field config ''mode'' = JStr (js ''production'') then [''CLOUDFLARE_API_TOKEN''] else [])
      @ (if wants ''resend'' then [''RESEND_SETUP_API_KEY'', ''RESEND_API_KEY'', ''RESEND_WEBHOOK_SECRET''] else [])
      @ (if wants ''brevo'' then [''BREVO_API_KEY'', ''BREVO_SETUP_API_KEY''] else [])
      @ [''CLOUDFLARE_ROUTING_READ_TOKEN'', ''AUTH_PEPPER'', ''ADMIN_BOOTSTRAP_TOKEN''])"

definition kept_line :: "string \<Rightarrow> jstr" where
  "kept_line name = js (name @ '': PRESENT'') @ dash @ js ''keeping existing''"

definition collect_secret :: "(credentials \<Rightarrow> string \<Rightarrow> jstr op) \<Rightarrow> bool \<Rightarrow> credentials \<Rightarrow> string \<Rightarrow> credentials op" where
  "collect_secret prompt replace c name =
     (if credentialAction name c replace = Keep_Stored then bindE (printE (kept_line name)) (\<lambda>_. returnE c)
      else
        bindE (prompt c name) (\<lambda>v.
        if v \<noteq> [] then returnE (put_key (js name) v c)
        else if credential_of c name \<noteq> [] then bindE (printE (kept_line name)) (\<lambda>_. returnE c)
        else returnE c))"

definition collectSecrets ::
  "jsval \<Rightarrow> credentials \<Rightarrow> (credentials \<Rightarrow> string \<Rightarrow> jstr op) \<Rightarrow> bool \<Rightarrow> bool \<Rightarrow> credentials op" where
  "collectSecrets config c prompt replace allProviders =
     foldE (collect_secret prompt replace) c (secretCollectionOrder config allProviders)"

section \<open>Lines from a pipe\<close>

text \<open>The text before the first line feed and the text after it.\<close>

fun cut_line :: "jstr \<Rightarrow> (jstr \<times> jstr) option" where
  "cut_line [] = None"
| "cut_line (c # s) = (if c = 10 then Some ([], s) else map_option (\<lambda>(l, r). (c # l, r)) (cut_line s))"

text \<open>\<open>replace(/\r$/, "")\<close>.\<close>

definition strip_return :: "jstr \<Rightarrow> jstr" where
  "strip_return l = (if l \<noteq> [] \<and> last l = 13 then butlast l else l)"

record line_reader =
  lr_buffer :: jstr
  lr_pending :: nat
  lr_ended :: bool
  lr_answers :: "jstr list"

text \<open>What is left in the buffer, the questions that still wait, and the answers given.\<close>

fun flush_lines :: "nat \<Rightarrow> bool \<Rightarrow> jstr \<Rightarrow> jstr \<times> nat \<times> jstr list" where
  "flush_lines 0 over buf = (buf, 0, [])"
| "flush_lines (Suc n) over buf =
     (case cut_line buf of
        None \<Rightarrow> if over then ([], n, [strip_return buf]) else (buf, Suc n, [])
      | Some (line, rest) \<Rightarrow> (case flush_lines n over rest of (b, p, answers) \<Rightarrow> (b, p, strip_return line # answers)))"

definition flushAnswers :: "line_reader \<Rightarrow> line_reader" where
  "flushAnswers r =
     (case flush_lines (lr_pending r) (lr_ended r) (lr_buffer r) of (b, p, answers) \<Rightarrow>
        r\<lparr>lr_buffer := b, lr_pending := p, lr_answers := lr_answers r @ answers\<rparr>)"

datatype reader_event = Asked | Chunk jstr | Input_End

fun reader_step :: "reader_event \<Rightarrow> line_reader \<Rightarrow> line_reader" where
  "reader_step Asked r = flushAnswers (r\<lparr>lr_pending := Suc (lr_pending r)\<rparr>)"
| "reader_step (Chunk t) r = flushAnswers (r\<lparr>lr_buffer := lr_buffer r @ t\<rparr>)"
| "reader_step Input_End r = flushAnswers (r\<lparr>lr_ended := True\<rparr>)"

definition new_reader :: line_reader where
  "new_reader = \<lparr> lr_buffer = [], lr_pending = 0, lr_ended = False, lr_answers = [] \<rparr>"

text \<open>Questions are asked one after the other, and nothing arrives after the end of the input.\<close>

fun orderly :: "reader_event list \<Rightarrow> line_reader \<Rightarrow> bool" where
  "orderly [] r = True"
| "orderly (e # es) r = ((case e of Asked \<Rightarrow> lr_pending r = 0 | _ \<Rightarrow> \<not> lr_ended r) \<and> orderly es (reader_step e r))"

definition arrived :: "reader_event list \<Rightarrow> jstr" where
  "arrived es = concat (map (\<lambda>e. case e of Chunk t \<Rightarrow> t | _ \<Rightarrow> []) es)"

section \<open>The interview\<close>

definition readAnswer :: "operator_env \<Rightarrow> jstr \<Rightarrow> jstr op" where
  "readAnswer E question = hiddenInput E question"

definition SECRET_HINTS :: "(string \<times> string) list" where
  "SECRET_HINTS =
     [(''CLOUDFLARE_API_TOKEN'', ''operator-local; control-plane provisioning/reconcile''),
      (''RESEND_SETUP_API_KEY'', ''operator-local; Resend management (Full Access)''),
      (''RESEND_API_KEY'', ''runtime sending''),
      (''RESEND_WEBHOOK_SECRET'', ''real whsec_... from Resend, or leave empty for provider:set reconcile''),
      (''BREVO_API_KEY'', ''runtime sending; also management unless overridden''),
      (''BREVO_SETUP_API_KEY'', ''optional advanced isolation override; empty = use BREVO_API_KEY''),
      (''CLOUDFLARE_ROUTING_READ_TOKEN'', ''Worker runtime, routing sync only''),
      (''AUTH_PEPPER'', ''runtime; do not lose''),
      (''ADMIN_BOOTSTRAP_TOKEN'', ''runtime transient; removed after first sign-in'')]"

definition secret_question :: "bool \<Rightarrow> credentials \<Rightarrow> string \<Rightarrow> jstr" where
  "secret_question replace c name =
     js (name @ '' ('' @ (case map_of SECRET_HINTS name of None \<Rightarrow> '''' | Some hint \<Rightarrow> hint)
       @ (if name = ''BREVO_SETUP_API_KEY'' then ''; leave empty to skip'' else '''')
       @ (if replace \<and> credential_of c name \<noteq> [] then ''; replace existing'' else '''') @ ''; hidden input): '')"

definition generateSecret :: "operator_env \<Rightarrow> jstr op" where
  "generateSecret E = tick E (\<lambda>k w. (Inr (random_text E k), w))"

definition collectInteractiveSecrets :: "operator_env \<Rightarrow> jsval \<Rightarrow> credentials \<Rightarrow> bool \<Rightarrow> bool \<Rightarrow> credentials op" where
  "collectInteractiveSecrets E config c replace allProviders =
     bindE (collectSecrets config c (\<lambda>c name. hiddenInput E (secret_question replace c name)) replace allProviders) (\<lambda>c.
     if field config ''outbound_provider'' = JStr (js ''brevo'') \<and> credential_of c ''BREVO_WEBHOOK_TOKEN'' = [] then
       bindE (generateSecret E) (\<lambda>token.
       bindE (printE (js ''BREVO_WEBHOOK_TOKEN: generated, stored (Bearer auth for the delivery webhook)'')) (\<lambda>_.
       returnE (put_key (js ''BREVO_WEBHOOK_TOKEN'') token c)))
     else returnE c)"

definition config_exit :: "jstr \<Rightarrow> 'a op" where
  "config_exit message = exit_with ''2'' (js ''configure: '' @ message)"

definition set_option :: "string \<Rightarrow> jstr \<Rightarrow> jsval \<Rightarrow> jsval" where
  "set_option key answer config = (if answer = [] then config else JObj (put_key (js key) (JStr answer) (spread config)))"

definition askOrKeep :: "operator_env \<Rightarrow> jsval \<Rightarrow> string \<times> string \<Rightarrow> jsval op" where
  "askOrKeep E config q =
     (case q of (question, key) \<Rightarrow>
        let current = field config key in
        bindE (readAnswer E (js question @ (if truthy current then js '' ['' @ js_string current @ js '']'' else []) @ js '': '')) (\<lambda>t.
        returnE (set_option key (trim t) config)))"

definition CONFIG_QUESTIONS :: "(string \<times> string) list" where
  "CONFIG_QUESTIONS = [(''Worker name'', ''worker_name''), (''Mail domain'', ''mail_domain''), (''Administrator email'', ''admin_email''),
     (''APP_ORIGIN (https://...)'', ''app_origin''), (''Cloudflare Account ID (32 hex)'', ''cloudflare_account_id''),
     (''Cloudflare Zone ID (32 hex)'', ''cloudflare_zone_id'')]"

definition start_config :: "jsval \<Rightarrow> jsval" where
  "start_config operator =
     JObj (fold (\<lambda>(k, v). put_key k v) (spread (canonicalOperatorConfig operator))
       [(js ''mode'', JStr (js ''production'')), (js ''outbound_provider'', JStr (js ''none''))])"

definition provider_question :: "jsval \<Rightarrow> jstr" where
  "provider_question config = js ''Outbound provider ('' @ join_text (js '' / '') (map js OUTBOUND_PROVIDERS) @ js '') [''
     @ js_string (or_text (field config ''outbound_provider'') ''none'') @ js '']: ''"

definition choose_provider :: "operator_env \<Rightarrow> jsval \<Rightarrow> jsval op" where
  "choose_provider E config =
     bindE (readAnswer E (provider_question config)) (\<lambda>t.
     (let provider = to_lower (uni (platform_of (host_of E))) (trim t) in
      returnE (if provider \<in> js ` set OUTBOUND_PROVIDERS then set_option ''outbound_provider'' provider config else config)))"

text \<open>The configuration that the answers give, once it is valid.\<close>

definition interview :: "operator_env \<Rightarrow> jsval \<Rightarrow> jsval op" where
  "interview E operator =
     bindE (readAnswer E (js ''Deployment mode [production]: '')) (\<lambda>t.
     (let config = set_option ''mode'' (trim t) (start_config operator) in
      if \<not> one_of MODES (field config ''mode'') then config_exit (js ''mode must be production or dev.'')
      else
        bindE (foldE (askOrKeep E) config CONFIG_QUESTIONS) (\<lambda>config.
        bindE (choose_provider E config) (\<lambda>config.
        if validateOperatorConfig config \<noteq> [] then config_exit (join_text (js ''; '') (map js (validateOperatorConfig config)))
        else returnE config))))"

section \<open>The command\<close>

definition WANTED_FIELDS :: "string list" where
  "WANTED_FIELDS = [''worker_name'', ''mail_domain'', ''admin_email'', ''app_origin'', ''cloudflare_zone_id'', ''cloudflare_account_id'']"

definition missing_secrets :: "jsval \<Rightarrow> credentials \<Rightarrow> string list" where
  "missing_secrets provider c =
     (if js ''AUTH_PEPPER'' \<notin> fst ` set c then [''AUTH_PEPPER''] else [])
     @ (if provider = JStr (js ''resend'') \<and> credential_of c ''RESEND_API_KEY'' = [] then [''RESEND_API_KEY''] else [])
     @ (if provider = JStr (js ''brevo'') \<and> credential_of c ''BREVO_API_KEY'' = [] then [''BREVO_API_KEY''] else [])"

definition check_configuration :: "jsval \<Rightarrow> credentials \<Rightarrow> unit op" where
  "check_configuration operator c =
     (let config = canonicalOperatorConfig operator;
          mode = or_text (field config ''mode'') ''production'';
          missing = filter (\<lambda>key. \<not> truthy (field config key)) WANTED_FIELDS;
          secrets = missing_secrets (or_text (field config ''outbound_provider'') ''none'') c in
      if mode = JStr (js ''production'') \<and> missing \<noteq> [] then
        config_exit (js ''missing required non-secret fields (from MAILBOX_CONFIG_FILE/env): '' @ comma_text missing)
      else if secrets \<noteq> [] then
        config_exit (js ''missing required credentials (from MAILBOX_CREDENTIALS_FILE/env): '' @ comma_text secrets)
      else
        printE (js ''configure: non-interactive mode; using '' @ nat_text (length (filter (\<lambda>(k, v). v \<noteq> []) c))
          @ js '' credential entries and '' @ js_string mode @ js '' config.''))"

definition capability :: "credentials \<Rightarrow> string \<Rightarrow> jstr" where
  "capability c name = (if credential_of c name \<noteq> [] then js ''ready'' else js ''not configured'')"

definition configured_lines :: "jstr \<Rightarrow> credentials \<Rightarrow> jstr list" where
  "configured_lines provider c =
     (let sending = choice [(''none'', js ''n/a (receive-only)''), (''resend'', capability c ''RESEND_API_KEY''),
            (''brevo'', capability c ''BREVO_API_KEY''), (''cloudflare'', js ''ready (EMAIL binding)'')] provider;
          events = choice [(''none'', js ''n/a (receive-only)''), (''resend'', capability c ''RESEND_WEBHOOK_SECRET''),
            (''brevo'', capability c ''BREVO_WEBHOOK_TOKEN''), (''cloudflare'', js ''ready (queue events)'')] provider;
          management = choice [(''none'', js ''n/a''), (''resend'', capability c ''RESEND_SETUP_API_KEY''),
            (''brevo'', if capability c ''BREVO_SETUP_API_KEY'' = js ''ready'' \<or> capability c ''BREVO_API_KEY'' = js ''ready''
               then js ''ready'' else js ''not configured''),
            (''cloudflare'', capability c ''CLOUDFLARE_API_TOKEN'')] provider in
      [js ''Operator configuration: stored'', js ''Credentials: stored (0600)'',
       js ''Cloudflare operator auth: '' @ capability c ''CLOUDFLARE_API_TOKEN'', js ''Outbound provider: '' @ provider_label provider,
       js ''Sending capability: '' @ sending, js ''Delivery events: '' @ events, js ''Management/reconcile: '' @ management,
       js ''configure: credentials are entered once on your machine and never sent to the MailGable maintainers.''])"

text \<open>The store is read from where the environment says and written to its usual place.\<close>

definition store_answers :: "operator_env \<Rightarrow> jsval \<Rightarrow> credentials \<Rightarrow> unit op" where
  "store_answers E config c =
     bindE (writeCredentialsFile E DEFAULT_CREDENTIALS_FILE c) (\<lambda>_.
     bindE (writeOperatorConfig E (canonicalOperatorConfig config)) (\<lambda>_.
     print_lines (configured_lines (configured_provider (canonicalOperatorConfig config)) c)))"

definition configure_main :: "operator_env \<Rightarrow> jstr list \<Rightarrow> unit op" where
  "configure_main E argv =
     bindE (loadOperatorConfig E) (\<lambda>operator.
     bindE (loadCredentials E) (\<lambda>c.
     if js ''--non-interactive'' \<in> set argv then check_configuration operator c
     else
       bindE (interview E operator) (\<lambda>config.
       bindE (collectInteractiveSecrets E config c (js ''--replace'' \<in> set argv) (js ''--all-providers'' \<in> set argv)) (\<lambda>c.
       store_answers E config c))))"

section \<open>The line reader loses nothing\<close>

lemma cut_line_None: "cut_line s = None \<longleftrightarrow> 10 \<notin> set s"
  by (induction s) (auto split: if_splits)

lemma cut_line_Some: "cut_line s = Some (l, r) \<Longrightarrow> s = l @ 10 # r \<and> 10 \<notin> set l"
  by (induction s arbitrary: l) (auto split: if_splits)

definition ended_lines :: "jstr list \<Rightarrow> jstr" where
  "ended_lines ls = concat (map (\<lambda>l. l @ [10]) ls)"

lemma split_ended: "\<forall>l \<in> set ls. 10 \<notin> set l \<Longrightarrow> split_at 10 (ended_lines ls @ s) = ls @ split_at 10 s"
  by (induction ls) (auto simp: ended_lines_def split_at_line)

lemma split_single: "d \<notin> set s \<Longrightarrow> split_at d s = [s]"
  by (induction s) auto

text \<open>The answers are lines of the input, read up to the buffer; after the end every answer is empty.\<close>

definition reads_lines :: "jstr \<Rightarrow> line_reader \<Rightarrow> bool" where
  "reads_lines t r \<longleftrightarrow>
     (\<exists>ls. (\<forall>l \<in> set ls. 10 \<notin> set l)
       \<and> ((t = ended_lines ls @ lr_buffer r \<and> lr_answers r = map strip_return ls)
          \<or> (\<exists>l n. 10 \<notin> set l \<and> t = ended_lines ls @ l \<and> lr_ended r \<and> lr_buffer r = []
               \<and> lr_answers r = map strip_return (ls @ [l]) @ replicate n [])))"

definition waits :: "line_reader \<Rightarrow> bool" where
  "waits r \<longleftrightarrow> lr_pending r = 0 \<or> (lr_pending r = 1 \<and> \<not> lr_ended r \<and> 10 \<notin> set (lr_buffer r))"

lemma flush_one:
  assumes "reads_lines t r" "lr_pending r \<le> 1"
  shows "reads_lines t (flushAnswers r) \<and> waits (flushAnswers r)"
proof (cases "lr_pending r")
  case 0
  then have "flushAnswers r = r" by (simp add: flushAnswers_def)
  then show ?thesis using assms 0 by (simp add: waits_def)
next
  case (Suc n)
  then have one: "lr_pending r = Suc 0" using assms(2) by simp
  from assms(1) obtain ls where ls: "\<forall>l \<in> set ls. 10 \<notin> set l"
    and d: "(t = ended_lines ls @ lr_buffer r \<and> lr_answers r = map strip_return ls)
      \<or> (\<exists>l n. 10 \<notin> set l \<and> t = ended_lines ls @ l \<and> lr_ended r \<and> lr_buffer r = []
          \<and> lr_answers r = map strip_return (ls @ [l]) @ replicate n [])"
    unfolding reads_lines_def by blast
  from d show ?thesis
  proof (elim disjE exE conjE)
    assume t: "t = ended_lines ls @ lr_buffer r" "lr_answers r = map strip_return ls"
    show ?thesis
    proof (cases "cut_line (lr_buffer r)")
      case None
      then have nl: "10 \<notin> set (lr_buffer r)" by (simp add: cut_line_None)
      show ?thesis
      proof (cases "lr_ended r")
        case True
        then have "flushAnswers r = r\<lparr>lr_buffer := [], lr_pending := 0, lr_answers := lr_answers r @ [strip_return (lr_buffer r)]\<rparr>"
          using None one by (simp add: flushAnswers_def)
        moreover have "reads_lines t (r\<lparr>lr_buffer := [], lr_pending := 0, lr_answers := lr_answers r @ [strip_return (lr_buffer r)]\<rparr>)"
          unfolding reads_lines_def using t ls nl True
          by (intro exI [of _ ls] conjI disjI2 exI [of _ "lr_buffer r"] exI [of _ 0]) simp_all
        ultimately show ?thesis by (simp add: waits_def)
      next
        case False
        then have "flushAnswers r = r" using None one by (simp add: flushAnswers_def)
        then show ?thesis using assms(1) False nl one by (simp add: waits_def)
      qed
    next
      case (Some p)
      obtain l rest where p: "p = (l, rest)" by fastforce
      have cut: "lr_buffer r = l @ 10 # rest" "10 \<notin> set l" using cut_line_Some [of "lr_buffer r" l rest] Some p by simp_all
      have "flushAnswers r = r\<lparr>lr_buffer := rest, lr_pending := 0, lr_answers := lr_answers r @ [strip_return l]\<rparr>"
        using Some p one by (simp add: flushAnswers_def)
      moreover have "reads_lines t (r\<lparr>lr_buffer := rest, lr_pending := 0, lr_answers := lr_answers r @ [strip_return l]\<rparr>)"
        unfolding reads_lines_def using t ls cut
        by (intro exI [of _ "ls @ [l]"] conjI disjI1) (auto simp: ended_lines_def)
      ultimately show ?thesis by (simp add: waits_def)
    qed
  next
    fix l n assume l: "10 \<notin> set l" "t = ended_lines ls @ l" "lr_ended r" "lr_buffer r = []"
      "lr_answers r = map strip_return (ls @ [l]) @ replicate n []"
    have "flushAnswers r = r\<lparr>lr_buffer := [], lr_pending := 0, lr_answers := lr_answers r @ [[]]\<rparr>"
      using l one by (simp add: flushAnswers_def strip_return_def)
    moreover have "reads_lines t (r\<lparr>lr_buffer := [], lr_pending := 0, lr_answers := lr_answers r @ [[]]\<rparr>)"
      unfolding reads_lines_def using l ls
      by (intro exI [of _ ls] conjI disjI2 exI [of _ l] exI [of _ "Suc n"]) (simp_all add: replicate_append_same [symmetric])
    ultimately show ?thesis by (simp add: waits_def)
  qed
qed

lemma reader_invariant:
  "orderly es r \<Longrightarrow> reads_lines t r \<Longrightarrow> waits r \<Longrightarrow>
   reads_lines (t @ arrived es) (fold reader_step es r) \<and> waits (fold reader_step es r)"
proof (induction es arbitrary: r t)
  case (Cons e es)
  have step: "reads_lines (t @ arrived [e]) (reader_step e r) \<and> waits (reader_step e r)"
  proof (cases e)
    case Asked
    then have "reads_lines t (r\<lparr>lr_pending := Suc (lr_pending r)\<rparr>)" "lr_pending r = 0"
      using Cons.prems by (auto simp: reads_lines_def)
    then show ?thesis using flush_one [of t "r\<lparr>lr_pending := Suc (lr_pending r)\<rparr>"] Asked by (simp add: arrived_def)
  next
    case (Chunk u)
    then have "reads_lines (t @ u) (r\<lparr>lr_buffer := lr_buffer r @ u\<rparr>)" "lr_pending r \<le> 1"
      using Cons.prems by (auto simp: reads_lines_def waits_def)
    then show ?thesis using flush_one [of "t @ u" "r\<lparr>lr_buffer := lr_buffer r @ u\<rparr>"] Chunk by (simp add: arrived_def)
  next
    case Input_End
    then have "reads_lines t (r\<lparr>lr_ended := True\<rparr>)" "lr_pending r \<le> 1"
      using Cons.prems by (auto simp: reads_lines_def waits_def)
    then show ?thesis using flush_one [of t "r\<lparr>lr_ended := True\<rparr>"] Input_End by (simp add: arrived_def)
  qed
  have "t @ arrived (e # es) = (t @ arrived [e]) @ arrived es" by (simp add: arrived_def)
  then show ?case using Cons.IH [of "reader_step e r" "t @ arrived [e]"] step Cons.prems by simp
qed (simp add: arrived_def)

text \<open>
  However the input of a pipe is cut into chunks and whenever they arrive, the answers to the wizard's questions are the lines of
  the input in their order, without their line ends, and empty texts after the last one; a question waits only while no complete
  line and no end of the input has arrived.
\<close>

theorem answers_are_lines:
  assumes "orderly es new_reader"
  shows "let r = fold reader_step es new_reader; lines = map strip_return (split_at 10 (arrived es)) in
    lr_answers r = take (length (lr_answers r)) (lines @ replicate (length (lr_answers r)) []) \<and> waits r"
proof -
  let ?r = "fold reader_step es new_reader"
  have pad: "take n ([] # replicate (m + n) []) = replicate n ([] :: jstr)" for n m :: nat
  proof -
    have "[] # replicate (m + n) [] = replicate (Suc (m + n)) ([] :: jstr)" by simp
    then show ?thesis by (simp only: take_replicate) simp
  qed
  have start: "reads_lines [] new_reader" "waits new_reader"
    by (simp_all add: reads_lines_def waits_def new_reader_def ended_lines_def)
  have i: "reads_lines (arrived es) ?r" "waits ?r" using reader_invariant [OF assms start] by simp_all
  from i(1) obtain ls where ls: "\<forall>l \<in> set ls. 10 \<notin> set l"
    and d: "(arrived es = ended_lines ls @ lr_buffer ?r \<and> lr_answers ?r = map strip_return ls)
      \<or> (\<exists>l n. 10 \<notin> set l \<and> arrived es = ended_lines ls @ l \<and> lr_answers ?r = map strip_return (ls @ [l]) @ replicate n [])"
    unfolding reads_lines_def by blast
  then have "lr_answers ?r = take (length (lr_answers ?r))
      (map strip_return (split_at 10 (arrived es)) @ replicate (length (lr_answers ?r)) [])"
    by (elim disjE exE conjE) (simp_all add: split_ended split_single pad)
  then show ?thesis using i(2) by (simp add: Let_def)
qed

section \<open>A stored credential is kept\<close>

lemma collect_step:
  assumes "collect_secret prompt replace c name w = (Inr c', w')"
  obtains "c' = c" | v where "v \<noteq> []" "c' = put_key (js name) v c" "replace \<or> credential_of c name = []"
  using assms
  by (auto simp: collect_secret_def credentialAction_def returnE_def printE_def split: if_splits elim!: bindE_InrE)

lemma collect_fold:
  "foldE (collect_secret prompt replace) c names w = (Inr c', w') \<Longrightarrow> map_of c k = Some v \<Longrightarrow> v \<noteq> [] \<Longrightarrow>
   \<exists>v'. map_of c' k = Some v' \<and> v' \<noteq> [] \<and> (v' = v \<or> (replace \<and> k \<in> js ` set names))"
proof (induction names arbitrary: c v w)
  case (Cons name names)
  then obtain c1 w1 where step: "collect_secret prompt replace c name w = (Inr c1, w1)"
    and rest: "foldE (collect_secret prompt replace) c1 names w1 = (Inr c', w')"
    by (auto elim: bindE_InrE)
  from step have "\<exists>v1. map_of c1 k = Some v1 \<and> v1 \<noteq> [] \<and> (v1 = v \<or> (replace \<and> k = js name))"
    by (rule collect_step) (use Cons.prems(2,3) in \<open>auto simp: map_of_put_key credential_of_def\<close>)
  then obtain v1 where "map_of c1 k = Some v1" "v1 \<noteq> []" "v1 = v \<or> (replace \<and> k = js name)" by blast
  then show ?case using Cons.IH [OF rest, of v1] by auto
qed (simp add: returnE_def)

text \<open>
  The wizard never loses a credential: a stored value is still there after the collection, and only \<open>--replace\<close> can change it,
  for a credential that is asked for, and never to an empty text.
\<close>

theorem collect_keeps_stored:
  assumes "collectSecrets config c prompt replace allProviders w = (Inr c', w')" "map_of c k = Some v" "v \<noteq> []"
  shows "\<exists>v'. map_of c' k = Some v' \<and> v' \<noteq> [] \<and> (v' = v \<or> (replace \<and> k \<in> js ` set (secretCollectionOrder config allProviders)))"
  using assms unfolding collectSecrets_def by (rule collect_fold)

section \<open>Configure, then set up\<close>

definition without_d1 :: "jsval \<Rightarrow> bool" where
  "without_d1 v \<longleftrightarrow> (\<exists>kvs. v = JObj kvs \<and> map_of kvs (js ''d1_name'') = None)"

lemma fold_put_None:
  "map_of (fold (\<lambda>(k, v). put_key k v) updates kvs) k = None \<longleftrightarrow> k \<notin> fst ` set updates \<and> map_of kvs k = None"
  by (induction updates arbitrary: kvs) (auto simp: map_of_put_key split: if_splits)

lemma without_canonical:
  assumes "field operator ''d1_name'' = JUndef"
  shows "without_d1 (canonicalOperatorConfig operator)"
  using assms
  by (auto simp: without_d1_def canonicalOperatorConfig_def obj_def Let_def OPERATOR_CONFIG_KEYS_def map_of_eq_None_iff split: if_splits)

lemma without_start:
  assumes "field operator ''d1_name'' = JUndef"
  shows "without_d1 (start_config operator)"
proof -
  obtain kvs where kvs: "canonicalOperatorConfig operator = JObj kvs" "map_of kvs (js ''d1_name'') = None"
    using without_canonical [OF assms] by (auto simp: without_d1_def)
  then have "js ''d1_name'' \<notin> fst ` set kvs" by (simp add: map_of_eq_None_iff)
  then have "map_of (fold (\<lambda>(k, v). put_key k v) kvs
      [(js ''mode'', JStr (js ''production'')), (js ''outbound_provider'', JStr (js ''none''))]) (js ''d1_name'') = None"
    unfolding fold_put_None by simp
  then show ?thesis using kvs(1) by (simp add: without_d1_def start_config_def spread_def)
qed

lemma without_option: "without_d1 config \<Longrightarrow> key \<noteq> ''d1_name'' \<Longrightarrow> without_d1 (set_option key t config)"
  by (auto simp: without_d1_def set_option_def spread_def map_of_put_key)

lemma without_field: "without_d1 config \<Longrightarrow> field config ''d1_name'' = JUndef"
  by (auto simp: without_d1_def field_def)

lemma without_questions:
  "foldE (askOrKeep E) config qs w = (Inr config', w') \<Longrightarrow> without_d1 config \<Longrightarrow> \<forall>q \<in> set qs. snd q \<noteq> ''d1_name'' \<Longrightarrow> without_d1 config'"
proof (induction qs arbitrary: config w)
  case (Cons q qs)
  then obtain config1 w1 where step: "askOrKeep E config q w = (Inr config1, w1)"
    and rest: "foldE (askOrKeep E) config1 qs w1 = (Inr config', w')"
    by (auto elim: bindE_InrE)
  from step have "\<exists>t. config1 = set_option (snd q) t config"
    by (auto simp: askOrKeep_def Let_def returnE_def split: prod.splits elim!: bindE_InrE)
  then show ?case using Cons.IH [OF rest] Cons.prems without_option [of config "snd q"] by auto
qed (simp add: returnE_def)

lemma without_interview:
  assumes "interview E operator w = (Inr config, w')" "field operator ''d1_name'' = JUndef"
  shows "without_d1 config"
proof -
  from assms(1) obtain t config1 w1 w2 config2 w3 w4 where
    q: "foldE (askOrKeep E) (set_option ''mode'' (trim t) (start_config operator)) CONFIG_QUESTIONS w1 = (Inr config1, w2)"
    and p: "choose_provider E config1 w3 = (Inr config2, w4)" and c: "config = config2"
    by (auto simp: interview_def Let_def config_exit_def exit_with_def throwE_def returnE_def split: if_splits elim!: bindE_InrE)
  have "without_d1 config1"
    by (rule without_questions [OF q]) (simp_all add: without_option without_start [OF assms(2)] CONFIG_QUESTIONS_def)
  moreover from p have "config2 = config1 \<or> (\<exists>t. config2 = set_option ''outbound_provider'' t config1)"
    by (auto simp: choose_provider_def Let_def returnE_def split: if_splits elim!: bindE_InrE)
  ultimately show ?thesis using c without_option by auto
qed

lemma flag_text: "\<exists>t. flag_argument args flag = JUndef \<or> flag_argument args flag = JStr t"
  by (induction args) (auto split: list.split)

lemma chosen_text:
  assumes "\<exists>t. v = JUndef \<or> v = JStr t"
  shows "\<exists>t. or_text (js_or v (env_value H name)) fallback = JStr t"
  using assms by (auto simp: or_text_def env_value_def split: option.split)

lemma planned_name:
  assumes "buildSetupPlan H template a databaseId secrets = Inr plan"
  shows "\<exists>t. pl_d1 plan = js_or (sa_d1 a) (JStr t)"
proof -
  let ?name = "\<lambda>v. js_or (sa_d1 a) (if is_production (sa_mode a) then JStr (js_string (sa_worker a) @ js ''-db'') else JStr v)"
  have "pl_d1 plan = ?name (js_string (or_text (field (first_item (field template ''d1_databases'')) ''database_name'') ''mailgable-db''))"
    using assms
    by (cases "truthy (sa_app_origin a)"; cases "url_of H (js_string (sa_app_origin a))")
      (auto simp: buildSetupPlan_def Let_def simp del: js_or.simps)
  then show ?thesis by (cases "is_production (sa_mode a)") (simp_all del: js_or.simps, blast+)
qed

lemma planned_d1:
  assumes "buildSetupPlan H template (with_operator operator (parseSetupArgs H' argv)) databaseId secrets = Inr plan"
  shows "\<exists>name. pl_d1 plan = JStr name"
proof -
  let ?a = "parseSetupArgs H' argv"
  have same: "sa_d1 (with_operator operator a) = sa_d1 a" for a by (simp add: with_operator_def Let_def)
  have "sa_d1 ?a = or_text (js_or (flag_argument argv (js ''--d1-name'')) (env_value H' ''MAILGABLE_D1_NAME'')) ''''"
    by (simp add: parseSetupArgs_def Let_def del: js_or.simps)
  then obtain t where "sa_d1 ?a = JStr t"
    using chosen_text [OF flag_text, of argv "js ''--d1-name''" H' "''MAILGABLE_D1_NAME''" "''''"] by auto
  then show ?thesis using planned_name [OF assms] by (auto simp: same)
qed

text \<open>
  C34. A machine that was configured and set up as documented never has a valid operator state. The wizard does not ask for the name of
  the database, so when the configuration had none before, the one it writes has none; the setup state names the database
  the setup planned; and the validation asks for the same name in both. Every command that starts with the validation refuses
  from then on.
\<close>

theorem configured_setup_never_validates:
  assumes "field operator ''d1_name'' = JUndef" "interview E operator w = (Inr config, w')"
    and "buildSetupPlan H template (with_operator (canonicalOperatorConfig config) (parseSetupArgs H argv)) databaseId secrets = Inr plan"
  shows "\<exists>e. validateOperatorState P (canonicalOperatorConfig config)
    (setup_state P sha (plan\<lparr>pl_provider := provider, pl_database := i\<rparr>) generated) generated currentSha = Inl e"
proof -
  obtain name where "pl_d1 plan = JStr name" using planned_d1 [OF assms(3)] by blast
  then have "field (setup_state P sha (plan\<lparr>pl_provider := provider, pl_database := i\<rparr>) generated) ''d1_name'' = JStr name"
    by (simp add: setup_state_def obj_def field_def)
  moreover have "field (canonicalOperatorConfig config) ''d1_name'' = JUndef"
    by (intro without_field without_canonical) (rule without_interview [OF assms(2,1)])
  ultimately show ?thesis by (intro missing_d1_name)
qed

text \<open>A wizard whose questions are answered with the return key keeps the configuration it finds.\<close>

lemma keep_questions:
  assumes "calm E" "typed E = (\<lambda>k. [])"
  shows "\<exists>w'. readAnswer E question w = (Inr [], w')"
  using assms by (simp add: calm_def readAnswer_def hiddenInput_def bindE_def printE_def tick_def Let_def)

lemma trim_empty: "trim [] = []"
  by code_simp

lemma keep_all:
  assumes "calm E" "typed E = (\<lambda>k. [])"
  shows "\<exists>w'. foldE (askOrKeep E) config qs w = (Inr config, w')"
proof (induction qs arbitrary: w)
  case (Cons q qs)
  obtain question key where q: "q = (question, key)" by fastforce
  have "\<exists>w'. askOrKeep E config q w = (Inr config, w')"
  proof -
    let ?q = "js question @ (if truthy (field config key) then js '' ['' @ js_string (field config key) @ js '']'' else []) @ js '': ''"
    obtain w' where "readAnswer E ?q w = (Inr [], w')" using keep_questions [OF assms] by blast
    then show ?thesis by (simp add: q askOrKeep_def Let_def set_option_def bindE_Inr trim_empty returnE_def)
  qed
  then obtain w1 where "askOrKeep E config q w = (Inr config, w1)" by blast
  then show ?case using Cons [of w1] by (simp add: bindE_Inr)
qed (simp add: returnE_def)

lemma keep_interview:
  assumes "calm E" "typed E = (\<lambda>k. [])" "one_of MODES (field (start_config operator) ''mode'')"
    "validateOperatorConfig (start_config operator) = []" "to_lower (uni (platform_of (host_of E))) [] = []"
  shows "\<exists>w'. interview E operator w = (Inr (start_config operator), w')"
proof -
  obtain w1 where 1: "readAnswer E (js ''Deployment mode [production]: '') w = (Inr [], w1)" using keep_questions [OF assms(1,2)] by blast
  obtain w2 where 2: "foldE (askOrKeep E) (start_config operator) CONFIG_QUESTIONS w1 = (Inr (start_config operator), w2)"
    using keep_all [OF assms(1,2)] by blast
  have "[] \<notin> js ` set OUTBOUND_PROVIDERS" by (simp add: OUTBOUND_PROVIDERS_def js_def)
  then have "\<exists>w3. choose_provider E (start_config operator) w2 = (Inr (start_config operator), w3)"
    using keep_questions [OF assms(1,2), of "provider_question (start_config operator)" w2] assms(5)
    by (auto simp: choose_provider_def bindE_def returnE_def Let_def trim_empty image_iff)
  then obtain w3 where 3: "choose_provider E (start_config operator) w2 = (Inr (start_config operator), w3)" by blast
  show ?thesis using 1 2 3 assms(3,4) by (simp add: interview_def Let_def set_option_def bindE_def returnE_def trim_empty)
qed

definition example_operator_document :: jsval where
  "example_operator_document = obj [(''worker_name'', JStr (js ''mb'')), (''mail_domain'', JStr (js ''mail.org'')),
     (''admin_email'', JStr (js ''admin@mail.org'')), (''app_origin'', JStr (js ''https://mail.org'')),
     (''cloudflare_account_id'', JStr (replicate 32 97)), (''cloudflare_zone_id'', JStr (replicate 32 98))]"

definition example_url_host :: host where
  "example_url_host = example_host\<lparr>url_of := (\<lambda>s. Some \<lparr> url_protocol = js ''https:'', url_hostname = js ''mail.org'', url_username = [],
     url_password = [], url_pathname = js ''/'', url_search = [], url_hash = [] \<rparr>)\<rparr>"

lemma example_answers:
  "field example_operator_document ''d1_name'' = JUndef" "one_of MODES (field (start_config example_operator_document) ''mode'')"
  "validateOperatorConfig (start_config example_operator_document) = []" "to_lower (uni (platform_of (host_of example_switcher))) [] = []"
  by code_simp+

theorem configured_setup_never_validates_witness:
  "\<exists>config w' plan. interview example_switcher example_operator_document example_interrupted = (Inr config, w')
     \<and> buildSetupPlan example_url_host (obj []) (with_operator (canonicalOperatorConfig config)
          (parseSetupArgs example_url_host [js ''--mode'', js ''production''])) (JStr []) (obj []) = Inr plan
     \<and> (\<exists>e. validateOperatorState (platform_of example_host) (canonicalOperatorConfig config)
          (setup_state (platform_of example_host) example_sha (plan\<lparr>pl_provider := JStr (js ''none''), pl_database := JStr []\<rparr>) example_generated)
          example_generated example_sha = Inl e)"
proof -
  let ?config = "start_config example_operator_document"
  have "calm example_switcher" "typed example_switcher = (\<lambda>k. [])" by (simp_all add: example_switcher_def calm_def)
  then obtain w' where i: "interview example_switcher example_operator_document example_interrupted = (Inr ?config, w')"
    using keep_interview [OF _ _ example_answers(2,3,4)] by blast
  obtain plan where p: "buildSetupPlan example_url_host (obj []) (with_operator (canonicalOperatorConfig ?config)
      (parseSetupArgs example_url_host [js ''--mode'', js ''production''])) (JStr []) (obj []) = Inr plan"
    by (cases "truthy (sa_app_origin (with_operator (canonicalOperatorConfig ?config) (parseSetupArgs example_url_host [js ''--mode'', js ''production''])))")
      (simp_all add: buildSetupPlan_def Let_def example_url_host_def)
  show ?thesis using i p configured_setup_never_validates [OF example_answers(1) i p] by blast
qed

end
