(* ===== verification/Spec2Isabelle.thy ===== *)
theory Spec2Isabelle
  imports Worker Access Receiving Rotation Configure
begin

text \<open>
  MailGable is a shared mailbox that runs as one Cloudflare Worker. This library is a shallow embedding of the whole
  Worker (\<open>src/src\<close>, TypeScript) and of the operator's commands for setup, configuration, credentials, reconciliation and
  the choice of provider (\<open>src/scripts\<close>) in HOL, with the theorems that make them correct. Definitions carry the names of the
  functions they model; each is executable, and the witnesses of the theorems evaluate them.

  \<^bold>\<open>The program.\<close> The Worker has four entry points (\<open>src/src/index.ts\<close>): \<open>fetch\<close> serves the API, the pages and the provider
  webhooks; \<open>email\<close> receives a message from Email Routing; \<open>queue\<close> takes delivery events; \<open>scheduled\<close> does the nightly
  cleanup. Its state lives outside: a D1 database (\<open>src/migrations\<close>), an R2 bucket with the raw messages and attachments,
  and the provider that sends. Incoming mail is parsed, joined to a conversation, archived, claimed under an identifier
  that is a hash of its content, and copied to backup addresses. Outgoing mail becomes a plan, a row under the client's
  idempotency key, an archived raw message, and one submission to a provider; events of the provider later move the
  row's status. A conversation row repeats facts about its messages and is refreshed after every change. Mailboxes are
  synchronised with the routing rules of the zone.

  \<^bold>\<open>The model.\<close> An operation is an action \<open>world \<Rightarrow> (exn + 'a) \<times> world\<close> (Prelude): it returns or throws, and
  what it changed before a throw stays. The world (Store) is the database, the bucket, the log of effects (submissions,
  forwards, rejections, console lines) and the number of remote calls made so far. The environment \<open>E\<close> holds what the program cannot
  choose: configuration, clock, random source, hash functions, network replies, the MIME parser, and for every remote call \<open>k\<close> what other
  requests do to the database just before it (\<open>others E k\<close>) and whether the call works, is lost, or takes effect and then
  reports an error (\<open>fault E k\<close>). Every remote call is one step of \<open>external\<close>, so a theorem without an assumption on \<open>E\<close> holds under
  every interleaving and every failure; \<open>quiet\<close> (no interference) and \<open>reliable\<close> (no failure) are assumed only where the statement
  says so, and \<open>stable E I\<close> says that other requests keep \<open>I\<close>. A JavaScript string is a list of UTF-16 code units (\<open>jstr\<close>,
  with \<open>js ''...''\<close> for literals), bytes are 8-bit words, a value of unknown type is a \<open>jsval\<close>, a thrown error is an \<open>exn\<close>. A table is
  the list of its rows; a statement that breaks a constraint of the schema (\<open>db_ok\<close>) fails and changes
  nothing, as in the database; that the constraints always hold is thus a feature of the model's statements and not a result about the code.

  \<^bold>\<open>Theories and sources\<close>, each importing the ones above it that it uses:

  \<^item> Prelude: actions, their Hoare triples (\<open>triple\<close>, \<open>keeps\<close>), loops over lists, lists without duplicates.
  \<^item> Js_Text, Js_Value, Js_Json, Js_Date, Regex: the parts of the language and its library the source uses: strings and
    UTF-8, values and conversions, \<open>JSON.parse\<close> and \<open>JSON.stringify\<close>, ISO dates, the backtracking matcher for its regular expressions.
  \<^item> Base64, Lib_Text, Sanitize, Http: \<open>lib.ts\<close>, the audit log of \<open>auth.ts\<close>.
  \<^item> Delivery, Events: \<open>providers/events.ts\<close>, \<open>providers/resend-webhook.ts\<close>, \<open>mail/delivery-events.ts\<close>, the status ranks of \<open>lib.ts\<close>.
  \<^item> Mail_Types, Mail_Helpers: \<open>mail/types.ts\<close>, \<open>mail/constants.ts\<close>, \<open>postal-mime.d.ts\<close>, \<open>mail/helpers.ts\<close>, \<open>mail/mailbox.ts\<close>.
  \<^item> Store, Database: the schema of \<open>migrations\<close>, the statements, R2 and the step of a remote call.
  \<^item> Threads, Listing: \<open>mail/threads.ts\<close>.  Archive: \<open>mail/archive.ts\<close> and \<open>mail/attachments.ts\<close>.  Retention: \<open>mail/retention.ts\<close> and \<open>log.ts\<close>.
  \<^item> Forwarding, Inbound, Receiving: \<open>inbound-forwarding.ts\<close> and \<open>mail/inbound.ts\<close>; Receiving holds the theorems about the whole handler.
  \<^item> Mime_Out, Providers, Outbound, Sending, Plans: \<open>mail/outbound.ts\<close> with \<open>providers/resend.ts\<close>, \<open>brevo.ts\<close>, \<open>cloudflare-email.ts\<close>,
    \<open>registry.ts\<close> and \<open>types.ts\<close>; Sending and Plans hold the theorems.
  \<^item> Auth, Access: \<open>auth.ts\<close>; Access holds the theorems about sessions, login and the password.
  \<^item> Routing_Sync, Routing: \<open>routing-sync.ts\<close>; Routing holds the theorems.
  \<^item> Status, Router, Worker: \<open>mail/status.ts\<close> and \<open>index.ts\<close>; Worker holds the theorems about every event the Worker serves.

  \<^item> Operator_Config, Operator_Setup, Credentials: the pure parts of the operator's tooling, \<open>scripts/config/operator-config.mjs\<close>,
    \<open>config/operator-state.mjs\<close>, \<open>setup-core.mjs\<close> and \<open>config/credentials.mjs\<close>.
  \<^item> Operator_World: the operator's machine (\<open>machine\<close>: files, commands run, requests, console), the file access of these
    modules, \<open>operator-runner.mjs\<close> and \<open>git-state.mjs\<close>. A process may be killed before any step or in the middle of a write or a command
    (\<open>killed\<close>, \<open>torn\<close>, \<open>landed\<close>), and any file operation may fail (\<open>io_fails\<close>).
  \<^item> Credential_Ops, Rotation: \<open>credentials.mjs\<close>; Rotation holds the theorem about interrupted rotations.
  \<^item> Reconcile: \<open>reconcile.mjs\<close>.  Provider_Switch, Switching: \<open>provider.mjs\<close>; Switching holds the theorems.
  \<^item> Setup_Command, Deploying: \<open>setup.mjs\<close>; Deploying holds the theorems.  Configure: \<open>configure.mjs\<close>, its line reader and its theorems.

  \<^bold>\<open>Interfaces.\<close> \<open>text_codec\<close> (decoding returns what was encoded, in a known alphabet) is interpreted by both Base64 codecs,
  \<open>object_store\<close> (reading after writing and deleting) by the bucket, \<open>rank_merge\<close> (merging by rank forgets order and repetition) by the
  delivery ranks, \<open>keyset\<close> (following cursors visits every row once) by the conversation listing, and \<open>outbound_provider\<close> (one submission, to
  the provider's own endpoint, only when configured) by the three providers.

  \<^bold>\<open>What the theorems show.\<close>

  \<^item> Sending: at most one submission per request, to the configured provider, and never before the raw message is archived;
    a key that was answered is never sent again; a retry goes to the pinned provider within its window; every plan is well formed and
    the raw message archived for a new send starts with the fixed list of one-line headers; what a \<open>201\<close> says is what the row says.
  \<^item> Receiving: an accepted message is archived, row and object, with a final archive state; a redelivery changes nothing but the
    attempts to forward it and the object under the name it drew, and a backup address that accepted a copy does not get it again.
  \<^item> Access: every API route but four acts for an accepted session only; a login needs the password and respects both rate limits; a password
    change revokes every session of its owner. Unauthenticated webhooks change nothing.
  \<^item> Conversations: a refresh leaves a row that says what the messages say (\<open>row_says\<close>: counts, flags and the latest message); a client
    that follows the cursors of the listing gets every match once, newest first; marking flags every incoming message of its conversation and no other message.
  \<^item> Delivery: events commute and repeat harmlessly; the compare-and-swap loop refines that calculus and merges
    the status into the summary stored at the moment of its write (\<open>before_call\<close>: the database just before that call), so it loses no concurrent update.
  \<^item> Deletion and retention: exactly the rows and objects of the conversation are gone when it returns (\<open>conversation_removed\<close>), it returns when nothing fails, without effect on the rows when the archive could not be emptied, and never before its time.
  \<^item> Synchronisation: a synchronisation that answers has left the plan, which is the rules; one runs at a time.
  \<^item> Operator: the credential store reads back what was written; after any history of interrupted rotations, a recovery that returns
    leaves the Worker with the stored credential and no journal; a provider switch rehearses before its one deployment and
    changes the operator's documents only after it, and a switch or a recovery that returns leaves
    documents on the disk that pass the validation together, up to the exception that the theorem names;
    a setup stops at the first command that fails and deploys last, after the migrations and the secrets have worked, and a dry run runs
    nothing; the line reader of
    the wizard loses no line, and the wizard loses no credential.
  \<^item> The whole Worker: every request is answered, with all security headers, and without the text of an unforeseen failure.
  \<^item> Text: truncation to a byte budget, the codecs and cursors round-trip, escaping is inert.

  Four theorems state what the code does against its intent: \<open>Events.delivery_event_never_recorded\<close>,
  \<open>Sanitize.sanitizeHtml_keeps_script\<close>, \<open>Routing.sync_never_passes\<close> and \<open>Configure.configured_setup_never_validates\<close>.

  \<^bold>\<open>Bounds.\<close> Every loop is a total function. The status update retries at most eight times, as in the source
  (\<open>Events.status_retries_bounded\<close>). The routing pages are read with a bound of 101 rounds; each accepted round advances
  the page number, which the code limits to 100, so the bound is never reached (\<open>Routing.page_loop_ends\<close>). The search of
  \<open>truncateUtf8\<close> halves its interval; the JSON parser, the matcher and \<open>strip_comments\<close> recurse on shorter text, which their termination proofs use.

  \<^bold>\<open>Parameters.\<close> SHA-256, HMAC and PBKDF2, Unicode case mapping and normalisation outside ASCII, binary rounding of non-integer JSON
  numbers, \<open>localeCompare\<close>, PostalMime, the provider APIs, the Cloudflare API, the static assets and the URL parser are fields of the environment or
  arguments; no theorem assumes more of them than its hypotheses name.

  \<^bold>\<open>Not modelled.\<close> Calls that the source starts together (\<open>Promise.all\<close>) run one after the other. The request headers of the read of the routing
  rules, the time limit of a provider call (a time-out is one of the outcomes of the call) and the writing of console lines are outside the model. Lookup
  indexes, unused columns (with the unique but never written \<open>svix_id\<close>) and backfills of the migrations are not modelled. Object literals that the source uses as tables
  (\<open>DELIVERY_RANK\<close>, \<open>BREVO_STATUS\<close>) have their own keys only, not the names that JavaScript objects inherit (\<open>constructor\<close>). A stored
  recipient summary is read with its text values; the code never stores another. \<open>Headers.set\<close> does not throw on text outside Latin-1 in
  \<open>forwardAuditHeaders\<close>. The barrel modules (\<open>mail.ts\<close>, \<open>mail/index.ts\<close>) and the ambient
  declarations (\<open>cloudflare.d.ts\<close>, \<open>env-extensions.d.ts\<close>) hold no code. The browser client (\<open>public/js\<close>) works on the DOM. Of the operator's
  scripts, those that only check the repository or fill it with demonstration data are left out, as are the editing of a line typed at a hidden prompt and
  the texts of \<open>--help\<close>.
\<close>

end
